(* ===== verification/Prelude.thy ===== *)
theory Prelude
  imports Main "HOL-Library.AList"
begin

text \<open>
  Shared vocabulary of the development: the error values the JavaScript code throws, the
  action type that threads a state through code that may throw, and generic lemmas on
  association lists and on actions. Nothing in this theory models a line of the repository
  on its own; the component theories are written in terms of it.
\<close>

named_theorems act_simps \<open>unfolding of the action combinators\<close>
named_theorems act_ok \<open>inversion of a run that returned a value\<close>

text \<open>
  What JavaScript code throws. \<open>TypeErr\<close>, \<open>RangeErr\<close> and \<open>SyntaxErr\<close> are the errors
  of the language itself, \<open>SqlErr\<close> is an error of the database driver, \<open>Err\<close> is
  \<open>new Error(message)\<close>, and \<open>ValidationErr\<close>, \<open>NotFoundErr\<close>, \<open>InvalidParamsErr\<close>,
  \<open>TimeoutErr\<close> and \<open>UnavailableErr\<close> are the framework's own exception classes.
\<close>

datatype jserr =
    TypeErr string
  | RangeErr string
  | SyntaxErr string
  | SqlErr string
  | Err string
  | ValidationErr string
  | NotFoundErr string
  | InvalidParamsErr string
  | TimeoutErr string
  | UnavailableErr string

primrec err_message :: "jserr \<Rightarrow> string" where
  "err_message (TypeErr s) = s"
| "err_message (RangeErr s) = s"
| "err_message (SyntaxErr s) = s"
| "err_message (SqlErr s) = s"
| "err_message (Err s) = s"
| "err_message (ValidationErr s) = s"
| "err_message (NotFoundErr s) = s"
| "err_message (InvalidParamsErr s) = s"
| "err_message (TimeoutErr s) = s"
| "err_message (UnavailableErr s) = s"

text \<open>
  An action reads and writes a state of type \<open>'w\<close> and either throws or returns a value.
  The state that a throwing action leaves behind is kept: effects performed before the
  exception stay performed, as in the program.
\<close>

type_synonym ('w, 'a) action = "'w \<Rightarrow> (jserr + 'a) \<times> 'w"

definition ret :: "'a \<Rightarrow> ('w, 'a) action" where
  "ret x = (\<lambda>w. (Inr x, w))"

definition throw :: "jserr \<Rightarrow> ('w, 'a) action" where
  "throw e = (\<lambda>w. (Inl e, w))"

definition bnd :: "('w, 'a) action \<Rightarrow> ('a \<Rightarrow> ('w, 'b) action) \<Rightarrow> ('w, 'b) action" where
  "bnd m f = (\<lambda>w. case m w of (Inl e, w') \<Rightarrow> (Inl e, w') | (Inr x, w') \<Rightarrow> f x w')"

text \<open>Run one action, then another, keeping the second result only.\<close>

definition thn :: "('w, 'a) action \<Rightarrow> ('w, 'b) action \<Rightarrow> ('w, 'b) action" where
  "thn m k = bnd m (\<lambda>_. k)"

text \<open>\<open>liftE\<close> turns a pure computation that may throw into an action.\<close>

definition liftE :: "jserr + 'a \<Rightarrow> ('w, 'a) action" where
  "liftE r = (\<lambda>w. (r, w))"

text \<open>
  \<open>mapA f xs\<close> applies \<open>f\<close> to every element in order, as the awaited
  \<open>BluebirdPromise.map\<close> calls of the code do, and stops at the first element that throws.
\<close>

fun mapA :: "('a \<Rightarrow> ('w, 'b) action) \<Rightarrow> 'a list \<Rightarrow> ('w, 'b list) action" where
  "mapA f [] = ret []"
| "mapA f (x # xs) = bnd (f x) (\<lambda>y. bnd (mapA f xs) (\<lambda>ys. ret (y # ys)))"

fun forA :: "('a \<Rightarrow> ('w, 'b) action) \<Rightarrow> 'a list \<Rightarrow> ('w, unit) action" where
  "forA f [] = ret ()"
| "forA f (x # xs) = thn (f x) (forA f xs)"

text \<open>\<open>tryA m h\<close> is \<open>try { m } catch (e) { h(e) }\<close>.\<close>

definition tryA :: "('w, 'a) action \<Rightarrow> (jserr \<Rightarrow> ('w, 'a) action) \<Rightarrow> ('w, 'a) action" where
  "tryA m h = (\<lambda>w. case m w of (Inl e, w') \<Rightarrow> h e w' | (Inr x, w') \<Rightarrow> (Inr x, w'))"

definition getA :: "('w \<Rightarrow> 'a) \<Rightarrow> ('w, 'a) action" where
  "getA g = (\<lambda>w. (Inr (g w), w))"

definition modA :: "('w \<Rightarrow> 'w) \<Rightarrow> ('w, unit) action" where
  "modA g = (\<lambda>w. (Inr (), g w))"

text \<open>The same sequencing for pure results.\<close>

definition bindE :: "jserr + 'a \<Rightarrow> ('a \<Rightarrow> jserr + 'b) \<Rightarrow> jserr + 'b" where
  "bindE r f = (case r of Inl e \<Rightarrow> Inl e | Inr x \<Rightarrow> f x)"

fun mapE :: "('a \<Rightarrow> jserr + 'b) \<Rightarrow> 'a list \<Rightarrow> jserr + 'b list" where
  "mapE f [] = Inr []"
| "mapE f (x # xs) = bindE (f x) (\<lambda>y. bindE (mapE f xs) (\<lambda>ys. Inr (y # ys)))"

text \<open>\<open>filter\<close> and \<open>reduce\<close> with a function that may throw.\<close>

fun filterE :: "('a \<Rightarrow> jserr + bool) \<Rightarrow> 'a list \<Rightarrow> jserr + 'a list" where
  "filterE p [] = Inr []"
| "filterE p (x # xs) = bindE (p x) (\<lambda>b. bindE (filterE p xs) (\<lambda>ys. Inr (if b then x # ys else ys)))"

fun foldE :: "('b \<Rightarrow> 'a \<Rightarrow> jserr + 'b) \<Rightarrow> 'b \<Rightarrow> 'a list \<Rightarrow> jserr + 'b" where
  "foldE f acc [] = Inr acc"
| "foldE f acc (x # xs) = bindE (f acc x) (\<lambda>acc'. foldE f acc' xs)"

text \<open>\<open>xs.some(p)\<close> with a predicate that may throw: stops at the first hit.\<close>

fun someE :: "('a \<Rightarrow> jserr + bool) \<Rightarrow> 'a list \<Rightarrow> jserr + bool" where
  "someE p [] = Inr False"
| "someE p (x # xs) = bindE (p x) (\<lambda>b. if b then Inr True else someE p xs)"

subsection \<open>Laws of the combinators\<close>

lemma mapE_cong: "xs = ys \<Longrightarrow> (\<And>x. x \<in> set ys \<Longrightarrow> f x = g x) \<Longrightarrow> mapE f xs = mapE g ys"
  by (induction ys arbitrary: xs) auto

lemma run_ret [simp]: "ret x w = (Inr x, w)"
  by (simp add: ret_def)

lemma run_throw [simp]: "throw e w = (Inl e, w)"
  by (simp add: throw_def)

lemma run_liftE [simp]: "liftE r w = (r, w)"
  by (simp add: liftE_def)

lemma run_getA [simp]: "getA g w = (Inr (g w), w)"
  by (simp add: getA_def)

lemma run_modA [simp]: "modA g w = (Inr (), g w)"
  by (simp add: modA_def)

lemma not_isl_iff: "(\<exists>x. r = Inr x) \<longleftrightarrow> \<not> isl r"
  by (cases r) auto

lemma bindE_simps [simp]:
  "bindE (Inl e) f = Inl e" "bindE (Inr x) f = f x"
  by (simp_all add: bindE_def)

lemma mapE_map: "(\<And>x. x \<in> set xs \<Longrightarrow> f x = Inr (g x)) \<Longrightarrow> mapE f xs = Inr (map g xs)"
  by (induction xs) auto

lemma bindE_Inr_iff [act_ok]: "bindE r f = Inr y \<longleftrightarrow> (\<exists>x. r = Inr x \<and> f x = Inr y)"
  by (cases r) auto

lemma bnd_ret [simp]: "bnd (ret x) f = f x"
  by (rule ext) (simp add: bnd_def)

lemma bnd_throw [simp]: "bnd (throw e) f = throw e"
  by (rule ext) (simp add: bnd_def)

lemma bnd_liftE [simp]:
  "bnd (liftE (Inr x)) f = f x" "bnd (liftE (Inl e)) f = throw e"
  by (rule ext, simp add: bnd_def)+

text \<open>The simplifier's normal form of a constant action is a pairing with its result.\<close>

lemma bnd_Pair [simp]:
  "bnd (Pair (Inr x)) f = f x" "bnd (Pair (Inl e)) f = Pair (Inl e)"
  by (rule ext, simp add: bnd_def)+

lemma thn_Pair [simp]:
  "thn (Pair (Inr x)) k = k" "thn (Pair (Inl e)) k = Pair (Inl e)"
  by (simp_all add: thn_def)

lemma bnd_assoc: "bnd (bnd m f) g = bnd m (\<lambda>x. bnd (f x) g)"
  by (rule ext) (simp add: bnd_def split: prod.splits sum.splits)

lemma run_bnd_Inr: "m w = (Inr x, w') \<Longrightarrow> bnd m f w = f x w'"
  by (simp add: bnd_def)

lemma run_bnd_Inl: "m w = (Inl e, w') \<Longrightarrow> bnd m f w = (Inl e, w')"
  by (simp add: bnd_def)

lemma run_thn_Inr: "m w = (Inr x, w') \<Longrightarrow> thn m k w = k w'"
  by (simp add: thn_def bnd_def)

lemma run_thn_Inl: "m w = (Inl e, w') \<Longrightarrow> thn m k w = (Inl e, w')"
  by (simp add: thn_def bnd_def)

lemma run_tryA_Inr: "m w = (Inr x, w') \<Longrightarrow> tryA m h w = (Inr x, w')"
  by (simp add: tryA_def)

lemma run_tryA_Inl: "m w = (Inl e, w') \<Longrightarrow> tryA m h w = h e w'"
  by (simp add: tryA_def)

lemma bnd_ok [act_ok]:
  "bnd m f w = (Inr y, w') \<longleftrightarrow> (\<exists>x w1. m w = (Inr x, w1) \<and> f x w1 = (Inr y, w'))"
  by (auto simp: bnd_def split: prod.splits sum.splits)

lemma thn_ok [act_ok]:
  "thn m k w = (Inr y, w') \<longleftrightarrow> (\<exists>x w1. m w = (Inr x, w1) \<and> k w1 = (Inr y, w'))"
  by (simp add: thn_def bnd_ok)

lemma tryA_ok [act_ok]:
  "tryA m h w = (Inr y, w') \<longleftrightarrow>
     m w = (Inr y, w') \<or> (\<exists>e w1. m w = (Inl e, w1) \<and> h e w1 = (Inr y, w'))"
  by (auto simp: tryA_def split: prod.splits sum.splits)

lemmas action_defs [act_simps] = bnd_def thn_def tryA_def

text \<open>
  A predicate on states that an action keeps whether it returns or throws. Handlers are
  shown to keep an invariant by composing the rules below along their structure.
\<close>

definition keeps :: "('w \<Rightarrow> 'w \<Rightarrow> bool) \<Rightarrow> ('w, 'a) action \<Rightarrow> bool" where
  "keeps R m \<longleftrightarrow> (\<forall>w. R w (snd (m w)))"

lemma keepsD: "keeps R m \<Longrightarrow> m w = (r, w') \<Longrightarrow> R w w'"
  by (metis keeps_def snd_conv)

lemma keeps_ret [intro, simp]: "reflp R \<Longrightarrow> keeps R (ret x)"
  by (simp add: keeps_def reflp_def)

lemma keeps_throw [intro, simp]: "reflp R \<Longrightarrow> keeps R (throw e)"
  by (simp add: keeps_def reflp_def)

lemma keeps_liftE [intro, simp]: "reflp R \<Longrightarrow> keeps R (liftE r)"
  by (simp add: keeps_def reflp_def)

lemma keeps_getA [intro, simp]: "reflp R \<Longrightarrow> keeps R (getA g)"
  by (simp add: keeps_def reflp_def)

lemma keeps_bnd:
  assumes trans: "transp R"
    and m: "keeps R m" and f: "\<And>x. keeps R (f x)"
  shows "keeps R (bnd m f)"
  unfolding keeps_def
proof
  fix w
  show "R w (snd (bnd m f w))"
  proof (cases "m w")
    case (Pair r w')
    with m have R: "R w w'" by (rule keepsD)
    show ?thesis
    proof (cases r)
      case (Inl e)
      with Pair R show ?thesis by (simp add: bnd_def)
    next
      case (Inr x)
      from f [of x] have "R w' (snd (f x w'))" by (simp add: keeps_def)
      with Pair Inr R show ?thesis by (simp add: bnd_def transpD [OF trans R])
    qed
  qed
qed

lemma keeps_thn:
  "\<lbrakk>transp R; keeps R m; keeps R k\<rbrakk> \<Longrightarrow> keeps R (thn m k)"
  unfolding thn_def by (rule keeps_bnd)

lemma keeps_forA:
  assumes "reflp R" and "transp R" and "\<And>x. keeps R (f x)"
  shows "keeps R (forA f xs)"
proof (induction xs)
  case Nil
  show ?case unfolding forA.simps by (rule keeps_ret [OF assms(1)])
next
  case (Cons x xs)
  show ?case unfolding forA.simps by (rule keeps_thn [OF assms(2) assms(3) Cons])
qed

lemma keeps_mapA:
  assumes r: "reflp R" and t: "transp R"
    and f: "\<And>x. keeps R (f x)"
  shows "keeps R (mapA f xs)"
proof (induction xs)
  case Nil
  show ?case unfolding mapA.simps by (rule keeps_ret [OF r])
next
  case (Cons x xs)
  have "keeps R (bnd (mapA f xs) (\<lambda>ys. ret (y # ys)))" for y
    by (rule keeps_bnd [OF t Cons]) (rule keeps_ret [OF r])
  then show ?case unfolding mapA.simps by (rule keeps_bnd [OF t f])
qed

lemma keeps_tryA:
  assumes t: "transp R"
    and m: "keeps R m" and h: "\<And>e. keeps R (h e)"
  shows "keeps R (tryA m h)"
  unfolding keeps_def
proof
  fix w
  obtain r w' where mw: "m w = (r, w')" by (cases "m w")
  with m have R: "R w w'" by (rule keepsD)
  show "R w (snd (tryA m h w))"
  proof (cases r)
    case (Inl e)
    from h [of e] have "R w' (snd (h e w'))" by (simp add: keeps_def)
    with mw Inl R show ?thesis by (simp add: tryA_def transpD [OF t R])
  next
    case (Inr x)
    with mw R show ?thesis by (simp add: tryA_def)
  qed
qed

lemma foldE_append: "foldE f acc (xs @ ys) = bindE (foldE f acc xs) (\<lambda>a. foldE f a ys)"
  by (induction xs arbitrary: acc) (auto simp: bindE_def split: sum.splits)

text \<open>Rules that know what an action returned.\<close>

lemma keeps_bnd_result:
  assumes "transp R" and "keeps R m" and "\<And>x w w'. m w = (Inr x, w') \<Longrightarrow> keeps R (f x)"
  shows "keeps R (bnd m f)"
  unfolding keeps_def
proof
  fix w
  obtain r w1 where run: "m w = (r, w1)" by fastforce
  then have "R w w1" using assms(2) by (rule keepsD [rotated])
  then show "R w (snd (bnd m f w))"
    using assms(3) run transpD [OF assms(1)] by (cases r) (auto simp: bnd_def keeps_def)
qed

lemma keeps_mapA_in:
  assumes "reflp R" and "transp R" and "\<And>x. x \<in> set xs \<Longrightarrow> keeps R (f x)"
  shows "keeps R (mapA f xs)"
  using assms(3)
proof (induction xs)
  case (Cons x xs)
  have "keeps R (bnd (mapA f xs) (\<lambda>ys. ret (y # ys)))" for y
    by (rule keeps_bnd [OF assms(2)]) (use Cons assms(1) in auto)
  then show ?case unfolding mapA.simps by (intro keeps_bnd [OF assms(2) Cons.prems]) simp_all
qed (simp add: assms(1))

subsection \<open>Association lists\<close>

lemma map_of_AList_update [simp]: "map_of (AList.update k v al) = (map_of al)(k \<mapsto> v)"
  by (simp add: update_conv')

lemma keys_AList_update: "set (map fst (AList.update k v al)) = insert k (set (map fst al))"
  by (auto simp: update_keys)

lemma distinct_AList_update:
  "distinct (map fst al) \<Longrightarrow> distinct (map fst (AList.update k v al))"
  by (rule distinct_update)

lemma map_of_filter_key:
  "map_of (filter (\<lambda>(k, v). P k) al) x = (if P x then map_of al x else None)"
  by (induction al) auto

lemma map_of_filter_fst:
  "map_of (filter (\<lambda>p. P (fst p)) al) x = (if P x then map_of al x else None)"
  by (induction al) auto

end
