(* ===== verification/JsValue.thy ===== *)
theory JsValue
  imports Prelude
begin

text \<open>
  The JavaScript values the services pass around, and the parts of the language and of its
  standard library that the modelled code uses: \<open>typeof\<close>, truthiness, property access,
  object spread, the conversions \<open>String\<close>, \<open>Number\<close>, \<open>BigInt\<close> and \<open>Boolean\<close>,
  \<open>JSON.stringify\<close>, strict equality and the array predicates.

  Numbers are the integers (the code uses them for heights, counts, shares and timestamps)
  and NaN; \<open>Number\<close> of a string that spells a fraction, an exponent, a hexadecimal
  literal or Infinity is outside the model and yields NaN here. An object is the list of its
  own properties in creation order; the properties of a list are distinct
  (\<open>wf_obj\<close>). Objects and arrays are values: two of them are never the same reference.
\<close>

datatype jsval =
    JUndef
  | JNull
  | JBool bool
  | JNum int
  | JNaN
  | JBig int
  | JStr string
  | JArr "jsval list"
  | JObj "(string \<times> jsval) list"

type_synonym obj = "(string \<times> jsval) list"

fun js_typeof :: "jsval \<Rightarrow> string" where
  "js_typeof JUndef = ''undefined''"
| "js_typeof JNull = ''object''"
| "js_typeof (JBool _) = ''boolean''"
| "js_typeof (JNum _) = ''number''"
| "js_typeof JNaN = ''number''"
| "js_typeof (JBig _) = ''bigint''"
| "js_typeof (JStr _) = ''string''"
| "js_typeof (JArr _) = ''object''"
| "js_typeof (JObj _) = ''object''"

fun truthy :: "jsval \<Rightarrow> bool" where
  "truthy JUndef = False"
| "truthy JNull = False"
| "truthy (JBool b) = b"
| "truthy (JNum n) = (n \<noteq> 0)"
| "truthy JNaN = False"
| "truthy (JBig n) = (n \<noteq> 0)"
| "truthy (JStr s) = (s \<noteq> [])"
| "truthy (JArr _) = True"
| "truthy (JObj _) = True"

text \<open>The value of \<open>a || b\<close>.\<close>

definition js_or :: "jsval \<Rightarrow> jsval \<Rightarrow> jsval" where
  "js_or a b = (if truthy a then a else b)"

definition is_array :: "jsval \<Rightarrow> bool" where
  "is_array v = (case v of JArr _ \<Rightarrow> True | _ \<Rightarrow> False)"

subsection \<open>Decimal numerals\<close>

definition digit_chr :: "nat \<Rightarrow> char" where
  "digit_chr d = char_of (48 + d)"

fun show_nat :: "nat \<Rightarrow> string" where
  "show_nat n = (if n < 10 then [digit_chr n] else show_nat (n div 10) @ [digit_chr (n mod 10)])"

declare show_nat.simps [simp del]

definition show_int :: "int \<Rightarrow> string" where
  "show_int i = (if i < 0 then CHR ''-'' # show_nat (nat (- i)) else show_nat (nat i))"

definition is_digit :: "char \<Rightarrow> bool" where
  "is_digit c = (48 \<le> (of_char c :: nat) \<and> (of_char c :: nat) \<le> 57)"

definition digit_val :: "char \<Rightarrow> nat" where
  "digit_val c = of_char c - 48"

fun read_digits :: "nat \<Rightarrow> string \<Rightarrow> nat option" where
  "read_digits acc [] = Some acc"
| "read_digits acc (c # cs) =
     (if is_digit c then read_digits (10 * acc + digit_val c) cs else None)"

definition read_nat :: "string \<Rightarrow> nat option" where
  "read_nat s = (if s = [] then None else read_digits 0 s)"

text \<open>An optionally signed decimal integer literal.\<close>

definition read_int :: "string \<Rightarrow> int option" where
  "read_int s = (case s of
       [] \<Rightarrow> None
     | c # cs \<Rightarrow>
         if c = CHR ''-'' then map_option (\<lambda>n. - int n) (read_nat cs)
         else if c = CHR ''+'' then map_option int (read_nat cs)
         else map_option int (read_nat s))"

definition is_space :: "char \<Rightarrow> bool" where
  "is_space c = (c = CHR '' '' \<or> (9 \<le> (of_char c :: nat) \<and> (of_char c :: nat) \<le> 13))"

definition trim :: "string \<Rightarrow> string" where
  "trim s = rev (dropWhile is_space (rev (dropWhile is_space s)))"

subsection \<open>Conversions\<close>

fun join :: "string \<Rightarrow> string list \<Rightarrow> string" where
  "join sep [] = []"
| "join sep [x] = x"
| "join sep (x # y # ys) = x @ sep @ join sep (y # ys)"

text \<open>\<open>String(v)\<close>.\<close>

fun js_string :: "jsval \<Rightarrow> string" where
  "js_string JUndef = ''undefined''"
| "js_string JNull = ''null''"
| "js_string (JBool b) = (if b then ''true'' else ''false'')"
| "js_string (JNum n) = show_int n"
| "js_string JNaN = ''NaN''"
| "js_string (JBig n) = show_int n"
| "js_string (JStr s) = s"
| "js_string (JArr vs) =
     join '','' (map (\<lambda>v. case v of JUndef \<Rightarrow> [] | JNull \<Rightarrow> [] | _ \<Rightarrow> js_string v) vs)"
| "js_string (JObj _) = ''[object Object]''"

definition number_of_string :: "string \<Rightarrow> jsval" where
  "number_of_string s =
     (let t = trim s in
      if t = [] then JNum 0
      else case read_int t of Some i \<Rightarrow> JNum i | None \<Rightarrow> JNaN)"

text \<open>\<open>Number(v)\<close>.\<close>

fun js_number :: "jsval \<Rightarrow> jsval" where
  "js_number JUndef = JNaN"
| "js_number JNull = JNum 0"
| "js_number (JBool b) = JNum (if b then 1 else 0)"
| "js_number (JNum n) = JNum n"
| "js_number JNaN = JNaN"
| "js_number (JBig n) = JNum n"
| "js_number (JStr s) = number_of_string s"
| "js_number (JArr vs) = number_of_string (js_string (JArr vs))"
| "js_number (JObj _) = JNaN"

text \<open>
  \<open>BigInt(s)\<close> of a string accepts an optional sign only before decimal digits, and the
  empty string as zero.
\<close>

definition bigint_of_string :: "string \<Rightarrow> jserr + int" where
  "bigint_of_string s =
     (let t = trim s in
      if t = [] then Inr 0
      else case read_int t of
          Some i \<Rightarrow> Inr i
        | None \<Rightarrow> Inl (SyntaxErr (''Cannot convert '' @ s @ '' to a BigInt'')))"

text \<open>\<open>BigInt(v)\<close>.\<close>

fun js_bigint :: "jsval \<Rightarrow> jserr + int" where
  "js_bigint JUndef = Inl (TypeErr ''Cannot convert undefined to a BigInt'')"
| "js_bigint JNull = Inl (TypeErr ''Cannot convert null to a BigInt'')"
| "js_bigint (JBool b) = Inr (if b then 1 else 0)"
| "js_bigint (JNum n) = Inr n"
| "js_bigint JNaN = Inl (RangeErr ''The number NaN cannot be converted to a BigInt'')"
| "js_bigint (JBig n) = Inr n"
| "js_bigint (JStr s) = bigint_of_string s"
| "js_bigint (JArr vs) = bigint_of_string (js_string (JArr vs))"
| "js_bigint (JObj _) = bigint_of_string ''[object Object]''"

subsection \<open>JSON.stringify\<close>

definition hex_chr :: "nat \<Rightarrow> char" where
  "hex_chr d = (if d < 10 then char_of (48 + d) else char_of (87 + d))"

definition json_escape :: "char \<Rightarrow> string" where
  "json_escape c =
     (let n = of_char c :: nat in
      if n = 34 then [CHR 0x5C, CHR 0x22]
      else if n = 92 then [CHR 0x5C, CHR 0x5C]
      else if n = 8 then [CHR 0x5C, CHR ''b'']
      else if n = 9 then [CHR 0x5C, CHR ''t'']
      else if n = 10 then [CHR 0x5C, CHR ''n'']
      else if n = 12 then [CHR 0x5C, CHR ''f'']
      else if n = 13 then [CHR 0x5C, CHR ''r'']
      else if n < 32 then [CHR 0x5C, CHR ''u'', CHR ''0'', CHR ''0'', hex_chr (n div 16), hex_chr (n mod 16)]
      else [c])"

definition json_quote :: "string \<Rightarrow> string" where
  "json_quote s = [CHR 0x22] @ concat (map json_escape s) @ [CHR 0x22]"

text \<open>
  \<open>None\<close> is the result \<open>undefined\<close>: a property with that value is left out of an
  object, and the value stands as \<open>null\<close> in an array. A BigInt anywhere throws.
\<close>

fun json_text :: "jsval \<Rightarrow> jserr + string option"
  and json_items :: "jsval list \<Rightarrow> jserr + string list"
  and json_props :: "(string \<times> jsval) list \<Rightarrow> jserr + string list" where
  "json_text JUndef = Inr None"
| "json_text JNull = Inr (Some ''null'')"
| "json_text (JBool b) = Inr (Some (if b then ''true'' else ''false''))"
| "json_text (JNum n) = Inr (Some (show_int n))"
| "json_text JNaN = Inr (Some ''null'')"
| "json_text (JBig n) = Inl (TypeErr ''Do not know how to serialize a BigInt'')"
| "json_text (JStr s) = Inr (Some (json_quote s))"
| "json_text (JArr vs) =
     bindE (json_items vs) (\<lambda>ts. Inr (Some (''['' @ join '','' ts @ '']'')))"
| "json_text (JObj ps) =
     bindE (json_props ps) (\<lambda>ts. Inr (Some (''{'' @ join '','' ts @ ''}'')))"
| "json_items [] = Inr []"
| "json_items (v # vs) =
     bindE (json_text v) (\<lambda>t. bindE (json_items vs) (\<lambda>ts.
       Inr ((case t of None \<Rightarrow> ''null'' | Some s \<Rightarrow> s) # ts)))"
| "json_props [] = Inr []"
| "json_props ((k, v) # ps) =
     bindE (json_text v) (\<lambda>t. bindE (json_props ps) (\<lambda>ts.
       Inr (case t of None \<Rightarrow> ts | Some s \<Rightarrow> (json_quote k @ '':'' @ s) # ts)))"

definition json_stringify :: "jsval \<Rightarrow> jserr + jsval" where
  "json_stringify v =
     bindE (json_text v) (\<lambda>t. Inr (case t of None \<Rightarrow> JUndef | Some s \<Rightarrow> JStr s))"

subsection \<open>Objects and arrays\<close>

definition oget :: "obj \<Rightarrow> string \<Rightarrow> jsval" where
  "oget ob k = (case map_of ob k of None \<Rightarrow> JUndef | Some v \<Rightarrow> v)"

definition ohas :: "obj \<Rightarrow> string \<Rightarrow> bool" where
  "ohas ob k = (k \<in> set (map fst ob))"

definition oset :: "obj \<Rightarrow> string \<Rightarrow> jsval \<Rightarrow> obj" where
  "oset ob k v = AList.update k v ob"

text \<open>The object literal \<open>{...a, ...b}\<close>.\<close>

definition spread :: "obj \<Rightarrow> obj \<Rightarrow> obj" where
  "spread a b = foldl (\<lambda>acc (k, v). oset acc k v) a b"

definition wf_obj :: "obj \<Rightarrow> bool" where
  "wf_obj ob = distinct (map fst ob)"

text \<open>
  What \<open>...v\<close> contributes to an object literal: the own properties of an object, nothing
  for \<open>undefined\<close>, \<open>null\<close>, booleans and numbers. (Spreading strings and arrays into
  objects does not occur in the modelled code.)
\<close>

definition own_props :: "jsval \<Rightarrow> obj" where
  "own_props v = (case v of JObj ob \<Rightarrow> ob | _ \<Rightarrow> [])"

text \<open>\<open>v.k\<close>: reading a property of \<open>undefined\<close> or \<open>null\<close> throws.\<close>

fun js_prop :: "jsval \<Rightarrow> string \<Rightarrow> jserr + jsval" where
  "js_prop JUndef k = Inl (TypeErr (''Cannot read properties of undefined (reading '' @ k @ '')''))"
| "js_prop JNull k = Inl (TypeErr (''Cannot read properties of null (reading '' @ k @ '')''))"
| "js_prop (JObj ob) k = Inr (oget ob k)"
| "js_prop (JArr vs) k = Inr (if k = ''length'' then JNum (int (length vs)) else JUndef)"
| "js_prop (JStr s) k = Inr (if k = ''length'' then JNum (int (length s)) else JUndef)"
| "js_prop (JBool _) k = Inr JUndef"
| "js_prop (JNum _) k = Inr JUndef"
| "js_prop JNaN k = Inr JUndef"
| "js_prop (JBig _) k = Inr JUndef"

fun js_path :: "jsval \<Rightarrow> string list \<Rightarrow> jserr + jsval" where
  "js_path v [] = Inr v"
| "js_path v (k # ks) = bindE (js_prop v k) (\<lambda>u. js_path u ks)"

text \<open>The elements of a value used as an array; anything else has no array methods.\<close>

fun js_elems :: "jsval \<Rightarrow> jserr + jsval list" where
  "js_elems (JArr vs) = Inr vs"
| "js_elems _ = Inl (TypeErr ''expecting an array'')"

text \<open>The operators \<open>-\<close> and \<open>+\<close>: numbers and big integers do not mix, and \<open>+\<close> on a
  string or an object concatenates.\<close>

definition js_sub :: "jsval \<Rightarrow> jsval \<Rightarrow> jserr + jsval" where
  "js_sub a b = (case (a, b) of
       (JBig x, JBig y) \<Rightarrow> Inr (JBig (x - y))
     | (JBig _, _) \<Rightarrow> Inl (TypeErr ''Cannot mix BigInt and other types'')
     | (_, JBig _) \<Rightarrow> Inl (TypeErr ''Cannot mix BigInt and other types'')
     | _ \<Rightarrow> (case (js_number a, js_number b) of
           (JNum x, JNum y) \<Rightarrow> Inr (JNum (x - y))
         | _ \<Rightarrow> Inr JNaN))"

definition is_stringish :: "jsval \<Rightarrow> bool" where
  "is_stringish v = (case v of JStr _ \<Rightarrow> True | JArr _ \<Rightarrow> True | JObj _ \<Rightarrow> True | _ \<Rightarrow> False)"

definition js_add :: "jsval \<Rightarrow> jsval \<Rightarrow> jserr + jsval" where
  "js_add a b =
     (if is_stringish a \<or> is_stringish b then Inr (JStr (js_string a @ js_string b))
      else case (a, b) of
          (JBig x, JBig y) \<Rightarrow> Inr (JBig (x + y))
        | (JBig _, _) \<Rightarrow> Inl (TypeErr ''Cannot mix BigInt and other types'')
        | (_, JBig _) \<Rightarrow> Inl (TypeErr ''Cannot mix BigInt and other types'')
        | _ \<Rightarrow> (case (js_number a, js_number b) of
              (JNum x, JNum y) \<Rightarrow> Inr (JNum (x + y))
            | _ \<Rightarrow> Inr JNaN))"

text \<open>\<open>v.k = u\<close>: the object after the assignment; \<open>undefined\<close> and \<open>null\<close> cannot be assigned to.\<close>

fun js_setprop :: "jsval \<Rightarrow> string \<Rightarrow> jsval \<Rightarrow> jserr + jsval" where
  "js_setprop (JObj ob) k u = Inr (JObj (oset ob k u))"
| "js_setprop JUndef k u = Inl (TypeErr (''Cannot set properties of undefined (setting '' @ k @ '')''))"
| "js_setprop JNull k u = Inl (TypeErr (''Cannot set properties of null (setting '' @ k @ '')''))"
| "js_setprop v k u = Inr v"

text \<open>\<open>===\<close> on primitive values; distinct objects are never equal.\<close>

fun strict_eq :: "jsval \<Rightarrow> jsval \<Rightarrow> bool" where
  "strict_eq JNaN _ = False"
| "strict_eq (JArr _) _ = False"
| "strict_eq (JObj _) _ = False"
| "strict_eq v w = (v = w)"

text \<open>\<open>xs.includes(v)\<close> on primitive values.\<close>

definition js_includes :: "jsval list \<Rightarrow> jsval \<Rightarrow> bool" where
  "js_includes xs v = (v \<in> set xs)"

text \<open>The first element of a destructured array: \<open>const [x] = xs\<close>.\<close>

definition js_first :: "jsval list \<Rightarrow> jsval" where
  "js_first xs = (case xs of [] \<Rightarrow> JUndef | x # _ \<Rightarrow> x)"

text \<open>The default of a destructuring pattern: \<open>{ k: x = d }\<close> applies to \<open>undefined\<close> only.\<close>

definition js_default :: "jsval \<Rightarrow> jsval \<Rightarrow> jsval" where
  "js_default v d = (if v = JUndef then d else v)"

text \<open>\<open>s.split(sep)\<close> for a non-empty separator.\<close>

fun split_from :: "string \<Rightarrow> string \<Rightarrow> string \<Rightarrow> string list" where
  "split_from sep acc [] = [rev acc]"
| "split_from sep acc (c # cs) =
     (if take (length sep) (c # cs) = sep
      then rev acc # split_from sep [] (drop (length sep - 1) cs)
      else split_from sep (c # acc) cs)"

definition js_split :: "string \<Rightarrow> string \<Rightarrow> string list" where
  "js_split sep s = split_from sep [] s"

text \<open>\<open>s.includes(t)\<close>.\<close>

fun str_includes :: "string \<Rightarrow> string \<Rightarrow> bool" where
  "str_includes t [] = (t = [])"
| "str_includes t (c # cs) = (take (length t) (c # cs) = t \<or> str_includes t cs)"

text \<open>\<open>s.endsWith(suf)\<close>.\<close>

definition ends_with :: "string \<Rightarrow> string \<Rightarrow> bool" where
  "ends_with suf s = (length suf \<le> length s \<and> drop (length s - length suf) s = suf)"

text \<open>A value used as a string, for its methods; other values have no such method.\<close>

fun as_str :: "jsval \<Rightarrow> jserr + string" where
  "as_str (JStr s) = Inr s"
| "as_str JUndef = Inl (TypeErr ''Cannot read properties of undefined'')"
| "as_str JNull = Inl (TypeErr ''Cannot read properties of null'')"
| "as_str _ = Inl (TypeErr ''is not a function'')"

text \<open>The entry of an array at an index, \<open>undefined\<close> out of range.\<close>

definition at_str :: "string list \<Rightarrow> nat \<Rightarrow> string option" where
  "at_str xs i = (if i < length xs then Some (xs ! i) else None)"

text \<open>Strings compare by their characters.\<close>

fun str_less :: "string \<Rightarrow> string \<Rightarrow> bool" where
  "str_less _ [] = False"
| "str_less [] (_ # _) = True"
| "str_less (a # as) (b # bs) =
     ((of_char a :: nat) < of_char b \<or> (a = b \<and> str_less as bs))"

definition lower_chr :: "char \<Rightarrow> char" where
  "lower_chr c = (let n = of_char c :: nat in if 65 \<le> n \<and> n \<le> 90 then char_of (n + 32) else c)"

text \<open>\<open>a < b\<close> and \<open>a <= b\<close>: two strings compare as strings, anything else as numbers.\<close>

definition js_lt :: "jsval \<Rightarrow> jsval \<Rightarrow> bool" where
  "js_lt a b = (case (a, b) of
       (JStr s, JStr t) \<Rightarrow> str_less s t
     | _ \<Rightarrow> (case (js_number a, js_number b) of (JNum x, JNum y) \<Rightarrow> x < y | _ \<Rightarrow> False))"

definition js_le :: "jsval \<Rightarrow> jsval \<Rightarrow> bool" where
  "js_le a b = (case (a, b) of
       (JStr s, JStr t) \<Rightarrow> \<not> str_less t s
     | _ \<Rightarrow> (case (js_number a, js_number b) of (JNum x, JNum y) \<Rightarrow> x \<le> y | _ \<Rightarrow> False))"

definition to_lower :: "string \<Rightarrow> string" where
  "to_lower s = map lower_chr s"

text \<open>\<open>const { k, ...rest } = ob\<close>.\<close>

definition omit :: "string list \<Rightarrow> obj \<Rightarrow> obj" where
  "omit ks ob = filter (\<lambda>p. fst p \<notin> set ks) ob"

definition is_hex :: "char \<Rightarrow> bool" where
  "is_hex c = (is_digit c \<or> c \<in> set ''abcdefABCDEF'')"

text \<open>\<open>/^[a-fA-F0-9]{2}000000$/\<close>, tested on the text of a value.\<close>

definition MAINCHAIN_ID :: "string \<Rightarrow> bool" where
  "MAINCHAIN_ID s = (length s = 8 \<and> list_all is_hex (take 2 s) \<and> drop 2 s = ''000000'')"

subsection \<open>Laws\<close>

lemma digit_chr_digit: "d < 10 \<Longrightarrow> is_digit (digit_chr d)"
  by (simp add: is_digit_def digit_chr_def)

lemma digit_val_chr [simp]: "d < 10 \<Longrightarrow> digit_val (digit_chr d) = d"
  by (simp add: digit_val_def digit_chr_def)

lemma read_digits_append:
  "read_digits acc (xs @ ys) =
     (case read_digits acc xs of None \<Rightarrow> None | Some n \<Rightarrow> read_digits n ys)"
  by (induction xs arbitrary: acc) auto

lemma show_nat_not_Nil [simp]: "show_nat n \<noteq> []"
  by (subst show_nat.simps) simp

lemma read_digits_show_nat: "read_digits 0 (show_nat n) = Some n"
proof (induction n rule: show_nat.induct)
  case (1 n)
  show ?case
  proof (cases "n < 10")
    case True
    then show ?thesis by (simp add: show_nat.simps [of n] digit_chr_digit)
  next
    case False
    with "1.IH" show ?thesis
      by (simp add: show_nat.simps [of n] read_digits_append digit_chr_digit)
  qed
qed

lemma read_nat_show_nat [simp]: "read_nat (show_nat n) = Some n"
  by (simp add: read_nat_def read_digits_show_nat)

lemma show_nat_digits: "c \<in> set (show_nat n) \<Longrightarrow> is_digit c"
proof (induction n rule: show_nat.induct)
  case (1 n)
  then show ?case
    by (cases "n < 10") (auto simp: show_nat.simps [of n] digit_chr_digit)
qed

lemma is_digit_not_sign: "is_digit c \<Longrightarrow> c \<noteq> CHR ''-'' \<and> c \<noteq> CHR ''+''"
  by (auto simp: is_digit_def)

lemma is_digit_not_space: "is_digit c \<Longrightarrow> \<not> is_space c"
  by (auto simp: is_digit_def is_space_def)

lemma read_int_show_nat: "read_int (show_nat n) = Some (int n)"
proof (cases "show_nat n")
  case Nil
  then show ?thesis by simp
next
  case (Cons c cs)
  then have "is_digit c" using show_nat_digits [of c n] by simp
  then have "c \<noteq> CHR ''-'' \<and> c \<noteq> CHR ''+''" by (rule is_digit_not_sign)
  then have "read_int (show_nat n) = map_option int (read_nat (show_nat n))"
    unfolding read_int_def Cons by simp
  then show ?thesis by simp
qed

lemma read_int_show_int [simp]: "read_int (show_int i) = Some i"
proof (cases "i < 0")
  case True
  then show ?thesis by (simp add: show_int_def read_int_def)
next
  case False
  then show ?thesis by (simp add: show_int_def read_int_show_nat)
qed

lemma show_int_inject [simp]: "show_int i = show_int j \<longleftrightarrow> i = j"
  by (metis option.inject read_int_show_int)

lemma show_int_no_space: "c \<in> set (show_int i) \<Longrightarrow> \<not> is_space c"
  using show_nat_digits is_digit_not_space
  by (auto simp: show_int_def is_space_def split: if_splits)

lemma dropWhile_none: "(\<And>c. c \<in> set s \<Longrightarrow> \<not> P c) \<Longrightarrow> dropWhile P s = s"
  by (cases s) auto

lemma trim_no_space: "(\<And>c. c \<in> set s \<Longrightarrow> \<not> is_space c) \<Longrightarrow> trim s = s"
  using dropWhile_none [of s is_space] dropWhile_none [of "rev s" is_space]
  by (simp add: trim_def)

lemma trim_show_int [simp]: "trim (show_int i) = show_int i"
  by (rule trim_no_space) (rule show_int_no_space)

lemma show_int_not_Nil [simp]: "show_int i \<noteq> []"
  by (simp add: show_int_def)

lemma number_of_show_int [simp]: "number_of_string (show_int i) = JNum i"
  by (simp add: number_of_string_def)

lemma bigint_of_show_int [simp]: "bigint_of_string (show_int i) = Inr i"
  by (simp add: bigint_of_string_def)

lemma oget_oset [simp]: "oget (oset ob k v) k' = (if k' = k then v else oget ob k')"
  by (simp add: oget_def oset_def)

lemma wf_oset [simp, intro]: "wf_obj ob \<Longrightarrow> wf_obj (oset ob k v)"
  by (simp add: wf_obj_def oset_def distinct_update)

lemma ohas_oset [simp]: "ohas (oset ob k v) k' \<longleftrightarrow> k' = k \<or> ohas ob k'"
  by (auto simp: ohas_def oset_def update_keys)

lemma spread_Nil [simp]: "spread a [] = a"
  by (simp add: spread_def)

lemma spread_Cons [simp]: "spread a ((k, v) # b) = spread (oset a k v) b"
  by (simp add: spread_def)

lemma wf_spread [simp, intro]: "wf_obj a \<Longrightarrow> wf_obj (spread a b)"
  by (induction b arbitrary: a) auto

lemma wf_obj_Nil [simp]: "wf_obj []"
  by (simp add: wf_obj_def)

lemma wf_obj_Cons: "wf_obj ((k, v) # ob) \<longleftrightarrow> \<not> ohas ob k \<and> wf_obj ob"
  by (simp add: wf_obj_def ohas_def)

lemma oget_not_ohas: "\<not> ohas ob k \<Longrightarrow> oget ob k = JUndef"
  by (simp add: ohas_def oget_def map_of_eq_None_iff split: option.splits)
    (metis map_of_eq_None_iff option.distinct(1))

lemma oget_Nil [simp]: "oget [] k = JUndef"
  by (simp add: oget_def)

lemma oget_Cons [simp]: "oget ((k, v) # ob) k' = (if k' = k then v else oget ob k')"
  by (simp add: oget_def)

lemma ohas_Nil [simp]: "\<not> ohas [] k"
  by (simp add: ohas_def)

lemma ohas_Cons [simp]: "ohas ((k, v) # ob) k' \<longleftrightarrow> k' = k \<or> ohas ob k'"
  by (auto simp: ohas_def)

lemma ohas_spread [simp]: "ohas (spread a b) k \<longleftrightarrow> ohas a k \<or> ohas b k"
  by (induction b arbitrary: a) auto

lemma oget_spread: "wf_obj b \<Longrightarrow> oget (spread a b) k = (if ohas b k then oget b k else oget a k)"
  by (induction b arbitrary: a) (auto simp: wf_obj_Cons)

lemma strict_eq_refl_prim: "v \<noteq> JNaN \<Longrightarrow> \<not> is_array v \<Longrightarrow> (\<forall>ob. v \<noteq> JObj ob) \<Longrightarrow> strict_eq v v"
  by (cases v) (auto simp: is_array_def)

lemma strict_eq_JStr [simp]: "strict_eq v (JStr s) \<longleftrightarrow> v = JStr s"
  by (cases v) auto

lemma strict_eq_JNum [simp]: "strict_eq v (JNum n) \<longleftrightarrow> v = JNum n"
  by (cases v) auto

lemma split_once: "c \<notin> set s \<Longrightarrow> split_from [c] acc s = [rev acc @ s]"
  by (induction s arbitrary: acc) auto

lemma split_at: "c \<notin> set s \<Longrightarrow> split_from [c] acc (s @ c # t) = (rev acc @ s) # split_from [c] [] t"
  by (induction s arbitrary: acc) auto

lemma oget_omit: "oget (omit ks p) k = (if k \<in> set ks then JUndef else oget p k)"
  by (induction p) (auto simp: omit_def)

end
