(* ===== verification/Sql.thy ===== *)
theory Sql
  imports JsValue
begin

text \<open>
  The database behind the services. The services reach MySQL through the query builder knex;
  neither is part of the repository, so the database driver is a parameter of every modelled
  operation: a function \<open>kx\<close> from a statement and a database to an error or to a result
  and a new database. This theory holds the statements the framework builds, the documented
  meaning of those statements on tables (\<open>sql_run\<close>), and the contract of the driver
  (locale \<open>sql_engine\<close>): a statement that succeeds has its documented meaning. A driver
  that satisfies the contract may fail any statement at any time (lost connection, deadlock,
  timeout).

  A column comparison follows the column's own type: two strings compare as strings (binary
  collation), anything else numerically, a string contributing its leading integer. Stored
  booleans and big integers read back as numbers, as the driver returns them.
\<close>

datatype wop = OpEq | OpGe | OpLe | OpGt | OpLt | OpLike

datatype wcond =
    WCmp string wop jsval
  | WNotNull string
  | WIn "string list" "jsval list"
  | WJson string "jsval list"
  | WGroup "(bool \<times> wcond) list"

text \<open>
  A condition list joins its members left to right; the flag of a member says that it is
  joined by \<open>or\<close> (AND binds tighter than OR).
\<close>

type_synonym wclause = "(bool \<times> wcond) list"

record query =
  q_table :: string
  q_select :: "string list"
  q_where :: wclause
  q_distinct :: "string list"
  q_order :: "(string \<times> string) list"
  q_sum :: "string option"
  q_limit :: "int option"
  q_offset :: "int option"

record coldef =
  c_name :: string
  c_type :: string
  c_notnull :: bool
  c_default :: "jsval option"

record dbtable =
  t_cols :: "coldef list"
  t_pk :: "string list"
  t_rows :: "obj list"

type_synonym db = "string \<Rightarrow> dbtable option"

text \<open>\<open>SMissing a b\<close> is the one raw statement of the code, the search for gaps of block heights.\<close>

datatype stmt =
    SCreate string "coldef list" "string list"
  | SInsertMerge string obj "string list"
  | SSelect query
  | SDelete query
  | SUpdate query obj
  | SIncr string obj "(string \<times> int) list"
  | SDecr string obj "(string \<times> int) list"
  | SCount query bool string
  | SMissing int int

datatype sqlres = RRows "obj list" | RCount int

type_synonym engine = "stmt \<Rightarrow> db \<Rightarrow> string + (sqlres \<times> db)"

subsection \<open>Values in columns\<close>

fun num_prefix_aux :: "int \<Rightarrow> string \<Rightarrow> int" where
  "num_prefix_aux acc [] = acc"
| "num_prefix_aux acc (c # cs) =
     (if is_digit c then num_prefix_aux (10 * acc + int (digit_val c)) cs else acc)"

definition num_prefix :: "string \<Rightarrow> int" where
  "num_prefix s = (case dropWhile is_space s of
       [] \<Rightarrow> 0
     | c # cs \<Rightarrow> if c = CHR ''-'' then - num_prefix_aux 0 cs
                 else if c = CHR ''+'' then num_prefix_aux 0 cs
                 else num_prefix_aux 0 (c # cs))"

fun sql_num :: "jsval \<Rightarrow> int" where
  "sql_num (JNum n) = n"
| "sql_num (JBig n) = n"
| "sql_num (JBool b) = (if b then 1 else 0)"
| "sql_num (JStr s) = num_prefix s"
| "sql_num _ = 0"

definition is_numeric_type :: "string \<Rightarrow> bool" where
  "is_numeric_type ty = (ty \<in> {''integer'', ''bigInteger'', ''boolean'', ''number''})"

text \<open>The value a column of the given type keeps of a bound value.\<close>

definition store_val :: "string \<Rightarrow> jsval \<Rightarrow> jsval" where
  "store_val ty v =
     (if v = JNull \<or> v = JUndef then JNull
      else if is_numeric_type ty then JNum (sql_num v)
      else case v of
          JBool b \<Rightarrow> JStr (if b then ''1'' else ''0'')
        | _ \<Rightarrow> JStr (js_string v))"

definition sql_null :: "jsval \<Rightarrow> bool" where
  "sql_null v = (v = JNull \<or> v = JUndef)"

definition sql_less :: "jsval \<Rightarrow> jsval \<Rightarrow> bool" where
  "sql_less a b = (case (a, b) of
       (JStr s, JStr t) \<Rightarrow> str_less s t
     | _ \<Rightarrow> sql_num a < sql_num b)"

definition sql_eq :: "jsval \<Rightarrow> jsval \<Rightarrow> bool" where
  "sql_eq a b = (case (a, b) of
       (JStr s, JStr t) \<Rightarrow> s = t
     | _ \<Rightarrow> sql_num a = sql_num b)"

text \<open>\<open>like p s\<close>: pattern \<open>p\<close> with the wildcards \<open>%\<close> and \<open>_\<close>.\<close>

fun like :: "string \<Rightarrow> string \<Rightarrow> bool" where
  "like [] s = (s = [])"
| "like (p # ps) [] = (p = CHR ''%'' \<and> like ps [])"
| "like (p # ps) (c # cs) =
     (if p = CHR ''%'' then like ps (c # cs) \<or> like (p # ps) cs
      else (p = CHR ''_'' \<or> p = c) \<and> like ps cs)"

fun sql_cmp :: "wop \<Rightarrow> jsval \<Rightarrow> jsval \<Rightarrow> bool" where
  "sql_cmp OpEq a b = (if sql_null b then sql_null a else \<not> sql_null a \<and> sql_eq a b)"
| "sql_cmp OpGe a b = (\<not> sql_null a \<and> \<not> sql_null b \<and> \<not> sql_less a b)"
| "sql_cmp OpLe a b = (\<not> sql_null a \<and> \<not> sql_null b \<and> \<not> sql_less b a)"
| "sql_cmp OpGt a b = (\<not> sql_null a \<and> \<not> sql_null b \<and> sql_less b a)"
| "sql_cmp OpLt a b = (\<not> sql_null a \<and> \<not> sql_null b \<and> sql_less a b)"
| "sql_cmp OpLike a b = (\<not> sql_null a \<and> \<not> sql_null b \<and> like (js_string b) (js_string a))"

subsection \<open>Rows\<close>

text \<open>Column names are not case sensitive; an exact match is the common case.\<close>

definition resolve_col :: "string list \<Rightarrow> string \<Rightarrow> string" where
  "resolve_col cs c =
     (if c \<in> set cs then c
      else case find (\<lambda>d. map lower_chr d = map lower_chr c) cs of Some d \<Rightarrow> d | None \<Rightarrow> c)"

definition col_val :: "obj \<Rightarrow> string \<Rightarrow> jsval" where
  "col_val r c = oget r (resolve_col (map fst r) c)"

text \<open>\<open>jc\<close> decides containment of JSON documents (\<open>json_contains\<close> of the server).\<close>

fun weval :: "(jsval \<Rightarrow> jsval list \<Rightarrow> bool) \<Rightarrow> obj \<Rightarrow> wcond \<Rightarrow> bool"
  and wseq :: "(jsval \<Rightarrow> jsval list \<Rightarrow> bool) \<Rightarrow> obj \<Rightarrow> bool \<Rightarrow> wclause \<Rightarrow> bool"
  and wtop :: "(jsval \<Rightarrow> jsval list \<Rightarrow> bool) \<Rightarrow> obj \<Rightarrow> wclause \<Rightarrow> bool" where
  "weval jc r (WCmp c p v) = sql_cmp p (col_val r c) v"
| "weval jc r (WNotNull c) = (\<not> sql_null (col_val r c))"
| "weval jc r (WIn cs vs) = (case cs of
       [c] \<Rightarrow> (\<exists>v \<in> set vs. \<not> sql_null v \<and> sql_cmp OpEq (col_val r c) v)
     | _ \<Rightarrow> (\<exists>v \<in> set vs. case v of
           JArr us \<Rightarrow> length us = length cs
             \<and> (\<forall>(c, u) \<in> set (zip cs us). \<not> sql_null u \<and> sql_cmp OpEq (col_val r c) u)
         | _ \<Rightarrow> False))"
| "weval jc r (WJson c vs) = jc (col_val r c) vs"
| "weval jc r (WGroup ws) = wtop jc r ws"
| "wseq jc r acc [] = acc"
| "wseq jc r acc ((isor, w) # ws) =
     (if isor then acc \<or> wseq jc r (weval jc r w) ws
      else wseq jc r (acc \<and> weval jc r w) ws)"
| "wtop jc r [] = True"
| "wtop jc r ((isor, w) # ws) = wseq jc r (weval jc r w) ws"

text \<open>The builder refuses a statement with an undefined value in a condition.\<close>

fun wundef :: "wcond \<Rightarrow> bool" and wsundef :: "wclause \<Rightarrow> bool" where
  "wundef (WCmp c p v) = (v = JUndef)"
| "wundef (WNotNull c) = False"
| "wundef (WIn cs vs) = (JUndef \<in> set vs)"
| "wundef (WJson c vs) = False"
| "wundef (WGroup ws) = wsundef ws"
| "wsundef [] = False"
| "wsundef ((isor, w) # ws) = (wundef w \<or> wsundef ws)"

definition where_obj :: "obj \<Rightarrow> wclause" where
  "where_obj ob = map (\<lambda>(k, v). (False, WCmp k OpEq v)) ob"

definition row_key :: "string list \<Rightarrow> obj \<Rightarrow> jsval list" where
  "row_key pk r = map (oget r) pk"

definition new_row :: "coldef list \<Rightarrow> obj \<Rightarrow> obj" where
  "new_row cols row = map (\<lambda>c. (c_name c,
     if ohas row (c_name c) then store_val (c_type c) (oget row (c_name c))
     else (case c_default c of Some d \<Rightarrow> store_val (c_type c) d | None \<Rightarrow> JNull))) cols"

definition col_type :: "coldef list \<Rightarrow> string \<Rightarrow> string" where
  "col_type cols k = (case find (\<lambda>c. c_name c = k) cols of Some c \<Rightarrow> c_type c | None \<Rightarrow> [])"

definition merge_row :: "coldef list \<Rightarrow> obj \<Rightarrow> obj \<Rightarrow> obj" where
  "merge_row cols row old =
     map (\<lambda>(k, v). (k, if ohas row k then store_val (col_type cols k) (oget row k) else v)) old"

definition lookup_row :: "string list \<Rightarrow> jsval list \<Rightarrow> obj list \<Rightarrow> obj option" where
  "lookup_row pk key rows = find (\<lambda>r. row_key pk r = key) rows"

definition upsert_rows :: "coldef list \<Rightarrow> string list \<Rightarrow> obj \<Rightarrow> obj list \<Rightarrow> obj list" where
  "upsert_rows cols pk row rows =
     (let new = new_row cols row; key = row_key pk new in
      if key \<in> set (map (row_key pk) rows)
      then map (\<lambda>r. if row_key pk r = key then merge_row cols row r else r) rows
      else rows @ [new])"

text \<open>Why the server refuses to insert a row, if it does.\<close>

definition insert_error :: "coldef list \<Rightarrow> string list \<Rightarrow> obj \<Rightarrow> string option" where
  "insert_error cols pk row =
     (if \<exists>k \<in> set (map fst row). k \<notin> set (map c_name cols) then Some ''ER_BAD_FIELD_ERROR''
      else if \<exists>c \<in> set cols. (c_notnull c \<or> c_name c \<in> set pk)
               \<and> ohas row (c_name c) \<and> sql_null (oget row (c_name c))
        then Some ''ER_BAD_NULL_ERROR''
      else if \<exists>c \<in> set cols. (c_name c \<in> set pk \<or> (c_notnull c \<and> c_default c = None))
               \<and> \<not> ohas row (c_name c)
        then Some ''ER_NO_DEFAULT_FOR_FIELD''
      else None)"

definition incr_row :: "coldef list \<Rightarrow> (string \<times> int) list \<Rightarrow> obj \<Rightarrow> obj" where
  "incr_row cols incs r =
     map (\<lambda>(k, v). (k, case map_of incs k of
           None \<Rightarrow> v
         | Some n \<Rightarrow> if sql_null v then JNull else store_val (col_type cols k) (JNum (sql_num v + n)))) r"

definition project :: "string list \<Rightarrow> obj \<Rightarrow> obj" where
  "project cs r = map (\<lambda>c. (c, col_val r c)) (remdups cs)"

fun insert_by :: "('a \<Rightarrow> 'a \<Rightarrow> bool) \<Rightarrow> 'a \<Rightarrow> 'a list \<Rightarrow> 'a list" where
  "insert_by lt x [] = [x]"
| "insert_by lt x (y # ys) = (if lt y x then y # insert_by lt x ys else x # y # ys)"

text \<open>A stable sort: rows with equal keys keep their order.\<close>

definition sort_by :: "('a \<Rightarrow> 'a \<Rightarrow> bool) \<Rightarrow> 'a list \<Rightarrow> 'a list" where
  "sort_by lt xs = foldr (insert_by lt) xs []"

definition row_before :: "string \<times> string \<Rightarrow> obj \<Rightarrow> obj \<Rightarrow> bool" where
  "row_before od a b = (case od of (c, dir) \<Rightarrow>
     if dir = ''desc'' then sql_less (col_val b c) (col_val a c)
     else sql_less (col_val a c) (col_val b c))"

definition order_rows :: "(string \<times> string) list \<Rightarrow> obj list \<Rightarrow> obj list" where
  "order_rows os rows = foldr (\<lambda>od rs. sort_by (row_before od) rs) os rows"

definition limit_rows :: "int option \<Rightarrow> int option \<Rightarrow> 'a list \<Rightarrow> 'a list" where
  "limit_rows lim off rs =
     (let rs' = (case off of None \<Rightarrow> rs | Some k \<Rightarrow> drop (nat k) rs)
      in case lim of None \<Rightarrow> rs' | Some n \<Rightarrow> take (nat n) rs')"

definition select_rows :: "(jsval \<Rightarrow> jsval list \<Rightarrow> bool) \<Rightarrow> query \<Rightarrow> obj list \<Rightarrow> obj list" where
  "select_rows jc q rows =
     (let hits = filter (\<lambda>r. wtop jc r (q_where q)) rows;
          cs = q_select q @ q_distinct q @ map fst (q_order q);
          projected = map (project cs) (order_rows (q_order q) hits);
          uniq = (if q_distinct q = [] then projected else remdups projected);
          agg = (case q_sum q of
              None \<Rightarrow> uniq
            | Some c \<Rightarrow> [[(''total'', JNum (sum_list (map (\<lambda>r. sql_num (col_val r c)) hits)))]])
      in limit_rows (q_limit q) (q_offset q) agg)"

text \<open>
  The gap search over the column \<open>height\<close>: for every stored height strictly between the
  bounds whose predecessor is not stored, the range from the highest stored height below it
  (or the lower bound) to that predecessor.
\<close>

definition missing_ranges :: "int \<Rightarrow> int \<Rightarrow> int list \<Rightarrow> (int \<times> int) list" where
  "missing_ranges lo hi hs =
     map (\<lambda>h. (case filter (\<lambda>g. g < h) hs of [] \<Rightarrow> lo | g # gs \<Rightarrow> fold max gs g, h - 1))
       (filter (\<lambda>h. lo + 1 \<le> h \<and> h \<le> hi \<and> h \<noteq> hi \<and> h - 1 \<notin> set hs) hs)"

subsection \<open>Running a statement\<close>

definition with_table :: "db \<Rightarrow> string \<Rightarrow> (dbtable \<Rightarrow> string + (sqlres \<times> db)) \<Rightarrow> string + (sqlres \<times> db)" where
  "with_table d t f = (case d t of None \<Rightarrow> Inl ''ER_NO_SUCH_TABLE'' | Some tb \<Rightarrow> f tb)"

definition set_rows :: "db \<Rightarrow> string \<Rightarrow> dbtable \<Rightarrow> obj list \<Rightarrow> db" where
  "set_rows d t tb rows = d(t \<mapsto> tb\<lparr>t_rows := rows\<rparr>)"

fun sql_run :: "(jsval \<Rightarrow> jsval list \<Rightarrow> bool) \<Rightarrow> engine" where
  "sql_run jc (SCreate t cols pk) d =
     (if d t = None
      then Inr (RCount 0, d(t \<mapsto> \<lparr>t_cols = cols, t_pk = pk, t_rows = []\<rparr>))
      else Inl ''ER_TABLE_EXISTS_ERROR'')"
| "sql_run jc (SInsertMerge t row pk) d = with_table d t (\<lambda>tb.
     case insert_error (t_cols tb) (t_pk tb) row of
       Some e \<Rightarrow> Inl e
     | None \<Rightarrow> Inr (RCount 1, set_rows d t tb (upsert_rows (t_cols tb) (t_pk tb) row (t_rows tb))))"
| "sql_run jc (SSelect q) d = with_table d (q_table q) (\<lambda>tb.
     if wsundef (q_where q) then Inl ''Undefined binding(s) detected''
     else Inr (RRows (select_rows jc q (t_rows tb)), d))"
| "sql_run jc (SDelete q) d = with_table d (q_table q) (\<lambda>tb.
     if wsundef (q_where q) then Inl ''Undefined binding(s) detected''
     else Inr (RCount (int (length (filter (\<lambda>r. wtop jc r (q_where q)) (t_rows tb)))),
               set_rows d (q_table q) tb (filter (\<lambda>r. \<not> wtop jc r (q_where q)) (t_rows tb))))"
| "sql_run jc (SUpdate q upd) d = with_table d (q_table q) (\<lambda>tb.
     if wsundef (q_where q) then Inl ''Undefined binding(s) detected''
     else Inr (RCount (int (length (filter (\<lambda>r. wtop jc r (q_where q)) (t_rows tb)))),
               set_rows d (q_table q) tb
                 (map (\<lambda>r. if wtop jc r (q_where q) then merge_row (t_cols tb) upd r else r) (t_rows tb))))"
| "sql_run jc (SIncr t wh incs) d = with_table d t (\<lambda>tb.
     if wsundef (where_obj wh) then Inl ''Undefined binding(s) detected''
     else Inr (RCount (int (length (filter (\<lambda>r. wtop jc r (where_obj wh)) (t_rows tb)))),
               set_rows d t tb
                 (map (\<lambda>r. if wtop jc r (where_obj wh) then incr_row (t_cols tb) incs r else r) (t_rows tb))))"
| "sql_run jc (SDecr t wh incs) d = with_table d t (\<lambda>tb.
     if wsundef (where_obj wh) then Inl ''Undefined binding(s) detected''
     else Inr (RCount (int (length (filter (\<lambda>r. wtop jc r (where_obj wh)) (t_rows tb)))),
               set_rows d t tb
                 (map (\<lambda>r. if wtop jc r (where_obj wh)
                   then incr_row (t_cols tb) (map (\<lambda>(k, n). (k, - n)) incs) r else r) (t_rows tb))))"
| "sql_run jc (SCount q dist c) d = with_table d (q_table q) (\<lambda>tb.
     if wsundef (q_where q) then Inl ''Undefined binding(s) detected''
     else let vs = filter (\<lambda>v. \<not> sql_null v)
                     (map (\<lambda>r. col_val r c) (filter (\<lambda>r. wtop jc r (q_where q)) (t_rows tb)))
          in Inr (RCount (int (length (if dist then remdups vs else vs))), d))"
| "sql_run jc (SMissing lo hi) d = with_table d ''blocks'' (\<lambda>tb.
     Inr (RRows (map (\<lambda>(a, b). [(''from'', JNum a), (''to'', JNum b)])
            (missing_ranges lo hi (map (\<lambda>r. sql_num (oget r ''height'')) (t_rows tb)))), d))"

text \<open>The rows of a table, none when the table does not exist.\<close>

definition rows_of :: "db \<Rightarrow> string \<Rightarrow> obj list" where
  "rows_of d t = (case d t of None \<Rightarrow> [] | Some tb \<Rightarrow> t_rows tb)"

subsection \<open>Well-formed tables\<close>

text \<open>
  Every row of a table has exactly the table's columns, each with a value of the column's
  type, no two rows share a primary key, and no cell of a primary key is null.
\<close>

definition typed_val :: "string \<Rightarrow> jsval \<Rightarrow> bool" where
  "typed_val ty v = (case v of
       JNull \<Rightarrow> True
     | JNum _ \<Rightarrow> is_numeric_type ty
     | JStr _ \<Rightarrow> \<not> is_numeric_type ty
     | _ \<Rightarrow> False)"

definition typed_row :: "coldef list \<Rightarrow> obj \<Rightarrow> bool" where
  "typed_row cols r \<longleftrightarrow> map fst r = map c_name cols
     \<and> list_all (\<lambda>c. typed_val (c_type c) (oget r (c_name c))) cols"

definition wf_table :: "dbtable \<Rightarrow> bool" where
  "wf_table tb \<longleftrightarrow>
     distinct (map c_name (t_cols tb)) \<and> set (t_pk tb) \<subseteq> set (map c_name (t_cols tb))
     \<and> list_all (typed_row (t_cols tb)) (t_rows tb)
     \<and> distinct (map (row_key (t_pk tb)) (t_rows tb))
     \<and> list_all (\<lambda>r. JNull \<notin> set (row_key (t_pk tb) r)) (t_rows tb)"

definition wf_db :: "db \<Rightarrow> bool" where
  "wf_db d \<longleftrightarrow> (\<forall>t tb. d t = Some tb \<longrightarrow> wf_table tb)"

text \<open>A statement that does not write a primary key column in place.\<close>

fun keeps_keys :: "db \<Rightarrow> stmt \<Rightarrow> bool" where
  "keeps_keys d (SCreate t cols pk) =
     (distinct (map c_name cols) \<and> set pk \<subseteq> set (map c_name cols))"
| "keeps_keys d (SUpdate q upd) =
     (case d (q_table q) of None \<Rightarrow> True | Some tb \<Rightarrow> \<forall>k \<in> set (t_pk tb). \<not> ohas upd k)"
| "keeps_keys d (SIncr t wh incs) =
     (case d t of None \<Rightarrow> True | Some tb \<Rightarrow> \<forall>k \<in> set (t_pk tb). map_of incs k = None)"
| "keeps_keys d (SDecr t wh incs) =
     (case d t of None \<Rightarrow> True | Some tb \<Rightarrow> \<forall>k \<in> set (t_pk tb). map_of incs k = None)"
| "keeps_keys d _ = True"

lemma map_fst_new_row [simp]: "map fst (new_row cols row) = map c_name cols"
  by (simp add: new_row_def comp_def)

lemma map_fst_merge_row [simp]: "map fst (merge_row cols row r) = map fst r"
  by (induction r) (auto simp: merge_row_def)

lemma map_fst_incr_row [simp]: "map fst (incr_row cols incs r) = map fst r"
  by (induction r) (auto simp: incr_row_def)

lemma oget_map_val:
  "ohas r k \<Longrightarrow> oget (map (\<lambda>(k, v). (k, f k v)) r) k = f k (oget r k)"
  by (induction r) auto

lemma oget_merge_row:
  "ohas r k \<Longrightarrow>
   oget (merge_row cols row r) k =
     (if ohas row k then store_val (col_type cols k) (oget row k) else oget r k)"
  by (simp add: merge_row_def oget_map_val)

lemma oget_incr_row:
  "ohas r k \<Longrightarrow>
   oget (incr_row cols incs r) k = (case map_of incs k of
       None \<Rightarrow> oget r k
     | Some n \<Rightarrow> if sql_null (oget r k) then JNull
         else store_val (col_type cols k) (JNum (sql_num (oget r k) + n)))"
  by (simp add: incr_row_def oget_map_val)

lemma oget_new_row:
  assumes "distinct (map c_name cols)" and "c \<in> set cols"
  shows "oget (new_row cols row) (c_name c) =
     (if ohas row (c_name c) then store_val (c_type c) (oget row (c_name c))
      else (case c_default c of Some d \<Rightarrow> store_val (c_type c) d | None \<Rightarrow> JNull))"
  using assms
proof (induction cols)
  case (Cons a cols)
  show ?case
  proof (cases "c = a")
    case True
    show ?thesis unfolding True by (simp add: new_row_def)
  next
    case False
    with Cons.prems have c: "c \<in> set cols" by simp
    then have "c_name c \<in> c_name ` set cols" by (rule imageI)
    with Cons.prems have "c_name c \<noteq> c_name a" by auto
    with c Cons show ?thesis by (simp add: new_row_def)
  qed
qed simp

lemma col_type_eq:
  assumes "distinct (map c_name cols)" and "c \<in> set cols"
  shows "col_type cols (c_name c) = c_type c"
  using assms
proof (induction cols)
  case (Cons a cols)
  then show ?case by (cases "c = a") (force simp: col_type_def)+
qed simp

lemma typed_store_val [simp]: "typed_val ty (store_val ty v)"
  by (cases v) (simp_all add: typed_val_def store_val_def)

lemma typed_JNull [simp]: "typed_val ty JNull"
  by (simp add: typed_val_def)

lemma typed_row_fst: "typed_row cols r \<Longrightarrow> map fst r = map c_name cols"
  by (simp add: typed_row_def)

lemma typed_row_ohas: "typed_row cols r \<Longrightarrow> c \<in> set cols \<Longrightarrow> ohas r (c_name c)"
  unfolding ohas_def by (simp add: typed_row_def)

lemma typed_new_row:
  assumes "distinct (map c_name cols)"
  shows "typed_row cols (new_row cols row)"
  by (auto simp: typed_row_def list_all_iff oget_new_row [OF assms] split: option.splits)

lemma typed_merge_row:
  assumes "distinct (map c_name cols)" and "typed_row cols r"
  shows "typed_row cols (merge_row cols row r)"
  using assms typed_row_ohas [OF assms(2)] col_type_eq [OF assms(1)]
  by (auto simp: typed_row_def list_all_iff oget_merge_row)

lemma typed_incr_row:
  assumes "distinct (map c_name cols)" and "typed_row cols r"
  shows "typed_row cols (incr_row cols incs r)"
proof -
  have "typed_val (c_type c) (oget (incr_row cols incs r) (c_name c))" if "c \<in> set cols" for c
    using assms that typed_row_ohas [OF assms(2) that] col_type_eq [OF assms(1) that]
      typed_store_val [of "c_type c"]
    by (auto simp: typed_row_def list_all_iff oget_incr_row split: option.splits)
  then show ?thesis using assms(2) by (simp add: typed_row_def list_all_iff)
qed

lemma row_key_merge_other:
  assumes "\<And>k. k \<in> set pk \<Longrightarrow> ohas r k" and "\<And>k. k \<in> set pk \<Longrightarrow> \<not> ohas row k"
  shows "row_key pk (merge_row cols row r) = row_key pk r"
  using assms by (auto simp: row_key_def oget_merge_row)

lemma row_key_incr:
  assumes "\<And>k. k \<in> set pk \<Longrightarrow> ohas r k" and "\<And>k. k \<in> set pk \<Longrightarrow> map_of incs k = None"
  shows "row_key pk (incr_row cols incs r) = row_key pk r"
  using assms by (auto simp: row_key_def oget_incr_row)

lemma insert_error_None_pk:
  "insert_error cols pk row = None \<Longrightarrow> set pk \<subseteq> set (map c_name cols) \<Longrightarrow> k \<in> set pk \<Longrightarrow> ohas row k"
  by (auto simp: insert_error_def split: if_splits)

text \<open>A row merged into the row with its own key keeps that key.\<close>

lemma row_key_merge_same:
  assumes d: "distinct (map c_name cols)" and pk: "set pk \<subseteq> set (map c_name cols)"
    and r: "map fst r = map c_name cols" and ok: "insert_error cols pk row = None"
  shows "row_key pk (merge_row cols row r) = row_key pk (new_row cols row)"
proof -
  have "oget (merge_row cols row r) k = oget (new_row cols row) k" if k: "k \<in> set pk" for k
  proof -
    from pk k obtain c where c: "c \<in> set cols" "k = c_name c" by auto
    moreover have "ohas r k" using pk k unfolding ohas_def r by auto
    moreover have "ohas row k" by (rule insert_error_None_pk [OF ok pk k])
    ultimately show ?thesis
      using oget_new_row [OF d c(1)] col_type_eq [OF d c(1)] by (simp add: oget_merge_row)
  qed
  then show ?thesis by (simp add: row_key_def)
qed

lemma keys_upsert_rows:
  assumes d: "distinct (map c_name cols)" and pk: "set pk \<subseteq> set (map c_name cols)"
    and rows: "list_all (typed_row cols) rows"
    and ok: "insert_error cols pk row = None"
  shows "map (row_key pk) (upsert_rows cols pk row rows) =
    (let key = row_key pk (new_row cols row) in
     if key \<in> set (map (row_key pk) rows) then map (row_key pk) rows
     else map (row_key pk) rows @ [key])"
  using row_key_merge_same [OF d pk _ ok] rows
  by (auto simp: upsert_rows_def Let_def list_all_iff typed_row_fst)

lemma new_row_key_not_null:
  assumes d: "distinct (map c_name cols)" and pk: "set pk \<subseteq> set (map c_name cols)"
    and ok: "insert_error cols pk row = None"
  shows "JNull \<notin> set (row_key pk (new_row cols row))"
proof
  assume "JNull \<in> set (row_key pk (new_row cols row))"
  then obtain k where k: "k \<in> set pk" and null: "oget (new_row cols row) k = JNull" by (auto simp: row_key_def)
  from pk k obtain c where c: "c \<in> set cols" "k = c_name c" by auto
  have has: "ohas row k" by (rule insert_error_None_pk [OF ok pk k])
  with ok c k have "\<not> sql_null (oget row k)" by (auto simp: insert_error_def split: if_splits)
  with oget_new_row [OF d c(1)] has c null show False
    by (auto simp: store_val_def sql_null_def split: if_splits jsval.splits)
qed

lemma wf_table_upsert:
  assumes wf: "wf_table tb" and ok: "insert_error (t_cols tb) (t_pk tb) row = None"
  shows "wf_table (tb\<lparr>t_rows := upsert_rows (t_cols tb) (t_pk tb) row (t_rows tb)\<rparr>)"
proof -
  let ?rows = "upsert_rows (t_cols tb) (t_pk tb) row (t_rows tb)"
  from wf have d: "distinct (map c_name (t_cols tb))"
    and pk: "set (t_pk tb) \<subseteq> set (map c_name (t_cols tb))"
    and rows: "list_all (typed_row (t_cols tb)) (t_rows tb)"
    and dk: "distinct (map (row_key (t_pk tb)) (t_rows tb))"
    and nn: "\<forall>k \<in> set (map (row_key (t_pk tb)) (t_rows tb)). JNull \<notin> set k"
    by (auto simp: wf_table_def list_all_iff)
  have "list_all (typed_row (t_cols tb)) ?rows"
    using rows by (auto simp: upsert_rows_def Let_def list_all_iff typed_new_row [OF d] typed_merge_row [OF d])
  moreover have "distinct (map (row_key (t_pk tb)) ?rows)"
    unfolding keys_upsert_rows [OF d pk rows ok] using dk by (auto simp: Let_def)
  moreover have "\<forall>k \<in> set (map (row_key (t_pk tb)) ?rows). JNull \<notin> set k"
    unfolding keys_upsert_rows [OF d pk rows ok] using nn new_row_key_not_null [OF d pk ok] by (auto simp: Let_def)
  then have "list_all (\<lambda>r. JNull \<notin> set (row_key (t_pk tb) r)) ?rows" by (simp add: list_all_iff)
  ultimately show ?thesis using d pk by (simp add: wf_table_def)
qed

lemma wf_table_filter: "wf_table tb \<Longrightarrow> wf_table (tb\<lparr>t_rows := filter P (t_rows tb)\<rparr>)"
  by (auto simp: wf_table_def list_all_iff distinct_map intro: inj_on_subset)

lemma wf_table_map_rows:
  assumes wf: "wf_table tb"
    and f: "\<And>r. typed_row (t_cols tb) r \<Longrightarrow>
              typed_row (t_cols tb) (f r) \<and> row_key (t_pk tb) (f r) = row_key (t_pk tb) r"
  shows "wf_table (tb\<lparr>t_rows := map f (t_rows tb)\<rparr>)"
proof -
  from wf have rows: "\<And>r. r \<in> set (t_rows tb) \<Longrightarrow> typed_row (t_cols tb) r"
    by (simp add: wf_table_def list_all_iff)
  have "map (row_key (t_pk tb)) (map f (t_rows tb)) = map (row_key (t_pk tb)) (t_rows tb)"
    using f rows by simp
  then have "distinct (map (row_key (t_pk tb)) (map f (t_rows tb)))"
    using wf unfolding wf_table_def by metis
  with wf f rows show ?thesis by (simp add: wf_table_def list_all_iff)
qed

lemma wf_db_upd: "wf_db d \<Longrightarrow> wf_table tb \<Longrightarrow> wf_db (d(t \<mapsto> tb))"
  by (simp add: wf_db_def)

lemma pk_in_row:
  "wf_table tb \<Longrightarrow> typed_row (t_cols tb) r \<Longrightarrow> k \<in> set (t_pk tb) \<Longrightarrow> ohas r k"
  by (auto simp: wf_table_def typed_row_def ohas_def)

lemma wf_table_distinct: "wf_table tb \<Longrightarrow> distinct (map c_name (t_cols tb))"
  by (simp add: wf_table_def)

lemma wf_db_set_rows:
  "wf_db d \<Longrightarrow> wf_table (tb\<lparr>t_rows := rows\<rparr>) \<Longrightarrow> wf_db (set_rows d t tb rows)"
  by (simp add: set_rows_def wf_db_upd)

text \<open>Every statement that keeps its key columns keeps every table well-formed.\<close>

lemma sql_run_wf:
  assumes wf: "wf_db d" and kk: "keeps_keys d st" and run: "sql_run jc st d = Inr (r, d')"
  shows "wf_db d'"
proof (cases st)
  case (SCreate t cols pk)
  with wf kk run show ?thesis by (auto simp: wf_table_def intro!: wf_db_upd split: if_splits)
next
  case (SInsertMerge t row pk)
  with wf run show ?thesis
    by (auto simp: with_table_def wf_db_def [of d] split: option.splits
        intro!: wf_db_set_rows wf_table_upsert wf)
next
  case (SDelete q)
  with wf run show ?thesis
    by (auto simp: with_table_def wf_db_def [of d] split: option.splits if_splits
        intro!: wf_db_set_rows wf_table_filter wf)
next
  case (SUpdate q upd)
  with kk run wf show ?thesis
    by (auto simp: with_table_def wf_db_def [of d] split: option.splits if_splits
        intro!: wf_db_set_rows wf_table_map_rows row_key_merge_other typed_merge_row wf wf_table_distinct elim!: pk_in_row [rotated])
next
  case (SIncr t wh incs)
  with kk run wf show ?thesis
    by (auto simp: with_table_def wf_db_def [of d] split: option.splits if_splits
        intro!: wf_db_set_rows wf_table_map_rows row_key_incr typed_incr_row wf wf_table_distinct elim!: pk_in_row [rotated])
next
  case (SDecr t wh incs)
  with kk run wf show ?thesis
    by (auto simp: with_table_def wf_db_def [of d] map_of_map split: option.splits if_splits
        intro!: wf_db_set_rows wf_table_map_rows row_key_incr typed_incr_row wf wf_table_distinct elim!: pk_in_row [rotated])
qed (use run wf in \<open>auto simp: with_table_def Let_def split: option.splits if_splits\<close>)

subsection \<open>Lookup by primary key\<close>

lemma find_map_if:
  assumes "\<And>x. P (f x) = P x"
  shows "find P (map f xs) = map_option f (find P xs)"
  using assms by (induction xs) auto

lemma find_append: "find P (xs @ ys) = (case find P xs of None \<Rightarrow> find P ys | Some x \<Rightarrow> Some x)"
  by (induction xs) auto

lemma lookup_row_None: "lookup_row pk key rows = None \<longleftrightarrow> key \<notin> set (map (row_key pk) rows)"
  by (auto simp: lookup_row_def find_None_iff)

lemma lookup_row_Some: "lookup_row pk key rows = Some r \<Longrightarrow> r \<in> set rows \<and> row_key pk r = key"
  by (auto simp: lookup_row_def find_Some_iff)

lemma find_cong_map:
  assumes "\<And>r. r \<in> set rows \<Longrightarrow> P (f r) = P r"
  shows "find P (map f rows) = map_option f (find P rows)"
  using assms by (induction rows) auto

text \<open>
  What a lookup returns after an upsert: the merged row under the key that was written, the
  old row under every other key.
\<close>

lemma lookup_upsert:
  assumes wf: "wf_table tb" and ok: "insert_error (t_cols tb) (t_pk tb) row = None"
  defines "new \<equiv> new_row (t_cols tb) row"
  shows "lookup_row (t_pk tb) key (upsert_rows (t_cols tb) (t_pk tb) row (t_rows tb)) =
    (if key = row_key (t_pk tb) new
     then Some (case lookup_row (t_pk tb) key (t_rows tb) of
         None \<Rightarrow> new | Some r \<Rightarrow> merge_row (t_cols tb) row r)
     else lookup_row (t_pk tb) key (t_rows tb))"
proof -
  let ?pk = "t_pk tb" and ?cols = "t_cols tb" and ?rows = "t_rows tb"
  let ?key = "row_key ?pk new"
  let ?f = "\<lambda>r. if row_key ?pk r = ?key then merge_row ?cols row r else r"
  from wf have d: "distinct (map c_name ?cols)" and pk: "set ?pk \<subseteq> set (map c_name ?cols)"
    and rows: "\<And>r. r \<in> set ?rows \<Longrightarrow> map fst r = map c_name ?cols"
    by (auto simp: wf_table_def list_all_iff typed_row_def)
  have f: "row_key ?pk (?f r) = row_key ?pk r" if "r \<in> set ?rows" for r
    using row_key_merge_same [OF d pk rows [OF that] ok] by (auto simp: new_def)
  show ?thesis
  proof (cases "?key \<in> set (map (row_key ?pk) ?rows)")
    case True
    then have eq: "lookup_row ?pk key (upsert_rows ?cols ?pk row ?rows)
        = map_option ?f (lookup_row ?pk key ?rows)"
      using f by (simp add: upsert_rows_def lookup_row_def Let_def new_def [symmetric] find_cong_map)
    show ?thesis
    proof (cases "lookup_row ?pk key ?rows")
      case None
      with True have "key \<noteq> ?key" by (auto simp: lookup_row_None)
      with None eq show ?thesis by simp
    next
      case (Some r)
      then have "row_key ?pk r = key" by (simp add: lookup_row_Some)
      with Some eq show ?thesis by auto
    qed
  next
    case False
    then have "lookup_row ?pk ?key ?rows = None" by (simp add: lookup_row_None)
    with False show ?thesis
      by (auto simp: upsert_rows_def lookup_row_def Let_def new_def [symmetric] find_append
          split: option.splits)
  qed
qed

text \<open>Column by column: what was written, or else what the key's row had before, or else the default.\<close>

lemma lookup_upsert_cols:
  assumes wf: "wf_table tb" and ok: "insert_error (t_cols tb) (t_pk tb) row = None"
  defines "key \<equiv> row_key (t_pk tb) (new_row (t_cols tb) row)"
  shows "\<exists>r. lookup_row (t_pk tb) key (upsert_rows (t_cols tb) (t_pk tb) row (t_rows tb)) = Some r
    \<and> (\<forall>c \<in> set (t_cols tb). oget r (c_name c) =
        (if ohas row (c_name c) then store_val (c_type c) (oget row (c_name c))
         else case lookup_row (t_pk tb) key (t_rows tb) of
             Some r0 \<Rightarrow> oget r0 (c_name c)
           | None \<Rightarrow> (case c_default c of Some d \<Rightarrow> store_val (c_type c) d | None \<Rightarrow> JNull)))"
proof (cases "lookup_row (t_pk tb) key (t_rows tb)")
  case None
  then show ?thesis
    using lookup_upsert [OF wf ok, of key] oget_new_row [OF wf_table_distinct [OF wf]]
    by (simp add: key_def)
next
  case (Some r0)
  from wf lookup_row_Some [OF Some] have r0: "typed_row (t_cols tb) r0"
    by (auto simp: wf_table_def list_all_iff)
  show ?thesis
    using lookup_upsert [OF wf ok, of key] Some typed_row_ohas [OF r0]
      col_type_eq [OF wf_table_distinct [OF wf]]
    by (simp add: key_def oget_merge_row)
qed

text \<open>The key under which a row is kept.\<close>

lemma row_key_new:
  assumes "wf_table tb" and "insert_error (t_cols tb) (t_pk tb) row = None"
  shows "row_key (t_pk tb) (new_row (t_cols tb) row)
    = map (\<lambda>k. store_val (col_type (t_cols tb) k) (oget row k)) (t_pk tb)"
proof -
  have "oget (new_row (t_cols tb) row) k = store_val (col_type (t_cols tb) k) (oget row k)"
    if "k \<in> set (t_pk tb)" for k
  proof -
    from assms(1) that obtain c where c: "c \<in> set (t_cols tb)" "k = c_name c"
      by (auto simp: wf_table_def)
    moreover have "ohas row k"
      using insert_error_None_pk [OF assms(2) _ that] assms(1) by (simp add: wf_table_def)
    ultimately show ?thesis
      using oget_new_row [OF wf_table_distinct [OF assms(1)] c(1)]
        col_type_eq [OF wf_table_distinct [OF assms(1)] c(1)] by simp
  qed
  then show ?thesis by (simp add: row_key_def)
qed

lemma filter_eq_find:
  "distinct (map f xs) \<Longrightarrow>
   filter (\<lambda>x. f x = a) xs = (case find (\<lambda>x. f x = a) xs of None \<Rightarrow> [] | Some x \<Rightarrow> [x])"
proof (induction xs)
  case (Cons x xs)
  show ?case
  proof (cases "f x = a")
    case True
    with Cons.prems have "filter (\<lambda>x. f x = a) xs = []"
      by (auto simp: filter_empty_conv) (metis imageI)
    with True show ?thesis by simp
  next
    case False
    with Cons show ?thesis by simp
  qed
qed simp

lemma where_obj_simps [simp]:
  "where_obj [] = []" "where_obj ((k, v) # wh) = (False, WCmp k OpEq v) # where_obj wh"
  by (simp_all add: where_obj_def)

lemma wseq_where_obj:
  "wseq jc r acc (where_obj wh) \<longleftrightarrow> acc \<and> list_all (\<lambda>(k, v). sql_cmp OpEq (col_val r k) v) wh"
  by (induction wh arbitrary: acc) (simp_all add: split_paired_all conj_assoc del: sql_cmp.simps)

text \<open>\<open>where({k1: v1, ...})\<close> asks for every listed column to equal its value.\<close>

lemma wtop_where_obj [simp]:
  "wtop jc r (where_obj wh) \<longleftrightarrow> list_all (\<lambda>(k, v). sql_cmp OpEq (col_val r k) v) wh"
proof (cases wh)
  case (Cons p wh')
  then show ?thesis by (cases p) (simp add: wseq_where_obj del: sql_cmp.simps)
qed simp

lemma wsundef_where_obj [simp]: "wsundef (where_obj wh) \<longleftrightarrow> JUndef \<in> set (map snd wh)"
  by (induction wh) auto

lemma col_val_exact: "ohas r c \<Longrightarrow> col_val r c = oget r c"
  by (simp add: col_val_def resolve_col_def ohas_def)

lemma typed_string: "typed_val ty v \<Longrightarrow> \<not> is_numeric_type ty \<Longrightarrow> v = JNull \<or> (\<exists>s. v = JStr s)"
  by (auto simp: typed_val_def split: jsval.splits)

lemma typed_number: "typed_val ty v \<Longrightarrow> is_numeric_type ty \<Longrightarrow> v = JNull \<or> (\<exists>n. v = JNum n)"
  by (auto simp: typed_val_def split: jsval.splits)

lemma sql_eq_string_col:
  "typed_val ty v \<Longrightarrow> \<not> is_numeric_type ty \<Longrightarrow> sql_cmp OpEq v (JStr s) \<longleftrightarrow> v = JStr s"
  by (drule (1) typed_string) (auto simp: sql_null_def sql_eq_def)

lemma sql_eq_num_col:
  "typed_val ty v \<Longrightarrow> is_numeric_type ty \<Longrightarrow> sql_cmp OpEq v (JNum n) \<longleftrightarrow> v = JNum n"
  by (drule (1) typed_number) (auto simp: sql_null_def sql_eq_def)

subsection \<open>The contract of the driver\<close>

locale sql_engine =
  fixes jc :: "jsval \<Rightarrow> jsval list \<Rightarrow> bool" and kx :: engine
  assumes sound: "kx st d = Inr p \<Longrightarrow> sql_run jc st d = Inr p"
begin

lemma kx_wf: "wf_db d \<Longrightarrow> keeps_keys d st \<Longrightarrow> kx st d = Inr (r, d') \<Longrightarrow> wf_db d'"
  using sound sql_run_wf by blast

lemma kx_read_only:
  "kx (SSelect q) d = Inr (r, d') \<Longrightarrow> d' = d"
  "kx (SCount q b c) d = Inr (r, d') \<Longrightarrow> d' = d"
  "kx (SMissing lo hi) d = Inr (r, d') \<Longrightarrow> d' = d"
  by (auto dest!: sound simp: with_table_def Let_def split: option.splits if_splits)

end

text \<open>The documented meaning itself is a driver that satisfies the contract.\<close>

interpretation sql_ref: sql_engine jc "sql_run jc"
  by unfold_locales

end
