(* ===== verification/Schemas.thy ===== *)
theory Schemas
  imports MySQL
begin

text \<open>
  The tables of the blockchain indexer, one definition per file of
  \<open>services/blockchain-indexer/shared/database/schema\<close>: table name, primary key, columns
  with their type, nullability and default, and indexed columns.
\<close>

definition accountsTableSchema :: table_config where
  "accountsTableSchema = \<lparr>tableName = ''accounts'', primaryKey = [''address''], charset = None,
     schema = [
       (''address'', \<lparr>cs_type = ''string'', cs_null = None, cs_default = None\<rparr>),
       (''publicKey'', \<lparr>cs_type = ''string'', cs_null = Some True, cs_default = Some JNull\<rparr>),
       (''name'', \<lparr>cs_type = ''string'', cs_null = Some True, cs_default = Some JNull\<rparr>),
       (''isValidator'', \<lparr>cs_type = ''boolean'', cs_null = Some False, cs_default = Some (JBool False)\<rparr>)],
     indexes = []\<rparr>"

definition audiosTableSchema :: table_config where
  "audiosTableSchema = \<lparr>tableName = ''audios'', primaryKey = [''audioID''], charset = None,
     schema = [
       (''audioID'', \<lparr>cs_type = ''string'', cs_null = None, cs_default = None\<rparr>),
       (''name'', \<lparr>cs_type = ''string'', cs_null = None, cs_default = None\<rparr>),
       (''releaseYear'', \<lparr>cs_type = ''string'', cs_null = None, cs_default = None\<rparr>),
       (''collectionID'', \<lparr>cs_type = ''string'', cs_null = None, cs_default = None\<rparr>),
       (''audioSignature'', \<lparr>cs_type = ''string'', cs_null = None, cs_default = None\<rparr>),
       (''audioHash'', \<lparr>cs_type = ''string'', cs_null = None, cs_default = None\<rparr>),
       (''creatorAddress'', \<lparr>cs_type = ''string'', cs_null = None, cs_default = None\<rparr>)],
     indexes = [''creatorAddress'']\<rparr>"

definition blockchainAppsTableSchema :: table_config where
  "blockchainAppsTableSchema = \<lparr>tableName = ''blockchain_apps'', primaryKey = [''chainID''], charset = None,
     schema = [
       (''chainID'', \<lparr>cs_type = ''string'', cs_null = None, cs_default = None\<rparr>),
       (''name'', \<lparr>cs_type = ''string'', cs_null = None, cs_default = None\<rparr>),
       (''status'', \<lparr>cs_type = ''string'', cs_null = None, cs_default = None\<rparr>),
       (''address'', \<lparr>cs_type = ''string'', cs_null = None, cs_default = None\<rparr>),
       (''lastUpdated'', \<lparr>cs_type = ''string'', cs_null = None, cs_default = None\<rparr>),
       (''lastCertificateHeight'', \<lparr>cs_type = ''string'', cs_null = None, cs_default = None\<rparr>)],
     indexes = [''chainID'', ''status'', ''name'']\<rparr>"

definition blocksTableSchema :: table_config where
  "blocksTableSchema = \<lparr>tableName = ''blocks'', primaryKey = [''height''], charset = None,
     schema = [
       (''id'', \<lparr>cs_type = ''string'', cs_null = None, cs_default = None\<rparr>),
       (''height'', \<lparr>cs_type = ''integer'', cs_null = None, cs_default = None\<rparr>),
       (''timestamp'', \<lparr>cs_type = ''integer'', cs_null = None, cs_default = None\<rparr>),
       (''generatorAddress'', \<lparr>cs_type = ''string'', cs_null = None, cs_default = None\<rparr>),
       (''size'', \<lparr>cs_type = ''integer'', cs_null = None, cs_default = None\<rparr>),
       (''isFinal'', \<lparr>cs_type = ''boolean'', cs_null = None, cs_default = Some (JBool False)\<rparr>),
       (''assetsModules'', \<lparr>cs_type = ''json'', cs_null = None, cs_default = None\<rparr>),
       (''numberOfEvents'', \<lparr>cs_type = ''integer'', cs_null = None, cs_default = None\<rparr>),
       (''reward'', \<lparr>cs_type = ''bigInteger'', cs_null = None, cs_default = None\<rparr>)],
     indexes = [''id'', ''height'', ''timestamp'', ''generatorAddress'', ''size'', ''isFinal'']\<rparr>"

definition collectionsTableSchema :: table_config where
  "collectionsTableSchema = \<lparr>tableName = ''collections'', primaryKey = [''collectionID''], charset = None,
     schema = [
       (''collectionID'', \<lparr>cs_type = ''string'', cs_null = Some True, cs_default = Some JNull\<rparr>),
       (''name'', \<lparr>cs_type = ''string'', cs_null = Some True, cs_default = Some JNull\<rparr>),
       (''releaseYear'', \<lparr>cs_type = ''string'', cs_null = Some True, cs_default = Some JNull\<rparr>),
       (''collectionType'', \<lparr>cs_type = ''integer'', cs_null = Some True, cs_default = Some JNull\<rparr>),
       (''coverSignature'', \<lparr>cs_type = ''string'', cs_null = Some True, cs_default = Some JNull\<rparr>),
       (''coverHash'', \<lparr>cs_type = ''string'', cs_null = Some True, cs_default = Some JNull\<rparr>),
       (''creatorAddress'', \<lparr>cs_type = ''string'', cs_null = Some True, cs_default = Some JNull\<rparr>)],
     indexes = [''creatorAddress'']\<rparr>"

definition commissionsTableSchema :: table_config where
  "commissionsTableSchema = \<lparr>tableName = ''commissions'', primaryKey = [''address'', ''height''], charset = None,
     schema = [
       (''address'', \<lparr>cs_type = ''string'', cs_null = Some False, cs_default = None\<rparr>),
       (''commission'', \<lparr>cs_type = ''string'', cs_null = Some False, cs_default = None\<rparr>),
       (''height'', \<lparr>cs_type = ''string'', cs_null = Some False, cs_default = None\<rparr>)],
     indexes = [''address'', ''commission'', ''height'']\<rparr>"

definition eventTopicsTableSchema :: table_config where
  "eventTopicsTableSchema = \<lparr>tableName = ''event_topics'', primaryKey = [''tempID''], charset = None,
     schema = [
       (''tempID'', \<lparr>cs_type = ''string'', cs_null = None, cs_default = None\<rparr>),
       (''eventID'', \<lparr>cs_type = ''string'', cs_null = None, cs_default = None\<rparr>),
       (''topic'', \<lparr>cs_type = ''string'', cs_null = None, cs_default = None\<rparr>),
       (''height'', \<lparr>cs_type = ''integer'', cs_null = None, cs_default = None\<rparr>),
       (''index'', \<lparr>cs_type = ''integer'', cs_null = None, cs_default = None\<rparr>),
       (''timestamp'', \<lparr>cs_type = ''integer'', cs_null = None, cs_default = None\<rparr>)],
     indexes = [''topic'', ''height'']\<rparr>"

definition eventsTableSchema :: table_config where
  "eventsTableSchema = \<lparr>tableName = ''events'', primaryKey = [''id''], charset = None,
     schema = [
       (''id'', \<lparr>cs_type = ''string'', cs_null = None, cs_default = None\<rparr>),
       (''name'', \<lparr>cs_type = ''string'', cs_null = None, cs_default = None\<rparr>),
       (''module'', \<lparr>cs_type = ''string'', cs_null = None, cs_default = None\<rparr>),
       (''height'', \<lparr>cs_type = ''integer'', cs_null = None, cs_default = None\<rparr>),
       (''index'', \<lparr>cs_type = ''integer'', cs_null = None, cs_default = None\<rparr>),
       (''eventStr'', \<lparr>cs_type = ''text'', cs_null = None, cs_default = None\<rparr>)],
     indexes = [''height'']\<rparr>"

definition featsTableSchema :: table_config where
  "featsTableSchema = \<lparr>tableName = ''feats'', primaryKey = [''address'', ''audioID''], charset = None,
     schema = [
       (''address'', \<lparr>cs_type = ''string'', cs_null = Some True, cs_default = Some JNull\<rparr>),
       (''audioID'', \<lparr>cs_type = ''string'', cs_null = None, cs_default = None\<rparr>),
       (''role'', \<lparr>cs_type = ''string'', cs_null = Some True, cs_default = Some JNull\<rparr>)],
     indexes = [''creatorAddress'']\<rparr>"

definition kvStoreTableSchema :: table_config where
  "kvStoreTableSchema = \<lparr>tableName = ''key_value_store'', primaryKey = [''key''], charset = None,
     schema = [
       (''key'', \<lparr>cs_type = ''string'', cs_null = None, cs_default = None\<rparr>),
       (''value'', \<lparr>cs_type = ''string'', cs_null = None, cs_default = None\<rparr>),
       (''type'', \<lparr>cs_type = ''string'', cs_null = None, cs_default = None\<rparr>)],
     indexes = []\<rparr>"

definition membersTableSchema :: table_config where
  "membersTableSchema = \<lparr>tableName = ''members'', primaryKey = [''id''], charset = None,
     schema = [
       (''id'', \<lparr>cs_type = ''string'', cs_null = None, cs_default = None\<rparr>),
       (''address'', \<lparr>cs_type = ''string'', cs_null = None, cs_default = None\<rparr>),
       (''shared'', \<lparr>cs_type = ''string'', cs_null = Some True, cs_default = None\<rparr>),
       (''addedBy'', \<lparr>cs_type = ''string'', cs_null = Some True, cs_default = None\<rparr>),
       (''removedBy'', \<lparr>cs_type = ''string'', cs_null = Some True, cs_default = None\<rparr>)],
     indexes = [''shared'']\<rparr>"

definition multisignatureTableSchema :: table_config where
  "multisignatureTableSchema = \<lparr>tableName = ''multisignature'', primaryKey = [''id''], charset = None,
     schema = [
       (''id'', \<lparr>cs_type = ''string'', cs_null = None, cs_default = None\<rparr>),
       (''groupAddress'', \<lparr>cs_type = ''string'', cs_null = None, cs_default = None\<rparr>),
       (''memberAddress'', \<lparr>cs_type = ''string'', cs_null = None, cs_default = None\<rparr>)],
     indexes = [''id'', ''groupAddress'', ''memberAddress'']\<rparr>"

definition ownersTableSchema :: table_config where
  "ownersTableSchema = \<lparr>tableName = ''owners'', primaryKey = [''address'', ''audioID''], charset = None,
     schema = [
       (''address'', \<lparr>cs_type = ''string'', cs_null = None, cs_default = None\<rparr>),
       (''audioID'', \<lparr>cs_type = ''string'', cs_null = None, cs_default = None\<rparr>),
       (''shares'', \<lparr>cs_type = ''integer'', cs_null = None, cs_default = None\<rparr>),
       (''income'', \<lparr>cs_type = ''bigInteger'', cs_null = None, cs_default = Some (JNum 0)\<rparr>)],
     indexes = [''creatorAddress'']\<rparr>"

definition profilesTableSchema :: table_config where
  "profilesTableSchema = \<lparr>tableName = ''profiles'', primaryKey = [''profileID''], charset = None,
     schema = [
       (''profileID'', \<lparr>cs_type = ''string'', cs_null = None, cs_default = None\<rparr>),
       (''name'', \<lparr>cs_type = ''string'', cs_null = Some True, cs_default = Some JNull\<rparr>),
       (''nickName'', \<lparr>cs_type = ''string'', cs_null = Some True, cs_default = Some JNull\<rparr>),
       (''description'', \<lparr>cs_type = ''string'', cs_null = Some True, cs_default = Some JNull\<rparr>),
       (''avatarHash'', \<lparr>cs_type = ''string'', cs_null = Some True, cs_default = Some JNull\<rparr>),
       (''avatarSignature'', \<lparr>cs_type = ''string'', cs_null = Some True, cs_default = Some JNull\<rparr>),
       (''bannerHash'', \<lparr>cs_type = ''string'', cs_null = Some True, cs_default = Some JNull\<rparr>),
       (''bannerSignature'', \<lparr>cs_type = ''string'', cs_null = Some True, cs_default = Some JNull\<rparr>),
       (''creatorAddress'', \<lparr>cs_type = ''string'', cs_null = Some True, cs_default = Some JNull\<rparr>)],
     indexes = [''creatorAddress'']\<rparr>"

definition socialAccountsTableSchema :: table_config where
  "socialAccountsTableSchema = \<lparr>tableName = ''socialAccounts'', primaryKey = [''profileID'', ''platform''], charset = None,
     schema = [
       (''profileID'', \<lparr>cs_type = ''string'', cs_null = None, cs_default = None\<rparr>),
       (''username'', \<lparr>cs_type = ''string'', cs_null = Some True, cs_default = Some JNull\<rparr>),
       (''platform'', \<lparr>cs_type = ''string'', cs_null = None, cs_default = None\<rparr>)],
     indexes = [''profileID'']\<rparr>"

definition stakesTableSchema :: table_config where
  "stakesTableSchema = \<lparr>tableName = ''stakes'', primaryKey = [''validatorAddress'', ''stakerAddress''], charset = None,
     schema = [
       (''stakerAddress'', \<lparr>cs_type = ''string'', cs_null = None, cs_default = None\<rparr>),
       (''validatorAddress'', \<lparr>cs_type = ''string'', cs_null = None, cs_default = None\<rparr>),
       (''amount'', \<lparr>cs_type = ''bigInteger'', cs_null = None, cs_default = None\<rparr>)],
     indexes = [''validatorAddress'', ''stakerAddress'']\<rparr>"

definition subscriptionsTableSchema :: table_config where
  "subscriptionsTableSchema = \<lparr>tableName = ''subscriptions'', primaryKey = [''subscriptionID''], charset = None,
     schema = [
       (''subscriptionID'', \<lparr>cs_type = ''string'', cs_null = Some True, cs_default = Some JNull\<rparr>),
       (''creatorAddress'', \<lparr>cs_type = ''string'', cs_null = Some True, cs_default = Some JNull\<rparr>),
       (''price'', \<lparr>cs_type = ''bigInteger'', cs_null = Some True, cs_default = Some JNull\<rparr>),
       (''consumable'', \<lparr>cs_type = ''bigInteger'', cs_null = Some True, cs_default = Some JNull\<rparr>),
       (''streams'', \<lparr>cs_type = ''bigInteger'', cs_null = Some True, cs_default = Some JNull\<rparr>),
       (''maxMembers'', \<lparr>cs_type = ''integer'', cs_null = Some True, cs_default = Some JNull\<rparr>)],
     indexes = [''creatorAddress'']\<rparr>"

definition transactionsTableSchema :: table_config where
  "transactionsTableSchema = \<lparr>tableName = ''transactions'', primaryKey = [''id''], charset = Some ''utf8mb4'',
     schema = [
       (''id'', \<lparr>cs_type = ''string'', cs_null = Some False, cs_default = None\<rparr>),
       (''height'', \<lparr>cs_type = ''integer'', cs_null = Some False, cs_default = None\<rparr>),
       (''moduleCommand'', \<lparr>cs_type = ''string'', cs_null = Some False, cs_default = None\<rparr>),
       (''nonce'', \<lparr>cs_type = ''integer'', cs_null = Some False, cs_default = None\<rparr>),
       (''blockID'', \<lparr>cs_type = ''string'', cs_null = Some False, cs_default = None\<rparr>),
       (''timestamp'', \<lparr>cs_type = ''integer'', cs_null = Some False, cs_default = None\<rparr>),
       (''senderAddress'', \<lparr>cs_type = ''string'', cs_null = Some False, cs_default = None\<rparr>),
       (''recipientAddress'', \<lparr>cs_type = ''string'', cs_null = Some True, cs_default = None\<rparr>),
       (''tokenID'', \<lparr>cs_type = ''string'', cs_null = Some True, cs_default = None\<rparr>),
       (''amount'', \<lparr>cs_type = ''bigInteger'', cs_null = Some True, cs_default = None\<rparr>),
       (''receivingChainID'', \<lparr>cs_type = ''string'', cs_null = Some True, cs_default = None\<rparr>),
       (''messageFee'', \<lparr>cs_type = ''bigInteger'', cs_null = Some True, cs_default = None\<rparr>),
       (''data'', \<lparr>cs_type = ''string'', cs_null = Some True, cs_default = None\<rparr>),
       (''size'', \<lparr>cs_type = ''integer'', cs_null = Some False, cs_default = None\<rparr>),
       (''fee'', \<lparr>cs_type = ''bigInteger'', cs_null = Some False, cs_default = None\<rparr>),
       (''minFee'', \<lparr>cs_type = ''bigInteger'', cs_null = Some False, cs_default = None\<rparr>),
       (''executionStatus'', \<lparr>cs_type = ''string'', cs_null = Some False, cs_default = None\<rparr>),
       (''index'', \<lparr>cs_type = ''integer'', cs_null = Some False, cs_default = None\<rparr>)],
     indexes = [''height'', ''moduleCommand'', ''nonce'', ''blockID'', ''timestamp'', ''amount'', ''data'', ''senderAddress'', ''executionStatus'']\<rparr>"

definition validatorsTableSchema :: table_config where
  "validatorsTableSchema = \<lparr>tableName = ''validators'', primaryKey = [''address''], charset = None,
     schema = [
       (''address'', \<lparr>cs_type = ''string'', cs_null = None, cs_default = None\<rparr>),
       (''name'', \<lparr>cs_type = ''string'', cs_null = Some True, cs_default = None\<rparr>),
       (''blsKey'', \<lparr>cs_type = ''string'', cs_null = Some True, cs_default = None\<rparr>),
       (''proofOfPosession'', \<lparr>cs_type = ''string'', cs_null = Some True, cs_default = None\<rparr>),
       (''generatorKey'', \<lparr>cs_type = ''string'', cs_null = Some True, cs_default = None\<rparr>),
       (''generatedBlocks'', \<lparr>cs_type = ''integer'', cs_null = Some False, cs_default = Some (JNum 0)\<rparr>),
       (''totalCommission'', \<lparr>cs_type = ''bigInteger'', cs_null = Some False, cs_default = Some (JNum 0)\<rparr>),
       (''totalSelfStakeRewards'', \<lparr>cs_type = ''bigInteger'', cs_null = Some False, cs_default = Some (JNum 0)\<rparr>)],
     indexes = [''name'', ''generatorKey'', ''blsKey'']\<rparr>"

definition indexer_schemas :: "table_config list" where
  "indexer_schemas = [
     accountsTableSchema,
     audiosTableSchema,
     blockchainAppsTableSchema,
     blocksTableSchema,
     collectionsTableSchema,
     commissionsTableSchema,
     eventTopicsTableSchema,
     eventsTableSchema,
     featsTableSchema,
     kvStoreTableSchema,
     membersTableSchema,
     multisignatureTableSchema,
     ownersTableSchema,
     profilesTableSchema,
     socialAccountsTableSchema,
     stakesTableSchema,
     subscriptionsTableSchema,
     transactionsTableSchema,
     validatorsTableSchema]"

lemmas schema_defs =
  accountsTableSchema_def
  audiosTableSchema_def
  blockchainAppsTableSchema_def
  blocksTableSchema_def
  collectionsTableSchema_def
  commissionsTableSchema_def
  eventTopicsTableSchema_def
  eventsTableSchema_def
  featsTableSchema_def
  kvStoreTableSchema_def
  membersTableSchema_def
  multisignatureTableSchema_def
  ownersTableSchema_def
  profilesTableSchema_def
  socialAccountsTableSchema_def
  stakesTableSchema_def
  subscriptionsTableSchema_def
  transactionsTableSchema_def
  validatorsTableSchema_def

text \<open>Every primary key is made of columns of its table, and no column is declared twice.\<close>

definition wf_config :: "table_config \<Rightarrow> bool" where
  "wf_config tc \<longleftrightarrow> distinct (map fst (schema tc)) \<and> set (primaryKey tc) \<subseteq> set (map fst (schema tc))
     \<and> primaryKey tc \<noteq> []"

lemma indexer_schemas_wf: "list_all wf_config indexer_schemas"
  by (simp add: indexer_schemas_def wf_config_def schema_defs)

text \<open>No two schemas name the same table.\<close>

lemma indexer_schemas_distinct: "distinct (map tableName indexer_schemas)"
  by (simp add: indexer_schemas_def schema_defs)

lemma column_defs_names: "map c_name (column_defs tc) = map fst (schema tc)"
  by (auto simp: column_defs_def)

end
