(* ===== verification/Http.thy ===== *)
theory Http
  imports JsValue
begin

text \<open>
  \<open>framework/src/http.js\<close>: the HTTP client of the services, with its retries and its cache. The
  library axios is a parameter: what it makes of the \<open>n\<close>-th request that is sent. The encoding of
  an address is a parameter too. Delays between attempts and the eviction of cached responses are
  not modelled.
\<close>

datatype axios_result =
    Responded jsval
  | Failed (failed_response: "jsval option") (failed_code: jsval) (failed_message: string)

record http_lib =
  axios :: "nat \<Rightarrow> obj \<Rightarrow> axios_result"
  encodeURI :: "string \<Rightarrow> string"

record http_world =
  sent_requests :: nat
  http_cache :: "(string \<times> jsval) list"

type_synonym 'a hact = "(http_world, 'a) action"

definition axios_answer :: "http_lib \<Rightarrow> string \<Rightarrow> obj \<Rightarrow> nat \<Rightarrow> jsval" where
  "axios_answer L url params n = (case axios L n (spread [(''url'', JStr url)] params) of
       Responded r \<Rightarrow> r
     | Failed (Some r) code message \<Rightarrow> JObj (oset (own_props r) ''message'' (JStr message))
     | Failed None code message \<Rightarrow> JObj [(''status'', code), (''message'', JStr message)])"

definition performRequest :: "http_lib \<Rightarrow> string \<Rightarrow> obj \<Rightarrow> jsval hact" where
  "performRequest L url params =
     bnd (getA sent_requests) (\<lambda>n.
     thn (modA (\<lambda>w. w\<lparr>sent_requests := Suc n\<rparr>)) (ret (axios_answer L url params n)))"

text \<open>\<open>response.status.toString()[0]\<close>.\<close>

definition status_digit :: "jsval \<Rightarrow> jserr + char option" where
  "status_digit response =
     bindE (js_prop response ''status'') (\<lambda>status.
     if status \<in> {JUndef, JNull} then Inl (TypeErr ''Cannot read properties of undefined (reading 'toString')'')
     else Inr (case js_string status of [] \<Rightarrow> None | c # _ \<Rightarrow> Some c))"

definition settled :: "char option \<Rightarrow> bool" where
  "settled c = (c \<in> {Some (CHR ''1''), Some (CHR ''2''), Some (CHR ''3'')})"

text \<open>The loop, with the number of attempts that are left after the next one.\<close>

fun request_until :: "http_lib \<Rightarrow> string \<Rightarrow> obj \<Rightarrow> nat \<Rightarrow> jsval hact" where
  "request_until L url params left =
     bnd (performRequest L url params) (\<lambda>response.
     bnd (liftE (status_digit response)) (\<lambda>c.
     if settled c then ret response
     else case left of 0 \<Rightarrow> ret response | Suc n \<Rightarrow> request_until L url params n))"

declare request_until.simps [simp del]

definition retries_of :: "obj \<Rightarrow> nat" where
  "retries_of params = (case js_number (js_or (oget params ''retries'') (JNum 0)) of JNum n \<Rightarrow> nat n | _ \<Rightarrow> 0)"

definition performRequestUntilSuccess :: "http_lib \<Rightarrow> string \<Rightarrow> obj \<Rightarrow> jsval hact" where
  "performRequestUntilSuccess L url params = request_until L url params (retries_of params - 1)"

definition validateHttpResponse :: "jsval \<Rightarrow> jserr + bool" where
  "validateHttpResponse response = bindE (js_prop response ''status'') (\<lambda>s. Inr (strict_eq s (JNum 200)))"

text \<open>The key under which a response is cached; only for \<open>get\<close> requests with a time to live.\<close>

definition cache_key :: "http_lib \<Rightarrow> string \<Rightarrow> obj \<Rightarrow> string \<Rightarrow> string option" where
  "cache_key L url params verb =
     (let ttl = oget params ''cacheTTL'' in
      if to_lower verb = ''get'' \<and> truthy ttl \<and> js_lt (JNum 0) ttl
      then Some (encodeURI L url @ '':ttl='' @ js_string ttl) else None)"

definition cached_response :: "string option \<Rightarrow> jsval hact" where
  "cached_response key = (case key of
       None \<Rightarrow> ret JUndef
     | Some k \<Rightarrow> bnd (getA http_cache) (\<lambda>c. ret (case map_of c k of Some r \<Rightarrow> r | None \<Rightarrow> JUndef)))"

definition store_response :: "string option \<Rightarrow> jsval \<Rightarrow> unit hact" where
  "store_response key r = (case key of
       None \<Rightarrow> ret ()
     | Some k \<Rightarrow> modA (\<lambda>w. w\<lparr>http_cache := AList.update k r (http_cache w)\<rparr>))"

definition response_of :: "jsval \<Rightarrow> jserr + jsval" where
  "response_of r =
     bindE (js_prop r ''data'') (\<lambda>data. bindE (js_prop r ''headers'') (\<lambda>headers.
     bindE (js_prop r ''status'') (\<lambda>status. bindE (js_prop r ''statusText'') (\<lambda>statusText.
     Inr (JObj [(''data'', data), (''headers'', headers), (''status'', status), (''statusText'', statusText)])))))"

definition request_params :: "obj \<Rightarrow> obj" where
  "request_params params =
     (let ps = omit [''cacheTTL''] params in if truthy (oget ps ''method'') then ps else oset ps ''method'' (JStr ''get''))"

definition http_request :: "http_lib \<Rightarrow> string \<Rightarrow> obj \<Rightarrow> jsval hact" where
  "http_request L url params =
     (let httpParams = request_params params in
     bnd (liftE (as_str (oget httpParams ''method''))) (\<lambda>verb.
     let key = cache_key L url params verb in
     bnd (cached_response key) (\<lambda>response.
     if truthy response then ret response
     else bnd (performRequestUntilSuccess L url httpParams) (\<lambda>r.
       bnd (liftE (validateHttpResponse r)) (\<lambda>ok.
       if ok then bnd (liftE (response_of r)) (\<lambda>res. thn (store_response key res) (ret res))
       else ret response)))))"

definition http_get :: "http_lib \<Rightarrow> string \<Rightarrow> obj \<Rightarrow> jsval hact" where
  "http_get L url params = http_request L url (oset params ''method'' (JStr ''get''))"

subsection \<open>Laws\<close>

lemma performRequest_run:
  "performRequest L url params w =
     (Inr (axios_answer L url params (sent_requests w)), w\<lparr>sent_requests := Suc (sent_requests w)\<rparr>)"
  by (simp add: performRequest_def bnd_def thn_def)

lemma request_until_step:
  "request_until L url params left w =
     (let r = axios_answer L url params (sent_requests w); w1 = w\<lparr>sent_requests := Suc (sent_requests w)\<rparr> in
      case status_digit r of
        Inl e \<Rightarrow> (Inl e, w1)
      | Inr c \<Rightarrow> if settled c then (Inr r, w1) else case left of 0 \<Rightarrow> (Inr r, w1) | Suc n \<Rightarrow> request_until L url params n w1)"
  by (subst request_until.simps) (auto simp: bnd_def performRequest_run Let_def split: sum.splits nat.splits)

text \<open>However the server answers, the loop sends at least one request and no more than it may.\<close>

lemma request_until_sends:
  "request_until L url params left w = (r, w') \<Longrightarrow>
     http_cache w' = http_cache w \<and> sent_requests w < sent_requests w' \<and> sent_requests w' \<le> sent_requests w + Suc left"
proof (induction left arbitrary: w)
  case 0
  then show ?case unfolding request_until_step [of L url params 0] by (auto simp: Let_def split: sum.splits if_splits)
next
  case (Suc n)
  let ?w = "w\<lparr>sent_requests := Suc (sent_requests w)\<rparr>"
  have "w' = ?w \<or> request_until L url params n ?w = (r, w')"
    using Suc.prems unfolding request_until_step [of L url params "Suc n"] by (auto simp: Let_def split: sum.splits if_splits)
  then show ?case using Suc.IH [of ?w] by auto
qed

lemma request_until_first:
  assumes "i \<le> left" and "\<forall>j < i. \<exists>c. status_digit (axios_answer L url params (sent_requests w + j)) = Inr c \<and> \<not> settled c"
    and "status_digit (axios_answer L url params (sent_requests w + i)) = Inr c" "settled c"
  shows "request_until L url params left w =
     (Inr (axios_answer L url params (sent_requests w + i)), w\<lparr>sent_requests := sent_requests w + Suc i\<rparr>)"
  using assms
proof (induction i arbitrary: left w)
  case 0
  then show ?case by (subst request_until_step) (simp add: Let_def)
next
  case (Suc i)
  obtain n where n: "left = Suc n" "i \<le> n" using Suc.prems(1) by (cases left) auto
  obtain d where d: "status_digit (axios_answer L url params (sent_requests w)) = Inr d" "\<not> settled d"
    using Suc.prems(2) [rule_format, of 0] by auto
  let ?w = "w\<lparr>sent_requests := Suc (sent_requests w)\<rparr>"
  have "\<forall>j < i. \<exists>c. status_digit (axios_answer L url params (sent_requests ?w + j)) = Inr c \<and> \<not> settled c"
    using Suc.prems(2) [rule_format, of "Suc _"] by simp
  then have "request_until L url params n ?w =
      (Inr (axios_answer L url params (sent_requests ?w + i)), ?w\<lparr>sent_requests := sent_requests ?w + Suc i\<rparr>)"
    using Suc.prems(3,4) n(2) by (intro Suc.IH) simp_all
  then show ?case using d n(1) by (subst request_until_step) (simp add: Let_def)
qed


text \<open>A server that is busy twice and then answers.\<close>

definition busy_lib :: http_lib where
  "busy_lib = \<lparr>axios = (\<lambda>n _. if n < 2 then Failed (Some (JObj [(''status'', JNum 503)])) JUndef ''busy''
      else Responded (JObj [(''status'', JNum 200), (''data'', JStr ''ok'')])), encodeURI = (\<lambda>s. s)\<rparr>"


end
