(* ===== verification/IndexerBase.thy ===== *)
theory IndexerBase
  imports Schemas Http
begin

text \<open>
  What the components of the blockchain indexer share: the environment they run in, the
  state of the service, and the helpers of \<open>services/blockchain-indexer/shared/utils\<close> and
  \<open>shared/constants.js\<close> that the block indexer and the transaction processors call.

  The environment \<open>ext\<close> holds the code that is not in the repository or that answers over
  the network: the database driver, the address conversions of lisk-cryptography, the unit
  conversion of lisk-transactions, the responses of the connector service, the
  configuration, the text that the floating-point expression of \<open>getIndexStats\<close> makes of the share of
  indexed blocks, the collation of the locale, and the clock. The service state extends the
  table layer's state by the signals dispatched, the jobs added to the queues, the event
  cache and the values \<open>constants.js\<close> remembers.

  The table instances: \<open>initializeSearchIndex\<close> creates every table at start-up, after
  which \<open>getTableInstance\<close> finds it in the pool and does nothing
  (\<open>getTableInstance_pooled\<close>). The operations below therefore name the table they use and
  leave the call out.
\<close>

text \<open>
  The fixed-point numbers of lisk-utils, known to the model by their integer representation:
  the constructor \<open>q96\<close> on a number or big integer and on a number of the same kind, and
  the operations the code calls.
\<close>

record q96_lib =
  q96 :: "jsval \<Rightarrow> jserr + int"
  q96_of_q :: "int \<Rightarrow> jserr + int"
  q_mul :: "int \<Rightarrow> int \<Rightarrow> int"
  q_div :: "int \<Rightarrow> int \<Rightarrow> jserr + int"
  q_sub :: "int \<Rightarrow> int \<Rightarrow> int"
  q_floor :: "int \<Rightarrow> int"

record ext =
  kx :: engine
  lisk32 :: "string \<Rightarrow> jserr + string"
  connector :: "string \<Rightarrow> jsval \<Rightarrow> jserr + jsval"
  isPersistEvents :: bool
  qlib :: q96_lib
  lisk32_to_hex :: "string \<Rightarrow> jserr + string"
  lskToBeddows :: "string \<Rightarrow> jserr + string"
  percentage_text :: "int \<Rightarrow> jsval \<Rightarrow> string"
  legacyAddress :: "string \<Rightarrow> jserr + string"
  localeCompare :: "string \<Rightarrow> string \<Rightarrow> int"
  now_seconds :: int
  http_lib_of :: http_lib
  mainchainServiceUrl :: jsval
  devnetMainchainUrl :: jsval

record iworld = world +
  signals :: "(string \<times> jsval) list"
  jobs :: "(string \<times> jsval) list"
  event_cache :: "(string \<times> jsval) list"
  finalizedHeight :: jsval
  genesisHeight :: jsval
  indexReady :: bool
  validatorList :: "jsval list"
  generatorsListCache :: "jsval list"
  isPosRegistered :: jsval
  processorModules :: "string list"
  posConstants :: jsval
  validatorCache :: "(string \<times> jsval) list"
  latestBlock :: jsval
  lastBlockCache :: jsval
  pendingAccountsByPublicKey :: "jsval list"
  pendingAccountsByAddress :: "jsval list"
  pendingTransactionsList :: "jsval list"
  moduleCommands :: jsval
  registeredModules :: jsval
  tokenConstants :: jsval
  rewardTokenID :: jsval
  blockchainAppsStatsCache :: jsval
  allSchemas :: jsval
  ownChainID :: jsval
  http_state :: http_world

type_synonym 'a iact = "(iworld, 'a) action"

subsection \<open>Names\<close>

definition MODULE_NAME_AUDIO :: string where "MODULE_NAME_AUDIO = ''audio''"
definition EVENT_NAME_AUDIO_CREATED :: string where "EVENT_NAME_AUDIO_CREATED = ''audioCreated''"
definition EVENT_NAME_AUDIO_STREAMED :: string where "EVENT_NAME_AUDIO_STREAMED = ''audioStreamed''"
definition EVENT_NAME_AUDIO_INCOME_RECLAIMED :: string where
  "EVENT_NAME_AUDIO_INCOME_RECLAIMED = ''audioIncomeReclaimed''"
definition EVENT_NAME_COMMAND_EXECUTION_RESULT :: string where
  "EVENT_NAME_COMMAND_EXECUTION_RESULT = ''commandExecutionResult''"
definition MODULE_NAME_COLLECTION :: string where "MODULE_NAME_COLLECTION = ''collection''"
definition EVENT_NAME_COLLECTION_CREATED :: string where
  "EVENT_NAME_COLLECTION_CREATED = ''collectionCreated''"
definition MODULE_NAME_PROFILE :: string where "MODULE_NAME_PROFILE = ''profile''"
definition EVENT_NAME_PROFILE_CREATED :: string where "EVENT_NAME_PROFILE_CREATED = ''profileCreated''"

lemmas name_defs =
  MODULE_NAME_AUDIO_def EVENT_NAME_AUDIO_CREATED_def EVENT_NAME_AUDIO_STREAMED_def
  EVENT_NAME_AUDIO_INCOME_RECLAIMED_def EVENT_NAME_COMMAND_EXECUTION_RESULT_def
  MODULE_NAME_COLLECTION_def EVENT_NAME_COLLECTION_CREATED_def
  MODULE_NAME_PROFILE_def EVENT_NAME_PROFILE_CREATED_def

definition TRANSACTION_STATUS_SUCCESS :: string where "TRANSACTION_STATUS_SUCCESS = ''success''"
definition TRANSACTION_STATUS_FAIL :: string where "TRANSACTION_STATUS_FAIL = ''fail''"
definition TOTAL_LOCKED :: string where "TOTAL_LOCKED = ''total_locked_''"
definition TOTAL_STAKED :: string where "TOTAL_STAKED = ''total_staked_''"
definition TOTAL_SELF_STAKED :: string where "TOTAL_SELF_STAKED = ''total_self_staked_''"
definition MAX_COMMISSION :: int where "MAX_COMMISSION = 10000"
definition DEV_ADDRESS :: string where "DEV_ADDRESS = ''lskh96jgzfftzff2fta2zvsmba9mvs5cnz9ahr3ke''"

subsection \<open>Requests\<close>

definition requestConnector :: "ext \<Rightarrow> string \<Rightarrow> jsval \<Rightarrow> jsval iact" where
  "requestConnector X method params = liftE (connector X method params)"

definition propA :: "jsval \<Rightarrow> string \<Rightarrow> jsval iact" where
  "propA v k = liftE (js_prop v k)"

definition pathA :: "jsval \<Rightarrow> string list \<Rightarrow> jsval iact" where
  "pathA v ks = liftE (js_path v ks)"

definition elemsA :: "jsval \<Rightarrow> jsval list iact" where
  "elemsA v = liftE (js_elems v)"

subsection \<open>constants.js\<close>

definition updateFinalizedHeight :: "ext \<Rightarrow> unit iact" where
  "updateFinalizedHeight X =
     bnd (requestConnector X ''getNetworkStatus'' JUndef) (\<lambda>status.
     bnd (propA status ''finalizedHeight'') (\<lambda>h. modA (\<lambda>w. w\<lparr>finalizedHeight := h\<rparr>)))"

definition getFinalizedHeight :: "ext \<Rightarrow> jsval iact" where
  "getFinalizedHeight X =
     bnd (getA finalizedHeight) (\<lambda>h.
     thn (if js_typeof h \<noteq> ''number'' then updateFinalizedHeight X else ret ()) (getA finalizedHeight))"

definition getGenesisHeight :: "ext \<Rightarrow> jsval iact" where
  "getGenesisHeight X =
     bnd (getA genesisHeight) (\<lambda>h.
     thn (if js_typeof h \<noteq> ''number''
          then bnd (requestConnector X ''getGenesisHeight'' JUndef) (\<lambda>g. modA (\<lambda>w. w\<lparr>genesisHeight := g\<rparr>))
          else ret ()) (getA genesisHeight))"

definition getCurrentHeight :: "ext \<Rightarrow> jsval iact" where
  "getCurrentHeight X =
     bnd (requestConnector X ''getNetworkStatus'' JUndef) (\<lambda>status. propA status ''height'')"

text \<open>\<open>module.name:command.name\<close> for every command of every module, in order.\<close>

definition module_commands :: "jsval \<Rightarrow> jserr + string list" where
  "module_commands m =
     bindE (js_prop m ''commands'') (\<lambda>cv. bindE (js_elems cv) (\<lambda>cs.
     bindE (js_prop m ''name'') (\<lambda>mn.
     mapE (\<lambda>c. bindE (js_prop c ''name'') (\<lambda>cn. Inr (js_string mn @ '':'' @ js_string cn))) cs)))"

definition resolveModuleCommands :: "jsval list \<Rightarrow> jserr + string list" where
  "resolveModuleCommands systemMeta =
     bindE (mapE module_commands systemMeta) (\<lambda>css. Inr (concat css))"

definition getAvailableModuleCommands :: "ext \<Rightarrow> jsval iact" where
  "getAvailableModuleCommands X =
     bnd (getA moduleCommands) (\<lambda>known.
     thn (if truthy known then ret ()
          else bnd (requestConnector X ''getSystemMetadata'' JUndef) (\<lambda>r.
               bnd (propA r ''modules'') (\<lambda>mv. bnd (elemsA mv) (\<lambda>modules.
               bnd (liftE (resolveModuleCommands modules)) (\<lambda>cs.
               modA (\<lambda>w. w\<lparr>moduleCommands := JArr (map JStr cs)\<rparr>))))))
     (getA moduleCommands))"

definition getRegisteredModules :: "ext \<Rightarrow> jsval iact" where
  "getRegisteredModules X =
     bnd (getA registeredModules) (\<lambda>known.
     thn (if truthy known then ret ()
          else bnd (requestConnector X ''getSystemMetadata'' JUndef) (\<lambda>r.
               bnd (propA r ''modules'') (\<lambda>mv. bnd (elemsA mv) (\<lambda>modules.
               bnd (liftE (mapE (\<lambda>m. js_prop m ''name'') modules)) (\<lambda>names.
               modA (\<lambda>w. w\<lparr>registeredModules := JArr names\<rparr>))))))
     (getA registeredModules))"

subsection \<open>utils/account.js\<close>

text \<open>\<open>Buffer.from\<close> rejects a public key that is not a string.\<close>

definition getLisk32AddressFromPublicKey :: "ext \<Rightarrow> jsval \<Rightarrow> jserr + jsval" where
  "getLisk32AddressFromPublicKey X publicKey = (case publicKey of
       JStr s \<Rightarrow> bindE (lisk32 X s) (\<lambda>a. Inr (JStr a))
     | _ \<Rightarrow> Inl (TypeErr ''The first argument must be of type string or an instance of Buffer''))"

definition lisk32A :: "ext \<Rightarrow> jsval \<Rightarrow> jsval iact" where
  "lisk32A X pk = liftE (getLisk32AddressFromPublicKey X pk)"

definition updateAccountPublicKey :: "ext \<Rightarrow> jsval \<Rightarrow> unit iact" where
  "updateAccountPublicKey X publicKey =
     bnd (lisk32A X publicKey) (\<lambda>a.
     upsert (kx X) accountsTableSchema (JObj [(''address'', a), (''publicKey'', publicKey)]) False)"

text \<open>\<open>getLegacyFormatAddressFromPublicKey\<close>, exported under the name below.\<close>

definition getLegacyAddressFromPublicKey :: "ext \<Rightarrow> jsval \<Rightarrow> jserr + jsval" where
  "getLegacyAddressFromPublicKey X publicKey = (case publicKey of
       JStr s \<Rightarrow> bindE (legacyAddress X s) (\<lambda>a. Inr (JStr a))
     | _ \<Rightarrow> Inl (TypeErr ''The first argument must be of type string or an instance of Buffer''))"

text \<open>
  A call that is not awaited: its effect happens, and an exception it throws does not reach
  the caller.
\<close>

definition spawn :: "unit iact \<Rightarrow> unit iact" where
  "spawn m = tryA m (\<lambda>_. ret ())"

definition getIndexedAccountInfo :: "ext \<Rightarrow> obj \<Rightarrow> string list option \<Rightarrow> jsval iact" where
  "getIndexedAccountInfo X params columns =
     (if \<not> ohas params ''publicKey'' \<or> truthy (oget params ''publicKey'')
      then bnd (table_find (kx X) accountsTableSchema (spread [(''limit'', JNum 1)] params) columns) (\<lambda>rows.
           ret (js_default (js_first rows) (JObj [])))
      else ret (JObj []))"

subsection \<open>utils/transactions.js and event lookup\<close>

text \<open>\<open>events.find(({ module, name }) => module === m && name === n)\<close>.\<close>

fun find_event :: "string \<Rightarrow> string \<Rightarrow> jsval list \<Rightarrow> jserr + jsval" where
  "find_event m n [] = Inr JUndef"
| "find_event m n (e # es) =
     bindE (js_prop e ''module'') (\<lambda>mo. bindE (js_prop e ''name'') (\<lambda>na.
       if mo = JStr m \<and> na = JStr n then Inr e else find_event m n es))"

text \<open>\<open>const { data = d } = events.find(...)\<close>: throws when no event matches.\<close>

definition event_data :: "string \<Rightarrow> string \<Rightarrow> jsval \<Rightarrow> jsval list \<Rightarrow> jserr + jsval" where
  "event_data m n dflt evs =
     bindE (find_event m n evs) (\<lambda>e. bindE (js_prop e ''data'') (\<lambda>v. Inr (js_default v dflt)))"

definition event_is :: "string \<Rightarrow> string \<Rightarrow> jsval \<Rightarrow> bool" where
  "event_is m n e = (js_prop e ''module'' = Inr (JStr m) \<and> js_prop e ''name'' = Inr (JStr n))"

fun find_result_event :: "jsval \<Rightarrow> jsval list \<Rightarrow> jserr + jsval" where
  "find_result_event txid [] = Inr JUndef"
| "find_result_event txid (e # es) =
     bindE (js_prop e ''topics'') (\<lambda>tv. bindE (js_elems tv) (\<lambda>topics.
       if js_includes topics txid then Inr e else find_result_event txid es))"

fun exec_events :: "string \<Rightarrow> jsval list \<Rightarrow> jserr + jsval list" where
  "exec_events nm [] = Inr []"
| "exec_events nm (e # es) =
     bindE (js_prop e ''module'') (\<lambda>mo. bindE (js_prop e ''name'') (\<lambda>na.
     bindE (exec_events nm es) (\<lambda>rest.
       Inr (if js_string mo @ '':'' @ js_string na = nm then e # rest else rest))))"

definition getTransactionExecutionStatus :: "jsval \<Rightarrow> jsval list \<Rightarrow> jserr + jsval" where
  "getTransactionExecutionStatus tx events =
     bindE (js_prop tx ''module'') (\<lambda>mo.
     bindE (exec_events (js_string mo @ '':'' @ EVENT_NAME_COMMAND_EXECUTION_RESULT) events) (\<lambda>cands.
     bindE (js_prop tx ''id'') (\<lambda>txid.
     bindE (find_result_event txid cands) (\<lambda>e.
     if \<not> truthy e
     then Inl (Err (''Event unavailable to determine execution status for transaction: '' @ js_string txid @ ''.''))
     else bindE (js_path e [''data'', ''success'']) (\<lambda>s.
       Inr (JStr (if truthy s then TRANSACTION_STATUS_SUCCESS else TRANSACTION_STATUS_FAIL)))))))"

subsection \<open>A freshly initialised service\<close>

text \<open>
  The database after every schema has been loaded, the driver that follows the documented
  meaning of the statements and never fails, and a derivation of addresses that prefixes the
  key: a concrete environment in which the operations can be run.
\<close>

definition fresh_db :: db where
  "fresh_db t = (case List.find (\<lambda>tc. tableName tc = t) indexer_schemas of
       None \<Rightarrow> None
     | Some tc \<Rightarrow> Some \<lparr>t_cols = column_defs tc, t_pk = primaryKey tc, t_rows = []\<rparr>)"

definition ref_q96 :: q96_lib where
  "ref_q96 = \<lparr>q96 = (\<lambda>v. bindE (js_bigint v) (\<lambda>n. Inr (n * 2 ^ 96))), q96_of_q = Inr,
     q_mul = (\<lambda>a b. (a * b) div 2 ^ 96),
     q_div = (\<lambda>a b. if b = 0 then Inl (RangeErr ''Division by zero'') else Inr ((a * 2 ^ 96) div b)),
     q_sub = (\<lambda>a b. a - b), q_floor = (\<lambda>a. a div 2 ^ 96)\<rparr>"

definition ref_ext :: ext where
  "ref_ext = \<lparr>kx = sql_run (\<lambda>_ _. False), lisk32 = (\<lambda>s. Inr (''lsk'' @ s)),
     connector = (\<lambda>_ _. Inr JUndef), isPersistEvents = False, qlib = ref_q96,
     lisk32_to_hex = (\<lambda>s. Inr (drop 3 s)), lskToBeddows = (\<lambda>s. Inr (s @ ''00000000'')),
     percentage_text = (\<lambda>_ _. ''0.00''), legacyAddress = (\<lambda>s. Inr (s @ ''L'')),
     localeCompare = (\<lambda>a b. if str_less a b then -1 else if str_less b a then 1 else 0), now_seconds = 0,
     http_lib_of = \<lparr>axios = (\<lambda>_ _. Failed None (JStr ''ECONNREFUSED'') ''refused''), encodeURI = (\<lambda>s. s)\<rparr>,
     mainchainServiceUrl = JUndef, devnetMainchainUrl = JUndef\<rparr>"

definition fresh_world :: iworld where
  "fresh_world = \<lparr>committed = fresh_db, trx = None, conn_pool = [], table_pool = [],
     signals = [], jobs = [], event_cache = [], finalizedHeight = JUndef, genesisHeight = JUndef,
     indexReady = False, validatorList = [], generatorsListCache = [],
     isPosRegistered = JUndef, processorModules = [],
     posConstants = JUndef, validatorCache = [], latestBlock = JUndef, lastBlockCache = JUndef,
     pendingAccountsByPublicKey = [], pendingAccountsByAddress = [],
     pendingTransactionsList = [],
     moduleCommands = JUndef, registeredModules = JUndef, tokenConstants = JObj [], rewardTokenID = JUndef,
     blockchainAppsStatsCache = JObj [], allSchemas = JUndef, ownChainID = JUndef,
     http_state = \<lparr>sent_requests = 0, http_cache = []\<rparr>\<rparr>"

subsection \<open>Laws\<close>

lemma ref_ext_engine: "sql_engine (\<lambda>_ _. False) (kx ref_ext)"
  by (simp add: ref_ext_def sql_ref.sql_engine_axioms)

lemma committed_fresh [simp]: "committed fresh_world = fresh_db"
  by (simp add: fresh_world_def)

text \<open>Once a table is in the pool and its connection is open, asking for it changes nothing.\<close>

lemma getTableInstance_pooled:
  assumes "getConnectionPoolKey ep = Inr k" and "map_of (conn_pool w) k \<noteq> None"
    and "k @ ''/'' @ tableName tc \<in> set (table_pool w)"
  shows "getTableInstance kxx tc ep w = (Inr (), w)"
  using assms
  by (auto simp: getTableInstance_def createTableIfNotExists_def getDbConnection_def
      thn_def bnd_def Let_def)

text \<open>Asking twice is asking once: the second call finds what the first one left.\<close>

lemma getDbConnection_pools:
  assumes "getDbConnection ep w = (Inr (), w')" and "getConnectionPoolKey ep = Inr k"
  shows "map_of (conn_pool w') k \<noteq> None"
  using assms by (auto simp: getDbConnection_def bnd_def split: if_splits)

lemmas iact_defs =
  requestConnector_def propA_def pathA_def elemsA_def lisk32A_def

lemma within_requestConnector [confined]: "keeps (within T) (requestConnector X m p)"
  unfolding requestConnector_def by (intro confined)

lemma within_propA [confined]: "keeps (within T) (propA v k)"
  unfolding propA_def by (intro confined)

lemma within_pathA [confined]: "keeps (within T) (pathA v ks)"
  unfolding pathA_def by (intro confined)

lemma within_elemsA [confined]: "keeps (within T) (elemsA v)"
  unfolding elemsA_def by (intro confined)

lemma within_lisk32A [confined]: "keeps (within T) (lisk32A X pk)"
  unfolding lisk32A_def by (intro confined)

lemma within_modA:
  "(\<And>w. committed (g w) = committed w \<and> trx (g w) = trx w) \<Longrightarrow> keeps (within T) (modA g)"
  by (simp add: keeps_def within_def)

lemma within_updateFinalizedHeight [confined]: "keeps (within T) (updateFinalizedHeight X)"
  unfolding updateFinalizedHeight_def by (intro confined within_modA) simp

lemma within_if [confined]:
  "keeps (within T) a \<Longrightarrow> keeps (within T) b \<Longrightarrow> keeps (within T) (if c then a else b)"
  by simp

lemma within_getFinalizedHeight [confined]: "keeps (within T) (getFinalizedHeight X)"
  unfolding getFinalizedHeight_def by (intro confined)

lemma within_getGenesisHeight [confined]: "keeps (within T) (getGenesisHeight X)"
  unfolding getGenesisHeight_def by (intro confined within_modA) simp

lemma within_getCurrentHeight [confined]: "keeps (within T) (getCurrentHeight X)"
  unfolding getCurrentHeight_def by (intro confined)

lemma within_module_info [confined]:
  "keeps (within T) (getAvailableModuleCommands X)" "keeps (within T) (getRegisteredModules X)"
  unfolding getAvailableModuleCommands_def getRegisteredModules_def by (intro confined within_modA; simp)+

lemma within_spawn: "keeps (within T) m \<Longrightarrow> keeps (within T) (spawn m)"
  unfolding spawn_def by (intro confined)

lemma find_event_hit:
  "find_event m n evs = Inr e \<Longrightarrow> e = JUndef \<or> e \<in> set evs \<and> event_is m n e"
  by (induction evs) (auto simp: event_is_def act_ok split: if_splits)

end
