(* ===== verification/KVStore.thy ===== *)
theory KVStore
  imports IndexerBase
begin

text \<open>
  The key-value store kept in MySQL, \<open>shared/database/mysqlKVStore.js\<close>: values of
  primitive types are written as their string together with their type name, and converted
  back when read. \<open>get\<close> takes no transaction: it always reads the committed store.
\<close>

definition ALLOWED_VALUE_TYPES :: "string list" where
  "ALLOWED_VALUE_TYPES = [''boolean'', ''number'', ''bigint'', ''string'', ''undefined'']"

definition kv_set :: "ext \<Rightarrow> string \<Rightarrow> jsval \<Rightarrow> bool \<Rightarrow> unit iact" where
  "kv_set X key val inTrx =
     (let type = js_typeof val in
      if type \<notin> set ALLOWED_VALUE_TYPES
      then throw (Err (''Allowed 'value' types are: '' @ join '','' ALLOWED_VALUE_TYPES))
      else let finalValue = (if val = JUndef then val else JStr (js_string val)) in
        upsert (kx X) kvStoreTableSchema
          (JObj [(''key'', JStr key), (''value'', finalValue), (''type'', JStr type)]) inTrx)"

definition formatValue :: "jsval \<Rightarrow> jsval \<Rightarrow> jserr + jsval" where
  "formatValue val type =
     (if type = JStr ''boolean'' then Inr (JBool (truthy val))
      else if type = JStr ''number'' then Inr (js_number val)
      else if type = JStr ''bigint'' then bindE (js_bigint val) (\<lambda>n. Inr (JBig n))
      else if type = JStr ''string'' then Inr (JStr (js_string val))
      else if type = JStr ''undefined'' then Inr JUndef
      else Inr val)"

definition kv_get :: "ext \<Rightarrow> string \<Rightarrow> jsval iact" where
  "kv_get X key =
     bnd (table_find (kx X) kvStoreTableSchema [(''key'', JStr key), (''limit'', JNum 1)]
            (Some [''value'', ''type''])) (\<lambda>rows.
     let row = own_props (js_default (js_first rows) (JObj [])) in
     liftE (formatValue (oget row ''value'') (oget row ''type'')))"

definition kv_format_row :: "jsval \<Rightarrow> jserr + jsval" where
  "kv_format_row row =
     (let r = own_props row in
      bindE (formatValue (oget r ''value'') (oget r ''type'')) (\<lambda>v.
        Inr (JObj [(''key'', oget r ''key''), (''value'', v)])))"

definition getByPattern :: "ext \<Rightarrow> string \<Rightarrow> jsval list iact" where
  "getByPattern X pattern =
     bnd (table_find (kx X) kvStoreTableSchema
            [(''search'', JObj [(''property'', JStr ''key''), (''pattern'', JStr pattern)])]
            (Some [''key'', ''value'', ''type''])) (\<lambda>result.
     liftE (mapE kv_format_row result))"

definition deleteEntry :: "ext \<Rightarrow> string \<Rightarrow> bool \<Rightarrow> int iact" where
  "deleteEntry X key inTrx = deleteByPrimaryKey (kx X) kvStoreTableSchema (JArr [JStr key]) inTrx"

subsection \<open>Laws\<close>

lemma table_ready_fresh: "tc \<in> set indexer_schemas \<Longrightarrow> table_ready tc fresh_db"
proof -
  assume tc: "tc \<in> set indexer_schemas"
  have "List.find (\<lambda>tc'. tableName tc' = tableName tc) xs = Some tc"
    if "tc \<in> set xs" "distinct (map tableName xs)" for xs
    using that by (induction xs) force+
  with tc indexer_schemas_distinct
  have find: "List.find (\<lambda>tc'. tableName tc' = tableName tc) indexer_schemas = Some tc" by blast
  from tc indexer_schemas_wf have "wf_config tc" by (auto simp: list_all_iff)
  with find show ?thesis
    by (simp add: table_ready_def fresh_db_def wf_table_def wf_config_def column_defs_names [symmetric]
        del: set_map)
qed

lemma kv_params_query:
  "queryBuilder kvStoreTableSchema [(''key'', JStr key), (''limit'', JNum 1)] [''value'', ''type''] =
     Inr ((bare_query ''key_value_store'')\<lparr>q_select := [''value'', ''type''],
            q_where := where_obj [(''key'', JStr key)], q_limit := Some 1\<rparr>)"
  by (simp add: queryBuilder_def resolveQueryParams_def KNOWN_QUERY_PARAMS_def qb_order_def
      qb_conditions_def qb_propBetweens_def qb_whereIn_def qb_whereJson_def qb_andWhere_def
      qb_orWhere_def qb_orWhereIn_def qb_search_def qb_number_def bare_query_def
      kvStoreTableSchema_def)

lemma kv_columns:
  "column_defs kvStoreTableSchema =
     map (\<lambda>n. \<lparr>c_name = n, c_type = ''string'', c_notnull = False, c_default = None\<rparr>)
       [''key'', ''value'', ''type'']"
  "primaryKey kvStoreTableSchema = [''key'']" "tableName kvStoreTableSchema = ''key_value_store''"
  by (simp_all add: column_defs_def kvStoreTableSchema_def)

text \<open>The rows a read of one key sees: the row with that primary key, if there is one.\<close>

lemma kv_select:
  assumes ready: "table_ready kvStoreTableSchema d"
    and tb: "d ''key_value_store'' = Some tb"
    and q: "queryBuilder kvStoreTableSchema [(''key'', JStr key), (''limit'', JNum 1)]
              [''value'', ''type''] = Inr q"
  shows "select_rows jc q (t_rows tb) =
    (case lookup_row [''key''] [JStr key] (t_rows tb) of
       None \<Rightarrow> []
     | Some r \<Rightarrow> [[(''value'', oget r ''value''), (''type'', oget r ''type'')]])"
proof -
  from ready tb have cols: "t_cols tb = column_defs kvStoreTableSchema"
    and pk: "t_pk tb = [''key'']" and wf: "wf_table tb"
    by (auto simp: table_ready_def kv_columns split: option.splits)
  define c where "c = \<lparr>c_name = ''key'', c_type = ''string'', c_notnull = False, c_default = None\<rparr>"
  have c: "c \<in> set (t_cols tb)" "c_name c = ''key''" "\<not> is_numeric_type (c_type c)"
    by (simp_all add: c_def cols kv_columns is_numeric_type_def)
  note hits = filter_by_key1 [OF wf _ c(1) c(3), unfolded c(2), OF pk, of key, unfolded pk]
  have cell: "col_val r k = oget r k" if "r \<in> set (t_rows tb)" "k \<in> {''value'', ''type''}" for r k
  proof (rule col_val_exact)
    from wf that(1) have "typed_row (t_cols tb) r" by (auto simp: wf_table_def list_all_iff)
    with that(2) show "ohas r k" by (auto simp: typed_row_def ohas_def cols kv_columns)
  qed
  from q have q': "q = (bare_query ''key_value_store'')\<lparr>q_select := [''value'', ''type''],
            q_where := where_obj [(''key'', JStr key)], q_limit := Some 1\<rparr>"
    by (simp add: kv_params_query)
  show ?thesis
    using lookup_row_Some [of "[''key'']" "[JStr key]" "t_rows tb"]
    by (auto simp: select_rows_def q' bare_query_def hits order_rows_def limit_rows_def project_def
        cell simp del: sql_cmp.simps where_obj_simps split: option.splits)
qed

text \<open>
  The value a stored value reads back as: the conversion of its string by its type name. A
  boolean is read by the truthiness of the strings \<open>true\<close> and \<open>false\<close>, both of which are
  truthy.
\<close>

definition kv_readback :: "jsval \<Rightarrow> jsval" where
  "kv_readback v = (case v of JBool _ \<Rightarrow> JBool True | _ \<Rightarrow> v)"

lemma number_of_NaN: "number_of_string ''NaN'' = JNaN"
  by (simp add: number_of_string_def trim_def is_space_def read_int_def read_nat_def is_digit_def)

lemma formatValue_readback:
  assumes "js_typeof v \<in> set ALLOWED_VALUE_TYPES" and "v \<noteq> JUndef"
  shows "formatValue (JStr (js_string v)) (JStr (js_typeof v)) = Inr (kv_readback v)"
  using assms
  by (cases v) (simp_all add: formatValue_def kv_readback_def ALLOWED_VALUE_TYPES_def number_of_NaN)

definition kv_cell :: "jsval \<Rightarrow> jsval" where
  "kv_cell v = (if v = JUndef then JNull else JStr (js_string v))"

lemma kv_row:
  "mapRow (schema kvStoreTableSchema)
     (JObj [(''key'', JStr key), (''value'', if v = JUndef then v else JStr (js_string v)), (''type'', JStr ty)]) =
   Inr [(''key'', JStr key), (''value'', kv_cell v), (''type'', JStr ty)]"
  by (simp add: kvStoreTableSchema_def cast_def getValue_def kv_cell_def)

lemma kv_store_val [simp]:
  "store_val ''string'' (kv_cell v) = kv_cell v" "store_val ''string'' (JStr s) = JStr s"
  by (simp_all add: store_val_def kv_cell_def is_numeric_type_def)

text \<open>After a write, the row of the key holds the string and the type that were written.\<close>

lemma kv_lookup_put:
  assumes ready: "table_ready kvStoreTableSchema d" and tb: "d ''key_value_store'' = Some tb"
    and row: "row = [(''key'', JStr key), (''value'', kv_cell v), (''type'', JStr ty)]"
    and ok: "insert_error (t_cols tb) (t_pk tb) row = None"
  defines "rows' \<equiv> upsert_rows (t_cols tb) (t_pk tb) row (t_rows tb)"
  shows "(\<exists>r. lookup_row [''key''] [JStr key] rows' = Some r
      \<and> oget r ''value'' = kv_cell v \<and> oget r ''type'' = JStr ty)
    \<and> (\<forall>k. k \<noteq> key \<longrightarrow> lookup_row [''key''] [JStr k] rows' = lookup_row [''key''] [JStr k] (t_rows tb))"
proof -
  from ready tb have cols: "t_cols tb = column_defs kvStoreTableSchema"
    and pk: "t_pk tb = [''key'']" and wf: "wf_table tb"
    by (auto simp: table_ready_def kv_columns split: option.splits)
  have new: "new_row (t_cols tb) row =
      [(''key'', JStr key), (''value'', kv_cell v), (''type'', JStr ty)]"
    by (simp add: new_row_def cols kv_columns row)
  show ?thesis
  proof (cases "lookup_row [''key''] [JStr key] (t_rows tb)")
    case None
    then show ?thesis
      using lookup_upsert [OF wf ok] by (auto simp: rows'_def new pk row_key_def)
  next
    case (Some r)
    from wf lookup_row_Some [OF Some] have "typed_row (t_cols tb) r"
      by (auto simp: wf_table_def list_all_iff)
    then have has: "ohas r ''value''" "ohas r ''type''"
      by (auto simp: typed_row_def ohas_def cols kv_columns)
    have ty: "col_type (t_cols tb) ''value'' = ''string''" "col_type (t_cols tb) ''type'' = ''string''"
      by (simp_all add: col_type_def cols kv_columns)
    let ?m = "merge_row (t_cols tb) row r"
    have "oget ?m ''value'' = kv_cell v" "oget ?m ''type'' = JStr ty"
      by (simp_all add: oget_merge_row has ty row)
    with Some show ?thesis
      using lookup_upsert [OF wf ok] by (auto simp: rows'_def new pk row_key_def)
  qed
qed

lemma kv_set_ok:
  assumes "sql_engine jc (kx X)" and "kv_set X key v False w = (Inr (), w')"
  shows "\<exists>row tb. row = [(''key'', JStr key), (''value'', kv_cell v), (''type'', JStr (js_typeof v))]
    \<and> js_typeof v \<in> set ALLOWED_VALUE_TYPES \<and> committed w ''key_value_store'' = Some tb
    \<and> insert_error (t_cols tb) (t_pk tb) row = None
    \<and> committed w' = put_row ''key_value_store'' row (committed w)"
proof -
  have ty: "js_typeof v \<in> set ALLOWED_VALUE_TYPES"
    by (rule ccontr) (use assms(2) in \<open>simp add: kv_set_def\<close>)
  have up: "upsert (kx X) kvStoreTableSchema (JObj [(''key'', JStr key),
      (''value'', if v = JUndef then v else JStr (js_string v)), (''type'', JStr (js_typeof v))]) False w = (Inr (), w')"
    using assms(2) unfolding kv_set_def Let_def by (simp only: ty not_True_eq_False if_False)
  show ?thesis
    using sql_engine.upsert_one_ok [OF assms(1) up] ty unfolding kv_row kv_columns by auto
qed

lemma kv_get_ok:
  assumes "sql_engine jc (kx X)" and ready: "table_ready kvStoreTableSchema (committed w)"
    and "kv_get X key w = (Inr u, w')"
  shows "\<exists>tb. committed w ''key_value_store'' = Some tb \<and> w' = w \<and>
    (case lookup_row [''key''] [JStr key] (t_rows tb) of
       None \<Rightarrow> u = JUndef
     | Some r \<Rightarrow> formatValue (oget r ''value'') (oget r ''type'') = Inr u)"
proof -
  from assms(3) obtain rows where
    find: "table_find (kx X) kvStoreTableSchema [(''key'', JStr key), (''limit'', JNum 1)]
            (Some [''value'', ''type'']) w = (Inr rows, w')"
    and u: "formatValue (oget (own_props (js_default (js_first rows) (JObj []))) ''value'')
              (oget (own_props (js_default (js_first rows) (JObj []))) ''type'') = Inr u"
    by (auto simp: kv_get_def act_ok Let_def)
  from sql_engine.table_find_ok [OF assms(1) find] obtain q tb where
    q: "queryBuilder kvStoreTableSchema [(''key'', JStr key), (''limit'', JNum 1)] [''value'', ''type''] = Inr q"
    and tb: "committed w ''key_value_store'' = Some tb"
    and rows: "rows = map JObj (select_rows jc q (t_rows tb))" and w': "w' = w"
    by (auto simp: kv_columns)
  from kv_select [OF ready tb q, of jc] u tb w' show ?thesis
    by (auto simp: rows js_first_def js_default_def own_props_def formatValue_def
        split: option.splits)
qed

lemma kv_read_written:
  assumes "sql_engine jc (kx X)" and "table_ready kvStoreTableSchema (committed w)"
    and "kv_set X key v False w = (Inr (), w')" and "kv_get X key w' = (Inr u, w'')"
  shows "u = kv_readback v \<and> w'' = w'"
proof -
  from kv_set_ok [OF assms(1,3)] obtain tb where
    ty: "js_typeof v \<in> set ALLOWED_VALUE_TYPES" and tb: "committed w ''key_value_store'' = Some tb"
    and ok: "insert_error (t_cols tb) (t_pk tb)
       [(''key'', JStr key), (''value'', kv_cell v), (''type'', JStr (js_typeof v))] = None"
    and w': "committed w' = put_row ''key_value_store''
       [(''key'', JStr key), (''value'', kv_cell v), (''type'', JStr (js_typeof v))] (committed w)"
    by auto
  let ?row = "[(''key'', JStr key), (''value'', kv_cell v), (''type'', JStr (js_typeof v))]"
  have ready': "table_ready kvStoreTableSchema (committed w')"
    unfolding w' using table_ready_put_row [OF assms(2), of tb ?row] tb ok by (simp add: kv_columns)
  from kv_lookup_put [OF assms(2) tb refl ok] obtain r where
    r: "lookup_row [''key''] [JStr key] (upsert_rows (t_cols tb) (t_pk tb) ?row (t_rows tb)) = Some r"
      "oget r ''value'' = kv_cell v" "oget r ''type'' = JStr (js_typeof v)" by auto
  have tb': "committed w' ''key_value_store'' =
      Some (tb\<lparr>t_rows := upsert_rows (t_cols tb) (t_pk tb) ?row (t_rows tb)\<rparr>)"
    by (simp add: w' put_row_def tb set_rows_def)
  from kv_get_ok [OF assms(1) ready' assms(4)] r tb' have
    u: "formatValue (kv_cell v) (JStr (js_typeof v)) = Inr u" and "w'' = w'" by auto
  then show ?thesis
    using formatValue_readback [OF ty] by (cases "v = JUndef") (auto simp: kv_cell_def formatValue_def kv_readback_def)
qed

text \<open>
  C38. What \<open>set\<close> stores, \<open>get\<close> returns: for a string, a number, a big integer or
  \<open>undefined\<close> the very value, for a boolean always \<open>true\<close>. Both calls outside a
  transaction, through any driver that meets its contract.
\<close>

theorem kv_set_get:
  assumes "sql_engine jc (kx X)" and "table_ready kvStoreTableSchema (committed w)"
    and "kv_set X key v False w = (Inr (), w')" and "kv_get X key w' = (Inr u, w'')"
  shows "u = kv_readback v \<and> w'' = w'"
  using assms by (rule kv_read_written)

theorem kv_set_get_witness:
  "fst (kv_get ref_ext ''a'' (snd (kv_set ref_ext ''a'' (JBig 5) False fresh_world))) = Inr (JBig 5)"
proof -
  let ?w = "snd (kv_set ref_ext ''a'' (JBig 5) False fresh_world)"
  have set: "kv_set ref_ext ''a'' (JBig 5) False fresh_world = (Inr (), ?w)"
  proof -
    have "fst (kv_set ref_ext ''a'' (JBig 5) False fresh_world) = Inr ()" by code_simp
    then show ?thesis by (metis prod.collapse)
  qed
  have ready: "table_ready kvStoreTableSchema (committed fresh_world)"
    by (simp add: table_ready_fresh indexer_schemas_def)
  have "\<not> isl (fst (kv_get ref_ext ''a'' ?w))" by code_simp
  then obtain u where u: "kv_get ref_ext ''a'' ?w = (Inr u, snd (kv_get ref_ext ''a'' ?w))"
    by (metis prod.collapse sum.collapse(2))
  from kv_set_get [OF ref_ext_engine ready set u] u show ?thesis
    by (simp add: kv_readback_def)
qed

end
