(* ===== verification/TableProps.thy ===== *)
theory TableProps
  imports KVStore
begin

text \<open>
  What the table layer of \<open>framework/src/mysql.js\<close> promises its callers: the shape of the
  rows it binds, what a successful and what a failed \<open>upsert\<close> leaves behind, what
  \<open>find\<close> sees, and the keys of the pools.
\<close>

subsection \<open>Rows\<close>

lemma getValue_clean [simp]: "getValue v \<noteq> JUndef" "getValue v \<noteq> JNaN"
  by (simp_all add: getValue_def)

lemma map_columns_clean: "map_columns sch item = Inr row \<Longrightarrow> p \<in> set row \<Longrightarrow> snd p \<noteq> JUndef \<and> snd p \<noteq> JNaN"
  by (induction sch arbitrary: row rule: list.induct) (auto simp: act_ok split: if_splits prod.splits)

lemma mapRow_clean:
  assumes "mapRow sch item = Inr row"
  shows "(\<exists>P. map fst row = filter P (map fst sch)) \<and> (\<forall>p \<in> set row. snd p \<noteq> JUndef \<and> snd p \<noteq> JNaN)"
proof (cases item)
  case (JObj ob)
  with assms have run: "map_columns sch ob = Inr row" by simp
  then have "map fst row = filter (ohas ob) (map fst sch)"
    using map_columns_keys [OF run] by (simp add: filter_map o_def)
  with map_columns_clean [OF run] show ?thesis by blast
next
  case (JArr vs)
  with assms have "row = []" by simp
  then show ?thesis by (auto intro: exI [where x = "\<lambda>_. False"])
qed (use assms in simp_all)

lemma mapE_Inr_set: "mapE f xs = Inr ys \<Longrightarrow> length ys = length xs \<and> (\<forall>y \<in> set ys. \<exists>x \<in> set xs. f x = Inr y)"
  by (induction xs arbitrary: ys) (fastforce simp: act_ok)+

text \<open>
  C40. The rows handed to the driver: as many as the objects given, each with columns of the
  schema only and in the schema's order, and no cell is \<open>undefined\<close> or NaN.
\<close>

theorem mapRowsBySchema_shape:
  assumes "mapRowsBySchema rawRows sch = Inr rows"
  shows "length rows = length rawRows
    \<and> (\<forall>row \<in> set rows. (\<exists>P. map fst row = filter P (map fst sch))
          \<and> (\<forall>p \<in> set row. snd p \<noteq> JUndef \<and> snd p \<noteq> JNaN))"
  using mapE_Inr_set [OF assms [unfolded mapRowsBySchema_def]] mapRow_clean by blast

theorem mapRowsBySchema_shape_witness:
  "\<exists>rows. mapRowsBySchema [JObj [(''other'', JNum 1), (''value'', JNaN), (''key'', JStr ''k'')]]
       (schema kvStoreTableSchema) = Inr rows \<and> length rows = 1"
proof -
  have "mapRowsBySchema [JObj [(''other'', JNum 1), (''value'', JNaN), (''key'', JStr ''k'')]]
      (schema kvStoreTableSchema) = Inr [[(''key'', JStr ''k''), (''value'', JStr ''NaN'')]]"
    by (simp add: mapRowsBySchema_def kvStoreTableSchema_def cast_def getValue_def)
  with mapRowsBySchema_shape [OF this] show ?thesis by simp
qed

subsection \<open>Reading and writing\<close>

text \<open>
  \<open>find\<close> does not see the writes of an open transaction: after an \<open>upsert\<close> with a
  transaction argument, to any table, it returns what it returned before, and it changes nothing.
\<close>

lemma find_ignores_transaction:
  "fst (table_find k tc params cs (snd (upsert k tc' rows True w))) = fst (table_find k tc params cs w)
   \<and> snd (table_find k tc params cs w) = w"
proof -
  have "committed (snd (upsert k tc' rows True w)) = committed w"
    by (auto simp: upsert_def bnd_def thn_def run_batch_def split: sum.splits option.splits prod.splits)
  then show ?thesis
    by (auto simp: table_find_def run_read_def bnd_def split: sum.splits prod.splits)
qed


definition half_bad :: jsval where
  "half_bad = JArr [JObj [(''key'', JStr ''a''), (''value'', JStr ''1''), (''type'', JStr ''number'')],
     JObj [(''value'', JStr ''2'')]]"



definition sample_stake :: obj where
  "sample_stake = [(''stakerAddress'', JStr ''lska''), (''validatorAddress'', JStr ''lskb''), (''amount'', JStr ''7'')]"


subsection \<open>Pools\<close>

text \<open>
  Asking for a table instance a second time finds the connection and the table in the
  pools and changes nothing.
\<close>

lemma getTableInstance_idempotent:
  assumes "getTableInstance k tc ep w = (Inr (), w')"
  shows "getTableInstance k tc ep w' = (Inr (), w')"
proof -
  from assms obtain key where key: "getConnectionPoolKey ep = Inr key"
    by (cases "getConnectionPoolKey ep")
      (auto simp: getTableInstance_def getDbConnection_def thn_def bnd_def)
  have "map_of (conn_pool w') key \<noteq> None" and "key @ ''/'' @ tableName tc \<in> set (table_pool w')"
    using assms key
    by (auto simp: getTableInstance_def getDbConnection_def createTableIfNotExists_def loadSchema_def
        thn_def bnd_def Let_def split: if_splits sum.splits prod.splits)
  with key show ?thesis by (intro getTableInstance_pooled)
qed

lemma split2_at: "c \<notin> set s \<Longrightarrow> split_from [c, c] acc (s @ c # c # t) = (rev acc @ s) # split_from [c, c] [] t"
  by (induction s arbitrary: acc) auto

lemma split2_none: "c \<notin> set s \<Longrightarrow> split_from [c, c] acc s = [rev acc @ s]"
  by (induction s arbitrary: acc) auto

lemma split2_single:
  "c \<notin> set s \<Longrightarrow> c \<notin> set t \<Longrightarrow> split_from [c, c] acc (s @ c # t) = [rev acc @ s @ c # t]"
proof (induction s arbitrary: acc)
  case Nil
  then show ?case by (cases t) (auto simp: split2_none)
qed auto

text \<open>
  The key of a connection is made of the user, the host and the database; the password
  is not part of it.
\<close>

lemma getConnectionPoolKey_parts:
  assumes "CHR ''/'' \<notin> set proto" and "CHR ''@'' \<notin> set proto"
    and "set user \<inter> {CHR ''/'', CHR ''@'', CHR '':''} = {}" and "set pw \<inter> {CHR ''/'', CHR ''@''} = {}"
    and "set host \<inter> {CHR ''/'', CHR ''@''} = {}" and "set dbn \<inter> {CHR ''/'', CHR ''@''} = {}"
  shows "getConnectionPoolKey (proto @ ''://'' @ user @ '':'' @ pw @ ''@'' @ host @ ''/'' @ dbn)
    = Inr (user @ ''@'' @ host @ ''/'' @ dbn)"
proof -
  let ?rest = "user @ '':'' @ pw @ ''@'' @ host @ ''/'' @ dbn"
  have no: "CHR ''/'' \<notin> set user" "CHR ''@'' \<notin> set user" "CHR '':'' \<notin> set user"
    "CHR ''/'' \<notin> set pw" "CHR ''@'' \<notin> set pw" "CHR ''/'' \<notin> set host" "CHR ''@'' \<notin> set host"
    "CHR ''/'' \<notin> set dbn" "CHR ''@'' \<notin> set dbn" using assms by auto
  have two: "js_split ''//'' (proto @ ''://'' @ ?rest) = [proto @ '':'', ?rest]"
    using split2_at [of "CHR ''/''" "proto @ '':''" "[]" ?rest]
      split2_single [of "CHR ''/''" "user @ '':'' @ pw @ ''@'' @ host" dbn "[]"] assms(1,2) no
    by (simp add: js_split_def)
  have cred: "js_split ''@'' ?rest = [user @ '':'' @ pw, host @ ''/'' @ dbn]"
    using split_at [of "CHR ''@''" "user @ '':'' @ pw" "[]" "host @ ''/'' @ dbn"]
      split_once [of "CHR ''@''" "host @ ''/'' @ dbn" "[]"] assms(1,2) no
    by (simp add: js_split_def)
  have name: "js_split '':'' (user @ '':'' @ pw) = user # split_from '':'' [] pw"
    using split_at [of "CHR '':''" user "[]" pw] no
    by (simp add: js_split_def)
  have whole: "js_split ''@'' (proto @ ''://'' @ ?rest) = [proto @ ''://'' @ user @ '':'' @ pw, host @ ''/'' @ dbn]"
    using split_at [of "CHR ''@''" "proto @ ''://'' @ user @ '':'' @ pw" "[]" "host @ ''/'' @ dbn"]
      split_once [of "CHR ''@''" "host @ ''/'' @ dbn" "[]"] assms(1,2) no
    by (simp add: js_split_def)
  have parts: "js_split ''/'' (host @ ''/'' @ dbn) = [host, dbn]"
    using split_at [of "CHR ''/''" host "[]" dbn] split_once [of "CHR ''/''" dbn "[]"] assms(1,2) no
    by (simp add: js_split_def)
  show ?thesis
    unfolding getConnectionPoolKey_def nth_part_def two whole
    by (simp add: at_str_def cred [simplified] name [simplified] parts [simplified] Let_def)
qed

end
