(* ===== verification/TxAudio.thy ===== *)
theory TxAudio
  imports KVStore
begin

text \<open>
  The audio commands of the transaction processor,
  \<open>shared/indexer/transactionProcessor/audio\<close>: \<open>create\<close>, \<open>destroy\<close>, \<open>reclaim\<close>,
  \<open>setAttributes\<close>, \<open>stream\<close> and \<open>transfer\<close>, each with its \<open>applyTransaction\<close> and
  \<open>revertTransaction\<close>. Every write goes through the transaction of the block; every
  \<open>find\<close> reads the committed tables.
\<close>

text \<open>
  The guard all audio commands open with: the success flag of the first
  \<open>commandExecutionResult\<close> event of the audio module in the block.
\<close>

definition audio_command_success :: "jsval list \<Rightarrow> jserr + bool" where
  "audio_command_success events =
     bindE (event_data MODULE_NAME_AUDIO EVENT_NAME_COMMAND_EXECUTION_RESULT (JObj []) events) (\<lambda>res.
     bindE (js_prop res ''success'') (\<lambda>s. Inr (truthy s)))"

definition guarded :: "jsval list \<Rightarrow> jsval iact \<Rightarrow> jsval iact" where
  "guarded events body =
     bnd (liftE (audio_command_success events)) (\<lambda>ok. if \<not> ok then ret (JBool False) else body)"

subsection \<open>create\<close>

definition store_owner :: "ext \<Rightarrow> jsval \<Rightarrow> jsval \<Rightarrow> unit iact" where
  "store_owner X created owner =
     bnd (propA created ''audioID'') (\<lambda>audioID.
     bnd (propA owner ''address'') (\<lambda>_.
     upsert (kx X) ownersTableSchema (JObj (oset (own_props owner) ''audioID'' audioID)) True))"

definition feat_info :: "jsval \<Rightarrow> jsval \<Rightarrow> jsval" where
  "feat_info address audioID =
     JObj [(''address'', address), (''role'', JStr ''co-artist''), (''audioID'', audioID)]"

definition store_feat :: "ext \<Rightarrow> jsval \<Rightarrow> jsval \<Rightarrow> unit iact" where
  "store_feat X created feat =
     bnd (propA created ''audioID'') (\<lambda>audioID.
     upsert (kx X) featsTableSchema (feat_info feat audioID) True)"

definition audio_create_apply :: "ext \<Rightarrow> jsval \<Rightarrow> jsval \<Rightarrow> jsval list \<Rightarrow> jsval iact" where
  "audio_create_apply X blockHeader tx events = guarded events
     (bnd (liftE (find_event MODULE_NAME_AUDIO EVENT_NAME_AUDIO_CREATED events)) (\<lambda>eventData.
      bnd (propA (js_or eventData (JObj [(''data'', JObj [])])) ''data'') (\<lambda>audioCreatedData.
      bnd (propA tx ''senderPublicKey'') (\<lambda>pk.
      bnd (lisk32A X pk) (\<lambda>senderAddress.
      let account = JObj [(''address'', senderAddress)] in
      thn (upsert (kx X) accountsTableSchema account True) (
      bnd (pathA tx [''params'', ''owners'']) (\<lambda>ov. bnd (elemsA ov) (\<lambda>owners.
      thn (forA (store_owner X audioCreatedData) owners) (
      bnd (pathA tx [''params'', ''feat'']) (\<lambda>fv. bnd (elemsA fv) (\<lambda>feats.
      thn (forA (store_feat X audioCreatedData) feats) (
      thn (upsert (kx X) accountsTableSchema account True) (
      bnd (propA tx ''params'') (\<lambda>params.
      thn (upsert (kx X) audiosTableSchema
             (JObj (spread (own_props audioCreatedData) (own_props params))) True) (
      bnd (propA audioCreatedData ''audioID'') (\<lambda>_.
      ret (JBool True)))))))))))))))))"

definition audio_create_revert :: "ext \<Rightarrow> jsval \<Rightarrow> jsval \<Rightarrow> jsval list \<Rightarrow> jsval iact" where
  "audio_create_revert X blockHeader tx events =
     bnd (liftE (event_data MODULE_NAME_AUDIO EVENT_NAME_AUDIO_CREATED (JObj []) events)) (\<lambda>created.
     bnd (propA created ''audioID'') (\<lambda>audioID.
     thn (deleteByParams (kx X) ownersTableSchema [(''audioID'', audioID)] True) (
     thn (deleteByParams (kx X) featsTableSchema [(''audioID'', audioID)] True) (
     thn (deleteByPrimaryKey (kx X) audiosTableSchema audioID True) (
     ret JUndef)))))"

subsection \<open>destroy\<close>

definition audio_destroy_apply :: "ext \<Rightarrow> jsval \<Rightarrow> jsval \<Rightarrow> jsval list \<Rightarrow> jsval iact" where
  "audio_destroy_apply X blockHeader tx events = guarded events
     (bnd (pathA tx [''params'', ''audioID'']) (\<lambda>audioID.
      thn (deleteByParams (kx X) audiosTableSchema [(''audioID'', audioID)] True) (
      thn (deleteByParams (kx X) ownersTableSchema [(''audioID'', audioID)] True) (
      thn (deleteByParams (kx X) featsTableSchema [(''audioID'', audioID)] True) (
      ret (JBool True))))))"

definition audio_destroy_revert :: "ext \<Rightarrow> jsval \<Rightarrow> jsval \<Rightarrow> jsval list \<Rightarrow> jsval iact" where
  "audio_destroy_revert X blockHeader tx events = ret JUndef"

subsection \<open>reclaim\<close>

definition reclaim_one :: "ext \<Rightarrow> jsval \<Rightarrow> jsval \<Rightarrow> unit iact" where
  "reclaim_one X tx audioID =
     bnd (table_find (kx X) ownersTableSchema [(''audioID'', audioID)]
            (Some [''address'', ''shares'', ''income''])) (\<lambda>owners.
     bnd (propA tx ''senderAddress'') (\<lambda>senderAddress.
     let sender = (case List.find (\<lambda>ow. strict_eq (oget (own_props ow) ''address'') senderAddress) owners of
                     None \<Rightarrow> JUndef | Some ow \<Rightarrow> ow);
         info = oset (oset (own_props sender) ''audioID'' audioID) ''income'' (JNum 0) in
     bnd (propA sender ''address'') (\<lambda>_.
     upsert (kx X) ownersTableSchema (JObj info) True)))"

definition audio_reclaim_apply :: "ext \<Rightarrow> jsval \<Rightarrow> jsval \<Rightarrow> jsval list \<Rightarrow> jsval iact" where
  "audio_reclaim_apply X blockHeader tx events = guarded events
     (bnd (liftE (find_event MODULE_NAME_AUDIO EVENT_NAME_AUDIO_INCOME_RECLAIMED events)) (\<lambda>eventData.
      bnd (pathA (js_or eventData
                   (JObj [(''data'', JObj [(''claimData'', JObj [(''audioIDs'', JArr [])])])]))
             [''data'', ''claimData'', ''audioIDs'']) (\<lambda>iv.
      bnd (elemsA iv) (\<lambda>audioIDs.
      thn (forA (reclaim_one X tx) audioIDs) (ret (JBool True))))))"

definition audio_reclaim_revert :: "ext \<Rightarrow> jsval \<Rightarrow> jsval \<Rightarrow> jsval list \<Rightarrow> jsval iact" where
  "audio_reclaim_revert X blockHeader tx events = ret JUndef"

subsection \<open>setAttributes\<close>

definition audio_setAttributes_apply :: "ext \<Rightarrow> jsval \<Rightarrow> jsval \<Rightarrow> jsval list \<Rightarrow> jsval iact" where
  "audio_setAttributes_apply X blockHeader tx events = guarded events
     (bnd (propA tx ''params'') (\<lambda>params.
      bnd (propA params ''audioID'') (\<lambda>audioID.
      bnd (table_find (kx X) audiosTableSchema [(''audioID'', audioID)]
             (Some [''name'', ''releaseYear'', ''collectionID'', ''creatorAddress''])) (\<lambda>audios.
      bnd (table_find (kx X) featsTableSchema [(''audioID'', audioID)] (Some [''address''])) (\<lambda>oldFeats.
      let audio = js_first audios;
          oldFeatsAddresses = map (\<lambda>r. oget (own_props r) ''address'') oldFeats in
      bnd (propA params ''feat'') (\<lambda>fv. bnd (elemsA fv) (\<lambda>feats.
      let removedFeats = filter (\<lambda>a. \<not> js_includes feats a) oldFeatsAddresses;
          addedFeats = filter (\<lambda>a. \<not> js_includes oldFeatsAddresses a) feats in
      thn (forA (\<lambda>a. upsert (kx X) featsTableSchema (feat_info a audioID) True) addedFeats) (
      thn (forA (\<lambda>a. deleteByParams (kx X) featsTableSchema
                       [(''address'', a), (''audioID'', audioID)] True) removedFeats) (
      thn (upsert (kx X) audiosTableSchema
             (JObj (spread (own_props audio) (own_props params))) True) (
      ret (JBool True)))))))))))"

definition audio_setAttributes_revert :: "ext \<Rightarrow> jsval \<Rightarrow> jsval \<Rightarrow> jsval list \<Rightarrow> jsval iact" where
  "audio_setAttributes_revert X blockHeader tx events = ret JUndef"

subsection \<open>stream\<close>

definition audio_stream_apply :: "ext \<Rightarrow> jsval \<Rightarrow> jsval \<Rightarrow> jsval list \<Rightarrow> jsval iact" where
  "audio_stream_apply X blockHeader tx events = guarded events
     (bnd (pathA tx [''params'', ''audioID'']) (\<lambda>audioID.
      bnd (liftE (event_data MODULE_NAME_AUDIO EVENT_NAME_AUDIO_STREAMED (JObj []) events)) (\<lambda>streamed.
      bnd (propA streamed ''owners'') (\<lambda>ov. bnd (elemsA ov) (\<lambda>owners.
      thn (forA (\<lambda>owner. bnd (propA owner ''address'') (\<lambda>_.
             upsert (kx X) ownersTableSchema (JObj (oset (own_props owner) ''audioID'' audioID)) True)) owners) (
      ret (JBool True)))))))"

definition audio_stream_revert :: "ext \<Rightarrow> jsval \<Rightarrow> jsval \<Rightarrow> jsval list \<Rightarrow> jsval iact" where
  "audio_stream_revert X blockHeader tx events = ret JUndef"

subsection \<open>transfer\<close>

definition find_owner :: "ext \<Rightarrow> jsval \<Rightarrow> jsval \<Rightarrow> jsval iact" where
  "find_owner X audioID address =
     bnd (table_find (kx X) ownersTableSchema [(''audioID'', audioID), (''address'', address)]
            (Some [''address'', ''audioID'', ''shares'', ''income''])) (\<lambda>rows. ret (js_first rows))"

text \<open>The sender's new balance, written back, or the sender's row deleted when nothing is left.\<close>

definition debit_sender :: "ext \<Rightarrow> jsval \<Rightarrow> jsval \<Rightarrow> jsval \<Rightarrow> jsval \<Rightarrow> unit iact" where
  "debit_sender X audioID senderAddress sender transferredShares =
     bnd (propA sender ''shares'') (\<lambda>held.
     bnd (liftE (js_sub held transferredShares)) (\<lambda>left.
     bnd (liftE (js_setprop sender ''shares'' left)) (\<lambda>sender'.
     if strict_eq left (JNum 0)
     then thn (deleteByParams (kx X) ownersTableSchema
            [(''audioID'', audioID), (''address'', senderAddress)] True) (ret ())
     else upsert (kx X) ownersTableSchema sender' True)))"

text \<open>The recipient's new balance, or a new row for a recipient without one.\<close>

definition credit_recipient :: "ext \<Rightarrow> jsval \<Rightarrow> jsval \<Rightarrow> jsval \<Rightarrow> jsval \<Rightarrow> unit iact" where
  "credit_recipient X audioID recipientAddress recipient transferredShares =
     bnd (if truthy recipient
          then bnd (propA recipient ''shares'') (\<lambda>had.
               bnd (liftE (js_add had transferredShares)) (\<lambda>sum.
               liftE (js_setprop recipient ''shares'' sum)))
          else ret (JObj [(''audioID'', audioID), (''address'', recipientAddress),
                          (''shares'', transferredShares)])) (\<lambda>recipient'.
     upsert (kx X) ownersTableSchema recipient' True)"

definition audio_transfer_apply :: "ext \<Rightarrow> jsval \<Rightarrow> jsval \<Rightarrow> jsval list \<Rightarrow> jsval iact" where
  "audio_transfer_apply X blockHeader tx events = guarded events
     (bnd (propA tx ''senderPublicKey'') (\<lambda>pk.
      bnd (lisk32A X pk) (\<lambda>senderAddress.
      bnd (propA tx ''params'') (\<lambda>params.
      bnd (propA params ''audioID'') (\<lambda>audioID.
      bnd (propA params ''address'') (\<lambda>recipientAddress.
      bnd (propA params ''shares'') (\<lambda>transferredShares.
      bnd (find_owner X audioID senderAddress) (\<lambda>sender.
      bnd (find_owner X audioID recipientAddress) (\<lambda>recipient.
      thn (debit_sender X audioID senderAddress sender transferredShares) (
      thn (credit_recipient X audioID recipientAddress recipient transferredShares) (
      ret (JBool True))))))))))))"

definition audio_transfer_revert :: "ext \<Rightarrow> jsval \<Rightarrow> jsval \<Rightarrow> jsval list \<Rightarrow> jsval iact" where
  "audio_transfer_revert X blockHeader tx events = ret JUndef"

lemmas audio_handler_defs =
  audio_create_apply_def audio_create_revert_def audio_destroy_apply_def audio_destroy_revert_def
  audio_reclaim_apply_def audio_reclaim_revert_def audio_setAttributes_apply_def
  audio_setAttributes_revert_def audio_stream_apply_def audio_stream_revert_def
  audio_transfer_apply_def audio_transfer_revert_def

subsection \<open>Confinement\<close>

lemma within_guarded [confined]: "keeps (within T) body \<Longrightarrow> keeps (within T) (guarded evs body)"
  unfolding guarded_def by (intro confined)

lemma within_store_owner [confined]: "keeps (within T) (store_owner X c ow)"
  unfolding store_owner_def by (intro confined)

lemma within_store_feat [confined]: "keeps (within T) (store_feat X c f)"
  unfolding store_feat_def by (intro confined)

lemma within_reclaim_one [confined]: "keeps (within T) (reclaim_one X tx a)"
  unfolding reclaim_one_def Let_def by (intro confined)

lemma within_find_owner [confined]: "keeps (within T) (find_owner X a b)"
  unfolding find_owner_def by (intro confined)

lemma within_transfer_steps [confined]:
  "keeps (within T) (debit_sender X a s ow n)" "keeps (within T) (credit_recipient X a r ow n)"
  unfolding debit_sender_def credit_recipient_def by (intro confined)+

text \<open>No audio command writes a committed table before the block's transaction commits.\<close>

lemma audio_confined:
  "keeps (within {}) (audio_create_apply X h tx evs)" "keeps (within {}) (audio_create_revert X h tx evs)"
  "keeps (within {}) (audio_destroy_apply X h tx evs)" "keeps (within {}) (audio_destroy_revert X h tx evs)"
  "keeps (within {}) (audio_reclaim_apply X h tx evs)" "keeps (within {}) (audio_reclaim_revert X h tx evs)"
  "keeps (within {}) (audio_setAttributes_apply X h tx evs)" "keeps (within {}) (audio_setAttributes_revert X h tx evs)"
  "keeps (within {}) (audio_stream_apply X h tx evs)" "keeps (within {}) (audio_stream_revert X h tx evs)"
  "keeps (within {}) (audio_transfer_apply X h tx evs)" "keeps (within {}) (audio_transfer_revert X h tx evs)"
  unfolding audio_handler_defs Let_def by (intro confined)+

end
