(* ===== verification/TxMusic.thy ===== *)
theory TxMusic
  imports TxAudio
begin

text \<open>
  The commands of the collection, subscription and profile modules,
  \<open>shared/indexer/transactionProcessor/{collection,subscription,profile}\<close>.
\<close>

subsection \<open>Common steps\<close>

text \<open>\<open>getLisk32AddressFromPublicKey(tx.senderPublicKey)\<close>.\<close>

definition sender_address :: "ext \<Rightarrow> jsval \<Rightarrow> jsval iact" where
  "sender_address X tx = bnd (propA tx ''senderPublicKey'') (lisk32A X)"

definition upsert_account :: "ext \<Rightarrow> jsval \<Rightarrow> unit iact" where
  "upsert_account X address =
     upsert (kx X) accountsTableSchema (JObj [(''address'', address)]) True"

subsection \<open>collection\<close>

definition collection_create_apply :: "ext \<Rightarrow> jsval \<Rightarrow> jsval \<Rightarrow> jsval list \<Rightarrow> jsval iact" where
  "collection_create_apply X blockHeader tx events =
     bnd (sender_address X tx) (\<lambda>senderAddress.
     thn (upsert_account X senderAddress) (
     bnd (liftE (event_data MODULE_NAME_COLLECTION EVENT_NAME_COLLECTION_CREATED (JObj []) events)) (\<lambda>eventData.
     bnd (propA tx ''params'') (\<lambda>params.
     thn (upsert (kx X) collectionsTableSchema
            (JObj (spread (own_props eventData) (own_props params))) True) (
     bnd (propA eventData ''collectionsID'') (\<lambda>_. ret JUndef))))))"

text \<open>
  The reversal reads \<open>oldAccount.collections.owned\<close> of the promise that \<open>find\<close> returned:
  it is not awaited, a promise has no property \<open>collections\<close>, and the read throws.
\<close>

definition collection_create_revert :: "ext \<Rightarrow> jsval \<Rightarrow> jsval \<Rightarrow> jsval list \<Rightarrow> jsval iact" where
  "collection_create_revert X blockHeader tx events =
     bnd (sender_address X tx) (\<lambda>address.
     thn (spawn (thn (table_find (kx X) accountsTableSchema [(''address'', address)] None) (ret ()))) (
     bnd (sender_address X tx) (\<lambda>_.
     bnd (propA tx ''senderPublicKey'') (\<lambda>_.
     bnd (pathA (JObj []) [''collections'', ''owned'']) (\<lambda>_. ret JUndef)))))"

definition collection_destroy_apply :: "ext \<Rightarrow> jsval \<Rightarrow> jsval \<Rightarrow> jsval list \<Rightarrow> jsval iact" where
  "collection_destroy_apply X blockHeader tx events =
     bnd (pathA tx [''params'', ''collectionID'']) (\<lambda>collectionID.
     thn (deleteByParams (kx X) collectionsTableSchema [(''collectionID'', collectionID)] True) (
     ret JUndef))"

definition collection_destroy_revert :: "ext \<Rightarrow> jsval \<Rightarrow> jsval \<Rightarrow> jsval list \<Rightarrow> jsval iact" where
  "collection_destroy_revert X blockHeader tx events = ret JUndef"

definition collection_setAttributes_apply :: "ext \<Rightarrow> jsval \<Rightarrow> jsval \<Rightarrow> jsval list \<Rightarrow> jsval iact" where
  "collection_setAttributes_apply X blockHeader tx events =
     bnd (pathA tx [''params'', ''collectionID'']) (\<lambda>collectionID.
     bnd (table_find (kx X) collectionsTableSchema [(''collectionID'', collectionID)]
            (Some [''collectionID''])) (\<lambda>rows.
     if js_typeof (js_first rows) \<noteq> ''undefined''
     then bnd (propA tx ''params'') (\<lambda>params.
          thn (upsert (kx X) collectionsTableSchema params True) (ret JUndef))
     else ret JUndef))"

definition collection_setAttributes_revert :: "ext \<Rightarrow> jsval \<Rightarrow> jsval \<Rightarrow> jsval list \<Rightarrow> jsval iact" where
  "collection_setAttributes_revert X blockHeader tx events = ret JUndef"

definition collection_transfer_apply :: "ext \<Rightarrow> jsval \<Rightarrow> jsval \<Rightarrow> jsval list \<Rightarrow> jsval iact" where
  "collection_transfer_apply X blockHeader tx events =
     bnd (pathA tx [''params'', ''collectionID'']) (\<lambda>collectionID.
     bnd (table_find (kx X) collectionsTableSchema [(''collectionID'', collectionID)]
            (Some [''collectionID'', ''name'', ''collectionType'', ''releaseYear''])) (\<lambda>rows.
     bnd (pathA tx [''params'', ''address'']) (\<lambda>address.
     bnd (liftE (js_setprop (js_first rows) ''creatorAddress'' address)) (\<lambda>collectionNFT.
     thn (upsert (kx X) collectionsTableSchema collectionNFT True) (ret JUndef)))))"

definition collection_transfer_revert :: "ext \<Rightarrow> jsval \<Rightarrow> jsval \<Rightarrow> jsval list \<Rightarrow> jsval iact" where
  "collection_transfer_revert X blockHeader tx events = ret JUndef"

subsection \<open>subscription\<close>

definition subscription_create_apply :: "ext \<Rightarrow> jsval \<Rightarrow> jsval \<Rightarrow> jsval list \<Rightarrow> jsval iact" where
  "subscription_create_apply X blockHeader tx events =
     bnd (sender_address X tx) (\<lambda>senderAddress.
     thn (upsert_account X senderAddress) (
     bnd (liftE (event_data ''subscription'' ''subscriptionCreated'' (JObj []) events)) (\<lambda>eventData.
     bnd (propA tx ''params'') (\<lambda>params.
     thn (upsert (kx X) subscriptionsTableSchema
            (JObj (spread (own_props eventData) (own_props params))) True) (
     bnd (propA eventData ''subscriptionID'') (\<lambda>_. ret JUndef))))))"

definition subscription_create_revert :: "ext \<Rightarrow> jsval \<Rightarrow> jsval \<Rightarrow> jsval list \<Rightarrow> jsval iact" where
  "subscription_create_revert X blockHeader tx events =
     bnd (liftE (event_data ''subscription'' ''subscriptionCreated'' JUndef events)) (\<lambda>eventData.
     bnd (propA eventData ''subscriptionID'') (\<lambda>subscriptionID.
     thn (deleteByParams (kx X) subscriptionsTableSchema [(''subscriptionID'', subscriptionID)] True) (
     ret JUndef)))"

definition subscription_columns :: "string list" where
  "subscription_columns =
     [''subscriptionID'', ''creatorAddress'', ''price'', ''consumable'', ''streams'', ''maxMembers'']"

text \<open>
  \<open>subscriptionNFT\<close> is the array that \<open>find\<close> returned: the assignment
  \<open>subscriptionNFT.creatorAddress = ...\<close> gives the array a property and leaves its rows,
  which are what is written back, as they were.
\<close>

definition rewrite_subscription :: "ext \<Rightarrow> jsval \<Rightarrow> jsval \<Rightarrow> unit iact" where
  "rewrite_subscription X subscriptionID creatorAddress =
     bnd (table_find (kx X) subscriptionsTableSchema [(''subscriptionID'', subscriptionID)]
            (Some subscription_columns)) (\<lambda>subscriptionNFT.
     bnd (liftE (js_setprop (JArr subscriptionNFT) ''creatorAddress'' creatorAddress)) (\<lambda>nft.
     upsert (kx X) subscriptionsTableSchema nft True))"

text \<open>\<open>id: member.concat(`-${tx.nonce.toString()}`)\<close> and the other columns of a member.\<close>

definition member_data :: "jsval \<Rightarrow> jsval \<Rightarrow> jsval \<Rightarrow> jserr + jsval" where
  "member_data tx subscriptionID member =
     bindE (js_prop tx ''nonce'') (\<lambda>nonce.
     bindE (as_str member) (\<lambda>mem.
     bindE (if nonce = JUndef \<or> nonce = JNull
            then Inl (TypeErr ''Cannot read properties of undefined (reading toString)'')
            else Inr (js_string nonce)) (\<lambda>n.
     bindE (js_prop tx ''id'') (\<lambda>txid.
     Inr (JObj [(''id'', JStr (mem @ ''-'' @ n)), (''address'', member), (''addedBy'', txid),
                (''shared'', subscriptionID)])))))"

definition add_member :: "ext \<Rightarrow> jsval \<Rightarrow> jsval \<Rightarrow> jsval \<Rightarrow> unit iact" where
  "add_member X tx subscriptionID member =
     bnd (liftE (member_data tx subscriptionID member)) (\<lambda>memberData.
     upsert (kx X) membersTableSchema memberData True)"

definition subscription_purchase_apply :: "ext \<Rightarrow> jsval \<Rightarrow> jsval \<Rightarrow> jsval list \<Rightarrow> jsval iact" where
  "subscription_purchase_apply X blockHeader tx events =
     bnd (sender_address X tx) (\<lambda>senderAddress.
     bnd (pathA tx [''params'', ''subscriptionID'']) (\<lambda>subscriptionID.
     thn (rewrite_subscription X subscriptionID senderAddress) (
     bnd (pathA tx [''params'', ''members'']) (\<lambda>mv. bnd (elemsA mv) (\<lambda>members.
     thn (forA (\<lambda>member. thn (upsert_account X member) (add_member X tx subscriptionID member)) members) (
     thn (upsert_account X senderAddress) (ret JUndef)))))))"

definition subscription_purchase_revert :: "ext \<Rightarrow> jsval \<Rightarrow> jsval \<Rightarrow> jsval list \<Rightarrow> jsval iact" where
  "subscription_purchase_revert X blockHeader tx events =
     bnd (pathA tx [''params'', ''subscriptionID'']) (\<lambda>subscriptionID.
     thn (rewrite_subscription X subscriptionID (JStr DEV_ADDRESS)) (
     thn (deleteByParams (kx X) membersTableSchema [(''shared'', subscriptionID)] True) (
     ret JUndef)))"

definition mark_removed :: "ext \<Rightarrow> jsval \<Rightarrow> jsval \<Rightarrow> unit iact" where
  "mark_removed X removedBy member =
     upsert (kx X) membersTableSchema (JObj (oset (own_props member) ''removedBy'' removedBy)) True"

definition subscription_updateMembers_apply :: "ext \<Rightarrow> jsval \<Rightarrow> jsval \<Rightarrow> jsval list \<Rightarrow> jsval iact" where
  "subscription_updateMembers_apply X blockHeader tx events =
     bnd (propA tx ''params'') (\<lambda>params.
     bnd (propA params ''subscriptionID'') (\<lambda>subscriptionID.
     bnd (table_find (kx X) membersTableSchema [(''shared'', subscriptionID), (''removedBy'', JNull)]
            (Some [''id'', ''address'', ''shared''])) (\<lambda>currentMembers.
     bnd (propA params ''members'') (\<lambda>mv. bnd (elemsA mv) (\<lambda>members.
     let currentAddresses = map (\<lambda>r. oget (own_props r) ''address'') currentMembers;
         removed = filter (\<lambda>r. \<not> js_includes members (oget (own_props r) ''address'')) currentMembers;
         added = filter (\<lambda>a. \<not> js_includes currentAddresses a) members in
     bnd (propA tx ''id'') (\<lambda>txid.
     thn (forA (mark_removed X txid) removed) (
     thn (forA (add_member X tx subscriptionID) added) (
     ret JUndef))))))))"

definition subscription_updateMembers_revert :: "ext \<Rightarrow> jsval \<Rightarrow> jsval \<Rightarrow> jsval list \<Rightarrow> jsval iact" where
  "subscription_updateMembers_revert X blockHeader tx events =
     bnd (propA tx ''id'') (\<lambda>txid.
     bnd (table_find (kx X) membersTableSchema [(''removedBy'', txid)]
            (Some [''id'', ''address'', ''shared''])) (\<lambda>removed.
     thn (deleteByParams (kx X) membersTableSchema [(''addedBy'', txid)] True) (
     thn (forA (mark_removed X JNull) removed) (
     ret JUndef))))"

subsection \<open>profile\<close>

definition store_social :: "ext \<Rightarrow> jsval \<Rightarrow> jsval \<Rightarrow> unit iact" where
  "store_social X profileID socialAccount =
     upsert (kx X) socialAccountsTableSchema
       (JObj (spread [(''profileID'', profileID)] (own_props socialAccount))) True"

definition profile_create_apply :: "ext \<Rightarrow> jsval \<Rightarrow> jsval \<Rightarrow> jsval list \<Rightarrow> jsval iact" where
  "profile_create_apply X blockHeader tx events =
     bnd (sender_address X tx) (\<lambda>senderAddress.
     thn (upsert_account X senderAddress) (
     bnd (liftE (event_data MODULE_NAME_PROFILE EVENT_NAME_PROFILE_CREATED (JObj []) events)) (\<lambda>eventData.
     bnd (propA tx ''params'') (\<lambda>params.
     bnd (propA params ''socialAccounts'') (\<lambda>sv. bnd (elemsA sv) (\<lambda>socialAccounts.
     thn (forA (\<lambda>sa. bnd (propA eventData ''profileID'') (\<lambda>pid. store_social X pid sa)) socialAccounts) (
     thn (upsert (kx X) profilesTableSchema
            (JObj (spread (own_props eventData) (own_props params))) True) (
     bnd (propA eventData ''profileID'') (\<lambda>_. ret JUndef)))))))))"

definition profile_create_revert :: "ext \<Rightarrow> jsval \<Rightarrow> jsval \<Rightarrow> jsval list \<Rightarrow> jsval iact" where
  "profile_create_revert X blockHeader tx events = ret JUndef"

definition profile_columns :: "string list" where
  "profile_columns = [''profileID'', ''name'', ''nickName'', ''description'', ''avatarHash'',
     ''avatarSignature'', ''bannerHash'', ''bannerSignature'', ''creatorAddress'']"

definition profile_setAttributes_apply :: "ext \<Rightarrow> jsval \<Rightarrow> jsval \<Rightarrow> jsval list \<Rightarrow> jsval iact" where
  "profile_setAttributes_apply X blockHeader tx events =
     bnd (sender_address X tx) (\<lambda>_.
     bnd (propA tx ''params'') (\<lambda>params.
     bnd (propA params ''profileID'') (\<lambda>profileID.
     bnd (table_find (kx X) profilesTableSchema [(''profileID'', profileID)] (Some profile_columns)) (\<lambda>rows.
     let existingProfile = js_first rows in
     if \<not> truthy existingProfile
     then throw (Err (''Profile with ID '' @ js_string profileID @ '' does not exist.''))
     else
     let pid = oget (own_props existingProfile) ''profileID'';
         newProfile = oset (oset (own_props params) ''profileID'' pid)
                        ''creatorAddress'' (oget (own_props existingProfile) ''creatorAddress'') in
     thn (deleteByParams (kx X) socialAccountsTableSchema [(''profileID'', pid)] True) (
     bnd (propA params ''socialAccounts'') (\<lambda>sv. bnd (elemsA sv) (\<lambda>socialAccounts.
     thn (forA (store_social X pid) socialAccounts) (
     thn (upsert (kx X) profilesTableSchema (JObj newProfile) True) (
     ret JUndef)))))))))"

definition profile_setAttributes_revert :: "ext \<Rightarrow> jsval \<Rightarrow> jsval \<Rightarrow> jsval list \<Rightarrow> jsval iact" where
  "profile_setAttributes_revert X blockHeader tx events = ret JUndef"

lemmas music_handler_defs =
  collection_create_apply_def collection_create_revert_def collection_destroy_apply_def
  collection_destroy_revert_def collection_setAttributes_apply_def
  collection_setAttributes_revert_def collection_transfer_apply_def collection_transfer_revert_def
  subscription_create_apply_def subscription_create_revert_def subscription_purchase_apply_def
  subscription_purchase_revert_def subscription_updateMembers_apply_def
  subscription_updateMembers_revert_def profile_create_apply_def profile_create_revert_def
  profile_setAttributes_apply_def profile_setAttributes_revert_def

subsection \<open>Confinement\<close>

lemma within_sender_address [confined]: "keeps (within T) (sender_address X tx)"
  unfolding sender_address_def by (intro confined)

lemma within_upsert_account [confined]: "keeps (within T) (upsert_account X a)"
  unfolding upsert_account_def by (intro confined)

lemma within_rewrite_subscription [confined]: "keeps (within T) (rewrite_subscription X s c)"
  unfolding rewrite_subscription_def by (intro confined)

lemma within_add_member [confined]: "keeps (within T) (add_member X tx s mem)"
  unfolding add_member_def by (intro confined)

lemma within_mark_removed [confined]: "keeps (within T) (mark_removed X r mem)"
  unfolding mark_removed_def by (intro confined)

lemma within_store_social [confined]: "keeps (within T) (store_social X p s)"
  unfolding store_social_def by (intro confined)

lemma music_confined:
  "keeps (within {}) (collection_create_apply X h tx evs)"
  "keeps (within {}) (collection_create_revert X h tx evs)"
  "keeps (within {}) (collection_destroy_apply X h tx evs)"
  "keeps (within {}) (collection_destroy_revert X h tx evs)"
  "keeps (within {}) (collection_setAttributes_apply X h tx evs)"
  "keeps (within {}) (collection_setAttributes_revert X h tx evs)"
  "keeps (within {}) (collection_transfer_apply X h tx evs)"
  "keeps (within {}) (collection_transfer_revert X h tx evs)"
  "keeps (within {}) (subscription_create_apply X h tx evs)"
  "keeps (within {}) (subscription_create_revert X h tx evs)"
  "keeps (within {}) (subscription_purchase_apply X h tx evs)"
  "keeps (within {}) (subscription_purchase_revert X h tx evs)"
  "keeps (within {}) (subscription_updateMembers_apply X h tx evs)"
  "keeps (within {}) (subscription_updateMembers_revert X h tx evs)"
  "keeps (within {}) (profile_create_apply X h tx evs)"
  "keeps (within {}) (profile_create_revert X h tx evs)"
  "keeps (within {}) (profile_setAttributes_apply X h tx evs)"
  "keeps (within {}) (profile_setAttributes_revert X h tx evs)"
  unfolding music_handler_defs Let_def by (intro confined within_spawn)+

end
