(* ===== verification/IndexerUtils.thy ===== *)
theory IndexerUtils
  imports KVStore
begin

text \<open>
  The helpers of \<open>services/blockchain-indexer/shared/utils\<close> that compute without tables:
  \<open>array.js\<close>, \<open>param.js\<close>, \<open>parser.js\<close>, \<open>requestAll.js\<close>, \<open>transactions.js\<close> and the
  event part of \<open>events.js\<close>, with the predicates of \<open>framework/src/data.js\<close> they call.
\<close>

subsection \<open>Language helpers\<close>

text \<open>The values of a spread argument, \<open>...v\<close> in a call.\<close>

fun js_iter :: "jsval \<Rightarrow> jserr + jsval list" where
  "js_iter (JArr vs) = Inr vs"
| "js_iter (JStr s) = Inr (map (\<lambda>c. JStr [c]) s)"
| "js_iter _ = Inl (TypeErr ''Spread syntax requires an iterable'')"

text \<open>\<open>xs.slice(from, to)\<close>: negative positions count from the end.\<close>

definition slice_pos :: "int \<Rightarrow> int \<Rightarrow> nat" where
  "slice_pos n i = nat (if i < 0 then max 0 (n + i) else min n i)"

definition js_slice :: "'a list \<Rightarrow> int \<Rightarrow> int \<Rightarrow> 'a list" where
  "js_slice xs from to =
     (let n = int (length xs) in take (slice_pos n to - slice_pos n from) (drop (slice_pos n from) xs))"

definition as_int :: "jsval \<Rightarrow> int" where
  "as_int v = (case js_number v of JNum n \<Rightarrow> n | _ \<Rightarrow> 0)"

text \<open>
  \<open>xs.slice(from, to)\<close> on arbitrary arguments: an absent end is the length, what is not a
  number counts as 0.
\<close>

definition slice_vals :: "'a list \<Rightarrow> jsval \<Rightarrow> jsval \<Rightarrow> 'a list" where
  "slice_vals xs from to =
     js_slice xs (as_int from) (if to = JUndef then int (length xs) else as_int to)"

text \<open>\<open>xs.slice(offset, offset + limit)\<close>.\<close>

definition slice_page :: "'a list \<Rightarrow> jsval \<Rightarrow> jsval \<Rightarrow> jserr + 'a list" where
  "slice_page xs offset limit = bindE (js_add offset limit) (\<lambda>to. Inr (slice_vals xs offset to))"

subsection \<open>framework/src/data.js\<close>

definition isObject :: "jsval \<Rightarrow> bool" where
  "isObject item = (item \<noteq> JNull \<and> js_typeof item = ''object'')"

definition isEmptyArray :: "jsval \<Rightarrow> bool" where
  "isEmptyArray a = (a = JArr [])"

definition isEmptyObject :: "jsval \<Rightarrow> bool" where
  "isEmptyObject ob = (ob = JArr [] \<or> ob = JObj [])"

subsection \<open>array.js\<close>

text \<open>The elements that occur for the first time at their own index.\<close>

fun drop_seen :: "'a list \<Rightarrow> 'a list \<Rightarrow> 'a list" where
  "drop_seen seen [] = []"
| "drop_seen seen (x # xs) = (if x \<in> set seen then drop_seen seen xs else x # drop_seen (x # seen) xs)"

definition dropDuplicates :: "'a list \<Rightarrow> 'a list" where
  "dropDuplicates arr = drop_seen [] arr"

text \<open>\<open>end\<close> is \<open>None\<close> when it is not given; \<open>new Array\<close> of a negative size throws.\<close>

definition range_arr :: "int \<Rightarrow> int option \<Rightarrow> int \<Rightarrow> jserr + int list" where
  "range_arr start e step =
     (let (s, en) = (case e of None \<Rightarrow> (0, start) | Some x \<Rightarrow> if x = 0 then (0, start) else (start, x));
          arrSize = (en - s) div step in
      if arrSize < 0 then Inl (RangeErr ''Invalid array length'')
      else Inr (map (\<lambda>i. s + int i * step) [0..<nat arrSize]))"

subsection \<open>param.js\<close>

definition push_between :: "jsval \<Rightarrow> obj \<Rightarrow> jsval list" where
  "push_between bs b = (case bs of JArr xs \<Rightarrow> xs | _ \<Rightarrow> []) @ [JObj b]"

definition normalizeRangeParam :: "jsval \<Rightarrow> string \<Rightarrow> jserr + jsval" where
  "normalizeRangeParam params p =
     (case params of
        JObj ps \<Rightarrow>
          (case oget ps p of
             JStr s \<Rightarrow>
               if str_includes '':'' s then
                 let parts = js_split '':'' s;
                     fromStr = (case at_str parts 0 of Some x \<Rightarrow> x | None \<Rightarrow> []);
                     toStr = (case at_str parts 1 of Some x \<Rightarrow> x | None \<Rightarrow> []);
                     from = number_of_string fromStr; to = number_of_string toStr in
                 if from = JNaN \<or> to = JNaN
                 then Inl (ValidationErr (''Invalid (non-numeric) '' @ p @ '' range values supplied: '' @ s @ ''.''))
                 else if fromStr \<noteq> [] \<and> toStr \<noteq> [] \<and> js_lt to from
                 then Inl (ValidationErr (''From '' @ p @ '' cannot be greater than to '' @ p @ ''.''))
                 else let between = (if fromStr = [] then [(''property'', JStr p), (''to'', to)]
                             else if toStr = [] then [(''property'', JStr p), (''from'', from)]
                             else [(''property'', JStr p), (''from'', from), (''to'', to)]) in
                   Inr (JObj (spread (omit [p] ps)
                          [(''propBetweens'', JArr (push_between (oget ps ''propBetweens'') between))]))
               else Inr params
           | _ \<Rightarrow> Inr params)
      | _ \<Rightarrow> Inr params)"

subsection \<open>parser.js\<close>

text \<open>
  A big integer becomes its decimal string, except the zero of an array element or of the
  value itself, which is falsy and returned as it is.
\<close>

fun parseToJSONCompatObj :: "jsval \<Rightarrow> jsval" and compat_prop :: "jsval \<Rightarrow> jsval" where
  "parseToJSONCompatObj (JBig n) = (if n = 0 then JBig 0 else JStr (show_int n))"
| "parseToJSONCompatObj (JArr vs) = JArr (map parseToJSONCompatObj vs)"
| "parseToJSONCompatObj (JObj ps) = JObj (map (\<lambda>(k, v). (k, compat_prop v)) ps)"
| "parseToJSONCompatObj v = v"
| "compat_prop (JBig n) = JStr (show_int n)"
| "compat_prop (JArr vs) = JArr (map parseToJSONCompatObj vs)"
| "compat_prop (JObj ps) = JObj (map (\<lambda>(k, v). (k, compat_prop v)) ps)"
| "compat_prop v = v"

text \<open>
  \<open>JSON.parse(JSON.stringify(v))\<close>: properties that are undefined are gone, undefined
  array elements and NaN are null, and a big integer anywhere throws.
\<close>

fun json_copy :: "jsval \<Rightarrow> jserr + jsval"
  and json_copy_items :: "jsval list \<Rightarrow> jserr + jsval list"
  and json_copy_props :: "(string \<times> jsval) list \<Rightarrow> jserr + obj" where
  "json_copy JNaN = Inr JNull"
| "json_copy (JBig n) = Inl (TypeErr ''Do not know how to serialize a BigInt'')"
| "json_copy (JArr vs) = bindE (json_copy_items vs) (\<lambda>us. Inr (JArr us))"
| "json_copy (JObj ps) = bindE (json_copy_props ps) (\<lambda>qs. Inr (JObj qs))"
| "json_copy v = Inr v"
| "json_copy_items [] = Inr []"
| "json_copy_items (v # vs) =
     bindE (json_copy v) (\<lambda>u. bindE (json_copy_items vs) (\<lambda>us.
       Inr ((if u = JUndef then JNull else u) # us)))"
| "json_copy_props [] = Inr []"
| "json_copy_props ((k, v) # ps) =
     bindE (json_copy v) (\<lambda>u. bindE (json_copy_props ps) (\<lambda>qs.
       Inr (if u = JUndef then qs else (k, u) # qs)))"

subsection \<open>transactions.js\<close>

definition normalizeTransaction :: "jsval \<Rightarrow> jserr + jsval" where
  "normalizeTransaction tx =
     bindE (js_prop tx ''module'') (\<lambda>m. bindE (js_prop tx ''command'') (\<lambda>c.
     bindE (js_setprop tx ''moduleCommand'' (JStr (js_string m @ '':'' @ js_string c))) (\<lambda>tx'.
     Inr (parseToJSONCompatObj tx'))))"

subsection \<open>requestAll.js\<close>

text \<open>One page merged into the response so far.\<close>

definition merge_entry :: "jsval \<Rightarrow> string \<times> jsval \<Rightarrow> jserr + string \<times> jsval" where
  "merge_entry result = (\<lambda>(k, v). bindE (js_prop result k) (\<lambda>r.
     case v of
       JArr xs \<Rightarrow> bindE (js_iter r) (\<lambda>ys. Inr (k, JArr (xs @ ys)))
     | JObj ps \<Rightarrow> Inr (k, JObj (spread ps (own_props r)))
     | _ \<Rightarrow> Inr (k, r)))"

definition merge_page :: "jsval \<Rightarrow> jsval \<Rightarrow> jserr + jsval" where
  "merge_page tot result = (case tot of
       JArr xs \<Rightarrow> bindE (js_iter result) (\<lambda>ys. Inr (JArr (xs @ ys)))
     | JObj ps \<Rightarrow> bindE (mapE (merge_entry result) ps) (\<lambda>qs. Inr (JObj qs))
     | _ \<Rightarrow> Inr tot)"

definition page_params :: "obj \<Rightarrow> int \<Rightarrow> int \<Rightarrow> jsval" where
  "page_params params lim off = JObj (spread params [(''limit'', JNum lim), (''offset'', JNum off)])"

text \<open>The pages from \<open>page\<close> on, until the last one or an empty answer.\<close>

function fetch_pages :: "(jsval \<Rightarrow> jserr + jsval) \<Rightarrow> obj \<Rightarrow> int \<Rightarrow> int \<Rightarrow> int \<Rightarrow> int \<Rightarrow> jsval \<Rightarrow> jserr + jsval" where
  "fetch_pages fn params maxAmount one page numPages tot =
     (if page < numPages then
        bindE (fn (page_params params (min one (maxAmount - one * page)) (one * page))) (\<lambda>result.
        if \<not> truthy result \<or> isEmptyArray result \<or> isEmptyObject result then Inr tot
        else bindE (merge_page tot result) (\<lambda>tot'.
          fetch_pages fn params maxAmount one (page + 1) numPages tot'))
      else Inr tot)"
  by pat_completeness auto
termination
  by (relation "measure (\<lambda>(fn, params, maxAmount, one, page, numPages, tot). nat (numPages - page))") auto

declare fetch_pages.simps [simp del]

definition num_or :: "jsval \<Rightarrow> int \<Rightarrow> int" where
  "num_or v d = (case js_or v (JNum d) of JNum n \<Rightarrow> n | _ \<Rightarrow> d)"

definition requestAll :: "(jsval \<Rightarrow> jserr + jsval) \<Rightarrow> obj \<Rightarrow> jsval \<Rightarrow> jserr + jsval" where
  "requestAll fn params limit =
     (let maxAmount = num_or limit 1000000000;
          one = num_or (oget params ''limit'') 100 in
     bindE (fn (page_params params one 0)) (\<lambda>totalResponse.
     bindE (js_prop totalResponse ''error'') (\<lambda>err.
     if \<not> truthy err \<and> maxAmount > one
     then fetch_pages fn params maxAmount one 1 (- ((- maxAmount) div one)) totalResponse
     else Inr totalResponse)))"

subsection \<open>events.js: what is indexed of an event\<close>

definition event_info :: "ext \<Rightarrow> jsval \<Rightarrow> jsval \<Rightarrow> jserr + jsval" where
  "event_info X block event =
     bindE (js_prop event ''id'') (\<lambda>eid. bindE (js_prop event ''name'') (\<lambda>name.
     bindE (js_prop event ''module'') (\<lambda>m. bindE (js_prop block ''height'') (\<lambda>height.
     bindE (js_prop event ''index'') (\<lambda>index. bindE (js_prop block ''isFinal'') (\<lambda>isFinal.
     let info = [(''id'', eid), (''name'', name), (''module'', m), (''height'', height), (''index'', index)] in
     if \<not> truthy isFinal \<or> isPersistEvents X
     then bindE (json_stringify event) (\<lambda>s. Inr (JObj (oset info ''eventStr'' s)))
     else Inr (JObj info)))))))"

definition topic_info :: "jsval \<Rightarrow> jsval \<Rightarrow> jsval \<Rightarrow> jserr + jsval" where
  "topic_info block event topic =
     bindE (js_prop event ''id'') (\<lambda>eid. bindE (as_str eid) (\<lambda>ids.
     bindE (js_prop block ''height'') (\<lambda>height. bindE (js_prop event ''index'') (\<lambda>index.
     bindE (js_prop block ''timestamp'') (\<lambda>timestamp.
     Inr (JObj [(''tempID'', JStr (ids @ js_string topic)), (''eventID'', eid), (''height'', height),
                (''index'', index), (''timestamp'', timestamp), (''topic'', topic)]))))))"

fun getEventsInfoToIndex :: "ext \<Rightarrow> jsval \<Rightarrow> jsval list \<Rightarrow> jserr + jsval list \<times> jsval list" where
  "getEventsInfoToIndex X block [] = Inr ([], [])"
| "getEventsInfoToIndex X block (event # events) =
     bindE (event_info X block event) (\<lambda>info.
     bindE (js_prop event ''topics'') (\<lambda>tv. bindE (js_elems tv) (\<lambda>topics.
     bindE (mapE (topic_info block event) topics) (\<lambda>tinfos.
     bindE (getEventsInfoToIndex X block events) (\<lambda>(infos, topicInfos).
     Inr (info # infos, tinfos @ topicInfos))))))"

subsection \<open>Laws of array.js\<close>

lemma set_drop_seen: "set (drop_seen seen xs) = set xs - set seen"
  by (induction xs arbitrary: seen) auto

lemma distinct_drop_seen: "distinct (drop_seen seen xs)"
  by (induction xs arbitrary: seen) (auto simp: set_drop_seen)

lemma drop_seen_append: "drop_seen seen (xs @ [x]) =
   drop_seen seen xs @ (if x \<in> set seen \<union> set xs then [] else [x])"
  by (induction xs arbitrary: seen) auto

text \<open>
  \<open>dropDuplicates\<close> keeps each value once, at the place of its first occurrence: reading
  the list backwards, it keeps the last occurrences.
\<close>

lemma dropDuplicates_first: "dropDuplicates arr = rev (remdups (rev arr))"
proof -
  have "drop_seen [] arr = rev (remdups (rev arr))"
    by (induction arr rule: rev_induct) (auto simp: drop_seen_append)
  then show ?thesis by (simp add: dropDuplicates_def)
qed

lemma map_upt_upto: "map (\<lambda>i. a + int i) [0..<nat (b + 1 - a)] = [a..b]"
  by (rule nth_equalityI) auto

text \<open>The heights \<open>a\<close> to \<open>b\<close>, both included, as \<open>getMissingBlocks\<close> asks for them.\<close>

lemma range_inclusive:
  assumes "a \<le> b + 1" and "b + 1 \<noteq> 0"
  shows "range_arr a (Some (b + 1)) 1 = Inr [a..b]"
  using assms by (simp add: range_arr_def map_upt_upto)

subsection \<open>Laws of param.js\<close>

lemma split_from_none: "c \<notin> set s \<Longrightarrow> split_from [c] acc s = [rev acc @ s]"
  by (induction s arbitrary: acc) auto

lemma split_from_sep:
  "c \<notin> set s \<Longrightarrow> split_from [c] acc (s @ c # t) = (rev acc @ s) # split_from [c] [] t"
  by (induction s arbitrary: acc) auto

lemma js_split_two: "c \<notin> set s \<Longrightarrow> c \<notin> set t \<Longrightarrow> js_split [c] (s @ c # t) = [s, t]"
  by (simp add: js_split_def split_from_sep split_from_none)

lemma show_int_no_colon: "CHR '':'' \<notin> set (show_int i)"
  using show_nat_digits [of "CHR '':''"] by (auto simp: show_int_def is_digit_def)

lemma str_includes_mid: "str_includes [c] (s @ c # t)"
  by (induction s) auto

text \<open>
  A range \<open>a:b\<close> of two integers replaces the property by the condition
  \<open>from a to b\<close>, appended to the conditions already there, and a range with
  \<open>a > b\<close> is rejected.
\<close>

lemma normalizeRangeParam_range:
  assumes "oget ps p = JStr (show_int a @ '':'' @ show_int b)" and "p \<noteq> ''propBetweens''"
  shows "normalizeRangeParam (JObj ps) p =
    (if a \<le> b
     then Inr (JObj (spread (omit [p] ps) [(''propBetweens'',
            JArr (push_between (oget ps ''propBetweens'')
              [(''property'', JStr p), (''from'', JNum a), (''to'', JNum b)]))]))
     else Inl (ValidationErr (''From '' @ p @ '' cannot be greater than to '' @ p @ ''.'')))"
  using assms js_split_two [OF show_int_no_colon [of a] show_int_no_colon [of b]]
    str_includes_mid [of "CHR '':''" "show_int a" "show_int b"]
  by (simp add: normalizeRangeParam_def at_str_def js_lt_def)

subsection \<open>Laws of parser.js\<close>

text \<open>A zero big integer that is the value itself or an element of an array inside it.\<close>

fun zero_big :: "jsval \<Rightarrow> bool" and zero_big_prop :: "jsval \<Rightarrow> bool" where
  "zero_big (JBig n) = (n = 0)"
| "zero_big (JArr vs) = list_ex zero_big vs"
| "zero_big (JObj ps) = list_ex (\<lambda>(k, v). zero_big_prop v) ps"
| "zero_big v = False"
| "zero_big_prop (JBig n) = False"
| "zero_big_prop (JArr vs) = list_ex zero_big vs"
| "zero_big_prop (JObj ps) = list_ex (\<lambda>(k, v). zero_big_prop v) ps"
| "zero_big_prop v = False"

lemma isl_bindE: "isl (bindE r f) \<longleftrightarrow> isl r \<or> (\<exists>x. r = Inr x \<and> isl (f x))"
  by (cases r) auto

lemma json_items_isl: "isl (json_items vs) \<longleftrightarrow> list_ex (\<lambda>v. isl (json_text v)) vs"
  by (induction vs) (auto simp: bindE_def split: sum.splits)

lemma json_props_isl: "isl (json_props ps) \<longleftrightarrow> list_ex (\<lambda>(k, v). isl (json_text v)) ps"
  by (induction ps) (auto simp: bindE_def split: sum.splits)

lemma json_text_isl [simp]:
  "isl (json_text (JArr vs)) \<longleftrightarrow> list_ex (\<lambda>v. isl (json_text v)) vs"
  "isl (json_text (JObj ps)) \<longleftrightarrow> list_ex (\<lambda>(k, v). isl (json_text v)) ps"
  by (simp_all add: isl_bindE json_items_isl json_props_isl)

lemma list_ex_props:
  assumes "\<And>k v. (k, v) \<in> set ps \<Longrightarrow> P (f v) = Q v"
  shows "list_ex (\<lambda>(k, v). P v) (map (\<lambda>(k, v). (k, f v)) ps) = list_ex (\<lambda>(k, v). Q v) ps"
  using assms by (induction ps) auto

lemma list_ex_elems:
  "(\<And>v. v \<in> set vs \<Longrightarrow> P (f v) = Q v) \<Longrightarrow> list_ex P (map f vs) = list_ex Q vs"
  by (induction vs) auto

lemma compat_serialisable:
  "isl (json_text (parseToJSONCompatObj v)) \<longleftrightarrow> zero_big v"
  "isl (json_text (compat_prop v)) \<longleftrightarrow> zero_big_prop v"
proof (induction v and v rule: parseToJSONCompatObj_compat_prop.induct)
  case (2 vs)
  then show ?case by (simp add: list_ex_elems [where f = parseToJSONCompatObj] del: json_text.simps)
next
  case (3 ps)
  then have "isl (json_text (compat_prop v)) = zero_big_prop v" if "(k, v) \<in> set ps" for k v
    using that by blast
  then show ?case
    by (simp add: list_ex_props [where f = compat_prop and P = "\<lambda>v. isl (json_text v)"] del: json_text.simps)
next
  case (6 vs)
  then show ?case by (simp add: list_ex_elems [where f = parseToJSONCompatObj] del: json_text.simps)
next
  case (7 ps)
  then have "isl (json_text (compat_prop v)) = zero_big_prop v" if "(k, v) \<in> set ps" for k v
    using that by blast
  then show ?case
    by (simp add: list_ex_props [where f = compat_prop and P = "\<lambda>v. isl (json_text v)"] del: json_text.simps)
qed simp_all

text \<open>
  What \<open>parseToJSONCompatObj\<close> returns can be written as JSON, unless the value holds a
  zero big integer as an array element or is one itself: those are passed on unconverted and
  \<open>JSON.stringify\<close> throws on them.
\<close>

lemma parseToJSONCompatObj_serialisable:
  "isl (json_stringify (parseToJSONCompatObj v)) \<longleftrightarrow> zero_big v"
  by (simp add: json_stringify_def isl_bindE compat_serialisable)

subsection \<open>Laws of requestAll.js\<close>

lemma ceil_pages:
  fixes m one page :: int
  assumes "one > 0"
  shows "page < - ((- m) div one) \<longleftrightarrow> one * page < m"
proof -
  define q where "q = (- m) div one"
  have m: "- m = one * q + (- m) mod one" by (simp add: q_def)
  have r: "0 \<le> (- m) mod one" "(- m) mod one < one" using assms by simp_all
  show ?thesis
  proof (cases "page < - q")
    case True
    then have "one * page \<le> one * (- q - 1)" using assms by (intro mult_left_mono) auto
    with m r have "one * page < m" by (simp add: algebra_simps)
    with True show ?thesis by (simp add: q_def)
  next
    case False
    then have "one * (- q) \<le> one * page" using assms by (intro mult_left_mono) auto
    with m r have "\<not> one * page < m" by (simp add: algebra_simps)
    with False show ?thesis by (simp add: q_def)
  qed
qed

lemma take_next:
  fixes a k :: int
  assumes "0 \<le> a" "0 \<le> k"
  shows "take (nat a) xs @ take (nat k) (drop (nat a) xs) = take (nat (a + k)) xs"
  using assms by (simp add: nat_add_distrib take_add)

text \<open>From a page on, the loop completes the prefix of the answer it has collected.\<close>

lemma fetch_pages_prefix:
  assumes server: "\<And>l off. 0 \<le> l \<Longrightarrow> 0 \<le> off \<Longrightarrow>
      fn (page_params params l off) = Inr (JArr (take (nat l) (drop (nat off) xs)))"
    and one: "one > 0" and page: "page \<ge> 0"
  shows "fetch_pages fn params m one page (- ((- m) div one)) (JArr (take (nat (min m (one * page))) xs))
    = Inr (JArr (take (nat m) xs))"
  using page
proof (induction "nat (- ((- m) div one) - page)" arbitrary: page)
  case 0
  then have "\<not> page < - ((- m) div one)" by simp
  moreover from this have "m \<le> one * page" using ceil_pages [OF one] by (metis not_less)
  ultimately show ?case by (subst fetch_pages.simps) (simp add: min_absorb1)
next
  case (Suc n)
  then have lt: "page < - ((- m) div one)" by linarith
  then have m: "one * page < m" using ceil_pages [OF one] by blast
  have pos: "0 \<le> one * page" using one Suc.prems by simp
  let ?k = "min one (m - one * page)"
  have k: "0 < ?k" using m one by simp
  let ?res = "take (nat ?k) (drop (nat (one * page)) xs)"
  have answer: "fn (page_params params ?k (one * page)) = Inr (JArr ?res)"
    using server k pos by (simp del: take_drop)
  have op: "one * page + ?k = min m (one * (page + 1))" by (simp add: algebra_simps min_def)
  have joined: "take (nat (one * page)) xs @ ?res = take (nat (min m (one * (page + 1)))) xs"
    unfolding op [symmetric] using pos k by (intro take_next) auto
  show ?case
  proof (cases "?res = []")
    case True
    then have "length xs \<le> nat (one * page)" using k by auto
    then have "take (nat (one * page)) xs = take (nat m) xs" using m by simp
    with True lt answer m show ?thesis
      by (subst fetch_pages.simps) (simp add: isEmptyArray_def min_absorb2)
  next
    case False
    with lt answer m joined show ?thesis
      using Suc.hyps(1) [of "page + 1"] Suc.hyps(2) Suc.prems
      by (subst fetch_pages.simps)
        (simp add: isEmptyArray_def isEmptyObject_def merge_page_def min_absorb2 del: take_drop)
  qed
qed

text \<open>
  C39. Against a server that answers each request with the requested slice of a list,
  \<open>requestAll\<close> returns the first \<open>limit\<close> elements of it, or one full page when the limit
  is smaller than a page.
\<close>

theorem requestAll_pages:
  assumes server: "\<And>l off. 0 \<le> l \<Longrightarrow> 0 \<le> off \<Longrightarrow>
      fn (page_params params l off) = Inr (JArr (take (nat l) (drop (nat off) xs)))"
    and one: "num_or (oget params ''limit'') 100 = one" "one > 0" and m: "num_or limit 1000000000 = m"
  shows "requestAll fn params limit = Inr (JArr (take (nat (max m one)) xs))"
proof -
  have first: "fn (page_params params one 0) = Inr (JArr (take (nat one) xs))"
    using server [of one 0] one by simp
  have "fetch_pages fn params m one 1 (- ((- m) div one)) (JArr (take (nat one) xs))
      = Inr (JArr (take (nat m) xs))" if "one < m"
    using fetch_pages_prefix [OF server one(2), of 1 m] that by (simp add: min_absorb2)
  then show ?thesis
    using first by (auto simp: requestAll_def one(1) m max_def)
qed

definition slice_server :: "jsval list \<Rightarrow> jsval \<Rightarrow> jserr + jsval" where
  "slice_server xs v = (case (oget (own_props v) ''limit'', oget (own_props v) ''offset'') of
       (JNum l, JNum off) \<Rightarrow> Inr (JArr (take (nat l) (drop (nat off) xs)))
     | _ \<Rightarrow> Inl (Err ''bad request''))"

theorem requestAll_pages_witness:
  "requestAll (slice_server [JNum 1, JNum 2, JNum 3, JNum 4, JNum 5, JNum 6]) [(''limit'', JNum 2)] (JNum 5)
     = Inr (JArr [JNum 1, JNum 2, JNum 3, JNum 4, JNum 5])"
proof -
  let ?xs = "[JNum 1, JNum 2, JNum 3, JNum 4, JNum 5, JNum 6]"
  have "slice_server ?xs (page_params [(''limit'', JNum 2)] l off) =
      Inr (JArr (take (nat l) (drop (nat off) ?xs)))" for l off
    by (simp add: slice_server_def page_params_def own_props_def)
  from requestAll_pages [of "slice_server ?xs" "[(''limit'', JNum 2)]" ?xs 2 "JNum 5" 5, OF this]
  show ?thesis by (simp add: num_or_def js_or_def numeral_eq_Suc)
qed

end
