(* ===== verification/Validators.thy ===== *)
theory Validators
  imports IndexerUtils
begin

text \<open>
  The validators and generators of the chain as the indexer caches them:
  \<open>dataService/business/pos/constants.js\<close>, \<open>business/pos/validators.js\<close>,
  \<open>business/pos/index.js\<close>, \<open>business/generators.js\<close>, the name cache of
  \<open>utils/validator.js\<close>, the ranking and status part of \<open>dataService/pos/validators.js\<close>, and
  \<open>dataService/generators.js\<close>.
\<close>

subsection \<open>Language helpers\<close>

definition str_starts :: "string \<Rightarrow> string \<Rightarrow> bool" where
  "str_starts pre s = (take (length pre) s = pre)"

subsection \<open>business/pos/constants.js\<close>

definition getPosConstants :: "ext \<Rightarrow> jsval iact" where
  "getPosConstants X =
     bnd (getA posConstants) (\<lambda>c.
     thn (if js_typeof c = ''undefined''
          then bnd (requestConnector X ''getPosConstants'' JUndef) (\<lambda>v. modA (\<lambda>w. w\<lparr>posConstants := v\<rparr>))
          else ret ())
     (bnd (getA posConstants) (\<lambda>c. ret (JObj [(''data'', c), (''meta'', JObj [])]))))"

definition getPosTokenID :: "ext \<Rightarrow> jsval iact" where
  "getPosTokenID X = bnd (getPosConstants X) (\<lambda>r. pathA r [''data'', ''posTokenID''])"

subsection \<open>utils/validator.js: names\<close>

definition getNameByAddress :: "ext \<Rightarrow> jsval \<Rightarrow> jsval iact" where
  "getNameByAddress X address =
     (if truthy address then
        bnd (getA validatorCache) (\<lambda>cache.
        let name = oget cache (js_string address) in
        if truthy name
        then thn (spawn (upsert (kx X) accountsTableSchema
                   (JObj [(''address'', address), (''name'', name)]) False)) (ret name)
        else ret JNull)
      else ret JNull)"

definition getAddressByName :: "jsval \<Rightarrow> jsval iact" where
  "getAddressByName name =
     (if truthy name then
        bnd (getA validatorCache) (\<lambda>cache.
        let address = oget cache (js_string name) in
        ret (if truthy address then address else JNull))
      else ret JNull)"

subsection \<open>business/pos/validators.js\<close>

text \<open>A misbehaviour period that contains the height of the cached last block.\<close>

definition period_covers :: "jsval \<Rightarrow> jsval \<Rightarrow> jserr + bool" where
  "period_covers height period =
     bindE (js_prop period ''start'') (\<lambda>s.
     if js_le s height then bindE (js_prop period ''end'') (\<lambda>e. Inr (js_le height e)) else Inr False)"

definition verifyIfPunished :: "jsval \<Rightarrow> bool iact" where
  "verifyIfPunished validator =
     bnd (getA lastBlockCache) (\<lambda>cached.
     bnd (propA (if truthy cached then cached else JObj []) ''height'') (\<lambda>height.
     bnd (propA validator ''reportMisbehaviorHeights'') (\<lambda>hv. bnd (elemsA hv) (\<lambda>periods.
     liftE (someE (period_covers height) periods)))))"

text \<open>
  The weight of a validator: none when it is banned or punished, otherwise its total stake, at
  most ten times its own stake.
\<close>

definition capped_weight :: "jsval \<Rightarrow> jserr + jsval" where
  "capped_weight validator =
     bindE (js_prop validator ''selfStake'') (\<lambda>sv. bindE (js_bigint sv) (\<lambda>self.
     bindE (js_prop validator ''totalStake'') (\<lambda>tv. bindE (js_bigint tv) (\<lambda>tot.
     let cap = self * 10 in
     bindE (js_setprop validator ''totalStake'' (JBig tot)) (\<lambda>v.
     js_setprop v ''validatorWeight'' (JBig (if tot > cap then cap else tot)))))))"

definition weigh_validator :: "jsval \<Rightarrow> jsval iact" where
  "weigh_validator validator =
     bnd (propA validator ''isBanned'') (\<lambda>banned.
     bnd (if truthy banned then ret True else verifyIfPunished validator) (\<lambda>excluded.
     if excluded then liftE (js_setprop validator ''validatorWeight'' (JBig 0))
     else liftE (capped_weight validator)))"

definition business_getPosValidators :: "ext \<Rightarrow> jsval \<Rightarrow> jsval list iact" where
  "business_getPosValidators X params =
     bnd (propA params ''address'') (\<lambda>address. bnd (propA params ''addresses'') (\<lambda>addresses.
     bnd (if truthy address then ret [address] else elemsA addresses) (\<lambda>validatorAddressList.
     mapA (\<lambda>validatorAddress.
       bnd (requestConnector X ''getPosValidator'' (JObj [(''address'', validatorAddress)])) weigh_validator)
       validatorAddressList)))"

definition getAllPosValidators :: "ext \<Rightarrow> jsval list iact" where
  "getAllPosValidators X =
     bnd (requestConnector X ''getAllPosValidators'' JUndef) (\<lambda>r.
     bnd (propA r ''validators'') (\<lambda>vv. bnd (elemsA vv) (\<lambda>rawValidators.
     mapA weigh_validator rawValidators)))"

definition getPosValidatorsByStake :: "ext \<Rightarrow> jsval \<Rightarrow> jsval iact" where
  "getPosValidatorsByStake X params =
     bnd (propA params ''limit'') (\<lambda>limit.
     bnd (requestConnector X ''getPosValidatorsByStake'' (JObj [(''limit'', limit)])) (\<lambda>r.
     propA r ''validators''))"

subsection \<open>business/pos/index.js\<close>

definition isPosModuleRegistered :: "ext \<Rightarrow> bool iact" where
  "isPosModuleRegistered X =
     bnd (getA isPosRegistered) (\<lambda>known.
     thn (if known = JUndef
          then bnd (requestConnector X ''getSystemMetadata'' JUndef) (\<lambda>r.
               bnd (propA r ''modules'') (\<lambda>mv. bnd (elemsA mv) (\<lambda>modules.
               bnd (liftE (someE (\<lambda>m. bindE (js_prop m ''name'') (\<lambda>n. Inr (n = JStr ''pos''))) modules)) (\<lambda>b.
               modA (\<lambda>w. w\<lparr>isPosRegistered := JBool b\<rparr>)))))
          else ret ())
     (bnd (getA isPosRegistered) (\<lambda>v. ret (truthy v))))"

subsection \<open>business/generators.js\<close>

definition generator_info :: "ext \<Rightarrow> jsval \<Rightarrow> jsval iact" where
  "generator_info X generator =
     bnd (propA generator ''address'') (\<lambda>address.
     bnd (getIndexedAccountInfo X [(''address'', address), (''limit'', JNum 1)] (Some [''name'', ''publicKey''])) (\<lambda>info.
     bnd (propA info ''name'') (\<lambda>name. bnd (propA info ''publicKey'') (\<lambda>publicKey.
     bnd (if truthy name then ret name else getNameByAddress X address) (\<lambda>nm.
     ret (JObj (oset (oset (own_props generator) ''name'' nm) ''publicKey'' publicKey)))))))"

definition getGeneratorsInfo :: "ext \<Rightarrow> jsval list iact" where
  "getGeneratorsInfo X =
     bnd (requestConnector X ''getGenerators'' JUndef) (\<lambda>r.
     bnd (propA r ''list'') (\<lambda>lv. bnd (elemsA lv) (\<lambda>generatorsList.
     mapA (generator_info X) generatorsList)))"

text \<open>The constants are read from the response itself, not from its \<open>data\<close>.\<close>

definition getNumberOfGenerators :: "ext \<Rightarrow> jsval iact" where
  "getNumberOfGenerators X =
     bnd (getPosConstants X) (\<lambda>constants.
     bnd (propA constants ''numberActiveValidators'') (\<lambda>active.
     bnd (propA constants ''numberStandbyValidators'') (\<lambda>standby.
     liftE (js_add active standby))))"

definition reloadGeneratorsCache :: "ext \<Rightarrow> unit iact" where
  "reloadGeneratorsCache X =
     bnd (getGeneratorsInfo X) (\<lambda>gs. modA (\<lambda>w. w\<lparr>generatorsListCache := gs\<rparr>))"

definition business_getGenerators :: "ext \<Rightarrow> jsval list iact" where
  "business_getGenerators X =
     bnd (getA generatorsListCache) (\<lambda>cache.
     thn (if cache = [] then reloadGeneratorsCache X else ret ()) (getA generatorsListCache))"

subsection \<open>pos/validators.js: rank and status\<close>

definition getHexAddress :: "ext \<Rightarrow> jsval \<Rightarrow> jserr + string" where
  "getHexAddress X address =
     bindE (as_str address) (\<lambda>a. if str_starts ''lsk'' a then lisk32_to_hex X a else Inr a)"

text \<open>
  The comparator on a weight and a hexadecimal address: the heavier first, ties by address.
  On strings of hexadecimal digits the English collation is the order of the characters.
\<close>

definition validatorComparator :: "int \<times> string \<Rightarrow> int \<times> string \<Rightarrow> bool" where
  "validatorComparator a b =
     (fst b < fst a \<or> fst a = fst b \<and> str_less (snd a) (snd b))"

definition validator_key :: "ext \<Rightarrow> jsval \<Rightarrow> string \<Rightarrow> jserr + (int \<times> string)" where
  "validator_key X validator hex =
     bindE (js_prop validator ''validatorWeight'') (\<lambda>wv. bindE (js_bigint wv) (\<lambda>n. Inr (n, hex)))"

text \<open>A list of fewer than two validators is sorted without comparing.\<close>

definition sort_validators :: "ext \<Rightarrow> jsval list \<Rightarrow> jserr + jsval list" where
  "sort_validators X vs =
     bindE (mapE (\<lambda>v. bindE (js_prop v ''address'') (getHexAddress X)) vs) (\<lambda>hexes.
     if length vs < 2 then Inr vs
     else bindE (mapE (\<lambda>(v, h). validator_key X v h) (zip vs hexes)) (\<lambda>keys.
       Inr (map snd (sort_by (\<lambda>a b. validatorComparator (fst a) (fst b)) (zip keys vs)))))"

definition set_rank :: "nat \<Rightarrow> unit iact" where
  "set_rank i =
     bnd (getA validatorList) (\<lambda>vs.
     bnd (liftE (js_setprop (vs ! i) ''rank'' (JNum (int i + 1)))) (\<lambda>v.
     modA (\<lambda>w. w\<lparr>validatorList := (validatorList w)[i := v]\<rparr>)))"

text \<open>
  \<open>map\<close> makes a new array: the sorted array is dropped, and the ranks are given in the
  order of \<open>validatorList\<close>.
\<close>

definition computeValidatorRank :: "ext \<Rightarrow> unit iact" where
  "computeValidatorRank X =
     bnd (getA validatorList) (\<lambda>vs.
     bnd (liftE (sort_validators X vs)) (\<lambda>_.
     forA set_rank [0..<length vs]))"

text \<open>\<open>latestBlock\<close> is the promise that \<open>getLastBlock\<close> returns; its \<open>height\<close> is undefined.\<close>

definition status_punished :: "jsval \<Rightarrow> jserr + bool" where
  "status_punished validator =
     bindE (js_prop validator ''punishmentPeriods'') (\<lambda>pv. bindE (js_elems pv) (\<lambda>periods.
     someE (period_covers JUndef) periods))"

definition validator_status :: "ext \<Rightarrow> jsval list \<Rightarrow> jsval list \<Rightarrow> jsval \<Rightarrow> jserr + jsval" where
  "validator_status X activeGeneratorsList standByGeneratorsList validator =
     bindE (js_prop validator ''isBanned'') (\<lambda>banned.
     if truthy banned then Inr (JStr ''banned'')
     else bindE (status_punished validator) (\<lambda>punished.
     if punished then Inr (JStr ''punished'')
     else bindE (js_prop validator ''address'') (\<lambda>address.
     if js_includes activeGeneratorsList address then Inr (JStr ''active'')
     else if js_includes standByGeneratorsList address then Inr (JStr ''standby'')
     else bindE (js_prop validator ''validatorWeight'') (\<lambda>wv. bindE (js_bigint wv) (\<lambda>weight.
       bindE (lskToBeddows X ''1000'') (\<lambda>b. bindE (js_bigint (JStr b)) (\<lambda>minWeight.
       Inr (JStr (if weight \<ge> minWeight then ''standby'' else ''ineligible'')))))))))"

definition set_status :: "ext \<Rightarrow> jsval list \<Rightarrow> jsval list \<Rightarrow> nat \<Rightarrow> unit iact" where
  "set_status X active standby i =
     bnd (getA validatorList) (\<lambda>vs.
     bnd (liftE (validator_status X active standby (vs ! i))) (\<lambda>status.
     bnd (liftE (js_setprop (vs ! i) ''status'' status)) (\<lambda>v.
     modA (\<lambda>w. w\<lparr>validatorList := (validatorList w)[i := v]\<rparr>))))"

definition computeValidatorStatus :: "ext \<Rightarrow> unit iact" where
  "computeValidatorStatus X =
     bnd (getPosConstants X) (\<lambda>r. bnd (propA r ''data'') (\<lambda>constants.
     bnd (propA constants ''numberActiveValidators'') (\<lambda>numActive.
     bnd (propA constants ''numberStandbyValidators'') (\<lambda>numStandby.
     bnd (liftE (lskToBeddows X ''1000'')) (\<lambda>_.
     bnd (business_getGenerators X) (\<lambda>generatorsList.
     bnd (liftE (mapE (\<lambda>g. js_prop g ''address'') generatorsList)) (\<lambda>generatorAddresses.
     bnd (getA validatorList) (\<lambda>vs.
     bnd (liftE (mapE (\<lambda>v. js_prop v ''address'') vs)) (\<lambda>addresses.
     bnd (liftE (sort_validators X
            (map snd (filter (\<lambda>p. js_includes generatorAddresses (fst p)) (zip addresses vs))))) (\<lambda>generatorInfo.
     bnd (liftE (js_sub (JNum (int (length generatorInfo))) numStandby)) (\<lambda>from.
     let infoAddresses = map (\<lambda>v. oget (own_props v) ''address'') generatorInfo in
     forA (set_status X (slice_vals infoAddresses (JNum 0) numActive) (slice_vals infoAddresses from JUndef))
       [0..<length vs])))))))))))"

definition cache_validator :: "ext \<Rightarrow> jsval \<Rightarrow> unit iact" where
  "cache_validator X validator =
     bnd (propA validator ''address'') (\<lambda>address. bnd (propA validator ''name'') (\<lambda>name.
     thn (modA (\<lambda>w. w\<lparr>validatorCache := oset (oset (validatorCache w) (js_string address) name) (js_string name) address\<rparr>))
       (upsert (kx X) accountsTableSchema
          (JObj [(''address'', address), (''name'', name), (''isValidator'', JBool True)]) False)))"

definition loadAllPosValidators :: "ext \<Rightarrow> unit iact" where
  "loadAllPosValidators X = tryA
     (bnd (getAllPosValidators X) (\<lambda>vs.
      thn (modA (\<lambda>w. w\<lparr>validatorList := vs\<rparr>)) (forA (cache_validator X) vs)))
     (\<lambda>_. ret ())"

definition reloadValidatorCache :: "ext \<Rightarrow> unit iact" where
  "reloadValidatorCache X =
     bnd (isPosModuleRegistered X) (\<lambda>registered.
     if \<not> registered then ret ()
     else thn (loadAllPosValidators X) (thn (computeValidatorRank X) (computeValidatorStatus X)))"

definition getAllValidators :: "ext \<Rightarrow> jsval list iact" where
  "getAllValidators X =
     bnd (getA validatorList) (\<lambda>vs.
     thn (if vs = [] then reloadValidatorCache X else ret ()) (getA validatorList))"

subsection \<open>dataService/generators.js\<close>

text \<open>The last validator with an address is the one a map built from the list keeps.\<close>

definition generator_status :: "jsval list \<Rightarrow> jsval \<Rightarrow> jserr + jsval list" where
  "generator_status vs generator =
     bindE (js_prop generator ''address'') (\<lambda>address.
     bindE (mapE (\<lambda>v. js_prop v ''address'') vs) (\<lambda>addresses.
     case List.find (\<lambda>p. fst p = address) (rev (zip addresses vs)) of
       None \<Rightarrow> Inr []
     | Some (_, v) \<Rightarrow> bindE (js_prop v ''status'') (\<lambda>s.
         Inr [JObj (oset (own_props generator) ''status'' s)])))"

definition getGenerators :: "ext \<Rightarrow> jsval \<Rightarrow> jsval iact" where
  "getGenerators X params =
     bnd (propA params ''offset'') (\<lambda>offset. bnd (propA params ''limit'') (\<lambda>limit.
     bnd (business_getGenerators X) (\<lambda>generatorsList.
     bnd (getAllValidators X) (\<lambda>vs.
     bnd (liftE (mapE (generator_status vs) generatorsList)) (\<lambda>found.
     bnd (liftE (slice_page (concat found) offset limit)) (\<lambda>page.
     ret (parseToJSONCompatObj (JObj [(''data'', JArr page), (''meta'', JObj [
       (''count'', JNum (int (length page))), (''offset'', offset),
       (''total'', JNum (int (length generatorsList)))])]))))))))"

subsection \<open>Confinement\<close>

lemma within_updateAccountPublicKey:
  "sql_engine jc (kx X) \<Longrightarrow> keeps (within {''accounts''}) (updateAccountPublicKey X pk)"
  unfolding updateAccountPublicKey_def
  by (intro confined sql_engine.within_upsert) (simp_all add: accountsTableSchema_def)

lemma within_getIndexedAccountInfo [confined]: "keeps (within T) (getIndexedAccountInfo X p c)"
  unfolding getIndexedAccountInfo_def by (intro confined)

lemma within_getNameByAddress:
  "sql_engine jc (kx X) \<Longrightarrow> keeps (within {''accounts''}) (getNameByAddress X a)"
  unfolding getNameByAddress_def Let_def
  by (intro confined within_spawn sql_engine.within_upsert) (simp_all add: accountsTableSchema_def)

lemma within_getPosConstants [confined]: "keeps (within T) (getPosConstants X)"
  unfolding getPosConstants_def by (intro confined within_modA) simp

lemma within_getPosTokenID [confined]: "keeps (within T) (getPosTokenID X)"
  unfolding getPosTokenID_def by (intro confined)

lemma within_weigh_validator [confined]: "keeps (within T) (weigh_validator v)"
  unfolding weigh_validator_def verifyIfPunished_def by (intro confined)

lemma within_isPosModuleRegistered [confined]: "keeps (within T) (isPosModuleRegistered X)"
  unfolding isPosModuleRegistered_def by (intro confined within_modA) simp

lemma within_computeValidatorRank [confined]: "keeps (within T) (computeValidatorRank X)"
  unfolding computeValidatorRank_def set_rank_def by (intro confined within_modA) simp

lemma within_business_getGenerators:
  "sql_engine jc (kx X) \<Longrightarrow> keeps (within {''accounts''}) (business_getGenerators X)"
  unfolding business_getGenerators_def reloadGeneratorsCache_def getGeneratorsInfo_def generator_info_def
  by (intro confined within_getNameByAddress within_modA) simp_all

lemma within_computeValidatorStatus:
  "sql_engine jc (kx X) \<Longrightarrow> keeps (within {''accounts''}) (computeValidatorStatus X)"
  unfolding computeValidatorStatus_def set_status_def Let_def
  by (intro confined within_business_getGenerators within_modA) simp_all

lemma within_loadAllPosValidators:
  "sql_engine jc (kx X) \<Longrightarrow> keeps (within {''accounts''}) (loadAllPosValidators X)"
  unfolding loadAllPosValidators_def getAllPosValidators_def cache_validator_def
  by (intro confined sql_engine.within_upsert within_modA) (simp_all add: accountsTableSchema_def)

lemma within_reloadValidatorCache:
  "sql_engine jc (kx X) \<Longrightarrow> keeps (within {''accounts''}) (reloadValidatorCache X)"
  unfolding reloadValidatorCache_def
  by (intro confined within_loadAllPosValidators within_computeValidatorStatus)

end
