(* ===== verification/TxPos.thy ===== *)
theory TxPos
  imports TxMusic Validators
begin

text \<open>
  The commands of the pos, token, auth, interoperability and legacy modules,
  \<open>shared/indexer/transactionProcessor/{pos,token,auth,interoperability,legacy}\<close>.
  The commands whose two functions are empty in the source share \<open>no_op\<close>.
\<close>

definition no_op :: "ext \<Rightarrow> jsval \<Rightarrow> jsval \<Rightarrow> jsval list \<Rightarrow> jsval iact" where
  "no_op X blockHeader tx events = ret JUndef"

subsection \<open>pos: commissions\<close>

definition getCommissionIndexingInfo :: "ext \<Rightarrow> jsval \<Rightarrow> jsval \<Rightarrow> obj iact" where
  "getCommissionIndexingInfo X blockHeader tx =
     bnd (pathA tx [''params'', ''newCommission'']) (\<lambda>newCommission.
     bnd (sender_address X tx) (\<lambda>address.
     bnd (propA blockHeader ''height'') (\<lambda>height.
     ret [(''address'', address), (''commission'', newCommission), (''height'', height)])))"

definition changeCommission_apply :: "ext \<Rightarrow> jsval \<Rightarrow> jsval \<Rightarrow> jsval list \<Rightarrow> jsval iact" where
  "changeCommission_apply X blockHeader tx events =
     bnd (getCommissionIndexingInfo X blockHeader tx) (\<lambda>info.
     thn (upsert (kx X) commissionsTableSchema (JObj info) True) (ret JUndef))"

definition changeCommission_revert :: "ext \<Rightarrow> jsval \<Rightarrow> jsval \<Rightarrow> jsval list \<Rightarrow> jsval iact" where
  "changeCommission_revert X blockHeader tx events =
     bnd (getCommissionIndexingInfo X blockHeader tx) (\<lambda>info.
     thn (deleteByParams (kx X) commissionsTableSchema info True) (ret JUndef))"

subsection \<open>pos: validators\<close>

text \<open>\<open>tx.params.k\<close> for the keys that the validator commands copy.\<close>

definition param :: "jsval \<Rightarrow> string \<Rightarrow> jsval iact" where
  "param tx k = pathA tx [''params'', k]"

definition registerValidator_apply :: "ext \<Rightarrow> jsval \<Rightarrow> jsval \<Rightarrow> jsval list \<Rightarrow> jsval iact" where
  "registerValidator_apply X blockHeader tx events =
     bnd (sender_address X tx) (\<lambda>address.
     bnd (propA tx ''senderPublicKey'') (\<lambda>publicKey.
     bnd (param tx ''name'') (\<lambda>name.
     bnd (param tx ''blsKey'') (\<lambda>blsKey.
     bnd (param tx ''proofOfPosession'') (\<lambda>pop.
     bnd (param tx ''generatorKey'') (\<lambda>generatorKey.
     let account = JObj [(''address'', address), (''publicKey'', publicKey), (''name'', name),
           (''isValidator'', JBool True), (''blsKey'', blsKey), (''proofOfPosession'', pop),
           (''generatorKey'', generatorKey)] in
     thn (upsert (kx X) accountsTableSchema account True) (
     thn (upsert (kx X) validatorsTableSchema account True) (ret JUndef))))))))"

definition registerValidator_revert :: "ext \<Rightarrow> jsval \<Rightarrow> jsval \<Rightarrow> jsval list \<Rightarrow> jsval iact" where
  "registerValidator_revert X blockHeader tx events =
     bnd (sender_address X tx) (\<lambda>address.
     bnd (propA tx ''senderPublicKey'') (\<lambda>publicKey.
     let account = JObj [(''address'', address), (''publicKey'', publicKey), (''name'', JNull),
           (''isValidator'', JBool False), (''blsKey'', JNull), (''proofOfPosession'', JNull),
           (''generatorKey'', JNull)] in
     thn (upsert (kx X) accountsTableSchema account True) (
     thn (deleteByPrimaryKey (kx X) validatorsTableSchema address True) (ret JUndef))))"

definition updateGeneratorKey_apply :: "ext \<Rightarrow> jsval \<Rightarrow> jsval \<Rightarrow> jsval list \<Rightarrow> jsval iact" where
  "updateGeneratorKey_apply X blockHeader tx events =
     bnd (sender_address X tx) (\<lambda>address.
     bnd (propA tx ''senderPublicKey'') (\<lambda>publicKey.
     bnd (param tx ''generatorKey'') (\<lambda>generatorKey.
     let validator = JObj [(''address'', address), (''publicKey'', publicKey),
           (''isValidator'', JBool True), (''generatorKey'', generatorKey)] in
     thn (upsert (kx X) accountsTableSchema validator True) (
     thn (upsert (kx X) validatorsTableSchema validator True) (ret JUndef)))))"

definition updateGeneratorKey_revert :: "ext \<Rightarrow> jsval \<Rightarrow> jsval \<Rightarrow> jsval list \<Rightarrow> jsval iact" where
  "updateGeneratorKey_revert X blockHeader tx events =
     bnd (sender_address X tx) (\<lambda>address.
     thn (upsert (kx X) validatorsTableSchema
            (JObj [(''address'', address), (''generatorKey'', JNull)]) True) (ret JUndef))"

definition reportMisbehavior_apply :: "ext \<Rightarrow> jsval \<Rightarrow> jsval \<Rightarrow> jsval list \<Rightarrow> jsval iact" where
  "reportMisbehavior_apply X blockHeader tx events = thn (reloadValidatorCache X) (ret JUndef)"

definition reportMisbehavior_revert :: "ext \<Rightarrow> jsval \<Rightarrow> jsval \<Rightarrow> jsval list \<Rightarrow> jsval iact" where
  "reportMisbehavior_revert X blockHeader tx events = thn (reloadValidatorCache X) (ret JUndef)"

subsection \<open>pos: stakes\<close>

definition stake_entry :: "ext \<Rightarrow> jsval \<Rightarrow> jsval \<Rightarrow> obj iact" where
  "stake_entry X tx stake =
     bnd (sender_address X tx) (\<lambda>stakerAddress.
     bnd (propA stake ''validatorAddress'') (\<lambda>validatorAddress.
     bnd (propA stake ''amount'') (\<lambda>amount.
     ret [(''stakerAddress'', stakerAddress), (''validatorAddress'', validatorAddress),
          (''amount'', amount)])))"

definition getStakeIndexingInfo :: "ext \<Rightarrow> jsval \<Rightarrow> obj list iact" where
  "getStakeIndexingInfo X tx =
     bnd (pathA tx [''params'', ''stakes'']) (\<lambda>sv. bnd (elemsA sv) (\<lambda>stakes.
     mapA (stake_entry X tx) stakes))"

definition stake_where :: "obj \<Rightarrow> obj" where
  "stake_where stake = [(''stakerAddress'', oget stake ''stakerAddress''),
     (''validatorAddress'', oget stake ''validatorAddress'')]"

definition incrementStakeTrx :: "ext \<Rightarrow> obj \<Rightarrow> unit iact" where
  "incrementStakeTrx X stake =
     bnd (liftE (js_bigint (oget stake ''amount''))) (\<lambda>amount.
     bnd (increment (kx X) stakesTableSchema [(''amount'', amount)] (stake_where stake) True) (\<lambda>n.
     if n = 0 then upsert (kx X) stakesTableSchema (JObj stake) True else ret ()))"

definition decrementStakeTrx :: "ext \<Rightarrow> obj \<Rightarrow> unit iact" where
  "decrementStakeTrx X stake =
     bnd (liftE (js_bigint (oget stake ''amount''))) (\<lambda>amount.
     thn (decrement (kx X) stakesTableSchema [(''amount'', amount)] (stake_where stake) True) (ret ()))"

text \<open>\<open>BigInt(await keyValueTable.get(key) || 0)\<close>.\<close>

definition stored_total :: "ext \<Rightarrow> string \<Rightarrow> int iact" where
  "stored_total X tokenKey = bnd (kv_get X tokenKey) (\<lambda>v. liftE (js_bigint (js_or v (JNum 0))))"

definition updateTotalStake :: "ext \<Rightarrow> int \<Rightarrow> unit iact" where
  "updateTotalStake X changeAmount =
     bnd (getPosTokenID X) (\<lambda>tokenID.
     let tokenKey = TOTAL_STAKED @ js_string tokenID in
     bnd (stored_total X tokenKey) (\<lambda>cur.
     kv_set X tokenKey (JBig (cur + changeAmount)) True))"

definition updateTotalSelfStake :: "ext \<Rightarrow> int \<Rightarrow> unit iact" where
  "updateTotalSelfStake X changeAmount =
     bnd (getPosTokenID X) (\<lambda>tokenID.
     let tokenKey = TOTAL_SELF_STAKED @ js_string tokenID in
     bnd (stored_total X tokenKey) (\<lambda>cur.
     kv_set X tokenKey (JBig (cur + changeAmount)) True))"

text \<open>The stakes in order, adding up the change of the total and of the self-staked total.\<close>

fun apply_stakes :: "ext \<Rightarrow> obj list \<Rightarrow> int \<Rightarrow> int \<Rightarrow> (int \<times> int) iact" where
  "apply_stakes X [] tot self = ret (tot, self)"
| "apply_stakes X (stake # stakes) tot self =
     thn (incrementStakeTrx X stake) (
     bnd (liftE (js_bigint (oget stake ''amount''))) (\<lambda>a.
     apply_stakes X stakes (tot + a)
       (if strict_eq (oget stake ''stakerAddress'') (oget stake ''validatorAddress'') then self + a else self)))"

fun revert_stakes :: "ext \<Rightarrow> obj list \<Rightarrow> int \<Rightarrow> int \<Rightarrow> (int \<times> int) iact" where
  "revert_stakes X [] tot self = ret (tot, self)"
| "revert_stakes X (stake # stakes) tot self =
     thn (decrementStakeTrx X stake) (
     bnd (liftE (js_bigint (oget stake ''amount''))) (\<lambda>a.
     revert_stakes X stakes (tot - a)
       (if strict_eq (oget stake ''stakerAddress'') (oget stake ''validatorAddress'') then self - a else self)))"

definition stake_apply :: "ext \<Rightarrow> jsval \<Rightarrow> jsval \<Rightarrow> jsval list \<Rightarrow> jsval iact" where
  "stake_apply X blockHeader tx events =
     bnd (getStakeIndexingInfo X tx) (\<lambda>stakes.
     bnd (apply_stakes X stakes 0 0) (\<lambda>(totalStakeChange, totalSelfStakeChange).
     thn (updateTotalStake X totalStakeChange) (
     thn (updateTotalSelfStake X totalSelfStakeChange) (ret JUndef))))"

definition stake_revert :: "ext \<Rightarrow> jsval \<Rightarrow> jsval \<Rightarrow> jsval list \<Rightarrow> jsval iact" where
  "stake_revert X blockHeader tx events =
     bnd (getStakeIndexingInfo X tx) (\<lambda>stakes.
     bnd (revert_stakes X stakes 0 0) (\<lambda>(totalStakeChange, totalSelfStakeChange).
     thn (updateTotalStake X totalStakeChange) (
     thn (updateTotalSelfStake X totalSelfStakeChange) (ret JUndef))))"

subsection \<open>token\<close>

text \<open>\<open>tx = { ...tx, ...tx.params }\<close>, then the recipient's account and the transaction.\<close>

definition index_transfer :: "ext \<Rightarrow> jsval \<Rightarrow> jsval iact" where
  "index_transfer X tx =
     bnd (propA tx ''params'') (\<lambda>params.
     let merged = spread (own_props tx) (own_props params) in
     thn (upsert_account X (oget merged ''recipientAddress'')) (
     thn (upsert (kx X) transactionsTableSchema (JObj merged) True) (ret JUndef)))"

definition token_transfer_apply :: "ext \<Rightarrow> jsval \<Rightarrow> jsval \<Rightarrow> jsval list \<Rightarrow> jsval iact" where
  "token_transfer_apply X blockHeader tx events = index_transfer X tx"

definition token_transfer_revert :: "ext \<Rightarrow> jsval \<Rightarrow> jsval \<Rightarrow> jsval list \<Rightarrow> jsval iact" where
  "token_transfer_revert X blockHeader tx events = ret JUndef"

definition token_transferCrossChain_apply :: "ext \<Rightarrow> jsval \<Rightarrow> jsval \<Rightarrow> jsval list \<Rightarrow> jsval iact" where
  "token_transferCrossChain_apply X blockHeader tx events = index_transfer X tx"

definition token_transferCrossChain_revert :: "ext \<Rightarrow> jsval \<Rightarrow> jsval \<Rightarrow> jsval list \<Rightarrow> jsval iact" where
  "token_transferCrossChain_revert X blockHeader tx events = ret JUndef"

subsection \<open>auth\<close>

definition multisignature_member :: "ext \<Rightarrow> jsval \<Rightarrow> jsval \<Rightarrow> jsval iact" where
  "multisignature_member X senderAddress key =
     bnd (lisk32A X key) (\<lambda>member.
     bnd (liftE (as_str senderAddress)) (\<lambda>sender.
     thn (spawn (updateAccountPublicKey X key)) (
     ret (JObj [(''id'', JStr (sender @ ''_'' @ js_string member)), (''memberAddress'', member),
                (''groupAddress'', senderAddress)]))))"

definition resolveMultisignatureMemberships :: "ext \<Rightarrow> jsval \<Rightarrow> jsval list iact" where
  "resolveMultisignatureMemberships X tx =
     bnd (param tx ''mandatoryKeys'') (\<lambda>mv. bnd (elemsA mv) (\<lambda>mandatoryKeys.
     bnd (param tx ''optionalKeys'') (\<lambda>optionalKeys.
     bnd (propA tx ''senderAddress'') (\<lambda>senderAddress.
     mapA (multisignature_member X senderAddress) (mandatoryKeys @ as_list optionalKeys)))))"

definition registerMultisignature_apply :: "ext \<Rightarrow> jsval \<Rightarrow> jsval \<Rightarrow> jsval list \<Rightarrow> jsval iact" where
  "registerMultisignature_apply X blockHeader tx events =
     bnd (resolveMultisignatureMemberships X tx) (\<lambda>info.
     thn (upsert (kx X) multisignatureTableSchema (JArr info) True) (ret JUndef))"

definition registerMultisignature_revert :: "ext \<Rightarrow> jsval \<Rightarrow> jsval \<Rightarrow> jsval list \<Rightarrow> jsval iact" where
  "registerMultisignature_revert X blockHeader tx events =
     bnd (resolveMultisignatureMemberships X tx) (\<lambda>info.
     thn (deleteByPrimaryKey (kx X) multisignatureTableSchema
            (JArr (map (\<lambda>item. oget (own_props item) ''id'') info)) True) (ret JUndef))"

subsection \<open>interoperability\<close>

definition CHAIN_STATUS :: "(string \<times> string) list" where
  "CHAIN_STATUS = [(''0'', ''registered''), (''1'', ''active''), (''2'', ''terminated'')]"

definition getChainAccount :: "ext \<Rightarrow> jsval \<Rightarrow> jsval iact" where
  "getChainAccount X chainID =
     requestConnector X ''getChainAccount'' (JObj [(''chainID'', chainID)])"

definition getMainchainID :: "ext \<Rightarrow> jsval iact" where
  "getMainchainID X = requestConnector X ''getMainchainID'' JUndef"

definition getChainInfo :: "ext \<Rightarrow> jsval \<Rightarrow> obj iact" where
  "getChainInfo X chainID =
     bnd (getChainAccount X chainID) (\<lambda>chainAccount.
     bnd (propA chainAccount ''status'') (\<lambda>statusInt.
     bnd (propA chainAccount ''name'') (\<lambda>name.
     ret [(''name'', name),
          (''status'', case map_of CHAIN_STATUS (js_string statusInt) of
                         None \<Rightarrow> JUndef | Some s \<Rightarrow> JStr s)])))"

definition if_success :: "jsval \<Rightarrow> jsval iact \<Rightarrow> jsval iact" where
  "if_success tx body =
     bnd (propA tx ''executionStatus'') (\<lambda>st.
     if \<not> strict_eq st (JStr TRANSACTION_STATUS_SUCCESS) then ret JUndef else body)"

definition registerMainchain_apply :: "ext \<Rightarrow> jsval \<Rightarrow> jsval \<Rightarrow> jsval list \<Rightarrow> jsval iact" where
  "registerMainchain_apply X blockHeader tx events = if_success tx
     (bnd (getMainchainID X) (\<lambda>mainchainID.
      bnd (getChainInfo X mainchainID) (\<lambda>info.
      bnd (sender_address X tx) (\<lambda>address.
      bnd (propA blockHeader ''timestamp'') (\<lambda>timestamp.
      bnd (propA blockHeader ''height'') (\<lambda>height.
      thn (upsert (kx X) blockchainAppsTableSchema
             (JObj [(''chainID'', mainchainID), (''name'', oget info ''name''),
                    (''status'', oget info ''status''), (''address'', address),
                    (''lastUpdated'', timestamp), (''lastCertificateHeight'', height)]) True) (
      ret JUndef)))))))"

definition registerMainchain_revert :: "ext \<Rightarrow> jsval \<Rightarrow> jsval \<Rightarrow> jsval list \<Rightarrow> jsval iact" where
  "registerMainchain_revert X blockHeader tx events = if_success tx
     (bnd (getMainchainID X) (\<lambda>mainchainID.
      thn (deleteByPrimaryKey (kx X) blockchainAppsTableSchema mainchainID True) (ret JUndef)))"

definition registerSidechain_apply :: "ext \<Rightarrow> jsval \<Rightarrow> jsval \<Rightarrow> jsval list \<Rightarrow> jsval iact" where
  "registerSidechain_apply X blockHeader tx events = if_success tx
     (bnd (param tx ''chainID'') (\<lambda>chainID.
      bnd (getChainInfo X chainID) (\<lambda>info.
      bnd (param tx ''name'') (\<lambda>name.
      bnd (sender_address X tx) (\<lambda>address.
      bnd (propA blockHeader ''timestamp'') (\<lambda>timestamp.
      bnd (propA blockHeader ''height'') (\<lambda>height.
      thn (upsert (kx X) blockchainAppsTableSchema
             (JObj [(''chainID'', chainID), (''name'', name),
                    (''status'', oget info ''status''), (''address'', address),
                    (''lastUpdated'', timestamp), (''lastCertificateHeight'', height)]) True) (
      ret JUndef))))))))"

definition registerSidechain_revert :: "ext \<Rightarrow> jsval \<Rightarrow> jsval \<Rightarrow> jsval list \<Rightarrow> jsval iact" where
  "registerSidechain_revert X blockHeader tx events = if_success tx
     (bnd (param tx ''chainID'') (\<lambda>chainID.
      thn (deleteByPrimaryKey (kx X) blockchainAppsTableSchema chainID True) (ret JUndef)))"

text \<open>Applying and reverting a cross-chain update write the same row.\<close>

definition crossChainUpdate_apply :: "ext \<Rightarrow> jsval \<Rightarrow> jsval \<Rightarrow> jsval list \<Rightarrow> jsval iact" where
  "crossChainUpdate_apply X blockHeader tx events = if_success tx
     (bnd (param tx ''sendingChainID'') (\<lambda>chainID.
      bnd (getChainInfo X chainID) (\<lambda>info.
      bnd (propA blockHeader ''timestamp'') (\<lambda>timestamp.
      bnd (propA blockHeader ''height'') (\<lambda>height.
      thn (upsert (kx X) blockchainAppsTableSchema
             (JObj [(''chainID'', chainID), (''status'', oget info ''status''), (''address'', JStr []),
                    (''lastUpdated'', timestamp), (''lastCertificateHeight'', height)]) True) (
      ret JUndef))))))"

definition crossChainUpdate_revert :: "ext \<Rightarrow> jsval \<Rightarrow> jsval \<Rightarrow> jsval list \<Rightarrow> jsval iact" where
  "crossChainUpdate_revert X blockHeader tx events = if_success tx
     (bnd (param tx ''sendingChainID'') (\<lambda>chainID.
      bnd (getChainInfo X chainID) (\<lambda>info.
      bnd (propA blockHeader ''timestamp'') (\<lambda>timestamp.
      bnd (propA blockHeader ''height'') (\<lambda>height.
      thn (upsert (kx X) blockchainAppsTableSchema
             (JObj [(''chainID'', chainID), (''status'', oget info ''status''), (''address'', JStr []),
                    (''lastUpdated'', timestamp), (''lastCertificateHeight'', height)]) True) (
      ret JUndef))))))"

definition terminateSidechain_apply :: "ext \<Rightarrow> jsval \<Rightarrow> jsval \<Rightarrow> jsval list \<Rightarrow> jsval iact" where
  "terminateSidechain_apply X blockHeader tx events = if_success tx
     (bnd (param tx ''chainID'') (\<lambda>chainID.
      bnd (getChainInfo X chainID) (\<lambda>info.
      thn (upsert (kx X) blockchainAppsTableSchema
             (JObj [(''chainID'', chainID), (''status'', oget info ''status'')]) True) (
      ret JUndef))))"

definition terminateSidechain_revert :: "ext \<Rightarrow> jsval \<Rightarrow> jsval \<Rightarrow> jsval list \<Rightarrow> jsval iact" where
  "terminateSidechain_revert X blockHeader tx events = if_success tx
     (bnd (param tx ''chainID'') (\<lambda>chainID.
      bnd (getChainInfo X chainID) (\<lambda>info.
      thn (upsert (kx X) blockchainAppsTableSchema
             (JObj [(''chainID'', chainID), (''status'', oget info ''status'')]) True) (
      ret JUndef))))"

subsection \<open>legacy\<close>

definition registerKeys_apply :: "ext \<Rightarrow> jsval \<Rightarrow> jsval \<Rightarrow> jsval list \<Rightarrow> jsval iact" where
  "registerKeys_apply X blockHeader tx events =
     bnd (sender_address X tx) (\<lambda>address.
     bnd (propA tx ''senderPublicKey'') (\<lambda>publicKey.
     bnd (param tx ''blsKey'') (\<lambda>blsKey.
     bnd (param tx ''proofOfPosession'') (\<lambda>pop.
     bnd (param tx ''generatorKey'') (\<lambda>generatorKey.
     let account = JObj [(''address'', address), (''publicKey'', publicKey),
           (''isValidator'', JBool True), (''blsKey'', blsKey), (''proofOfPosession'', pop),
           (''generatorKey'', generatorKey)] in
     thn (upsert (kx X) accountsTableSchema account True) (
     thn (upsert (kx X) validatorsTableSchema account True) (ret JUndef)))))))"

definition registerKeys_revert :: "ext \<Rightarrow> jsval \<Rightarrow> jsval \<Rightarrow> jsval list \<Rightarrow> jsval iact" where
  "registerKeys_revert X blockHeader tx events =
     bnd (sender_address X tx) (\<lambda>address.
     bnd (propA tx ''senderPublicKey'') (\<lambda>publicKey.
     let account = JObj [(''address'', address), (''publicKey'', publicKey),
           (''isValidator'', JBool True), (''blsKey'', JNull), (''proofOfPosession'', JNull),
           (''generatorKey'', JNull)] in
     thn (upsert (kx X) accountsTableSchema account True) (
     thn (deleteByPrimaryKey (kx X) validatorsTableSchema address True) (ret JUndef))))"

lemmas pos_handler_defs =
  no_op_def changeCommission_apply_def changeCommission_revert_def registerValidator_apply_def
  registerValidator_revert_def updateGeneratorKey_apply_def updateGeneratorKey_revert_def
  reportMisbehavior_apply_def reportMisbehavior_revert_def stake_apply_def stake_revert_def
  token_transfer_apply_def token_transfer_revert_def token_transferCrossChain_apply_def
  token_transferCrossChain_revert_def registerMainchain_apply_def registerMainchain_revert_def
  registerSidechain_apply_def registerSidechain_revert_def crossChainUpdate_apply_def
  crossChainUpdate_revert_def terminateSidechain_apply_def terminateSidechain_revert_def
  registerKeys_apply_def registerKeys_revert_def

lemmas multisignature_handler_defs =
  registerMultisignature_apply_def registerMultisignature_revert_def

subsection \<open>Confinement\<close>

lemma within_param [confined]: "keeps (within T) (param tx k)"
  unfolding param_def by (intro confined)

lemma within_getCommissionIndexingInfo [confined]: "keeps (within T) (getCommissionIndexingInfo X h tx)"
  unfolding getCommissionIndexingInfo_def by (intro confined)

lemma within_getStakeIndexingInfo [confined]: "keeps (within T) (getStakeIndexingInfo X tx)"
  unfolding getStakeIndexingInfo_def stake_entry_def by (intro confined)

lemma within_incrementStakeTrx [confined]: "keeps (within T) (incrementStakeTrx X s)"
  unfolding incrementStakeTrx_def by (intro confined)

lemma within_decrementStakeTrx [confined]: "keeps (within T) (decrementStakeTrx X s)"
  unfolding decrementStakeTrx_def by (intro confined)

lemma within_kv_get [confined]: "keeps (within T) (kv_get X k)"
  unfolding kv_get_def Let_def by (intro confined)

lemma within_kv_set_trx [confined]: "keeps (within T) (kv_set X k v True)"
  unfolding kv_set_def Let_def by (intro confined)

lemma within_stored_total [confined]: "keeps (within T) (stored_total X k)"
  unfolding stored_total_def by (intro confined)

lemma within_updateTotalStake [confined]: "keeps (within T) (updateTotalStake X n)"
  unfolding updateTotalStake_def Let_def by (intro confined)

lemma within_updateTotalSelfStake [confined]: "keeps (within T) (updateTotalSelfStake X n)"
  unfolding updateTotalSelfStake_def Let_def by (intro confined)

lemma within_apply_stakes [confined]: "keeps (within T) (apply_stakes X ss t s)"
proof (induction ss arbitrary: t s)
  case Nil
  show ?case unfolding apply_stakes.simps by (intro confined)
next
  case (Cons a ss)
  show ?case unfolding apply_stakes.simps by (intro confined Cons.IH)
qed

lemma within_revert_stakes [confined]: "keeps (within T) (revert_stakes X ss t s)"
proof (induction ss arbitrary: t s)
  case Nil
  show ?case unfolding revert_stakes.simps by (intro confined)
next
  case (Cons a ss)
  show ?case unfolding revert_stakes.simps by (intro confined Cons.IH)
qed

lemma within_index_transfer [confined]: "keeps (within T) (index_transfer X tx)"
  unfolding index_transfer_def Let_def by (intro confined)

lemma within_getChainInfo [confined]: "keeps (within T) (getChainInfo X c)"
  unfolding getChainInfo_def getChainAccount_def by (intro confined)

lemma within_getMainchainID [confined]: "keeps (within T) (getMainchainID X)"
  unfolding getMainchainID_def by (intro confined)

lemma within_if_success [confined]: "keeps (within T) b \<Longrightarrow> keeps (within T) (if_success tx b)"
  unfolding if_success_def by (intro confined)

lemma within_split [confined]:
  "(\<And>a b. keeps (within T) (f a b)) \<Longrightarrow> keeps (within T) (case p of (a, b) \<Rightarrow> f a b)"
  by (cases p) simp

lemma pos_confined:
  "keeps (within {}) (no_op X h tx evs)"
  "keeps (within {}) (changeCommission_apply X h tx evs)" "keeps (within {}) (changeCommission_revert X h tx evs)"
  "keeps (within {}) (registerValidator_apply X h tx evs)" "keeps (within {}) (registerValidator_revert X h tx evs)"
  "keeps (within {}) (updateGeneratorKey_apply X h tx evs)" "keeps (within {}) (updateGeneratorKey_revert X h tx evs)"
  "keeps (within {}) (stake_apply X h tx evs)" "keeps (within {}) (stake_revert X h tx evs)"
  "keeps (within {}) (token_transfer_apply X h tx evs)" "keeps (within {}) (token_transfer_revert X h tx evs)"
  "keeps (within {}) (token_transferCrossChain_apply X h tx evs)"
  "keeps (within {}) (token_transferCrossChain_revert X h tx evs)"
  "keeps (within {}) (registerMainchain_apply X h tx evs)" "keeps (within {}) (registerMainchain_revert X h tx evs)"
  "keeps (within {}) (registerSidechain_apply X h tx evs)" "keeps (within {}) (registerSidechain_revert X h tx evs)"
  "keeps (within {}) (crossChainUpdate_apply X h tx evs)" "keeps (within {}) (crossChainUpdate_revert X h tx evs)"
  "keeps (within {}) (terminateSidechain_apply X h tx evs)" "keeps (within {}) (terminateSidechain_revert X h tx evs)"
  "keeps (within {}) (registerKeys_apply X h tx evs)" "keeps (within {}) (registerKeys_revert X h tx evs)"
  unfolding pos_handler_defs Let_def by (intro confined)+

text \<open>The multisignature commands also write public keys to the accounts table, outside the transaction.\<close>

lemma multisignature_confined:
  assumes "sql_engine jc (kx X)"
  shows "keeps (within {''accounts''}) (registerMultisignature_apply X h tx evs)"
    "keeps (within {''accounts''}) (registerMultisignature_revert X h tx evs)"
  unfolding multisignature_handler_defs resolveMultisignatureMemberships_def multisignature_member_def
  by (intro confined within_spawn within_updateAccountPublicKey [OF assms])+

text \<open>Reporting misbehaviour reloads the validators, whose names go to the accounts table.\<close>

lemma misbehavior_confined:
  assumes "sql_engine jc (kx X)"
  shows "keeps (within {''accounts''}) (reportMisbehavior_apply X h tx evs)"
    "keeps (within {''accounts''}) (reportMisbehavior_revert X h tx evs)"
  unfolding reportMisbehavior_apply_def reportMisbehavior_revert_def
  by (intro confined within_reloadValidatorCache [OF assms])+

end
