(* ===== verification/TxProcessor.thy ===== *)
theory TxProcessor
  imports TxPos
begin

text \<open>
  The dispatch of transactions to the command processors,
  \<open>shared/indexer/transactionProcessor/index.js\<close>, the registry it builds from the
  directories of processors, and the contract of a processor that the block indexer relies on
  (locale \<open>tx_processor\<close>), met by the two dispatch functions.
\<close>

type_synonym handler = "ext \<Rightarrow> jsval \<Rightarrow> jsval \<Rightarrow> jsval list \<Rightarrow> jsval iact"

type_synonym command_processor = "string \<times> handler \<times> handler"

text \<open>
  What \<open>getAvailableModuleProcessors\<close> and \<open>getCommandProcessors\<close> read from the
  directories: each module with its commands, and each command with its
  \<open>applyTransaction\<close> and \<open>revertTransaction\<close>.
\<close>

definition audio_processors :: "command_processor list" where
  "audio_processors =
     [(''create'', audio_create_apply, audio_create_revert),
      (''destroy'', audio_destroy_apply, audio_destroy_revert),
      (''reclaim'', audio_reclaim_apply, audio_reclaim_revert),
      (''setAttributes'', audio_setAttributes_apply, audio_setAttributes_revert),
      (''stream'', audio_stream_apply, audio_stream_revert),
      (''transfer'', audio_transfer_apply, audio_transfer_revert)]"

definition auth_processors :: "command_processor list" where
  "auth_processors =
     [(''registerMultisignature'', registerMultisignature_apply, registerMultisignature_revert)]"

definition collection_processors :: "command_processor list" where
  "collection_processors =
     [(''create'', collection_create_apply, collection_create_revert),
      (''destroy'', collection_destroy_apply, collection_destroy_revert),
      (''setAttributes'', collection_setAttributes_apply, collection_setAttributes_revert),
      (''transfer'', collection_transfer_apply, collection_transfer_revert)]"

definition interoperability_processors :: "command_processor list" where
  "interoperability_processors =
     [(''initializeMessageRecovery'', no_op, no_op),
      (''initializeStateRecovery'', no_op, no_op),
      (''recoverMessage'', no_op, no_op),
      (''recoverState'', no_op, no_op),
      (''registerMainchain'', registerMainchain_apply, registerMainchain_revert),
      (''registerSidechain'', registerSidechain_apply, registerSidechain_revert),
      (''submitMainchainCrossChainUpdate'', crossChainUpdate_apply, crossChainUpdate_revert),
      (''submitSidechainCrossChainUpdate'', crossChainUpdate_apply, crossChainUpdate_revert),
      (''terminateSidechainForLiveness'', terminateSidechain_apply, terminateSidechain_revert)]"

definition legacy_processors :: "command_processor list" where
  "legacy_processors =
     [(''reclaimLSK'', no_op, no_op),
      (''registerKeys'', registerKeys_apply, registerKeys_revert)]"

definition pos_processors :: "command_processor list" where
  "pos_processors =
     [(''changeCommission'', changeCommission_apply, changeCommission_revert),
      (''claimRewards'', no_op, no_op),
      (''registerValidator'', registerValidator_apply, registerValidator_revert),
      (''reportMisbehavior'', reportMisbehavior_apply, reportMisbehavior_revert),
      (''stake'', stake_apply, stake_revert),
      (''unlock'', no_op, no_op),
      (''updateGeneratorKey'', updateGeneratorKey_apply, updateGeneratorKey_revert)]"

definition profile_processors :: "command_processor list" where
  "profile_processors =
     [(''create'', profile_create_apply, profile_create_revert),
      (''setAttributes'', profile_setAttributes_apply, profile_setAttributes_revert)]"

definition subscription_processors :: "command_processor list" where
  "subscription_processors =
     [(''create'', subscription_create_apply, subscription_create_revert),
      (''purchase'', subscription_purchase_apply, subscription_purchase_revert),
      (''updateMembers'', subscription_updateMembers_apply, subscription_updateMembers_revert)]"

definition token_processors :: "command_processor list" where
  "token_processors =
     [(''transfer'', token_transfer_apply, token_transfer_revert),
      (''transferCrossChain'', token_transferCrossChain_apply, token_transferCrossChain_revert)]"

definition getAvailableModuleProcessors :: "(string \<times> command_processor list) list" where
  "getAvailableModuleProcessors =
     [(''audio'', audio_processors), (''auth'', auth_processors),
      (''collection'', collection_processors), (''interoperability'', interoperability_processors),
      (''legacy'', legacy_processors), (''pos'', pos_processors), (''profile'', profile_processors),
      (''subscription'', subscription_processors), (''token'', token_processors)]"

definition find_processor :: "string \<Rightarrow> string \<Rightarrow> (handler \<times> handler) option" where
  "find_processor m c = (case map_of getAvailableModuleProcessors m of
       None \<Rightarrow> None
     | Some cmds \<Rightarrow> map_of cmds c)"

text \<open>
  The state of the map is the set of its keys: the value of a key is the module's own map of
  commands. A module gets a key when the application reports it as registered.
\<close>

definition register_modules :: "jsval list \<Rightarrow> string list \<Rightarrow> string list" where
  "register_modules registered keys = keys @
     filter (\<lambda>m. js_includes registered (JStr m) \<and> m \<notin> set keys) (map fst getAvailableModuleProcessors)"

definition buildModuleCommandProcessorMap :: "ext \<Rightarrow> unit iact" where
  "buildModuleCommandProcessorMap X =
     bnd (requestConnector X ''getSystemMetadata'' JUndef) (\<lambda>systemMetadata.
     bnd (propA systemMetadata ''modules'') (\<lambda>mv. bnd (elemsA mv) (\<lambda>modules.
     bnd (mapA (\<lambda>m. propA m ''name'') modules) (\<lambda>registeredModules.
     modA (\<lambda>w. w\<lparr>processorModules := register_modules registeredModules (processorModules w)\<rparr>)))))"

definition ensure_processors :: "ext \<Rightarrow> unit iact" where
  "ensure_processors X =
     bnd (getA processorModules) (\<lambda>keys.
     if keys = [] then buildModuleCommandProcessorMap X else ret ())"

definition no_module :: "jsval \<Rightarrow> jserr" where
  "no_module m = Err (''No processors implemented for transactions related to module: '' @ js_string m)"

definition no_hook :: "string \<Rightarrow> jsval \<Rightarrow> jsval \<Rightarrow> jserr" where
  "no_hook hook m c = Err (''No '' @ hook @ '' hook implemented for transactions with module: ''
     @ js_string m @ '' and command: '' @ js_string c)"

definition has_module :: "jsval \<Rightarrow> string list \<Rightarrow> bool" where
  "has_module m keys = (case m of JStr s \<Rightarrow> s \<in> set keys | _ \<Rightarrow> False)"

definition applyTransaction :: handler where
  "applyTransaction X blockHeader tx events =
     thn (ensure_processors X) (
     bnd (propA tx ''module'') (\<lambda>m.
     bnd (getA processorModules) (\<lambda>keys.
     if \<not> has_module m keys then throw (no_module m)
     else bnd (propA tx ''command'') (\<lambda>c.
       case find_processor (js_string m) (js_string c) of
         None \<Rightarrow> throw (no_hook ''applyTransaction'' m c)
       | Some (ap, rv) \<Rightarrow> ap X blockHeader tx events))))"

definition revertTransaction :: handler where
  "revertTransaction X blockHeader tx events =
     thn (ensure_processors X) (
     bnd (propA tx ''module'') (\<lambda>m.
     bnd (getA processorModules) (\<lambda>keys.
     if \<not> has_module m keys then throw (no_module m)
     else bnd (propA tx ''command'') (\<lambda>c.
       case find_processor (js_string m) (js_string c) of
         None \<Rightarrow> throw (no_hook ''revertTransaction'' m c)
       | Some (ap, rv) \<Rightarrow> rv X blockHeader tx events))))"

subsection \<open>The contract of a processor\<close>

text \<open>
  Whatever a processor does, returning or throwing, the committed tables other than
  \<open>accounts\<close> stay as they are, and the block's transaction stays open.
\<close>

locale tx_processor =
  fixes process :: handler
  assumes confined_process:
    "sql_engine jc (kx X) \<Longrightarrow> keeps (within {''accounts''}) (process X h tx evs)"
begin

lemma process_committed:
  assumes "sql_engine jc (kx X)" and "process X h tx evs w = (r, w')" and "t \<noteq> ''accounts''"
  shows "committed w' t = committed w t"
  using keepsD [OF confined_process [OF assms(1)] assms(2)] assms(3) by (auto simp: within_def)

lemma process_trx:
  assumes "sql_engine jc (kx X)" and "process X h tx evs w = (r, w')"
  shows "trx w' = None \<longleftrightarrow> trx w = None"
  using keepsD [OF confined_process [OF assms(1)] assms(2)] by (auto simp: within_def)

text \<open>A sequence of transactions through the same processor obeys the contract too.\<close>

lemma confined_process_all:
  "sql_engine jc (kx X) \<Longrightarrow> keeps (within {''accounts''}) (forA (\<lambda>tx. process X h tx evs) txs)"
  by (intro confined confined_process)

end

lemmas processor_defs =
  audio_processors_def auth_processors_def collection_processors_def interoperability_processors_def
  legacy_processors_def pos_processors_def profile_processors_def subscription_processors_def
  token_processors_def

lemmas handlers_confined =
  audio_confined [THEN within_mono [rotated]] music_confined [THEN within_mono [rotated]]
  pos_confined [THEN within_mono [rotated]]

definition confined_handler :: "(jsval \<Rightarrow> jsval list \<Rightarrow> bool) \<Rightarrow> handler \<Rightarrow> bool" where
  "confined_handler jc p \<longleftrightarrow>
     (\<forall>X h tx evs. sql_engine jc (kx X) \<longrightarrow> keeps (within {''accounts''}) (p X h tx evs))"

lemma music_processors_confined:
  "list_all (\<lambda>(c, a, r). confined_handler jc a \<and> confined_handler jc r)
     (audio_processors @ collection_processors @ profile_processors @ subscription_processors)"
  by (simp add: processor_defs confined_handler_def handlers_confined)

lemma base_processors_confined:
  "list_all (\<lambda>(c, a, r). confined_handler jc a \<and> confined_handler jc r)
     (interoperability_processors @ legacy_processors @ pos_processors @ token_processors)"
  using misbehavior_confined by (simp add: processor_defs confined_handler_def handlers_confined)

lemma auth_processors_confined:
  "list_all (\<lambda>(c, a, r). confined_handler jc a \<and> confined_handler jc r) auth_processors"
  using multisignature_confined by (simp add: processor_defs confined_handler_def)

lemma find_processor_confined:
  assumes "find_processor m c = Some (a, r)"
  shows "confined_handler jc a" "confined_handler jc r"
proof -
  from assms obtain cmds where cmds: "(m, cmds) \<in> set getAvailableModuleProcessors"
    and c: "(c, a, r) \<in> set cmds"
    by (auto simp: find_processor_def split: option.splits dest: map_of_SomeD)
  from cmds have "cmds \<in> {audio_processors, auth_processors, collection_processors,
      interoperability_processors, legacy_processors, pos_processors, profile_processors,
      subscription_processors, token_processors}"
    by (auto simp: getAvailableModuleProcessors_def)
  with c have "(c, a, r) \<in> set ((audio_processors @ collection_processors @ profile_processors @ subscription_processors)
      @ (interoperability_processors @ legacy_processors @ pos_processors @ token_processors) @ auth_processors)"
    (is "_ \<in> set ?all") by auto
  moreover have "list_all (\<lambda>(c, a, r). confined_handler jc a \<and> confined_handler jc r) ?all"
    using music_processors_confined base_processors_confined auth_processors_confined
    by (simp only: list_all_append)
  ultimately have "confined_handler jc a \<and> confined_handler jc r"
    unfolding list_all_iff by (metis (no_types, lifting) case_prod_conv)
  then show "confined_handler jc a" "confined_handler jc r" by simp_all
qed

lemma within_ensure_processors [confined]: "keeps (within T) (ensure_processors X)"
  unfolding ensure_processors_def buildModuleCommandProcessorMap_def
  by (intro confined within_modA) simp

lemma dispatch_confined:
  assumes "sql_engine jc (kx X)"
  shows "keeps (within {''accounts''}) (applyTransaction X h tx evs)"
    and "keeps (within {''accounts''}) (revertTransaction X h tx evs)"
proof -
  have "keeps (within {''accounts''}) (case find_processor m c of None \<Rightarrow> throw e | Some (a, r) \<Rightarrow> a X h tx evs)"
    and "keeps (within {''accounts''}) (case find_processor m c of None \<Rightarrow> throw e | Some (a, r) \<Rightarrow> r X h tx evs)"
    for m c e
    using find_processor_confined [of m c _ _ jc] assms
    by (auto simp: confined_handler_def split: option.splits prod.splits)
  then show "keeps (within {''accounts''}) (applyTransaction X h tx evs)"
    and "keeps (within {''accounts''}) (revertTransaction X h tx evs)"
    unfolding applyTransaction_def revertTransaction_def by (intro confined; simp)+
qed

interpretation apply_tx: tx_processor applyTransaction
  by unfold_locales (rule dispatch_confined)

interpretation revert_tx: tx_processor revertTransaction
  by unfold_locales (rule dispatch_confined)

end
