(* ===== verification/BlockData.thy ===== *)
theory BlockData
  imports TxProcessor
begin

text \<open>
  The data services the indexer and the API read through:
  \<open>shared/dataService/business/events.js\<close> (events of a block and their cache),
  \<open>business/blocks.js\<close> and \<open>dataService/blocks.js\<close> (blocks),
  \<open>business/transactions.js\<close>, \<open>business/pendingTransactions.js\<close> and
  \<open>dataService/transactions.js\<close> (transactions), and the validator helpers of
  \<open>utils/validator.js\<close>. Caches keep what is set until it is deleted; a JSON string in a
  cache is represented by the value it parses to.
\<close>

subsection \<open>Events of a block\<close>

definition getEventsByHeightFromNode :: "ext \<Rightarrow> jsval \<Rightarrow> jsval iact" where
  "getEventsByHeightFromNode X height =
     bnd (requestConnector X ''getEventsByHeight'' (JObj [(''height'', height)])) (\<lambda>events.
     ret (parseToJSONCompatObj events))"

text \<open>
  The configuration has \<open>config.db.isPersistEvents\<close> and no \<open>config.isPersistEvents\<close>, the
  name this function tests: its database branch is never taken.
\<close>

definition getEventsByHeight :: "ext \<Rightarrow> jsval \<Rightarrow> jsval iact" where
  "getEventsByHeight X height =
     bnd (getA event_cache) (\<lambda>cache.
     case map_of cache (js_string height) of
       Some cached \<Rightarrow> ret cached
     | None \<Rightarrow>
         bnd (getEventsByHeightFromNode X height) (\<lambda>events.
         bnd (liftE (json_copy events)) (\<lambda>copy.
         thn (modA (\<lambda>w. w\<lparr>event_cache :=
                (if copy = JUndef then event_cache w
                 else AList.update (js_string height) copy (event_cache w))\<rparr>)) (
         ret events))))"

definition deleteEventsFromCache :: "jsval \<Rightarrow> unit iact" where
  "deleteEventsFromCache height =
     modA (\<lambda>w. w\<lparr>event_cache := AList.delete (js_string height) (event_cache w)\<rparr>)"

subsection \<open>utils/validator.js\<close>

definition q96A :: "ext \<Rightarrow> jsval \<Rightarrow> int iact" where
  "q96A X v = liftE (q96 (qlib X) v)"

definition calcCommission :: "ext \<Rightarrow> jsval \<Rightarrow> int \<Rightarrow> int iact" where
  "calcCommission X generatorAddress reward =
     bnd (table_find (kx X) commissionsTableSchema
            [(''address'', generatorAddress), (''sort'', JStr ''height:desc''), (''limit'', JNum 1)]
            (Some [''commission''])) (\<lambda>rows.
     let currentCommission = oget (own_props (js_default (js_first rows) (JObj []))) ''commission'' in
     bnd (q96A X (JBig reward)) (\<lambda>rewardQ.
     bnd (liftE (js_bigint (js_or currentCommission (JNum 0)))) (\<lambda>cur.
     bnd (q96A X (JBig cur)) (\<lambda>currentCommissionQ.
     bnd (q96A X (JBig MAX_COMMISSION)) (\<lambda>maxCommissionQ.
     bnd (liftE (q_div (qlib X) (q_mul (qlib X) rewardQ currentCommissionQ) maxCommissionQ)) (\<lambda>c.
     ret (q_floor (qlib X) c)))))))"

text \<open>
  \<open>rows.reduce((a, b) => BigInt(a.amount) + BigInt(b.amount))\<close> without an initial value:
  an empty array throws, a single row is returned as it is, and from the third row on the
  accumulator is a big integer that has no property \<open>amount\<close>.
\<close>

definition add_amounts :: "jsval \<Rightarrow> jsval \<Rightarrow> jserr + jsval" where
  "add_amounts a b =
     bindE (js_prop a ''amount'') (\<lambda>va. bindE (js_bigint va) (\<lambda>x.
     bindE (js_prop b ''amount'') (\<lambda>vb. bindE (js_bigint vb) (\<lambda>y. Inr (JBig (x + y))))))"

fun reduce_from :: "jsval \<Rightarrow> jsval list \<Rightarrow> jserr + jsval" where
  "reduce_from acc [] = Inr acc"
| "reduce_from acc (x # xs) = bindE (add_amounts acc x) (\<lambda>a. reduce_from a xs)"

fun sum_amounts :: "jsval list \<Rightarrow> jserr + jsval" where
  "sum_amounts [] = Inl (TypeErr ''Reduce of empty array with no initial value'')"
| "sum_amounts (x # xs) = reduce_from x xs"

definition calcSelfStakeReward :: "ext \<Rightarrow> jsval \<Rightarrow> int \<Rightarrow> int \<Rightarrow> int iact" where
  "calcSelfStakeReward X generatorAddress reward commission =
     bnd (q96A X (JBig 0)) (\<lambda>zero.
     bnd (table_find (kx X) stakesTableSchema [(''validatorAddress'', generatorAddress)]
            (Some [''stakerAddress'', ''amount''])) (\<lambda>stakerInfo.
     if stakerInfo \<noteq> [] then
       bnd (liftE (sum_amounts (filter (\<lambda>r. strict_eq (oget (own_props r) ''stakerAddress'') generatorAddress)
              stakerInfo))) (\<lambda>selfStakes.
       bnd (liftE (sum_amounts stakerInfo)) (\<lambda>totalStakes.
       bnd (q96A X (JBig reward)) (\<lambda>rewardQ.
       bnd (q96A X (JBig commission)) (\<lambda>commissionQ.
       bnd (q96A X selfStakes) (\<lambda>selfStakesQ.
       bnd (q96A X totalStakes) (\<lambda>totalStakesQ.
       bnd (q96A X (JBig MAX_COMMISSION)) (\<lambda>maxCommissionQ.
       bnd (liftE (q96_of_q (qlib X) (q_sub (qlib X) maxCommissionQ commissionQ))) (\<lambda>remCommissionQ.
       let rewardFractionQ = q_mul (qlib X) rewardQ remCommissionQ in
       bnd (liftE (q_div (qlib X) (q_mul (qlib X) rewardFractionQ selfStakesQ)
              (q_mul (qlib X) totalStakesQ maxCommissionQ))) (\<lambda>r.
       ret (q_floor (qlib X) r))))))))))
     else ret (q_floor (qlib X) zero)))"

subsection \<open>Blocks\<close>

text \<open>\<open>events.find(e => [REWARD, DYNAMIC_REWARD].includes(e.module) && e.name === REWARD_MINTED)\<close>.\<close>

fun find_reward_event :: "jsval list \<Rightarrow> jserr + jsval" where
  "find_reward_event [] = Inr JUndef"
| "find_reward_event (e # es) =
     bindE (js_prop e ''module'') (\<lambda>m. bindE (js_prop e ''name'') (\<lambda>n.
     if m \<in> {JStr ''reward'', JStr ''dynamicReward''} \<and> n = JStr ''rewardMinted'' then Inr e
     else find_reward_event es))"

definition block_generator :: "ext \<Rightarrow> jsval \<Rightarrow> jsval iact" where
  "block_generator X address =
     bnd (getIndexedAccountInfo X [(''address'', address), (''limit'', JNum 1)]
            (Some [''publicKey'', ''name''])) (\<lambda>info.
     let name = oget (own_props info) ''name'' in
     bnd (if truthy name then ret name else getNameByAddress X address) (\<lambda>nm.
     ret (JObj [(''address'', address), (''publicKey'', oget (own_props info) ''publicKey''), (''name'', nm)])))"

definition block_events_info :: "ext \<Rightarrow> jsval \<Rightarrow> (jsval \<times> jsval) iact" where
  "block_events_info X height =
     bnd (table_find (kx X) blocksTableSchema [(''height'', height)]
            (Some [''numberOfEvents'', ''reward''])) (\<lambda>rows.
     case rows of
       r # _ \<Rightarrow> ret (oget (own_props r) ''numberOfEvents'', oget (own_props r) ''reward'')
     | [] \<Rightarrow>
         bnd (getEventsByHeight X height) (\<lambda>ev. bnd (elemsA ev) (\<lambda>events.
         bnd (liftE (find_reward_event events)) (\<lambda>rewardEvent.
         if truthy rewardEvent
         then bnd (pathA rewardEvent [''data'', ''amount'']) (\<lambda>amount.
              ret (JNum (int (length events)), amount))
         else ret (JNum (int (length events)), JNull)))))"

text \<open>The running totals over the transactions: size, forged, burnt and network fee.\<close>

fun block_totals :: "jsval list \<Rightarrow> jsval \<Rightarrow> int \<Rightarrow> int \<Rightarrow> int \<Rightarrow> jserr + (jsval list \<times> jsval \<times> int \<times> int \<times> int)" where
  "block_totals [] sz forged burnt fee = Inr ([], sz, forged, burnt, fee)"
| "block_totals (tx # txs) sz forged burnt fee =
     bindE (normalizeTransaction tx) (\<lambda>txn.
     bindE (js_prop txn ''size'') (\<lambda>s. bindE (js_add sz s) (\<lambda>sz'.
     bindE (js_prop txn ''fee'') (\<lambda>fv. bindE (js_bigint fv) (\<lambda>f.
     bindE (js_prop txn ''minFee'') (\<lambda>mv. bindE (js_bigint mv) (\<lambda>mf.
     bindE (block_totals txs sz' (forged + f) (burnt + mf) (fee + (f - mf))) (\<lambda>(txns, r).
     Inr (txn # txns, r)))))))))"

definition normalize_block_body :: "ext \<Rightarrow> jsval \<Rightarrow> jsval iact" where
  "normalize_block_body X originalBlock =
     bnd (propA originalBlock ''header'') (\<lambda>header.
     bnd (propA originalBlock ''transactions'') (\<lambda>txv.
     bnd (propA originalBlock ''assets'') (\<lambda>assets.
     let b0 = oset (oset (own_props header) ''transactions'' txv) ''assets'' assets;
         generatorAddress = oget b0 ''generatorAddress'' in
     bnd (if truthy generatorAddress
          then bnd (block_generator X generatorAddress) (\<lambda>g. ret (oset b0 ''generator'' g))
          else ret b0) (\<lambda>b1.
     bnd (getFinalizedHeight X) (\<lambda>fh.
     let height = oget b1 ''height'' in
     bnd (propA txv ''length'') (\<lambda>ntx. bnd (propA assets ''length'') (\<lambda>nassets.
     let b2 = oset (oset (oset b1 ''isFinal'' (JBool (js_le height fh)))
                ''numberOfTransactions'' ntx) ''numberOfAssets'' nassets in
     bnd (block_events_info X height) (\<lambda>(numberOfEvents, reward).
     bnd (liftE (js_bigint (js_or reward (JStr ''0'')))) (\<lambda>rw.
     bnd (elemsA txv) (\<lambda>txs.
     bnd (liftE (block_totals txs (JNum 0) rw 0 0)) (\<lambda>(txns, sz, forged, burnt, fee).
     let b3 = oset (oset (oset b2 ''numberOfEvents'' numberOfEvents) ''size'' sz) ''reward'' reward;
         b4 = oset (oset (oset b3 ''totalForged'' (JBig forged)) ''totalBurnt'' (JBig burnt))
                ''networkFee'' (JBig fee) in
     ret (parseToJSONCompatObj (JObj (oset b4 ''transactions'' (JArr txns)))))))))))))))"

text \<open>The log line of the handler reads \<open>originalBlock.header.height\<close> before the error goes on.\<close>

definition normalizeBlock :: "ext \<Rightarrow> jsval \<Rightarrow> jsval iact" where
  "normalizeBlock X originalBlock =
     tryA (normalize_block_body X originalBlock)
       (\<lambda>e. bnd (pathA originalBlock [''header'', ''height'']) (\<lambda>_. throw e))"

definition normalizeBlocks :: "ext \<Rightarrow> jsval \<Rightarrow> jsval list iact" where
  "normalizeBlocks X blocks = bnd (elemsA blocks) (\<lambda>bs. mapA (normalizeBlock X) bs)"

definition getBlockByHeight :: "ext \<Rightarrow> jsval \<Rightarrow> jsval iact" where
  "getBlockByHeight X height =
     bnd (requestConnector X ''getBlockByHeight'' (JObj [(''height'', height)])) (normalizeBlock X)"

definition getBlockByID :: "ext \<Rightarrow> jsval \<Rightarrow> jsval iact" where
  "getBlockByID X bid =
     bnd (requestConnector X ''getBlockByID'' (JObj [(''id'', bid)])) (normalizeBlock X)"

definition getBlocksByIDs :: "ext \<Rightarrow> jsval \<Rightarrow> jsval list iact" where
  "getBlocksByIDs X ids =
     bnd (requestConnector X ''getBlocksByIDs'' (JObj [(''ids'', ids)])) (normalizeBlocks X)"

definition getLastBlock :: "ext \<Rightarrow> jsval iact" where
  "getLastBlock X =
     bnd (requestConnector X ''getLastBlock'' JUndef) (\<lambda>response.
     bnd (normalizeBlock X response) (\<lambda>b.
     thn (modA (\<lambda>w. w\<lparr>latestBlock := b\<rparr>)) (
     thn (if truthy b \<and> truthy (oget (own_props b) ''id'')
          then bnd (liftE (json_stringify b)) (\<lambda>_. ret ()) else ret ()) (
     ret b))))"

definition isQueryFromIndex :: "obj \<Rightarrow> jserr + bool" where
  "isQueryFromIndex params =
     (let paramProps = map fst params;
          direct = [''id'', ''height'', ''heightBetween''];
          isDirectQuery = (length (filter (\<lambda>p. p \<in> set direct) paramProps) = 1
            \<and> list_all (\<lambda>p. p \<in> set (direct @ [''limit'', ''offset'', ''sort''])) paramProps);
          limit1 = (oget params ''limit'' = JNum 1); offset0 = (oget params ''offset'' = JNum 0) in
     bindE (if truthy (oget params ''sort'')
            then bindE (as_str (oget params ''sort'')) (\<lambda>s. Inr (at_str (js_split '':'' s) 1 = Some ''desc''))
            else Inr False) (\<lambda>desc.
     let isLatestBlockFetch = (length paramProps = 1 \<and> limit1)
           \<or> (length paramProps = 2 \<and> ((limit1 \<and> offset0) \<or> (desc \<and> (limit1 \<or> offset0))))
           \<or> (length paramProps = 3 \<and> limit1 \<and> offset0 \<and> desc) in
     Inr (\<not> isDirectQuery \<and> \<not> isLatestBlockFetch)))"

text \<open>\<open>if ('offset' in params && params.limit) data.slice(offset, offset + limit)\<close>.\<close>

definition page_of :: "obj \<Rightarrow> jsval list \<Rightarrow> jserr + jsval list" where
  "page_of params data =
     (if ohas params ''offset'' \<and> truthy (oget params ''limit'')
      then slice_page data (oget params ''offset'') (oget params ''limit'')
      else Inr data)"

text \<open>\<open>params.blockID\<close> renamed to \<open>id\<close>, and the ranges \<open>a:b\<close> of height and timestamp resolved.\<close>

definition rename_blockID :: "obj \<Rightarrow> obj" where
  "rename_blockID params =
     (if truthy (oget params ''blockID'')
      then oset (omit [''blockID''] params) ''id'' (oget params ''blockID'') else params)"

definition resolve_height_range :: "obj \<Rightarrow> jserr + obj" where
  "resolve_height_range params =
     (case oget params ''height'' of
        JStr s \<Rightarrow> if s \<noteq> [] \<and> str_includes '':'' s
                  then bindE (normalizeRangeParam (JObj params) ''height'') (\<lambda>v. Inr (own_props v))
                  else Inr params
      | _ \<Rightarrow> Inr params)"

definition resolve_timestamp_range :: "obj \<Rightarrow> jserr + obj" where
  "resolve_timestamp_range params =
     (if truthy (oget params ''timestamp'')
      then bindE (as_str (oget params ''timestamp'')) (\<lambda>s.
        if str_includes '':'' s
        then bindE (normalizeRangeParam (JObj params) ''timestamp'') (\<lambda>v. Inr (own_props v))
        else Inr params)
      else Inr params)"

definition resolve_ranges :: "obj \<Rightarrow> jserr + obj" where
  "resolve_ranges params = bindE (resolve_height_range params) resolve_timestamp_range"

definition response :: "jsval list \<Rightarrow> jsval \<Rightarrow> jsval \<Rightarrow> jsval" where
  "response data offset count_total = JObj [(''data'', JArr data),
     (''meta'', JObj [(''count'', JNum (int (length data))), (''offset'', offset), (''total'', count_total)])]"

definition empty_response :: jsval where
  "empty_response = JObj [(''data'', JArr []), (''meta'', JObj [])]"

definition fetch_blocks :: "ext \<Rightarrow> obj \<Rightarrow> jsval list iact" where
  "fetch_blocks X params =
     (if truthy (oget params ''ids'') then getBlocksByIDs X (oget params ''ids'')
      else if truthy (oget params ''id'')
      then bnd (getBlockByID X (oget params ''id'')) (\<lambda>b. liftE (page_of params [b]))
      else if truthy (oget params ''height'')
      then bnd (getBlockByHeight X (js_number (oget params ''height''))) (\<lambda>b. liftE (page_of params [b]))
      else bnd (getLastBlock X) (\<lambda>b. ret [b]))"

definition business_getBlocks :: "ext \<Rightarrow> obj \<Rightarrow> jsval iact" where
  "business_getBlocks X params0 =
     bnd (liftE (resolve_ranges (rename_blockID params0))) (\<lambda>params1.
     bnd (table_count (kx X) blocksTableSchema params1) (\<lambda>count_total.
     bnd (liftE (isQueryFromIndex params1)) (\<lambda>fromIndex.
     bnd (if fromIndex
          then bnd (table_find (kx X) blocksTableSchema params1 (Some [''id''])) (\<lambda>rows.
               ret (oset params1 ''ids'' (JArr (map (\<lambda>r. oget (own_props r) ''id'') rows))))
          else ret params1) (\<lambda>params.
     if oget params ''ids'' = JArr [] then ret empty_response
     else bnd (tryA (fetch_blocks X params)
                 (\<lambda>e. if \<not> str_includes ''does not exist'' (err_message e) then throw e else ret [])) (\<lambda>data.
       ret (response data (oget params ''offset'') (JNum count_total)))))))"

definition filterBlockAssets :: "string list \<Rightarrow> jsval \<Rightarrow> jserr + jsval" where
  "filterBlockAssets modules block =
     bindE (js_prop block ''assets'') (\<lambda>assets.
     if modules \<noteq> [] then
       bindE (js_elems assets) (\<lambda>as. bindE (mapE (\<lambda>a. js_prop a ''module'') as) (\<lambda>ms.
       Inr (JArr (map fst (filter (\<lambda>(a, m). js_string m \<in> set modules) (zip as ms))))))
     else Inr assets)"

definition block_assets_entry :: "ext \<Rightarrow> string list \<Rightarrow> jsval \<Rightarrow> jsval iact" where
  "block_assets_entry X modules row =
     bnd (getBlockByID X (oget (own_props row) ''id'')) (\<lambda>block.
     bnd (propA block ''id'') (\<lambda>bid. bnd (propA block ''height'') (\<lambda>height.
     bnd (propA block ''timestamp'') (\<lambda>timestamp.
     bnd (liftE (filterBlockAssets modules block)) (\<lambda>assets.
     ret (JObj [(''block'', JObj [(''id'', bid), (''height'', height), (''timestamp'', timestamp)]),
                (''assets'', assets)]))))))"

definition business_getBlocksAssets :: "ext \<Rightarrow> obj \<Rightarrow> jsval iact" where
  "business_getBlocksAssets X params0 =
     bnd (liftE (resolve_ranges (rename_blockID params0))) (\<lambda>params1.
     let modules = (if truthy (oget params1 ''module'')
                    then js_split '','' (js_string (oget params1 ''module'')) else []);
         params = (if truthy (oget params1 ''module'')
                   then oset (omit [''module''] params1) ''whereJsonSupersetOf''
                          (JObj [(''property'', JStr ''assetsModules''), (''values'', JArr (map JStr modules))])
                   else params1) in
     bnd (table_count (kx X) blocksTableSchema params) (\<lambda>count_total.
     bnd (table_find (kx X) blocksTableSchema params (Some [''id''])) (\<lambda>rows.
     bnd (mapA (block_assets_entry X modules) rows) (\<lambda>data.
     ret (response data (oget params ''offset'') (JNum count_total))))))"

subsection \<open>dataService/blocks.js\<close>

definition setLastBlock :: "jsval \<Rightarrow> unit iact" where
  "setLastBlock block = bnd (liftE (json_copy block)) (\<lambda>b. modA (\<lambda>w. w\<lparr>lastBlockCache := b\<rparr>))"

definition getCachedLastBlock :: "jsval iact" where
  "getCachedLastBlock = bnd (getA lastBlockCache) (\<lambda>b. ret (if truthy b then b else JObj []))"

definition getTotalNumberOfBlocks :: "ext \<Rightarrow> jsval iact" where
  "getTotalNumberOfBlocks X =
     bnd getCachedLastBlock (\<lambda>b. bnd (propA b ''height'') (\<lambda>h.
     bnd (getGenesisHeight X) (\<lambda>g.
     bnd (liftE (js_sub h g)) (\<lambda>d. liftE (js_add d (JNum 1))))))"

definition getBlocksFromServer :: "ext \<Rightarrow> obj \<Rightarrow> jsval iact" where
  "getBlocksFromServer X params =
     bnd (business_getBlocks X params) (\<lambda>r.
     bnd (elemsA (oget (own_props r) ''data'')) (\<lambda>data.
     thn (forA (\<lambda>b. spawn (setLastBlock b)) data) (ret r)))"

definition parse_offset :: "jsval \<Rightarrow> int" where
  "parse_offset v = (case v of JNum n \<Rightarrow> n | JBig n \<Rightarrow> n | JStr s \<Rightarrow> num_prefix s | _ \<Rightarrow> 0)"

definition includes_colon :: "jsval \<Rightarrow> jserr + bool" where
  "includes_colon v = (if truthy v then bindE (as_str v) (\<lambda>s. Inr (str_includes '':'' s)) else Inr False)"

definition getBlocks :: "ext \<Rightarrow> obj \<Rightarrow> jsval iact" where
  "getBlocks X params =
     bnd (getBlocksFromServer X params) (\<lambda>r.
     bnd (elemsA (oget (own_props r) ''data'')) (\<lambda>data.
     let metaTotal = oget (own_props (oget (own_props r) ''meta'')) ''total'' in
     bnd (if truthy (oget params ''generatorAddress'') then ret (js_or metaTotal JNull)
          else if truthy (oget params ''blockID'') \<or> js_number (oget params ''height'') \<noteq> JNaN
          then ret (JNum (int (length data)))
          else bnd (liftE (includes_colon (oget params ''height''))) (\<lambda>h.
               bnd (if h then ret True else liftE (includes_colon (oget params ''timestamp''))) (\<lambda>t.
               if t then ret metaTotal else getTotalNumberOfBlocks X))) (\<lambda>count_total.
     ret (response data (JNum (parse_offset (oget params ''offset''))) count_total))))"

definition getBlocksAssets :: "ext \<Rightarrow> obj \<Rightarrow> jsval iact" where
  "getBlocksAssets X params = business_getBlocksAssets X params"

definition performLastBlockUpdate :: "jsval \<Rightarrow> unit iact" where
  "performLastBlockUpdate newBlock =
     tryA (bnd (propA newBlock ''height'') (\<lambda>_. setLastBlock newBlock)) (\<lambda>_. ret ())"

end
