(* ===== verification/TxData.thy ===== *)
theory TxData
  imports BlockData
begin

text \<open>
  The transaction services: \<open>shared/dataService/business/transactions.js\<close>,
  \<open>business/pendingTransactions.js\<close> and the merge of pending and indexed transactions in
  \<open>shared/dataService/transactions.js\<close>.
\<close>

subsection \<open>business/transactions.js\<close>

definition getTransactionIDsByBlockID :: "ext \<Rightarrow> jsval \<Rightarrow> jsval list iact" where
  "getTransactionIDsByBlockID X blockID =
     bnd (table_find (kx X) transactionsTableSchema
            [(''whereIn'', JObj [(''property'', JStr ''blockId''), (''values'', JArr [blockID])])]
            (Some [''id''])) (\<lambda>txs.
     ret (map (\<lambda>t. oget (own_props t) ''id'') txs))"

definition normalizeTransactions :: "jsval \<Rightarrow> jserr + jsval list" where
  "normalizeTransactions txs = bindE (js_elems txs) (mapE normalizeTransaction)"

definition getTransactionByID :: "ext \<Rightarrow> jsval \<Rightarrow> jsval iact" where
  "getTransactionByID X tid =
     bnd (requestConnector X ''getTransactionByID'' (JObj [(''id'', tid)])) (\<lambda>r.
     liftE (normalizeTransaction r))"

definition getTransactionsByIDs :: "ext \<Rightarrow> jsval list \<Rightarrow> jsval list iact" where
  "getTransactionsByIDs X ids =
     bnd (requestConnector X ''getTransactionsByIDs'' (JObj [(''ids'', JArr ids)])) (\<lambda>r.
     liftE (normalizeTransactions r))"

definition execution_statuses :: "string \<Rightarrow> jsval list" where
  "execution_statuses s = map JStr (filter (\<lambda>e. e \<noteq> ''any'') (map trim (js_split '','' s)))"

definition resolve_status :: "obj \<Rightarrow> jserr + obj" where
  "resolve_status params =
     (if truthy (oget params ''executionStatus'')
      then bindE (as_str (oget params ''executionStatus'')) (\<lambda>s.
        Inr (oset (omit [''executionStatus''] params) ''whereIn''
              (JObj [(''property'', JStr ''executionStatus''), (''values'', JArr (execution_statuses s))])))
      else Inr params)"

definition resolve_address :: "obj \<Rightarrow> obj" where
  "resolve_address params =
     (if truthy (oget params ''address'')
      then oset (oset (omit [''address''] params)
             ''orWhere'' (JObj [(''recipientAddress'', oget params ''address'')]))
             ''orWhereWith'' (JObj [(''senderAddress'', oget params ''address'')])
      else params)"

definition tx_validateParams :: "obj \<Rightarrow> jserr + obj" where
  "tx_validateParams params0 =
     bindE (resolve_ranges params0) (\<lambda>params.
     if truthy (oget params ''nonce'') \<and> \<not> truthy (oget params ''senderAddress'')
     then Inl (InvalidParamsErr ''Nonce based retrieval is only possible along with senderAddress'')
     else bindE (resolve_status params) (\<lambda>p. Inr (resolve_address p)))"

definition BATCH_SIZE :: nat where "BATCH_SIZE = 25"

text \<open>The ids in batches of 25, in order.\<close>

function batches :: "'a list \<Rightarrow> 'a list list" where
  "batches xs = (if xs = [] then [] else take BATCH_SIZE xs # batches (drop BATCH_SIZE xs))"
  by pat_completeness auto
termination
  by (relation "measure length") (auto simp: BATCH_SIZE_def)

declare batches.simps [simp del]

definition tx_sender :: "ext \<Rightarrow> jsval \<Rightarrow> (jsval \<times> jsval) iact" where
  "tx_sender X transaction =
     bnd (propA transaction ''senderPublicKey'') (\<lambda>pk. bnd (lisk32A X pk) (\<lambda>senderAddress.
     bnd (getIndexedAccountInfo X [(''address'', senderAddress), (''limit'', JNum 1)] (Some [''name''])) (\<lambda>acc.
     ret (senderAddress, JObj [(''address'', senderAddress), (''publicKey'', pk),
            (''name'', oget (own_props acc) ''name'')]))))"

definition tx_recipient :: "ext \<Rightarrow> jsval \<Rightarrow> obj \<Rightarrow> obj iact" where
  "tx_recipient X transaction t =
     bnd (pathA transaction [''params'', ''recipientAddress'']) (\<lambda>recipientAddress.
     if truthy recipientAddress
     then bnd (getIndexedAccountInfo X [(''address'', recipientAddress), (''limit'', JNum 1)]
                 (Some [''publicKey'', ''name''])) (\<lambda>acc.
          ret (oset t ''meta'' (JObj [(''recipient'', JObj [(''address'', recipientAddress),
                 (''publicKey'', oget (own_props acc) ''publicKey''),
                 (''name'', oget (own_props acc) ''name'')])])))
     else ret t)"

definition enrich_transaction :: "ext \<Rightarrow> jsval list \<Rightarrow> jsval \<Rightarrow> jsval iact" where
  "enrich_transaction X resultSet transaction =
     bnd (tx_sender X transaction) (\<lambda>(_, sender).
     bnd (tx_recipient X transaction (oset (own_props transaction) ''sender'' sender)) (\<lambda>t.
     let info = own_props (case List.find (\<lambda>r. strict_eq (oget (own_props r) ''id'') (oget t ''id'')) resultSet of
                             Some r \<Rightarrow> r | None \<Rightarrow> JObj []) in
     bnd (getFinalizedHeight X) (\<lambda>fh.
     let block = JObj [(''id'', oget info ''blockID''), (''height'', oget info ''height''),
           (''timestamp'', oget info ''timestamp''), (''isFinal'', JBool (js_le (oget info ''height'') fh))] in
     ret (JObj (oset (oset (oset t ''block'' block) ''executionStatus'' (oget info ''executionStatus''))
            ''index'' (oget info ''index''))))))"

definition business_getTransactions :: "ext \<Rightarrow> obj \<Rightarrow> jsval iact" where
  "business_getTransactions X params0 =
     bnd (liftE (tx_validateParams params0)) (\<lambda>params.
     bnd (table_count (kx X) transactionsTableSchema params) (\<lambda>cnt.
     bnd (table_find (kx X) transactionsTableSchema
            (oset params ''limit'' (js_or (oget params ''limit'') (JNum cnt)))
            (Some [''id'', ''timestamp'', ''height'', ''blockID'', ''executionStatus'', ''index''])) (\<lambda>resultSet.
     let ids = map (\<lambda>r. oget (own_props r) ''id'') resultSet in
     bnd (if ids \<noteq> []
          then bnd (mapA (getTransactionsByIDs X) (batches ids)) (\<lambda>pages. ret (concat pages))
          else if truthy (oget params ''id'')
          then bnd (getTransactionByID X (oget params ''id'')) (\<lambda>t. liftE (page_of params [t]))
          else ret []) (\<lambda>txs.
     bnd (mapA (enrich_transaction X resultSet) txs) (\<lambda>data.
     ret (JObj [(''data'', JArr data),
            (''meta'', JObj [(''total'', JNum cnt), (''count'', JNum (int (length data))),
                             (''offset'', oget params ''offset'')])]))))))"

definition block_transaction :: "ext \<Rightarrow> jsval \<Rightarrow> jsval \<Rightarrow> jsval iact" where
  "block_transaction X block transaction =
     bnd (tx_sender X transaction) (\<lambda>(_, sender).
     bnd (tx_recipient X transaction (oset (own_props transaction) ''sender'' sender)) (\<lambda>t.
     bnd (propA block ''id'') (\<lambda>bid. bnd (propA block ''height'') (\<lambda>height.
     bnd (propA block ''timestamp'') (\<lambda>timestamp.
     let t1 = oset t ''block'' (JObj [(''id'', bid), (''height'', height), (''timestamp'', timestamp)]) in
     bnd (table_find (kx X) transactionsTableSchema [(''id'', oget t1 ''id''), (''limit'', JNum 1)]
            (Some [''executionStatus''])) (\<lambda>rows.
     let st = oget (own_props (js_default (js_first rows) (JObj []))) ''executionStatus'' in
     if truthy st then ret (JObj (oset t1 ''executionStatus'' st))
     else bnd (getEventsByHeight X height) (\<lambda>ev. bnd (elemsA ev) (\<lambda>events.
          bnd (liftE (getTransactionExecutionStatus (JObj t1) events)) (\<lambda>s.
          ret (JObj (oset t1 ''executionStatus'' s)))))))))))"

definition getTransactionsByBlockID :: "ext \<Rightarrow> jsval \<Rightarrow> jsval iact" where
  "getTransactionsByBlockID X blockID =
     bnd (getBlockByID X blockID) (\<lambda>block.
     bnd (propA block ''transactions'') (\<lambda>tv. bnd (elemsA tv) (\<lambda>txs.
     bnd (mapA (block_transaction X block) txs) (\<lambda>data.
     let n = JNum (int (length data)) in
     ret (JObj [(''data'', JArr data),
                (''meta'', JObj [(''offset'', JNum 0), (''count'', n), (''total'', n)])])))))"

subsection \<open>business/pendingTransactions.js\<close>

definition pending_transaction :: "ext \<Rightarrow> jsval \<Rightarrow> jsval iact" where
  "pending_transaction X transaction =
     bnd (liftE (normalizeTransaction transaction)) (\<lambda>tx.
     bnd (propA tx ''senderPublicKey'') (\<lambda>pk. bnd (lisk32A X pk) (\<lambda>senderAddress.
     bnd (getIndexedAccountInfo X [(''address'', senderAddress)] (Some [''name''])) (\<lambda>acc.
     let t = oset (own_props tx) ''sender'' (JObj [(''address'', senderAddress), (''publicKey'', pk),
               (''name'', js_or (oget (own_props acc) ''name'') JNull)]) in
     bnd (pathA tx [''params'', ''recipientAddress'']) (\<lambda>recipientAddress.
     bnd (if truthy recipientAddress
          then bnd (getIndexedAccountInfo X [(''address'', recipientAddress)] (Some [''publicKey'', ''name''])) (\<lambda>r.
               ret (oset t ''meta'' (JObj [(''recipient'', JObj [(''address'', recipientAddress),
                 (''publicKey'', oget (own_props r) ''publicKey''), (''name'', oget (own_props r) ''name'')])])))
          else ret t) (\<lambda>t'.
     thn (spawn (updateAccountPublicKey X pk)) (
     ret (JObj (oset t' ''executionStatus'' (JStr ''pending''))))))))))"

definition getPendingTransactionsFromCore :: "ext \<Rightarrow> jsval list iact" where
  "getPendingTransactionsFromCore X =
     bnd (requestConnector X ''getTransactionsFromPool'' JUndef) (\<lambda>r. bnd (elemsA r) (\<lambda>txs.
     mapA (pending_transaction X) txs))"

definition loadAllPendingTransactions :: "ext \<Rightarrow> unit iact" where
  "loadAllPendingTransactions X =
     tryA (bnd (getPendingTransactionsFromCore X) (\<lambda>txs. modA (\<lambda>w. w\<lparr>pendingTransactionsList := txs\<rparr>)))
       (\<lambda>_. ret ())"

definition copy_param :: "string \<Rightarrow> obj \<Rightarrow> obj \<Rightarrow> obj" where
  "copy_param k params acc = (if truthy (oget params k) then oset acc k (oget params k) else acc)"

definition pending_validateParams :: "obj \<Rightarrow> jserr + obj" where
  "pending_validateParams params =
     (if truthy (oget params ''nonce'') \<and> \<not> truthy (oget params ''senderAddress'')
      then Inl (ValidationErr ''Nonce based retrieval is only possible along with senderAddress'')
      else let a = oget params ''address'';
               v0 = copy_param ''id'' params [];
               v1 = (if truthy a then oset (oset v0 ''senderAddress'' a) ''recipientAddress'' a else v0) in
        Inr (copy_param ''sort'' params (copy_param ''moduleCommand'' params
              (copy_param ''recipientAddress'' params (copy_param ''senderAddress'' params v1)))))"

text \<open>\<open>(!params.k || value === params.k)\<close>, the value read only when it is compared, and \<open>&&\<close>.\<close>

definition field_matches :: "obj \<Rightarrow> string \<Rightarrow> jserr + jsval \<Rightarrow> jserr + bool" where
  "field_matches params k val =
     (if truthy (oget params k) then bindE val (\<lambda>v. Inr (strict_eq v (oget params k))) else Inr True)"

definition andE :: "jserr + bool \<Rightarrow> jserr + bool \<Rightarrow> jserr + bool" where
  "andE a b = bindE a (\<lambda>x. if x then b else Inr False)"

definition pending_matches :: "obj \<Rightarrow> jsval \<Rightarrow> jserr + bool" where
  "pending_matches params tx =
     andE (field_matches params ''id'' (js_prop tx ''id''))
    (andE (field_matches params ''senderAddress'' (js_path tx [''sender'', ''address'']))
    (andE (field_matches params ''recipientAddress'' (js_path tx [''params'', ''recipientAddress'']))
          (field_matches params ''moduleCommand'' (js_prop tx ''moduleCommand''))))"

text \<open>The comparator's sign: \<open>a\<close> goes strictly before \<open>b\<close>. NaN counts as equal.\<close>

definition sort_key :: "string \<Rightarrow> jsval \<Rightarrow> int" where
  "sort_key k tx = as_int (js_or (oget (own_props tx) k) (JNum 0))"

definition pending_before :: "string list \<Rightarrow> jsval \<Rightarrow> jsval \<Rightarrow> bool" where
  "pending_before parts a b =
     (let k = (case at_str parts 0 of Some x \<Rightarrow> x | None \<Rightarrow> []) in
      if at_str parts 1 = Some ''asc'' then sort_key k a < sort_key k b else sort_key k b < sort_key k a)"

definition getPendingTransactions :: "obj \<Rightarrow> jsval iact" where
  "getPendingTransactions params0 =
     (let offset = as_int (oget params0 ''offset'');
          limit = (if as_int (oget params0 ''limit'') = 0 then 10 else as_int (oget params0 ''limit'')) in
     bnd (liftE (pending_validateParams params0)) (\<lambda>params.
     bnd (getA pendingTransactionsList) (\<lambda>pending.
     if pending \<noteq> [] then
       bnd (liftE (filterE (pending_matches params) pending)) (\<lambda>filtered.
       bnd (liftE (as_str (oget params ''sort''))) (\<lambda>srt.
       let data = map (\<lambda>t. JObj (oset (own_props t) ''executionStatus'' (JStr ''pending'')))
             (js_slice (sort_by (pending_before (js_split '':'' srt)) filtered) offset (offset + limit)) in
       ret (response data (JNum offset) (JNum (int (length filtered))))))
     else ret (JObj [(''data'', JArr []), (''meta'', JObj [(''total'', JNum 0)])]))))"

subsection \<open>dataService/transactions.js\<close>

definition isIncludePendingTransactions :: "jsval \<Rightarrow> jserr + bool" where
  "isIncludePendingTransactions executionStatus =
     (if \<not> truthy executionStatus then Inr False
      else bindE (as_str executionStatus) (\<lambda>s. Inr (''pending'' \<in> set (js_split '','' s))))"

definition data_of :: "jsval \<Rightarrow> jsval list" where
  "data_of r = (case oget (own_props r) ''data'' of JArr xs \<Rightarrow> xs | _ \<Rightarrow> [])"

definition total_of :: "jsval \<Rightarrow> int" where
  "total_of r = as_int (oget (own_props (oget (own_props r) ''meta'')) ''total'')"

definition mergeTransactions :: "ext \<Rightarrow> obj \<Rightarrow> jsval iact" where
  "mergeTransactions X params0 =
     bnd (getPendingTransactions params0) (\<lambda>pendingTxs.
     let offset = as_int (oget params0 ''offset''); limit = as_int (oget params0 ''limit'');
         numTotalPendingTx = total_of pendingTxs;
         pdata = data_of pendingTxs;
         params = oset (oset params0 ''limit'' (JNum (max 1 (limit - (numTotalPendingTx - int (length pdata))))))
                    ''offset'' (JNum (max 0 (offset - numTotalPendingTx))) in
     bnd (tryA (business_getTransactions X params)
            (\<lambda>e. if pdata = [] then throw e else ret empty_response)) (\<lambda>transactions.
     let data = (if int (length pdata) = limit then pdata
                 else js_slice (pdata @ data_of transactions) 0 limit) in
     ret (JObj [(''data'', JArr data),
            (''meta'', JObj [(''count'', JNum (int (length data))), (''offset'', oget params0 ''offset''),
               (''total'', JNum (numTotalPendingTx + total_of transactions))])])))"

definition getTransactions :: "ext \<Rightarrow> obj \<Rightarrow> jsval iact" where
  "getTransactions X params =
     bnd (liftE (isIncludePendingTransactions (oget params ''executionStatus''))) (\<lambda>incl.
     if incl then mergeTransactions X params else business_getTransactions X params)"

subsection \<open>Confinement\<close>

lemma within_getEventsByHeight [confined]: "keeps (within T) (getEventsByHeight X h)"
proof -
  have "keeps (within T) (bnd (getEventsByHeightFromNode X h) (\<lambda>events.
         bnd (liftE (json_copy events)) (\<lambda>copy.
         thn (modA (\<lambda>w. w\<lparr>event_cache :=
                (if copy = JUndef then event_cache w
                 else AList.update (js_string h) copy (event_cache w))\<rparr>)) (ret events))))"
    unfolding getEventsByHeightFromNode_def by (intro confined within_modA) simp
  then show ?thesis
    unfolding getEventsByHeight_def
    by (intro confined) (auto simp del: run_ret split: option.splits intro!: confined)
qed

lemma within_deleteEventsFromCache [confined]: "keeps (within T) (deleteEventsFromCache h)"
  unfolding deleteEventsFromCache_def by (intro within_modA) simp

lemma within_q96A [confined]: "keeps (within T) (q96A X v)"
  unfolding q96A_def by (intro confined)

lemma within_calcCommission [confined]: "keeps (within T) (calcCommission X g r)"
  unfolding calcCommission_def Let_def by (intro confined)

lemma within_calcSelfStakeReward [confined]: "keeps (within T) (calcSelfStakeReward X g r c)"
  unfolding calcSelfStakeReward_def Let_def by (intro confined)

text \<open>Reading a block may write the generator's name to the accounts table, and nothing else.\<close>

lemma within_block_events_info [confined]: "keeps (within T) (block_events_info X h)"
  unfolding block_events_info_def
  by (intro confined) (auto simp del: run_ret split: list.splits intro!: confined)

lemma within_normalizeBlock:
  "sql_engine jc (kx X) \<Longrightarrow> keeps (within {''accounts''}) (normalizeBlock X b)"
  unfolding normalizeBlock_def normalize_block_body_def block_generator_def Let_def
  by (intro confined within_getNameByAddress)

lemma within_getBlockByHeight:
  "sql_engine jc (kx X) \<Longrightarrow> keeps (within {''accounts''}) (getBlockByHeight X h)"
  unfolding getBlockByHeight_def by (intro confined within_normalizeBlock)

lemma within_getBlockByID:
  "sql_engine jc (kx X) \<Longrightarrow> keeps (within {''accounts''}) (getBlockByID X h)"
  unfolding getBlockByID_def by (intro confined within_normalizeBlock)

lemma within_enrich_transaction [confined]: "keeps (within T) (enrich_transaction X rs t)"
  unfolding enrich_transaction_def tx_sender_def tx_recipient_def Let_def by (intro confined)

lemma within_business_getTransactions [confined]: "keeps (within T) (business_getTransactions X p)"
  unfolding business_getTransactions_def getTransactionsByIDs_def getTransactionByID_def Let_def
  by (intro confined)

lemma within_getTransactions [confined]: "keeps (within T) (getTransactions X p)"
  unfolding getTransactions_def mergeTransactions_def getPendingTransactions_def Let_def
  by (intro confined)

lemma within_getTransactionIDsByBlockID [confined]: "keeps (within T) (getTransactionIDsByBlockID X b)"
  unfolding getTransactionIDsByBlockID_def by (intro confined)

end
