(* ===== verification/BlockIndex.thy ===== *)
theory BlockIndex
  imports TxData
begin

text \<open>
  The block indexer: \<open>shared/indexer/blockchainIndex.js\<close>, \<open>shared/indexer/genesisBlock.js\<close>,
  \<open>shared/utils/blockchainIndex.js\<close> and the clean-up of \<open>shared/utils/events.js\<close>. A job
  handler takes the data of its job. Adding a job appends it, as the JSON copy the queue
  keeps of it, to the list \<open>jobs\<close> of the state.
\<close>

subsection \<open>Totals of locked amounts\<close>

definition updateTotalLockedAmounts :: "ext \<Rightarrow> (string \<times> int) list \<Rightarrow> unit iact" where
  "updateTotalLockedAmounts X changes =
     forA (\<lambda>(tokenID, change).
       let tokenKey = TOTAL_LOCKED @ tokenID in
       bnd (stored_total X tokenKey) (\<lambda>cur. kv_set X tokenKey (JBig (cur + change)) True)) changes"

definition add_change :: "string \<Rightarrow> int \<Rightarrow> (string \<times> int) list \<Rightarrow> (string \<times> int) list" where
  "add_change k x m = AList.update k ((case map_of m k of None \<Rightarrow> 0 | Some c \<Rightarrow> c) + x) m"

text \<open>
  The change of each token over the events of a block: \<open>lock\<close> events count with the sign
  \<open>s\<close>, \<open>unlock\<close> events with the opposite one. Indexing uses \<open>s = 1\<close>, deleting \<open>s = -1\<close>.
\<close>

fun locked_changes :: "int \<Rightarrow> jsval list \<Rightarrow> (string \<times> int) list \<Rightarrow> jserr + (string \<times> int) list" where
  "locked_changes s [] m = Inr m"
| "locked_changes s (e # es) m =
     bindE (js_prop e ''data'') (\<lambda>d. bindE (js_prop e ''name'') (\<lambda>n.
     if n = JStr ''lock'' \<or> n = JStr ''unlock'' then
       bindE (js_prop d ''tokenID'') (\<lambda>t. bindE (js_prop d ''amount'') (\<lambda>a. bindE (js_bigint a) (\<lambda>x.
       locked_changes s es (add_change (js_string t) (if n = JStr ''lock'' then s * x else - s * x) m))))
     else locked_changes s es m))"

subsection \<open>genesisBlock.js\<close>

definition request_assets :: "ext \<Rightarrow> string \<Rightarrow> string \<Rightarrow> jsval \<Rightarrow> jsval iact" where
  "request_assets X md subStore n =
     liftE (requestAll (connector X ''getGenesisAssetByModule'')
              [(''module'', JStr md), (''subStore'', JStr subStore)] n)"

fun locked_of_user :: "string \<Rightarrow> jsval list \<Rightarrow> (string \<times> int) list \<Rightarrow> jserr + (string \<times> int) list" where
  "locked_of_user tokenID [] m = Inr m"
| "locked_of_user tokenID (b # bs) m =
     bindE (js_prop b ''amount'') (\<lambda>a. bindE (js_bigint a) (\<lambda>x.
     locked_of_user tokenID bs (add_change tokenID x m)))"

fun locked_of_users :: "jsval list \<Rightarrow> (string \<times> int) list \<Rightarrow> jserr + (string \<times> int) list" where
  "locked_of_users [] m = Inr m"
| "locked_of_users (u # us) m =
     bindE (js_prop u ''tokenID'') (\<lambda>t. bindE (js_prop u ''lockedBalances'') (\<lambda>lv.
     bindE (js_iter lv) (\<lambda>bs. bindE (locked_of_user (js_string t) bs m) (\<lambda>m'.
     locked_of_users us m'))))"

definition indexTokenModuleAssets :: "ext \<Rightarrow> unit iact" where
  "indexTokenModuleAssets X =
     bnd (requestConnector X ''getGenesisAssetsLength''
            (JObj [(''module'', JStr ''token''), (''subStore'', JStr ''userSubstore'')])) (\<lambda>lens.
     bnd (pathA lens [''token'', ''userSubstore'']) (\<lambda>totalUsers.
     bnd (request_assets X ''token'' ''userSubstore'' totalUsers) (\<lambda>tokenModuleData.
     bnd (propA tokenModuleData ''userSubstore'') (\<lambda>uv.
     bnd (liftE (js_iter uv)) (\<lambda>users.
     bnd (liftE (locked_of_users users [])) (\<lambda>changes.
     updateTotalLockedAmounts X changes))))))"

fun stakes_of_staker :: "jsval \<Rightarrow> jsval list \<Rightarrow> int \<Rightarrow> int \<Rightarrow> jserr + int \<times> int" where
  "stakes_of_staker address [] tot self = Inr (tot, self)"
| "stakes_of_staker address (st # sts) tot self =
     bindE (js_prop st ''amount'') (\<lambda>a. bindE (js_bigint a) (\<lambda>x.
     bindE (js_prop st ''validatorAddress'') (\<lambda>va.
     stakes_of_staker address sts (tot + x) (if strict_eq address va then self + x else self))))"

fun stakes_of_stakers :: "jsval list \<Rightarrow> int \<Rightarrow> int \<Rightarrow> jserr + int \<times> int" where
  "stakes_of_stakers [] tot self = Inr (tot, self)"
| "stakes_of_stakers (s # ss) tot self =
     bindE (js_prop s ''stakes'') (\<lambda>sv. bindE (js_iter sv) (\<lambda>sts.
     bindE (js_prop s ''address'') (\<lambda>address.
     bindE (stakes_of_staker address sts tot self) (\<lambda>(tot', self').
     stakes_of_stakers ss tot' self'))))"

definition indexPosModuleAssets :: "ext \<Rightarrow> unit iact" where
  "indexPosModuleAssets X =
     bnd (requestConnector X ''getGenesisAssetsLength''
            (JObj [(''module'', JStr ''pos''), (''subStore'', JStr ''stakers'')])) (\<lambda>lens.
     bnd (pathA lens [''pos'', ''stakers'']) (\<lambda>totalStakers.
     bnd (if js_lt (JNum 0) totalStakers
          then bnd (request_assets X ''pos'' ''stakers'' totalStakers) (\<lambda>posModuleData.
               bnd (propA posModuleData ''stakers'') (\<lambda>sv.
               bnd (liftE (js_iter sv)) (\<lambda>stakers. liftE (stakes_of_stakers stakers 0 0))))
          else ret (0, 0)) (\<lambda>(totalStakeChange, totalSelfStakeChange).
     thn (updateTotalStake X totalStakeChange) (updateTotalSelfStake X totalSelfStakeChange))))"

definition indexGenesisBlockAssets :: "ext \<Rightarrow> unit iact" where
  "indexGenesisBlockAssets X = thn (indexTokenModuleAssets X) (indexPosModuleAssets X)"

subsection \<open>Indexing a block\<close>

definition validateBlock :: "jsval \<Rightarrow> jserr + bool" where
  "validateBlock block =
     (if truthy block then bindE (js_prop block ''height'') (\<lambda>h. Inr (js_le (JNum 0) h)) else Inr False)"

text \<open>The block without its transactions and assets.\<close>

definition block_header :: "jsval \<Rightarrow> jsval" where
  "block_header block = JObj (omit [''transactions'', ''assets''] (own_props block))"

text \<open>One transaction of the block, with the processor that applies it.\<close>

definition index_tx :: "handler \<Rightarrow> ext \<Rightarrow> jsval \<Rightarrow> jsval list \<Rightarrow> nat \<times> jsval \<Rightarrow> unit iact" where
  "index_tx process X block events = (\<lambda>(index, tx).
     bnd (propA tx ''module'') (\<lambda>m. bnd (propA tx ''command'') (\<lambda>c.
     bnd (propA block ''id'') (\<lambda>bid. bnd (propA block ''height'') (\<lambda>height.
     bnd (propA tx ''senderPublicKey'') (\<lambda>pk. bnd (lisk32A X pk) (\<lambda>sender.
     bnd (propA block ''timestamp'') (\<lambda>timestamp.
     let t = oset (oset (oset (oset (oset (oset (own_props tx) ''index'' (JNum (int index)))
               ''moduleCommand'' (JStr (js_string m @ '':'' @ js_string c))) ''blockID'' bid)
               ''height'' height) ''senderAddress'' sender) ''timestamp'' timestamp in
     bnd (liftE (getTransactionExecutionStatus (JObj t) events)) (\<lambda>status.
     let tx' = JObj (oset t ''executionStatus'' status) in
     thn (spawn (updateAccountPublicKey X pk)) (
     thn (upsert (kx X) transactionsTableSchema tx' True) (
     thn (process X (block_header block) tx' events) (ret ()))))))))))))"

definition count_generated :: "ext \<Rightarrow> jsval \<Rightarrow> unit iact" where
  "count_generated X generatorAddress =
     bnd (increment (kx X) validatorsTableSchema [(''generatedBlocks'', 1)]
            [(''address'', generatorAddress)] True) (\<lambda>n.
     if n = 0 then upsert (kx X) validatorsTableSchema
                     (JObj [(''address'', generatorAddress), (''generatedBlocks'', JNum 1)]) True
     else ret ())"

definition index_reward :: "ext \<Rightarrow> jsval \<Rightarrow> jsval list \<Rightarrow> int iact" where
  "index_reward X generatorAddress events =
     bnd (liftE (find_reward_event events)) (\<lambda>rewardEvent.
     if truthy rewardEvent then
       bnd (pathA rewardEvent [''data'', ''amount'']) (\<lambda>amount.
       bnd (liftE (js_bigint (js_or amount (JStr ''0'')))) (\<lambda>blockReward.
       thn (if blockReward \<noteq> 0 then
              bnd (calcCommission X generatorAddress blockReward) (\<lambda>commission.
              bnd (calcSelfStakeReward X generatorAddress blockReward commission) (\<lambda>selfStakeReward.
              thn (increment (kx X) validatorsTableSchema [(''totalCommission'', commission)]
                     [(''address'', generatorAddress)] True) (
              thn (increment (kx X) validatorsTableSchema [(''totalSelfStakeRewards'', selfStakeReward)]
                     [(''address'', generatorAddress)] True) (ret ()))))
            else ret ()) (ret blockReward)))
     else ret 0)"

definition index_events :: "ext \<Rightarrow> jsval \<Rightarrow> jsval \<Rightarrow> jsval list \<Rightarrow> int iact" where
  "index_events X block generatorAddress events =
     (if events \<noteq> [] then
       bnd (liftE (getEventsInfoToIndex X block events)) (\<lambda>(eventsInfo, eventTopicsInfo).
       thn (upsert (kx X) eventsTableSchema (JArr eventsInfo) True) (
       thn (upsert (kx X) eventTopicsTableSchema (JArr eventTopicsInfo) True) (
       bnd (index_reward X generatorAddress events) (\<lambda>blockReward.
       bnd (liftE (locked_changes 1 events [])) (\<lambda>changes.
       thn (updateTotalLockedAmounts X changes) (ret blockReward))))))
      else ret 0)"

definition block_row :: "jsval \<Rightarrow> jsval list \<Rightarrow> int \<Rightarrow> jserr + jsval" where
  "block_row block events reward =
     bindE (js_prop block ''assets'') (\<lambda>av. bindE (js_elems av) (\<lambda>assets.
     bindE (mapE (\<lambda>a. js_prop a ''module'') assets) (\<lambda>modules.
     Inr (JObj (oset (oset (oset (own_props block) ''assetsModules'' (JArr modules))
            ''numberOfEvents'' (JNum (int (length events)))) ''reward'' (JBig reward))))))"

text \<open>
  The guarded part of \<open>indexBlock\<close>: everything up to the row of the block itself, then the
  write of that row and the commit.
\<close>

definition index_block_rows :: "handler \<Rightarrow> ext \<Rightarrow> jsval \<Rightarrow> jsval iact" where
  "index_block_rows process X block =
     bnd (propA block ''height'') (\<lambda>height.
     bnd (getGenesisHeight X) (\<lambda>gh.
     thn (if strict_eq height gh then indexGenesisBlockAssets X else ret ()) (
     bnd (getEventsByHeight X height) (\<lambda>ev. bnd (elemsA ev) (\<lambda>events.
     bnd (propA block ''transactions'') (\<lambda>tv. bnd (elemsA tv) (\<lambda>txs.
     thn (forA (index_tx process X block events) (zip [0..<length txs] txs)) (
     bnd (propA block ''generatorAddress'') (\<lambda>generatorAddress.
     thn (count_generated X generatorAddress) (
     bnd (index_events X block generatorAddress events) (\<lambda>blockReward.
     liftE (block_row block events blockReward))))))))))))"

definition index_block_body :: "handler \<Rightarrow> ext \<Rightarrow> jsval \<Rightarrow> unit iact" where
  "index_block_body process X block =
     bnd (index_block_rows process X block) (\<lambda>blockToIndex.
     thn (upsert (kx X) blocksTableSchema blockToIndex True) commitDbTransaction)"

definition is_deadlock :: "jserr \<Rightarrow> bool" where
  "is_deadlock e = (str_includes ''Deadlock found when trying to get lock'' (err_message e)
     \<or> str_includes ''ER_LOCK_DEADLOCK'' (err_message e))"

definition index_deadlock :: "jsval \<Rightarrow> jserr" where
  "index_deadlock block = Err (''Deadlock encountered while indexing block ''
     @ js_string (oget (own_props block) ''id'') @ '' at height ''
     @ js_string (oget (own_props block) ''height'') @ ''. Will retry later.'')"

definition index_block_with :: "handler \<Rightarrow> ext \<Rightarrow> jsval \<Rightarrow> unit iact" where
  "index_block_with process X data =
     bnd (propA data ''block'') (\<lambda>block.
     bnd (liftE (validateBlock block)) (\<lambda>valid.
     if \<not> valid then
       bnd (propA block ''id'') (\<lambda>bid. bnd (propA block ''height'') (\<lambda>height.
       throw (Err (''Invalid block '' @ js_string bid @ '' at height '' @ js_string height @ '' }.''))))
     else
       thn startDbTransaction (
       tryA (index_block_body process X block)
         (\<lambda>e. thn rollbackDbTransaction (
            if is_deadlock e then throw (index_deadlock block) else throw e)))))"

definition indexBlock :: "ext \<Rightarrow> jsval \<Rightarrow> unit iact" where
  "indexBlock = index_block_with applyTransaction"

definition updateBlockIndex :: "ext \<Rightarrow> jsval \<Rightarrow> unit iact" where
  "updateBlockIndex X data =
     bnd (propA data ''blocks'') (\<lambda>blocks. upsert (kx X) blocksTableSchema blocks False)"

subsection \<open>Deleting indexed blocks\<close>

definition dispatch :: "string \<Rightarrow> jsval \<Rightarrow> unit iact" where
  "dispatch name v = modA (\<lambda>w. w\<lparr>signals := signals w @ [(name, v)]\<rparr>)"

definition revert_tx_step :: "handler \<Rightarrow> ext \<Rightarrow> jsval \<Rightarrow> jsval list \<Rightarrow> jsval \<Rightarrow> jsval iact" where
  "revert_tx_step process X block events tx =
     thn (process X (block_header block) tx events) (liftE (normalizeTransaction tx))"

text \<open>\<open>deletedTransactions.map(e => e !== null)\<close>: the booleans, not the transactions.\<close>

definition deleted_transaction :: "ext \<Rightarrow> jsval \<Rightarrow> jsval iact" where
  "deleted_transaction X txID =
     bnd (getTransactions X [(''id'', txID)]) (\<lambda>r.
     bnd (propA r ''data'') (\<lambda>d.
     ret (JBool ((if truthy d then js_first (data_of r) else JNull) \<noteq> JNull))))"

definition delete_one :: "handler \<Rightarrow> ext \<Rightarrow> jsval \<Rightarrow> unit iact" where
  "delete_one process X block =
     bnd (propA block ''height'') (\<lambda>height.
     bnd (getEventsByHeight X height) (\<lambda>ev.
     bnd (propA block ''transactions'') (\<lambda>tv.
     bnd (if truthy tv \<and> js_prop tv ''length'' \<noteq> Inr (JNum 0)
          then bnd (elemsA ev) (\<lambda>events. bnd (elemsA tv) (\<lambda>txs.
               bnd (mapA (revert_tx_step process X block events) txs) (\<lambda>ts. ret (Some ts))))
          else ret None) (\<lambda>reverted.
     bnd (pathA block [''header'', ''id'']) (\<lambda>bid.
     bnd (getTransactionIDsByBlockID X bid) (\<lambda>forkedTransactionIDs.
     bnd (case reverted of
            Some ts \<Rightarrow> ret ts
          | None \<Rightarrow> mapA (deleted_transaction X) forkedTransactionIDs) (\<lambda>forkedTransactions.
     thn (deleteByPrimaryKey (kx X) transactionsTableSchema (JArr forkedTransactionIDs) True) (
     thn (dispatch ''deleteTransactions'' (JObj [(''data'', JArr forkedTransactions)])) (
     bnd (elemsA ev) (\<lambda>events.
     thn (if events \<noteq> []
          then bnd (liftE (locked_changes (-1) events [])) (updateTotalLockedAmounts X)
          else ret ()) (
     deleteEventsFromCache height)))))))))))"

definition delete_deadlock :: "string \<Rightarrow> jserr" where
  "delete_deadlock ids = Err (''Deadlock encountered while deleting block(s) with ID(s): '' @ ids
     @ ''. Will retry later.'')"

definition delete_blocks_with :: "handler \<Rightarrow> ext \<Rightarrow> jsval \<Rightarrow> unit iact" where
  "delete_blocks_with process X data =
     bnd (propA data ''blocks'') (\<lambda>bv. bnd (elemsA bv) (\<lambda>blocks.
     bnd (mapA (\<lambda>b. propA b ''id'') blocks) (\<lambda>ids.
     let blockIDs = join '', '' (map (\<lambda>v. if v = JUndef \<or> v = JNull then [] else js_string v) ids) in
     thn startDbTransaction (
     tryA (thn (forA (delete_one process X) blocks) (
           thn (deleteByPrimaryKey (kx X) blocksTableSchema (JStr blockIDs) False)
             commitDbTransaction))
       (\<lambda>e. thn rollbackDbTransaction (
          if str_includes ''ER_LOCK_DEADLOCK'' (err_message e) then throw (delete_deadlock blockIDs)
          else throw e))))))"

definition deleteIndexedBlocks :: "ext \<Rightarrow> jsval \<Rightarrow> unit iact" where
  "deleteIndexedBlocks = delete_blocks_with revertTransaction"

subsection \<open>Scheduling\<close>

definition queue_add :: "string \<Rightarrow> jsval \<Rightarrow> unit iact" where
  "queue_add name data =
     bnd (liftE (json_copy data)) (\<lambda>v. modA (\<lambda>w. w\<lparr>jobs := jobs w @ [(name, v)]\<rparr>))"

definition deleteBlock :: "jsval \<Rightarrow> unit iact" where
  "deleteBlock block = queue_add ''deleteIndexedBlocksQueue'' (JObj [(''blocks'', JArr [block])])"

definition block_columns :: "string list" where
  "block_columns = map fst (schema blocksTableSchema)"

definition schedule_finality :: "ext \<Rightarrow> unit iact" where
  "schedule_finality X =
     bnd (getFinalizedHeight X) (\<lambda>finalizedBlockHeight.
     bnd (table_find (kx X) blocksTableSchema [(''isFinal'', JBool False), (''limit'', JNum 1000)]
            (Some block_columns)) (\<lambda>nonFinalBlocks.
     queue_add ''updateBlockIndexQueue'' (JObj [(''blocks'', JArr
       (map (\<lambda>b. JObj (oset (own_props b) ''isFinal'' (JBool True)))
         (filter (\<lambda>b. js_le (oget (own_props b) ''height'') finalizedBlockHeight) nonFinalBlocks)))])))"

definition schedule_fork :: "ext \<Rightarrow> jsval \<Rightarrow> unit iact" where
  "schedule_fork X height =
     bnd (table_find (kx X) blocksTableSchema [(''sort'', JStr ''height:desc''), (''limit'', JNum 1)]
            (Some [''height''])) (\<lambda>rows.
     bnd (propA (js_first rows) ''height'') (\<lambda>highest.
     bnd (liftE (js_add height (JNum 1))) (\<lambda>from.
     bnd (liftE (js_sub highest height)) (\<lambda>limit.
     bnd (table_find (kx X) blocksTableSchema
            [(''propBetweens'', JArr [JObj [(''property'', JStr ''height''), (''from'', from), (''to'', highest)]]),
             (''limit'', limit)] (Some [''id''])) (\<lambda>blocksToRemove.
     queue_add ''deleteIndexedBlocksQueue'' (JObj [(''blocks'', JArr blocksToRemove)]))))))"

definition indexNewBlock :: "ext \<Rightarrow> jsval \<Rightarrow> unit iact" where
  "indexNewBlock X block =
     bnd (propA block ''id'') (\<lambda>bid. bnd (propA block ''height'') (\<lambda>height.
     bnd (table_find (kx X) blocksTableSchema [(''height'', height), (''limit'', JNum 1)]
            (Some [''id'', ''isFinal''])) (\<lambda>rows.
     let blockInfo = js_first rows in
     if \<not> truthy blockInfo \<or> \<not> truthy (oget (own_props blockInfo) ''isFinal'') then
       thn (queue_add ''indexBlocksQueue'' (JObj [(''block'', block)])) (
       thn (schedule_finality X) (
       if truthy blockInfo \<and> \<not> strict_eq (oget (own_props blockInfo) ''id'') bid
       then schedule_fork X height else ret ()))
     else ret ())))"

text \<open>The heights one page of \<open>buildIndex\<close> queues, with one block per page.\<close>

definition page_heights :: "int \<Rightarrow> int \<Rightarrow> nat \<Rightarrow> int list" where
  "page_heights from to pageNum =
     (let pseudoOffset = to - (1 * (int pageNum + 1));
          offset = (if pseudoOffset \<ge> from then pseudoOffset else from - 1);
          batchFromHeight = offset + 1;
          batchToHeight = (if offset + 1 \<le> to then offset + 1 else to) in
      [batchFromHeight..batchToHeight])"

definition buildIndex :: "int \<Rightarrow> int \<Rightarrow> unit iact" where
  "buildIndex from to =
     (if from > to then ret ()
      else forA (\<lambda>pageNum. forA (\<lambda>h. queue_add ''indexBlocksQueue'' (JObj [(''height'', JNum h)]))
                   (page_heights from to pageNum))
             [0..<nat (to + 1 - from)])"

definition findMissingBlocksInRange :: "ext \<Rightarrow> int \<Rightarrow> int \<Rightarrow> jsval list iact" where
  "findMissingBlocksInRange X fromHeight toHeight =
     bnd (table_count (kx X) blocksTableSchema
            [(''propBetweens'', JArr [JObj [(''property'', JStr ''height''), (''from'', JNum fromHeight),
               (''to'', JNum toHeight)]])]) (\<lambda>indexedBlockCount.
     if indexedBlockCount < 3
     then ret [JObj [(''from'', JNum fromHeight), (''to'', JNum toHeight)]]
     else if indexedBlockCount \<noteq> toHeight - fromHeight + 1
     then rawQuery (kx X) (SMissing fromHeight toHeight)
     else ret [])"

definition getMinNonFinalHeight :: "ext \<Rightarrow> jsval iact" where
  "getMinNonFinalHeight X =
     bnd (table_find (kx X) blocksTableSchema
            [(''sort'', JStr ''height:asc''), (''limit'', JNum 1), (''isFinal'', JBool False)]
            (Some [''height''])) (\<lambda>rows.
     ret (oget (own_props (js_default (js_first rows) (JObj []))) ''height''))"

definition updateNonFinalBlocks :: "ext \<Rightarrow> unit iact" where
  "updateNonFinalBlocks X =
     bnd (getCurrentHeight X) (\<lambda>cHeight.
     bnd (getMinNonFinalHeight X) (\<lambda>minNFHeight.
     case (minNFHeight, cHeight) of
       (JNum a, JNum b) \<Rightarrow> buildIndex a b
     | _ \<Rightarrow> ret ()))"

definition missing_heights :: "jsval \<Rightarrow> jserr + int list" where
  "missing_heights entry =
     range_arr (as_int (oget (own_props entry) ''from'')) (Some (as_int (oget (own_props entry) ''to'') + 1)) 1"

definition getMissingBlocks :: "ext \<Rightarrow> int \<Rightarrow> int \<Rightarrow> int list iact" where
  "getMissingBlocks X from to =
     bnd (findMissingBlocksInRange X from to) (\<lambda>ranges.
     bnd (liftE (mapE missing_heights ranges)) (\<lambda>hss. ret (concat hss)))"

definition addBlockToQueue :: "ext \<Rightarrow> jsval \<Rightarrow> unit iact" where
  "addBlockToQueue X height =
     bnd (getBlockByHeight X height) (\<lambda>block.
     spawn (queue_add ''indexBlocksQueue'' (JObj [(''block'', block)])))"

definition INDEX_VERIFIED_HEIGHT :: string where "INDEX_VERIFIED_HEIGHT = ''indexVerifiedHeight''"

definition setIndexVerifiedHeight :: "ext \<Rightarrow> jsval \<Rightarrow> unit iact" where
  "setIndexVerifiedHeight X height = kv_set X INDEX_VERIFIED_HEIGHT height False"

definition getIndexVerifiedHeight :: "ext \<Rightarrow> jsval iact" where
  "getIndexVerifiedHeight X = kv_get X INDEX_VERIFIED_HEIGHT"

subsection \<open>Dropping the stored text of finalized events\<close>

definition LAST_DELETED_EVENTS_HEIGHT :: string where
  "LAST_DELETED_EVENTS_HEIGHT = ''lastDeletedEventsHeight''"

definition deleteEventStrTillFinalizedHeight :: "ext \<Rightarrow> unit iact" where
  "deleteEventStrTillFinalizedHeight X =
     bnd (kv_get X LAST_DELETED_EVENTS_HEIGHT) (\<lambda>fromHeight.
     bnd (getFinalizedHeight X) (\<lambda>toHeight.
     thn startDbTransaction (
     tryA (bnd (if truthy fromHeight then liftE (js_add fromHeight (JNum 1)) else getGenesisHeight X) (\<lambda>from.
           thn (table_update (kx X) eventsTableSchema
                  [(''propBetweens'', JArr [JObj [(''property'', JStr ''height''), (''from'', from), (''to'', toHeight)]])]
                  [(''eventStr'', JNull)] True) (
           thn (kv_set X LAST_DELETED_EVENTS_HEIGHT toHeight True) commitDbTransaction)))
       (\<lambda>_. rollbackDbTransaction))))"

subsection \<open>Confinement\<close>

lemma within_updateTotalLockedAmounts [confined]: "keeps (within T) (updateTotalLockedAmounts X cs)"
  unfolding updateTotalLockedAmounts_def Let_def by (intro confined)

lemma within_indexGenesisBlockAssets [confined]: "keeps (within T) (indexGenesisBlockAssets X)"
  unfolding indexGenesisBlockAssets_def indexTokenModuleAssets_def indexPosModuleAssets_def
    request_assets_def by (intro confined)

lemma within_count_generated [confined]: "keeps (within T) (count_generated X g)"
  unfolding count_generated_def by (intro confined)

lemma within_index_events [confined]: "keeps (within T) (index_events X b g evs)"
  unfolding index_events_def index_reward_def by (intro confined)

lemma within_dispatch [confined]: "keeps (within T) (dispatch n v)"
  unfolding dispatch_def by (intro within_modA) simp

lemma within_queue_add [confined]: "keeps (within T) (queue_add n v)"
  unfolding queue_add_def by (intro confined within_modA) simp

lemma within_option [confined]:
  "keeps (within T) n \<Longrightarrow> (\<And>x. keeps (within T) (s x)) \<Longrightarrow> keeps (within T) (case r of None \<Rightarrow> n | Some x \<Rightarrow> s x)"
  by (cases r) auto

context tx_processor
begin

lemma confined_index_tx:
  "sql_engine jc (kx X) \<Longrightarrow> keeps (within {''accounts''}) (index_tx process X b evs p)"
  unfolding index_tx_def Let_def
  by (intro confined within_spawn within_updateAccountPublicKey confined_process)

lemma confined_index_block_rows:
  "sql_engine jc (kx X) \<Longrightarrow> keeps (within {''accounts''}) (index_block_rows process X b)"
  unfolding index_block_rows_def by (intro confined confined_index_tx)

lemma confined_delete_one:
  "sql_engine jc (kx X) \<Longrightarrow> keeps (within {''accounts''}) (delete_one process X b)"
  unfolding delete_one_def revert_tx_step_def deleted_transaction_def
  by (intro confined confined_process)

text \<open>A body that throws has committed nothing: the commit is its last step.\<close>

lemma index_block_body_error:
  assumes "sql_engine jc (kx X)" and "index_block_body process X block w = (Inl e, w')"
  shows "within {''accounts''} w w'"
proof -
  have rows: "within {''accounts''} w w1" if "index_block_rows process X block w = (r, w1)" for r w1
    by (rule keepsD [OF confined_index_block_rows [OF assms(1)] that])
  have ups: "within {''accounts''} w1 w2"
    if "upsert (kx X) blocksTableSchema v True w1 = (r, w2)" for v w1 w2 r
    by (rule keepsD [OF within_upsert_trx that])
  from assms(2) show ?thesis
    by (auto simp: index_block_body_def bnd_def thn_def commitDbTransaction_def
        split: prod.splits sum.splits option.splits dest!: rows ups intro: transpD [OF transp_within])
qed

lemma index_block_rows_ok:
  assumes "index_block_rows process X block w = (Inr v, w1)"
  shows "\<exists>events reward. block_row block events reward = Inr v"
  using assms unfolding index_block_rows_def bnd_ok thn_ok run_liftE by blast

text \<open>
  A body that returns has made the tables of the transaction, with the row of the block, the
  committed ones.
\<close>

lemma index_block_body_ok:
  assumes eng: "sql_engine jc (kx X)" and run: "index_block_body process X block w = (Inr u, w')"
  shows "\<exists>events reward ob row w1 d tb. block_row block events reward = Inr (JObj ob)
    \<and> index_block_rows process X block w = (Inr (JObj ob), w1)
    \<and> mapRow (schema blocksTableSchema) (JObj ob) = Inr row
    \<and> within {''accounts''} w w1 \<and> trx w1 = Some d
    \<and> d ''blocks'' = Some tb \<and> insert_error (t_cols tb) (t_pk tb) row = None
    \<and> w' = w1\<lparr>committed := put_row ''blocks'' row d, trx := None\<rparr>"
proof -
  from run obtain v w1 w2 where rows: "index_block_rows process X block w = (Inr v, w1)"
    and up: "upsert (kx X) blocksTableSchema v True w1 = (Inr (), w2)"
    and co: "commitDbTransaction w2 = (Inr u, w')"
    by (auto simp: index_block_body_def act_ok)
  from index_block_rows_ok [OF rows] obtain events reward where br: "block_row block events reward = Inr v"
    by blast
  then obtain ob where v: "v = JObj ob" by (auto simp: block_row_def act_ok)
  from sql_engine.upsert_one_trx_ok [OF eng up [unfolded v]] obtain row d tb where
    row: "mapRow (schema blocksTableSchema) (JObj ob) = Inr row" and d: "trx w1 = Some d"
    and tb: "d ''blocks'' = Some tb" "insert_error (t_cols tb) (t_pk tb) row = None"
    and w2: "w2 = w1\<lparr>trx := Some (put_row ''blocks'' row d)\<rparr>"
    by (auto simp: blocksTableSchema_def)
  from co w2 have "w' = w1\<lparr>committed := put_row ''blocks'' row d, trx := None\<rparr>"
    by (auto simp: commitDbTransaction_def)
  moreover have "within {''accounts''} w w1"
    by (rule keepsD [OF confined_index_block_rows [OF eng] rows])
  ultimately show ?thesis using br rows [unfolded v] v row d tb by blast
qed

text \<open>
  All or nothing: when the handler throws, the committed tables other than \<open>accounts\<close> are
  those before the job and no transaction is left open.
\<close>

lemma index_block_all_or_nothing:
  assumes eng: "sql_engine jc (kx X)" and run: "index_block_with process X data w = (Inl e, w')"
    and closed: "trx w = None"
  shows "trx w' = None \<and> (\<forall>t. t \<noteq> ''accounts'' \<longrightarrow> committed w' t = committed w t)"
proof -
  obtain r where block: "js_prop data ''block'' = r" by blast
  show ?thesis
  proof (cases r)
    case (Inl e')
    with run block closed show ?thesis by (simp add: index_block_with_def propA_def)
  next
    case (Inr block)
    have body: "within {''accounts''} (w\<lparr>trx := Some (committed w)\<rparr>) w2"
      if "index_block_body process X block (w\<lparr>trx := Some (committed w)\<rparr>) = (Inl e2, w2)" for e2 w2
      by (rule index_block_body_error [OF eng that])
    from run \<open>js_prop data ''block'' = r\<close> Inr closed show ?thesis
      by (auto simp: index_block_with_def propA_def bnd_def thn_def tryA_def startDbTransaction_def
          rollbackDbTransaction_def within_def split: sum.splits prod.splits if_splits dest!: body)
  qed
qed

end

end
