(* ===== verification/IndexStatus.thy ===== *)
theory IndexStatus
  imports BlockIndex
begin

text \<open>
  The status of the index and the entry points of the indexer: \<open>shared/indexer/indexStatus.js\<close>,
  \<open>shared/indexer/validatorIndex.js\<close>, the handlers of \<open>shared/indexer/accountIndex.js\<close>,
  \<open>shared/dataService/indexStatus.js\<close>, \<open>shared/eventsProcessor.js\<close> and \<open>shared/processor.js\<close>.
  Timers and the registration of listeners are not modelled: a listener is an action of its
  own, run when its signal has been dispatched.
\<close>

subsection \<open>indexer/indexStatus.js\<close>

definition setIndexReadyStatus :: "bool \<Rightarrow> unit iact" where
  "setIndexReadyStatus isReady = modA (\<lambda>w. w\<lparr>indexReady := isReady\<rparr>)"

definition getIndexReadyStatus :: "bool iact" where
  "getIndexReadyStatus = getA indexReady"

definition getIndexStats :: "ext \<Rightarrow> jsval iact" where
  "getIndexStats X = tryA
     (bnd (getCurrentHeight X) (\<lambda>currentChainHeight.
      bnd (getGenesisHeight X) (\<lambda>genesis.
      bnd (table_count (kx X) blocksTableSchema []) (\<lambda>numBlocksIndexed.
      bnd (table_find (kx X) blocksTableSchema [(''sort'', JStr ''height:desc''), (''limit'', JNum 1)]
             (Some [''height''])) (\<lambda>rows.
      bnd (liftE (bindE (js_sub currentChainHeight genesis) (\<lambda>d. js_add d (JNum 1)))) (\<lambda>chainLength.
      ret (JObj [(''currentChainHeight'', currentChainHeight), (''genesisHeight'', genesis),
        (''numBlocksIndexed'', JNum numBlocksIndexed),
        (''lastIndexedBlock'', js_default (js_first rows) (JObj [])),
        (''chainLength'', chainLength),
        (''percentage'', JStr (percentage_text X numBlocksIndexed chainLength))])))))))
     (\<lambda>_. ret (JObj [(''error'', JBool True)]))"

definition validateIndexReadiness :: "ext \<Rightarrow> jsval \<Rightarrow> bool iact" where
  "validateIndexReadiness X strict =
     bnd (getIndexStats X) (\<lambda>stats.
     bnd (propA stats ''numBlocksIndexed'') (\<lambda>numBlocksIndexed.
     bnd (propA stats ''chainLength'') (\<lambda>chainLength.
     bnd (if strict = JBool True then ret chainLength else liftE (js_sub chainLength (JNum 1))) (\<lambda>chainLenToConsider.
     ret (js_le chainLenToConsider numBlocksIndexed)))))"

definition checkIndexReadiness :: "ext \<Rightarrow> unit iact" where
  "checkIndexReadiness X =
     bnd getIndexReadyStatus (\<lambda>known.
     bnd (if known then ret False else validateIndexReadiness X JUndef) (\<lambda>ready.
     if \<not> known \<and> ready
     then thn (setIndexReadyStatus True) (dispatch ''blockIndexReady'' (JBool True))
     else ret ()))"

definition reportIndexStatus :: "ext \<Rightarrow> unit iact" where
  "reportIndexStatus X =
     bnd (getIndexStats X) (\<lambda>indexStats.
     bnd (propA indexStats ''lastIndexedBlock'') (\<lambda>lib.
     thn (dispatch ''indexStatUpdate'' indexStats)
     (bnd (propA (js_default lib (JObj [])) ''height'') (\<lambda>_. ret ()))))"

definition initializeSearchIndex :: "ext \<Rightarrow> string \<Rightarrow> unit iact" where
  "initializeSearchIndex X endpoint =
     thn (forA (\<lambda>tc. getTableInstance (kx X) tc endpoint) indexer_schemas)
       (dispatch ''searchIndexInitialized'' JUndef)"

subsection \<open>indexer/validatorIndex.js\<close>

definition commission_entry :: "jsval \<Rightarrow> jsval \<Rightarrow> jserr + jsval" where
  "commission_entry genesisBlock validator =
     bindE (js_prop validator ''address'') (\<lambda>address.
     bindE (js_prop genesisBlock ''height'') (\<lambda>height.
     bindE (js_prop validator ''commission'') (\<lambda>commission.
     Inr (JObj [(''address'', address), (''height'', height), (''commission'', commission)]))))"

definition indexValidatorCommissionInfo :: "ext \<Rightarrow> jsval \<Rightarrow> unit iact" where
  "indexValidatorCommissionInfo X genesisBlock =
     bnd (propA genesisBlock ''height'') (\<lambda>height.
     bnd (requestConnector X ''getPoSGenesisValidators'' (JObj [(''height'', height)])) (\<lambda>r.
     bnd (elemsA r) (\<lambda>validators.
     bnd (liftE (mapE (commission_entry genesisBlock) validators)) (\<lambda>commissionInfo.
     if commissionInfo = [] then ret ()
     else upsert (kx X) commissionsTableSchema (JArr commissionInfo) False))))"

text \<open>
  The callback of the outer \<open>forEach\<close> is asynchronous but has nothing to wait for: it runs
  to its end at once. What it throws is a rejected promise nobody waits for, so a staker
  without a list of stakes is skipped from there on.
\<close>

fun staker_entries :: "jsval \<Rightarrow> jsval list \<Rightarrow> jsval list" where
  "staker_entries address [] = []"
| "staker_entries address (stake # stakes) =
     (case (js_prop stake ''validatorAddress'', js_prop stake ''amount'') of
        (Inr v, Inr a) \<Rightarrow> JObj [(''stakerAddress'', address), (''validatorAddress'', v), (''amount'', a)]
            # staker_entries address stakes
      | _ \<Rightarrow> [])"

definition entries_of_staker :: "jsval \<Rightarrow> jsval list" where
  "entries_of_staker staker =
     (case (bindE (js_prop staker ''stakes'') js_elems, js_prop staker ''address'') of
        (Inr stakes, Inr address) \<Rightarrow> staker_entries address stakes
      | _ \<Rightarrow> [])"

definition indexStakersInfo :: "ext \<Rightarrow> jsval \<Rightarrow> unit iact" where
  "indexStakersInfo X genesisBlock =
     bnd (propA genesisBlock ''height'') (\<lambda>height.
     bnd (requestConnector X ''getPoSGenesisStakers'' (JObj [(''height'', height)])) (\<lambda>r.
     bnd (elemsA r) (\<lambda>stakers.
     let stakestoIndex = concat (map entries_of_staker stakers) in
     if stakestoIndex = [] then ret ()
     else upsert (kx X) stakesTableSchema (JArr stakestoIndex) False)))"

text \<open>The part of \<open>init\<close> that runs at start-up.\<close>

definition indexStatus_init :: "ext \<Rightarrow> string \<Rightarrow> unit iact" where
  "indexStatus_init X endpoint =
     thn (initializeSearchIndex X endpoint)
     (bnd (getGenesisHeight X) (\<lambda>height.
      bnd (getBlockByHeight X height) (\<lambda>genesisBlock.
      thn (indexValidatorCommissionInfo X genesisBlock) (indexStakersInfo X genesisBlock))))"

subsection \<open>indexer/accountIndex.js\<close>

text \<open>
  The data service exports neither \<open>getAccountsByAddress\<close> nor \<open>getAccountsByPublicKey2\<close>:
  the imported names are undefined, and calling them throws.
\<close>

definition missing_function :: "string \<Rightarrow> jsval iact" where
  "missing_function name = throw (TypeErr (name @ '' is not a function''))"

definition upsert_accounts :: "ext \<Rightarrow> jsval \<Rightarrow> unit iact" where
  "upsert_accounts X account =
     bnd (propA account ''length'') (\<lambda>n.
     if truthy n then upsert (kx X) accountsTableSchema account False else ret ())"

definition updateAccountInfoPk :: "ext \<Rightarrow> jsval \<Rightarrow> unit iact" where
  "updateAccountInfoPk X publicKey =
     bnd (missing_function ''getAccountsByPublicKey2'') (upsert_accounts X)"

definition updateAccountInfoAddr :: "ext \<Rightarrow> jsval \<Rightarrow> unit iact" where
  "updateAccountInfoAddr X address =
     bnd (missing_function ''getAccountsByAddress'') (upsert_accounts X)"

definition updateAccountWithData :: "ext \<Rightarrow> jsval \<Rightarrow> unit iact" where
  "updateAccountWithData X accounts = upsert (kx X) accountsTableSchema accounts False"

definition addAccountToAddrUpdateQueue :: "jsval \<Rightarrow> unit iact" where
  "addAccountToAddrUpdateQueue address = queue_add ''accountQueueByAddress'' address"

definition addAccountToDirectUpdateQueue :: "jsval \<Rightarrow> unit iact" where
  "addAccountToDirectUpdateQueue accounts = queue_add ''accountQueueDirect'' accounts"

definition updateAccountsCacheListener :: "ext \<Rightarrow> jsval \<Rightarrow> unit iact" where
  "updateAccountsCacheListener X address =
     bnd (missing_function ''getAccountsByAddress'') (\<lambda>accounts.
     upsert (kx X) accountsTableSchema accounts False)"

subsection \<open>eventsProcessor.js\<close>

definition newBlockProcessor :: "ext \<Rightarrow> jsval \<Rightarrow> unit iact" where
  "newBlockProcessor X block =
     bnd (propA block ''height'') (\<lambda>height.
     bnd (getBlocks X [(''height'', height)]) (\<lambda>response.
     bnd (propA response ''data'') (\<lambda>dv. bnd (elemsA dv) (\<lambda>blocks.
     let newBlock = js_first blocks in
     thn (indexNewBlock X newBlock)
     (thn (performLastBlockUpdate newBlock)
      (dispatch ''newBlock'' response))))))"

definition deleteBlockProcessor :: "ext \<Rightarrow> jsval \<Rightarrow> unit iact" where
  "deleteBlockProcessor X block =
     bnd (tryA
       (bnd (propA block ''id'') (\<lambda>bid.
        bnd (getBlocks X [(''blockID'', bid)]) (\<lambda>response.
        thn (deleteBlock block) (ret response))))
       (\<lambda>_. bnd (normalizeBlocks X (JArr [JObj [(''header'', block), (''transactions'', JArr []), (''assets'', JArr [])]]))
          (\<lambda>normalizedBlocks. ret (JObj [(''data'', JArr normalizedBlocks)])))) (\<lambda>response.
     dispatch ''deleteBlock'' response)"

definition newRoundProcessor :: "ext \<Rightarrow> unit iact" where
  "newRoundProcessor X =
     thn (reloadValidatorCache X)
     (thn (reloadGeneratorsCache X)
     (bnd (getNumberOfGenerators X) (\<lambda>limit.
      bnd (getGenerators X (JObj [(''limit'', limit), (''offset'', JNum 0)])) (\<lambda>generators.
      bnd (propA generators ''data'') (\<lambda>gv. bnd (elemsA gv) (\<lambda>gs.
      bnd (liftE (mapE (\<lambda>g. js_prop g ''address'') gs)) (\<lambda>addresses.
      dispatch ''newRound'' (JObj [(''generators'', JArr addresses)]))))))))"

definition process_event_job :: "ext \<Rightarrow> jsval \<Rightarrow> unit iact" where
  "process_event_job X data =
     bnd (propA data ''isNewBlock'') (\<lambda>isNewBlock.
     bnd (propA data ''isDeleteBlock'') (\<lambda>isDeleteBlock.
     bnd (propA data ''isNewRound'') (\<lambda>isNewRound.
     if truthy isNewBlock then bnd (propA data ''blockHeader'') (newBlockProcessor X)
     else if truthy isDeleteBlock then bnd (propA data ''blockHeader'') (deleteBlockProcessor X)
     else if truthy isNewRound then newRoundProcessor X
     else ret ())))"

subsection \<open>processor.js\<close>

definition process_block_job :: "ext \<Rightarrow> jsval \<Rightarrow> unit iact" where
  "process_block_job X data =
     bnd (propA data ''height'') (\<lambda>height. bnd (propA data ''isNewBlock'') (\<lambda>isNewBlock.
     if truthy isNewBlock then indexNewBlock X height else addBlockToQueue X height))"

definition process_account_job :: "jsval \<Rightarrow> unit iact" where
  "process_account_job data =
     bnd (propA data ''account'') (\<lambda>account.
     bnd (propA account ''address'') (\<lambda>_. addAccountToDirectUpdateQueue account))"

subsection \<open>dataService/indexStatus.js\<close>

text \<open>The state of the module; \<open>now\<close> is the time at which a listener runs, in seconds.\<close>

record index_status =
  indexStatsCache :: jsval
  isIndexingInProgress :: bool
  lastUpdate :: int

definition indexStatUpdateListener :: "int \<Rightarrow> jsval \<Rightarrow> index_status \<Rightarrow> index_status" where
  "indexStatUpdateListener now stats st = st\<lparr>indexStatsCache := stats, lastUpdate := now\<rparr>"

definition indexingProgressListener :: "int \<Rightarrow> jsval \<Rightarrow> index_status \<Rightarrow> index_status" where
  "indexingProgressListener now numJobsInProgress st =
     st\<lparr>isIndexingInProgress := js_lt (JNum 0) numJobsInProgress, lastUpdate := now\<rparr>"

definition getIndexStatus :: "(jsval \<Rightarrow> jsval) \<Rightarrow> index_status \<Rightarrow> jserr + jsval" where
  "getIndexStatus to_number st =
     (let stats = indexStatsCache st in
     bindE (js_prop stats ''genesisHeight'') (\<lambda>genesis.
     bindE (js_prop stats ''currentChainHeight'') (\<lambda>current.
     bindE (js_prop stats ''lastIndexedBlock'') (\<lambda>lib.
     bindE (js_prop (js_default lib (JObj [])) ''height'') (\<lambda>lastIndexed.
     bindE (js_prop stats ''chainLength'') (\<lambda>chainLength.
     bindE (js_prop stats ''numBlocksIndexed'') (\<lambda>numBlocksIndexed.
     bindE (js_prop stats ''percentage'') (\<lambda>percentage.
     Inr (JObj [(''data'', JObj [(''genesisHeight'', genesis), (''lastBlockHeight'', current),
         (''lastIndexedBlockHeight'', lastIndexed), (''chainLength'', chainLength),
         (''numBlocksIndexed'', numBlocksIndexed), (''percentageIndexed'', to_number percentage),
         (''isIndexingInProgress'', JBool (isIndexingInProgress st))]),
       (''meta'', JObj [(''lastUpdate'', JNum (lastUpdate st))])])))))))))"

end
