(* ===== verification/ServiceRel.thy ===== *)
theory ServiceRel
  imports IndexStatus
begin

text \<open>
  What the service does, step by step, and relations between its states that all of it keeps.
  The locale \<open>service_relation\<close> asks of a relation that the statements on the tables, the
  transactions, the caches and the signals keep it; in the locale, every transaction processor,
  every job handler and every other entry point of the service is shown to keep it. The
  locale is interpreted on the database invariant and on the readiness signal.
\<close>

named_theorems kept \<open>actions that keep a relation between the states of the service\<close>

subsection \<open>Statements\<close>

text \<open>A statement on a table of the service that does not write a key column in place.\<close>

definition safe_stmt :: "stmt \<Rightarrow> bool" where
  "safe_stmt st \<longleftrightarrow> (\<exists>tc \<in> set indexer_schemas. stmt_table st = tableName tc \<and>
     (case st of
        SCreate _ _ _ \<Rightarrow> False
      | SUpdate _ upd \<Rightarrow> \<forall>k \<in> set (primaryKey tc). \<not> ohas upd k
      | SIncr _ _ incs \<Rightarrow> \<forall>k \<in> set (primaryKey tc). map_of incs k = None
      | SDecr _ _ incs \<Rightarrow> \<forall>k \<in> set (primaryKey tc). map_of incs k = None
      | _ \<Rightarrow> True))"

text \<open>The driver of the environment meets its contract, for some meaning of JSON containment.\<close>

definition good_engine :: "engine \<Rightarrow> bool" where
  "good_engine k \<longleftrightarrow> (\<exists>jc. sql_engine jc k)"

lemma schemas_of_service [kept]:
  "accountsTableSchema \<in> set indexer_schemas" "audiosTableSchema \<in> set indexer_schemas"
  "blockchainAppsTableSchema \<in> set indexer_schemas" "blocksTableSchema \<in> set indexer_schemas"
  "collectionsTableSchema \<in> set indexer_schemas" "commissionsTableSchema \<in> set indexer_schemas"
  "eventTopicsTableSchema \<in> set indexer_schemas" "eventsTableSchema \<in> set indexer_schemas"
  "featsTableSchema \<in> set indexer_schemas" "kvStoreTableSchema \<in> set indexer_schemas"
  "membersTableSchema \<in> set indexer_schemas" "multisignatureTableSchema \<in> set indexer_schemas"
  "ownersTableSchema \<in> set indexer_schemas" "profilesTableSchema \<in> set indexer_schemas"
  "socialAccountsTableSchema \<in> set indexer_schemas" "stakesTableSchema \<in> set indexer_schemas"
  "subscriptionsTableSchema \<in> set indexer_schemas" "transactionsTableSchema \<in> set indexer_schemas"
  "validatorsTableSchema \<in> set indexer_schemas"
  by (simp_all add: indexer_schemas_def)

lemma find_processor_member:
  assumes "find_processor m c = Some (a, r)"
  shows "(c, a, r) \<in> set (audio_processors @ (collection_processors @ profile_processors @ subscription_processors)
      @ (interoperability_processors @ legacy_processors @ pos_processors @ token_processors) @ auth_processors)"
proof -
  from assms obtain cmds where cmds: "(m, cmds) \<in> set getAvailableModuleProcessors"
    and c: "(c, a, r) \<in> set cmds"
    by (auto simp: find_processor_def split: option.splits dest: map_of_SomeD)
  from cmds have "cmds \<in> {audio_processors, auth_processors, collection_processors,
      interoperability_processors, legacy_processors, pos_processors, profile_processors,
      subscription_processors, token_processors}"
    by (auto simp: getAvailableModuleProcessors_def)
  with c show ?thesis by auto
qed

subsection \<open>The contract of a relation\<close>

locale service_relation =
  fixes R :: "iworld \<Rightarrow> iworld \<Rightarrow> bool"
  assumes R_refl: "reflp R" and R_trans: "transp R"
    and R_batch: "good_engine k \<Longrightarrow> list_all safe_stmt sts \<Longrightarrow> keeps R (run_batch k b sts)"
    and R_start: "keeps R startDbTransaction" and R_commit: "keeps R commitDbTransaction"
    and R_rollback: "keeps R rollbackDbTransaction"
    and R_state: "(\<And>w. committed (g w) = committed w \<and> trx (g w) = trx w \<and> signals (g w) = signals w
        \<and> indexReady (g w) = indexReady w) \<Longrightarrow> keeps R (modA g)"
    and R_signal: "name \<noteq> ''blockIndexReady'' \<Longrightarrow> keeps R (dispatch name v)"
begin

lemmas kept_combinators [kept] =
  keeps_ret [OF R_refl] keeps_throw [OF R_refl] keeps_liftE [OF R_refl]
  keeps_getA [OF R_refl] keeps_bnd [OF R_trans] keeps_thn [OF R_trans]
  keeps_mapA [OF R_refl R_trans] keeps_forA [OF R_refl R_trans] keeps_tryA [OF R_trans]

lemmas kept_transactions [kept] = R_start R_commit R_rollback

lemma kept_run_read [kept]: "keeps R (run_read eng st)"
  using R_refl by (auto simp: keeps_def reflp_def run_read_def split: prod.splits sum.splits)

subsection \<open>Writes\<close>

lemma kept_upsert:
  "good_engine k \<Longrightarrow> tc \<in> set indexer_schemas \<Longrightarrow> keeps R (upsert k tc rows b)"
  unfolding upsert_def
  by (intro kept R_batch) (auto simp: list_all_iff safe_stmt_def)

lemma kept_built:
  assumes "\<And>q. r = Inr q \<Longrightarrow> keeps R (f q)"
  shows "keeps R (bnd (liftE r) f)"
  using assms R_refl by (cases r) (simp_all add: keeps_throw)

lemma kept_deleteByParams:
  assumes "good_engine k" and "tc \<in> set indexer_schemas"
  shows "keeps R (deleteByParams k tc params b)"
  unfolding deleteByParams_def
proof (rule kept_built)
  fix q
  assume "queryBuilder tc params (primaryKey tc) = Inr q"
  from queryBuilder_table [OF this] assms
  show "keeps R (bnd (run_batch k b [SDelete q]) (\<lambda>rs. ret (res_count rs)))"
    by (intro kept R_batch) (auto simp: safe_stmt_def)
qed

lemma kept_deleteByPrimaryKey:
  "good_engine k \<Longrightarrow> tc \<in> set indexer_schemas \<Longrightarrow> keeps R (deleteByPrimaryKey k tc ids b)"
  unfolding deleteByPrimaryKey_def
  by (intro kept R_batch) (auto simp: safe_stmt_def bare_query_def)

lemmas kept_writes [kept] = kept_upsert kept_deleteByParams kept_deleteByPrimaryKey

lemma kept_counters:
  assumes "good_engine k" and "tc \<in> set indexer_schemas"
    and "list_all (\<lambda>c. map_of incs c = None) (primaryKey tc)"
  shows "keeps R (increment k tc incs wh b)" "keeps R (decrement k tc incs wh b)"
  unfolding increment_def decrement_def using assms
  by (intro kept R_batch; auto simp: safe_stmt_def list_all_iff)+

lemma kept_table_update:
  assumes "good_engine k" and "tc \<in> set indexer_schemas" and "list_all (\<lambda>c. \<not> ohas upd c) (primaryKey tc)"
  shows "keeps R (table_update k tc wh upd b)"
  unfolding table_update_def
proof (rule kept_built)
  fix q
  assume "queryBuilder tc wh (primaryKey tc) = Inr q"
  from queryBuilder_table [OF this] assms
  show "keeps R (bnd (run_batch k b [SUpdate q upd]) (\<lambda>rs. ret (res_count rs)))"
    by (intro kept R_batch) (auto simp: safe_stmt_def list_all_iff)
qed

subsection \<open>Reads and bookkeeping\<close>

lemma kept_if [kept]:
  "keeps R a \<Longrightarrow> keeps R b \<Longrightarrow> keeps R (if c then a else b)"
  by simp

lemma kept_split [kept]:
  "(\<And>a b. keeps R (f a b)) \<Longrightarrow> keeps R (case p of (a, b) \<Rightarrow> f a b)"
  by (cases p) simp

lemma kept_option [kept]:
  "keeps R n \<Longrightarrow> (\<And>x. keeps R (s x)) \<Longrightarrow>
     keeps R (case r of None \<Rightarrow> n | Some x \<Rightarrow> s x)"
  by (cases r) auto

lemma kept_list [kept]:
  "keeps R n \<Longrightarrow> (\<And>x xs. keeps R (s x xs)) \<Longrightarrow>
     keeps R (case r of [] \<Rightarrow> n | x # xs \<Rightarrow> s x xs)"
  by (cases r) auto

lemma kept_reads [kept]:
  "keeps R (table_find eng tc params cs)" "keeps R (table_count eng tc params)"
  "keeps R (rawQuery eng st)"
  unfolding table_find_def table_count_def rawQuery_def Let_def by (intro kept)+

lemma kept_requests [kept]:
  "keeps R (requestConnector X m p)" "keeps R (propA v k)"
  "keeps R (pathA v ks)" "keeps R (elemsA v)" "keeps R (lisk32A X pk)"
  "keeps R (q96A X v)" "keeps R (param tx k)" "keeps R (sender_address X tx)"
  unfolding iact_defs q96A_def param_def sender_address_def by (intro kept)+

lemma kept_spawn [kept]: "keeps R m \<Longrightarrow> keeps R (spawn m)"
  unfolding spawn_def by (intro kept)

lemma kept_constants [kept]:
  "keeps R (getFinalizedHeight X)" "keeps R (getGenesisHeight X)"
  "keeps R (getPosTokenID X)" "keeps R (ensure_processors X)"
  unfolding getFinalizedHeight_def updateFinalizedHeight_def getGenesisHeight_def getPosTokenID_def
    getPosConstants_def ensure_processors_def buildModuleCommandProcessorMap_def
  by (intro kept R_state; simp)+

lemma kept_getIndexedAccountInfo [kept]: "keeps R (getIndexedAccountInfo X p c)"
  unfolding getIndexedAccountInfo_def by (intro kept)

lemma kept_kv_get [kept]: "keeps R (kv_get X k)"
  unfolding kv_get_def Let_def by (intro kept)

lemma kept_getEventsByHeight [kept]: "keeps R (getEventsByHeight X h)"
  unfolding getEventsByHeight_def getEventsByHeightFromNode_def by (intro kept R_state) simp

lemma kept_cache [kept]:
  "keeps R (deleteEventsFromCache h)" "keeps R (queue_add n v)"
  unfolding deleteEventsFromCache_def queue_add_def by (intro kept R_state; simp)+

lemma kept_signal [kept]:
  "keeps R (dispatch ''deleteTransactions'' v)" "keeps R (dispatch ''newBlock'' v)"
  "keeps R (dispatch ''deleteBlock'' v)" "keeps R (dispatch ''newRound'' v)"
  "keeps R (dispatch ''indexStatUpdate'' v)"
  by (simp_all add: R_signal)

subsection \<open>Transaction processors\<close>

lemma kept_account_writes [kept]:
  assumes "good_engine (kx X)"
  shows "keeps R (upsert_account X a)" "keeps R (updateAccountPublicKey X pk)"
    "keeps R (kv_set X k v b)"
  unfolding upsert_account_def updateAccountPublicKey_def kv_set_def Let_def
  by (intro kept assms)+

lemma kept_audio:
  assumes "good_engine (kx X)"
  shows "list_all (\<lambda>(c, a, r). keeps R (a X h tx evs) \<and> keeps R (r X h tx evs))
    audio_processors"
  unfolding audio_processors_def list.pred_inject case_prod_conv audio_handler_defs guarded_def
    store_owner_def store_feat_def reclaim_one_def find_owner_def debit_sender_def credit_recipient_def Let_def
  by (intro kept conjI assms list.pred_inject(1))

lemma kept_music:
  assumes "good_engine (kx X)"
  shows "list_all (\<lambda>(c, a, r). keeps R (a X h tx evs) \<and> keeps R (r X h tx evs))
    (collection_processors @ profile_processors @ subscription_processors)"
  unfolding collection_processors_def profile_processors_def subscription_processors_def
    append.simps list.pred_inject case_prod_conv music_handler_defs
    rewrite_subscription_def add_member_def mark_removed_def store_social_def Let_def
  by (intro kept conjI assms list.pred_inject(1))

lemma kept_stake_writes [kept]:
  assumes "good_engine (kx X)"
  shows "keeps R (incrementStakeTrx X s)" "keeps R (decrementStakeTrx X s)"
    "keeps R (updateTotalStake X n)" "keeps R (updateTotalSelfStake X n)"
  unfolding incrementStakeTrx_def decrementStakeTrx_def updateTotalStake_def updateTotalSelfStake_def
    stored_total_def Let_def
  by (intro kept assms kept_counters; simp add: stakesTableSchema_def)+

lemma kept_stakes [kept]:
  assumes "good_engine (kx X)"
  shows "keeps R (apply_stakes X ss t s)" "keeps R (revert_stakes X ss t s)"
proof -
  show "keeps R (apply_stakes X ss t s)"
  proof (induction ss arbitrary: t s)
    case Nil
    show ?case unfolding apply_stakes.simps by (intro kept)
  next
    case (Cons a ss)
    show ?case unfolding apply_stakes.simps by (intro kept Cons.IH assms)
  qed
  show "keeps R (revert_stakes X ss t s)"
  proof (induction ss arbitrary: t s)
    case Nil
    show ?case unfolding revert_stakes.simps by (intro kept)
  next
    case (Cons a ss)
    show ?case unfolding revert_stakes.simps by (intro kept Cons.IH assms)
  qed
qed

lemma kept_validator_caches [kept]:
  "keeps R (getPosConstants X)" "keeps R (isPosModuleRegistered X)"
  "keeps R (computeValidatorRank X)" "keeps R (set_status X as bs i)"
  "keeps R (weigh_validator v)"
  unfolding getPosConstants_def isPosModuleRegistered_def computeValidatorRank_def set_rank_def set_status_def
    weigh_validator_def verifyIfPunished_def
  by (intro kept R_state; simp)+

lemma kept_getNameByAddress [kept]:
  "good_engine (kx X) \<Longrightarrow> keeps R (getNameByAddress X a)"
  unfolding getNameByAddress_def Let_def by (intro kept)

lemma kept_business_getGenerators [kept]:
  "good_engine (kx X) \<Longrightarrow> keeps R (business_getGenerators X)"
  unfolding business_getGenerators_def reloadGeneratorsCache_def getGeneratorsInfo_def generator_info_def
  by (intro kept R_state) simp_all

lemma kept_reloadValidatorCache [kept]:
  assumes "good_engine (kx X)"
  shows "keeps R (reloadValidatorCache X)"
proof -
  have "keeps R (loadAllPosValidators X)"
    unfolding loadAllPosValidators_def getAllPosValidators_def cache_validator_def
    by (intro kept assms R_state) simp_all
  moreover have "keeps R (computeValidatorStatus X)"
    unfolding computeValidatorStatus_def Let_def by (intro kept assms)
  ultimately show ?thesis
    unfolding reloadValidatorCache_def by (intro kept)
qed

lemma kept_base:
  assumes "good_engine (kx X)"
  shows "list_all (\<lambda>(c, a, r). keeps R (a X h tx evs) \<and> keeps R (r X h tx evs))
    (interoperability_processors @ legacy_processors @ pos_processors @ token_processors)"
  unfolding interoperability_processors_def legacy_processors_def pos_processors_def
    token_processors_def append.simps list.pred_inject(2) case_prod_conv pos_handler_defs
    reportMisbehavior_apply_def reportMisbehavior_revert_def
    getCommissionIndexingInfo_def getStakeIndexingInfo_def stake_entry_def index_transfer_def
    if_success_def getChainInfo_def getChainAccount_def getMainchainID_def Let_def
  by (intro kept conjI assms list.pred_inject(1))

lemma kept_auth:
  assumes "good_engine (kx X)"
  shows "list_all (\<lambda>(c, a, r). keeps R (a X h tx evs) \<and> keeps R (r X h tx evs))
    auth_processors"
  unfolding auth_processors_def list.pred_inject(2) case_prod_conv multisignature_handler_defs
    resolveMultisignatureMemberships_def multisignature_member_def
  by (intro kept conjI assms list.pred_inject(1))

lemma kept_processor_member:
  assumes "good_engine (kx X)" and "find_processor m c = Some (a, r)"
  shows "keeps R (a X h tx evs)" "keeps R (r X h tx evs)"
proof -
  have "list_all (\<lambda>(c, a, r). keeps R (a X h tx evs) \<and> keeps R (r X h tx evs))
    (audio_processors @ (collection_processors @ profile_processors @ subscription_processors)
      @ (interoperability_processors @ legacy_processors @ pos_processors @ token_processors) @ auth_processors)"
    using kept_audio [OF assms(1)] kept_music [OF assms(1)] kept_base [OF assms(1)] kept_auth [OF assms(1)]
    by (simp only: list_all_append)
  with find_processor_member [OF assms(2)]
  have "keeps R (a X h tx evs) \<and> keeps R (r X h tx evs)"
    unfolding list_all_iff by (metis (no_types, lifting) case_prod_conv)
  then show "keeps R (a X h tx evs)" "keeps R (r X h tx evs)" by simp_all
qed

lemma kept_dispatch:
  assumes "good_engine (kx X)"
  shows "keeps R (applyTransaction X h tx evs)" "keeps R (revertTransaction X h tx evs)"
proof -
  have ap: "keeps R (case find_processor m c of None \<Rightarrow> throw e | Some (a, r) \<Rightarrow> a X h tx evs)"
    and rv: "keeps R (case find_processor m c of None \<Rightarrow> throw e | Some (a, r) \<Rightarrow> r X h tx evs)" for m c e
    using kept_processor_member [OF assms, of m c] by (auto simp: keeps_throw R_refl split: option.splits prod.splits)
  show "keeps R (applyTransaction X h tx evs)"
    unfolding applyTransaction_def by (intro ap kept)
  show "keeps R (revertTransaction X h tx evs)"
    unfolding revertTransaction_def by (intro rv kept)
qed

subsection \<open>Job handlers\<close>

lemma kept_updateTotalLockedAmounts [kept]:
  "good_engine (kx X) \<Longrightarrow> keeps R (updateTotalLockedAmounts X cs)"
  unfolding updateTotalLockedAmounts_def stored_total_def Let_def by (intro kept)

lemma kept_indexGenesisBlockAssets [kept]:
  "good_engine (kx X) \<Longrightarrow> keeps R (indexGenesisBlockAssets X)"
  unfolding indexGenesisBlockAssets_def indexTokenModuleAssets_def indexPosModuleAssets_def
    request_assets_def by (intro kept)

lemma kept_validator_writes [kept]:
  assumes "good_engine (kx X)"
  shows "keeps R (count_generated X g)" "keeps R (index_reward X g evs)"
  unfolding count_generated_def index_reward_def calcCommission_def calcSelfStakeReward_def Let_def
  by (intro kept assms kept_counters; simp add: validatorsTableSchema_def)+

lemma kept_index_events [kept]:
  "good_engine (kx X) \<Longrightarrow> keeps R (index_events X b g evs)"
  unfolding index_events_def by (intro kept)

lemma kept_getTransactions [kept]: "keeps R (getTransactions X p)"
  unfolding getTransactions_def mergeTransactions_def getPendingTransactions_def
    business_getTransactions_def getTransactionsByIDs_def getTransactionByID_def enrich_transaction_def
    tx_sender_def tx_recipient_def Let_def
  by (intro kept)

lemma kept_updateBlockIndex:
  "good_engine (kx X) \<Longrightarrow> keeps R (updateBlockIndex X data)"
  unfolding updateBlockIndex_def by (intro kept)

lemma kept_deleteEventStr:
  assumes "good_engine (kx X)"
  shows "keeps R (deleteEventStrTillFinalizedHeight X)"
proof -
  have upd: "keeps R (table_update (kx X) eventsTableSchema wh [(''eventStr'', JNull)] True)" for wh
    using schemas_of_service by (intro kept_table_update assms) (simp_all add: eventsTableSchema_def)
  show ?thesis
    unfolding deleteEventStrTillFinalizedHeight_def by (intro kept assms upd)
qed

end

locale kept_processor = service_relation R + tx_processor process for R process +
  assumes kept_process: "good_engine (kx X) \<Longrightarrow> keeps R (process X h tx evs)"
begin

lemma kept_index_block:
  assumes "good_engine (kx X)"
  shows "keeps R (index_block_with process X data)"
  unfolding index_block_with_def index_block_body_def index_block_rows_def index_tx_def Let_def
  by (intro kept assms kept_process)

lemma kept_delete_blocks:
  assumes "good_engine (kx X)"
  shows "keeps R (delete_blocks_with process X data)"
  unfolding delete_blocks_with_def delete_one_def revert_tx_step_def deleted_transaction_def
    getTransactionIDsByBlockID_def Let_def
  by (intro kept assms kept_process)

end

sublocale service_relation < apply_kept: kept_processor R applyTransaction
  by unfold_locales (rule dispatch_confined kept_dispatch, assumption)+

sublocale service_relation < revert_kept: kept_processor R revertTransaction
  by unfold_locales (rule dispatch_confined kept_dispatch, assumption)+

subsection \<open>The service as a state machine\<close>

text \<open>
  What the service runs: the job handlers of its queues, the handlers of the block, account
  and event messages, the listeners of its signals and its scheduled jobs, each with any input.
\<close>

inductive service_action :: "ext \<Rightarrow> unit iact \<Rightarrow> bool" for X where
  act_index: "service_action X (indexBlock X data)"
| act_update: "service_action X (updateBlockIndex X data)"
| act_delete: "service_action X (deleteIndexedBlocks X data)"
| act_events: "service_action X (deleteEventStrTillFinalizedHeight X)"
| act_non_final: "service_action X (updateNonFinalBlocks X)"
| act_verified: "service_action X (setIndexVerifiedHeight X height)"
| act_block_job: "service_action X (process_block_job X data)"
| act_account_job: "service_action X (process_account_job data)"
| act_event_job: "service_action X (process_event_job X data)"
| act_account_pk: "service_action X (updateAccountInfoPk X data)"
| act_account_addr: "service_action X (updateAccountInfoAddr X data)"
| act_account_data: "service_action X (updateAccountWithData X data)"
| act_account_cache: "service_action X (updateAccountsCacheListener X data)"
| act_readiness: "service_action X (checkIndexReadiness X)"
| act_report: "service_action X (reportIndexStatus X)"
| act_finalized: "service_action X (updateFinalizedHeight X)"
| act_validators: "service_action X (reloadValidatorCache X)"
| act_commissions: "service_action X (indexValidatorCommissionInfo X block)"
| act_stakers: "service_action X (indexStakersInfo X block)"

text \<open>One step of the service: one of these runs to its end, returning or throwing.\<close>

inductive job_step :: "ext \<Rightarrow> iworld \<Rightarrow> iworld \<Rightarrow> bool" for X where
  step: "service_action X m \<Longrightarrow> job_step X w (snd (m w))"

context service_relation
begin

lemma kept_scheduling [kept]:
  assumes "good_engine (kx X)"
  shows "keeps R (indexNewBlock X block)" "keeps R (updateNonFinalBlocks X)"
    "keeps R (setIndexVerifiedHeight X h)"
proof -
  show "keeps R (indexNewBlock X block)"
    unfolding indexNewBlock_def schedule_finality_def schedule_fork_def Let_def by (intro kept)
  show "keeps R (setIndexVerifiedHeight X h)"
    unfolding setIndexVerifiedHeight_def by (intro kept assms)
  have "keeps R (case (a, b) of (JNum x, JNum y) \<Rightarrow> buildIndex x y | _ \<Rightarrow> ret ())" for a b
    unfolding buildIndex_def by (auto simp del: run_ret split: jsval.splits intro!: kept)
  then show "keeps R (updateNonFinalBlocks X)"
    unfolding updateNonFinalBlocks_def getCurrentHeight_def getMinNonFinalHeight_def by (intro kept; simp)
qed

lemma kept_getBlockByHeight [kept]:
  assumes "good_engine (kx X)"
  shows "keeps R (getBlockByHeight X h)"
  unfolding getBlockByHeight_def normalizeBlock_def normalize_block_body_def block_generator_def
    getNameByAddress_def block_events_info_def Let_def
  by (intro kept assms)

lemma kept_getBlocks [kept]:
  assumes "good_engine (kx X)"
  shows "keeps R (getBlocks X ps)" "keeps R (normalizeBlocks X bs)"
  unfolding getBlocks_def getBlocksFromServer_def business_getBlocks_def fetch_blocks_def
    getBlocksByIDs_def getLastBlock_def getBlockByID_def getTotalNumberOfBlocks_def
    getBlockByHeight_def normalizeBlocks_def normalizeBlock_def normalize_block_body_def block_generator_def
    block_events_info_def setLastBlock_def getCachedLastBlock_def Let_def
  by (intro kept assms R_state; simp)+

lemma kept_validateIndexReadiness [kept]: "keeps R (validateIndexReadiness X s)"
  unfolding validateIndexReadiness_def getIndexStats_def getCurrentHeight_def by (intro kept)

lemma kept_index_status [kept]:
  assumes "good_engine (kx X)"
  shows "keeps R (reportIndexStatus X)" "keeps R (updateFinalizedHeight X)"
    "keeps R (indexValidatorCommissionInfo X block)" "keeps R (indexStakersInfo X block)"
  unfolding reportIndexStatus_def getIndexStats_def getCurrentHeight_def updateFinalizedHeight_def
    indexValidatorCommissionInfo_def indexStakersInfo_def Let_def
  by (intro kept assms R_state; simp)+

lemma kept_account_index [kept]:
  assumes "good_engine (kx X)"
  shows "keeps R (updateAccountInfoPk X v)" "keeps R (updateAccountInfoAddr X v)"
    "keeps R (updateAccountWithData X v)" "keeps R (updateAccountsCacheListener X v)"
  unfolding updateAccountInfoPk_def updateAccountInfoAddr_def updateAccountWithData_def
    updateAccountsCacheListener_def
    missing_function_def upsert_accounts_def
  by (intro kept assms)+

lemma kept_account_job [kept]: "keeps R (process_account_job v)"
  unfolding process_account_job_def addAccountToDirectUpdateQueue_def by (intro kept)

lemma kept_event_jobs [kept]:
  assumes "good_engine (kx X)"
  shows "keeps R (process_event_job X v)" "keeps R (process_block_job X v)"
proof -
  have "keeps R (newBlockProcessor X b)" "keeps R (deleteBlockProcessor X b)" for b
    unfolding newBlockProcessor_def deleteBlockProcessor_def performLastBlockUpdate_def setLastBlock_def deleteBlock_def Let_def
    by (intro kept assms R_state; simp)+
  moreover have "keeps R (newRoundProcessor X)"
    unfolding newRoundProcessor_def reloadGeneratorsCache_def getGeneratorsInfo_def generator_info_def
      getNumberOfGenerators_def getGenerators_def getAllValidators_def
    by (intro kept assms R_state) simp_all
  ultimately show "keeps R (process_event_job X v)"
    unfolding process_event_job_def by (intro kept)
  show "keeps R (process_block_job X v)"
    unfolding process_block_job_def addBlockToQueue_def by (intro kept assms)
qed

text \<open>Everything but the readiness check keeps the relation.\<close>

lemma kept_action:
  assumes "good_engine (kx X)" and "service_action X m"
  shows "keeps R m \<or> m = checkIndexReadiness X"
  using assms(2)
proof cases
  case act_index
  then show ?thesis using apply_kept.kept_index_block [OF assms(1)] by (simp add: indexBlock_def)
next
  case act_update
  then show ?thesis using kept_updateBlockIndex [OF assms(1)] by simp
next
  case act_delete
  then show ?thesis using revert_kept.kept_delete_blocks [OF assms(1)] by (simp add: deleteIndexedBlocks_def)
next
  case act_events
  then show ?thesis using kept_deleteEventStr [OF assms(1)] by simp
qed (simp_all add: kept_scheduling kept_index_status kept_account_index kept_account_job kept_event_jobs
      kept_reloadValidatorCache assms(1))

end

end
