(* ===== verification/DbInvariant.thy ===== *)
theory DbInvariant
  imports ServiceRel
begin

text \<open>
  The database invariant of the indexer, kept by every transaction processor and by every job
  handler: each table of the service has the columns and the primary key of its schema, every
  row has exactly these columns with values of their types, and no two rows of a table share a
  primary key. It holds of the committed tables and of the tables an open transaction sees.
\<close>

definition db_ready :: "db \<Rightarrow> bool" where
  "db_ready d \<longleftrightarrow> wf_db d \<and> list_all (\<lambda>tc. table_ready tc d) indexer_schemas"

definition world_ready :: "iworld \<Rightarrow> bool" where
  "world_ready w \<longleftrightarrow> db_ready (committed w) \<and> (\<forall>d. trx w = Some d \<longrightarrow> db_ready d)"

definition stays_ready :: "iworld \<Rightarrow> iworld \<Rightarrow> bool" where
  "stays_ready w w' \<longleftrightarrow> (world_ready w \<longrightarrow> world_ready w')"

lemma reflp_stays [simp]: "reflp stays_ready"
  by (simp add: reflp_def stays_ready_def)

lemma transp_stays [simp]: "transp stays_ready"
  by (auto simp: transp_def stays_ready_def)

subsection \<open>Statements\<close>

lemma sql_run_shape:
  "sql_run jc st d = Inr (r, d') \<Longrightarrow> d t = Some tb \<Longrightarrow>
     \<exists>tb'. d' t = Some tb' \<and> t_cols tb' = t_cols tb \<and> t_pk tb' = t_pk tb"
  by (cases st) (auto simp: with_table_def set_rows_def Let_def split: option.splits if_splits)

lemma db_readyD: "db_ready d \<Longrightarrow> tc \<in> set indexer_schemas \<Longrightarrow> table_ready tc d"
  by (simp add: db_ready_def list_all_iff)

lemma safe_keeps_keys:
  assumes "db_ready d" and "safe_stmt st"
  shows "keeps_keys d st"
proof -
  from assms(2) obtain tc where tc: "tc \<in> set indexer_schemas" "stmt_table st = tableName tc"
    and st: "case st of SCreate _ _ _ \<Rightarrow> False
      | SUpdate _ upd \<Rightarrow> \<forall>k \<in> set (primaryKey tc). \<not> ohas upd k
      | SIncr _ _ incs \<Rightarrow> \<forall>k \<in> set (primaryKey tc). map_of incs k = None
      | SDecr _ _ incs \<Rightarrow> \<forall>k \<in> set (primaryKey tc). map_of incs k = None
      | _ \<Rightarrow> True"
    unfolding safe_stmt_def by blast
  from db_readyD [OF assms(1) tc(1)] obtain tb where "d (tableName tc) = Some tb" "t_pk tb = primaryKey tc"
    by (elim table_readyE)
  with tc st show ?thesis by (cases st) auto
qed

context sql_engine
begin

lemma kx_ready:
  assumes ready: "db_ready d" and safe: "safe_stmt st" and run: "kx st d = Inr (r, d')"
  shows "db_ready d'"
proof -
  have wf: "wf_db d'"
    by (rule kx_wf [OF _ safe_keeps_keys [OF ready safe] run]) (use ready in \<open>simp add: db_ready_def\<close>)
  moreover have "table_ready tc d'" if "tc \<in> set indexer_schemas" for tc
  proof -
    from db_readyD [OF ready that] obtain tb where tb: "d (tableName tc) = Some tb"
      "t_cols tb = column_defs tc" "t_pk tb = primaryKey tc" by (elim table_readyE)
    from sql_run_shape [OF sound [OF run] tb(1)] tb(2,3) wf show ?thesis
      by (auto simp: table_ready_def wf_db_def)
  qed
  ultimately show ?thesis by (simp add: db_ready_def list_all_iff)
qed

lemma run_list_ready:
  "db_ready d \<Longrightarrow> list_all safe_stmt sts \<Longrightarrow> db_ready (snd (run_list kx sts d))"
proof (induction sts arbitrary: d)
  case (Cons st sts)
  show ?case
  proof (cases "kx st d")
    case (Inl e)
    with Cons.prems show ?thesis by simp
  next
    case (Inr p)
    obtain r d1 where p: "p = (r, d1)" by (cases p)
    with Inr Cons.prems have "db_ready d1" using kx_ready [of d st r d1] by simp
    with Cons have "db_ready (snd (run_list kx sts d1))" by simp
    with Inr p show ?thesis by (auto split: sum.splits prod.splits)
  qed
qed simp

lemma ready_run_batch:
  assumes "list_all safe_stmt sts"
  shows "keeps stays_ready (run_batch kx b sts)"
proof -
  have "db_ready d'" if "db_ready d" and "run_list kx sts d = (r, d')" for d r d'
    using run_list_ready [OF that(1) assms] that(2) by simp
  moreover have "db_ready (snd (run_list kx sts d))" if "db_ready d" for d
    by (rule run_list_ready [OF that assms])
  ultimately show ?thesis
    by (auto simp: keeps_def stays_ready_def world_ready_def run_batch_def
        split: option.splits prod.splits sum.splits)
qed

end

subsection \<open>The service keeps the invariant\<close>

interpretation db: service_relation stays_ready
proof
  show "keeps stays_ready (run_batch k b sts)" if "good_engine k" "list_all safe_stmt sts" for k b sts
    using that sql_engine.ready_run_batch by (auto simp: good_engine_def)
qed (auto simp: keeps_def stays_ready_def world_ready_def startDbTransaction_def commitDbTransaction_def
      rollbackDbTransaction_def dispatch_def split: option.splits)

lemma ready_checkIndexReadiness: "keeps stays_ready (checkIndexReadiness X)"
proof -
  have "keeps stays_ready (modA g)" if "\<And>w. committed (g w) = committed w \<and> trx (g w) = trx w" for g
    using that by (simp add: keeps_def stays_ready_def world_ready_def)
  then show ?thesis
    unfolding checkIndexReadiness_def getIndexReadyStatus_def setIndexReadyStatus_def dispatch_def
    by (intro kept) simp_all
qed

text \<open>The contract of a transaction processor extended by the invariant.\<close>

locale ready_processor = tx_processor +
  assumes ready_process: "good_engine (kx X) \<Longrightarrow> keeps stays_ready (process X h tx evs)"

interpretation apply_ready: ready_processor applyTransaction
  by unfold_locales (rule db.kept_dispatch)

interpretation revert_ready: ready_processor revertTransaction
  by unfold_locales (rule db.kept_dispatch)

subsection \<open>Transactions are closed\<close>

lemma transaction_closes:
  assumes "\<And>w u w'. body w = (Inr u, w') \<Longrightarrow> trx w' = None"
  shows "trx (snd (thn startDbTransaction (tryA body
    (\<lambda>e. thn rollbackDbTransaction (if c e then throw (f e) else throw e))) w)) = None"
  using assms
  by (auto simp: thn_def bnd_def tryA_def startDbTransaction_def rollbackDbTransaction_def
      split: sum.splits prod.splits)

lemma commit_last: "thn m (thn n commitDbTransaction) w = (Inr u, w') \<Longrightarrow> trx w' = None"
  by (auto simp: act_ok commitDbTransaction_def split: option.splits)

lemma mapA_propA: "snd (mapA (\<lambda>b. propA b k) bs w) = w"
  by (induction bs) (auto simp: bnd_def propA_def split: sum.splits prod.splits)

text \<open>The handler after it has read the blocks of the job and their ids.\<close>

lemma delete_blocks_run:
  assumes "bindE (js_prop data ''blocks'') js_elems = Inr blocks"
    and "mapA (\<lambda>b. propA b ''id'') blocks w = (Inr idvs, w)"
  shows "delete_blocks_with process X data w = thn startDbTransaction (tryA
      (thn (forA (delete_one process X) blocks)
        (thn (deleteByPrimaryKey (kx X) blocksTableSchema
          (JStr (join '', '' (map (\<lambda>v. if v = JUndef \<or> v = JNull then [] else js_string v) idvs))) False)
          commitDbTransaction))
      (\<lambda>e. thn rollbackDbTransaction (if str_includes ''ER_LOCK_DEADLOCK'' (err_message e)
         then throw (delete_deadlock (join '', '' (map (\<lambda>v. if v = JUndef \<or> v = JNull then [] else js_string v) idvs)))
         else throw e))) w"
  using assms
  by (auto simp: delete_blocks_with_def propA_def elemsA_def bnd_def bindE_def Let_def
      simp del: run_throw split: sum.splits)

lemma delete_blocks_closes:
  assumes closed: "trx w = None"
  shows "trx (snd (delete_blocks_with process X data w)) = None"
proof (cases "bindE (js_prop data ''blocks'') js_elems")
  case (Inl e)
  with closed show ?thesis
    by (auto simp: delete_blocks_with_def propA_def elemsA_def bnd_def bindE_def split: sum.splits)
next
  case (Inr blocks)
  obtain r where ids: "mapA (\<lambda>b. propA b ''id'') blocks w = (r, w)"
    using mapA_propA [of "''id''" blocks w] by (metis prod.collapse)
  show ?thesis
  proof (cases r)
    case (Inl e)
    with ids Inr closed show ?thesis
      by (auto simp: delete_blocks_with_def propA_def elemsA_def bnd_def bindE_def split: sum.splits)
  next
    case (Inr idvs)
    from delete_blocks_run [OF \<open>bindE (js_prop data ''blocks'') js_elems = Inr blocks\<close>] ids Inr
    show ?thesis by (simp only: transaction_closes [OF commit_last])
  qed
qed

context tx_processor
begin

lemma index_block_closes:
  assumes eng: "sql_engine jc (kx X)" and closed: "trx w = None"
  shows "trx (snd (index_block_with process X data w)) = None"
proof (cases "index_block_with process X data w")
  case (Pair r w')
  show ?thesis
  proof (cases r)
    case (Inl e)
    with Pair index_block_all_or_nothing [OF eng _ closed] show ?thesis by simp
  next
    case (Inr u)
    with Pair obtain block w1 where "index_block_body process X block w1 = (Inr u, w')"
      by (auto simp: index_block_with_def act_ok startDbTransaction_def rollbackDbTransaction_def
          split: if_splits)
    from index_block_body_ok [OF eng this] Pair show ?thesis by auto
  qed
qed

end

subsection \<open>The service as a state machine\<close>

definition service_ok :: "iworld \<Rightarrow> bool" where
  "service_ok w \<longleftrightarrow> world_ready w \<and> trx w = None"

lemma job_step_ready:
  assumes "good_engine (kx X)" and "job_step X w w'" and "world_ready w"
  shows "world_ready w'"
  using assms(2)
proof cases
  case (step m)
  then have "keeps stays_ready m"
    using db.kept_action [OF assms(1)] ready_checkIndexReadiness by auto
  with step assms(3) show ?thesis by (simp add: keeps_def stays_ready_def)
qed

lemma within_closed: "keeps (within T) m \<Longrightarrow> trx w = None \<Longrightarrow> trx (snd (m w)) = None"
  by (simp add: keeps_def within_def)

lemma within_kv_set:
  "sql_engine jc (kx X) \<Longrightarrow> keeps (within {''key_value_store''}) (kv_set X k v False)"
  unfolding kv_set_def Let_def by (intro confined sql_engine.within_upsert) (simp_all add: kv_columns)

lemma within_scheduling:
  "keeps (within {}) (indexNewBlock X block)" "keeps (within {}) (updateNonFinalBlocks X)"
proof -
  show "keeps (within {}) (indexNewBlock X block)"
    unfolding indexNewBlock_def schedule_finality_def schedule_fork_def Let_def by (intro confined)
  have "keeps (within {}) (case (a, b) of (JNum x, JNum y) \<Rightarrow> buildIndex x y | _ \<Rightarrow> ret ())" for a b
    unfolding buildIndex_def by (auto simp del: run_ret split: jsval.splits intro!: confined)
  then show "keeps (within {}) (updateNonFinalBlocks X)"
    unfolding updateNonFinalBlocks_def getMinNonFinalHeight_def by (intro confined; simp)
qed

lemma guarded_transaction_closes:
  "trx (snd (thn startDbTransaction (tryA (bnd m (\<lambda>x. thn (n x) (thn k commitDbTransaction)))
     (\<lambda>_. rollbackDbTransaction)) w)) = None"
  by (auto simp: tryA_def bnd_def thn_def commitDbTransaction_def rollbackDbTransaction_def
      startDbTransaction_def split: sum.splits prod.splits option.splits)

lemma closed_bnd:
  assumes "keeps (within {}) m" and "trx w = None" and "\<And>x w'. trx w' = None \<Longrightarrow> trx (snd (f x w')) = None"
  shows "trx (snd (bnd m f w)) = None"
proof (cases "m w")
  case (Pair r w1)
  from keepsD [OF assms(1) Pair] assms(2) have "trx w1 = None" by (simp add: within_def)
  with Pair assms(3) show ?thesis by (cases r) (simp_all add: bnd_def)
qed

lemma deleteEventStr_closes:
  assumes "trx w = None"
  shows "trx (snd (deleteEventStrTillFinalizedHeight X w)) = None"
  unfolding deleteEventStrTillFinalizedHeight_def
  by (intro closed_bnd within_kv_get within_getFinalizedHeight assms) (assumption | rule guarded_transaction_closes)+

lemma within_getBlocks:
  assumes "sql_engine jc (kx X)"
  shows "keeps (within {''accounts''}) (getBlocks X ps)" "keeps (within {''accounts''}) (normalizeBlocks X bs)"
  unfolding getBlocks_def getBlocksFromServer_def business_getBlocks_def fetch_blocks_def
    getBlocksByIDs_def getLastBlock_def getTotalNumberOfBlocks_def
    normalizeBlocks_def setLastBlock_def getCachedLastBlock_def Let_def
  by (intro confined within_spawn within_getBlockByID [OF assms] within_getBlockByHeight [OF assms]
      within_normalizeBlock [OF assms] within_modA; simp)+

lemma within_index_status:
  "keeps (within {}) (checkIndexReadiness X)" "keeps (within {}) (reportIndexStatus X)"
  "keeps (within {}) (process_account_job v)" "keeps (within {}) (updateFinalizedHeight X)"
  unfolding checkIndexReadiness_def reportIndexStatus_def validateIndexReadiness_def getIndexStats_def
    getIndexReadyStatus_def setIndexReadyStatus_def getCurrentHeight_def
    process_account_job_def addAccountToDirectUpdateQueue_def
  by (intro confined within_modA; simp)+

lemma within_account_index:
  assumes "sql_engine jc (kx X)"
  shows "keeps (within {''accounts''}) (updateAccountInfoPk X v)" "keeps (within {''accounts''}) (updateAccountInfoAddr X v)"
    "keeps (within {''accounts''}) (updateAccountWithData X v)" "keeps (within {''accounts''}) (updateAccountsCacheListener X v)"
  unfolding updateAccountInfoPk_def updateAccountInfoAddr_def updateAccountWithData_def
    updateAccountsCacheListener_def missing_function_def upsert_accounts_def
  by (intro confined sql_engine.within_upsert [OF assms]; simp add: accountsTableSchema_def)+

lemma within_genesis_info:
  assumes "sql_engine jc (kx X)"
  shows "keeps (within {''commissions''}) (indexValidatorCommissionInfo X b)" "keeps (within {''stakes''}) (indexStakersInfo X b)"
  unfolding indexValidatorCommissionInfo_def indexStakersInfo_def Let_def
  by (intro confined sql_engine.within_upsert [OF assms]; simp add: commissionsTableSchema_def stakesTableSchema_def)+

lemma within_event_jobs:
  assumes "sql_engine jc (kx X)"
  shows "keeps (within {''accounts''}) (process_event_job X v)" "keeps (within {''accounts''}) (process_block_job X v)"
proof -
  have new: "keeps (within {''accounts''}) (indexNewBlock X b)" for b
    by (rule within_mono [OF _ within_scheduling(1)]) simp
  have "keeps (within {''accounts''}) (newBlockProcessor X b)" "keeps (within {''accounts''}) (deleteBlockProcessor X b)" for b
    unfolding newBlockProcessor_def deleteBlockProcessor_def performLastBlockUpdate_def setLastBlock_def deleteBlock_def Let_def
    by (intro confined new within_getBlocks [OF assms] within_modA; simp)+
  moreover have "keeps (within {''accounts''}) (newRoundProcessor X)"
    unfolding newRoundProcessor_def reloadGeneratorsCache_def getGeneratorsInfo_def generator_info_def
      getNumberOfGenerators_def getGenerators_def getAllValidators_def
    by (intro confined within_reloadValidatorCache [OF assms] within_getNameByAddress [OF assms]
        within_business_getGenerators [OF assms] within_modA) simp_all
  ultimately show "keeps (within {''accounts''}) (process_event_job X v)"
    unfolding process_event_job_def by (intro confined)
  show "keeps (within {''accounts''}) (process_block_job X v)"
    unfolding process_block_job_def addBlockToQueue_def
    by (intro confined new within_spawn within_getBlockByHeight [OF assms])
qed

lemma service_action_closes:
  assumes eng: "sql_engine jc (kx X)" and act: "service_action X m" and closed: "trx w = None"
  shows "trx (snd (m w)) = None"
  using act
proof cases
  case act_index
  then show ?thesis using apply_tx.index_block_closes [OF eng closed] by (simp add: indexBlock_def)
next
  case act_update
  have "keeps (within {''blocks''}) (updateBlockIndex X v)" for v
    unfolding updateBlockIndex_def
    by (intro confined sql_engine.within_upsert [OF eng]) (simp add: blocksTableSchema_def)
  from within_closed [OF this closed] act_update show ?thesis by simp
next
  case act_delete
  then show ?thesis using delete_blocks_closes [OF closed] by (simp add: deleteIndexedBlocks_def)
next
  case act_events
  then show ?thesis using deleteEventStr_closes [OF closed] by simp
next
  case act_verified
  then show ?thesis using within_closed [OF within_kv_set [OF eng] closed] by (simp add: setIndexVerifiedHeight_def)
qed (simp_all add: closed within_closed [OF within_scheduling(2)] within_closed [OF within_index_status(1)]
      within_closed [OF within_index_status(2)] within_closed [OF within_index_status(3)]
      within_closed [OF within_index_status(4)] within_closed [OF within_account_index(1) [OF eng]]
      within_closed [OF within_account_index(2) [OF eng]] within_closed [OF within_account_index(3) [OF eng]]
      within_closed [OF within_account_index(4) [OF eng]] within_closed [OF within_genesis_info(1) [OF eng]]
      within_closed [OF within_genesis_info(2) [OF eng]] within_closed [OF within_event_jobs(1) [OF eng]]
      within_closed [OF within_event_jobs(2) [OF eng]] within_closed [OF within_reloadValidatorCache [OF eng]])

lemma job_step_closes:
  assumes "sql_engine jc (kx X)" and "job_step X w w'" and "trx w = None"
  shows "trx w' = None"
  using assms(2) by cases (simp add: service_action_closes [OF assms(1) _ assms(3)])


lemma db_ready_fresh: "db_ready fresh_db"
proof -
  have "wf_db fresh_db"
    unfolding wf_db_def
  proof (intro allI impI)
    fix t tb
    assume t: "fresh_db t = Some tb"
    then obtain tc where "List.find (\<lambda>tc. tableName tc = t) indexer_schemas = Some tc"
      by (auto simp: fresh_db_def split: option.splits)
    then have "tc \<in> set indexer_schemas" "tableName tc = t" by (auto simp: find_Some_iff in_set_conv_nth)
    with table_ready_fresh [of tc] t show "wf_table tb" by (simp add: table_ready_def)
  qed
  then show ?thesis by (simp add: db_ready_def list_all_iff table_ready_fresh)
qed

lemma service_ok_fresh: "service_ok fresh_world"
  by (simp add: service_ok_def world_ready_def db_ready_fresh) (simp add: fresh_world_def)


end
