(* ===== verification/BlockProps.thy ===== *)
theory BlockProps
  imports DbInvariant
begin

text \<open>
  What the job handlers and the scheduling functions of \<open>blockchainIndex.js\<close> promise: indexing
  a block is all or nothing, an indexed block can be read back, what is queued, and which
  heights are reported missing.
\<close>

subsection \<open>Indexing a block\<close>


definition bare_block :: jsval where
  "bare_block = JObj [(''block'', JObj [(''height'', JNum 5)])]"


lemma block_row_oget:
  assumes "block_row (JObj b) events reward = Inr (JObj ob)"
    and "c \<notin> {''assetsModules'', ''numberOfEvents'', ''reward''}"
  shows "oget ob c = oget b c" and "ohas ob c = ohas b c"
  using assms by (auto simp: block_row_def act_ok own_props_def)

lemma block_key:
  assumes row: "mapRow (schema blocksTableSchema) (JObj ob) = Inr row"
    and h: "oget ob ''height'' = JNum h" "ohas ob ''height''"
  shows "map (\<lambda>c. store_val (col_type (column_defs blocksTableSchema) c) (oget row c))
    (primaryKey blocksTableSchema) = [JNum h]"
proof -
  from map_columns_oget [of "schema blocksTableSchema" ob row "''height''"] row h
  have "oget row ''height'' = JNum h"
    by (auto simp: blocksTableSchema_def cast_def getValue_def)
  then show ?thesis
    by (simp add: blocksTableSchema_def column_defs_def col_type_def store_val_def is_numeric_type_def)
qed

context ready_processor
begin

lemma index_block_visible:
  assumes eng: "sql_engine jc (kx X)" and ready: "world_ready w"
    and run: "index_block_with process X data w = (Inr u, w')"
    and block: "js_prop data ''block'' = Inr (JObj b)" and h: "oget b ''height'' = JNum h" "ohas b ''height''"
    and id: "oget b ''id'' = JStr i" "ohas b ''id''"
  shows "trx w' = None \<and> (\<exists>r. lookup_row [''height''] [JNum h] (rows_of (committed w') ''blocks'') = Some r
    \<and> oget r ''id'' = JStr i)"
proof -
  from run block obtain w0 where w0: "w0 = w\<lparr>trx := Some (committed w)\<rparr>"
    and body: "index_block_body process X (JObj b) w0 = (Inr u, w')"
    by (auto simp: index_block_with_def act_ok propA_def startDbTransaction_def rollbackDbTransaction_def
        split: if_splits)
  from index_block_body_ok [OF eng body] obtain events reward ob row w1 d tb where
    br: "block_row (JObj b) events reward = Inr (JObj ob)"
    and rows: "index_block_rows process X (JObj b) w0 = (Inr (JObj ob), w1)"
    and row: "mapRow (schema blocksTableSchema) (JObj ob) = Inr row"
    and d: "trx w1 = Some d" and tb: "d ''blocks'' = Some tb"
    and ok: "insert_error (t_cols tb) (t_pk tb) row = None"
    and w': "w' = w1\<lparr>committed := put_row ''blocks'' row d, trx := None\<rparr>" by blast
  have good: "good_engine (kx X)" using eng by (auto simp: good_engine_def)
  have "keeps stays_ready (index_block_rows process X (JObj b))"
    unfolding index_block_rows_def index_tx_def Let_def by (intro kept good ready_process)
  from keepsD [OF this rows] ready have "world_ready w1" by (simp add: stays_ready_def w0 world_ready_def)
  with d have td: "table_ready blocksTableSchema d"
    by (simp add: world_ready_def db_ready_def indexer_schemas_def)
  have nm: "tableName blocksTableSchema = ''blocks''" "primaryKey blocksTableSchema = [''height'']"
    by (simp_all add: blocksTableSchema_def)
  note key = block_key [OF row] block_row_oget [OF br]
  from put_row_lookup [OF td, unfolded nm, OF tb ok] key h nm obtain r where
    r: "lookup_row [''height''] [JNum h] (rows_of (put_row ''blocks'' row d) ''blocks'') = Some r"
    and cells: "\<forall>c \<in> set (column_defs blocksTableSchema). ohas row (c_name c) \<longrightarrow>
         oget r (c_name c) = store_val (c_type c) (oget row (c_name c))" by auto
  from map_columns_oget [of "schema blocksTableSchema" ob row "''id''"] row block_row_oget [OF br] id
  have "oget row ''id'' = JStr i" "ohas row ''id''"
    by (auto simp: blocksTableSchema_def cast_def getValue_def)
  with cells have "oget r ''id'' = JStr i"
    by (simp add: blocksTableSchema_def column_defs_def store_val_def is_numeric_type_def)
  with r w' show ?thesis by auto
qed

end

text \<open>
  C3. A block that \<open>indexBlock\<close> returned on is committed: the \<open>blocks\<close> table has, under the
  block's height, a row with the block's id, and the transaction is closed.
\<close>

theorem indexBlock_visible:
  assumes "sql_engine jc (kx X)" and "world_ready w" and "indexBlock X data w = (Inr u, w')"
    and "js_prop data ''block'' = Inr (JObj b)" and "oget b ''height'' = JNum h" and "ohas b ''height''"
    and "oget b ''id'' = JStr i" and "ohas b ''id''"
  shows "trx w' = None \<and> (\<exists>r. lookup_row [''height''] [JNum h] (rows_of (committed w') ''blocks'') = Some r
    \<and> oget r ''id'' = JStr i)"
  using apply_ready.index_block_visible [OF assms(1,2) _ assms(4-8)] assms(3) by (simp add: indexBlock_def)

text \<open>A node whose chain starts at height 0 and whose block 5 transferred tokens once.\<close>

definition node_ext :: ext where
  "node_ext = ref_ext\<lparr>connector := (\<lambda>m _.
     if m = ''getEventsByHeight'' then Inr (JArr [JObj [(''id'', JStr ''e0''), (''module'', JStr ''token''),
        (''name'', JStr ''commandExecutionResult''), (''index'', JNum 0),
        (''data'', JObj [(''success'', JBool True)]), (''topics'', JArr [JStr ''t1''])]])
     else if m = ''getGenesisHeight'' then Inr (JNum 0)
     else if m = ''getSystemMetadata'' then Inr (JObj [(''modules'', JArr [JObj [(''name'', JStr ''token'')]])])
     else Inr JUndef)\<rparr>"

definition block5 :: obj where
  "block5 = [(''id'', JStr ''b5''), (''height'', JNum 5), (''timestamp'', JNum 100),
     (''generatorAddress'', JStr ''lskg''), (''isFinal'', JBool False), (''assets'', JArr []),
     (''transactions'', JArr [JObj [(''id'', JStr ''t1''), (''module'', JStr ''token''),
        (''command'', JStr ''transfer''), (''nonce'', JStr ''0''), (''senderPublicKey'', JStr ''aa''),
        (''size'', JNum 120), (''fee'', JStr ''3''), (''minFee'', JStr ''2''),
        (''params'', JObj [(''recipientAddress'', JStr ''lskr''), (''amount'', JStr ''9'')])]])]"

theorem indexBlock_visible_witness:
  "\<exists>r. lookup_row [''height''] [JNum 5]
      (rows_of (committed (snd (indexBlock node_ext (JObj [(''block'', JObj block5)]) fresh_world))) ''blocks'') = Some r
    \<and> oget r ''id'' = JStr ''b5''"
proof -
  have "fst (indexBlock node_ext (JObj [(''block'', JObj block5)]) fresh_world) = Inr ()" by code_simp
  then have run: "indexBlock node_ext (JObj [(''block'', JObj block5)]) fresh_world
      = (Inr (), snd (indexBlock node_ext (JObj [(''block'', JObj block5)]) fresh_world))"
    by (metis prod.collapse)
  have eng: "sql_engine (\<lambda>_ _. False) (kx node_ext)" using ref_ext_engine by (simp add: node_ext_def)
  have "world_ready fresh_world" using service_ok_fresh by (simp add: service_ok_def)
  from indexBlock_visible [OF eng this run, of block5 5 "''b5''"] show ?thesis
    by (simp add: block5_def ohas_def)
qed

subsection \<open>Deleting blocks\<close>

definition fails :: "'a iact \<Rightarrow> bool" where
  "fails m \<longleftrightarrow> (\<forall>w. isl (fst (m w)))"

lemma fails_bnd: "(\<And>x. fails (f x)) \<Longrightarrow> fails (bnd m f)"
  by (auto simp: fails_def bnd_def split: prod.splits sum.splits)

lemma fails_bnd_left: "fails m \<Longrightarrow> fails (bnd m f)"
  by (auto simp: fails_def bnd_def isl_def split: prod.splits sum.splits) (metis fst_conv sum.disc(2) isl_def)

lemma delete_one_fails:
  assumes "\<not> ohas ob ''header''"
  shows "fails (delete_one process X (JObj ob))"
proof -
  have "fails (pathA (JObj ob) [''header'', ''id''])"
    using assms by (simp add: fails_def pathA_def oget_not_ohas)
  then show ?thesis unfolding delete_one_def by (intro fails_bnd fails_bnd_left)
qed

context tx_processor
begin

lemma delete_blocks_unchanged:
  assumes eng: "sql_engine jc (kx X)" and closed: "trx w = None"
    and blocks: "js_prop data ''blocks'' = Inr (JArr (JObj ob # bs))" and noheader: "\<not> ohas ob ''header''"
  shows "isl (fst (delete_blocks_with process X data w))
    \<and> (\<forall>t. t \<noteq> ''accounts'' \<longrightarrow> committed (snd (delete_blocks_with process X data w)) t = committed w t)"
proof -
  obtain r where ids: "mapA (\<lambda>b. propA b ''id'') (JObj ob # bs) w = (r, w)"
    using mapA_propA [of "''id''" "JObj ob # bs" w] by (metis prod.collapse)
  let ?w0 = "w\<lparr>trx := Some (committed w)\<rparr>"
  obtain e w1 where one: "delete_one process X (JObj ob) ?w0 = (Inl e, w1)"
    using delete_one_fails [OF noheader, of process X]
    by (metis fails_def isl_def prod.collapse)
  have "within {''accounts''} ?w0 w1" by (rule keepsD [OF confined_delete_one [OF eng] one])
  then have same: "\<forall>t. t \<noteq> ''accounts'' \<longrightarrow> committed w1 t = committed w t" by (simp add: within_def)
  show ?thesis
  proof (cases r)
    case (Inl e')
    with ids blocks show ?thesis
      by (simp add: delete_blocks_with_def propA_def elemsA_def run_bnd_Inl)
  next
    case (Inr idvs)
    from blocks have "bindE (js_prop data ''blocks'') js_elems = Inr (JObj ob # bs)" by simp
    from delete_blocks_run [OF this ids [unfolded Inr]] one same show ?thesis
      by (simp add: startDbTransaction_def rollbackDbTransaction_def tryA_def thn_def bnd_def)
  qed
qed

end

text \<open>
  Blocks without a \<open>header\<close> property are never deleted: the handler reads
  \<open>block.header.id\<close>, so a job whose first block has no \<open>header\<close> always throws and leaves
  every committed table other than \<open>accounts\<close> as it was. The blocks queued by
  \<open>indexNewBlock\<close> on a fork have only an \<open>id\<close>, and the blocks the data service returns
  have the header's fields at the top.
\<close>

lemma deleteIndexedBlocks_without_header:
  assumes "sql_engine jc (kx X)" and "trx w = None"
    and "js_prop data ''blocks'' = Inr (JArr (JObj ob # bs))" and "\<not> ohas ob ''header''"
  shows "isl (fst (deleteIndexedBlocks X data w))
    \<and> (\<forall>t. t \<noteq> ''accounts'' \<longrightarrow> committed (snd (deleteIndexedBlocks X data w)) t = committed w t)"
  unfolding deleteIndexedBlocks_def by (rule revert_tx.delete_blocks_unchanged [OF assms])

subsection \<open>Scheduling the index build\<close>

definition height_job :: "int \<Rightarrow> string \<times> jsval" where
  "height_job h = (''indexBlocksQueue'', JObj [(''height'', JNum h)])"

lemma queue_height:
  "queue_add ''indexBlocksQueue'' (JObj [(''height'', JNum h)]) w = (Inr (), w\<lparr>jobs := jobs w @ [height_job h]\<rparr>)"
  by (simp add: queue_add_def height_job_def)

lemma page_heights_single:
  "p < nat (to + 1 - from) \<Longrightarrow> page_heights from to p = [to - int p]"
  by (auto simp: page_heights_def Let_def)

lemma buildIndex_pages:
  assumes "n \<le> nat (to + 1 - from)"
  shows "forA (\<lambda>p. forA (\<lambda>h. queue_add ''indexBlocksQueue'' (JObj [(''height'', JNum h)])) (page_heights from to p))
     [m..<n] w = (Inr (), w\<lparr>jobs := jobs w @ map (\<lambda>p. height_job (to - int p)) [m..<n]\<rparr>)"
  using assms
proof (induction "n - m" arbitrary: m w)
  case (Suc k)
  then have split: "[m..<n] = m # [Suc m..<n]" "page_heights from to m = [to - int m]"
    by (simp_all add: upt_conv_Cons page_heights_single)
  show ?case using Suc by (simp add: split queue_height thn_def bnd_def)
qed simp

lemma buildIndex_run:
  "buildIndex from to w = (Inr (), w\<lparr>jobs := jobs w @ map height_job (rev [from..to])\<rparr>)"
proof (cases "from > to")
  case False
  have "map (\<lambda>p. to - int p) [0..<nat (to + 1 - from)] = rev [from..to]"
    by (rule nth_equalityI) (auto simp: rev_nth)
  then have "map (\<lambda>p. height_job (to - int p)) [0..<nat (to + 1 - from)] = map height_job (rev [from..to])"
    by (metis (no_types, lifting) list.map_comp map_eq_conv comp_apply)
  with False buildIndex_pages [of "nat (to + 1 - from)" "to" "from" 0 w] show ?thesis by (simp add: buildIndex_def)
qed (simp add: buildIndex_def)

text \<open>
  \<open>buildIndex\<close> queues every height of the interval exactly once, from the highest down to
  the lowest, and nothing when the interval is empty; it never throws.
\<close>

lemma buildIndex_queues:
  "buildIndex from to w = (Inr (), w\<lparr>jobs := jobs w @ map height_job (rev [from..to])\<rparr>)"
  by (rule buildIndex_run)

text \<open>
  None of the jobs that \<open>buildIndex\<close> queues can index a block: they carry a height where
  \<open>indexBlock\<close> reads a block, so the handler throws before it opens a transaction and changes
  nothing.
\<close>

lemma buildIndex_jobs_throw:
  assumes "buildIndex from to w0 = (Inr (), w1)" and "(q, data) \<in> set (drop (length (jobs w0)) (jobs w1))"
  shows "isl (fst (indexBlock X data w)) \<and> snd (indexBlock X data w) = w"
  using assms unfolding buildIndex_run
  by (auto simp: height_job_def indexBlock_def index_block_with_def propA_def validateBlock_def)

end
