(* ===== verification/MissingBlocks.thy ===== *)
theory MissingBlocks
  imports DbInvariant
begin

text \<open>
  Which heights \<open>getMissingBlocks\<close> of \<open>blockchainIndex.js\<close> reports: the meaning of the row
  count over an interval of heights, and of the gap search, on a well-formed \<open>blocks\<close> table.
\<close>

definition heights :: "db \<Rightarrow> int list" where
  "heights d = map (\<lambda>r. sql_num (oget r ''height'')) (rows_of d ''blocks'')"

subsection \<open>Heights of a well-formed table\<close>

lemma blocks_ready:
  assumes "table_ready blocksTableSchema d"
  obtains tb where "d ''blocks'' = Some tb" "rows_of d ''blocks'' = t_rows tb"
    "t_cols tb = column_defs blocksTableSchema" "t_pk tb = [''height'']" "wf_table tb"
  using assms by (elim table_readyE) (auto simp: blocksTableSchema_def rows_of_def)

lemma height_cell:
  assumes ready: "table_ready blocksTableSchema d" and r: "r \<in> set (rows_of d ''blocks'')"
  shows "ohas r ''height''" and "oget r ''height'' = JNum (sql_num (oget r ''height''))"
proof -
  from ready obtain tb where tb: "rows_of d ''blocks'' = t_rows tb"
    "t_cols tb = column_defs blocksTableSchema" "t_pk tb = [''height'']" "wf_table tb" by (rule blocks_ready)
  have typed: "typed_row (t_cols tb) r" and nn: "JNull \<notin> set (row_key (t_pk tb) r)"
    using tb r by (auto simp: wf_table_def list_all_iff)
  from pk_in_row [OF tb(4) typed] tb(3) show "ohas r ''height''" by simp
  from typed tb(2) have "typed_val ''integer'' (oget r ''height'')"
    by (auto simp: typed_row_def column_defs_def blocksTableSchema_def)
  then have "oget r ''height'' = JNull \<or> (\<exists>n. oget r ''height'' = JNum n)"
    by (rule typed_number) (simp add: is_numeric_type_def)
  with nn tb(3) show "oget r ''height'' = JNum (sql_num (oget r ''height''))" by (auto simp: row_key_def)
qed

lemma distinct_heights:
  assumes ready: "table_ready blocksTableSchema d"
  shows "distinct (heights d)"
proof -
  from ready obtain tb where tb: "rows_of d ''blocks'' = t_rows tb" "t_pk tb = [''height'']" "wf_table tb"
    by (rule blocks_ready)
  have "distinct (map (\<lambda>r. [oget r ''height'']) (t_rows tb))"
    using tb by (simp add: wf_table_def row_key_def [abs_def])
  moreover have "map (\<lambda>r. [oget r ''height'']) (t_rows tb) = map (\<lambda>h. [JNum h]) (heights d)"
    using height_cell(2) [OF ready] tb(1) by (auto simp: heights_def)
  ultimately show ?thesis by (metis distinct_map)
qed

subsection \<open>The row count\<close>

abbreviation between_params :: "int \<Rightarrow> int \<Rightarrow> obj" where
  "between_params lo hi \<equiv> [(''propBetweens'', JArr [JObj [(''property'', JStr ''height''),
     (''from'', JNum lo), (''to'', JNum hi)]])]"

lemma between_query:
  "qb_conditions (between_params lo hi) (bare_query ''blocks'')
   = Inr (bare_query ''blocks''\<lparr>q_where := [(False, WCmp ''height'' OpGe (JNum lo)), (False, WCmp ''height'' OpLe (JNum hi))]\<rparr>)"
  by (simp add: qb_conditions_def qb_propBetweens_def qb_whereIn_def qb_whereJson_def qb_orWhereIn_def
      qb_orWhere_def qb_andWhere_def qb_search_def qb_between1_def add_where_def bare_query_def Let_def ohas_def)

lemma between_row:
  assumes "table_ready blocksTableSchema d" and "r \<in> set (rows_of d ''blocks'')"
  shows "wtop jc r [(False, WCmp ''height'' OpGe (JNum lo)), (False, WCmp ''height'' OpLe (JNum hi))]
    \<longleftrightarrow> lo \<le> sql_num (oget r ''height'') \<and> sql_num (oget r ''height'') \<le> hi"
  using height_cell [OF assms] by (cases "oget r ''height''") (auto simp: col_val_exact sql_null_def sql_less_def)

lemma count_between:
  assumes eng: "sql_engine jc k" and ready: "table_ready blocksTableSchema (committed w)"
    and run: "table_count k blocksTableSchema (between_params lo hi) w = (Inr n, w')"
  shows "w' = w \<and> n = int (card {h \<in> set (heights (committed w)). lo \<le> h \<and> h \<le> hi})"
proof -
  let ?ws = "[(False, WCmp ''height'' OpGe (JNum lo)), (False, WCmp ''height'' OpLe (JNum hi))]"
  let ?rows = "filter (\<lambda>r. wtop jc r ?ws) (rows_of (committed w) ''blocks'')"
  from ready obtain tb where tb: "committed w ''blocks'' = Some tb" "rows_of (committed w) ''blocks'' = t_rows tb"
    by (rule blocks_ready)
  have q0: "qb_order JUndef q = Inr q" for q by (simp add: qb_order_def)
  from run obtain r d' where kr: "k (SCount (bare_query ''blocks''\<lparr>q_where := ?ws\<rparr>) False ''height'') (committed w) = Inr (r, d')"
    and n: "n = res_count [r]" and w': "w' = w"
    using between_query [of lo hi]
    by (auto simp: table_count_def blocksTableSchema_def resolveQueryParams_def KNOWN_QUERY_PARAMS_def
        where_obj_def q0 bare_query_def act_ok run_read_def Let_def split: sum.splits)
  have cell: "col_val x ''height'' = JNum (sql_num (oget x ''height''))" if "x \<in> set (rows_of (committed w) ''blocks'')" for x
    using height_cell [OF ready that] by (simp add: col_val_exact)
  have "filter (\<lambda>v. \<not> sql_null v) (map (\<lambda>x. col_val x ''height'') ?rows) = map (\<lambda>x. col_val x ''height'') ?rows"
    using cell by (auto simp: filter_id_conv sql_null_def)
  with sql_engine.sound [OF eng kr] tb n have "n = int (length ?rows)"
    by (auto simp: with_table_def bare_query_def res_count_def split: if_splits)
  also have "length ?rows = length (filter (\<lambda>h. lo \<le> h \<and> h \<le> hi) (heights (committed w)))"
    using between_row [OF ready, of _ jc lo hi]
    by (simp add: heights_def filter_map comp_def cong: filter_cong)
  also have "\<dots> = card {h \<in> set (heights (committed w)). lo \<le> h \<and> h \<le> hi}"
    using distinct_card [OF distinct_filter [OF distinct_heights [OF ready]]] by (metis set_filter)
  finally show ?thesis using w' by simp
qed

subsection \<open>The gap search\<close>

definition gap_start :: "int \<Rightarrow> int list \<Rightarrow> int \<Rightarrow> int" where
  "gap_start lo hs h = (case filter (\<lambda>g. g < h) hs of [] \<Rightarrow> lo | g # gs \<Rightarrow> fold max gs g)"

lemma fold_max_in: "fold max gs (g :: int) \<in> insert g (set gs)"
  by (induction gs arbitrary: g) (auto simp: max_def)

lemma gap_start_cases: "gap_start lo hs h = lo \<or> (gap_start lo hs h \<in> set hs \<and> gap_start lo hs h < h)"
proof (cases "filter (\<lambda>g. g < h) hs")
  case (Cons g gs)
  then have "insert g (set gs) = {g \<in> set hs. g < h}" by (metis list.simps(15) set_filter)
  with Cons fold_max_in [of gs g] show ?thesis by (simp add: gap_start_def)
qed (simp add: gap_start_def)

lemma missing_ranges_gap: "missing_ranges lo hi hs = map (\<lambda>h. (gap_start lo hs h, h - 1))
  (filter (\<lambda>h. lo + 1 \<le> h \<and> h \<le> hi \<and> h \<noteq> hi \<and> h - 1 \<notin> set hs) hs)"
  by (simp add: missing_ranges_def gap_start_def)

lemma gap_covered:
  assumes h: "lo \<le> h" "h \<notin> set hs" and g: "g \<in> set hs" "h < g" "g < hi"
  shows "\<exists>(a, b) \<in> set (missing_ranges lo hi hs). a \<le> h \<and> h \<le> b"
proof -
  define nx where "nx = Min {x \<in> set hs. h < x}"
  have fin: "finite {x \<in> set hs. h < x}" "{x \<in> set hs. h < x} \<noteq> {}" using g by auto
  from Min_in [OF fin] have nx: "nx \<in> set hs" "h < nx" by (auto simp: nx_def)
  have least: "nx \<le> x" if "x \<in> set hs" "h < x" for x using that fin by (auto simp: nx_def)
  have "nx - 1 \<notin> set hs" using least [of "nx - 1"] nx(2) h(2) by (cases "nx - 1 = h") auto
  moreover have "nx < hi" using least [OF g(1,2)] g(3) by simp
  ultimately have "(gap_start lo hs nx, nx - 1) \<in> set (missing_ranges lo hi hs)"
    using nx h(1) by (auto simp: missing_ranges_gap)
  moreover have "gap_start lo hs nx \<le> h"
    using gap_start_cases [of lo hs nx] least [of "gap_start lo hs nx"] h(1) by linarith
  ultimately show ?thesis using nx(2) by (intro bexI [of _ "(gap_start lo hs nx, nx - 1)"]) auto
qed

lemma range_bounds:
  assumes "(a, b) \<in> set (missing_ranges lo hi hs)" and "0 \<le> lo"
  shows "a \<le> b + 1" "b + 1 \<noteq> 0"
  using assms gap_start_cases [of lo hs "b + 1"] by (auto simp: missing_ranges_gap)

definition range_obj :: "int \<times> int \<Rightarrow> jsval" where
  "range_obj p = JObj [(''from'', JNum (fst p)), (''to'', JNum (snd p))]"

lemma missing_heights_ranges:
  assumes "\<And>a b. (a, b) \<in> set rs \<Longrightarrow> a \<le> b + 1 \<and> b + 1 \<noteq> 0"
  shows "mapE missing_heights (map range_obj rs) = Inr (map (\<lambda>(a, b). [a..b]) rs)"
proof -
  have "missing_heights (range_obj (a, b)) = Inr [a..b]" if "(a, b) \<in> set rs" for a b
    using assms [OF that] by (simp add: missing_heights_def range_obj_def as_int_def own_props_def range_inclusive)
  then have "mapE missing_heights (map range_obj rs) = Inr (map (\<lambda>v. [as_int (oget (own_props v) ''from'')..as_int (oget (own_props v) ''to'')]) (map range_obj rs))"
    by (intro mapE_map) (auto simp: range_obj_def as_int_def own_props_def)
  then show ?thesis by (simp add: comp_def range_obj_def as_int_def own_props_def case_prod_beta)
qed

text \<open>What \<open>getMissingBlocks\<close> returns, by the number of indexed blocks of the interval.\<close>

lemma getMissingBlocks_run:
  assumes eng: "sql_engine jc (kx X)" and ready: "table_ready blocksTableSchema (committed w)"
    and run: "getMissingBlocks X from to w = (Inr hs, w')" and lo: "0 \<le> from" "from \<le> to"
  defines "H \<equiv> heights (committed w)"
  defines "stored \<equiv> {h \<in> set H. from \<le> h \<and> h \<le> to}"
  shows "w' = w \<and> hs = (if card stored < 3 then [from..to]
     else if int (card stored) \<noteq> to - from + 1
       then concat (map (\<lambda>(a, b). [a..b]) (missing_ranges from to H)) else [])"
proof -
  from run obtain n w1 where count: "table_count (kx X) blocksTableSchema (between_params from to) w = (Inr n, w1)"
    by (auto simp: getMissingBlocks_def findMissingBlocksInRange_def act_ok)
  from count_between [OF eng ready this] have n: "n = int (card stored)" and w1: "w1 = w"
    by (simp_all add: stored_def H_def)
  from ready obtain tb where tb: "committed w ''blocks'' = Some tb" "rows_of (committed w) ''blocks'' = t_rows tb"
    by (rule blocks_ready)
  have raw: "rs = map range_obj (missing_ranges from to H) \<and> w2 = w"
    if "rawQuery (kx X) (SMissing from to) w = (Inr rs, w2)" for rs w2
    using that tb
    by (auto simp: rawQuery_def run_read_def act_ok with_table_def res_rows_def H_def heights_def range_obj_def
        split: sum.splits prod.splits dest!: sql_engine.sound [OF eng])
  have whole: "mapE missing_heights [range_obj (from, to)] = Inr [[from..to]]"
    using missing_heights_ranges [of "[(from, to)]"] lo by simp
  have gaps: "mapE missing_heights (map range_obj (missing_ranges from to H))
      = Inr (map (\<lambda>(a, b). [a..b]) (missing_ranges from to H))"
    by (rule missing_heights_ranges) (use range_bounds lo(1) in blast)
  from run count n w1 whole gaps show ?thesis
    by (auto simp: getMissingBlocks_def findMissingBlocksInRange_def range_obj_def [symmetric] act_ok
        dest!: raw split: if_splits) (simp_all add: range_obj_def)
qed

lemma fold_max_ge: "x \<in> insert g (set gs) \<Longrightarrow> x \<le> fold max gs (g :: int)"
proof (induction gs arbitrary: g x)
  case (Cons y ys)
  show ?case
  proof (cases "x \<in> set ys")
    case True
    with Cons.IH show ?thesis by simp
  next
    case False
    with Cons.prems have "x \<le> max y g" by auto
    also have "\<dots> \<le> fold max ys (max y g)" by (rule Cons.IH) simp
    finally show ?thesis by simp
  qed
qed simp

lemma gap_start_ge:
  assumes "g \<in> set hs" and "g < h"
  shows "g \<le> gap_start lo hs h"
proof (cases "filter (\<lambda>g. g < h) hs")
  case Nil
  with assms show ?thesis by (auto simp: filter_empty_conv)
next
  case (Cons x xs)
  then have "insert x (set xs) = {g \<in> set hs. g < h}" by (metis list.simps(15) set_filter)
  with assms Cons fold_max_ge [of g x xs] show ?thesis by (simp add: gap_start_def)
qed

lemma gap_reported:
  assumes "(a, b) \<in> set (missing_ranges lo hi hs)" and "a \<le> h" "h \<le> b" and "h \<in> set hs"
  shows "h + 1 \<notin> set hs"
proof -
  from assms(1) have a: "a = gap_start lo hs (b + 1)" and b: "b \<notin> set hs" by (auto simp: missing_ranges_gap)
  from gap_start_ge [OF assms(4), of "b + 1" lo] assms(2,3) a have "h = a" by simp
  with gap_start_ge [of "h + 1" hs "b + 1" lo] a b assms(3,4) show ?thesis by (cases "h = b") auto
qed

lemma gaps_found:
  assumes eng: "sql_engine jc (kx X)" and ready: "table_ready blocksTableSchema (committed w)"
    and run: "getMissingBlocks X from to w = (Inr hs, w')" and lo: "0 \<le> from"
    and h: "from \<le> h" "h \<notin> set (heights (committed w))"
    and g: "g \<in> set (heights (committed w))" "h < g" "g < to"
  shows "h \<in> set hs"
proof -
  let ?stored = "{x \<in> set (heights (committed w)). from \<le> x \<and> x \<le> to}"
  have "?stored \<subset> {from..to}" using h g by auto
  then have "card ?stored < card {from..to}" by (intro psubset_card_mono) simp_all
  then have few: "int (card ?stored) \<noteq> to - from + 1" using h g by simp
  have "from \<le> to" using h g by simp
  from getMissingBlocks_run [OF eng ready run lo this] few
  have "hs = [from..to] \<or> hs = concat (map (\<lambda>(a, b). [a..b]) (missing_ranges from to (heights (committed w))))"
    by (auto split: if_splits)
  moreover obtain a b where "(a, b) \<in> set (missing_ranges from to (heights (committed w)))" "h \<in> set [a..b]"
    using gap_covered [OF h g] by auto
  ultimately show ?thesis using h g by fastforce
qed

text \<open>
  No gap between indexed blocks is overlooked: when \<open>getMissingBlocks\<close> returns for an
  interval, every height of it that is not indexed and has an indexed height above it, below
  the interval's end, is among the heights it returns.
\<close>

lemma getMissingBlocks_finds_gaps:
  assumes "sql_engine jc (kx X)" and "table_ready blocksTableSchema (committed w)"
    and "getMissingBlocks X from to w = (Inr hs, w')" and "0 \<le> from"
    and "from \<le> h" "h \<notin> set (heights (committed w))"
    and "g \<in> set (heights (committed w))" "h < g" "g < to"
  shows "h \<in> set hs"
  using assms by (rule gaps_found)

text \<open>
  What is reported as missing really is, with one exception per gap: with at least three
  indexed blocks in the interval, a returned height that is indexed is the last one before a
  gap. The statement's \<open>COALESCE(MAX(b0.height), ...)\<close> is that indexed height itself.
\<close>

lemma getMissingBlocks_reports_missing:
  assumes eng: "sql_engine jc (kx X)" and ready: "table_ready blocksTableSchema (committed w)"
    and run: "getMissingBlocks X from to w = (Inr hs, w')" and lo: "0 \<le> from" "from \<le> to"
    and many: "3 \<le> card {x \<in> set (heights (committed w)). from \<le> x \<and> x \<le> to}"
    and h: "h \<in> set hs" "h \<in> set (heights (committed w))"
  shows "h + 1 \<notin> set (heights (committed w))"
proof -
  from getMissingBlocks_run [OF eng ready run lo] many h(1)
  have "h \<in> set (concat (map (\<lambda>(a, b). [a..b]) (missing_ranges from to (heights (committed w)))))"
    by (auto split: if_splits)
  then obtain a b where "(a, b) \<in> set (missing_ranges from to (heights (committed w)))" "a \<le> h" "h \<le> b" by auto
  then show ?thesis using gap_reported h(2) by blast
qed

lemma tail_unreported:
  assumes eng: "sql_engine jc (kx X)" and ready: "table_ready blocksTableSchema (committed w)"
    and run: "getMissingBlocks X from to w = (Inr hs, w')" and lo: "0 \<le> from" "from \<le> to"
    and many: "3 \<le> card {x \<in> set (heights (committed w)). from \<le> x \<and> x \<le> to}"
    and prefix: "\<And>x. from \<le> x \<Longrightarrow> x \<le> tip \<Longrightarrow> x \<in> set (heights (committed w))"
    and tail: "\<And>x. tip < x \<Longrightarrow> x < to \<Longrightarrow> x \<notin> set (heights (committed w))"
  shows "hs = []"
proof -
  have "x - 1 \<in> set (heights (committed w))"
    if "x \<in> set (heights (committed w))" "from + 1 \<le> x" "x \<le> to" "x \<noteq> to" for x
    using prefix [of "x - 1"] tail [of x] that by (cases "x \<le> tip") auto
  then have "missing_ranges from to (heights (committed w)) = []"
    by (auto simp: missing_ranges_gap filter_empty_conv)
  with getMissingBlocks_run [OF eng ready run lo] many show ?thesis by (auto split: if_splits)
qed

text \<open>
  A gap at the upper end of the interval is not reported: when the first heights of the
  interval are indexed up to some height, and none of those after it below the interval's end
  is, three indexed blocks are enough for \<open>getMissingBlocks\<close> to return nothing.
\<close>

lemma getMissingBlocks_omits_tail:
  assumes "sql_engine jc (kx X)" and "table_ready blocksTableSchema (committed w)"
    and "getMissingBlocks X from to w = (Inr hs, w')" and "0 \<le> from" "from \<le> to"
    and "3 \<le> card {x \<in> set (heights (committed w)). from \<le> x \<and> x \<le> to}"
    and "\<And>x. from \<le> x \<Longrightarrow> x \<le> tip \<Longrightarrow> x \<in> set (heights (committed w))"
    and "\<And>x. tip < x \<Longrightarrow> x < to \<Longrightarrow> x \<notin> set (heights (committed w))"
  shows "hs = []"
  using assms by (rule tail_unreported)

subsection \<open>Two stored chains\<close>

text \<open>A \<open>blocks\<close> table with the given heights, in a fresh database.\<close>

definition chain_world :: "int list \<Rightarrow> iworld" where
  "chain_world hs = foldl (\<lambda>w h. snd (upsert (kx ref_ext) blocksTableSchema
     (JObj [(''height'', JNum h), (''id'', JStr (show_int h))]) False w)) fresh_world hs"

lemma chain_ready: "world_ready (chain_world hs)"
proof (induction hs rule: rev_induct)
  case Nil
  show ?case using service_ok_fresh by (simp add: chain_world_def service_ok_def)
next
  case (snoc h hs)
  have "keeps stays_ready (upsert (kx ref_ext) blocksTableSchema (JObj [(''height'', JNum h), (''id'', JStr (show_int h))]) False)"
    using ref_ext_engine by (intro db.kept_writes) (auto simp: good_engine_def indexer_schemas_def)
  with snoc show ?case by (simp add: chain_world_def keeps_def stays_ready_def)
qed

lemma chain_blocks_ready: "table_ready blocksTableSchema (committed (chain_world hs))"
  using chain_ready [of hs] by (simp add: world_ready_def db_ready_def indexer_schemas_def)

end
