(* ===== verification/Owners.thy ===== *)
theory Owners
  imports DbInvariant
begin

text \<open>
  The owners of an audio under the \<open>transfer\<close> command (\<open>audio/transfer.js\<close>): what a transfer
  does to the shares of the sender, of the recipient, and of everybody else.
\<close>

definition owner_row :: "db \<Rightarrow> string \<Rightarrow> string \<Rightarrow> obj option" where
  "owner_row d audioID address = lookup_row [''address'', ''audioID''] [JStr address, JStr audioID] (rows_of d ''owners'')"

text \<open>The shares held: none without a row.\<close>

definition shares_of :: "db \<Rightarrow> string \<Rightarrow> string \<Rightarrow> int" where
  "shares_of d audioID address = (case owner_row d audioID address of None \<Rightarrow> 0 | Some r \<Rightarrow> sql_num (oget r ''shares''))"

lemma owners_columns:
  "column_defs ownersTableSchema =
    [\<lparr>c_name = ''address'', c_type = ''string'', c_notnull = False, c_default = None\<rparr>,
     \<lparr>c_name = ''audioID'', c_type = ''string'', c_notnull = False, c_default = None\<rparr>,
     \<lparr>c_name = ''shares'', c_type = ''integer'', c_notnull = False, c_default = None\<rparr>,
     \<lparr>c_name = ''income'', c_type = ''bigInteger'', c_notnull = False, c_default = Some (JNum 0)\<rparr>]"
  "primaryKey ownersTableSchema = [''address'', ''audioID'']"
  "tableName ownersTableSchema = ''owners''"
  by (simp_all add: column_defs_def ownersTableSchema_def)

lemma owners_table:
  assumes "table_ready ownersTableSchema d"
  obtains tb where "d ''owners'' = Some tb" "t_cols tb = column_defs ownersTableSchema"
    "t_pk tb = [''address'', ''audioID'']" "wf_table tb" "rows_of d ''owners'' = t_rows tb"
  using assms by (auto simp: table_ready_def owners_columns rows_of_def split: option.splits)

lemma owners_typed:
  assumes "table_ready ownersTableSchema d" and "r \<in> set (rows_of d ''owners'')"
  shows "typed_row (column_defs ownersTableSchema) r"
  using assms by (elim owners_table) (auto simp: wf_table_def list_all_iff)

text \<open>A typed row has its four cells, in order.\<close>

lemma owner_cells:
  assumes "typed_row (column_defs ownersTableSchema) r"
  shows "r = [(''address'', oget r ''address''), (''audioID'', oget r ''audioID''),
    (''shares'', oget r ''shares''), (''income'', oget r ''income'')]"
proof -
  from assms have "map fst r = [''address'', ''audioID'', ''shares'', ''income'']"
    by (simp add: typed_row_def owners_columns)
  then obtain a b c d where "r = [(''address'', a), (''audioID'', b), (''shares'', c), (''income'', d)]"
    by (auto simp: map_eq_Cons_conv)
  then show ?thesis by simp
qed

lemma owner_where_key:
  assumes r: "typed_row (column_defs ownersTableSchema) r"
  shows "wtop jc r (where_obj [(''audioID'', JStr a), (''address'', JStr s)]) \<longleftrightarrow>
    row_key [''address'', ''audioID''] r = [JStr s, JStr a]"
proof -
  have has: "ohas r ''address''" "ohas r ''audioID''"
    unfolding ohas_def typed_row_fst [OF r] by (simp_all add: owners_columns)
  have ty: "typed_val ''string'' (oget r ''address'')" "typed_val ''string'' (oget r ''audioID'')"
    using r by (simp_all add: typed_row_def owners_columns)
  have str: "\<not> is_numeric_type ''string''" by (simp add: is_numeric_type_def)
  show ?thesis
    unfolding wtop_where_obj
    using sql_eq_string_col [OF ty(1) str] sql_eq_string_col [OF ty(2) str]
    by (auto simp: col_val_exact has row_key_def simp del: sql_cmp.simps)
qed

lemma owner_query:
  "queryBuilder ownersTableSchema [(''audioID'', JStr a), (''address'', JStr s)] cs
   = Inr ((bare_query ''owners'')\<lparr>q_select := cs, q_where := where_obj [(''audioID'', JStr a), (''address'', JStr s)]\<rparr>)"
  by (simp add: queryBuilder_def owners_columns qb_order_def qb_conditions_def qb_propBetweens_def qb_whereIn_def
      qb_whereJson_def qb_orWhereIn_def qb_orWhere_def qb_andWhere_def qb_search_def qb_number_def
      resolveQueryParams_def KNOWN_QUERY_PARAMS_def bare_query_def Let_def)

lemma owner_hits:
  assumes ready: "table_ready ownersTableSchema d"
  shows "filter (\<lambda>r. wtop jc r (where_obj [(''audioID'', JStr a), (''address'', JStr s)])) (rows_of d ''owners'')
    = (case owner_row d a s of None \<Rightarrow> [] | Some r \<Rightarrow> [r])"
proof -
  from ready obtain tb where tb: "t_pk tb = [''address'', ''audioID'']" "wf_table tb" "rows_of d ''owners'' = t_rows tb"
    by (rule owners_table)
  then have d: "distinct (map (row_key [''address'', ''audioID'']) (rows_of d ''owners''))" by (simp add: wf_table_def)
  have "filter (\<lambda>r. wtop jc r (where_obj [(''audioID'', JStr a), (''address'', JStr s)])) (rows_of d ''owners'')
    = filter (\<lambda>r. row_key [''address'', ''audioID''] r = [JStr s, JStr a]) (rows_of d ''owners'')"
    by (rule filter_cong) (simp_all only: owner_where_key [OF owners_typed [OF ready]])
  then show ?thesis by (simp only: filter_eq_find [OF d] owner_row_def lookup_row_def)
qed

lemma find_owner_ok:
  assumes eng: "sql_engine jc (kx X)" and ready: "table_ready ownersTableSchema (committed w)"
    and run: "find_owner X (JStr a) (JStr s) w = (Inr v, w')"
  shows "w' = w \<and> v = (case owner_row (committed w) a s of None \<Rightarrow> JUndef | Some r \<Rightarrow> JObj r)"
proof -
  let ?cs = "[''address'', ''audioID'', ''shares'', ''income'']"
  from ready obtain tb where tb: "committed w ''owners'' = Some tb" "rows_of (committed w) ''owners'' = t_rows tb"
    by (rule owners_table)
  from run obtain vs where find: "table_find (kx X) ownersTableSchema [(''audioID'', JStr a), (''address'', JStr s)]
      (Some ?cs) w = (Inr vs, w')" and v: "v = js_first vs" by (auto simp: find_owner_def act_ok)
  from sql_engine.table_find_ok [OF eng find] tb have w': "w' = w"
    and vs: "vs = map JObj (map (project ?cs) (case owner_row (committed w) a s of None \<Rightarrow> [] | Some r \<Rightarrow> [r]))"
    unfolding owner_hits [OF ready, of jc, symmetric]
    by (auto simp: owner_query select_rows_def order_rows_def limit_rows_def bare_query_def owners_columns
        simp del: wtop_where_obj where_obj_simps)
  have "project ?cs r = r" if "owner_row (committed w) a s = Some r" for r
  proof -
    have "r \<in> set (rows_of (committed w) ''owners'')" using that lookup_row_Some by (auto simp: owner_row_def)
    from owner_cells [OF owners_typed [OF ready this]] obtain a b c d where
      "r = [(''address'', a), (''audioID'', b), (''shares'', c), (''income'', d)]" by metis
    then show ?thesis by (simp add: project_def col_val_exact ohas_def)
  qed
  with v vs w' show ?thesis by (auto simp: js_first_def split: option.splits)
qed

subsection \<open>Writing and deleting an owner\<close>

definition owner_obj :: "obj \<Rightarrow> string \<Rightarrow> string \<Rightarrow> int \<Rightarrow> bool" where
  "owner_obj ob a s n \<longleftrightarrow> ohas ob ''address'' \<and> oget ob ''address'' = JStr s
     \<and> ohas ob ''audioID'' \<and> oget ob ''audioID'' = JStr a \<and> ohas ob ''shares'' \<and> oget ob ''shares'' = JNum n"

lemma owner_mapped:
  assumes row: "mapRow (schema ownersTableSchema) (JObj ob) = Inr row" and ob: "owner_obj ob a s n"
  shows "oget row ''address'' = JStr s" "oget row ''audioID'' = JStr a" "oget row ''shares'' = JNum n" "ohas row ''shares''"
proof -
  have c: "map_columns (schema ownersTableSchema) ob = Inr row" "distinct (map fst (schema ownersTableSchema))"
    using row by (simp_all add: ownersTableSchema_def)
  note cell = map_columns_oget [OF c(2,1)]
  from cell [of "''address''"] ob show "oget row ''address'' = JStr s"
    by (auto simp: ownersTableSchema_def owner_obj_def cast_def getValue_def)
  from cell [of "''audioID''"] ob show "oget row ''audioID'' = JStr a"
    by (auto simp: ownersTableSchema_def owner_obj_def cast_def getValue_def)
  from cell [of "''shares''"] ob show "oget row ''shares'' = JNum n" "ohas row ''shares''"
    by (auto simp: ownersTableSchema_def owner_obj_def cast_def getValue_def)
qed

lemma shares_put:
  assumes ready: "table_ready ownersTableSchema d" and tb: "d ''owners'' = Some tb"
    and ok: "insert_error (t_cols tb) (t_pk tb) row = None"
    and row: "mapRow (schema ownersTableSchema) (JObj ob) = Inr row" and ob: "owner_obj ob a s n"
  shows "shares_of (put_row ''owners'' row d) a' s' = (if (a', s') = (a, s) then n else shares_of d a' s')"
proof -
  from ready tb have t: "t_cols tb = column_defs ownersTableSchema" "t_pk tb = [''address'', ''audioID'']" "wf_table tb"
    by (auto elim: owners_table)
  note cells = owner_mapped [OF row ob]
  have key: "row_key (t_pk tb) (new_row (t_cols tb) row) = [JStr s, JStr a]"
    using row_key_new [OF t(3) ok] cells
    by (simp add: t(1,2) col_type_def owners_columns store_val_def is_numeric_type_def)
  have rows: "rows_of (put_row ''owners'' row d) ''owners'' = upsert_rows (t_cols tb) (t_pk tb) row (t_rows tb)"
    "rows_of d ''owners'' = t_rows tb" by (simp_all add: put_row_def tb set_rows_def rows_of_def)
  show ?thesis
  proof (cases "(a', s') = (a, s)")
    case True
    from lookup_upsert_cols [OF t(3) ok] obtain r where
      "owner_row (put_row ''owners'' row d) a s = Some r" "oget r ''shares'' = store_val ''integer'' (oget row ''shares'')"
      unfolding key unfolding t(2) owner_row_def rows t(1) using cells(4) by (auto simp: owners_columns)
    with True cells(3) show ?thesis by (simp add: shares_of_def store_val_def is_numeric_type_def)
  next
    case False
    with lookup_upsert [OF t(3) ok, of "[JStr s', JStr a']"] have "owner_row (put_row ''owners'' row d) a' s' = owner_row d a' s'"
      unfolding key unfolding t(2) owner_row_def rows by auto
    with False show ?thesis by (auto simp: shares_of_def)
  qed
qed

lemma upsert_owner:
  assumes eng: "sql_engine jc (kx X)" and d: "trx w = Some d" and ready: "table_ready ownersTableSchema d"
    and run: "upsert (kx X) ownersTableSchema (JObj ob) True w = (Inr u, w')" and ob: "owner_obj ob a s n"
  shows "\<exists>d'. w' = w\<lparr>trx := Some d'\<rparr> \<and> table_ready ownersTableSchema d'
    \<and> (\<forall>a' s'. shares_of d' a' s' = (if (a', s') = (a, s) then n else shares_of d a' s'))"
proof -
  from sql_engine.upsert_one_trx_ok [OF eng run] d obtain row tb where
    row: "mapRow (schema ownersTableSchema) (JObj ob) = Inr row" and tb: "d ''owners'' = Some tb"
    and ok: "insert_error (t_cols tb) (t_pk tb) row = None" and w': "w' = w\<lparr>trx := Some (put_row ''owners'' row d)\<rparr>"
    by (auto simp: owners_columns)
  have "table_ready ownersTableSchema (put_row ''owners'' row d)"
    using table_ready_put_row [OF ready _ ok] tb by (simp add: owners_columns)
  with w' shares_put [OF ready tb ok row ob] show ?thesis by blast
qed

lemma delete_owner:
  assumes eng: "sql_engine jc (kx X)" and d: "trx w = Some d" and ready: "table_ready ownersTableSchema d"
    and run: "deleteByParams (kx X) ownersTableSchema [(''audioID'', JStr a), (''address'', JStr s)] True w = (Inr n, w')"
  shows "\<exists>d'. w' = w\<lparr>trx := Some d'\<rparr> \<and> table_ready ownersTableSchema d'
    \<and> (\<forall>a' s'. shares_of d' a' s' = (if (a', s') = (a, s) then 0 else shares_of d a' s'))"
proof -
  let ?wh = "where_obj [(''audioID'', JStr a), (''address'', JStr s)]"
  from ready obtain tb where tb: "d ''owners'' = Some tb" "t_cols tb = column_defs ownersTableSchema"
    "t_pk tb = [''address'', ''audioID'']" "wf_table tb" "rows_of d ''owners'' = t_rows tb" by (rule owners_table)
  let ?rows = "filter (\<lambda>r. \<not> wtop jc r ?wh) (t_rows tb)" and ?key = "row_key [''address'', ''audioID'']"
  have "w' = w\<lparr>trx := Some (set_rows d ''owners'' tb ?rows)\<rparr>"
    using run d tb(1)
    by (auto simp: deleteByParams_def owner_query run_batch_def with_table_def bare_query_def act_ok owners_columns
        split: sum.splits prod.splits if_splits dest!: sql_engine.sound [OF eng] simp del: wtop_where_obj where_obj_simps)
  moreover have "table_ready ownersTableSchema (set_rows d ''owners'' tb ?rows)"
    using wf_table_filter [OF tb(4)] tb(2,3) by (simp add: table_ready_def set_rows_def owners_columns)
  moreover have "shares_of (set_rows d ''owners'' tb ?rows) a' s' = (if (a', s') = (a, s) then 0 else shares_of d a' s')" for a' s'
  proof -
    have rows: "?rows = filter (\<lambda>r. ?key r \<noteq> [JStr s, JStr a]) (t_rows tb)"
      using owner_where_key [OF owners_typed [OF ready]] tb(5) by (intro filter_cong) simp_all
    have "lookup_row [''address'', ''audioID''] k (filter (\<lambda>r. ?key r \<noteq> [JStr s, JStr a]) rs)
      = (if k = [JStr s, JStr a] then None else lookup_row [''address'', ''audioID''] k rs)" for k rs
      by (induction rs) (auto simp: lookup_row_def)
    then show ?thesis
      by (simp add: shares_of_def owner_row_def rows_of_def set_rows_def rows tb(1) del: wtop_where_obj where_obj_simps)
  qed
  ultimately show ?thesis by blast
qed

subsection \<open>Transferring shares\<close>

lemma owner_row_obj:
  assumes ready: "table_ready ownersTableSchema d" and r: "owner_row d a s = Some r"
  shows "oget r ''shares'' = JNull \<or> (\<exists>n. oget r ''shares'' = JNum n)"
    and "owner_obj (oset r ''shares'' (JNum n)) a s n"
proof -
  have mem: "r \<in> set (rows_of d ''owners'')" "row_key [''address'', ''audioID''] r = [JStr s, JStr a]"
    using r lookup_row_Some unfolding owner_row_def by blast+
  have typed: "typed_row (column_defs ownersTableSchema) r" by (rule owners_typed [OF ready mem(1)])
  then have "typed_val ''integer'' (oget r ''shares'')" by (simp add: typed_row_def owners_columns)
  then show "oget r ''shares'' = JNull \<or> (\<exists>n. oget r ''shares'' = JNum n)"
    by (rule typed_number) (simp add: is_numeric_type_def)
  have "ohas r ''address''" "ohas r ''audioID''"
    unfolding ohas_def typed_row_fst [OF typed] by (simp_all add: owners_columns)
  with mem(2) show "owner_obj (oset r ''shares'' (JNum n)) a s n" by (simp add: owner_obj_def row_key_def)
qed

lemma debit_sender_ok:
  assumes eng: "sql_engine jc (kx X)" and d: "trx w = Some d" and ready: "table_ready ownersTableSchema d"
    and sender: "owner_row d a s = Some sr"
    and run: "debit_sender X (JStr a) (JStr s) (JObj sr) (JNum t) w = (Inr u, w')"
  shows "\<exists>d'. w' = w\<lparr>trx := Some d'\<rparr> \<and> table_ready ownersTableSchema d'
    \<and> (\<forall>a' s'. shares_of d' a' s' = (if (a', s') = (a, s) then shares_of d a s - t else shares_of d a' s'))"
proof -
  have held: "js_sub (oget sr ''shares'') (JNum t) = Inr (JNum (shares_of d a s - t))"
    using owner_row_obj(1) [OF ready sender] sender by (auto simp: js_sub_def shares_of_def)
  show ?thesis
  proof (cases "shares_of d a s - t = 0")
    case True
    with run held obtain n where
      "deleteByParams (kx X) ownersTableSchema [(''audioID'', JStr a), (''address'', JStr s)] True w = (Inr n, w')"
      by (auto simp: debit_sender_def propA_def act_ok)
    from delete_owner [OF eng d ready this] True show ?thesis by auto
  next
    case False
    with run held have
      "upsert (kx X) ownersTableSchema (JObj (oset sr ''shares'' (JNum (shares_of d a s - t)))) True w = (Inr u, w')"
      by (simp add: debit_sender_def propA_def act_ok)
    from upsert_owner [OF eng d ready this owner_row_obj(2) [OF ready sender]] show ?thesis by blast
  qed
qed

lemma credit_recipient_ok:
  assumes eng: "sql_engine jc (kx X)" and d: "trx w = Some d" and ready: "table_ready ownersTableSchema d"
    and d0: "table_ready ownersTableSchema d0"
    and run: "credit_recipient X (JStr a) (JStr r) (case owner_row d0 a r of None \<Rightarrow> JUndef | Some rr \<Rightarrow> JObj rr) (JNum t) w = (Inr u, w')"
  shows "\<exists>d'. w' = w\<lparr>trx := Some d'\<rparr>
    \<and> (\<forall>a' s'. shares_of d' a' s' = (if (a', s') = (a, r) then shares_of d0 a r + t else shares_of d a' s'))"
proof -
  obtain ob where up: "upsert (kx X) ownersTableSchema (JObj ob) True w = (Inr u, w')"
    and ob: "owner_obj ob a r (shares_of d0 a r + t)"
  proof (cases "owner_row d0 a r")
    case None
    with run that [of "[(''audioID'', JStr a), (''address'', JStr r), (''shares'', JNum t)]"] show ?thesis
      by (simp add: credit_recipient_def owner_obj_def shares_of_def ohas_def)
  next
    case (Some rr)
    have "js_add (oget rr ''shares'') (JNum t) = Inr (JNum (shares_of d0 a r + t))"
      using owner_row_obj(1) [OF d0 Some] Some by (auto simp: js_add_def is_stringish_def shares_of_def)
    with run Some that [OF _ owner_row_obj(2) [OF d0 Some]] show ?thesis
      by (simp add: credit_recipient_def propA_def act_ok)
  qed
  from upsert_owner [OF eng d ready up ob] show ?thesis by blast
qed

lemma transfer_run:
  assumes eng: "sql_engine jc (kx X)" and comm: "table_ready ownersTableSchema (committed w)"
    and d: "trx w = Some d" and ready: "table_ready ownersTableSchema d"
    and fresh: "\<And>x. owner_row d a x = owner_row (committed w) a x"
    and tx: "js_prop tx ''senderPublicKey'' = Inr pk" "js_prop tx ''params'' = Inr p"
    and sender: "getLisk32AddressFromPublicKey X pk = Inr (JStr s)"
    and p: "js_prop p ''audioID'' = Inr (JStr a)" "js_prop p ''address'' = Inr (JStr r)" "js_prop p ''shares'' = Inr (JNum t)"
    and run: "audio_transfer_apply X bh tx events w = (Inr (JBool True), w')"
  shows "\<exists>d'. w' = w\<lparr>trx := Some d'\<rparr> \<and> (\<forall>a' s'. shares_of d' a' s' =
    (if (a', s') = (a, r) then shares_of d a r + t
     else if (a', s') = (a, s) then shares_of d a s - t else shares_of d a' s'))"
proof -
  let ?owner = "\<lambda>x. case owner_row d a x of None \<Rightarrow> JUndef | Some r \<Rightarrow> JObj r"
  have f: "w1 = w \<and> v = ?owner x" if "find_owner X (JStr a) (JStr x) w = (Inr v, w1)" for x v w1
    using find_owner_ok [OF eng comm that] by (simp add: fresh)
  obtain w2 where deb: "debit_sender X (JStr a) (JStr s) (?owner s) (JNum t) w = (Inr (), w2)"
    and cred: "credit_recipient X (JStr a) (JStr r) (?owner r) (JNum t) w2 = (Inr (), w')"
    using run tx p sender
    by (auto simp: audio_transfer_apply_def guarded_def propA_def lisk32A_def act_ok split: if_splits dest!: f)
  obtain sr where sr: "owner_row d a s = Some sr"
    using deb by (cases "owner_row d a s") (auto simp: debit_sender_def propA_def)
  have "debit_sender X (JStr a) (JStr s) (JObj sr) (JNum t) w = (Inr (), w2)" using deb sr by simp
  from debit_sender_ok [OF eng d ready sr this] obtain d2 where w2: "w2 = w\<lparr>trx := Some d2\<rparr>"
    "table_ready ownersTableSchema d2"
    and s2: "\<And>a' s'. shares_of d2 a' s' = (if (a', s') = (a, s) then shares_of d a s - t else shares_of d a' s')" by auto
  from credit_recipient_ok [OF eng _ w2(2) ready cred] w2(1) obtain d' where "w' = w2\<lparr>trx := Some d'\<rparr>"
    "\<And>a' s'. shares_of d' a' s' = (if (a', s') = (a, r) then shares_of d a r + t else shares_of d2 a' s')" by auto
  with s2 w2(1) show ?thesis by (intro exI [of _ d']) auto
qed

text \<open>
  C4. A transfer between two owners conserves the shares of the audio: the first transfer of an
  audio in a block that succeeds takes the transferred shares from the sender, gives them to the
  recipient, and leaves the shares of everybody else and of every other audio as they were. The
  committed tables do not change before the block's transaction commits.
\<close>

theorem audio_transfer_conserves:
  assumes "sql_engine jc (kx X)" and "table_ready ownersTableSchema (committed w)"
    and "trx w = Some d" and "table_ready ownersTableSchema d"
    and "\<And>x. owner_row d a x = owner_row (committed w) a x"
    and "js_prop tx ''senderPublicKey'' = Inr pk" and "js_prop tx ''params'' = Inr p"
    and "getLisk32AddressFromPublicKey X pk = Inr (JStr s)"
    and "js_prop p ''audioID'' = Inr (JStr a)" and "js_prop p ''address'' = Inr (JStr r)" and "js_prop p ''shares'' = Inr (JNum t)"
    and "audio_transfer_apply X bh tx events w = (Inr (JBool True), w')" and "s \<noteq> r"
  shows "committed w' = committed w \<and> (\<exists>d'. trx w' = Some d'
    \<and> shares_of d' a s = shares_of d a s - t \<and> shares_of d' a r = shares_of d a r + t
    \<and> (\<forall>a' x. a' \<noteq> a \<or> x \<notin> {s, r} \<longrightarrow> shares_of d' a' x = shares_of d a' x))"
  using transfer_run [OF assms(1-12)] assms(13) by auto

text \<open>
  A transfer of shares to oneself creates shares: both rows are read before either is
  written, and the row written last has the transferred shares added to what the sender held.
\<close>

lemma audio_transfer_to_self_inflates:
  assumes "sql_engine jc (kx X)" and "table_ready ownersTableSchema (committed w)"
    and "trx w = Some d" and "table_ready ownersTableSchema d"
    and "\<And>x. owner_row d a x = owner_row (committed w) a x"
    and "js_prop tx ''senderPublicKey'' = Inr pk" and "js_prop tx ''params'' = Inr p"
    and "getLisk32AddressFromPublicKey X pk = Inr (JStr s)"
    and "js_prop p ''audioID'' = Inr (JStr a)" and "js_prop p ''address'' = Inr (JStr s)" and "js_prop p ''shares'' = Inr (JNum t)"
    and "audio_transfer_apply X bh tx events w = (Inr (JBool True), w')"
  shows "\<exists>d'. trx w' = Some d' \<and> shares_of d' a s = shares_of d a s + t"
  using transfer_run [OF assms] by auto

subsection \<open>Two transfers of one audio\<close>

text \<open>A database where \<open>lskaa\<close> holds 60 shares of one audio, with a transaction open.\<close>

definition owners_world :: iworld where
  "owners_world = (let w = snd (upsert (kx ref_ext) ownersTableSchema (JObj [(''address'', JStr ''lskaa''),
      (''audioID'', JStr ''m1''), (''shares'', JNum 60), (''income'', JNum 0)]) False fresh_world)
    in w\<lparr>trx := Some (committed w)\<rparr>)"

definition transfer_params :: "string \<Rightarrow> jsval" where
  "transfer_params recipient = JObj [(''audioID'', JStr ''m1''), (''address'', JStr recipient), (''shares'', JNum 20)]"

definition transfer_tx :: "string \<Rightarrow> jsval" where
  "transfer_tx recipient = JObj [(''senderPublicKey'', JStr ''aa''), (''params'', transfer_params recipient)]"

definition success_event :: jsval where
  "success_event = JObj [(''module'', JStr ''audio''), (''name'', JStr ''commandExecutionResult''),
     (''data'', JObj [(''success'', JBool True)])]"

lemma owners_world_ready: "table_ready ownersTableSchema (committed owners_world)"
proof -
  have "keeps stays_ready (upsert (kx ref_ext) ownersTableSchema ob False)" for ob
    using ref_ext_engine by (intro db.kept_writes) (auto simp: good_engine_def indexer_schemas_def)
  then have "world_ready (snd (upsert (kx ref_ext) ownersTableSchema ob False fresh_world))" for ob
    using service_ok_fresh by (simp add: keeps_def stays_ready_def service_ok_def)
  then show ?thesis by (simp add: owners_world_def Let_def world_ready_def db_ready_def indexer_schemas_def)
qed

lemma owners_world_trx: "trx owners_world = Some (committed owners_world)"
  by (simp add: owners_world_def Let_def)

lemma transfer_tx_props:
  "js_prop (transfer_tx r) ''senderPublicKey'' = Inr (JStr ''aa'')"
  "js_prop (transfer_tx r) ''params'' = Inr (transfer_params r)"
  "getLisk32AddressFromPublicKey ref_ext (JStr ''aa'') = Inr (JStr ''lskaa'')"
  "js_prop (transfer_params r) ''audioID'' = Inr (JStr ''m1'')"
  "js_prop (transfer_params r) ''address'' = Inr (JStr r)"
  "js_prop (transfer_params r) ''shares'' = Inr (JNum 20)"
  by (simp_all add: transfer_tx_def transfer_params_def getLisk32AddressFromPublicKey_def ref_ext_def)

theorem audio_transfer_conserves_witness:
  "\<exists>d'. trx (snd (audio_transfer_apply ref_ext JNull (transfer_tx ''lskbb'') [success_event] owners_world)) = Some d'
    \<and> shares_of d' ''m1'' ''lskaa'' = 40 \<and> shares_of d' ''m1'' ''lskbb'' = 20"
proof -
  have "fst (audio_transfer_apply ref_ext JNull (transfer_tx ''lskbb'') [success_event] owners_world) = Inr (JBool True)"
    by code_simp
  then have run: "audio_transfer_apply ref_ext JNull (transfer_tx ''lskbb'') [success_event] owners_world
    = (Inr (JBool True), snd (audio_transfer_apply ref_ext JNull (transfer_tx ''lskbb'') [success_event] owners_world))"
    by (metis prod.collapse)
  have "shares_of (committed owners_world) ''m1'' ''lskaa'' = 60" "shares_of (committed owners_world) ''m1'' ''lskbb'' = 0"
    by code_simp+
  with audio_transfer_conserves [OF ref_ext_engine owners_world_ready owners_world_trx owners_world_ready refl
      transfer_tx_props run] show ?thesis by auto
qed

end
