(* ===== verification/Totals.thy ===== *)
theory Totals
  imports DbInvariant
begin

text \<open>
  The running totals the indexer keeps in the key-value store: total staked, total self-staked
  and total locked amounts per token (\<open>utils/blockchainIndex.js\<close>, \<open>pos/stake.js\<close>). The
  interface \<open>total_store\<close> states what the updates need of the store; the key-value table
  provides it, and the facts about the updates are proved from the interface.
\<close>

subsection \<open>The interface\<close>

text \<open>
  A round of updates takes the current totals from a base state (the committed tables) and
  writes the sums into another one (the open transaction).
\<close>

definition post_changes ::
    "('s \<Rightarrow> string \<Rightarrow> int) \<Rightarrow> (string \<Rightarrow> int \<Rightarrow> 's \<Rightarrow> 's) \<Rightarrow> string \<Rightarrow> 's \<Rightarrow> (string \<times> int) list \<Rightarrow> 's \<Rightarrow> 's" where
  "post_changes tot put prefix base cs d =
     fold (\<lambda>(t, c) d. put (prefix @ t) (tot base (prefix @ t) + c) d) cs d"

locale total_store =
  fixes ready :: "'s \<Rightarrow> bool" and tot :: "'s \<Rightarrow> string \<Rightarrow> int" and put :: "string \<Rightarrow> int \<Rightarrow> 's \<Rightarrow> 's"
  assumes put_ready: "ready d \<Longrightarrow> ready (put k n d)"
    and tot_put: "ready d \<Longrightarrow> tot (put k n d) k' = (if k' = k then n else tot d k')"
begin

lemma post_ready: "ready d \<Longrightarrow> ready (post_changes tot put prefix base cs d)"
  by (induction cs arbitrary: d) (auto simp: post_changes_def put_ready)

lemma tot_post_other:
  "ready d \<Longrightarrow> k \<notin> (\<lambda>(t, c). prefix @ t) ` set cs \<Longrightarrow> tot (post_changes tot put prefix base cs d) k = tot d k"
  by (induction cs arbitrary: d) (auto simp: post_changes_def put_ready tot_put split: if_splits)

text \<open>Each token named once: its total becomes the base total plus its change.\<close>

lemma tot_post:
  assumes "ready d" and "distinct (map fst cs)" and "(t, c) \<in> set cs"
  shows "tot (post_changes tot put prefix base cs d) (prefix @ t) = tot base (prefix @ t) + c"
  using assms
proof (induction cs arbitrary: d)
  case (Cons p cs)
  obtain t' c' where p: "p = (t', c')" by (cases p)
  let ?d = "put (prefix @ t') (tot base (prefix @ t') + c') d"
  have step: "post_changes tot put prefix base (p # cs) d = post_changes tot put prefix base cs ?d"
    by (simp add: post_changes_def p)
  have ready: "ready ?d" using Cons.prems by (simp add: put_ready)
  show ?case
  proof (cases "(t, c) \<in> set cs")
    case True
    with Cons ready show ?thesis by (simp add: step)
  next
    case False
    with Cons.prems p have tc: "t = t'" "c = c'" by auto
    with Cons.prems p have "prefix @ t \<notin> (\<lambda>(t, c). prefix @ t) ` set cs" by force
    from tot_post_other [OF ready this] show ?thesis
      using Cons.prems tc by (simp add: step tot_put)
  qed
qed simp

text \<open>
  Two rounds in the same transaction both start from the committed totals: the second one
  overwrites the first.
\<close>

lemma tot_post_twice:
  assumes "ready d" and "distinct (map fst cs2)" and "(t, c2) \<in> set cs2"
  shows "tot (post_changes tot put prefix base cs2 (post_changes tot put prefix base cs1 d)) (prefix @ t)
    = tot base (prefix @ t) + c2"
  using tot_post [OF post_ready [OF assms(1)] assms(2,3)] .

text \<open>A round and, from its result, the round of the opposite changes restore every total.\<close>

lemma tot_post_cancel:
  assumes "ready d" and "distinct (map fst cs)"
  shows "tot (post_changes tot put prefix (post_changes tot put prefix d cs d)
      (map (\<lambda>(t, c). (t, - c)) cs) (post_changes tot put prefix d cs d)) (prefix @ t) = tot d (prefix @ t)"
proof -
  let ?d = "post_changes tot put prefix d cs d" and ?neg = "map (\<lambda>(t, c). (t, - c)) cs"
  have ready: "ready ?d" by (rule post_ready [OF assms(1)])
  have keys: "map fst ?neg = map fst cs" by (auto simp: o_def split_def)
  show ?thesis
  proof (cases "t \<in> set (map fst cs)")
    case True
    then obtain c where c: "(t, c) \<in> set cs" by auto
    then have "(t, - c) \<in> set ?neg" by force
    moreover have "distinct (map fst ?neg)" unfolding keys by (rule assms(2))
    ultimately show ?thesis
      using tot_post [OF ready, of ?neg t "- c" prefix ?d] tot_post [OF assms c, of prefix d] by simp
  next
    case False
    then have "prefix @ t \<notin> (\<lambda>(t, c). prefix @ t) ` set cs"
      and "prefix @ t \<notin> (\<lambda>(t, c). prefix @ t) ` set ?neg" by force+
    with assms(1) ready show ?thesis by (simp add: tot_post_other)
  qed
qed

end

subsection \<open>The key-value table provides it\<close>

definition kv_row_of :: "db \<Rightarrow> string \<Rightarrow> obj option" where
  "kv_row_of d k = lookup_row [''key''] [JStr k] (rows_of d ''key_value_store'')"

text \<open>The number \<open>BigInt(value || 0)\<close> of a stored entry.\<close>

definition kv_total :: "db \<Rightarrow> string \<Rightarrow> int" where
  "kv_total d k = (case kv_row_of d k of
       None \<Rightarrow> 0
     | Some r \<Rightarrow> (case bindE (formatValue (oget r ''value'') (oget r ''type''))
                          (\<lambda>v. js_bigint (js_or v (JNum 0))) of Inr n \<Rightarrow> n | Inl _ \<Rightarrow> 0))"

definition kv_put :: "string \<Rightarrow> int \<Rightarrow> db \<Rightarrow> db" where
  "kv_put k n d = put_row ''key_value_store''
     [(''key'', JStr k), (''value'', JStr (show_int n)), (''type'', JStr ''bigint'')] d"

lemma kv_insert_ok:
  assumes "table_ready kvStoreTableSchema d" and "d ''key_value_store'' = Some tb"
  shows "insert_error (t_cols tb) (t_pk tb)
    [(''key'', JStr k), (''value'', JStr s), (''type'', JStr ty)] = None"
  using assms by (auto simp: table_ready_def kv_columns insert_error_def sql_null_def)

lemma kv_ready_table:
  assumes "table_ready kvStoreTableSchema d"
  obtains tb where "d ''key_value_store'' = Some tb"
  using assms by (auto simp: table_ready_def kv_columns split: option.splits)

lemma kv_put_ready:
  assumes ready: "table_ready kvStoreTableSchema d"
  shows "table_ready kvStoreTableSchema (kv_put k n d)"
proof -
  from ready obtain tb where tb: "d ''key_value_store'' = Some tb" by (rule kv_ready_table)
  show ?thesis
    using table_ready_put_row [OF ready, unfolded kv_columns, OF tb kv_insert_ok [OF ready tb]]
    by (simp add: kv_put_def)
qed

lemma kv_total_put:
  assumes ready: "table_ready kvStoreTableSchema d"
  shows "kv_total (kv_put k n d) k' = (if k' = k then n else kv_total d k')"
proof -
  from ready obtain tb where tb: "d ''key_value_store'' = Some tb" by (rule kv_ready_table)
  let ?row = "[(''key'', JStr k), (''value'', kv_cell (JBig n)), (''type'', JStr ''bigint'')]"
  have cell: "kv_cell (JBig n) = JStr (show_int n)" by (simp add: kv_cell_def)
  have rows: "rows_of (kv_put k n d) ''key_value_store'' = upsert_rows (t_cols tb) (t_pk tb) ?row (t_rows tb)"
    "rows_of d ''key_value_store'' = t_rows tb"
    by (simp_all add: kv_put_def put_row_def tb set_rows_def rows_of_def cell)
  have ok: "insert_error (t_cols tb) (t_pk tb) ?row = None"
    using kv_insert_ok [OF ready tb] by (simp add: cell)
  from kv_lookup_put [OF ready tb refl ok] obtain r where
    r: "lookup_row [''key''] [JStr k] (upsert_rows (t_cols tb) (t_pk tb) ?row (t_rows tb)) = Some r"
      "oget r ''value'' = JStr (show_int n)" "oget r ''type'' = JStr ''bigint''"
    and other: "\<And>k'. k' \<noteq> k \<Longrightarrow> lookup_row [''key''] [JStr k'] (upsert_rows (t_cols tb) (t_pk tb) ?row (t_rows tb))
        = lookup_row [''key''] [JStr k'] (t_rows tb)"
    by (auto simp: cell)
  show ?thesis
  proof (cases "k' = k")
    case True
    then show ?thesis
      by (simp add: kv_total_def kv_row_of_def rows r formatValue_def js_or_def)
  next
    case False
    then show ?thesis by (simp add: kv_total_def kv_row_of_def rows other)
  qed
qed

interpretation kv_totals: total_store "table_ready kvStoreTableSchema" kv_total kv_put
  by unfold_locales (simp_all add: kv_put_ready kv_total_put)

subsection \<open>The updates\<close>

lemma stored_total_ok:
  assumes eng: "sql_engine jc (kx X)" and ready: "table_ready kvStoreTableSchema (committed w)"
    and run: "stored_total X k w = (Inr n, w')"
  shows "n = kv_total (committed w) k \<and> w' = w"
proof -
  from run obtain v where get: "kv_get X k w = (Inr v, w')" and n: "js_bigint (js_or v (JNum 0)) = Inr n"
    by (auto simp: stored_total_def act_ok)
  from kv_get_ok [OF eng ready get] obtain tb where tb: "committed w ''key_value_store'' = Some tb" and "w' = w"
    and v: "case lookup_row [''key''] [JStr k] (t_rows tb) of
       None \<Rightarrow> v = JUndef
     | Some r \<Rightarrow> formatValue (oget r ''value'') (oget r ''type'') = Inr v" by blast
  then show ?thesis
    using n by (auto simp: kv_total_def kv_row_of_def rows_of_def js_or_def split: option.splits)
qed

lemma kv_set_total_ok:
  assumes eng: "sql_engine jc (kx X)" and run: "kv_set X k (JBig n) True w = (Inr u, w')"
  shows "\<exists>d. trx w = Some d \<and> w' = w\<lparr>trx := Some (kv_put k n d)\<rparr>"
proof -
  have "upsert (kx X) kvStoreTableSchema
      (JObj [(''key'', JStr k), (''value'', JStr (show_int n)), (''type'', JStr ''bigint'')]) True w = (Inr u, w')"
    using run by (simp add: kv_set_def ALLOWED_VALUE_TYPES_def)
  from sql_engine.upsert_one_trx_ok [OF eng this] show ?thesis
    using kv_row [of k "JBig n" "''bigint''"] by (auto simp: kv_columns kv_put_def kv_cell_def)
qed

lemma locked_step_ok:
  assumes eng: "sql_engine jc (kx X)" and ready: "table_ready kvStoreTableSchema (committed w)"
    and run: "bnd (stored_total X k) (\<lambda>cur. kv_set X k (JBig (cur + c)) True) w = (Inr u, w')"
  shows "\<exists>d. trx w = Some d \<and> w' = w\<lparr>trx := Some (kv_put k (kv_total (committed w) k + c) d)\<rparr>"
proof -
  from run obtain n w1 where "stored_total X k w = (Inr n, w1)" and set: "kv_set X k (JBig (n + c)) True w1 = (Inr u, w')"
    by (auto simp: act_ok)
  with stored_total_ok [OF eng ready] have "n = kv_total (committed w) k" "w1 = w" by auto
  with kv_set_total_ok [OF eng set] show ?thesis by simp
qed

text \<open>A successful update of the locked totals is one round of changes in the open transaction.\<close>

lemma updateTotalLockedAmounts_ok:
  assumes eng: "sql_engine jc (kx X)"
  shows "table_ready kvStoreTableSchema (committed w) \<Longrightarrow> trx w = Some d \<Longrightarrow>
    updateTotalLockedAmounts X cs w = (Inr (), w') \<Longrightarrow>
    w' = w\<lparr>trx := Some (post_changes kv_total kv_put TOTAL_LOCKED (committed w) cs d)\<rparr>"
proof (induction cs arbitrary: w d)
  case Nil
  then show ?case by (simp add: updateTotalLockedAmounts_def post_changes_def)
next
  case (Cons p cs)
  obtain t c where p: "p = (t, c)" by (cases p)
  let ?k = "TOTAL_LOCKED @ t"
  from Cons.prems(3) obtain w1 where
    step: "bnd (stored_total X ?k) (\<lambda>cur. kv_set X ?k (JBig (cur + c)) True) w = (Inr (), w1)"
    and rest: "updateTotalLockedAmounts X cs w1 = (Inr (), w')"
    by (auto simp: updateTotalLockedAmounts_def p Let_def thn_ok)
  from locked_step_ok [OF eng Cons.prems(1) step] Cons.prems(2)
  have w1: "w1 = w\<lparr>trx := Some (kv_put ?k (kv_total (committed w) ?k + c) d)\<rparr>" by simp
  have "w' = w1\<lparr>trx := Some (post_changes kv_total kv_put TOTAL_LOCKED (committed w1) cs
      (kv_put ?k (kv_total (committed w) ?k + c) d))\<rparr>"
    by (rule Cons.IH [OF _ _ rest]) (use Cons.prems(1) in \<open>simp_all add: w1\<close>)
  then show ?case by (simp add: w1 post_changes_def p)
qed


definition open_world :: iworld where
  "open_world = fresh_world\<lparr>trx := Some fresh_db\<rparr>"


subsection \<open>Deleting what was indexed\<close>

definition negate :: "(string \<times> int) list \<Rightarrow> (string \<times> int) list" where
  "negate cs = map (\<lambda>(t, c). (t, - c)) cs"

lemma negate_simps [simp]: "negate [] = []" "negate ((t, c) # cs) = (t, - c) # negate cs"
  by (simp_all add: negate_def)

lemma map_of_negate: "map_of (negate m) k = map_option uminus (map_of m k)"
  by (induction m) auto

lemma update_negate: "AList.update k (- x) (negate m) = negate (AList.update k x m)"
  by (induction m) auto

lemma add_change_negate: "add_change k (- x) (negate m) = negate (add_change k x m)"
proof -
  have "(case map_of (negate m) k of None \<Rightarrow> 0 | Some c \<Rightarrow> c) + - x
      = - ((case map_of m k of None \<Rightarrow> 0 | Some c \<Rightarrow> c) + x)"
    by (simp add: map_of_negate split: option.splits)
  then show ?thesis unfolding add_change_def by (simp only: update_negate)
qed

lemma locked_changes_negate:
  "locked_changes (- s) evs (negate m) = bindE (locked_changes s evs m) (\<lambda>cs. Inr (negate cs))"
proof (induction evs arbitrary: m)
  case (Cons e es)
  show ?case
    using Cons.IH add_change_negate [of _ "s * _"] add_change_negate [of _ "- s * _"]
    by (auto simp: bindE_def split: sum.splits)
qed simp

lemma distinct_locked_changes:
  "locked_changes s evs m = Inr cs \<Longrightarrow> distinct (map fst m) \<Longrightarrow> distinct (map fst cs)"
proof (induction evs arbitrary: m)
  case (Cons e es)
  from Cons.prems(1) obtain m' where rest: "locked_changes s es m' = Inr cs"
    and m': "m' = m \<or> (\<exists>k x. m' = add_change k x m)"
    by (auto simp: act_ok split: if_splits)
  from m' Cons.prems(2) have "distinct (map fst m')" by (auto simp: add_change_def distinct_update)
  with Cons.IH rest show ?case by blast
qed simp

text \<open>
  C6. Deleting a block undoes what indexing it did to the locked totals: when the changes of
  its events have been added and committed, and then the changes that deleting computes from
  the same events are added in a new transaction, every locked total is what it was before.
\<close>

theorem locked_totals_restored:
  assumes eng: "sql_engine jc (kx X)" and ready: "table_ready kvStoreTableSchema (committed w)"
    and start: "trx w = Some (committed w)"
    and idx: "locked_changes 1 evs [] = Inr cs" "updateTotalLockedAmounts X cs w = (Inr (), w1)"
    and del: "locked_changes (- 1) evs [] = Inr cs'"
      "updateTotalLockedAmounts X cs' (snd (startDbTransaction (snd (commitDbTransaction w1)))) = (Inr (), w2)"
  shows "\<exists>d2. trx w2 = Some d2 \<and> (\<forall>t. kv_total d2 (TOTAL_LOCKED @ t) = kv_total (committed w) (TOTAL_LOCKED @ t))"
proof -
  let ?d = "committed w"
  let ?d1 = "post_changes kv_total kv_put TOTAL_LOCKED ?d cs ?d"
  have w1: "w1 = w\<lparr>trx := Some ?d1\<rparr>" by (rule updateTotalLockedAmounts_ok [OF eng ready start idx(2)])
  let ?w = "w\<lparr>committed := ?d1, trx := Some ?d1\<rparr>"
  have restart: "snd (startDbTransaction (snd (commitDbTransaction w1))) = ?w"
    by (simp add: w1 startDbTransaction_def commitDbTransaction_def)
  have cs': "cs' = negate cs"
    using locked_changes_negate [of 1 evs "[]"] idx(1) del(1) by simp
  have "w2 = ?w\<lparr>trx := Some (post_changes kv_total kv_put TOTAL_LOCKED ?d1 cs' ?d1)\<rparr>"
    using updateTotalLockedAmounts_ok [OF eng _ _ del(2) [unfolded restart]] kv_totals.post_ready [OF ready] by simp
  moreover have "distinct (map fst cs)" by (rule distinct_locked_changes [OF idx(1)]) simp
  ultimately show ?thesis
    using kv_totals.tot_post_cancel [OF ready, of cs TOTAL_LOCKED] by (simp add: cs' negate_def)
qed

definition sample_events :: "jsval list" where
  "sample_events =
     [JObj [(''name'', JStr ''lock''), (''data'', JObj [(''tokenID'', JStr ''t1''), (''amount'', JStr ''9'')])],
      JObj [(''name'', JStr ''transfer''), (''data'', JObj [])],
      JObj [(''name'', JStr ''unlock''), (''data'', JObj [(''tokenID'', JStr ''t1''), (''amount'', JStr ''4'')])]]"

theorem locked_totals_restored_witness:
  "\<exists>cs cs' d2. locked_changes 1 sample_events [] = Inr cs \<and> locked_changes (- 1) sample_events [] = Inr cs'
     \<and> trx (snd (updateTotalLockedAmounts ref_ext cs' (snd (startDbTransaction (snd (commitDbTransaction
         (snd (updateTotalLockedAmounts ref_ext cs open_world)))))))) = Some d2
     \<and> kv_total d2 (TOTAL_LOCKED @ ''t1'') = kv_total fresh_db (TOTAL_LOCKED @ ''t1'')"
proof -
  have idx: "locked_changes 1 sample_events [] = Inr [(''t1'', 5)]" by code_simp
  have del: "locked_changes (- 1) sample_events [] = Inr [(''t1'', - 5)]" by code_simp
  let ?r1 = "updateTotalLockedAmounts ref_ext [(''t1'', 5)] open_world"
  have "fst ?r1 = Inr ()" by code_simp
  then have r1: "?r1 = (Inr (), snd ?r1)" by (metis prod.collapse)
  let ?r2 = "updateTotalLockedAmounts ref_ext [(''t1'', - 5)] (snd (startDbTransaction (snd (commitDbTransaction (snd ?r1)))))"
  have "fst ?r2 = Inr ()" by code_simp
  then have r2: "?r2 = (Inr (), snd ?r2)" by (metis prod.collapse)
  have ready: "table_ready kvStoreTableSchema (committed open_world)"
    by (simp add: open_world_def table_ready_fresh indexer_schemas_def)
  have w: "committed open_world = fresh_db" "trx open_world = Some (committed open_world)"
    by (simp_all add: open_world_def)
  from locked_totals_restored [OF ref_ext_engine ready w(2) idx r1 del r2] idx del show ?thesis
    by (auto simp: w(1))
qed

end
