(* ===== verification/Stakes.thy ===== *)
theory Stakes
  imports Totals
begin

text \<open>
  The stakes table under the \<open>stake\<close> command (\<open>pos/stake.js\<close>): what applying and reverting
  a stake do to the amount kept for a staker and a validator, and what two stake transactions of
  one block do to the total.
\<close>

definition stake_row :: "db \<Rightarrow> string \<Rightarrow> string \<Rightarrow> obj option" where
  "stake_row d s v = lookup_row [''validatorAddress'', ''stakerAddress''] [JStr v, JStr s] (rows_of d ''stakes'')"

text \<open>The amount staked: zero without a row.\<close>

definition stake_amount :: "db \<Rightarrow> string \<Rightarrow> string \<Rightarrow> int" where
  "stake_amount d s v = (case stake_row d s v of None \<Rightarrow> 0 | Some r \<Rightarrow> sql_num (oget r ''amount''))"

text \<open>No row with a null amount: the indexer never writes one.\<close>

definition amounts_known :: "db \<Rightarrow> bool" where
  "amounts_known d \<longleftrightarrow> list_all (\<lambda>r. oget r ''amount'' \<noteq> JNull) (rows_of d ''stakes'')"

definition stake_of :: "string \<Rightarrow> string \<Rightarrow> int \<Rightarrow> obj" where
  "stake_of s v a = [(''stakerAddress'', JStr s), (''validatorAddress'', JStr v), (''amount'', JStr (show_int a))]"

lemma stakes_columns:
  "column_defs stakesTableSchema =
    [\<lparr>c_name = ''stakerAddress'', c_type = ''string'', c_notnull = False, c_default = None\<rparr>,
     \<lparr>c_name = ''validatorAddress'', c_type = ''string'', c_notnull = False, c_default = None\<rparr>,
     \<lparr>c_name = ''amount'', c_type = ''bigInteger'', c_notnull = False, c_default = None\<rparr>]"
  "primaryKey stakesTableSchema = [''validatorAddress'', ''stakerAddress'']"
  "tableName stakesTableSchema = ''stakes''"
  by (simp_all add: column_defs_def stakesTableSchema_def)

lemma stake_where_of: "stake_where (stake_of s v a) = [(''stakerAddress'', JStr s), (''validatorAddress'', JStr v)]"
  by (simp add: stake_where_def stake_of_def)

lemma stakes_has:
  assumes "typed_row (column_defs stakesTableSchema) r"
  shows "ohas r ''stakerAddress''" "ohas r ''validatorAddress''" "ohas r ''amount''"
  unfolding ohas_def typed_row_fst [OF assms] by (simp_all add: stakes_columns)

text \<open>In a typed row the condition on both addresses is the condition on the primary key.\<close>

lemma stake_where_key:
  assumes r: "typed_row (column_defs stakesTableSchema) r"
  shows "wtop jc r (where_obj (stake_where (stake_of s v a))) \<longleftrightarrow>
    row_key [''validatorAddress'', ''stakerAddress''] r = [JStr v, JStr s]"
proof -
  have has: "ohas r ''stakerAddress''" "ohas r ''validatorAddress''"
    by (rule stakes_has [OF r])+
  have ty: "typed_val ''string'' (oget r ''stakerAddress'')" "typed_val ''string'' (oget r ''validatorAddress'')"
    using r by (simp_all add: typed_row_def stakes_columns)
  have str: "\<not> is_numeric_type ''string''" by (simp add: is_numeric_type_def)
  show ?thesis
    unfolding stake_where_of wtop_where_obj
    using sql_eq_string_col [OF ty(1) str] sql_eq_string_col [OF ty(2) str]
    by (auto simp: col_val_exact has row_key_def simp del: sql_cmp.simps)
qed

lemma stakes_table:
  assumes "table_ready stakesTableSchema d"
  obtains tb where "d ''stakes'' = Some tb" "t_cols tb = column_defs stakesTableSchema"
    "t_pk tb = [''validatorAddress'', ''stakerAddress'']" "wf_table tb" "rows_of d ''stakes'' = t_rows tb"
  using assms by (auto simp: table_ready_def stakes_columns rows_of_def split: option.splits)

text \<open>The rows after adding \<open>n\<close> to the amount of one stake.\<close>

definition add_amount :: "string \<Rightarrow> string \<Rightarrow> int \<Rightarrow> obj list \<Rightarrow> obj list" where
  "add_amount s v n rows = map (\<lambda>r. if row_key [''validatorAddress'', ''stakerAddress''] r = [JStr v, JStr s]
     then incr_row (column_defs stakesTableSchema) [(''amount'', n)] r else r) rows"

lemma row_key_add_amount:
  "ohas r ''validatorAddress'' \<Longrightarrow> ohas r ''stakerAddress'' \<Longrightarrow>
   row_key [''validatorAddress'', ''stakerAddress''] (incr_row cols [(''amount'', n)] r)
     = row_key [''validatorAddress'', ''stakerAddress''] r"
  by (simp add: row_key_def oget_incr_row)

lemma lookup_add_amount:
  assumes "list_all (typed_row (column_defs stakesTableSchema)) rows"
  shows "lookup_row [''validatorAddress'', ''stakerAddress''] key (add_amount s v n rows)
    = map_option (\<lambda>r. if key = [JStr v, JStr s] then incr_row (column_defs stakesTableSchema) [(''amount'', n)] r else r)
        (lookup_row [''validatorAddress'', ''stakerAddress''] key rows)"
  using assms
proof (induction rows)
  case (Cons r rows)
  then have "ohas r ''validatorAddress''" "ohas r ''stakerAddress''" by (simp_all add: stakes_has)
  with Cons show ?case by (auto simp: add_amount_def lookup_row_def row_key_add_amount)
qed (simp add: add_amount_def lookup_row_def)

lemma amount_after_incr:
  assumes "typed_row (column_defs stakesTableSchema) r" and "oget r ''amount'' \<noteq> JNull"
  shows "oget (incr_row (column_defs stakesTableSchema) [(''amount'', n)] r) ''amount''
    = JNum (sql_num (oget r ''amount'') + n)"
proof -
  have "ohas r ''amount''" by (rule stakes_has [OF assms(1)])
  moreover have "typed_val ''bigInteger'' (oget r ''amount'')"
    using assms(1) by (simp add: typed_row_def stakes_columns)
  then have "\<not> sql_null (oget r ''amount'')"
    using assms(2) by (auto simp: sql_null_def typed_val_def)
  ultimately show ?thesis
    by (simp add: oget_incr_row col_type_def stakes_columns store_val_def is_numeric_type_def)
qed

lemma stake_amount_add:
  assumes ready: "table_ready stakesTableSchema d" and known: "amounts_known d"
    and d': "rows_of d' ''stakes'' = add_amount s v n (rows_of d ''stakes'')"
    and some: "stake_row d s v \<noteq> None"
  shows "stake_amount d' s' v' = stake_amount d s' v' + (if (s', v') = (s, v) then n else 0)"
proof -
  from ready obtain tb where tb: "t_cols tb = column_defs stakesTableSchema" "wf_table tb"
    "rows_of d ''stakes'' = t_rows tb" by (rule stakes_table)
  then have typed: "list_all (typed_row (column_defs stakesTableSchema)) (rows_of d ''stakes'')"
    by (simp add: wf_table_def)
  have row: "typed_row (column_defs stakesTableSchema) r \<and> oget r ''amount'' \<noteq> JNull"
    if "stake_row d s' v' = Some r" for r
    using that typed known lookup_row_Some unfolding stake_row_def amounts_known_def list_all_iff by blast
  show ?thesis
  proof (cases "stake_row d s' v'")
    case None
    with some have "(s', v') \<noteq> (s, v)" by auto
    with None show ?thesis
      by (auto simp: stake_amount_def stake_row_def d' lookup_add_amount [OF typed])
  next
    case (Some r)
    with row [OF Some] show ?thesis
      by (auto simp: stake_amount_def stake_row_def d' lookup_add_amount [OF typed] amount_after_incr)
  qed
qed

subsection \<open>The counting statements\<close>

text \<open>What a statement that adds \<open>n\<close> to the amount of one stake leaves behind, and how many rows it reports.\<close>

definition counted :: "db \<Rightarrow> string \<Rightarrow> string \<Rightarrow> int \<Rightarrow> sqlres \<Rightarrow> db \<Rightarrow> bool" where
  "counted d s v n res d' \<longleftrightarrow> rows_of d' ''stakes'' = add_amount s v n (rows_of d ''stakes'')
     \<and> table_ready stakesTableSchema d' \<and> (res = RCount 0 \<longleftrightarrow> stake_row d s v = None)
     \<and> (\<exists>m. res = RCount m)"

lemma stake_hits:
  assumes "table_ready stakesTableSchema d"
  shows "length (filter (\<lambda>r. row_key [''validatorAddress'', ''stakerAddress''] r = [JStr v, JStr s]) (rows_of d ''stakes''))
    = (case stake_row d s v of None \<Rightarrow> 0 | Some _ \<Rightarrow> 1)"
proof -
  from assms obtain tb where tb: "t_pk tb = [''validatorAddress'', ''stakerAddress'']" "wf_table tb"
    "rows_of d ''stakes'' = t_rows tb" by (rule stakes_table)
  then have "distinct (map (row_key [''validatorAddress'', ''stakerAddress'']) (rows_of d ''stakes''))"
    by (simp add: wf_table_def)
  from filter_eq_find [OF this, of "[JStr v, JStr s]"] show ?thesis
    by (auto simp: stake_row_def lookup_row_def split: option.splits)
qed

lemma counted_stmt:
  assumes ready: "table_ready stakesTableSchema d" and wf: "wf_db d"
    and st: "(st = SIncr ''stakes'' (stake_where (stake_of s v a)) [(''amount'', b)] \<and> n = b)
      \<or> (st = SDecr ''stakes'' (stake_where (stake_of s v a)) [(''amount'', b)] \<and> n = - b)"
    and run: "sql_run jc st d = Inr (res, d')"
  shows "counted d s v n res d'"
proof -
  from ready obtain tb where tb: "d ''stakes'' = Some tb" "t_cols tb = column_defs stakesTableSchema"
    "t_pk tb = [''validatorAddress'', ''stakerAddress'']" "wf_table tb" "rows_of d ''stakes'' = t_rows tb"
    by (rule stakes_table)
  have typed: "typed_row (column_defs stakesTableSchema) r" if "r \<in> set (t_rows tb)" for r
    using tb(2,4) that by (auto simp: wf_table_def list_all_iff)
  let ?hit = "\<lambda>r. row_key [''validatorAddress'', ''stakerAddress''] r = [JStr v, JStr s]"
  have hit: "wtop jc r (where_obj (stake_where (stake_of s v a))) = ?hit r" if "r \<in> set (t_rows tb)" for r
    by (rule stake_where_key [OF typed [OF that]])
  have rows: "map (\<lambda>r. if wtop jc r (where_obj (stake_where (stake_of s v a)))
      then incr_row (t_cols tb) [(''amount'', n)] r else r) (t_rows tb) = add_amount s v n (t_rows tb)"
    unfolding add_amount_def tb(2) by (rule map_cong) (simp_all only: hit)
  have rows_neg: "map (\<lambda>r. if wtop jc r (where_obj (stake_where (stake_of s v a)))
      then incr_row (t_cols tb) (map (\<lambda>(k, n). (k, - n)) [(''amount'', b)]) r else r) (t_rows tb)
      = add_amount s v n (t_rows tb)" if "n = - b"
    unfolding add_amount_def tb(2) by (rule map_cong) (simp_all add: hit that del: wtop_where_obj)
  have hits: "filter (\<lambda>r. wtop jc r (where_obj (stake_where (stake_of s v a)))) (t_rows tb) = filter ?hit (t_rows tb)"
    by (rule filter_cong) (simp_all only: hit)
  have d': "d' = set_rows d ''stakes'' tb (add_amount s v n (t_rows tb))"
    and res: "res = RCount (int (length (filter ?hit (t_rows tb))))"
    using st run rows rows_neg hits by (auto simp: with_table_def tb(1) split: if_splits simp del: wtop_where_obj)
  have "keeps_keys d st" using st tb(1,3) by auto
  from sql_run_wf [OF wf this run] have "wf_table (tb\<lparr>t_rows := add_amount s v n (t_rows tb)\<rparr>)"
    unfolding wf_db_def d' set_rows_def by (metis fun_upd_same)
  then have "table_ready stakesTableSchema d'"
    using tb(2,3) by (simp add: d' table_ready_def set_rows_def stakes_columns)
  moreover have "rows_of d' ''stakes'' = add_amount s v n (rows_of d ''stakes'')"
    by (simp add: d' rows_of_def set_rows_def tb(1))
  ultimately show ?thesis
    using stake_hits [OF ready, of v s] by (auto simp: counted_def res tb(5) split: option.splits)
qed

text \<open>Adding to an amount that is not null leaves no null amount.\<close>

lemma amounts_known_add:
  assumes "table_ready stakesTableSchema d" and "amounts_known d"
    and "rows_of d' ''stakes'' = add_amount s v n (rows_of d ''stakes'')"
  shows "amounts_known d'"
proof -
  from assms(1) obtain tb where tb: "t_cols tb = column_defs stakesTableSchema" "wf_table tb"
    "rows_of d ''stakes'' = t_rows tb" by (rule stakes_table)
  then have "typed_row (column_defs stakesTableSchema) r" if "r \<in> set (rows_of d ''stakes'')" for r
    using that by (auto simp: wf_table_def list_all_iff)
  with assms(2) show ?thesis
    unfolding amounts_known_def assms(3) list_all_iff add_amount_def
    by (auto simp: amount_after_incr)
qed

subsection \<open>Applying and reverting one stake\<close>

definition new_stake :: "string \<Rightarrow> string \<Rightarrow> int \<Rightarrow> obj" where
  "new_stake s v a = [(''stakerAddress'', JStr s), (''validatorAddress'', JStr v), (''amount'', JNum a)]"

lemma stake_mapped: "mapRow (schema stakesTableSchema) (JObj (stake_of s v a))
    = Inr [(''stakerAddress'', JStr s), (''validatorAddress'', JStr v), (''amount'', JBig a)]"
  by (simp add: stakesTableSchema_def stake_of_def cast_def getValue_def)

text \<open>Writing a stake that has no row yet appends one.\<close>

lemma stake_put_new:
  assumes ready: "table_ready stakesTableSchema d" and none: "stake_row d s v = None"
  shows "rows_of (put_row ''stakes'' [(''stakerAddress'', JStr s), (''validatorAddress'', JStr v), (''amount'', JBig a)] d)
      ''stakes'' = rows_of d ''stakes'' @ [new_stake s v a]"
proof -
  from ready obtain tb where tb: "d ''stakes'' = Some tb" "t_cols tb = column_defs stakesTableSchema"
    "t_pk tb = [''validatorAddress'', ''stakerAddress'']" "rows_of d ''stakes'' = t_rows tb"
    by (rule stakes_table)
  let ?row = "[(''stakerAddress'', JStr s), (''validatorAddress'', JStr v), (''amount'', JBig a)]"
  have new: "new_row (t_cols tb) ?row = new_stake s v a"
    by (simp add: new_row_def tb(2) stakes_columns new_stake_def store_val_def is_numeric_type_def)
  have key: "row_key (t_pk tb) (new_stake s v a) = [JStr v, JStr s]"
    by (simp add: row_key_def tb(3) new_stake_def)
  have "[JStr v, JStr s] \<notin> set (map (row_key (t_pk tb)) (t_rows tb))"
    using none by (simp add: stake_row_def lookup_row_None tb(3,4))
  then show ?thesis
    by (simp add: put_row_def tb(1) set_rows_def rows_of_def upsert_rows_def new key Let_def)
qed

lemma row_key_new_stake [simp]:
  "row_key [''validatorAddress'', ''stakerAddress''] (new_stake s v a) = [JStr v, JStr s]"
  by (simp add: row_key_def new_stake_def)

lemma stake_of_amount [simp]: "oget (stake_of s v a) ''amount'' = JStr (show_int a)"
  by (simp add: stake_of_def)

lemma stake_amount_new:
  assumes none: "stake_row d s v = None" and rows: "rows_of d' ''stakes'' = rows_of d ''stakes'' @ [new_stake s v a]"
  shows "stake_amount d' s' v' = stake_amount d s' v' + (if (s', v') = (s, v) then a else 0)"
proof -
  have "stake_row d' s' v' = (case stake_row d s' v' of
      Some r \<Rightarrow> Some r | None \<Rightarrow> if (s', v') = (s, v) then Some (new_stake s v a) else None)"
    by (auto simp: stake_row_def rows lookup_row_def find_append split: option.splits)
  with none show ?thesis
    by (auto simp: stake_amount_def new_stake_def split: option.splits)
qed

lemma add_amount_none:
  assumes "stake_row d s v = None"
  shows "add_amount s v n (rows_of d ''stakes'') = rows_of d ''stakes''"
proof -
  have "row_key [''validatorAddress'', ''stakerAddress''] r \<noteq> [JStr v, JStr s]" if "r \<in> set (rows_of d ''stakes'')" for r
    using assms imageI [OF that, of "row_key [''validatorAddress'', ''stakerAddress'']"]
    by (auto simp: stake_row_def lookup_row_None)
  then show ?thesis unfolding add_amount_def by (intro map_idI) simp
qed

lemma world_readyD: "world_ready w \<Longrightarrow> trx w = Some d \<Longrightarrow> db_ready d"
  by (simp add: world_ready_def)

lemma run_one_trx:
  assumes "run_batch k True [st] w = (Inr rs, w')" and "trx w = Some d"
  shows "\<exists>res d'. k st d = Inr (res, d') \<and> rs = [res] \<and> w' = w\<lparr>trx := Some d'\<rparr>"
  using assms by (auto simp: run_batch_def split: sum.splits prod.splits)

lemma stake_row_add:
  assumes "table_ready stakesTableSchema d"
    and "rows_of d' ''stakes'' = add_amount s v n (rows_of d ''stakes'')"
  shows "stake_row d' s' v' = None \<longleftrightarrow> stake_row d s' v' = None"
proof -
  from assms(1) obtain tb where tb: "t_cols tb = column_defs stakesTableSchema" "wf_table tb"
    "rows_of d ''stakes'' = t_rows tb" by (rule stakes_table)
  then have "list_all (typed_row (column_defs stakesTableSchema)) (rows_of d ''stakes'')"
    by (simp add: wf_table_def)
  then show ?thesis by (simp add: stake_row_def assms(2) lookup_add_amount)
qed

lemma incrementStakeTrx_ok:
  assumes eng: "sql_engine jc (kx X)" and inv: "world_ready w" and d: "trx w = Some d"
    and known: "amounts_known d" and run: "incrementStakeTrx X (stake_of s v a) w = (Inr (), w')"
  shows "\<exists>d'. w' = w\<lparr>trx := Some d'\<rparr> \<and> amounts_known d' \<and> stake_row d' s v \<noteq> None \<and>
    (\<forall>s' v'. stake_amount d' s' v' = stake_amount d s' v' + (if (s', v') = (s, v) then a else 0))"
proof -
  have ready: "table_ready stakesTableSchema d" and wf: "wf_db d"
    using world_readyD [OF inv d] db_readyD schemas_of_service by (auto simp: db_ready_def)
  let ?st = "SIncr ''stakes'' (stake_where (stake_of s v a)) [(''amount'', a)]"
  from run obtain rs w1 where batch: "run_batch (kx X) True [?st] w = (Inr rs, w1)"
    and rest: "(if res_count rs = 0 then upsert (kx X) stakesTableSchema (JObj (stake_of s v a)) True else ret ()) w1
      = (Inr (), w')"
    by (auto simp: incrementStakeTrx_def increment_def act_ok stakes_columns(3))
  from run_one_trx [OF batch d] obtain res d1 where kx: "kx X ?st d = Inr (res, d1)"
    and rs: "rs = [res]" and w1: "w1 = w\<lparr>trx := Some d1\<rparr>" by blast
  have c: "counted d s v a res d1"
    by (rule counted_stmt [OF ready wf _ sql_engine.sound [OF eng kx]]) blast
  then have rows: "rows_of d1 ''stakes'' = add_amount s v a (rows_of d ''stakes'')"
    and ready1: "table_ready stakesTableSchema d1" by (simp_all add: counted_def)
  show ?thesis
  proof (cases "stake_row d s v")
    case None
    with c have "res_count rs = 0" by (auto simp: counted_def rs res_count_def)
    with rest have up: "upsert (kx X) stakesTableSchema (JObj (stake_of s v a)) True w1 = (Inr (), w')" by simp
    have same: "rows_of d1 ''stakes'' = rows_of d ''stakes''" using rows add_amount_none [OF None] by simp
    with None have none1: "stake_row d1 s v = None" by (simp add: stake_row_def)
    from sql_engine.upsert_one_trx_ok [OF eng up] obtain d' where
      w': "w' = w\<lparr>trx := Some d'\<rparr>" and d': "d' = put_row ''stakes''
        [(''stakerAddress'', JStr s), (''validatorAddress'', JStr v), (''amount'', JBig a)] d1"
      by (auto simp: stake_mapped [simplified] stakes_columns(3) w1)
    have rows': "rows_of d' ''stakes'' = rows_of d ''stakes'' @ [new_stake s v a]"
      unfolding d' using stake_put_new [OF ready1 none1] same by simp
    then have "amounts_known d'" using known by (simp add: amounts_known_def new_stake_def)
    moreover have "stake_row d' s v \<noteq> None"
      by (auto simp: stake_row_def rows' lookup_row_def find_append split: option.splits)
    ultimately show ?thesis using w' stake_amount_new [OF None rows'] by blast
  next
    case (Some r)
    with c have "res_count rs \<noteq> 0" by (auto simp: counted_def rs res_count_def)
    with rest w1 have "w' = w\<lparr>trx := Some d1\<rparr>" by simp
    moreover have "stake_row d1 s v \<noteq> None"
      using Some stake_row_add [OF ready rows] by simp
    ultimately show ?thesis
      using stake_amount_add [OF ready known rows] Some amounts_known_add [OF ready known rows] by auto
  qed
qed

lemma decrementStakeTrx_ok:
  assumes eng: "sql_engine jc (kx X)" and inv: "world_ready w" and d: "trx w = Some d"
    and known: "amounts_known d" and some: "stake_row d s v \<noteq> None"
    and run: "decrementStakeTrx X (stake_of s v a) w = (Inr (), w')"
  shows "\<exists>d'. w' = w\<lparr>trx := Some d'\<rparr> \<and> amounts_known d' \<and>
    (\<forall>s' v'. stake_amount d' s' v' = stake_amount d s' v' - (if (s', v') = (s, v) then a else 0))"
proof -
  have ready: "table_ready stakesTableSchema d" and wf: "wf_db d"
    using world_readyD [OF inv d] db_readyD schemas_of_service by (auto simp: db_ready_def)
  let ?st = "SDecr ''stakes'' (stake_where (stake_of s v a)) [(''amount'', a)]"
  from run obtain rs where batch: "run_batch (kx X) True [?st] w = (Inr rs, w')"
    by (auto simp: decrementStakeTrx_def decrement_def act_ok stakes_columns(3))
  from run_one_trx [OF batch d] obtain res d1 where kx: "kx X ?st d = Inr (res, d1)"
    and w': "w' = w\<lparr>trx := Some d1\<rparr>" by blast
  have "counted d s v (- a) res d1"
    by (rule counted_stmt [OF ready wf _ sql_engine.sound [OF eng kx]]) blast
  then have rows: "rows_of d1 ''stakes'' = add_amount s v (- a) (rows_of d ''stakes'')"
    by (simp add: counted_def)
  show ?thesis
    using stake_amount_add [OF ready known rows some] amounts_known_add [OF ready known rows] w' by auto
qed

lemma good_engineI: "sql_engine jc k \<Longrightarrow> good_engine k"
  by (auto simp: good_engine_def)

text \<open>
  C7. Reverting a stake undoes applying it: in a well-formed database, applying adds the
  staked amount to the staker's stake on the validator, and reverting afterwards brings every
  staked amount back to what it was.
\<close>

theorem stake_apply_revert:
  assumes eng: "sql_engine jc (kx X)" and inv: "world_ready w" and d: "trx w = Some d" and known: "amounts_known d"
    and ap: "incrementStakeTrx X (stake_of s v a) w = (Inr (), w1)"
    and rv: "decrementStakeTrx X (stake_of s v a) w1 = (Inr (), w2)"
  shows "\<exists>d1 d2. trx w1 = Some d1 \<and> trx w2 = Some d2 \<and> stake_amount d1 s v = stake_amount d s v + a
    \<and> (\<forall>s' v'. stake_amount d2 s' v' = stake_amount d s' v')"
proof -
  from incrementStakeTrx_ok [OF eng inv d known ap] obtain d1 where d1: "trx w1 = Some d1" "amounts_known d1"
    "stake_row d1 s v \<noteq> None"
    and am1: "\<And>s' v'. stake_amount d1 s' v' = stake_amount d s' v' + (if (s', v') = (s, v) then a else 0)" by auto
  have "world_ready w1"
    using keepsD [OF db.kept_stake_writes(1) [OF good_engineI [OF eng]] ap] inv by (simp add: stays_ready_def)
  from decrementStakeTrx_ok [OF eng this d1 rv] obtain d2 where d2: "trx w2 = Some d2"
    and am2: "\<And>s' v'. stake_amount d2 s' v' = stake_amount d1 s' v' - (if (s', v') = (s, v) then a else 0)" by auto
  from d1(1) d2 am1 am2 show ?thesis by simp
qed

lemma open_world_ready: "world_ready open_world"
  by (simp add: world_ready_def open_world_def db_ready_fresh)

theorem stake_apply_revert_witness:
  "\<exists>d1. trx (snd (incrementStakeTrx ref_ext (stake_of ''s'' ''v'' 7) open_world)) = Some d1
     \<and> stake_amount d1 ''s'' ''v'' = stake_amount fresh_db ''s'' ''v'' + 7"
proof -
  let ?w1 = "snd (incrementStakeTrx ref_ext (stake_of ''s'' ''v'' 7) open_world)"
  let ?w2 = "snd (decrementStakeTrx ref_ext (stake_of ''s'' ''v'' 7) ?w1)"
  have "fst (incrementStakeTrx ref_ext (stake_of ''s'' ''v'' 7) open_world) = Inr ()" by code_simp
  then have ap: "incrementStakeTrx ref_ext (stake_of ''s'' ''v'' 7) open_world = (Inr (), ?w1)"
    by (metis prod.collapse)
  have "fst (decrementStakeTrx ref_ext (stake_of ''s'' ''v'' 7) ?w1) = Inr ()" by code_simp
  then have rv: "decrementStakeTrx ref_ext (stake_of ''s'' ''v'' 7) ?w1 = (Inr (), ?w2)"
    by (metis prod.collapse)
  have d: "trx open_world = Some fresh_db" by (simp add: open_world_def)
  have known: "amounts_known fresh_db" by code_simp
  from stake_apply_revert [OF ref_ext_engine open_world_ready d known ap rv] show ?thesis by blast
qed

subsection \<open>Several stakes\<close>

definition stakes_of :: "(string \<times> string \<times> int) list \<Rightarrow> obj list" where
  "stakes_of ts = map (\<lambda>(s, v, a). stake_of s v a) ts"

definition amounts :: "(string \<times> string \<times> int) list \<Rightarrow> (string \<times> string \<Rightarrow> bool) \<Rightarrow> int" where
  "amounts ts P = sum_list (map (\<lambda>(s, v, a). a) (filter (\<lambda>(s, v, a). P (s, v)) ts))"

lemma apply_stakes_sums:
  assumes eng: "sql_engine jc (kx X)"
  shows "world_ready w \<Longrightarrow> trx w = Some d \<Longrightarrow> amounts_known d \<Longrightarrow>
    apply_stakes X (stakes_of ts) t0 s0 w = (Inr (tot, self), w') \<Longrightarrow>
    tot = t0 + amounts ts (\<lambda>_. True) \<and> self = s0 + amounts ts (\<lambda>(s, v). s = v)
    \<and> (\<exists>d'. trx w' = Some d' \<and> (\<forall>s v. stake_amount d' s v = stake_amount d s v + amounts ts (\<lambda>p. p = (s, v))))"
proof (induction ts arbitrary: w d t0 s0)
  case Nil
  then show ?case by (simp add: stakes_of_def amounts_def)
next
  case (Cons t ts)
  obtain s v a where t: "t = (s, v, a)" by (cases t)
  from Cons.prems(4) obtain w1 where step: "incrementStakeTrx X (stake_of s v a) w = (Inr (), w1)"
    and rest: "apply_stakes X (stakes_of ts) (t0 + a) (if s = v then s0 + a else s0) w1 = (Inr (tot, self), w')"
    by (auto simp: stakes_of_def t act_ok stake_of_def split: if_splits)
  from incrementStakeTrx_ok [OF eng Cons.prems(1,2,3) step] obtain d1 where d1: "trx w1 = Some d1" "amounts_known d1"
    and am1: "\<And>s' v'. stake_amount d1 s' v' = stake_amount d s' v' + (if (s', v') = (s, v) then a else 0)" by auto
  have "world_ready w1"
    using keepsD [OF db.kept_stake_writes(1) [OF good_engineI [OF eng]] step] Cons.prems(1) by (simp add: stays_ready_def)
  from Cons.IH [OF this d1 rest] am1 show ?case by (auto simp: amounts_def t)
qed

text \<open>
  C8. The stakes of a transaction: every staked amount grows by the sum of the transaction's
  stakes for that staker and validator, and the two totals that are handed on are the sum of
  all amounts and the sum of the self-stakes.
\<close>

theorem stakes_applied:
  assumes "sql_engine jc (kx X)" and "world_ready w" and "trx w = Some d" and "amounts_known d"
    and "apply_stakes X (stakes_of ts) 0 0 w = (Inr (tot, self), w')"
  shows "tot = amounts ts (\<lambda>_. True) \<and> self = amounts ts (\<lambda>(s, v). s = v)
    \<and> (\<exists>d'. trx w' = Some d' \<and> (\<forall>s v. stake_amount d' s v = stake_amount d s v + amounts ts (\<lambda>p. p = (s, v))))"
  using apply_stakes_sums [OF assms] by simp

definition sample_stakes :: "(string \<times> string \<times> int) list" where
  "sample_stakes = [(''s'', ''v'', 7), (''s'', ''s'', 2), (''s'', ''v'', - 3)]"

theorem stakes_applied_witness:
  "\<exists>d'. trx (snd (apply_stakes ref_ext (stakes_of sample_stakes) 0 0 open_world)) = Some d'
     \<and> stake_amount d' ''s'' ''v'' = stake_amount fresh_db ''s'' ''v'' + 4"
proof -
  let ?r = "apply_stakes ref_ext (stakes_of sample_stakes) 0 0 open_world"
  have "fst ?r = Inr (6, 2)" by code_simp
  then have run: "?r = (Inr (6, 2), snd ?r)" by (metis prod.collapse)
  have d: "trx open_world = Some fresh_db" by (simp add: open_world_def)
  have known: "amounts_known fresh_db" by code_simp
  from stakes_applied [OF ref_ext_engine open_world_ready d known run] show ?thesis
    by (auto simp: amounts_def sample_stakes_def)
qed

subsection \<open>Totals of several transactions\<close>

lemma typeof_undefined [simp]: "js_typeof v = ''undefined'' \<longleftrightarrow> v = JUndef"
  by (cases v) auto

lemma bindE_Inr [simp]: "bindE r Inr = r"
  by (cases r) auto

lemma getPosTokenID_ok:
  assumes "getPosTokenID X w = (Inr tid, w1)"
  shows "committed w1 = committed w \<and> trx w1 = trx w \<and> js_prop (posConstants w1) ''posTokenID'' = Inr tid"
  using assms
  by (auto simp: getPosTokenID_def getPosConstants_def requestConnector_def pathA_def bnd_def thn_def
      split: if_splits sum.splits)

lemma getPosTokenID_cached:
  assumes "js_prop (posConstants w) ''posTokenID'' = Inr tid"
  shows "getPosTokenID X w = (Inr tid, w)"
proof -
  from assms have "posConstants w \<noteq> JUndef" by auto
  with assms show ?thesis
    by (simp add: getPosTokenID_def getPosConstants_def pathA_def bnd_def thn_def)
qed

text \<open>A stake total after one update.\<close>

lemma updateTotalStake_ok:
  assumes eng: "sql_engine jc (kx X)" and ready: "table_ready kvStoreTableSchema (committed w)"
    and d: "trx w = Some d" and run: "updateTotalStake X c w = (Inr (), w')" and tid: "getPosTokenID X w = (Inr tid, w0)"
  shows "committed w' = committed w \<and> getPosTokenID X w' = (Inr tid, w')
    \<and> trx w' = Some (kv_put (TOTAL_STAKED @ js_string tid) (kv_total (committed w) (TOTAL_STAKED @ js_string tid) + c) d)"
proof -
  let ?k = "TOTAL_STAKED @ js_string tid"
  from run tid have step: "bnd (stored_total X ?k) (\<lambda>cur. kv_set X ?k (JBig (cur + c)) True) w0 = (Inr (), w')"
    by (simp add: updateTotalStake_def bnd_def Let_def)
  note w0 = getPosTokenID_ok [OF tid]
  from locked_step_ok [OF eng _ step] w0 ready d
  have w': "w' = w0\<lparr>trx := Some (kv_put ?k (kv_total (committed w) ?k + c) d)\<rparr>" by auto
  moreover have "getPosTokenID X w' = (Inr tid, w')"
    using getPosTokenID_cached w0 w' by simp
  ultimately show ?thesis using w0 by simp
qed

text \<open>
  Two stake transactions of one block update the total stake in the same transaction, and
  both start from the committed total: after both, the change of the first one is lost.
\<close>

lemma stake_total_lost_update:
  assumes eng: "sql_engine jc (kx X)" and ready: "table_ready kvStoreTableSchema (committed w)"
    and d: "trx w = Some d" "table_ready kvStoreTableSchema d" and tid: "getPosTokenID X w = (Inr tid, w0)"
    and first: "updateTotalStake X a w = (Inr (), w1)" and second: "updateTotalStake X b w1 = (Inr (), w2)"
  shows "\<exists>d2. trx w2 = Some d2 \<and> kv_total d2 (TOTAL_STAKED @ js_string tid)
    = kv_total (committed w) (TOTAL_STAKED @ js_string tid) + b"
proof -
  let ?k = "TOTAL_STAKED @ js_string tid"
  note one = updateTotalStake_ok [OF eng ready d(1) first tid]
  from updateTotalStake_ok [OF eng _ _ second, of _ tid w1] one ready
  have "trx w2 = Some (kv_put ?k (kv_total (committed w) ?k + b) (kv_put ?k (kv_total (committed w) ?k + a) d))"
    by simp
  then show ?thesis using d(2) by (simp add: kv_totals.tot_put kv_totals.put_ready)
qed

definition pos_ext :: ext where
  "pos_ext = ref_ext\<lparr>connector := (\<lambda>m _. if m = ''getPosConstants''
     then Inr (JObj [(''posTokenID'', JStr ''04'')]) else Inr JUndef)\<rparr>"

end
