(* ===== verification/Frame.thy ===== *)
theory Frame
  imports Validators
begin

text \<open>
  A part of the service state that the database operations leave alone: the caches and the
  queues of the service. The locale states what such a part is, and shows once that no table
  operation, request or account look-up changes it; it is interpreted on the parts that the
  other theories reason about.
\<close>

named_theorems framed \<open>actions that leave a part of the service state alone\<close>

definition same :: "('w \<Rightarrow> 'a) \<Rightarrow> 'w \<Rightarrow> 'w \<Rightarrow> bool" where
  "same g w w' \<longleftrightarrow> g w' = g w"

lemma same_refl: "reflp (same g)"
  by (simp add: reflp_def same_def)

lemma same_trans: "transp (same g)"
  by (auto simp: transp_def same_def)

lemmas same_rules [framed] =
  keeps_ret [OF same_refl] keeps_throw [OF same_refl] keeps_liftE [OF same_refl] keeps_getA [OF same_refl]
  keeps_bnd [OF same_trans] keeps_thn [OF same_trans] keeps_tryA [OF same_trans]
  keeps_mapA [OF same_refl same_trans] keeps_forA [OF same_refl same_trans]

lemma sameD: "keeps (same g) m \<Longrightarrow> m w = (r, w') \<Longrightarrow> g w' = g w"
  by (drule keepsD) (auto simp: same_def)

lemma same_modA: "(\<And>w. g (f w) = g w) \<Longrightarrow> keeps (same g) (modA f)"
  by (simp add: keeps_def same_def)

lemma same_if [framed]:
  "keeps (same g) a \<Longrightarrow> keeps (same g) b \<Longrightarrow> keeps (same g) (if c then a else b)"
  by simp

lemma same_option [framed]:
  "keeps (same g) a \<Longrightarrow> (\<And>x. keeps (same g) (f x)) \<Longrightarrow> keeps (same g) (case v of None \<Rightarrow> a | Some x \<Rightarrow> f x)"
  by (cases v) auto

lemma same_split [framed]: "(\<And>x y. keeps (same g) (f x y)) \<Longrightarrow> keeps (same g) (case p of (x, y) \<Rightarrow> f x y)"
  by (cases p) auto

lemma same_spawn [framed]: "keeps (same g) m \<Longrightarrow> keeps (same g) (spawn m)"
  unfolding spawn_def by (intro framed)

lemma same_requests [framed]:
  "keeps (same g) (requestConnector X m p)" "keeps (same g) (propA v k)" "keeps (same g) (pathA v ks)"
  "keeps (same g) (elemsA v)" "keeps (same g) (lisk32A X pk)"
  unfolding iact_defs by (intro framed)+

lemma same_run_read [framed]: "keeps (same g) (run_read eng st)"
  by (auto simp: keeps_def same_def run_read_def split: prod.splits sum.splits)

lemma same_table_find [framed]: "keeps (same g) (table_find eng tc ps cs)"
  unfolding table_find_def by (intro framed)

lemma same_table_count [framed]: "keeps (same g) (table_count eng tc ps)"
  unfolding table_count_def Let_def by (intro framed)

lemma same_getIndexedAccountInfo [framed]: "keeps (same g) (getIndexedAccountInfo X p c)"
  unfolding getIndexedAccountInfo_def by (intro framed)

locale service_part =
  fixes g :: "iworld \<Rightarrow> 'a"
  assumes committed_part: "g (w\<lparr>committed := d\<rparr>) = g w" and trx_part: "g (w\<lparr>trx := t\<rparr>) = g w"
begin

lemma part_run_batch: "keeps (same g) (run_batch eng b sts)"
  by (auto simp: keeps_def same_def run_batch_def committed_part trx_part
      split: option.splits prod.splits sum.splits)

lemma part_upsert: "keeps (same g) (upsert eng tc rows b)"
  unfolding upsert_def by (intro framed part_run_batch)

lemma part_updateAccountPublicKey: "keeps (same g) (updateAccountPublicKey X pk)"
  unfolding updateAccountPublicKey_def by (intro framed part_upsert)

lemma part_getNameByAddress: "keeps (same g) (getNameByAddress X a)"
  unfolding getNameByAddress_def Let_def by (intro framed part_upsert)

lemma part_kv_set: "keeps (same g) (kv_set X k v b)"
  unfolding kv_set_def Let_def by (intro framed part_upsert)

end

lemma same_kv_get [framed]: "keeps (same g) (kv_get X k)"
  unfolding kv_get_def Let_def by (intro framed)

lemma same_getPosConstants:
  "(\<And>w c. g (w\<lparr>posConstants := c\<rparr>) = g w) \<Longrightarrow> keeps (same g) (getPosConstants X)"
  unfolding getPosConstants_def by (intro framed same_modA) simp

interpretation validator_list: service_part validatorList
  by unfold_locales simp_all

interpretation job_queues: service_part jobs
  by unfold_locales simp_all

interpretation sent_signals: service_part signals
  by unfold_locales simp_all

end
