(* ===== verification/Sorting.thy ===== *)
theory Sorting
  imports Sql "HOL-Library.Multiset"
begin

text \<open>
  The contract of a comparator that the services pass to \<open>Array.prototype.sort\<close> and to the
  ORDER BY of the database, and what sorting by such a comparator gives: a permutation of the
  input that is ordered.
\<close>

lemma mset_insert_by [simp]: "mset (insert_by lt x xs) = add_mset x (mset xs)"
  by (induction xs) auto

lemma set_insert_by [simp]: "set (insert_by lt x xs) = insert x (set xs)"
  by (induction xs) auto

lemma mset_sort_by [simp]: "mset (sort_by lt xs) = mset xs"
  unfolding sort_by_def by (induction xs) simp_all

lemma length_sort_by [simp]: "length (sort_by lt xs) = length xs"
  by (metis mset_sort_by size_mset)

lemma set_sort_by [simp]: "set (sort_by lt xs) = set xs"
  by (metis mset_sort_by set_mset_mset)

locale comparator =
  fixes lt :: "'a \<Rightarrow> 'a \<Rightarrow> bool"
  assumes asym: "lt a b \<Longrightarrow> \<not> lt b a"
    and not_lt_trans: "\<not> lt b a \<Longrightarrow> \<not> lt c b \<Longrightarrow> \<not> lt c a"
begin

lemma sorted_insert_by:
  "sorted_wrt (\<lambda>a b. \<not> lt b a) xs \<Longrightarrow> sorted_wrt (\<lambda>a b. \<not> lt b a) (insert_by lt x xs)"
proof (induction xs)
  case Nil
  show ?case by simp
next
  case (Cons y ys)
  show ?case
  proof (cases "lt y x")
    case True
    with Cons show ?thesis using asym [OF True] by simp
  next
    case False
    with Cons.prems have "\<not> lt z x" if "z \<in> set ys" for z
      using not_lt_trans [OF False] that by simp
    with False Cons.prems show ?thesis by simp
  qed
qed

lemma sorted_sort_by: "sorted_wrt (\<lambda>a b. \<not> lt b a) (sort_by lt xs)"
  unfolding sort_by_def by (induction xs) (simp_all add: sorted_insert_by)

text \<open>Sorting a list that is sorted already changes nothing: equal elements keep their order.\<close>

lemma sort_by_sorted: "sorted_wrt (\<lambda>a b. \<not> lt b a) xs \<Longrightarrow> sort_by lt xs = xs"
proof (induction xs)
  case Nil
  show ?case by (simp add: sort_by_def)
next
  case (Cons x xs)
  then have "sort_by lt (x # xs) = insert_by lt x xs"
    by (simp add: sort_by_def)
  also have "\<dots> = x # xs"
    using Cons.prems by (cases xs) simp_all
  finally show ?case .
qed

text \<open>The same order on the values of a key.\<close>

lemma by_key: "comparator (\<lambda>a b. lt (k a) (k b))"
  by unfold_locales (blast dest: asym, blast dest: not_lt_trans)

end

subsection \<open>Strings\<close>

lemma str_less_asym: "str_less s t \<Longrightarrow> \<not> str_less t s"
  by (induction s t rule: str_less.induct) auto

lemma str_less_linear: "\<not> str_less s t \<Longrightarrow> \<not> str_less t s \<Longrightarrow> s = t"
  by (induction s t rule: str_less.induct) (auto simp: not_less neq_Nil_conv elim: str_less.elims)

lemma str_less_trans: "str_less s t \<Longrightarrow> str_less t u \<Longrightarrow> str_less s u"
proof (induction s t arbitrary: u rule: str_less.induct)
  case (3 a as b bs)
  then show ?case by (cases u) auto
next
  case (2 b bs)
  then show ?case by (cases u) auto
qed simp

interpretation str_order: comparator str_less
proof
  show "\<not> str_less t s" if "str_less s t" for s t
    by (rule str_less_asym [OF that])
  show "\<not> str_less u s" if "\<not> str_less t s" "\<not> str_less u t" for s t u
    using that str_less_linear str_less_trans by metis
qed

end
