(* ===== verification/ValidatorProps.thy ===== *)
theory ValidatorProps
  imports Frame Sorting
begin

text \<open>
  What the validator cache of \<open>dataService/pos/validators.js\<close> holds: the weight of a
  validator is capped, the ranks are the positions in the list, and no validator is ever
  marked as punished.
\<close>

subsection \<open>Weights\<close>

lemma verifyIfPunished_state: "snd (verifyIfPunished v w) = w"
  by (auto simp: verifyIfPunished_def iact_defs bnd_def split: sum.splits)

lemma weigh_validator_cases:
  assumes "weigh_validator (JObj ps) w = (Inr v, w')"
  shows "w' = w"
    and "truthy (oget ps ''isBanned'') \<or> fst (verifyIfPunished (JObj ps) w) = Inr True
       \<Longrightarrow> v = JObj (oset ps ''validatorWeight'' (JBig 0))"
    and "\<not> truthy (oget ps ''isBanned'') \<Longrightarrow> fst (verifyIfPunished (JObj ps) w) = Inr False
       \<Longrightarrow> Inr v = capped_weight (JObj ps)"
    and "truthy (oget ps ''isBanned'') \<or> (\<exists>b. fst (verifyIfPunished (JObj ps) w) = Inr b)"
  using assms verifyIfPunished_state [of "JObj ps" w]
  by (auto simp: weigh_validator_def propA_def bnd_def split: if_splits prod.splits sum.splits)

text \<open>
  C14. The weight of a validator that is neither banned nor punished is the smaller of its total
  stake and ten times its own stake; the weight of any other is zero. Weighing changes
  nothing of the service.
\<close>

theorem validator_weight:
  assumes "weigh_validator (JObj ps) w = (Inr v, w')"
    and "js_bigint (oget ps ''selfStake'') = Inr self" and "js_bigint (oget ps ''totalStake'') = Inr tot"
  shows "w' = w \<and> js_prop v ''validatorWeight'' = Inr (JBig
    (if truthy (oget ps ''isBanned'') \<or> fst (verifyIfPunished (JObj ps) w) = Inr True then 0
     else min tot (10 * self)))"
  using weigh_validator_cases [OF assms(1)] assms(2,3)
  by (auto simp: capped_weight_def Let_def)

definition sample_validator :: "string \<Rightarrow> string \<Rightarrow> string \<Rightarrow> jsval" where
  "sample_validator address self tot = JObj [(''address'', JStr address), (''name'', JStr (''n'' @ address)),
     (''selfStake'', JStr self), (''totalStake'', JStr tot), (''isBanned'', JBool False),
     (''reportMisbehaviorHeights'', JArr []), (''punishmentPeriods'', JArr [])]"

theorem validator_weight_witness:
  "\<exists>v. weigh_validator (sample_validator ''lska'' ''5'' ''70'') fresh_world = (Inr v, fresh_world) \<and>
     js_prop v ''validatorWeight'' = Inr (JBig 50)"
proof -
  let ?v = "own_props (sample_validator ''lska'' ''5'' ''70'')"
  have ok: "\<not> isl (fst (weigh_validator (JObj ?v) fresh_world))"
    by code_simp
  then obtain v w' where run: "weigh_validator (JObj ?v) fresh_world = (Inr v, w')"
    by (metis isl_def old.sum.exhaust prod.collapse)
  have "js_bigint (oget ?v ''selfStake'') = Inr 5" "js_bigint (oget ?v ''totalStake'') = Inr 70"
    "\<not> (truthy (oget ?v ''isBanned'') \<or> fst (verifyIfPunished (JObj ?v) fresh_world) = Inr True)"
    by code_simp+
  with validator_weight [OF run] run show ?thesis
    by (auto simp: sample_validator_def own_props_def)
qed

subsection \<open>Sorting\<close>

interpretation validator_order: comparator validatorComparator
proof
  show "\<not> validatorComparator b a" if "validatorComparator a b" for a b
    using that str_less_asym by (auto simp: validatorComparator_def)
  show "\<not> validatorComparator c a" if "\<not> validatorComparator b a" "\<not> validatorComparator c b" for a b c
    using that str_order.not_lt_trans [of "snd b" "snd a" "snd c"]
    by (auto simp: validatorComparator_def)
qed

lemmas validators_by_key = validator_order.by_key [of fst]

lemma mapE_zip_Inr:
  "mapE f xs = Inr ys \<Longrightarrow> length ys = length xs \<and> (\<forall>i < length xs. f (xs ! i) = Inr (ys ! i))"
  by (induction xs arbitrary: ys) (auto simp: act_ok nth_Cons split: nat.splits)

lemma map_snd_mset: "length xs = length ys \<Longrightarrow> mset (map snd (sort_by lt (zip xs ys))) = mset ys"
  by (metis map_snd_zip mset_map mset_sort_by)

definition weight_of :: "jsval \<Rightarrow> jserr + int" where
  "weight_of v = bindE (js_prop v ''validatorWeight'') js_bigint"

text \<open>
  Sorting validators gives a permutation of the list in which no validator stands
  before a heavier one.
\<close>

lemma sort_validators_sorted:
  assumes "sort_validators X vs = Inr vs'"
  shows "mset vs' = mset vs \<and>
    sorted_wrt (\<lambda>a b. \<exists>m n. weight_of a = Inr m \<and> weight_of b = Inr n \<and> n \<le> m) vs'"
proof (cases "length vs < 2")
  case True
  with assms show ?thesis by (cases vs) (auto simp: sort_validators_def act_ok)
next
  case False
  with assms obtain hexes keys
    where hexes: "mapE (\<lambda>v. bindE (js_prop v ''address'') (getHexAddress X)) vs = Inr hexes"
      and keys: "mapE (\<lambda>(v, h). validator_key X v h) (zip vs hexes) = Inr keys"
      and vs': "vs' = map snd (sort_by (\<lambda>a b. validatorComparator (fst a) (fst b)) (zip keys vs))"
    by (auto simp: sort_validators_def act_ok)
  let ?s = "sort_by (\<lambda>a b. validatorComparator (fst a) (fst b)) (zip keys vs)"
  from mapE_zip_Inr [OF hexes] mapE_zip_Inr [OF keys]
  have len: "length keys = length vs"
    and key: "i < length vs \<Longrightarrow> weight_of (vs ! i) = Inr (fst (keys ! i))" for i
    by (auto simp: validator_key_def weight_of_def act_ok) (metis fst_conv)
  have "weight_of (snd p) = Inr (fst (fst p))" if "p \<in> set ?s" for p
    using that key len by (auto simp: in_set_zip) (metis)
  moreover have "sorted_wrt (\<lambda>a b. \<not> validatorComparator (fst b) (fst a)) ?s"
    by (rule comparator.sorted_sort_by [OF validators_by_key])
  ultimately have "sorted_wrt (\<lambda>a b. \<exists>m n. weight_of (snd a) = Inr m \<and> weight_of (snd b) = Inr n \<and> n \<le> m) ?s"
    by (auto simp: validatorComparator_def intro: sorted_wrt_mono_rel [rotated])
  then show ?thesis
    unfolding vs' map_snd_mset [OF len] by (simp add: sorted_wrt_map)
qed

subsection \<open>Ranks\<close>

text \<open>A loop that replaces the validators one after the other.\<close>

lemma update_each:
  assumes step: "\<And>i w. i < length (validatorList w) \<Longrightarrow>
      step i w = (case g i (validatorList w ! i) of
          Inl e \<Rightarrow> (Inl e, w)
        | Inr v \<Rightarrow> (Inr (), w\<lparr>validatorList := (validatorList w)[i := v]\<rparr>))"
    and "k \<le> length (validatorList w)"
  shows "forA step [k..<length (validatorList w)] w = (Inr (), w') \<Longrightarrow>
    \<exists>us. mapE (\<lambda>(i, v). g i v) (enumerate k (drop k (validatorList w))) = Inr us \<and>
      w' = w\<lparr>validatorList := take k (validatorList w) @ us\<rparr>"
  using assms(2)
proof (induction "length (validatorList w) - k" arbitrary: k w)
  case 0
  then show ?case by simp
next
  case (Suc n)
  then have k: "k < length (validatorList w)" by simp
  with Suc.prems(1) obtain v
    where v: "g k (validatorList w ! k) = Inr v"
      and run: "forA step [Suc k..<length (validatorList w)]
        (w\<lparr>validatorList := (validatorList w)[k := v]\<rparr>) = (Inr (), w')"
    by (auto simp: upt_conv_Cons act_ok step split: sum.splits)
  let ?w = "w\<lparr>validatorList := (validatorList w)[k := v]\<rparr>"
  have "\<exists>us. mapE (\<lambda>(i, v). g i v) (enumerate (Suc k) (drop (Suc k) (validatorList ?w))) = Inr us \<and>
      w' = ?w\<lparr>validatorList := take (Suc k) (validatorList ?w) @ us\<rparr>"
    using Suc.hyps(2) run k by (intro Suc.hyps(1)) simp_all
  then show ?case
    using v k by (auto simp: Cons_nth_drop_Suc [symmetric] take_Suc_conv_app_nth)
qed

lemma update_all:
  assumes "\<And>i w. i < length (validatorList w) \<Longrightarrow>
      step i w = (case g i (validatorList w ! i) of
          Inl e \<Rightarrow> (Inl e, w)
        | Inr v \<Rightarrow> (Inr (), w\<lparr>validatorList := (validatorList w)[i := v]\<rparr>))"
    and "forA step [0..<length (validatorList w)] w = (Inr (), w')"
  obtains us where "mapE (\<lambda>(i, v). g i v) (enumerate 0 (validatorList w)) = Inr us"
    and "w' = w\<lparr>validatorList := us\<rparr>"
  using update_each [of step g 0 w w'] assms by auto

lemma set_rank_step:
  "i < length (validatorList w) \<Longrightarrow> set_rank i w = (case js_setprop (validatorList w ! i) ''rank'' (JNum (int i + 1)) of
     Inl e \<Rightarrow> (Inl e, w) | Inr v \<Rightarrow> (Inr (), w\<lparr>validatorList := (validatorList w)[i := v]\<rparr>))"
  by (auto simp: set_rank_def bnd_def split: sum.splits)

lemma mapE_objects:
  "list_all (\<lambda>v. \<exists>ps. v = JObj ps) vs \<Longrightarrow>
   mapE (\<lambda>(i, v). js_setprop v k (f i)) (enumerate n vs) =
     Inr (map (\<lambda>(i, v). JObj (oset (own_props v) k (f i))) (enumerate n vs))"
  by (induction vs arbitrary: n) (auto simp: own_props_def)

text \<open>
  A completed \<open>computeValidatorRank\<close> gives the validators the ranks 1, 2, ... in the
  order in which they stand in the list, whatever their weights: nothing else changes. The
  sorted copy that the function makes has no effect on the ranks.
\<close>

lemma rank_is_position:
  assumes "computeValidatorRank X w = (Inr (), w')"
    and "list_all (\<lambda>v. \<exists>ps. v = JObj ps) (validatorList w)"
  shows "w' = w\<lparr>validatorList := map (\<lambda>(i, v). JObj (oset (own_props v) ''rank'' (JNum (int i + 1))))
    (enumerate 0 (validatorList w))\<rparr>"
proof -
  from assms(1) have run: "forA set_rank [0..<length (validatorList w)] w = (Inr (), w')"
    by (auto simp: computeValidatorRank_def act_ok)
  obtain us where us: "mapE (\<lambda>(i, v). js_setprop v ''rank'' (JNum (int i + 1))) (enumerate 0 (validatorList w)) = Inr us"
    and w': "w' = w\<lparr>validatorList := us\<rparr>"
    by (rule update_all [OF set_rank_step run])
  from us mapE_objects [OF assms(2), of "''rank''" "\<lambda>i. JNum (int i + 1)" 0] have
    "us = map (\<lambda>(i, v). JObj (oset (own_props v) ''rank'' (JNum (int i + 1)))) (enumerate 0 (validatorList w))"
    by simp
  with w' show ?thesis by simp
qed

definition weighed :: "string \<Rightarrow> int \<Rightarrow> jsval" where
  "weighed address n = JObj [(''address'', JStr address), (''validatorWeight'', JBig n), (''isBanned'', JBool False),
     (''punishmentPeriods'', JArr [])]"

text \<open>The lighter of two validators ranks first when it was listed first.\<close>

subsection \<open>Status\<close>

lemma period_covers_undefined: "period_covers JUndef p \<noteq> Inr True"
  by (cases "js_prop p ''start''") (auto simp: period_covers_def js_le_def split: jsval.splits sum.splits)

lemma never_punished: "status_punished v \<noteq> Inr True"
proof -
  have "someE (period_covers JUndef) ps \<noteq> Inr True" for ps
    by (induction ps) (auto simp: bindE_def period_covers_undefined split: sum.splits if_splits)
  then show ?thesis by (auto simp: status_punished_def act_ok)
qed

definition STATUSES :: "string set" where
  "STATUSES = {''banned'', ''active'', ''standby'', ''ineligible''}"

lemma validator_status_cases:
  assumes "validator_status X as bs v = Inr s"
  shows "s \<in> JStr ` STATUSES"
    and "s = JStr ''banned'' \<longleftrightarrow> (\<exists>b. js_prop v ''isBanned'' = Inr b \<and> truthy b)"
    and "s = JStr ''active'' \<Longrightarrow> \<exists>a. js_prop v ''address'' = Inr a \<and> a \<in> set as"
  using assms never_punished [of v]
  by (auto simp: validator_status_def STATUSES_def js_includes_def act_ok split: if_splits)

lemma set_status_step:
  "i < length (validatorList w) \<Longrightarrow> set_status X as bs i w =
    (case bindE (validator_status X as bs (validatorList w ! i)) (\<lambda>s. js_setprop (validatorList w ! i) ''status'' s) of
     Inl e \<Rightarrow> (Inl e, w) | Inr v \<Rightarrow> (Inr (), w\<lparr>validatorList := (validatorList w)[i := v]\<rparr>))"
  by (auto simp: set_status_def bnd_def bindE_def split: sum.splits)

lemma validators_business_getGenerators: "keeps (same validatorList) (business_getGenerators X)"
  unfolding business_getGenerators_def reloadGeneratorsCache_def getGeneratorsInfo_def generator_info_def
  by (intro framed validator_list.part_getNameByAddress same_modA) simp

lemma mapE_enumerate: "mapE (\<lambda>(i, v). f v) (enumerate n vs) = mapE f vs"
  by (induction vs arbitrary: n) (auto simp: bindE_def split: sum.splits)

lemma getPosConstants_ok:
  assumes "getPosConstants X w = (Inr r, w')"
  shows "js_prop r ''data'' = Inr (posConstants w')" and "validatorList w' = validatorList w"
  using assms by (auto simp: getPosConstants_def requestConnector_def act_ok split: if_splits)

text \<open>
  What a completed run of \<open>computeValidatorStatus\<close> does to the list: every validator gets the
  status that \<open>validator_status\<close> computes from the same two lists of addresses, the first of
  which is cut at the number of active validators.
\<close>

lemma computeValidatorStatus_list:
  assumes "computeValidatorStatus X w = (Inr (), w')"
  obtains info c bs w1 where "fst (getPosConstants X w) = Inr (JObj [(''data'', w1), (''meta'', JObj [])])"
    and "js_prop w1 ''numberActiveValidators'' = Inr c"
    and "mapE (\<lambda>v. bindE (validator_status X (slice_vals info (JNum 0) c) bs v) (js_setprop v ''status''))
        (validatorList w) = Inr (validatorList w')"
proof -
  from assms obtain r w1 numActive w2 gs infos bs where
    r: "getPosConstants X w = (Inr r, w1)"
    and num: "js_prop (posConstants w1) ''numberActiveValidators'' = Inr numActive"
    and gs: "business_getGenerators X w1 = (Inr gs, w2)"
    and run: "forA (set_status X (slice_vals infos (JNum 0) numActive) bs) [0..<length (validatorList w2)] w2 = (Inr (), w')"
    by (auto simp: computeValidatorStatus_def propA_def act_ok getPosConstants_ok(1) Let_def)
  have same: "validatorList w2 = validatorList w"
    using sameD [OF validators_business_getGenerators gs] getPosConstants_ok(2) [OF r] by simp
  obtain us where us: "mapE (\<lambda>(i, v). bindE (validator_status X (slice_vals infos (JNum 0) numActive) bs v)
        (js_setprop v ''status'')) (enumerate 0 (validatorList w2)) = Inr us"
    and w': "w' = w2\<lparr>validatorList := us\<rparr>"
    by (rule update_all [OF set_status_step run])
  have "r = JObj [(''data'', posConstants w1), (''meta'', JObj [])]"
    using r by (auto simp: getPosConstants_def act_ok split: if_splits)
  with that [of "posConstants w1" numActive infos bs] r num us w' same show ?thesis
    by (simp add: mapE_enumerate)
qed

lemma status_written:
  assumes "mapE (\<lambda>v. bindE (f v) (js_setprop v ''status'')) vs = Inr us"
    and "list_all (\<lambda>v. \<exists>ps. v = JObj ps) vs"
  shows "list_all2 (\<lambda>v u. \<exists>s. f v = Inr s \<and> u = JObj (oset (own_props v) ''status'' s)) vs us"
  using assms by (induction vs arbitrary: us) (auto simp: act_ok own_props_def)

lemma count_injective:
  assumes "distinct (map a us)" and "\<And>u. u \<in> set us \<Longrightarrow> P u \<Longrightarrow> a u \<in> set as"
  shows "length (filter P us) \<le> length as"
proof -
  have d: "distinct (map a (filter P us))"
    using assms(1) by (simp add: distinct_map_filter)
  have "length (filter P us) = card (set (map a (filter P us)))"
    using distinct_card [OF d] by simp
  also have "\<dots> \<le> card (set as)"
    by (rule card_mono) (auto intro: assms(2))
  also have "\<dots> \<le> length as"
    by (rule card_length)
  finally show ?thesis .
qed

lemma length_slice_first: "0 \<le> n \<Longrightarrow> int (length (slice_vals xs (JNum 0) (JNum n))) \<le> n"
  by (simp add: slice_vals_def js_slice_def slice_pos_def as_int_def Let_def)

abbreviation field :: "string \<Rightarrow> jsval \<Rightarrow> jsval" where
  "field k v \<equiv> oget (own_props v) k"

lemma status_facts:
  assumes run: "computeValidatorStatus X w = (Inr (), w')"
    and objs: "list_all (\<lambda>v. \<exists>ps. v = JObj ps) (validatorList w)"
    and dist: "distinct (map (field ''address'') (validatorList w))"
    and num: "fst (getPosConstants X w) = Inr (JObj [(''data'', c), (''meta'', JObj [])])"
      "js_prop c ''numberActiveValidators'' = Inr (JNum n)" "0 \<le> n"
  shows "map (field ''address'') (validatorList w') = map (field ''address'') (validatorList w)"
    and "\<forall>v \<in> set (validatorList w'). field ''status'' v \<in> JStr ` {''banned'', ''active'', ''standby'', ''ineligible''}
       \<and> (field ''status'' v = JStr ''banned'' \<longleftrightarrow> truthy (field ''isBanned'' v))"
    and "int (length (filter (\<lambda>v. field ''status'' v = JStr ''active'') (validatorList w'))) \<le> n"
proof -
  from num(1,2) obtain info bs where
    "mapE (\<lambda>v. bindE (validator_status X (slice_vals info (JNum 0) (JNum n)) bs v) (js_setprop v ''status''))
        (validatorList w) = Inr (validatorList w')"
    by (auto intro: computeValidatorStatus_list [OF run])
  from status_written [OF this objs]
  have l2: "list_all2 (\<lambda>v u. \<exists>s. validator_status X (slice_vals info (JNum 0) (JNum n)) bs v = Inr s \<and>
      u = JObj (oset (own_props v) ''status'' s)) (validatorList w) (validatorList w')" .
  then show addr: "map (field ''address'') (validatorList w') = map (field ''address'') (validatorList w)"
    by (induction rule: list_all2_induct) (auto simp: own_props_def)
  have each: "field ''status'' u \<in> JStr ` STATUSES \<and> (field ''status'' u = JStr ''banned'' \<longleftrightarrow> truthy (field ''isBanned'' u))
      \<and> (field ''status'' u = JStr ''active'' \<longrightarrow> field ''address'' u \<in> set (slice_vals info (JNum 0) (JNum n)))"
    if "u \<in> set (validatorList w')" for u
  proof -
    from that l2 obtain v s where "v \<in> set (validatorList w)"
      and s: "validator_status X (slice_vals info (JNum 0) (JNum n)) bs v = Inr s" "u = JObj (oset (own_props v) ''status'' s)"
      by (auto simp: list_all2_conv_all_nth in_set_conv_nth) metis
    moreover from this objs obtain ps where "v = JObj ps" by (auto simp: list_all_iff)
    ultimately show ?thesis
      using validator_status_cases [OF s(1)] by (auto simp: own_props_def)
  qed
  then show "\<forall>v \<in> set (validatorList w'). field ''status'' v \<in> JStr ` {''banned'', ''active'', ''standby'', ''ineligible''}
       \<and> (field ''status'' v = JStr ''banned'' \<longleftrightarrow> truthy (field ''isBanned'' v))"
    unfolding STATUSES_def by blast
  have "length (filter (\<lambda>v. field ''status'' v = JStr ''active'') (validatorList w'))
      \<le> length (slice_vals info (JNum 0) (JNum n))"
    using each dist addr by (intro count_injective [of "field ''address''"]) simp_all
  with length_slice_first [OF num(3), of info]
  show "int (length (filter (\<lambda>v. field ''status'' v = JStr ''active'') (validatorList w'))) \<le> n"
    by simp
qed

text \<open>
  C13. After a completed \<open>computeValidatorStatus\<close> over validators with distinct addresses,
  every validator is banned, active, standby or ineligible, is banned exactly when it is marked so, and
  at most \<open>numberActiveValidators\<close> of them are active. No validator is ever punished, though
  the code has that status: the last block it compares with is a promise.
\<close>

theorem status_computed:
  assumes "computeValidatorStatus X w = (Inr (), w')"
    and "list_all (\<lambda>v. \<exists>ps. v = JObj ps) (validatorList w)"
    and "distinct (map (field ''address'') (validatorList w))"
    and "fst (getPosConstants X w) = Inr (JObj [(''data'', c), (''meta'', JObj [])])"
    and "js_prop c ''numberActiveValidators'' = Inr (JNum n)" and "0 \<le> n"
  shows "map (field ''address'') (validatorList w') = map (field ''address'') (validatorList w)
    \<and> (\<forall>v \<in> set (validatorList w'). field ''status'' v \<in> JStr ` {''banned'', ''active'', ''standby'', ''ineligible''}
       \<and> (field ''status'' v = JStr ''banned'' \<longleftrightarrow> truthy (field ''isBanned'' v)))
    \<and> int (length (filter (\<lambda>v. field ''status'' v = JStr ''active'') (validatorList w'))) \<le> n"
  using status_facts [OF assms] by blast

text \<open>A chain with three generators, one of them active, and three validators.\<close>

definition sample_constants :: jsval where
  "sample_constants = JObj [(''numberActiveValidators'', JNum 1), (''numberStandbyValidators'', JNum 2)]"

definition sample_generator :: "string \<Rightarrow> jsval" where
  "sample_generator address = JObj [(''address'', JStr address), (''name'', JStr address)]"

definition sample_chain :: ext where
  "sample_chain = ref_ext\<lparr>connector := (\<lambda>m _.
     if m = ''getPosConstants'' then Inr sample_constants
     else Inr JUndef)\<rparr>"

definition sample_round :: iworld where
  "sample_round = fresh_world\<lparr>validatorList := [weighed ''lska'' 5, weighed ''lskb'' 70, weighed ''lskc'' 20],
     generatorsListCache := map sample_generator [''lska'', ''lskb'', ''lskc'']\<rparr>"

theorem status_computed_witness:
  "\<exists>w'. computeValidatorStatus sample_chain sample_round = (Inr (), w') \<and>
     int (length (filter (\<lambda>v. field ''status'' v = JStr ''active'') (validatorList w'))) \<le> 1"
proof -
  have "fst (computeValidatorStatus sample_chain sample_round) = Inr ()" by code_simp
  then obtain w' where run: "computeValidatorStatus sample_chain sample_round = (Inr (), w')"
    by (metis prod.collapse)
  have "fst (getPosConstants sample_chain sample_round) = Inr (JObj [(''data'', sample_constants), (''meta'', JObj [])])"
    "js_prop sample_constants ''numberActiveValidators'' = Inr (JNum 1)"
    "distinct (map (field ''address'') (validatorList sample_round))"
    by code_simp+
  moreover have "list_all (\<lambda>v. \<exists>ps. v = JObj ps) (validatorList sample_round)"
    by (simp add: sample_round_def weighed_def)
  ultimately show ?thesis
    using status_computed [OF run] run by auto
qed

end
