(* ===== verification/StatusProps.thy ===== *)
theory StatusProps
  imports DbInvariant Frame
begin

text \<open>
  What the status part of the indexer guarantees: the readiness of the index is announced once
  and exactly when enough blocks are indexed, and what is announced at a new round.
\<close>

subsection \<open>The readiness signal\<close>

definition announcements :: "iworld \<Rightarrow> (string \<times> jsval) list" where
  "announcements w = filter (\<lambda>s. fst s = ''blockIndexReady'') (signals w)"

definition quiet :: "iworld \<Rightarrow> iworld \<Rightarrow> bool" where
  "quiet w w' \<longleftrightarrow> indexReady w' = indexReady w \<and> announcements w' = announcements w"

interpretation quietly: service_relation quiet
proof
  show "reflp quiet" "transp quiet" by (auto simp: reflp_def transp_def quiet_def)
  show "keeps quiet (run_batch k b sts)" for k b sts
    by (auto simp: keeps_def quiet_def announcements_def run_batch_def
        split: option.splits prod.splits sum.splits)
qed (auto simp: keeps_def quiet_def announcements_def startDbTransaction_def commitDbTransaction_def
      rollbackDbTransaction_def dispatch_def split: option.splits)

text \<open>The signal has been sent once if the index is known to be ready, and not at all otherwise.\<close>

definition announced_once :: "iworld \<Rightarrow> bool" where
  "announced_once w \<longleftrightarrow> length (announcements w) = (if indexReady w then 1 else 0)"

lemma checkIndexReadiness_cases:
  "snd (checkIndexReadiness X w) =
     snd (validateIndexReadiness X JUndef w)\<lparr>indexReady := True,
       signals := signals (snd (validateIndexReadiness X JUndef w)) @ [(''blockIndexReady'', JBool True)]\<rparr>
   \<and> \<not> indexReady w
   \<or> quiet w (snd (checkIndexReadiness X w))"
proof -
  have "quiet w (snd (validateIndexReadiness X JUndef w))"
    using quietly.kept_validateIndexReadiness by (simp add: keeps_def)
  then show ?thesis
    by (cases "validateIndexReadiness X JUndef w")
      (auto simp: checkIndexReadiness_def getIndexReadyStatus_def setIndexReadyStatus_def dispatch_def
        bnd_def thn_def quiet_def split: sum.splits)
qed

lemma step_announces_once:
  assumes "good_engine (kx X)" and "job_step X w w'" and "announced_once w"
  shows "announced_once w' \<and> (indexReady w \<longrightarrow> indexReady w')"
  using assms(2)
proof cases
  case (step m)
  from quietly.kept_action [OF assms(1) step(2)] consider "quiet w w'" | "m = checkIndexReadiness X"
    using step(1) by (auto simp: keeps_def)
  then show ?thesis
  proof cases
    case 1
    with assms(3) show ?thesis by (simp add: announced_once_def quiet_def)
  next
    case 2
    have "quiet w (snd (validateIndexReadiness X JUndef w))"
      using quietly.kept_validateIndexReadiness by (simp add: keeps_def)
    with 2 step(1) checkIndexReadiness_cases [of X w] assms(3) show ?thesis
      by (auto simp: announced_once_def quiet_def announcements_def)
  qed
qed


subsection \<open>When the index is ready\<close>

lemma height_not_null:
  assumes "wf_table tb" and "t_pk tb = [''height'']" and "r \<in> set (t_rows tb)"
  shows "\<not> sql_null (col_val r ''height'')"
proof -
  from assms have typed: "typed_row (t_cols tb) r" and col: "''height'' \<in> set (map c_name (t_cols tb))"
    and "oget r ''height'' \<noteq> JNull"
    by (auto simp: wf_table_def list_all_iff row_key_def)
  moreover from typed col have "ohas r ''height''" by (simp add: typed_row_def ohas_def)
  moreover from typed col have "oget r ''height'' \<noteq> JUndef"
    by (auto simp: typed_row_def list_all_iff typed_val_def)
  ultimately show ?thesis by (simp add: col_val_exact sql_null_def)
qed

lemma blocks_columns: "tableName blocksTableSchema = ''blocks''" "primaryKey blocksTableSchema = [''height'']"
  by (simp_all add: blocksTableSchema_def)

lemma count_all_run:
  "table_count eng blocksTableSchema [] w =
     bnd (run_read eng (SCount (bare_query ''blocks'') False ''height'')) (\<lambda>rs. ret (res_count rs)) w"
  by (simp add: table_count_def blocks_columns qb_order_def qb_conditions_def qb_propBetweens_def qb_whereIn_def
      qb_whereJson_def qb_orWhereIn_def qb_orWhere_def qb_andWhere_def qb_search_def
      resolveQueryParams_def bare_query_def Let_def)

lemma count_blocks:
  assumes eng: "sql_engine jc eng" and ready: "table_ready blocksTableSchema (committed w)"
    and tb: "committed w ''blocks'' = Some tb" and run: "table_count eng blocksTableSchema [] w = (Inr n, w')"
  shows "n = int (length (t_rows tb))" and "w' = w"
proof -
  from run obtain r d where kx: "eng (SCount (bare_query ''blocks'') False ''height'') (committed w) = Inr (r, d)"
    and n: "n = res_count [r]" and w': "w' = w"
    unfolding count_all_run by (auto simp: run_read_def bnd_def split: sum.splits)
  show "w' = w" by (rule w')
  have tb_ok: "wf_table tb" "t_pk tb = [''height'']"
    using ready tb by (auto simp: table_ready_def blocks_columns)
  have "filter ((\<lambda>v. \<not> sql_null v) \<circ> (\<lambda>r. col_val r ''height'')) (t_rows tb) = t_rows tb"
    using height_not_null [OF tb_ok] by (simp add: filter_id_conv)
  with sql_engine.sound [OF eng kx] tb n show "n = int (length (t_rows tb))"
    by (auto simp: with_table_def bare_query_def res_count_def Let_def)
qed

definition last_indexed :: "ext \<Rightarrow> jsval list iact" where
  "last_indexed X = table_find (kx X) blocksTableSchema [(''sort'', JStr ''height:desc''), (''limit'', JNum 1)] (Some [''height''])"

lemma getIndexStats_run:
  assumes "connector X ''getNetworkStatus'' JUndef = Inr (JObj st)" and "oget st ''height'' = JNum current"
    and "genesisHeight w = JNum genesis"
    and "table_count (kx X) blocksTableSchema [] w = (Inr n, w)" and "last_indexed X w = (Inr rows, w)"
  shows "\<exists>ps. getIndexStats X w = (Inr (JObj ps), w) \<and> oget ps ''numBlocksIndexed'' = JNum n \<and>
    oget ps ''chainLength'' = JNum (current - genesis + 1)"
  using assms
  by (simp add: getIndexStats_def getCurrentHeight_def getGenesisHeight_def iact_defs tryA_def bnd_def thn_def
      js_sub_def js_add_def is_stringish_def last_indexed_def)

text \<open>
  While the index is not known to be ready, and the node and the database answer, the
  check announces readiness exactly when all blocks but the last one are indexed: when the
  table holds at least \<open>current - genesis\<close> blocks.
\<close>

lemma readiness_condition:
  assumes "sql_engine jc (kx X)" and "world_ready w" and "committed w ''blocks'' = Some tb"
    and "connector X ''getNetworkStatus'' JUndef = Inr (JObj st)" and "oget st ''height'' = JNum current"
    and "genesisHeight w = JNum genesis" and "\<not> indexReady w"
    and "table_count (kx X) blocksTableSchema [] w = (Inr n, w)" and "last_indexed X w = (Inr rows, w)"
  shows "checkIndexReadiness X w = (Inr (),
    if current - genesis \<le> int (length (t_rows tb))
    then w\<lparr>indexReady := True, signals := signals w @ [(''blockIndexReady'', JBool True)]\<rparr> else w)"
proof -
  from assms(2) have "table_ready blocksTableSchema (committed w)"
    using schemas_of_service db_readyD by (simp add: world_ready_def)
  from count_blocks(1) [OF assms(1) this assms(3) assms(8)] have n: "n = int (length (t_rows tb))" .
  obtain ps where ps: "getIndexStats X w = (Inr (JObj ps), w)" "oget ps ''numBlocksIndexed'' = JNum n"
    "oget ps ''chainLength'' = JNum (current - genesis + 1)"
    using getIndexStats_run [OF assms(4-6) assms(8,9)] by blast
  have "validateIndexReadiness X JUndef w = (Inr (current - genesis \<le> n), w)"
    using ps by (simp add: validateIndexReadiness_def propA_def bnd_def js_sub_def js_le_def)
  with assms(7) n show ?thesis
    by (simp add: checkIndexReadiness_def getIndexReadyStatus_def setIndexReadyStatus_def dispatch_def bnd_def thn_def)
qed

text \<open>A chain of two blocks, none of them indexed, and then one.\<close>

definition young_chain :: ext where
  "young_chain = ref_ext\<lparr>connector := (\<lambda>m _.
     if m = ''getNetworkStatus'' then Inr (JObj [(''height'', JNum 1), (''finalizedHeight'', JNum 0)])
     else Inr JUndef)\<rparr>"

definition young_world :: iworld where
  "young_world = fresh_world\<lparr>genesisHeight := JNum 1\<rparr>"

lemma young_engine: "sql_engine (\<lambda>_ _. False) (kx young_chain)"
  using ref_ext_engine by (simp add: young_chain_def)


subsection \<open>New rounds\<close>

lemma silent_generators: "keeps (same signals) (reloadGeneratorsCache X)" "keeps (same signals) (business_getGenerators X)"
  unfolding business_getGenerators_def reloadGeneratorsCache_def getGeneratorsInfo_def generator_info_def
  by (intro framed sent_signals.part_getNameByAddress same_modA; simp)+

lemma silent_reloadValidatorCache: "keeps (same signals) (reloadValidatorCache X)"
proof -
  have "keeps (same signals) (getPosConstants X)"
    by (rule same_getPosConstants) simp
  then show ?thesis
    unfolding reloadValidatorCache_def isPosModuleRegistered_def loadAllPosValidators_def getAllPosValidators_def
      cache_validator_def weigh_validator_def verifyIfPunished_def computeValidatorRank_def set_rank_def
      computeValidatorStatus_def set_status_def Let_def
    by (intro framed silent_generators sent_signals.part_upsert same_modA) simp_all
qed

lemma number_of_generators_NaN:
  "getNumberOfGenerators X w = (Inr n, w') \<Longrightarrow> n = JNaN \<and> signals w' = signals w"
  by (auto simp: getNumberOfGenerators_def getPosConstants_def requestConnector_def propA_def act_ok
      js_add_def is_stringish_def split: if_splits)

lemma generators_page_NaN:
  assumes "getGenerators X (JObj [(''limit'', JNaN), (''offset'', JNum 0)]) w = (Inr r, w')"
  shows "js_prop r ''data'' = Inr (JArr []) \<and> signals w' = signals w"
proof -
  from assms obtain gs w1 vs found page where "business_getGenerators X w = (Inr gs, w1)"
    and all: "getAllValidators X w1 = (Inr vs, w')"
    and page: "slice_page (concat found) (JNum 0) JNaN = Inr page"
    and r: "r = parseToJSONCompatObj (JObj [(''data'', JArr page), (''meta'', JObj [
       (''count'', JNum (int (length page))), (''offset'', JNum 0), (''total'', JNum (int (length gs)))])])"
    unfolding getGenerators_def by (simp add: propA_def act_ok del: parseToJSONCompatObj.simps) metis
  then have "signals w1 = signals w" by (auto dest: sameD [OF silent_generators(2)])
  moreover have "keeps (same signals) (getAllValidators X)"
    unfolding getAllValidators_def by (intro framed silent_reloadValidatorCache)
  from sameD [OF this all] have "signals w' = signals w1" .
  moreover have "page = []"
    using page by (auto simp: slice_page_def slice_vals_def js_add_def is_stringish_def js_slice_def slice_pos_def
        as_int_def Let_def)
  ultimately show ?thesis using r by simp
qed

text \<open>
  At a new round the service announces an empty list of generators, whatever the node
  answers: the number of generators is read from the wrong level of the response of
  \<open>getPosConstants\<close>, so the page limit is not a number.
\<close>

lemma new_round_announces_nobody:
  assumes "newRoundProcessor X w = (Inr (), w')"
  shows "signals w' = signals w @ [(''newRound'', JObj [(''generators'', JArr [])])]"
proof -
  from assms obtain w1 w2 n w3 r w4 gv gs addrs where
    "reloadValidatorCache X w = (Inr (), w1)" "reloadGeneratorsCache X w1 = (Inr (), w2)"
    and n: "getNumberOfGenerators X w2 = (Inr n, w3)"
    and g: "getGenerators X (JObj [(''limit'', n), (''offset'', JNum 0)]) w3 = (Inr r, w4)"
    and gs: "js_prop r ''data'' = Inr gv" "js_elems gv = Inr gs" "mapE (\<lambda>g. js_prop g ''address'') gs = Inr addrs"
    and w': "w' = w4\<lparr>signals := signals w4 @ [(''newRound'', JObj [(''generators'', JArr addrs)])]\<rparr>"
    by (auto simp: newRoundProcessor_def propA_def elemsA_def dispatch_def act_ok)
  then have "signals w2 = signals w"
    by (auto dest!: sameD [OF silent_reloadValidatorCache] sameD [OF silent_generators(1)])
  moreover from number_of_generators_NaN [OF n] generators_page_NaN g
  have "js_prop r ''data'' = Inr (JArr [])" "signals w4 = signals w2" by auto
  ultimately show ?thesis using gs w' by simp
qed

definition round_chain :: ext where
  "round_chain = ref_ext\<lparr>connector := (\<lambda>m _.
     if m = ''getPosConstants'' then Inr (JObj [(''numberActiveValidators'', JNum 101), (''numberStandbyValidators'', JNum 2)])
     else if m = ''getSystemMetadata'' then Inr (JObj [(''modules'', JArr [])])
     else if m = ''getGenerators'' then Inr (JObj [(''list'', JArr [])])
     else Inr JUndef)\<rparr>"

end
