(* ===== verification/Coordinator.thy ===== *)
theory Coordinator
  imports MissingBlocks Frame
begin

text \<open>
  The coordinator service, \<open>services/blockchain-coordinator/shared\<close>: it asks the indexer which
  blocks are missing and puts jobs into the queues the indexer reads. The methods of the
  indexer that it calls over the broker are a record of actions on the indexer's state
  (\<open>sources/indexer.js\<close>), given below as those of \<open>methods/indexer/indexer.js\<close>; the locale
  \<open>verified_height\<close> is what the coordinator relies on. The registration of listeners and the cron
  schedule are not modelled.
\<close>

record 'i indexer_api =
  rpc_getMissingBlocks :: "jsval \<Rightarrow> jsval \<Rightarrow> ('i, jsval) action"
  rpc_getCurrentHeight :: "('i, jsval) action"
  rpc_getGenesisHeight :: "('i, jsval) action"
  rpc_getIndexVerifiedHeight :: "('i, jsval) action"
  rpc_setIndexVerifiedHeight :: "jsval \<Rightarrow> ('i, jsval) action"

text \<open>The coordinator, with the indexer it talks to.\<close>

record 'i coordinator =
  indexer_state :: 'i
  blockIndexQueue :: "jsval list"
  accountIndexQueue :: "jsval list"
  eventsQueue :: "jsval list"
  registeredLiskModules :: jsval

type_synonym ('i, 'a) cact = "('i coordinator, 'a) action"

definition requestIndexer :: "('i, 'a) action \<Rightarrow> ('i, 'a) cact" where
  "requestIndexer m = (\<lambda>c. case m (indexer_state c) of (r, i) \<Rightarrow> (r, c\<lparr>indexer_state := i\<rparr>))"

subsection \<open>sources\<close>

definition coord_getMissingblocks :: "'i indexer_api \<Rightarrow> jsval \<Rightarrow> jsval \<Rightarrow> ('i, jsval) cact" where
  "coord_getMissingblocks api from to = requestIndexer (rpc_getMissingBlocks api from to)"

definition coord_getCurrentHeight :: "'i indexer_api \<Rightarrow> ('i, jsval) cact" where
  "coord_getCurrentHeight api = requestIndexer (rpc_getCurrentHeight api)"

definition coord_getGenesisHeight :: "'i indexer_api \<Rightarrow> ('i, jsval) cact" where
  "coord_getGenesisHeight api = requestIndexer (rpc_getGenesisHeight api)"

definition coord_getIndexVerifiedHeight :: "'i indexer_api \<Rightarrow> ('i, jsval) cact" where
  "coord_getIndexVerifiedHeight api = requestIndexer (rpc_getIndexVerifiedHeight api)"

definition coord_setIndexVerifiedHeight :: "'i indexer_api \<Rightarrow> jsval \<Rightarrow> ('i, jsval) cact" where
  "coord_setIndexVerifiedHeight api height = requestIndexer (rpc_setIndexVerifiedHeight api height)"

definition coord_getRegisteredModules :: "(string \<Rightarrow> jserr + jsval) \<Rightarrow> ('i, jsval) cact" where
  "coord_getRegisteredModules connect = liftE (bindE (connect ''getSystemMetadata'') (\<lambda>m. js_prop m ''modules''))"

definition coord_getAllPosValidators :: "(string \<Rightarrow> jserr + jsval) \<Rightarrow> ('i, jsval) cact" where
  "coord_getAllPosValidators connect = liftE (connect ''getAllPosValidators'')"

subsection \<open>scheduler.js\<close>

definition add_block_job :: "jsval \<Rightarrow> ('i, unit) cact" where
  "add_block_job height =
     bnd (liftE (json_copy (JObj [(''height'', height)]))) (\<lambda>j.
     modA (\<lambda>c. c\<lparr>blockIndexQueue := blockIndexQueue c @ [j]\<rparr>))"

definition scheduleBlocksIndexing :: "jsval \<Rightarrow> ('i, unit) cact" where
  "scheduleBlocksIndexing hts =
     (let blockHeights = (case hts of JArr hs \<Rightarrow> hs | h \<Rightarrow> [h]) in forA add_block_job blockHeights)"

definition add_account_job :: "jsval \<Rightarrow> ('i, unit) cact" where
  "add_account_job validator =
     bnd (liftE (json_copy (JObj [(''account'', JObj (oset (own_props validator) ''isValidator'' (JBool True)))]))) (\<lambda>j.
     modA (\<lambda>c. c\<lparr>accountIndexQueue := accountIndexQueue c @ [j]\<rparr>))"

definition scheduleValidatorsIndexing :: "jsval list \<Rightarrow> ('i, unit) cact" where
  "scheduleValidatorsIndexing validators = forA add_account_job validators"

definition initIndexingScheduler :: "'i indexer_api \<Rightarrow> (string \<Rightarrow> jserr + jsval) \<Rightarrow> ('i, unit) cact" where
  "initIndexingScheduler api connect =
     bnd (coord_getRegisteredModules connect) (\<lambda>modules.
     thn (modA (\<lambda>c. c\<lparr>registeredLiskModules := modules\<rparr>))
     (bnd (coord_getAllPosValidators connect) (\<lambda>r.
      bnd (liftE (js_prop r ''validators'')) (\<lambda>validators.
      thn (case validators of JArr vs \<Rightarrow> if vs = [] then ret () else scheduleValidatorsIndexing vs | _ \<Rightarrow> ret ())
      (bnd (coord_getGenesisHeight api) (\<lambda>genesis.
       bnd (coord_getCurrentHeight api) (\<lambda>current.
       bnd (coord_getMissingblocks api genesis current) (\<lambda>missing.
       case missing of JArr hs \<Rightarrow> if hs = [] then ret () else scheduleBlocksIndexing missing | _ \<Rightarrow> ret ()))))))))"

text \<open>What follows the answer of the indexer: an error here is logged and forgotten.\<close>

definition schedule_missing :: "'i indexer_api \<Rightarrow> jsval \<Rightarrow> jsval \<Rightarrow> ('i, unit) cact" where
  "schedule_missing api missingBlocksByHeight blockIndexHigherRange = tryA
     (case missingBlocksByHeight of
        JArr hs \<Rightarrow> if hs = []
          then thn (coord_setIndexVerifiedHeight api blockIndexHigherRange) (ret ())
          else scheduleBlocksIndexing missingBlocksByHeight
      | v \<Rightarrow> throw (Err (''Expected missingBlocksByHeight to be an array but found '' @ js_typeof v @ ''.'')))
     (\<lambda>_. ret ())"

definition scheduleMissingBlocksIndexing :: "'i indexer_api \<Rightarrow> ('i, unit) cact" where
  "scheduleMissingBlocksIndexing api =
     bnd (coord_getGenesisHeight api) (\<lambda>genesis.
     bnd (coord_getCurrentHeight api) (\<lambda>current.
     bnd (coord_getIndexVerifiedHeight api) (\<lambda>verified.
     bnd (coord_getMissingblocks api (js_or verified genesis) current) (\<lambda>missing.
     schedule_missing api missing current))))"

definition missing_blocks_job :: "'i indexer_api \<Rightarrow> ('i, unit) cact" where
  "missing_blocks_job api = tryA (scheduleMissingBlocksIndexing api) (\<lambda>_. ret ())"

subsection \<open>eventsScheduler.js\<close>

definition add_event_job :: "obj \<Rightarrow> ('i, unit) cact" where
  "add_event_job data =
     bnd (liftE (json_copy (JObj data))) (\<lambda>j. modA (\<lambda>c. c\<lparr>eventsQueue := eventsQueue c @ [j]\<rparr>))"

definition scheduleUpdatesOnNewBlock :: "jsval \<Rightarrow> ('i, unit) cact" where
  "scheduleUpdatesOnNewBlock payload =
     bnd (liftE (js_prop payload ''blockHeader'')) (\<lambda>blockHeader.
     add_event_job [(''blockHeader'', blockHeader), (''isNewBlock'', JBool True)])"

definition scheduleDeleteBlock :: "jsval \<Rightarrow> ('i, unit) cact" where
  "scheduleDeleteBlock payload =
     bnd (liftE (js_prop payload ''blockHeader'')) (\<lambda>blockHeader.
     add_event_job [(''blockHeader'', blockHeader), (''isDeleteBlock'', JBool True)])"

definition scheduleUpdatesOnNewRound :: "jsval \<Rightarrow> ('i, unit) cact" where
  "scheduleUpdatesOnNewRound payload =
     bnd (liftE (js_prop payload ''validators'')) (\<lambda>validators.
     add_event_job [(''validators'', validators), (''isNewRound'', JBool True)])"

subsection \<open>The indexer's methods\<close>

text \<open>
  The methods of the indexer. Heights are numbers, as the node reports them; other values
  would be spliced into the text of the query, which the model leaves out.
\<close>

definition indexer_missing :: "ext \<Rightarrow> jsval \<Rightarrow> jsval \<Rightarrow> jsval iact" where
  "indexer_missing X from to = (case (from, to) of
       (JNum a, JNum b) \<Rightarrow> bnd (getMissingBlocks X a b) (\<lambda>hs. ret (JArr (map JNum hs)))
     | _ \<Rightarrow> throw (SqlErr ''ER_BAD_FIELD_ERROR''))"

definition indexer_methods :: "ext \<Rightarrow> iworld indexer_api" where
  "indexer_methods X = \<lparr>
     rpc_getMissingBlocks = indexer_missing X,
     rpc_getCurrentHeight = getCurrentHeight X,
     rpc_getGenesisHeight = getGenesisHeight X,
     rpc_getIndexVerifiedHeight = getIndexVerifiedHeight X,
     rpc_setIndexVerifiedHeight = (\<lambda>h. thn (setIndexVerifiedHeight X h) (ret JUndef))\<rparr>"

subsection \<open>What the coordinator relies on\<close>

text \<open>
  The verified height is one cell of the indexer: \<open>ok\<close> describes the states in which it can be
  used, the reading methods leave it alone, and setting it sets it.
\<close>

locale verified_height =
  fixes api :: "'i indexer_api" and ok :: "'i \<Rightarrow> bool" and verified :: "'i \<Rightarrow> jsval"
  assumes get: "ok i \<Longrightarrow> rpc_getIndexVerifiedHeight api i = (Inr v, i') \<Longrightarrow> v = verified i \<and> i' = i"
    and set_ok: "ok i \<Longrightarrow> rpc_setIndexVerifiedHeight api (JNum n) i = (r, i') \<Longrightarrow> ok i'"
    and set_number: "ok i \<Longrightarrow> rpc_setIndexVerifiedHeight api (JNum n) i = (Inr v, i') \<Longrightarrow> verified i' = JNum n"
    and set_failed: "ok i \<Longrightarrow> rpc_setIndexVerifiedHeight api (JNum n) i = (Inl e, i') \<Longrightarrow> verified i' = verified i"
    and genesis: "ok i \<Longrightarrow> rpc_getGenesisHeight api i = (r, i') \<Longrightarrow> ok i' \<and> verified i' = verified i"
    and current: "ok i \<Longrightarrow> rpc_getCurrentHeight api i = (r, i') \<Longrightarrow> i' = i"
    and missing: "ok i \<Longrightarrow> rpc_getMissingBlocks api a b i = (r, i') \<Longrightarrow> i' = i"
begin

lemma add_jobs:
  "forA add_block_job (map JNum hs) c =
     (Inr (), c\<lparr>blockIndexQueue := blockIndexQueue c @ map (\<lambda>h. JObj [(''height'', JNum h)]) hs\<rparr>)"
  by (induction hs arbitrary: c) (auto simp: add_block_job_def bnd_def thn_def)

lemma requestIndexer_run:
  "m (indexer_state c) = (r, i) \<Longrightarrow> requestIndexer m c = (r, c\<lparr>indexer_state := i\<rparr>)"
  by (simp add: requestIndexer_def)

text \<open>
  When the indexer reports nothing, nothing is queued and the verified height becomes the
  current one, unless storing it fails; otherwise the reported heights are queued and the
  verified height stays.
\<close>

lemma schedule_outcome:
  assumes ok: "ok (indexer_state c)"
    and g: "rpc_getGenesisHeight api (indexer_state c) = (Inr g, i)"
    and n: "rpc_getCurrentHeight api i = (Inr (JNum n), i)"
    and v: "rpc_getIndexVerifiedHeight api i = (Inr (verified i), i)"
    and hs: "rpc_getMissingBlocks api (js_or (verified i) g) (JNum n) i = (Inr (JArr (map JNum hs)), i)"
  shows "\<exists>c'. scheduleMissingBlocksIndexing api c = (Inr (), c') \<and> ok (indexer_state c') \<and>
    blockIndexQueue c' = blockIndexQueue c @ map (\<lambda>h. JObj [(''height'', JNum h)]) hs \<and>
    (if hs = [] then verified (indexer_state c') = JNum n \<or>
        (\<exists>e i'. rpc_setIndexVerifiedHeight api (JNum n) i = (Inl e, i') \<and> verified (indexer_state c') = verified (indexer_state c))
     else verified (indexer_state c') = verified (indexer_state c))"
proof -
  let ?c = "c\<lparr>indexer_state := i\<rparr>"
  from genesis [OF ok g] have i: "ok i" "verified i = verified (indexer_state c)" by simp_all
  have run: "scheduleMissingBlocksIndexing api c = schedule_missing api (JArr (map JNum hs)) (JNum n) ?c"
    using g n v hs
    by (simp add: scheduleMissingBlocksIndexing_def coord_getGenesisHeight_def coord_getCurrentHeight_def
        coord_getIndexVerifiedHeight_def coord_getMissingblocks_def requestIndexer_def bnd_def)
  show ?thesis
  proof (cases "hs = []")
    case False
    then have "schedule_missing api (JArr (map JNum hs)) (JNum n) ?c =
        (Inr (), ?c\<lparr>blockIndexQueue := blockIndexQueue c @ map (\<lambda>h. JObj [(''height'', JNum h)]) hs\<rparr>)"
      by (simp add: schedule_missing_def scheduleBlocksIndexing_def tryA_def add_jobs)
    with run False i show ?thesis by simp
  next
    case True
    obtain r i' where set: "rpc_setIndexVerifiedHeight api (JNum n) i = (r, i')" by fastforce
    then have "schedule_missing api (JArr (map JNum hs)) (JNum n) ?c = (Inr (), ?c\<lparr>indexer_state := i'\<rparr>)"
      using True by (cases r) (simp_all add: schedule_missing_def coord_setIndexVerifiedHeight_def
          requestIndexer_def tryA_def thn_def bnd_def)
    with run True i set set_ok [OF i(1) set] show ?thesis
      by (cases r) (auto dest: set_number [OF i(1)] set_failed [OF i(1)])
  qed
qed

end

subsection \<open>The indexer keeps the contract\<close>

definition stored_height :: "iworld \<Rightarrow> jsval" where
  "stored_height w = (case committed w ''key_value_store'' of
       None \<Rightarrow> JUndef
     | Some tb \<Rightarrow> (case lookup_row [''key''] [JStr INDEX_VERIFIED_HEIGHT] (t_rows tb) of
           None \<Rightarrow> JUndef
         | Some r \<Rightarrow> (case formatValue (oget r ''value'') (oget r ''type'') of Inr v \<Rightarrow> v | Inl _ \<Rightarrow> JUndef)))"

definition kv_ready :: "iworld \<Rightarrow> bool" where
  "kv_ready w \<longleftrightarrow> table_ready kvStoreTableSchema (committed w)"

lemma kv_set_failed: "kv_set X k v False w = (Inl e, w') \<Longrightarrow> w' = w"
  by (auto simp: kv_set_def upsert_def run_batch_def bnd_def thn_def Let_def
      split: if_splits sum.splits prod.splits)

lemma kv_set_ready:
  assumes "sql_engine jc (kx X)" and "kv_ready w" and "kv_set X k v False w = (Inr (), w')"
  shows "kv_ready w'"
proof -
  from kv_set_ok [OF assms(1,3)] obtain tb where tb: "committed w ''key_value_store'' = Some tb"
    and row: "insert_error (t_cols tb) (t_pk tb) [(''key'', JStr k), (''value'', kv_cell v), (''type'', JStr (js_typeof v))] = None"
    and w': "committed w' = put_row ''key_value_store'' [(''key'', JStr k), (''value'', kv_cell v), (''type'', JStr (js_typeof v))] (committed w)"
    by auto
  show ?thesis
    using table_ready_put_row [of kvStoreTableSchema "committed w" tb] assms(2) tb row
    by (simp add: kv_ready_def w' kv_columns)
qed

lemma kv_written_height:
  assumes "sql_engine jc (kx X)" and "kv_ready w" and "setIndexVerifiedHeight X (JNum n) w = (Inr (), w')"
  shows "stored_height w' = JNum n"
proof -
  let ?row = "[(''key'', JStr INDEX_VERIFIED_HEIGHT), (''value'', kv_cell (JNum n)), (''type'', JStr (js_typeof (JNum n)))]"
  from kv_set_ok [OF assms(1) assms(3) [unfolded setIndexVerifiedHeight_def]]
  obtain tb where tb: "committed w ''key_value_store'' = Some tb"
    and ok: "insert_error (t_cols tb) (t_pk tb) ?row = None"
    and w': "committed w' = put_row ''key_value_store'' ?row (committed w)" by auto
  from kv_lookup_put [OF assms(2) [unfolded kv_ready_def] tb refl ok]
  obtain r where "lookup_row [''key''] [JStr INDEX_VERIFIED_HEIGHT] (upsert_rows (t_cols tb) (t_pk tb) ?row (t_rows tb)) = Some r"
    "oget r ''value'' = kv_cell (JNum n)" "oget r ''type'' = JStr (js_typeof (JNum n))" by blast
  moreover have "committed w' ''key_value_store'' =
      Some (tb\<lparr>t_rows := upsert_rows (t_cols tb) (t_pk tb) ?row (t_rows tb)\<rparr>)"
    by (simp add: w' put_row_def tb set_rows_def)
  ultimately show ?thesis
    by (simp add: stored_height_def kv_cell_def formatValue_def)
qed

lemma reads_leave_world:
  "snd (getMissingBlocks X a b w) = w" "snd (getCurrentHeight X w) = w"
  by (auto simp: getMissingBlocks_def findMissingBlocksInRange_def table_count_def rawQuery_def run_read_def
      getCurrentHeight_def iact_defs bnd_def Let_def split: sum.splits prod.splits)

lemma genesis_leaves_tables:
  "getGenesisHeight X w = (r, w') \<Longrightarrow> committed w' = committed w"
  by (auto simp: getGenesisHeight_def iact_defs bnd_def thn_def split: sum.splits if_splits)

locale indexer_service = sql_engine jc "kx X" for jc and X :: ext
begin

lemma verified_height_get:
  assumes "kv_ready w" and "getIndexVerifiedHeight X w = (Inr v, w')"
  shows "v = stored_height w \<and> w' = w"
  using kv_get_ok [OF sql_engine_axioms assms(1) [unfolded kv_ready_def] assms(2) [unfolded getIndexVerifiedHeight_def]]
  by (auto simp: stored_height_def split: option.splits)

end

sublocale indexer_service < verified_height "indexer_methods X" kv_ready stored_height
proof
  fix i i' :: iworld and v r n e a b
  assume ok: "kv_ready i"
  show "v = stored_height i \<and> i' = i" if "rpc_getIndexVerifiedHeight (indexer_methods X) i = (Inr v, i')"
    using verified_height_get [OF ok] that by (simp add: indexer_methods_def)
  show "kv_ready i'" if set: "rpc_setIndexVerifiedHeight (indexer_methods X) (JNum n) i = (r, i')"
  proof (cases "kv_set X INDEX_VERIFIED_HEIGHT (JNum n) False i")
    case (Pair q j)
    with set have "i' = j" by (cases q) (simp_all add: indexer_methods_def setIndexVerifiedHeight_def thn_def bnd_def)
    with Pair ok show ?thesis
      by (cases q) (auto dest: kv_set_failed kv_set_ready [OF sql_engine_axioms ok])
  qed
  show "stored_height i' = JNum n" if "rpc_setIndexVerifiedHeight (indexer_methods X) (JNum n) i = (Inr v, i')"
    using that kv_written_height [OF sql_engine_axioms ok] by (auto simp: indexer_methods_def act_ok)
  show "stored_height i' = stored_height i" if "rpc_setIndexVerifiedHeight (indexer_methods X) (JNum n) i = (Inl e, i')"
    using that by (auto simp: indexer_methods_def setIndexVerifiedHeight_def thn_def bnd_def
        dest: kv_set_failed split: sum.splits prod.splits)
  show "kv_ready i' \<and> stored_height i' = stored_height i" if "rpc_getGenesisHeight (indexer_methods X) i = (r, i')"
    using that genesis_leaves_tables [of X i r i'] ok by (simp add: indexer_methods_def kv_ready_def stored_height_def)
  show "i' = i" if "rpc_getCurrentHeight (indexer_methods X) i = (r, i')"
    using that reads_leave_world(2) [of X i] by (simp add: indexer_methods_def)
  show "i' = i" if "rpc_getMissingBlocks (indexer_methods X) a b i = (r, i')"
    using that reads_leave_world(1) [of X _ _ i]
    by (auto simp: indexer_methods_def indexer_missing_def bnd_def split: jsval.splits sum.splits prod.splits)
      (metis snd_conv)+
qed

context indexer_service
begin

lemmas scheduled_by_coordinator = schedule_outcome

end

interpretation ref_indexer: indexer_service "\<lambda>_ _. False" ref_ext
  by (simp add: indexer_service_def ref_ext_engine)

subsection \<open>Coordinator and indexer together\<close>

text \<open>A run of the scheduler over the indexer, once the node and the database have answered.\<close>

lemma schedule_over_indexer:
  assumes eng: "sql_engine jc (kx X)" and ready: "world_ready (indexer_state c)"
    and g: "genesisHeight (indexer_state c) = JNum g"
    and st: "connector X ''getNetworkStatus'' JUndef = Inr (JObj st)" "oget st ''height'' = JNum n"
    and v: "getIndexVerifiedHeight X (indexer_state c) = (Inr v, indexer_state c)" "js_or v (JNum g) = JNum lo"
    and hs: "fst (getMissingBlocks X lo n (indexer_state c)) = Inr hs"
  shows "\<exists>c'. scheduleMissingBlocksIndexing (indexer_methods X) c = (Inr (), c') \<and>
    blockIndexQueue c' = blockIndexQueue c @ map (\<lambda>h. JObj [(''height'', JNum h)]) hs \<and>
    (if hs = [] then stored_height (indexer_state c') = JNum n \<or>
        (\<exists>e i. setIndexVerifiedHeight X (JNum n) (indexer_state c) = (Inl e, i))
     else stored_height (indexer_state c') = stored_height (indexer_state c))"
proof -
  have svc: "indexer_service jc X" using eng by (simp add: indexer_service_def)
  have kv: "kv_ready (indexer_state c)"
    using ready schemas_of_service db_readyD by (simp add: world_ready_def kv_ready_def)
  have stored: "stored_height (indexer_state c) = v"
    using indexer_service.verified_height_get [OF svc kv v(1)] by simp
  have run: "rpc_getGenesisHeight (indexer_methods X) (indexer_state c) = (Inr (JNum g), indexer_state c)"
    "rpc_getCurrentHeight (indexer_methods X) (indexer_state c) = (Inr (JNum n), indexer_state c)"
    using g st by (simp_all add: indexer_methods_def getGenesisHeight_def getCurrentHeight_def iact_defs bnd_def thn_def)
  have got: "rpc_getIndexVerifiedHeight (indexer_methods X) (indexer_state c) =
      (Inr (stored_height (indexer_state c)), indexer_state c)"
    using v(1) stored by (simp add: indexer_methods_def)
  have "getMissingBlocks X lo n (indexer_state c) = (Inr hs, indexer_state c)"
    using hs reads_leave_world(1) by (metis prod.collapse)
  then have missing: "rpc_getMissingBlocks (indexer_methods X) (js_or (stored_height (indexer_state c)) (JNum g)) (JNum n)
      (indexer_state c) = (Inr (JArr (map JNum hs)), indexer_state c)"
    using v(2) stored by (simp add: indexer_methods_def indexer_missing_def bnd_def)
  have failed: "\<exists>e i. setIndexVerifiedHeight X (JNum n) (indexer_state c) = (Inl e, i)"
    if "rpc_setIndexVerifiedHeight (indexer_methods X) (JNum n) (indexer_state c) = (Inl e, i)" for e i
    using that by (auto simp: indexer_methods_def thn_def bnd_def split: sum.splits prod.splits)
  from indexer_service.scheduled_by_coordinator [OF svc kv run got missing] failed show ?thesis
    by (auto split: if_splits)
qed

text \<open>
  C11. Every gap below an indexed block is scheduled: when a height above the verified one is
  not indexed and a higher one below the tip of the chain is, the coordinator's run queues a
  job for it, and the verified height stays where it was.
\<close>

theorem gaps_scheduled:
  assumes "sql_engine jc (kx X)" and "world_ready (indexer_state c)"
    and "genesisHeight (indexer_state c) = JNum g"
    and "connector X ''getNetworkStatus'' JUndef = Inr (JObj st)" and "oget st ''height'' = JNum n"
    and "getIndexVerifiedHeight X (indexer_state c) = (Inr v, indexer_state c)" and "js_or v (JNum g) = JNum lo"
    and "fst (getMissingBlocks X lo n (indexer_state c)) = Inr hs"
    and "0 \<le> lo" and "lo \<le> h" and "h \<notin> set (heights (committed (indexer_state c)))"
    and "up \<in> set (heights (committed (indexer_state c)))" and "h < up" and "up < n"
  shows "\<exists>c'. scheduleMissingBlocksIndexing (indexer_methods X) c = (Inr (), c') \<and>
    JObj [(''height'', JNum h)] \<in> set (blockIndexQueue c') \<and>
    stored_height (indexer_state c') = stored_height (indexer_state c)"
proof -
  have run: "getMissingBlocks X lo n (indexer_state c) = (Inr hs, indexer_state c)"
    using assms(8) reads_leave_world(1) by (metis prod.collapse)
  have "table_ready blocksTableSchema (committed (indexer_state c))"
    using assms(2) schemas_of_service db_readyD by (simp add: world_ready_def)
  from gaps_found [OF assms(1) this run assms(9-14)] have "h \<in> set hs" .
  with schedule_over_indexer [OF assms(1-8)] show ?thesis by (auto split: if_splits)
qed

text \<open>
  The verified height passes blocks that are not indexed: when the heights from the
  verified one up to some tip are indexed, at least three of them, and none above the tip is
  except possibly the current one, the coordinator's run queues nothing and stores the current
  height of the chain as verified.
\<close>

lemma verified_past_missing:
  assumes "sql_engine jc (kx X)" and "world_ready (indexer_state c)"
    and "genesisHeight (indexer_state c) = JNum g"
    and "connector X ''getNetworkStatus'' JUndef = Inr (JObj st)" and "oget st ''height'' = JNum n"
    and "getIndexVerifiedHeight X (indexer_state c) = (Inr v, indexer_state c)" and "js_or v (JNum g) = JNum lo"
    and "fst (getMissingBlocks X lo n (indexer_state c)) = Inr hs"
    and "0 \<le> lo" and "lo \<le> n"
    and "3 \<le> card {x \<in> set (heights (committed (indexer_state c))). lo \<le> x \<and> x \<le> n}"
    and "\<And>x. lo \<le> x \<Longrightarrow> x \<le> tip \<Longrightarrow> x \<in> set (heights (committed (indexer_state c)))"
    and "\<And>x. tip < x \<Longrightarrow> x < n \<Longrightarrow> x \<notin> set (heights (committed (indexer_state c)))"
    and "fst (setIndexVerifiedHeight X (JNum n) (indexer_state c)) = Inr ()"
  shows "\<exists>c'. scheduleMissingBlocksIndexing (indexer_methods X) c = (Inr (), c') \<and>
    blockIndexQueue c' = blockIndexQueue c \<and> stored_height (indexer_state c') = JNum n"
proof -
  have run: "getMissingBlocks X lo n (indexer_state c) = (Inr hs, indexer_state c)"
    using assms(8) reads_leave_world(1) by (metis prod.collapse)
  have "table_ready blocksTableSchema (committed (indexer_state c))"
    using assms(2) schemas_of_service db_readyD by (simp add: world_ready_def)
  from tail_unreported [OF assms(1) this run assms(9-13)] have "hs = []" .
  with schedule_over_indexer [OF assms(1-8)] assms(14) show ?thesis by auto
qed

subsection \<open>Two chains\<close>

definition tip_chain :: "int \<Rightarrow> ext" where
  "tip_chain n = ref_ext\<lparr>connector := (\<lambda>m _.
     if m = ''getNetworkStatus'' then Inr (JObj [(''height'', JNum n)]) else Inr JUndef)\<rparr>"

definition coordinator_of :: "int list \<Rightarrow> iworld coordinator" where
  "coordinator_of hs = \<lparr>indexer_state = (chain_world hs)\<lparr>genesisHeight := JNum 1\<rparr>, blockIndexQueue = [],
     accountIndexQueue = [], eventsQueue = [], registeredLiskModules = JUndef\<rparr>"

lemma tip_engine: "sql_engine (\<lambda>_ _. False) (kx (tip_chain n))"
  using ref_ext_engine by (simp add: tip_chain_def)

lemma coordinator_ready: "world_ready (indexer_state (coordinator_of hs))"
  using chain_ready [of hs] by (simp add: coordinator_of_def world_ready_def)

lemma tip_facts:
  "genesisHeight (indexer_state (coordinator_of hs)) = JNum 1"
  "connector (tip_chain n) ''getNetworkStatus'' JUndef = Inr (JObj [(''height'', JNum n)])"
  "oget [(''height'', JNum n)] ''height'' = JNum n" "js_or JUndef (JNum 1) = JNum 1"
  by (simp_all add: coordinator_of_def tip_chain_def js_or_def)

lemma kv_get_state: "snd (getIndexVerifiedHeight X w) = w"
  by (auto simp: getIndexVerifiedHeight_def kv_get_def table_find_def run_read_def bnd_def Let_def
      split: sum.splits prod.splits)

theorem gaps_scheduled_witness:
  "\<exists>c'. scheduleMissingBlocksIndexing (indexer_methods (tip_chain 9)) (coordinator_of [1, 2, 3, 7, 8]) = (Inr (), c') \<and>
     JObj [(''height'', JNum 5)] \<in> set (blockIndexQueue c')"
proof -
  let ?c = "coordinator_of [1, 2, 3, 7, 8]" and ?X = "tip_chain 9"
  have "fst (getIndexVerifiedHeight ?X (indexer_state ?c)) = Inr JUndef" by code_simp
  then have v: "getIndexVerifiedHeight ?X (indexer_state ?c) = (Inr JUndef, indexer_state ?c)"
    by (metis kv_get_state prod.collapse)
  have hs: "fst (getMissingBlocks ?X 1 9 (indexer_state ?c)) = Inr [3, 4, 5, 6]" by code_simp
  have heights: "heights (committed (indexer_state ?c)) = [1, 2, 3, 7, 8]" by code_simp
  have "\<exists>c'. scheduleMissingBlocksIndexing (indexer_methods ?X) ?c = (Inr (), c') \<and>
    JObj [(''height'', JNum 5)] \<in> set (blockIndexQueue c') \<and>
    stored_height (indexer_state c') = stored_height (indexer_state ?c)"
    by (rule gaps_scheduled [OF tip_engine coordinator_ready tip_facts(1-3) v tip_facts(4) hs, where up = 7])
      (simp_all add: heights)
  then show ?thesis by blast
qed

end
