(* ===== verification/Gateway.thy ===== *)
theory Gateway
  imports Validators
begin

text \<open>
  The gateway, \<open>services/gateway/shared\<close>: validation of request parameters
  (\<open>paramValidator.js\<close>), mapping of parameters and responses (\<open>apiUtils.js\<close>, \<open>customMapper.js\<close>), and
  the hooks that run before and after a call (\<open>registerHttpApi.js\<close>, \<open>registerRpcApi.js\<close>). The
  validator library and the conversions of dates and byte buffers are parameters. Property
  names are not array indices, so an object lists its properties in creation order.
\<close>

subsection \<open>Language helpers\<close>

text \<open>\<open>v[k]\<close> with a computed name: arrays and strings also have their indices.\<close>

definition js_get :: "jsval \<Rightarrow> string \<Rightarrow> jserr + jsval" where
  "js_get v k = (case (v, read_nat k) of
       (JArr vs, Some n) \<Rightarrow> Inr (if show_nat n = k \<and> n < length vs then vs ! n else JUndef)
     | (JStr s, Some n) \<Rightarrow> Inr (if show_nat n = k \<and> n < length s then JStr [s ! n] else JUndef)
     | _ \<Rightarrow> js_prop v k)"

text \<open>What \<open>...v\<close> contributes to an object, and \<open>Object.keys(v)\<close> with the values.\<close>

definition js_spread :: "jsval \<Rightarrow> obj" where
  "js_spread v = (case v of
       JObj ps \<Rightarrow> ps
     | JArr vs \<Rightarrow> zip (map show_nat [0..<length vs]) vs
     | JStr s \<Rightarrow> zip (map show_nat [0..<length s]) (map (\<lambda>c. JStr [c]) s)
     | _ \<Rightarrow> [])"

definition arr_includes :: "jsval \<Rightarrow> string \<Rightarrow> jserr + bool" where
  "arr_includes v k = bindE (js_elems v) (\<lambda>xs. Inr (js_includes xs (JStr k)))"

abbreviation keys_of :: "obj \<Rightarrow> string list" where
  "keys_of ob \<equiv> map fst ob"

subsection \<open>paramValidator.js\<close>

definition mapObjectWithProperty :: "obj \<Rightarrow> string \<Rightarrow> jserr + obj" where
  "mapObjectWithProperty ob propName =
     foldE (\<lambda>acc (k, v). bindE (js_prop v propName) (\<lambda>u.
       Inr (if js_typeof u \<noteq> ''undefined'' then oset acc k u else acc))) [] ob"

definition objDiff :: "obj \<Rightarrow> obj \<Rightarrow> string list" where
  "objDiff reference testedObject =
     filter (\<lambda>k. js_typeof (oget reference k) = ''undefined'') (keys_of testedObject)"

definition arrDiff :: "'a list \<Rightarrow> 'a list \<Rightarrow> 'a list" where
  "arrDiff arr1 arr2 = filter (\<lambda>x. x \<notin> set arr1) arr2"

definition dropEmptyProps :: "obj \<Rightarrow> obj" where
  "dropEmptyProps p = filter (\<lambda>(k, v). v \<noteq> JStr []) p"

text \<open>Both \<open>defaultVal\<close> and \<open>inputVal\<close> are read from \<open>swaggerParams\<close>.\<close>

definition valid_params :: "obj \<Rightarrow> obj" where
  "valid_params swaggerParams =
     foldl (\<lambda>acc k. let defaultVal = oget swaggerParams k; inputVal = oget swaggerParams k in
        oset acc k (if js_number inputVal = JNaN \<and> js_number defaultVal \<noteq> JNaN then defaultVal else inputVal))
       [] (filter (\<lambda>k. js_typeof (oget swaggerParams k) \<noteq> ''undefined'') (keys_of swaggerParams))"

definition invalid_params :: "obj \<Rightarrow> obj \<Rightarrow> obj" where
  "invalid_params swaggerParams inputParams =
     foldl (\<lambda>acc k. oset acc k (oget inputParams k)) []
       (filter (\<lambda>k. k \<notin> set (keys_of swaggerParams)) (keys_of (spread swaggerParams inputParams)))"

definition parseParams :: "obj \<Rightarrow> obj \<Rightarrow> obj \<times> obj" where
  "parseParams swaggerParams inputParams = (valid_params swaggerParams, invalid_params swaggerParams inputParams)"

definition validateFromParamPairings :: "jsval \<Rightarrow> string list \<Rightarrow> jsval list \<Rightarrow> jserr + jsval list" where
  "validateFromParamPairings paramsRequired inputParamKeys paramPairings =
     (if \<not> truthy paramsRequired then Inr []
      else bindE (filterE (\<lambda>pairing. someE (arr_includes pairing) inputParamKeys) paramPairings) (\<lambda>relevantPairings.
        if relevantPairings = [] then Inr paramPairings
        else bindE (someE (\<lambda>pairing. bindE (js_elems pairing) (\<lambda>ps.
               Inr (\<forall>p \<in> set ps. p \<in> set (map JStr inputParamKeys)))) relevantPairings) (\<lambda>result.
          Inr (if result then [] else paramPairings))))"

definition checkMissingParams :: "obj \<Rightarrow> obj \<Rightarrow> jserr + string list" where
  "checkMissingParams routeParams requestParams =
     bindE (filterE (\<lambda>(k, v). bindE (js_prop v ''required'') (\<lambda>r. Inr (r = JBool True))) routeParams) (\<lambda>req.
     Inr (arrDiff (keys_of requestParams) (keys_of req)))"

definition parseDefaultParams :: "obj \<Rightarrow> jserr + obj" where
  "parseDefaultParams p = mapObjectWithProperty p ''default''"

text \<open>One parameter of the route: its default, replaced by the value of the request.\<close>

definition parse_param :: "obj \<Rightarrow> obj \<Rightarrow> string \<times> jsval \<Rightarrow> jserr + obj" where
  "parse_param requestParams acc = (\<lambda>(cur, spec).
     bindE (js_prop spec ''type'') (\<lambda>paramDatatype. bindE (js_prop spec ''default'') (\<lambda>dflt.
     let acc1 = (if dflt \<noteq> JUndef then oset acc cur dflt else acc);
         given = oget requestParams cur in
     Inr (if given \<noteq> JUndef
          then if paramDatatype = JStr ''number''
               then oset acc1 cur (if given = JStr [] then oget acc1 cur else js_number given)
               else oset acc1 cur given
          else acc1))))"

definition parseAllParams :: "obj \<Rightarrow> obj \<Rightarrow> jserr + obj" where
  "parseAllParams routeParams requestParams = foldE (parse_param requestParams) [] routeParams"

definition looseSpecParams :: "obj \<Rightarrow> jserr + obj" where
  "looseSpecParams specPar =
     foldE (\<lambda>acc (cur, spec). bindE (js_prop spec ''type'') (\<lambda>t.
       Inr (oset acc cur (if t = JStr ''number'' \<or> t = JStr ''boolean''
         then JObj (spread [(''convert'', JBool True)] (js_spread spec)) else spec)))) [] specPar"

record param_report =
  r_valid :: obj
  r_unknown :: obj
  r_required :: "jsval list"
  r_missing :: "string list"
  r_invalid :: "jsval list option"

text \<open>
  \<open>check\<close> is \<open>validator.validate\<close> of the validator library: the list of its complaints, empty
  where it returns \<open>true\<close>.
\<close>

definition validateInputParams :: "(obj \<Rightarrow> obj \<Rightarrow> jsval list) \<Rightarrow> jsval \<Rightarrow> jsval \<Rightarrow> jserr + param_report" where
  "validateInputParams check rawInputParams specs =
     (let inputParams = own_props (js_default rawInputParams (JObj [])) in
     bindE (js_prop specs ''params'') (\<lambda>pv.
     let specParams = own_props (js_or pv (JObj [])) in
     bindE (js_prop specs ''validParamPairings'') (\<lambda>vp.
     bindE (js_elems (js_or vp (JArr []))) (\<lambda>paramPairings.
     bindE (parseAllParams specParams inputParams) (\<lambda>swaggerParams.
     bindE (parseDefaultParams specParams) (\<lambda>defaults.
     let (v, u) = parseParams swaggerParams (spread defaults inputParams) in
     bindE (js_prop specs ''paramsRequired'') (\<lambda>paramsRequired.
     bindE (validateFromParamPairings paramsRequired (keys_of inputParams) paramPairings) (\<lambda>required.
     bindE (checkMissingParams specParams inputParams) (\<lambda>missing.
     let report = \<lparr>r_valid = v, r_unknown = u, r_required = required, r_missing = missing, r_invalid = None\<rparr> in
     if missing \<noteq> [] then Inr report
     else if u \<noteq> [] then Inr report
     else if required \<noteq> [] then Inr report
     else bindE (looseSpecParams specParams) (\<lambda>loose.
       Inr (report\<lparr>r_invalid := Some (check (dropEmptyProps inputParams) loose)\<rparr>)))))))))))"

subsection \<open>apiUtils.js: parameters\<close>

definition dropOneSlashAtBeginning :: "string \<Rightarrow> string" where
  "dropOneSlashAtBeginning s = (case s of c # cs \<Rightarrow> if c = CHR ''/'' then cs else s | [] \<Rightarrow> [])"

definition curlyBracketsToColon :: "string \<Rightarrow> string" where
  "curlyBracketsToColon s = filter (\<lambda>c. c \<noteq> CHR ''}'') (join '':'' (js_split ''{'' s))"

definition transformPath :: "string \<Rightarrow> string" where
  "transformPath url = curlyBracketsToColon (dropOneSlashAtBeginning url)"

definition convertType :: "jsval \<Rightarrow> string \<Rightarrow> jserr + jsval" where
  "convertType item toType =
     (if item = JNull then Inl (TypeErr ''Cannot read properties of null (reading 'constructor')'')
      else let fromType = (if is_array item then ''array'' else js_typeof item);
               typeMatch = fromType @ ''_'' @ toType in
        Inr (if typeMatch = ''string_number'' then js_number item
             else if typeMatch = ''number_string'' then JStr (js_string item)
             else if typeMatch = ''array_string'' then JStr (js_string item)
             else if typeMatch = ''string_boolean'' then JBool (to_lower (js_string item) = ''true'')
             else item))"

text \<open>The key and the value that a parameter of the source gives, or nothing.\<close>

definition mapParam :: "obj \<Rightarrow> string \<Rightarrow> string \<Rightarrow> (string \<times> jsval) option" where
  "mapParam source originalKey mappingKey =
     (if mappingKey \<noteq> [] then Some (mappingKey, oget source (if originalKey = ''='' then mappingKey else originalKey))
      else None)"

definition mapParamWithType :: "obj \<Rightarrow> jsval \<Rightarrow> string \<Rightarrow> jserr + (string \<times> jsval) option" where
  "mapParamWithType source originalSetup mappingKey =
     bindE (as_str originalSetup) (\<lambda>s.
     let parts = js_split '','' s; originalKey = (case at_str parts 0 of Some x \<Rightarrow> x | None \<Rightarrow> []);
         mapped = mapParam source originalKey mappingKey in
     case at_str parts 1 of
       Some dataType \<Rightarrow> bindE (convertType (case mapped of Some (_, v) \<Rightarrow> v | None \<Rightarrow> JUndef) dataType) (\<lambda>v.
         Inr (Some (mappingKey, v)))
     | None \<Rightarrow> Inr mapped)"

definition transformParams :: "obj \<Rightarrow> obj \<Rightarrow> jserr + obj" where
  "transformParams params specs =
     foldE (\<lambda>output (specParam, setup). bindE (mapParamWithType params setup specParam) (\<lambda>r.
       Inr (case r of Some (k, v) \<Rightarrow> if k \<noteq> [] then oset output k v else output | None \<Rightarrow> output))) [] specs"

definition transformRequest :: "jsval \<Rightarrow> obj \<Rightarrow> obj" where
  "transformRequest methodDef params =
     (case bindE (js_path methodDef [''source'', ''params'']) (\<lambda>paramDef.
        if paramDef = JUndef \<or> paramDef = JNull then Inl (TypeErr ''Cannot convert undefined or null to object'')
        else transformParams params (js_spread paramDef)) of
        Inr out \<Rightarrow> out
      | Inl _ \<Rightarrow> params)"

subsection \<open>customMapper.js\<close>

text \<open>
  The casts of a definition. Those of dates and byte buffers are given by \<open>casts\<close>; a type
  that is none of these is not a function.
\<close>

type_synonym casts = "string \<Rightarrow> (jsval \<Rightarrow> jserr + jsval) option"

definition cast_value :: "casts \<Rightarrow> string \<Rightarrow> jsval \<Rightarrow> jserr + jsval" where
  "cast_value casts type v =
     (if type = ''number'' then Inr (js_number v)
      else if type = ''string'' then Inr (JStr (js_string v))
      else if type = ''boolean'' then Inr (JBool (if v = JStr ''0'' then False else truthy v))
      else case casts type of Some f \<Rightarrow> f v | None \<Rightarrow> Inl (TypeErr ''cast[type] is not a function''))"

definition resolvePath :: "jsval \<Rightarrow> jsval \<Rightarrow> jsval" where
  "resolvePath ob path = (case path of
       JStr s \<Rightarrow> foldl (\<lambda>sub p. if truthy sub then (case js_get sub p of Inr v \<Rightarrow> v | Inl _ \<Rightarrow> JUndef) else JUndef)
                 ob (js_split ''.'' s)
     | _ \<Rightarrow> JUndef)"

text \<open>A property whose definition is a text: a path, or \<open>=\<close> for the same name, and a type.\<close>

definition map_leaf :: "casts \<Rightarrow> jsval \<Rightarrow> jsval \<Rightarrow> string \<Rightarrow> string \<Rightarrow> jserr + jsval" where
  "map_leaf casts root sub k text =
     (let parts = js_split '','' text; path = (case at_str parts 0 of Some x \<Rightarrow> x | None \<Rightarrow> []) in
     bindE (if path = ''='' then js_get sub k else Inr (resolvePath root (JStr path))) (\<lambda>val.
     case at_str parts 1 of
       Some type \<Rightarrow> if (truthy val \<or> val = JNum 0) \<and> type \<noteq> [] then cast_value casts type val else Inr val
     | None \<Rightarrow> Inr val))"

definition no_keys :: "jserr + 'a" where
  "no_keys = Inl (TypeErr ''Cannot convert undefined or null to object'')"

text \<open>
  \<open>mapObject\<close> on a definition; \<open>map_entry\<close> is the body of its reduction on one property of the
  definition, \<open>map_items\<close> the loop over a list of the data. An argument \<open>subObj\<close> that is
  undefined is replaced by its default, the root.
\<close>

lemma size_pair: "size_prod (\<lambda>x. 0) size = (\<lambda>e. Suc (size (snd e)))"
  by (auto simp: fun_eq_iff)

function (sequential) mapObject :: "casts \<Rightarrow> jsval \<Rightarrow> jsval \<Rightarrow> jsval \<Rightarrow> jserr + obj"
  and map_entry :: "casts \<Rightarrow> jsval \<Rightarrow> jsval \<Rightarrow> obj \<Rightarrow> string \<Rightarrow> jsval \<Rightarrow> jserr + obj"
  and map_entries :: "casts \<Rightarrow> jsval \<Rightarrow> jsval \<Rightarrow> obj \<Rightarrow> (string \<times> jsval) list \<Rightarrow> jserr + obj"
  and map_indexed :: "casts \<Rightarrow> jsval \<Rightarrow> jsval \<Rightarrow> obj \<Rightarrow> nat \<Rightarrow> jsval list \<Rightarrow> jserr + obj"
  and map_items :: "casts \<Rightarrow> jsval \<Rightarrow> jsval list \<Rightarrow> jserr + jsval list" where
  "mapObject C root def sub0 =
     (let sub = js_default sub0 root in
      case def of
        JObj ps \<Rightarrow> map_entries C root sub [] ps
      | JArr ds \<Rightarrow> map_indexed C root sub [] 0 ds
      | JStr s \<Rightarrow> foldE (\<lambda>acc i. bindE (map_leaf C root sub (show_nat i) [s ! i]) (\<lambda>v. Inr (oset acc (show_nat i) v)))
                   [] [0..<length s]
      | JUndef \<Rightarrow> no_keys
      | JNull \<Rightarrow> no_keys
      | _ \<Rightarrow> Inr [])"
| "map_entry C root sub acc k d = (case d of
       JStr s \<Rightarrow> bindE (map_leaf C root sub k s) (\<lambda>v. Inr (oset acc k v))
     | JArr [src, innerDef] \<Rightarrow>
         (case (if src = JStr [] then root else resolvePath root src) of
            JArr items \<Rightarrow> bindE (map_items C innerDef items) (\<lambda>tempArr. Inr (oset acc k (JArr tempArr)))
          | _ \<Rightarrow> Inr acc)
     | JArr [innerDef] \<Rightarrow>
         bindE (mapObject C root innerDef root) (\<lambda>tempObj.
           Inr (if tempObj = [] then acc else oset acc k (JArr [JObj tempObj])))
     | JObj ps \<Rightarrow>
         bindE (js_get root k) (\<lambda>r. if r = JNull then Inr acc
         else bindE (js_get sub k) (\<lambda>subk. bindE (mapObject C root (JObj ps) subk) (\<lambda>tempObj.
           Inr (if list_ex (\<lambda>v. v \<noteq> JUndef) (map snd tempObj) then oset acc k (JObj tempObj) else acc))))
     | JNull \<Rightarrow>
         bindE (js_get root k) (\<lambda>r. if r = JNull then Inr acc else bindE (js_get sub k) (\<lambda>_. no_keys))
     | _ \<Rightarrow> Inr acc)"
| "map_entries C root sub acc [] = Inr acc"
| "map_entries C root sub acc (e # es) =
     bindE (map_entry C root sub acc (fst e) (snd e)) (\<lambda>acc'. map_entries C root sub acc' es)"
| "map_indexed C root sub acc n [] = Inr acc"
| "map_indexed C root sub acc n (d # ds) =
     bindE (map_entry C root sub acc (show_nat n) d) (\<lambda>acc'. map_indexed C root sub acc' (Suc n) ds)"
| "map_items C innerDef [] = Inr []"
| "map_items C innerDef (item # items) =
     bindE (mapObject C item innerDef JUndef) (\<lambda>t. bindE (map_items C innerDef items) (\<lambda>ts.
       Inr (if t = [] then ts else JObj t # ts)))"
  by pat_completeness auto
termination
  by (relation "measures [
    \<lambda>x. case x of
        Inl (Inl (C, root, def, sub)) \<Rightarrow> 2 * size def
      | Inl (Inr (C, root, sub, acc, k, d)) \<Rightarrow> 2 * size d + 1
      | Inr (Inl (C, root, sub, acc, es)) \<Rightarrow> 2 * size_list (\<lambda>e. size (snd e) + 1) es
      | Inr (Inr (Inl (C, root, sub, acc, n, ds))) \<Rightarrow> 2 * size_list size ds
      | Inr (Inr (Inr (C, innerDef, items))) \<Rightarrow> 2 * size innerDef,
    \<lambda>x. case x of Inr (Inr (Inr (C, innerDef, items))) \<Rightarrow> Suc (length items) | _ \<Rightarrow> 0]") (auto simp: size_pair)

declare mapObject.simps [simp del] map_entry.simps [simp del]

definition isObject_map :: "jsval \<Rightarrow> bool" where
  "isObject_map v = (case v of JObj _ \<Rightarrow> True | _ \<Rightarrow> False)"

text \<open>
  The reduction of \<open>mapArray\<close> looks at the first two items only; a second item that is an object
  is mapped under the name that the first entry of the result spells.
\<close>

definition map_first :: "casts \<Rightarrow> jsval \<Rightarrow> jsval \<Rightarrow> jserr + jsval" where
  "map_first C root item =
     (if isObject_map item then bindE (mapObject C root item JUndef) (\<lambda>t. Inr (JObj t)) else Inr item)"

definition mapArray :: "casts \<Rightarrow> jsval \<Rightarrow> jsval list \<Rightarrow> jserr + jsval list" where
  "mapArray C root definition = (case definition of
       [] \<Rightarrow> Inr []
     | item # rest \<Rightarrow> bindE (map_first C root item) (\<lambda>first.
         case rest of
           JObj ps # _ \<Rightarrow>
             bindE (mapObject C root (JObj [(js_string first, js_first (map snd ps))]) JUndef) (\<lambda>t. Inr [first, JObj t])
         | _ \<Rightarrow> Inr [first]))"

definition mapper :: "casts \<Rightarrow> jsval \<Rightarrow> jsval \<Rightarrow> jserr + jsval" where
  "mapper C data def = (case def of
       JStr s \<Rightarrow> Inr (if s = ''='' then data else JObj [])
     | JArr ds \<Rightarrow> bindE (mapArray C data ds) (\<lambda>vs. Inr (JArr vs))
     | JObj _ \<Rightarrow> bindE (mapObject C data def JUndef) (\<lambda>t. Inr (JObj t))
     | _ \<Rightarrow> Inr (JObj []))"

definition transformResponse :: "casts \<Rightarrow> jsval \<Rightarrow> jsval \<Rightarrow> jserr + jsval" where
  "transformResponse C methodDef data =
     (if \<not> truthy methodDef then Inr data
      else bindE (js_path methodDef [''source'', ''definition'']) (\<lambda>def.
        bindE (mapper C data def) (\<lambda>transformedData.
        bindE (js_prop methodDef ''envelope'') (\<lambda>envelope.
        Inr (JObj (spread (spread [] (js_spread envelope)) (js_spread transformedData)))))))"

subsection \<open>registerHttpApi.js and registerRpcApi.js\<close>

definition getMethodName :: "jsval \<Rightarrow> jserr + string" where
  "getMethodName method = bindE (js_prop method ''httpMethod'') (\<lambda>m. Inr (if truthy m then js_string m else ''GET''))"

text \<open>Whether a method of the API files is an end point: \<open>pathKey\<close> is the property that names its path.\<close>

definition is_endpoint :: "string \<Rightarrow> jsval \<Rightarrow> jserr + bool" where
  "is_endpoint pathKey method =
     bindE (js_prop method ''version'') (\<lambda>v.
     if v \<noteq> JStr ''2.0'' then Inr False
     else bindE (js_prop method ''source'') (\<lambda>src.
       if \<not> truthy src then Inr False
       else bindE (js_prop src ''method'') (\<lambda>m.
         if \<not> truthy m then Inr False
         else bindE (js_prop method pathKey) (\<lambda>p. Inr (truthy p)))))"

definition http_alias :: "jsval \<Rightarrow> jserr + string" where
  "http_alias method =
     bindE (getMethodName method) (\<lambda>m. bindE (js_prop method ''swaggerApiPath'') (\<lambda>p.
     bindE (as_str p) (\<lambda>s. Inr (m @ '' '' @ transformPath s))))"

definition rpc_alias :: "jsval \<Rightarrow> jserr + string" where
  "rpc_alias method = bindE (js_prop method ''rpcMethod'') (\<lambda>p. bindE (as_str p) (\<lambda>s. Inr (transformPath s)))"

text \<open>The table of the methods by their alias; a later method with the same alias wins.\<close>

definition method_paths :: "string \<Rightarrow> (jsval \<Rightarrow> jserr + string) \<Rightarrow> obj \<Rightarrow> jserr + obj" where
  "method_paths pathKey alias allMethods =
     bindE (filterE (\<lambda>(k, m). is_endpoint pathKey m) allMethods) (\<lambda>methods.
     foldE (\<lambda>acc (k, m). bindE (alias m) (\<lambda>a. Inr (oset acc a m))) [] methods)"

definition method_aliases :: "string \<Rightarrow> (jsval \<Rightarrow> jserr + string) \<Rightarrow> obj \<Rightarrow> jserr + obj" where
  "method_aliases pathKey alias allMethods =
     bindE (filterE (\<lambda>(k, m). is_endpoint pathKey m) allMethods) (\<lambda>methods.
     foldE (\<lambda>acc (k, m). bindE (alias m) (\<lambda>a. bindE (js_path m [''source'', ''method'']) (\<lambda>t. Inr (oset acc a t)))) [] methods)"

definition whitelist_of :: "string \<Rightarrow> obj \<Rightarrow> jserr + jsval list" where
  "whitelist_of pathKey allMethods =
     bindE (filterE (\<lambda>(k, m). is_endpoint pathKey m) allMethods) (\<lambda>methods.
     mapE (\<lambda>(k, m). js_path m [''source'', ''method'']) methods)"

text \<open>
  The hook before an HTTP call: the parameters for the action, or the error, with the response
  (status code and message) that has been sent then.
\<close>

type_synonym http_reply = "(int \<times> string) option"

definition reject :: "string \<Rightarrow> http_reply \<times> (jserr + 'a)" where
  "reject message = (Some (400, message), Inl (ValidationErr ''Request param validation error.''))"

definition http_onBeforeCall ::
    "(obj \<Rightarrow> obj \<Rightarrow> jsval list) \<Rightarrow> obj \<Rightarrow> string \<Rightarrow> jsval \<Rightarrow> http_reply \<times> (jserr + obj)" where
  "http_onBeforeCall check methodPaths routeAlias params =
     (case validateInputParams check params (oget methodPaths routeAlias) of
        Inl e \<Rightarrow> (None, Inl e)
      | Inr report \<Rightarrow>
          if r_missing report \<noteq> [] then reject (''Missing parameter(s): '' @ join ''; '' (r_missing report))
          else if r_unknown report \<noteq> [] then reject (''Unknown input parameter(s): '' @ join ''; '' (keys_of (r_unknown report)))
          else if r_required report \<noteq> []
          then reject (''Require one of the following parameter combination(s): '' @ join ''; '' (map js_string (r_required report)))
          else case r_invalid report of
              None \<Rightarrow> (None, Inl (TypeErr ''Cannot read properties of undefined (reading 'length')''))
            | Some invalid \<Rightarrow>
                if invalid \<noteq> [] then
                  (case mapE (\<lambda>c. js_prop c ''message'') invalid of
                     Inl e \<Rightarrow> (None, Inl e)
                   | Inr ms \<Rightarrow> reject (''Invalid input: '' @ join ''; '' (map js_string ms)))
                else (None, Inr (transformRequest (oget methodPaths routeAlias) (dropEmptyProps (r_valid report)))))"

text \<open>The hook before a call over the socket: errors carry the code of JSON-RPC.\<close>

datatype rpc_error = RpcError int string | RpcThrown jserr

definition rpc_onBeforeCall ::
    "(obj \<Rightarrow> obj \<Rightarrow> jsval list) \<Rightarrow> obj \<Rightarrow> string \<Rightarrow> jsval \<Rightarrow> rpc_error + obj" where
  "rpc_onBeforeCall check methodPaths method params =
     (case validateInputParams check params (oget methodPaths method) of
        Inl e \<Rightarrow> Inl (RpcThrown e)
      | Inr report \<Rightarrow>
          if r_missing report \<noteq> [] then Inl (RpcError (-32602) (''Missing parameter(s): '' @ join '', '' (r_missing report)))
          else if r_unknown report \<noteq> []
          then Inl (RpcError (-32602) (''Unknown input parameter(s): '' @ join '', '' (keys_of (r_unknown report))))
          else if r_required report \<noteq> []
          then Inl (RpcError (-32600) (''Require one of the following parameter combination(s): '' @ join '', '' (map js_string (r_required report))))
          else case r_invalid report of
              None \<Rightarrow> Inl (RpcThrown (TypeErr ''Cannot read properties of undefined (reading 'length')''))
            | Some invalid \<Rightarrow>
                if invalid \<noteq> [] then
                  (case mapE (\<lambda>c. js_prop c ''message'') invalid of
                     Inl e \<Rightarrow> Inl (RpcThrown e)
                   | Inr ms \<Rightarrow> Inl (RpcError (-32602) (''Invalid input parameter values: '' @ join '', '' (map js_string ms))))
                else Inr (transformRequest (oget methodPaths method) (r_valid report)))"

text \<open>
  The hook after an HTTP call. \<open>enableHttpCacheControl\<close> and the directives are configuration,
  \<open>codes\<close> the table of HTTP status codes by name.
\<close>

record call_meta =
  responseHeaders :: jsval
  statusCode :: jsval

datatype http_result = CsvFile string jsval | Body jsval

definition csv_name :: "jsval \<Rightarrow> jserr + string option" where
  "csv_name data =
     bindE (js_prop data ''data'') (\<lambda>d. if \<not> truthy d then Inr None
     else bindE (js_prop data ''meta'') (\<lambda>m. if \<not> truthy m then Inr None
     else bindE (js_prop m ''filename'') (\<lambda>f. if \<not> truthy f then Inr None
     else bindE (as_str f) (\<lambda>s. Inr (if ends_with ''.csv'' s then Some s else None)))))"

definition error_message :: "jsval \<Rightarrow> jsval \<Rightarrow> jserr + jsval" where
  "error_message data status =
     bindE (js_prop data ''data'') (\<lambda>d.
     let dflt = JStr (''The request ended up with '' @ js_string status @ '' error'') in
     if js_typeof d = ''object''
     then bindE (js_prop d ''error'') (\<lambda>e. Inr (if js_typeof e = ''string'' then e else dflt))
     else Inr dflt)"

definition http_onAfterCall ::
    "casts \<Rightarrow> bool \<Rightarrow> jsval \<Rightarrow> obj \<Rightarrow> obj \<Rightarrow> string \<Rightarrow> jsval \<Rightarrow> (call_meta, http_result) action" where
  "http_onAfterCall C enableHttpCacheControl directives codes methodPaths apiPath data =
     thn (modA (\<lambda>m. if enableHttpCacheControl
            then m\<lparr>responseHeaders := JObj [(''Cache-Control'', directives)]\<rparr> else m))
     (bnd (liftE (csv_name data)) (\<lambda>csv.
      case csv of
        Some name \<Rightarrow> bnd (liftE (js_prop data ''data'')) (\<lambda>d. ret (CsvFile name d))
      | None \<Rightarrow>
          bnd (liftE (js_prop data ''data'')) (\<lambda>d. bnd (liftE (js_prop data ''status'')) (\<lambda>status.
          if truthy d \<and> truthy status then
            thn (modA (\<lambda>m. if status = JStr ''SERVICE_UNAVAILABLE''
                   then m\<lparr>responseHeaders := JObj [(''Retry-After'', JNum 30)]\<rparr> else m))
            (let status' = (if status = JStr ''INVALID_PARAMS'' then JStr ''BAD_REQUEST'' else status) in
             bnd (liftE (js_setprop data ''status'' status')) (\<lambda>data'.
             thn (modA (\<lambda>m. m\<lparr>statusCode := js_or (oget codes (js_string status')) status'\<rparr>))
             (if status' \<noteq> JStr ''ACCEPTED''
              then bnd (liftE (error_message data' status')) (\<lambda>msg.
                   ret (Body (JObj [(''error'', JBool True), (''message'', msg)])))
              else bnd (liftE (transformResponse C (oget methodPaths apiPath) data')) (\<lambda>r. ret (Body r)))))
          else bnd (liftE (transformResponse C (oget methodPaths apiPath) data)) (\<lambda>r. ret (Body r))))))"

definition rpc_onAfterCall :: "casts \<Rightarrow> obj \<Rightarrow> string \<Rightarrow> jsval \<Rightarrow> rpc_error + jsval" where
  "rpc_onAfterCall C methodPaths method data =
     (case bindE (js_prop data ''data'') (\<lambda>d. bindE (js_prop data ''status'') (\<lambda>s. Inr (d, s))) of
        Inl e \<Rightarrow> Inl (RpcThrown e)
      | Inr (d, status) \<Rightarrow>
          let code = (if truthy d \<and> status = JStr ''INVALID_PARAMS'' then Some (-32602)
                      else if truthy d \<and> status = JStr ''SERVICE_UNAVAILABLE'' then Some (-32002) else None) in
          case code of
            Some n \<Rightarrow> (case js_prop d ''error'' of Inl e \<Rightarrow> Inl (RpcThrown e) | Inr m \<Rightarrow> Inl (RpcError n (js_string m)))
          | None \<Rightarrow> (case transformResponse C (oget methodPaths method) data of
                Inl e \<Rightarrow> Inl (RpcThrown e) | Inr r \<Rightarrow> Inr r))"

end
