(* ===== verification/GatewayProps.thy ===== *)
theory GatewayProps
  imports Gateway
begin

text \<open>
  What the gateway guarantees of the requests it lets through and of the responses it sends.
\<close>

subsection \<open>Reductions\<close>

lemma filterE_Inr: "filterE p xs = Inr ys \<Longrightarrow> ys = filter (\<lambda>x. p x = Inr True) xs"
  by (induction xs arbitrary: ys) (auto simp: act_ok split: if_splits)

lemma someE_Inr: "someE p xs = Inr b \<Longrightarrow> b \<longleftrightarrow> (\<exists>x \<in> set xs. p x = Inr True)"
  by (induction xs arbitrary: b) (auto simp: act_ok split: if_splits)

lemma ohas_foldl_oset [simp]:
  "ohas (foldl (\<lambda>acc k. oset acc k (f k)) acc ks) k' \<longleftrightarrow> ohas acc k' \<or> k' \<in> set ks"
  by (induction ks arbitrary: acc) auto

lemma oset_append: "\<not> ohas acc k \<Longrightarrow> oset acc k v = acc @ [(k, v)]"
  by (induction acc) (auto simp: oset_def ohas_def)

lemma ohas_append [simp]: "ohas (a @ b) k \<longleftrightarrow> ohas a k \<or> ohas b k"
  by (auto simp: ohas_def)

lemma foldl_oset_distinct:
  assumes "distinct ks" "\<forall>k \<in> set ks. \<not> ohas acc k"
  shows "foldl (\<lambda>acc k. oset acc k (f k)) acc ks = acc @ map (\<lambda>k. (k, f k)) ks"
  using assms
proof (induction ks arbitrary: acc)
  case (Cons k ks)
  then have "\<forall>k' \<in> set ks. \<not> ohas (acc @ [(k, f k)]) k'" by auto
  with Cons show ?case by (simp add: oset_append)
qed simp

text \<open>A fold that adds at most the property of its item keeps to the properties it goes over.\<close>

lemma foldE_keys:
  assumes "foldE f acc xs = Inr r"
    and "\<And>acc x acc'. f acc x = Inr acc' \<Longrightarrow> x \<in> set xs \<Longrightarrow> ohas acc' k \<Longrightarrow> ohas acc k \<or> k = key x"
    and "ohas r k"
  shows "ohas acc k \<or> k \<in> key ` set xs"
  using assms
proof (induction xs arbitrary: acc)
  case (Cons x xs)
  then obtain acc' where "f acc x = Inr acc'" "foldE f acc' xs = Inr r" by (auto simp: act_ok)
  with Cons show ?case by fastforce
qed simp

lemma oget_member: "wf_obj ob \<Longrightarrow> (k, v) \<in> set ob \<Longrightarrow> oget ob k = v"
  by (simp add: wf_obj_def oget_def)

lemma entries_filtered:
  assumes "wf_obj ob"
  shows "map (\<lambda>k. (k, oget ob k)) (filter (\<lambda>k. Q (oget ob k)) (keys_of ob)) = filter (\<lambda>(k, v). Q v) ob"
proof -
  have "filter (\<lambda>e. Q (oget ob (fst e))) ob = filter (\<lambda>(k, v). Q v) ob"
    by (rule filter_cong) (auto simp: oget_member [OF assms])
  moreover have "map (\<lambda>e. (fst e, oget ob (fst e))) es = es" if "set es \<subseteq> set ob" for es
    using that by (auto simp: oget_member [OF assms] intro!: map_idI)
  ultimately show ?thesis by (simp add: filter_map comp_def)
qed

subsection \<open>Parameters\<close>

text \<open>
  The comparison of a parameter with its default has no effect: the valid parameters are
  those of the parsed request that are defined. A value that is not a number is not
  replaced by the default.
\<close>

lemma valid_params_defined:
  assumes "wf_obj swaggerParams"
  shows "valid_params swaggerParams = filter (\<lambda>(k, v). v \<noteq> JUndef) swaggerParams"
proof -
  have u: "js_typeof v \<noteq> ''undefined'' \<longleftrightarrow> v \<noteq> JUndef" for v by (cases v) auto
  let ?ks = "filter (\<lambda>k. oget swaggerParams k \<noteq> JUndef) (keys_of swaggerParams)"
  have "distinct ?ks" using assms by (simp add: wf_obj_def)
  then have "valid_params swaggerParams = map (\<lambda>k. (k, oget swaggerParams k)) ?ks"
    using foldl_oset_distinct [of ?ks "[]" "oget swaggerParams"] by (simp add: valid_params_def u)
  then show ?thesis by (simp add: entries_filtered [OF assms, of "\<lambda>v. v \<noteq> JUndef"])
qed

lemma parse_param_keys:
  "parse_param q acc e = Inr acc' \<Longrightarrow> ohas acc' k \<Longrightarrow> ohas acc k \<or> k = fst e"
  by (auto simp: parse_param_def act_ok Let_def split: prod.splits if_splits)

lemma parseAllParams_keys: "parseAllParams sp q = Inr r \<Longrightarrow> ohas r k \<Longrightarrow> ohas sp k"
  unfolding parseAllParams_def
  using foldE_keys [of "parse_param q" "[]" sp r k fst] parse_param_keys by (auto simp: ohas_def)

lemma unknown_none:
  "invalid_params sw inp = [] \<Longrightarrow> ohas inp k \<Longrightarrow> ohas sw k"
  using ohas_foldl_oset [of "oget inp" "[]" "filter (\<lambda>k. k \<notin> set (keys_of sw)) (keys_of (spread sw inp))" k]
    ohas_spread [of sw inp k]
  by (auto simp: invalid_params_def ohas_def)

lemma checkMissing_none:
  assumes "checkMissingParams sp q = Inr []" "(k, v) \<in> set sp" "js_prop v ''required'' = Inr (JBool True)"
  shows "ohas q k"
proof -
  obtain req where r: "filterE (\<lambda>(k, v). bindE (js_prop v ''required'') (\<lambda>r. Inr (r = JBool True))) sp = Inr req"
    and d: "arrDiff (keys_of q) (keys_of req) = []" using assms(1) by (auto simp: checkMissingParams_def act_ok)
  have "(k, v) \<in> set req" using assms(2,3) by (auto simp: filterE_Inr [OF r])
  then show ?thesis using d by (force simp: arrDiff_def filter_empty_conv ohas_def)
qed

lemma http_admits_report:
  assumes "http_onBeforeCall check methodPaths routeAlias params = (reply, Inr out)"
  obtains report where "validateInputParams check params (oget methodPaths routeAlias) = Inr report"
    "reply = None" "r_missing report = []" "r_unknown report = []" "r_required report = []" "r_invalid report = Some []"
    "out = transformRequest (oget methodPaths routeAlias) (dropEmptyProps (r_valid report))"
  using assms by (auto simp: http_onBeforeCall_def reject_def split: sum.splits if_splits option.splits)

text \<open>
  C35. A request over HTTP is passed on only when every parameter is one of the route, every
  parameter the route requires is there, and the validator has nothing to say; no reply has
  been sent then.
\<close>

theorem http_admitted:
  assumes "http_onBeforeCall check methodPaths routeAlias (JObj input) = (reply, Inr out)"
    and "js_prop (oget methodPaths routeAlias) ''params'' = Inr (JObj sp)"
  shows "reply = None \<and> (\<forall>k. ohas input k \<longrightarrow> ohas sp k) \<and>
    (\<forall>(k, v) \<in> set sp. js_prop v ''required'' = Inr (JBool True) \<longrightarrow> ohas input k) \<and>
    (\<exists>loose. looseSpecParams sp = Inr loose \<and> check (dropEmptyProps input) loose = [])"
proof -
  obtain report where v: "validateInputParams check (JObj input) (oget methodPaths routeAlias) = Inr report"
    and r: "reply = None" "r_missing report = []" "r_unknown report = []" "r_required report = []" "r_invalid report = Some []"
    using http_admits_report [OF assms(1)] by metis
  obtain sw d loose where sw: "parseAllParams sp input = Inr sw" and u: "invalid_params sw (spread d input) = []"
    and m: "checkMissingParams sp input = Inr []"
    and l: "looseSpecParams sp = Inr loose" "check (dropEmptyProps input) loose = []"
    using v r(2-) assms(2)
    by (auto simp: validateInputParams_def act_ok Let_def parseParams_def js_default_def js_or_def own_props_def split: if_splits)
  have "\<forall>k. ohas input k \<longrightarrow> ohas sp k" using unknown_none [OF u] parseAllParams_keys [OF sw] by simp
  with r(1) checkMissing_none [OF m] l show ?thesis by auto
qed

abbreviation blocks_route :: jsval where
  "blocks_route \<equiv> JObj [(''params'', JObj [(''height'', JObj [(''required'', JBool True), (''type'', JStr ''number'')])]),
     (''source'', JObj [(''params'', JObj [(''height'', JStr ''='')])])]"

theorem http_admitted_witness:
  "http_onBeforeCall (\<lambda>_ _. []) [(''GET blocks'', blocks_route)] ''GET blocks'' (JObj [(''height'', JStr ''5'')]) =
     (None, Inr [(''height'', JNum 5)]) \<and>
   (\<exists>loose. looseSpecParams [(''height'', JObj [(''required'', JBool True), (''type'', JStr ''number'')])] = Inr loose)"
proof -
  have *: "http_onBeforeCall (\<lambda>_ _. []) [(''GET blocks'', blocks_route)] ''GET blocks'' (JObj [(''height'', JStr ''5'')]) =
     (None, Inr [(''height'', JNum 5)])" by code_simp
  have "js_prop (oget [(''GET blocks'', blocks_route)] ''GET blocks'') ''params'' =
     Inr (JObj [(''height'', JObj [(''required'', JBool True), (''type'', JStr ''number'')])])" by code_simp
  from http_admitted [OF * this] * show ?thesis by blast
qed

text \<open>
  C37. The two protocols admit the same requests: where a route and a method name have the same
  description, a request passes the hook of the socket iff it passes the hook of HTTP.
\<close>

theorem same_admission:
  assumes "oget httpPaths routeAlias = oget rpcPaths method"
  shows "(\<exists>out. http_onBeforeCall check httpPaths routeAlias params = (None, Inr out)) \<longleftrightarrow>
         (\<exists>out. rpc_onBeforeCall check rpcPaths method params = Inr out)"
  using assms by (auto simp: http_onBeforeCall_def rpc_onBeforeCall_def reject_def split: sum.splits option.splits if_splits)

theorem same_admission_witness:
  "\<exists>out. rpc_onBeforeCall (\<lambda>_ _. []) [(''get.blocks'', blocks_route)] ''get.blocks'' (JObj [(''height'', JStr ''5'')]) = Inr out"
proof -
  have "http_onBeforeCall (\<lambda>_ _. []) [(''GET blocks'', blocks_route)] ''GET blocks'' (JObj [(''height'', JStr ''5'')]) =
     (None, Inr [(''height'', JNum 5)])" by code_simp
  moreover have "oget [(''GET blocks'', blocks_route)] ''GET blocks'' = oget [(''get.blocks'', blocks_route)] ''get.blocks''"
    by code_simp
  ultimately show ?thesis using same_admission by blast
qed

text \<open>
  A route that demands parameters is satisfied iff it lists no combinations or the request
  has all the names of one that is not empty; otherwise all combinations are reported.
\<close>

lemma pairings_satisfied:
  "validateFromParamPairings (JBool True) ks (map (\<lambda>p. JArr (map JStr p)) pairings) =
   Inr (if \<exists>p \<in> set pairings. p \<noteq> [] \<and> set p \<subseteq> set ks then [] else map (\<lambda>p. JArr (map JStr p)) pairings)"
proof -
  have inc: "arr_includes (JArr (map JStr p)) k = Inr (k \<in> set p)" for p k
    by (auto simp: arr_includes_def js_includes_def)
  have some: "someE (arr_includes (JArr (map JStr p))) xs = Inr (\<exists>k \<in> set xs. k \<in> set p)" for p xs
    by (induction xs) (auto simp: inc)
  have pairs: "filterE (\<lambda>pairing. someE (arr_includes pairing) ks) (map (\<lambda>p. JArr (map JStr p)) ps) =
      Inr (map (\<lambda>p. JArr (map JStr p)) (filter (\<lambda>p. \<exists>k \<in> set ks. k \<in> set p) ps))" for ps
    by (induction ps) (auto simp: some)
  have every: "someE (\<lambda>pairing. bindE (js_elems pairing) (\<lambda>xs. Inr (\<forall>x \<in> set xs. x \<in> JStr ` set ks)))
      (map (\<lambda>p. JArr (map JStr p)) ps) = Inr (\<exists>p \<in> set ps. set p \<subseteq> set ks)" for ps
    by (induction ps) auto
  have "p \<noteq> [] \<and> set p \<subseteq> set ks \<longleftrightarrow> (\<exists>k \<in> set ks. k \<in> set p) \<and> set p \<subseteq> set ks" for p :: "string list"
    by (cases p) auto
  then show ?thesis by (auto simp: validateFromParamPairings_def pairs every filter_empty_conv)
qed

subsection \<open>Responses\<close>

text \<open>
  What it means for a value to follow a definition: an object has only properties that the
  definition describes, each following its part of it.
\<close>

inductive follows :: "jsval \<Rightarrow> jsval \<Rightarrow> bool" where
  follows_text: "follows (JStr s) v"
| follows_obj: "(\<forall>(k, v) \<in> set r. \<exists>d. (k, d) \<in> set ps \<and> follows d v) \<Longrightarrow> follows (JObj ps) (JObj r)"
| follows_list: "(\<forall>v \<in> set vs. follows inner v) \<Longrightarrow> follows (JArr [src, inner]) (JArr vs)"
| follows_single: "follows inner v \<Longrightarrow> follows (JArr [inner]) (JArr [v])"
| follows_indices: "(\<forall>(k, v) \<in> set r. \<exists>n < length ds. k = show_nat n \<and> follows (ds ! n) v) \<Longrightarrow> follows (JArr ds) (JObj r)"
| follows_none: "follows d (JObj [])"

lemma set_oset: "e \<in> set (oset acc k v) \<Longrightarrow> e = (k, v) \<or> e \<in> set acc"
  by (induction acc) (auto simp: oset_def split: if_splits)

lemma map_entry_follows:
  assumes m: "map_entry C root sub acc k d = Inr acc'" and e: "e \<in> set acc'"
    and object: "\<And>ps s r. d = JObj ps \<Longrightarrow> mapObject C root (JObj ps) s = Inr r \<Longrightarrow> follows (JObj ps) (JObj r)"
    and single: "\<And>i r. d = JArr [i] \<Longrightarrow> mapObject C root i root = Inr r \<Longrightarrow> follows i (JObj r)"
    and items: "\<And>a i xs vs. d = JArr [a, i] \<Longrightarrow> (if a = JStr [] then root else resolvePath root a) = JArr xs \<Longrightarrow>
      map_items C i xs = Inr vs \<Longrightarrow> \<forall>v \<in> set vs. follows i v"
  shows "e \<in> set acc \<or> (fst e = k \<and> follows d (snd e))"
proof -
  have items1: "d = JArr [JStr [], i] \<Longrightarrow> root = JArr xs \<Longrightarrow> map_items C i xs = Inr vs \<Longrightarrow> \<forall>v \<in> set vs. follows i v"
    and items2: "d = JArr [a, i] \<Longrightarrow> a \<noteq> JStr [] \<Longrightarrow> resolvePath root a = JArr xs \<Longrightarrow> map_items C i xs = Inr vs \<Longrightarrow>
      \<forall>v \<in> set vs. follows i v" for a i xs vs
    using items by simp_all
  have "acc' = acc \<or> (\<exists>v. acc' = oset acc k v \<and> follows d v)"
    using m by (auto simp: map_entry.simps act_ok no_keys_def
        intro: follows_text object follows_single [OF single] follows_list [OF items1] follows_list [OF items2]
        split: jsval.splits list.splits if_splits)
  then show ?thesis using e by (auto dest: set_oset)
qed

lemma mapObject_follows:
  "mapObject C root def sub = Inr r \<Longrightarrow> follows def (JObj r)"
  "map_entry C root sub acc k d = Inr acc' \<Longrightarrow> e \<in> set acc' \<Longrightarrow> e \<in> set acc \<or> (fst e = k \<and> follows d (snd e))"
  "map_entries C root sub acc ps = Inr acc' \<Longrightarrow> e \<in> set acc' \<Longrightarrow>
     e \<in> set acc \<or> (\<exists>d. (fst e, d) \<in> set ps \<and> follows d (snd e))"
  "map_indexed C root sub acc n ds = Inr acc' \<Longrightarrow> e \<in> set acc' \<Longrightarrow>
     e \<in> set acc \<or> (\<exists>i < length ds. fst e = show_nat (n + i) \<and> follows (ds ! i) (snd e))"
  "map_items C innerDef items = Inr vs \<Longrightarrow> \<forall>v \<in> set vs. follows innerDef v"
proof (induction C root def sub and C root sub acc k d and C root sub acc ps and C root sub acc n ds and C innerDef items
    arbitrary: r and acc' e and acc' e and acc' e and vs
    rule: mapObject_map_entry_map_entries_map_indexed_map_items.induct)
  case (1 C root def sub0)
  then show ?case
  proof (cases def)
    case (JObj ps)
    with 1 have "e \<in> set r \<Longrightarrow> \<exists>d. (fst e, d) \<in> set ps \<and> follows d (snd e)" for e
      by (fastforce simp: mapObject.simps Let_def)
    then show ?thesis using JObj by (force intro: follows_obj)
  next
    case (JArr ds)
    with 1 have "e \<in> set r \<Longrightarrow> \<exists>i < length ds. fst e = show_nat i \<and> follows (ds ! i) (snd e)" for e
      by (fastforce simp: mapObject.simps Let_def)
    then show ?thesis using JArr by (force intro: follows_indices)
  qed (auto simp: mapObject.simps no_keys_def intro: follows.intros)
next
  case (2 C root sub acc k d)
  show ?case
  proof (rule map_entry_follows [OF "2.prems"])
    fix ps s r
    assume "d = JObj ps" "mapObject C root (JObj ps) s = Inr r"
    then show "follows (JObj ps) (JObj r)" using "2.IH"(3) [of ps JUndef] by simp
  qed (use "2.IH"(1,2) in simp_all)
next
  case (3 C root sub acc)
  then show ?case by simp
next
  case (4 C root sub acc p es)
  then obtain acc1 where m: "map_entry C root sub acc (fst p) (snd p) = Inr acc1" "map_entries C root sub acc1 es = Inr acc'"
    by (auto simp: act_ok)
  have "e \<in> set acc1 \<or> (\<exists>d. (fst e, d) \<in> set es \<and> follows d (snd e))" using "4.IH"(2) [OF m(2) "4.prems"(2)] .
  then show ?case using "4.IH"(1) [OF m(1), of e] by (metis list.set_intros prod.collapse)
next
  case (5 C root sub acc n)
  then show ?case by simp
next
  case (6 C root sub acc n d ds)
  then obtain acc1 where m: "map_entry C root sub acc (show_nat n) d = Inr acc1" "map_indexed C root sub acc1 (Suc n) ds = Inr acc'"
    by (auto simp: act_ok)
  have "e \<in> set acc1 \<or> (\<exists>i < length ds. fst e = show_nat (Suc n + i) \<and> follows (ds ! i) (snd e))"
    using "6.IH"(2) [OF m(2) "6.prems"(2)] .
  then show ?case using "6.IH"(1) [OF m(1), of e] by (force simp: nth_Cons')
next
  case (7 C innerDef)
  then show ?case by simp
next
  case (8 C innerDef item items)
  then show ?case by (auto simp: act_ok split: if_splits)
qed

text \<open>
  C36. The mapper follows the definition: a response has only the fields that the definition
  describes, at every level of objects and lists.
\<close>

theorem mapper_follows:
  assumes "mapper C data (JObj ps) = Inr r"
  shows "follows (JObj ps) r"
  using assms mapObject_follows(1) [of C data "JObj ps" JUndef] by (auto simp: mapper_def act_ok)

theorem mapper_follows_witness:
  "follows (JObj [(''height'', JStr ''=,number'')]) (JObj [(''height'', JNum 5)])"
proof (rule mapper_follows)
  show "mapper (\<lambda>_. None) (JObj [(''height'', JStr ''5''), (''id'', JStr ''a'')]) (JObj [(''height'', JStr ''=,number'')]) =
    Inr (JObj [(''height'', JNum 5)])" by code_simp
qed

end
