(* ===== verification/JsSort.thy ===== *)
theory JsSort
  imports Sorting
begin

text \<open>
  \<open>Array.prototype.sort\<close> with a comparator that returns a number and may throw. The engine
  keeps a sorted prefix and moves the next element left past those it is less than; elements
  that the comparator calls equal keep their order. A consistent comparator leaves no other
  result; \<open>NaN\<close> counts as 0.
\<close>

fun js_insert :: "('a \<Rightarrow> 'a \<Rightarrow> jserr + int) \<Rightarrow> 'a \<Rightarrow> 'a list \<Rightarrow> jserr + 'a list" where
  "js_insert cmp x [] = Inr [x]"
| "js_insert cmp x (y # ys) =
     bindE (cmp x y) (\<lambda>order. if order < 0 then bindE (js_insert cmp x ys) (\<lambda>zs. Inr (y # zs)) else Inr (x # y # ys))"

definition js_sort :: "('a \<Rightarrow> 'a \<Rightarrow> jserr + int) \<Rightarrow> 'a list \<Rightarrow> jserr + 'a list" where
  "js_sort cmp xs = bindE (foldE (\<lambda>acc x. js_insert cmp x acc) [] xs) (\<lambda>ys. Inr (rev ys))"

lemma js_insert_mset: "js_insert cmp x ys = Inr zs \<Longrightarrow> mset zs = add_mset x (mset ys)"
  by (induction ys arbitrary: zs) (auto simp: act_ok split: if_splits)

lemma js_sort_mset:
  assumes "js_sort cmp xs = Inr ys"
  shows "mset ys = mset xs"
proof -
  have "foldE (\<lambda>acc x. js_insert cmp x acc) acc xs = Inr zs \<Longrightarrow> mset zs = mset acc + mset xs" for acc zs
    by (induction xs arbitrary: acc) (auto simp: act_ok js_insert_mset)
  from this [of "[]"] assms show ?thesis by (auto simp: js_sort_def act_ok)
qed

lemma js_sort_set: "js_sort cmp xs = Inr ys \<Longrightarrow> set ys = set xs"
  by (metis js_sort_mset set_mset_mset)

lemma js_sort_length: "js_sort cmp xs = Inr ys \<Longrightarrow> length ys = length xs"
  by (metis js_sort_mset size_mset)

text \<open>A comparator that never returns a negative number leaves the array as it is.\<close>

lemma js_sort_idle:
  assumes "\<And>x y. x \<in> set xs \<Longrightarrow> y \<in> set xs \<Longrightarrow> \<exists>n \<ge> 0. cmp x y = Inr n"
  shows "js_sort cmp xs = Inr xs"
proof -
  have ins: "js_insert cmp x ys = Inr (x # ys)" if "x \<in> set xs" "set ys \<subseteq> set xs" for x ys
    using assms that by (cases ys) force+
  have "foldE (\<lambda>acc x. js_insert cmp x acc) acc zs = Inr (rev zs @ acc)" if "set acc \<union> set zs \<subseteq> set xs" for acc zs
    using that by (induction zs arbitrary: acc) (auto simp: ins)
  from this [of "[]" xs] show ?thesis by (simp add: js_sort_def)
qed

text \<open>
  What a consistent comparator promises: it does not throw on the elements of a set, and the
  sign of its result is an order on them.
\<close>

locale js_comparator =
  fixes cmp :: "'a \<Rightarrow> 'a \<Rightarrow> jserr + int" and sign :: "'a \<Rightarrow> 'a \<Rightarrow> int" and A :: "'a set"
  assumes returns: "a \<in> A \<Longrightarrow> b \<in> A \<Longrightarrow> cmp a b = Inr (sign a b)"
    and sign_asym: "a \<in> A \<Longrightarrow> b \<in> A \<Longrightarrow> sign a b < 0 \<Longrightarrow> sign b a \<ge> 0"
    and sign_trans: "a \<in> A \<Longrightarrow> b \<in> A \<Longrightarrow> c \<in> A \<Longrightarrow> sign b a \<ge> 0 \<Longrightarrow> sign c b \<ge> 0 \<Longrightarrow> sign c a \<ge> 0"
begin

lemma insert_sorted:
  assumes "x \<in> A" "set ys \<subseteq> A" "sorted_wrt (\<lambda>a b. sign a b \<ge> 0) ys"
  shows "\<exists>zs. js_insert cmp x ys = Inr zs \<and> sorted_wrt (\<lambda>a b. sign a b \<ge> 0) zs \<and> set zs = insert x (set ys)"
  using assms
proof (induction ys)
  case (Cons y ys)
  show ?case
  proof (cases "sign x y < 0")
    case True
    obtain zs where zs: "js_insert cmp x ys = Inr zs" "sorted_wrt (\<lambda>a b. sign a b \<ge> 0) zs" "set zs = insert x (set ys)"
      using Cons by auto
    have "sign y x \<ge> 0" using sign_asym [of x y] Cons.prems True by simp
    with zs True Cons.prems show ?thesis by (auto simp: returns)
  next
    case False
    have "sign x z \<ge> 0" if "z \<in> set ys" for z
      using sign_trans [of z y x] False Cons.prems that by auto
    with False Cons.prems show ?thesis by (auto simp: returns)
  qed
qed simp

lemma sort_sorted:
  assumes "set xs \<subseteq> A"
  shows "\<exists>ys. js_sort cmp xs = Inr ys \<and> mset ys = mset xs \<and> sorted_wrt (\<lambda>a b. sign b a \<ge> 0) ys"
proof -
  have "\<exists>zs. foldE (\<lambda>acc x. js_insert cmp x acc) acc xs = Inr zs \<and> sorted_wrt (\<lambda>a b. sign a b \<ge> 0) zs"
    if "set acc \<subseteq> A" "sorted_wrt (\<lambda>a b. sign a b \<ge> 0) acc" for acc
    using assms that
  proof (induction xs arbitrary: acc)
    case (Cons x xs)
    obtain zs where "js_insert cmp x acc = Inr zs" "sorted_wrt (\<lambda>a b. sign a b \<ge> 0) zs" "set zs = insert x (set acc)"
      using insert_sorted [of x acc] Cons.prems by auto
    with Cons show ?case by simp
  qed simp
  from this [of "[]"] obtain zs where "foldE (\<lambda>acc x. js_insert cmp x acc) [] xs = Inr zs"
    "sorted_wrt (\<lambda>a b. sign a b \<ge> 0) zs" by auto
  then have "js_sort cmp xs = Inr (rev zs)" "sorted_wrt (\<lambda>a b. sign b a \<ge> 0) (rev zs)"
    by (simp_all add: js_sort_def sorted_wrt_rev)
  then show ?thesis using js_sort_mset by blast
qed

end

end
