(* ===== verification/PosData.thy ===== *)
theory PosData
  imports BlockData JsSort
begin

text \<open>
  The queries over validators, stakes, unlocks and rewards: \<open>getPosValidators\<close> and the listener of
  \<open>dataService/pos/validators.js\<close>, \<open>business/pos/stakes.js\<close>, \<open>stakers.js\<close>, \<open>unlocks.js\<close>, \<open>lockedRewards.js\<close> and
  \<open>claimableRewards.js\<close>, \<open>business/dynamicReward\<close>, \<open>utils/pos.js\<close>, and \<open>sortComparator\<close> of \<open>utils/array.js\<close>.
\<close>

subsection \<open>Language helpers\<close>

definition split_first :: "string \<Rightarrow> string \<Rightarrow> string" where
  "split_first sep s = (case js_split sep s of x # _ \<Rightarrow> x | [] \<Rightarrow> [])"

definition split_second :: "string \<Rightarrow> string \<Rightarrow> string option" where
  "split_second sep s = at_str (js_split sep s) 1"

text \<open>The names of a comma-separated parameter; none when it is absent.\<close>

definition names_of :: "jsval \<Rightarrow> jserr + jsval list" where
  "names_of v = (if truthy v then bindE (as_str v) (\<lambda>s. Inr (map JStr (js_split '','' s))) else Inr [])"

text \<open>\<open>xs.findIndex(x => x.address === a)\<close>.\<close>

fun find_address :: "nat \<Rightarrow> jsval \<Rightarrow> jsval list \<Rightarrow> jserr + nat option" where
  "find_address i a [] = Inr None"
| "find_address i a (v # vs) =
     bindE (js_prop v ''address'') (\<lambda>b. if strict_eq b a then Inr (Some i) else find_address (Suc i) a vs)"

subsection \<open>utils/array.js: sortComparator\<close>

definition number_sign :: "jsval \<Rightarrow> int" where
  "number_sign v = (case js_number v of JNum n \<Rightarrow> n | _ \<Rightarrow> 0)"

definition compare_text :: "ext \<Rightarrow> bool \<Rightarrow> jsval \<Rightarrow> jsval \<Rightarrow> jserr + int" where
  "compare_text X asc a b =
     (let (x, y) = (if asc then (a, b) else (b, a)) in bindE (as_str x) (\<lambda>s. Inr (localeCompare X s (js_string y))))"

definition sortComparator :: "ext \<Rightarrow> string \<Rightarrow> jsval \<Rightarrow> jsval \<Rightarrow> jserr + int" where
  "sortComparator X sortParam a b =
     (let sortProp = split_first '':'' sortParam; asc = (split_second '':'' sortParam = Some ''asc'') in
     case bindE (js_prop a sortProp) (\<lambda>x.
            if js_number x = JNaN then Inl (Err ''Not a number, try string sorting.'')
            else bindE (js_prop b sortProp) (\<lambda>y. if asc then js_sub x y else js_sub y x)) of
       Inr d \<Rightarrow> Inr (number_sign d)
     | Inl _ \<Rightarrow> bindE (js_prop a sortProp) (\<lambda>x. bindE (js_prop b sortProp) (\<lambda>y. compare_text X asc x y)))"

subsection \<open>pos/validators.js: queries\<close>

definition validator_matches :: "obj \<Rightarrow> jsval list \<Rightarrow> jsval list \<Rightarrow> jsval list \<Rightarrow> jsval \<Rightarrow> jserr + bool" where
  "validator_matches params addressSet nameSet statusSet validator =
     bindE (js_prop validator ''address'') (\<lambda>address.
     if addressSet \<noteq> [] \<and> \<not> js_includes addressSet address then Inr False
     else bindE (js_prop validator ''name'') (\<lambda>name.
     if nameSet \<noteq> [] \<and> \<not> js_includes nameSet name then Inr False
     else bindE (js_prop validator ''status'') (\<lambda>status.
     if statusSet \<noteq> [] \<and> \<not> js_includes statusSet status then Inr False
     else if truthy (oget params ''search'')
     then bindE (as_str name) (\<lambda>n. bindE (as_str (oget params ''search'')) (\<lambda>s.
          Inr (str_includes (to_lower s) (to_lower n))))
     else Inr True)))"

definition validator_details :: "ext \<Rightarrow> jsval \<Rightarrow> jsval iact" where
  "validator_details X validator =
     bnd (propA validator ''address'') (\<lambda>address.
     bnd (table_find (kx X) validatorsTableSchema [(''address'', address)]
            (Some [''generatedBlocks'', ''totalCommission'', ''totalSelfStakeRewards''])) (\<lambda>rows.
     let info = js_default (js_first rows) (JObj []) in
     bnd (propA info ''generatedBlocks'') (\<lambda>generatedBlocks.
     bnd (propA info ''totalCommission'') (\<lambda>commission.
     bnd (propA info ''totalSelfStakeRewards'') (\<lambda>selfRewards.
     bnd (getIndexedAccountInfo X [(''address'', address)] (Some [''publicKey''])) (\<lambda>account.
     bnd (propA account ''publicKey'') (\<lambda>publicKey.
     let totalCommission = js_default commission (JBig 0); totalSelfStakeRewards = js_default selfRewards (JBig 0) in
     bnd (liftE (js_add totalCommission totalSelfStakeRewards)) (\<lambda>earnedRewards.
     ret (JObj (spread (own_props validator) [(''publicKey'', js_default publicKey JNull),
       (''generatedBlocks'', js_default generatedBlocks (JNum 0)), (''totalCommission'', totalCommission),
       (''totalSelfStakeRewards'', totalSelfStakeRewards), (''earnedRewards'', earnedRewards)]))))))))))"

text \<open>A public key replaces the address, unless the address given already lists it.\<close>

definition resolve_publicKey :: "ext \<Rightarrow> obj \<Rightarrow> obj option iact" where
  "resolve_publicKey X params =
     (if truthy (oget params ''publicKey'') then
        bnd (lisk32A X (oget params ''publicKey'')) (\<lambda>address.
        bnd (liftE (names_of (oget params ''address''))) (\<lambda>given.
        if js_includes given address then ret None
        else thn (spawn (updateAccountPublicKey X (oget params ''publicKey'')))
               (ret (Some (oset params ''address'' address)))))
      else ret (Some params))"

definition getPosValidators :: "ext \<Rightarrow> obj \<Rightarrow> jsval iact" where
  "getPosValidators X params0 =
     bnd (resolve_publicKey X params0) (\<lambda>resolved.
     case resolved of None \<Rightarrow> ret empty_response | Some params \<Rightarrow>
     bnd (liftE (names_of (oget params ''address''))) (\<lambda>addressSet.
     bnd (liftE (names_of (oget params ''name''))) (\<lambda>nameSet.
     bnd (liftE (names_of (oget params ''status''))) (\<lambda>statusSet.
     bnd (getAllValidators X) (\<lambda>allValidators.
     bnd (liftE (filterE (validator_matches params addressSet nameSet statusSet) allValidators)) (\<lambda>filtered.
     bnd (mapA (validator_details X) filtered) (\<lambda>data.
     thn (if list_all (\<lambda>v. \<not> truthy (oget (own_props v) ''rank'')) data then computeValidatorRank X else ret ()) (
     bnd (liftE (as_str (oget params ''sort''))) (\<lambda>sort.
     bnd (liftE (js_sort (sortComparator X sort) data)) (\<lambda>sorted_data.
     bnd (liftE (slice_page sorted_data (oget params ''offset'') (oget params ''limit''))) (\<lambda>page.
     ret (parseToJSONCompatObj (JObj [(''data'', JArr page), (''meta'', JObj [
       (''total'', JNum (int (length data))), (''count'', JNum (int (length page))), (''offset'', oget params ''offset'')])])))))))))))))"

subsection \<open>pos/validators.js: updates with every block\<close>

definition updated_addresses :: "ext \<Rightarrow> jsval \<Rightarrow> jserr + jsval list" where
  "updated_addresses X tx =
     bindE (js_prop tx ''module'') (\<lambda>mo. if mo \<noteq> JStr ''pos'' then Inr []
     else bindE (js_prop tx ''command'') (\<lambda>command.
       if command = JStr ''registerValidator''
       then bindE (js_prop tx ''senderPublicKey'') (\<lambda>pk. bindE (getLisk32AddressFromPublicKey X pk) (\<lambda>a. Inr [a]))
       else if command = JStr ''stake''
       then bindE (js_path tx [''params'', ''stakes'']) (\<lambda>sv. bindE (js_elems sv) (\<lambda>stakes.
            mapE (\<lambda>stake. js_prop stake ''validatorAddress'') stakes))
       else Inr []))"

definition update_cached :: "bool \<Rightarrow> jsval \<Rightarrow> unit iact" where
  "update_cached isDelete validator =
     bnd (getA validatorList) (\<lambda>vs.
     bnd (propA validator ''address'') (\<lambda>address.
     bnd (liftE (find_address 0 address vs)) (\<lambda>idx.
     case idx of
       Some i \<Rightarrow>
         if isDelete then modA (\<lambda>w. w\<lparr>validatorList := take i vs @ drop (Suc i) vs\<rparr>)
         else bnd (propA (vs ! i) ''status'') (\<lambda>status.
              modA (\<lambda>w. w\<lparr>validatorList := vs[i := JObj (oset (own_props validator) ''status'' status)]\<rparr>))
     | None \<Rightarrow> modA (\<lambda>w. w\<lparr>validatorList := vs @ [validator]\<rparr>))))"

definition count_block :: "bool \<Rightarrow> jsval \<Rightarrow> jsval \<Rightarrow> jserr + jsval" where
  "count_block isDelete block validator =
     (let ob = own_props validator in
     if truthy (oget ob ''generatedBlocks'') \<and> truthy (oget ob ''rewards'') then
       bindE (if isDelete then js_sub (oget ob ''generatedBlocks'') (JNum 1) else js_add (oget ob ''generatedBlocks'') (JNum 1)) (\<lambda>n.
       bindE (js_bigint (oget ob ''rewards'')) (\<lambda>r. bindE (js_prop block ''reward'') (\<lambda>bv. bindE (js_bigint bv) (\<lambda>b.
       Inr (JObj (oset (oset ob ''generatedBlocks'' n) ''rewards'' (JStr (show_int (if isDelete then r - b else r + b)))))))))
     else Inr validator)"

definition update_cache_body :: "ext \<Rightarrow> bool \<Rightarrow> jsval \<Rightarrow> unit iact" where
  "update_cache_body X isDelete block =
     (if \<not> truthy block then ret ()
      else bnd (propA block ''transactions'') (\<lambda>tv. case tv of
        JArr txs \<Rightarrow>
          bnd (liftE (mapE (updated_addresses X) txs)) (\<lambda>addrs.
          thn (if concat addrs = [] then ret ()
               else bnd (business_getPosValidators X (JObj [(''addresses'', JArr (concat addrs))])) (\<lambda>accounts.
                    thn (forA (update_cached isDelete) accounts) (computeValidatorRank X)))
          (bnd (getA validatorList) (\<lambda>vs.
           bnd (propA block ''generatorAddress'') (\<lambda>generatorAddress.
           bnd (liftE (find_address 0 generatorAddress vs)) (\<lambda>idx.
           case idx of
             None \<Rightarrow> ret ()
           | Some i \<Rightarrow> bnd (liftE (count_block isDelete block (vs ! i))) (\<lambda>v.
               modA (\<lambda>w. w\<lparr>validatorList := (validatorList w)[i := v]\<rparr>)))))))
      | _ \<Rightarrow> ret ()))"

definition updateValidatorCacheListener :: "ext \<Rightarrow> bool \<Rightarrow> jsval \<Rightarrow> unit iact" where
  "updateValidatorCacheListener X isDelete data =
     bnd (propA data ''data'') (\<lambda>dv. bnd (elemsA dv) (\<lambda>blocks.
     tryA (update_cache_body X isDelete (js_first blocks)) (\<lambda>_. ret ())))"

text \<open>
  The listener for account updates calls \<open>business.getValidators\<close>, which does not exist. Its
  calls are not awaited.
\<close>

definition update_account :: "jsval \<Rightarrow> unit iact" where
  "update_account address =
     bnd (getA validatorList) (\<lambda>vs. bnd (liftE (find_address 0 address vs)) (\<lambda>idx.
     case idx of
       None \<Rightarrow> ret ()
     | Some i \<Rightarrow> if truthy (vs ! i) \<and> own_props (vs ! i) \<noteq> []
                 then throw (TypeErr ''business.getValidators is not a function'') else ret ()))"

definition updateValidatorListOnAccountsUpdateListener :: "jsval \<Rightarrow> unit iact" where
  "updateValidatorListOnAccountsUpdateListener addresses =
     bnd (elemsA addresses) (\<lambda>as. forA (\<lambda>a. spawn (update_account a)) as)"

subsection \<open>business/pos/stakes.js\<close>

text \<open>The address of a request that names an account by name or public key.\<close>

definition stakes_address :: "ext \<Rightarrow> obj \<Rightarrow> obj iact" where
  "stakes_address X params =
     bnd (if \<not> truthy (oget params ''address'') \<and> truthy (oget params ''name'')
          then bnd (getAddressByName (oget params ''name'')) (\<lambda>a. ret (oset params ''address'' a)) else ret params) (\<lambda>p.
     if \<not> truthy (oget p ''address'') \<and> truthy (oget p ''publicKey'')
     then bnd (lisk32A X (oget p ''publicKey'')) (\<lambda>a. ret (oset p ''address'' a)) else ret p)"

definition normalizeStake :: "jsval \<Rightarrow> jsval" where
  "normalizeStake stake = parseToJSONCompatObj stake"

definition sent_stake :: "ext \<Rightarrow> obj \<Rightarrow> jsval \<Rightarrow> jsval list iact" where
  "sent_stake X queryFilter stake =
     bnd (propA (normalizeStake stake) ''validatorAddress'') (\<lambda>validatorAddress.
     bnd (getIndexedAccountInfo X (spread queryFilter [(''address'', validatorAddress), (''isValidator'', JBool True)]) (Some [''name''])) (\<lambda>info.
     bnd (propA info ''name'') (\<lambda>name.
     if truthy name then
       bnd (propA (normalizeStake stake) ''amount'') (\<lambda>amount.
       ret [JObj [(''address'', validatorAddress), (''amount'', amount), (''name'', name)]])
     else ret [])))"

definition getStakes :: "ext \<Rightarrow> obj \<Rightarrow> jsval iact" where
  "getStakes X params0 =
     bnd (stakes_address X params0) (\<lambda>params.
     let address = oget params ''address'' in
     bnd (requestConnector X ''getStaker'' (JObj [(''address'', address)])) (\<lambda>stakerInfo.
     let queryFilter = (if truthy (oget params ''search'')
           then [(''search'', JObj [(''property'', JStr ''name''), (''pattern'', oget params ''search'')])] else []) in
     bnd (propA stakerInfo ''stakes'') (\<lambda>sv. bnd (elemsA sv) (\<lambda>stakes.
     bnd (mapA (sent_stake X queryFilter) stakes) (\<lambda>entries.
     bnd (getIndexedAccountInfo X [(''address'', address)] (Some [''name''])) (\<lambda>accountInfo.
     bnd (propA accountInfo ''name'') (\<lambda>name. bnd (propA accountInfo ''publicKey'') (\<lambda>publicKey.
     ret (JObj [(''data'', JObj [(''stakes'', JArr (concat entries))]), (''meta'', JObj [
       (''staker'', JObj [(''address'', address), (''name'', js_or name JNull), (''publicKey'', js_or publicKey JNull)]),
       (''count'', JNum (int (length (concat entries))))])])))))))))"

subsection \<open>business/pos/stakers.js\<close>

definition stakers_answer :: "jsval list \<Rightarrow> obj \<Rightarrow> jsval \<Rightarrow> int \<Rightarrow> jsval" where
  "stakers_answer stakers validator offset count_total =
     JObj [(''data'', JObj [(''stakers'', JArr stakers)]), (''meta'', JObj [(''validator'', JObj validator),
       (''count'', JNum (int (length stakers))), (''offset'', offset), (''total'', JNum count_total)])]"

text \<open>
  The validator a request means, with what is known of it; \<open>Inl\<close> where the parts of the request
  disagree.
\<close>

definition stakers_address :: "obj \<Rightarrow> obj \<times> obj" where
  "stakers_address params =
     (let address = oget params ''address'' in
      if truthy address then (oset (omit [''address''] params) ''validatorAddress'' address, [(''address'', address)])
      else (params, []))"

definition stakers_publicKey :: "ext \<Rightarrow> obj \<times> obj \<Rightarrow> (obj + obj \<times> obj) iact" where
  "stakers_publicKey X = (\<lambda>(params, validator).
     let publicKey = oget params ''publicKey''; rest = omit [''publicKey''] params; given = oget rest ''validatorAddress'' in
     if truthy publicKey then
       bnd (lisk32A X publicKey) (\<lambda>address.
       if truthy given \<and> \<not> strict_eq given address then ret (Inl validator)
       else thn (updateAccountPublicKey X publicKey)
              (ret (Inr (oset rest ''validatorAddress'' address, oset (oset validator ''address'' address) ''publicKey'' publicKey))))
     else ret (Inr (params, validator)))"

definition stakers_name :: "ext \<Rightarrow> obj \<times> obj \<Rightarrow> (obj + obj \<times> obj) iact" where
  "stakers_name X = (\<lambda>(params, validator).
     let name = oget params ''name''; rest = omit [''name''] params; given = oget rest ''validatorAddress'' in
     if truthy name then
       bnd (getIndexedAccountInfo X [(''name'', name)] (Some [''address''])) (\<lambda>info.
       bnd (propA info ''address'') (\<lambda>address.
       if truthy given \<and> \<not> strict_eq given address then ret (Inl validator)
       else ret (Inr (oset rest ''validatorAddress'' address, oset validator ''name'' name))))
     else ret (Inr (params, validator)))"

definition stakers_search :: "ext \<Rightarrow> jsval \<Rightarrow> (obj \<times> obj) iact" where
  "stakers_search X search =
     (if truthy search then
        bnd (table_find (kx X) accountsTableSchema [(''search'', JObj [(''property'', JStr ''name''), (''pattern'', search)])]
               (Some [''name'', ''address''])) (\<lambda>accounts.
        bnd (liftE (foldE (\<lambda>acc info. bindE (js_prop info ''address'') (\<lambda>a. bindE (js_prop info ''name'') (\<lambda>n.
               Inr (oset acc (js_string a) n)))) [] accounts)) (\<lambda>names.
        ret (names, [(''whereIn'', JObj [(''property'', JStr ''stakerAddress''), (''values'', JArr (map (JStr \<circ> fst) names))])])))
      else ret ([], []))"

definition staker_entry :: "ext \<Rightarrow> obj \<Rightarrow> jsval \<Rightarrow> jsval iact" where
  "staker_entry X names stake =
     bnd (propA stake ''stakerAddress'') (\<lambda>address. bnd (propA stake ''amount'') (\<lambda>amount.
     bnd (if truthy (oget names (js_string address)) then ret (oget names (js_string address))
          else bnd (getIndexedAccountInfo X [(''address'', address)] (Some [''name''])) (\<lambda>info. propA info ''name'')) (\<lambda>name.
     ret (JObj [(''address'', address), (''amount'', amount), (''name'', name)]))))"

definition stakers_of :: "ext \<Rightarrow> obj \<Rightarrow> obj \<Rightarrow> jsval iact" where
  "stakers_of X params validator =
     (let address = oget params ''validatorAddress''; offset = oget params ''offset'' in
     bnd (stakers_search X (oget params ''search'')) (\<lambda>(names, queryFilter).
     bnd (table_find (kx X) stakesTableSchema
            (spread queryFilter [(''validatorAddress'', address), (''limit'', oget params ''limit''), (''offset'', offset),
               (''sort'', JStr ''amount:desc''), (''order'', JStr ''stakerAddress:asc'')]) (Some [''stakerAddress'', ''amount''])) (\<lambda>stakes.
     bnd (mapA (staker_entry X names) stakes) (\<lambda>stakers.
     bnd (getIndexedAccountInfo X [(''address'', address)] (Some [''name'', ''publicKey''])) (\<lambda>info.
     bnd (propA info ''name'') (\<lambda>name. bnd (propA info ''publicKey'') (\<lambda>publicKey.
     bnd (table_count (kx X) stakesTableSchema (oset queryFilter ''validatorAddress'' address)) (\<lambda>count_total.
     ret (stakers_answer stakers [(''address'', js_or (oget validator ''address'') address),
       (''name'', js_or (oget validator ''name'') name),
       (''publicKey'', js_or (js_or (oget validator ''publicKey'') publicKey) JNull)] offset count_total)))))))))"

definition getStakers :: "ext \<Rightarrow> obj \<Rightarrow> jsval iact" where
  "getStakers X params =
     (let none = (\<lambda>validator. ret (stakers_answer [] validator (oget params ''offset'') 0)) in
     bnd (stakers_publicKey X (stakers_address params)) (\<lambda>r1.
     case r1 of Inl validator \<Rightarrow> none validator | Inr s1 \<Rightarrow>
     bnd (stakers_name X s1) (\<lambda>r2.
     case r2 of Inl validator \<Rightarrow> none validator | Inr (p, validator) \<Rightarrow>
     if \<not> truthy (oget p ''validatorAddress'') then none validator
     else stakers_of X p validator)))"

subsection \<open>business/pos/unlocks.js\<close>

definition unlock_entry :: "jsval \<Rightarrow> jsval \<Rightarrow> jsval \<Rightarrow> jserr + jsval list" where
  "unlock_entry wanted tokenID pendingUnlock =
     bindE (js_prop pendingUnlock ''unlockable'') (\<lambda>unlockable.
     let isLocked = JBool (\<not> truthy unlockable) in
     Inr (if wanted = JUndef \<or> strict_eq wanted isLocked
          then [JObj (oset (oset (omit [''unlockable''] (own_props pendingUnlock)) ''isLocked'' isLocked) ''tokenID'' tokenID)]
          else []))"

definition getPosUnlocks :: "ext \<Rightarrow> obj \<Rightarrow> jsval iact" where
  "getPosUnlocks X params =
     bnd (if truthy (oget params ''name'') then getAddressByName (oget params ''name'') else ret (oget params ''address'')) (\<lambda>a.
     bnd (if truthy (oget params ''publicKey'') then lisk32A X (oget params ''publicKey'') else ret a) (\<lambda>address.
     bnd (requestConnector X ''getPosPendingUnlocks'' (JObj [(''address'', address)])) (\<lambda>r.
     bnd (propA r ''pendingUnlocks'') (\<lambda>uv. bnd (getPosTokenID X) (\<lambda>tokenID.
     bnd (elemsA (js_default uv (JArr []))) (\<lambda>pendingUnlocks.
     bnd (liftE (mapE (unlock_entry (oget params ''isLocked'') tokenID) pendingUnlocks)) (\<lambda>entries.
     bnd (getIndexedAccountInfo X [(''address'', address), (''limit'', JNum 1)] (Some [''name'', ''publicKey''])) (\<lambda>info.
     bnd (propA info ''publicKey'') (\<lambda>publicKey. bnd (propA info ''name'') (\<lambda>name.
     thn (if \<not> truthy publicKey \<and> truthy (oget params ''publicKey'')
          then spawn (updateAccountPublicKey X (oget params ''publicKey'')) else ret ()) (
     bnd (liftE (slice_page (concat entries) (oget params ''offset'') (oget params ''limit''))) (\<lambda>page.
     ret (JObj [(''data'', JObj [(''address'', address), (''publicKey'', js_or publicKey JNull), (''name'', js_or name JNull),
         (''pendingUnlocks'', JArr page)]),
       (''meta'', JObj [(''count'', JNum (int (length page))), (''offset'', oget params ''offset''),
         (''total'', JNum (int (length (concat entries))))])])))))))))))))"

subsection \<open>business/dynamicReward\<close>

definition getRewardTokenID :: "ext \<Rightarrow> jsval iact" where
  "getRewardTokenID X =
     bnd (getA rewardTokenID) (\<lambda>known.
     thn (if truthy known then ret ()
          else bnd (requestConnector X ''getRewardTokenID'' JUndef) (\<lambda>r.
               bnd (propA r ''error'') (\<lambda>e.
               if truthy e then bnd (propA e ''message'') (\<lambda>m. throw (Err (js_string m)))
               else modA (\<lambda>w. w\<lparr>rewardTokenID := r\<rparr>))))
     (getA rewardTokenID))"

definition getRewardConstants :: "ext \<Rightarrow> jsval iact" where
  "getRewardConstants X =
     bnd (getRewardTokenID X) (\<lambda>t. ret (JObj [(''data'', JObj [(''rewardTokenID'', t)]), (''meta'', JObj [])]))"

definition getAnnualInflation :: "ext \<Rightarrow> jsval \<Rightarrow> jsval iact" where
  "getAnnualInflation X params =
     bnd (propA params ''height'') (\<lambda>height.
     bnd (requestConnector X ''getAnnualInflation'' (JObj [(''height'', height)])) (\<lambda>r.
     ret (JObj [(''data'', r), (''meta'', JObj [])])))"

definition getDefaultRewardAtHeight :: "ext \<Rightarrow> jsval \<Rightarrow> jsval iact" where
  "getDefaultRewardAtHeight X params =
     bnd (propA params ''height'') (\<lambda>height.
     bnd (requestConnector X ''getDefaultRewardAtHeight'' (JObj [(''height'', height)])) (\<lambda>r.
     bnd (getRewardTokenID X) (\<lambda>t. bnd (propA r ''reward'') (\<lambda>reward.
     ret (JObj [(''data'', JObj [(''defaultReward'', reward), (''tokenID'', t)]), (''meta'', JObj [])])))))"

subsection \<open>business/pos/lockedRewards.js and claimableRewards.js\<close>

definition locked_address :: "ext \<Rightarrow> obj \<Rightarrow> jsval iact" where
  "locked_address X params =
     bnd (if \<not> truthy (oget params ''address'') \<and> truthy (oget params ''name'')
          then bnd (table_find (kx X) validatorsTableSchema [(''name'', oget params ''name''), (''limit'', JNum 1)] (Some [''address''])) (\<lambda>rows.
               if rows = [] then ret (oget params ''address'') else propA (js_first rows) ''address'')
          else ret (oget params ''address'')) (\<lambda>address.
     if \<not> truthy address \<and> truthy (oget params ''publicKey'') then lisk32A X (oget params ''publicKey'') else ret address)"

definition getPosLockedRewards :: "ext \<Rightarrow> obj \<Rightarrow> jsval iact" where
  "getPosLockedRewards X params =
     (if \<not> list_ex (\<lambda>p. fst p \<in> {''address'', ''name'', ''publicKey''}) params
      then throw (InvalidParamsErr ''One of the params (address, name or publicKey) is required.'')
      else bnd (locked_address X params) (\<lambda>address. bnd (getRewardTokenID X) (\<lambda>tokenID.
      if \<not> truthy address \<or> \<not> truthy tokenID then ret empty_response
      else bnd (requestConnector X ''getPosLockedReward'' (JObj [(''tokenID'', tokenID), (''address'', address)])) (\<lambda>r.
      bnd (propA r ''reward'') (\<lambda>reward.
      bnd (liftE (slice_page [JObj [(''reward'', reward), (''tokenID'', tokenID)]] (oget params ''offset'') (oget params ''limit''))) (\<lambda>page.
      ret (response page (oget params ''offset'') (JNum 1))))))))"

definition getPosClaimableRewards :: "ext \<Rightarrow> obj \<Rightarrow> jsval iact" where
  "getPosClaimableRewards X params =
     bnd (if \<not> truthy (oget params ''address'') \<and> truthy (oget params ''name'')
          then getAddressByName (oget params ''name'') else ret (oget params ''address'')) (\<lambda>a.
     bnd (if \<not> truthy a \<and> truthy (oget params ''publicKey'')
          then bnd (lisk32A X (oget params ''publicKey'')) (\<lambda>b.
               thn (spawn (updateAccountPublicKey X (oget params ''publicKey''))) (ret b))
          else ret a) (\<lambda>address.
     if \<not> truthy address then ret empty_response
     else bnd (requestConnector X ''getPosClaimableRewards'' (JObj [(''address'', address)])) (\<lambda>r.
     bnd (propA r ''rewards'') (\<lambda>rv. bnd (elemsA rv) (\<lambda>rewards.
     bnd (liftE (slice_page rewards (oget params ''offset'') (oget params ''limit''))) (\<lambda>page.
     ret (response page (oget params ''offset'') (JNum (int (length rewards))))))))))"

subsection \<open>utils/pos.js\<close>

definition getStakeInfo :: "ext \<Rightarrow> string \<Rightarrow> jsval iact" where
  "getStakeInfo X keyPrefix =
     bnd (getByPattern X keyPrefix) (\<lambda>rows.
     let row = js_first rows in
     bnd (if truthy row then propA row ''value'' else ret JUndef) (\<lambda>v.
     bnd (getPosTokenID X) (\<lambda>tokenID.
     ret (JObj [(''tokenID'', tokenID), (''amount'', if truthy v then JStr (js_string v) else JStr ''0'')]))))"

definition getTotalStaked :: "ext \<Rightarrow> jsval iact" where
  "getTotalStaked X = getStakeInfo X TOTAL_STAKED"

definition getTotalSelfStaked :: "ext \<Rightarrow> jsval iact" where
  "getTotalSelfStaked X = getStakeInfo X TOTAL_SELF_STAKED"

end
