(* ===== verification/MusicData.thy ===== *)
theory MusicData
  imports BlockData
begin

text \<open>
  The queries over audios, collections, profiles and subscriptions:
  \<open>dataService/business/audios.js\<close>, \<open>collections.js\<close>, \<open>profiles.js\<close> and \<open>subscriptions.js\<close>.
\<close>

subsection \<open>Shared steps\<close>

text \<open>\<open>params.search\<close> turned into a search on the column \<open>name\<close>.\<close>

definition resolve_search :: "obj \<Rightarrow> obj" where
  "resolve_search params =
     (if truthy (oget params ''search'')
      then oset (omit [''search''] params) ''search''
             (JObj [(''property'', JStr ''name''), (''pattern'', oget params ''search'')])
      else params)"

definition page_response :: "jsval list \<Rightarrow> jsval \<Rightarrow> jsval \<Rightarrow> jsval" where
  "page_response data offset count_total = response data (JNum (parse_offset offset)) count_total"

subsection \<open>collections.js\<close>

definition getCollections :: "ext \<Rightarrow> obj \<Rightarrow> jsval iact" where
  "getCollections X params0 =
     (let params = resolve_search params0 in
     bnd (table_count (kx X) collectionsTableSchema params) (\<lambda>count_total.
     bnd (table_find (kx X) collectionsTableSchema (oset params ''limit'' (js_or (oget params ''limit'') (JNum 10)))
            (Some [''collectionID'', ''creatorAddress'', ''name'', ''releaseYear'', ''collectionType''])) (\<lambda>resultSet.
     ret (page_response resultSet (oget params ''offset'') (JNum count_total)))))"

subsection \<open>audios.js\<close>

definition audio_columns :: "string list" where
  "audio_columns = [''audioID'', ''creatorAddress'', ''name'', ''releaseYear'', ''collectionID'']"

definition owned_audio :: "ext \<Rightarrow> jsval \<Rightarrow> jsval iact" where
  "owned_audio X owner =
     bnd (propA owner ''audioID'') (\<lambda>audioID.
     bnd (table_find (kx X) audiosTableSchema [(''audioID'', audioID)] (Some audio_columns)) (\<lambda>rows.
     ret (js_first rows)))"

text \<open>The audios of an owner who still has shares; an owner row without its audio gives \<open>undefined\<close>.\<close>

definition audios_of_owner :: "ext \<Rightarrow> obj \<Rightarrow> jsval list iact" where
  "audios_of_owner X params =
     bnd (table_find (kx X) ownersTableSchema
            [(''address'', oget params ''ownerAddress''), (''limit'', oget params ''limit'')] (Some [''audioID'', ''shares''])) (\<lambda>audioIDs.
     bnd (liftE (mapE (\<lambda>a. js_prop a ''shares'') audioIDs)) (\<lambda>shares.
     mapA (owned_audio X) (map snd (filter (\<lambda>p. js_lt (JNum 0) (fst p)) (zip shares audioIDs)))))"

definition audio_details :: "ext \<Rightarrow> jsval \<Rightarrow> jsval iact" where
  "audio_details X audio =
     bnd (propA audio ''collectionID'') (\<lambda>collectionID.
     bnd (table_find (kx X) collectionsTableSchema [(''collectionID'', collectionID)]
            (Some [''name'', ''collectionType'', ''releaseYear''])) (\<lambda>collectionData.
     bnd (propA audio ''audioID'') (\<lambda>audioID.
     bnd (table_find (kx X) ownersTableSchema [(''audioID'', audioID)] (Some [''address'', ''shares'', ''income''])) (\<lambda>ownersData.
     bnd (table_find (kx X) featsTableSchema [(''audioID'', audioID)] (Some [''address'', ''role''])) (\<lambda>featData.
     ret (JObj (spread (own_props audio) [
       (''collection'', if collectionData = [] then JObj [] else js_first collectionData),
       (''owners'', JArr ownersData), (''feat'', JArr featData)])))))))"

definition getAudios :: "ext \<Rightarrow> obj \<Rightarrow> jsval iact" where
  "getAudios X params0 =
     (let params = resolve_search params0 in
     bnd (if truthy (oget params ''ownerAddress'') then audios_of_owner X params
          else table_find (kx X) audiosTableSchema (oset params ''limit'' (oget params ''limit'')) (Some audio_columns)) (\<lambda>audioData.
     bnd (mapA (audio_details X) audioData) (\<lambda>data.
     ret (page_response data (oget params ''offset'') (JNum (int (length audioData)))))))"

subsection \<open>profiles.js\<close>

definition profile_details :: "ext \<Rightarrow> jsval \<Rightarrow> jsval iact" where
  "profile_details X profile =
     bnd (propA profile ''profileID'') (\<lambda>profileID.
     bnd (table_find (kx X) socialAccountsTableSchema [(''profileID'', profileID)]
            (Some [''profileID'', ''username'', ''platform''])) (\<lambda>socialData.
     ret (JObj (oset (own_props profile) ''socialAccounts'' (JArr socialData)))))"

definition getProfiles :: "ext \<Rightarrow> obj \<Rightarrow> jsval iact" where
  "getProfiles X params0 =
     (let params = resolve_search params0 in
     bnd (table_count (kx X) profilesTableSchema params) (\<lambda>count_total.
     bnd (table_find (kx X) profilesTableSchema (oset params ''limit'' (js_or (oget params ''limit'') (JNum 10)))
            (Some [''profileID'', ''name'', ''nickName'', ''description'', ''creatorAddress'', ''avatarHash'', ''avatarSignature'',
              ''bannerHash'', ''bannerSignature''])) (\<lambda>profilesData.
     bnd (mapA (profile_details X) profilesData) (\<lambda>data.
     ret (page_response data (oget params ''offset'') (JNum count_total))))))"

subsection \<open>subscriptions.js\<close>

definition subscription_fields :: "string list" where
  "subscription_fields = [''subscriptionID'', ''creatorAddress'', ''price'', ''consumable'', ''maxMembers'', ''streams'']"

definition subscription_answer :: "obj \<Rightarrow> jsval \<Rightarrow> int \<Rightarrow> jsval" where
  "subscription_answer params data n = JObj [(''data'', data), (''meta'', JObj [
     (''count'', JNum n), (''offset'', JNum (parse_offset (oget params ''offset''))), (''total'', JNum n)])]"

text \<open>
  \<open>find\<close> always returns an array, so both tests for a result succeed; without a member, reading
  the first one throws and the empty answer is given.
\<close>

definition getActiveSubscriptionsByMemberAddress :: "ext \<Rightarrow> obj \<Rightarrow> jsval iact" where
  "getActiveSubscriptionsByMemberAddress X params = tryA
     (bnd (table_find (kx X) membersTableSchema [(''address'', oget params ''memberAddress'')]
             (Some [''id'', ''address'', ''shared'', ''addedBy'', ''removedBy''])) (\<lambda>member.
      bnd (propA (js_first member) ''shared'') (\<lambda>shared.
      bnd (table_find (kx X) subscriptionsTableSchema [(''subscriptionID'', shared)] (Some subscription_fields)) (\<lambda>data.
      ret (subscription_answer params (JArr data) 1)))))
     (\<lambda>_. ret (subscription_answer params (JObj []) 0))"

definition with_members :: "ext \<Rightarrow> jsval \<Rightarrow> jsval iact" where
  "with_members X subscription =
     bnd (propA subscription ''subscriptionID'') (\<lambda>subscriptionID.
     bnd (table_find (kx X) membersTableSchema [(''shared'', subscriptionID), (''removedBy'', JNull)] (Some [''address''])) (\<lambda>membersSet.
     bnd (liftE (mapE (\<lambda>m. js_prop m ''address'') membersSet)) (\<lambda>addresses.
     liftE (js_setprop subscription ''members'' (JArr (map (\<lambda>a. JObj [(''address'', a)]) addresses))))))"

definition getSubscriptionsBySubscriptionIdOrCreatorAddress :: "ext \<Rightarrow> obj \<Rightarrow> jsval iact" where
  "getSubscriptionsBySubscriptionIdOrCreatorAddress X params =
     bnd (table_count (kx X) subscriptionsTableSchema params) (\<lambda>count_total.
     bnd (table_find (kx X) subscriptionsTableSchema (oset params ''limit'' (js_or (oget params ''limit'') (JNum count_total)))
            (Some subscription_fields)) (\<lambda>subscriptionSet.
     bnd (mapA (with_members X) subscriptionSet) (\<lambda>data.
     ret (page_response data (oget params ''offset'') (JNum count_total)))))"

definition getSubscriptions :: "ext \<Rightarrow> obj \<Rightarrow> jsval iact" where
  "getSubscriptions X params =
     (if truthy (oget params ''memberAddress'') then getActiveSubscriptionsByMemberAddress X params
      else getSubscriptionsBySubscriptionIdOrCreatorAddress X params)"

subsection \<open>Confinement\<close>

lemma within_music_queries [confined]:
  "keeps (within T) (getCollections X p)"
  "keeps (within T) (getAudios X p)"
  "keeps (within T) (getProfiles X p)"
  "keeps (within T) (getSubscriptions X p)"
  unfolding getCollections_def getAudios_def audios_of_owner_def owned_audio_def audio_details_def getProfiles_def
    profile_details_def getSubscriptions_def getActiveSubscriptionsByMemberAddress_def with_members_def
    getSubscriptionsBySubscriptionIdOrCreatorAddress_def Let_def
  by (intro confined)+

end
