(* ===== verification/JsonParse.thy ===== *)
theory JsonParse
  imports IndexerUtils
begin

text \<open>
  \<open>JSON.parse\<close>, by recursive descent over the text, and that it reads back what \<open>JSON.stringify\<close>
  writes. Numbers are integers: a fraction or an exponent is not accepted. The text is read
  as UTF-8; the two halves of a surrogate pair are not joined. The first argument of the
  functions bounds the nesting and the number of entries; the length of the text is enough.
\<close>

definition json_ws :: "char \<Rightarrow> bool" where
  "json_ws c = (c \<in> {CHR '' '', CHR 0x09, CHR 0x0A, CHR 0x0D})"

definition skip_ws :: "string \<Rightarrow> string" where
  "skip_ws s = dropWhile json_ws s"

definition hex_val :: "char \<Rightarrow> nat option" where
  "hex_val c = (let n = of_char c :: nat in
     if 48 \<le> n \<and> n \<le> 57 then Some (n - 48)
     else if 97 \<le> n \<and> n \<le> 102 then Some (n - 87)
     else if 65 \<le> n \<and> n \<le> 70 then Some (n - 55) else None)"

definition utf8 :: "nat \<Rightarrow> string" where
  "utf8 n = (if n < 128 then [char_of n]
     else if n < 2048 then [char_of (192 + n div 64), char_of (128 + n mod 64)]
     else [char_of (224 + n div 4096), char_of (128 + n div 64 mod 64), char_of (128 + n mod 64)])"

definition unescape :: "char \<Rightarrow> char option" where
  "unescape c = map_of [(CHR 0x22, CHR 0x22), (CHR 0x5C, CHR 0x5C), (CHR ''/'', CHR ''/''), (CHR ''b'', CHR 0x08),
     (CHR ''f'', CHR 0x0C), (CHR ''n'', CHR 0x0A), (CHR ''r'', CHR 0x0D), (CHR ''t'', CHR 0x09)] c"

definition hex4 :: "char \<Rightarrow> char \<Rightarrow> char \<Rightarrow> char \<Rightarrow> nat option" where
  "hex4 a b c d = (case (hex_val a, hex_val b, hex_val c, hex_val d) of
     (Some w, Some x, Some y, Some z) \<Rightarrow> Some (((w * 16 + x) * 16 + y) * 16 + z) | _ \<Rightarrow> None)"

definition prepend :: "'a list \<Rightarrow> ('a list \<times> 'b) option \<Rightarrow> ('a list \<times> 'b) option" where
  "prepend xs r = map_option (\<lambda>(ys, rest). (xs @ ys, rest)) r"

text \<open>The rest of a string literal after the opening quote.\<close>

fun parse_chars :: "string \<Rightarrow> (string \<times> string) option" where
  "parse_chars [] = None"
| "parse_chars (c # cs) =
     (if c = CHR 0x22 then Some ([], cs)
      else if c = CHR 0x5C then
        (case cs of
           [] \<Rightarrow> None
         | e # es \<Rightarrow>
             if e = CHR ''u'' then
               (case es of
                  h1 # h2 # h3 # h4 # rest \<Rightarrow>
                    (case hex4 h1 h2 h3 h4 of None \<Rightarrow> None | Some n \<Rightarrow> prepend (utf8 n) (parse_chars rest))
                | _ \<Rightarrow> None)
             else (case unescape e of None \<Rightarrow> None | Some u \<Rightarrow> prepend [u] (parse_chars es)))
      else if (of_char c :: nat) < 32 then None
      else prepend [c] (parse_chars cs))"

definition parse_digits :: "bool \<Rightarrow> string \<Rightarrow> (jsval \<times> string) option" where
  "parse_digits neg t =
     (let ds = takeWhile is_digit t; rest = dropWhile is_digit t in
      if ds = [] \<or> (length ds > 1 \<and> hd ds = CHR ''0'') \<or> (rest \<noteq> [] \<and> hd rest \<in> {CHR ''.'', CHR ''e'', CHR ''E''}) then None
      else case read_nat ds of None \<Rightarrow> None | Some n \<Rightarrow> Some (JNum (if neg then - int n else int n), rest))"

definition parse_number :: "string \<Rightarrow> (jsval \<times> string) option" where
  "parse_number s = (case s of
     c # cs \<Rightarrow> if c = CHR ''-'' then parse_digits True cs else parse_digits False s | [] \<Rightarrow> None)"

definition parse_word :: "string \<Rightarrow> jsval \<Rightarrow> string \<Rightarrow> (jsval \<times> string) option" where
  "parse_word word v s = (if take (length word) s = word then Some (v, drop (length word) s) else None)"

definition parse_atom :: "string \<Rightarrow> (jsval \<times> string) option" where
  "parse_atom s = (case s of
       [] \<Rightarrow> None
     | c # cs \<Rightarrow>
         if c = CHR 0x22 then map_option (\<lambda>(t, rest). (JStr t, rest)) (parse_chars cs)
         else if c = CHR ''n'' then parse_word ''null'' JNull s
         else if c = CHR ''t'' then parse_word ''true'' (JBool True) s
         else if c = CHR ''f'' then parse_word ''false'' (JBool False) s
         else parse_number s)"

text \<open>A later property of the same name replaces the value of the earlier one.\<close>

fun parse_value :: "nat \<Rightarrow> string \<Rightarrow> (jsval \<times> string) option"
  and parse_items :: "nat \<Rightarrow> string \<Rightarrow> (jsval list \<times> string) option"
  and parse_props :: "nat \<Rightarrow> string \<Rightarrow> (obj \<times> string) option" where
  "parse_value 0 s = None"
| "parse_value (Suc n) s = (case skip_ws s of
       [] \<Rightarrow> None
     | c # cs \<Rightarrow>
         if c = CHR ''['' then
           (case skip_ws cs of
              d # ds \<Rightarrow> if d = CHR '']'' then Some (JArr [], ds)
                       else map_option (\<lambda>(vs, rest). (JArr vs, rest)) (parse_items n cs)
            | [] \<Rightarrow> None)
         else if c = CHR ''{'' then
           (case skip_ws cs of
              d # ds \<Rightarrow> if d = CHR ''}'' then Some (JObj [], ds)
                       else map_option (\<lambda>(ps, rest). (JObj (spread [] ps), rest)) (parse_props n cs)
            | [] \<Rightarrow> None)
         else parse_atom (c # cs))"
| "parse_items 0 s = None"
| "parse_items (Suc n) s = (case parse_value n s of
       None \<Rightarrow> None
     | Some (v, r) \<Rightarrow> (case skip_ws r of
           c # cs \<Rightarrow> if c = CHR '','' then prepend [v] (parse_items n cs)
                    else if c = CHR '']'' then Some ([v], cs) else None
         | [] \<Rightarrow> None))"
| "parse_props 0 s = None"
| "parse_props (Suc n) s = (case skip_ws s of
       q # qs \<Rightarrow>
         if q \<noteq> CHR 0x22 then None
         else (case parse_chars qs of
             None \<Rightarrow> None
           | Some (k, r) \<Rightarrow> (case skip_ws r of
               col # cs \<Rightarrow>
                 if col \<noteq> CHR '':'' then None
                 else (case parse_value n cs of
                     None \<Rightarrow> None
                   | Some (v, r') \<Rightarrow> (case skip_ws r' of
                       d # ds \<Rightarrow> if d = CHR '','' then prepend [(k, v)] (parse_props n ds)
                                else if d = CHR ''}'' then Some ([(k, v)], ds) else None
                     | [] \<Rightarrow> None))
             | [] \<Rightarrow> None))
     | [] \<Rightarrow> None)"

definition json_parse :: "string \<Rightarrow> jserr + jsval" where
  "json_parse s = (case parse_value (Suc (length s)) s of
       Some (v, rest) \<Rightarrow> if skip_ws rest = [] then Inr v else Inl (SyntaxErr ''Unexpected token in JSON'')
     | None \<Rightarrow> Inl (SyntaxErr ''Unexpected token in JSON''))"

declare parse_chars.simps [simp del] parse_value.simps [simp del] parse_items.simps [simp del] parse_props.simps [simp del]

subsection \<open>Reading back\<close>

text \<open>Objects whose property names are distinct, at every level.\<close>

fun wf_deep :: "jsval \<Rightarrow> bool" where
  "wf_deep (JArr vs) = (\<forall>v \<in> set vs. wf_deep v)"
| "wf_deep (JObj ps) = (distinct (map fst ps) \<and> (\<forall>p \<in> set ps. wf_deep (snd p)))"
| "wf_deep v = True"

lemma hex_val_chr: "d < 16 \<Longrightarrow> hex_val (hex_chr d) = Some d"
  by (auto simp: hex_val_def hex_chr_def Let_def)

lemma parse_chars_end [simp]: "parse_chars (CHR 0x22 # cs) = Some ([], cs)"
  by (simp add: parse_chars.simps)

lemma parse_chars_short: "e \<noteq> CHR ''u'' \<Longrightarrow> unescape e = Some u \<Longrightarrow>
    parse_chars (CHR 0x5C # e # es) = prepend [u] (parse_chars es)"
  by (subst parse_chars.simps) simp

lemma parse_chars_unicode: "hex4 h1 h2 h3 h4 = Some n \<Longrightarrow>
    parse_chars (CHR 0x5C # CHR ''u'' # h1 # h2 # h3 # h4 # rest) = prepend (utf8 n) (parse_chars rest)"
  by (subst parse_chars.simps) simp

lemma parse_chars_plain: "(of_char c :: nat) \<notin> {34, 92} \<Longrightarrow> (of_char c :: nat) \<ge> 32 \<Longrightarrow>
    parse_chars (c # cs) = prepend [c] (parse_chars cs)"
  by (subst parse_chars.simps) auto

lemma parse_chars_escape: "parse_chars (json_escape c @ rest) = prepend [c] (parse_chars rest)"
proof -
  let ?n = "of_char c :: nat"
  consider "?n \<in> {34, 92, 8, 9, 10, 12, 13}" | "?n \<notin> {34, 92, 8, 9, 10, 12, 13}" "?n < 32" | "?n \<notin> {34, 92}" "?n \<ge> 32"
    by force
  then show ?thesis
  proof cases
    case 1
    then have "?n \<in> {of_char (CHR 0x22), of_char (CHR 0x5C), of_char (CHR 0x08), of_char (CHR 0x09), of_char (CHR 0x0A),
        of_char (CHR 0x0C), of_char (CHR 0x0D)}" by simp
    then have "c \<in> {CHR 0x22, CHR 0x5C, CHR 0x08, CHR 0x09, CHR 0x0A, CHR 0x0C, CHR 0x0D}"
      by (simp only: insert_iff empty_iff of_char_eq_iff)
    then show ?thesis
      by (elim insertE emptyE) (simp_all add: json_escape_def parse_chars_short unescape_def)
  next
    case 2
    have "hex_val (CHR ''0'') = Some 0" by (simp add: hex_val_def)
    moreover have "?n div 16 < 16" using 2 by simp
    ultimately have "hex4 (CHR ''0'') (CHR ''0'') (hex_chr (?n div 16)) (hex_chr (?n mod 16)) = Some ?n"
      by (simp add: hex4_def hex_val_chr)
    with 2 show ?thesis by (simp add: json_escape_def Let_def parse_chars_unicode utf8_def)
  next
    case 3
    then show ?thesis by (simp add: json_escape_def Let_def parse_chars_plain)
  qed
qed

lemma prepend_prepend [simp]: "prepend xs (prepend ys r) = prepend (xs @ ys) r"
  by (cases r) (auto simp: prepend_def)

lemma prepend_Some [simp]: "prepend xs (Some (ys, r)) = Some (xs @ ys, r)"
  by (simp add: prepend_def)

lemma parse_chars_quoted: "parse_chars (concat (map json_escape s) @ CHR 0x22 # rest) = Some (s, rest)"
  by (induction s) (simp_all add: parse_chars_escape)

text \<open>What may follow a number: nothing that would continue it.\<close>

definition ends_number :: "string \<Rightarrow> bool" where
  "ends_number rest = (rest = [] \<or> \<not> is_digit (hd rest) \<and> hd rest \<notin> {CHR ''.'', CHR ''e'', CHR ''E''})"

lemma show_nat_lead: "n \<ge> 10 \<Longrightarrow> hd (show_nat n) \<noteq> CHR ''0''"
proof (induction n rule: show_nat.induct)
  case (1 n)
  have "hd (show_nat n) = hd (show_nat (n div 10))" using 1 by (subst show_nat.simps) (simp add: hd_append)
  moreover have "hd (show_nat (n div 10)) \<noteq> CHR ''0''"
  proof (cases "n div 10 < 10")
    case True
    have "digit_val (digit_chr (n div 10)) \<noteq> digit_val (CHR ''0'')"
      using 1 True by (simp add: digit_val_chr) (simp add: digit_val_def)
    then have "digit_chr (n div 10) \<noteq> CHR ''0''" by metis
    then show ?thesis using True by (subst show_nat.simps) simp
  qed (use 1 in simp)
  ultimately show ?case by simp
qed

lemma takeWhile_show_nat:
  assumes "ends_number rest"
  shows "takeWhile is_digit (show_nat n @ rest) = show_nat n" "dropWhile is_digit (show_nat n @ rest) = rest"
  using assms show_nat_digits [of _ n]
  by (cases rest; simp add: ends_number_def takeWhile_append dropWhile_append)+

lemma parse_digits_show_nat:
  assumes "ends_number rest"
  shows "parse_digits neg (show_nat n @ rest) = Some (JNum (if neg then - int n else int n), rest)"
proof -
  have "\<not> (length (show_nat n) > 1 \<and> hd (show_nat n) = CHR ''0'')"
    using show_nat_lead [of n] by (cases "n < 10") (simp_all add: show_nat.simps [of n])
  then have ok: "\<not> (show_nat n = [] \<or> (length (show_nat n) > 1 \<and> hd (show_nat n) = CHR ''0'') \<or>
      (rest \<noteq> [] \<and> hd rest \<in> {CHR ''.'', CHR ''e'', CHR ''E''}))"
    using assms by (auto simp: ends_number_def)
  show ?thesis
    unfolding parse_digits_def Let_def takeWhile_show_nat [OF assms] if_not_P [OF ok] by simp
qed

lemma digit_plain: "is_digit c \<Longrightarrow> \<not> json_ws c \<and> c \<notin> {CHR ''-'', CHR ''['', CHR ''{'', CHR '']'', CHR 0x22, CHR ''n'', CHR ''t'', CHR ''f''}"
  by (auto simp: json_ws_def is_digit_def)

lemma number_head:
  "c = CHR ''-'' \<or> is_digit c \<Longrightarrow> \<not> json_ws c \<and> c \<notin> {CHR ''['', CHR ''{'', CHR '']'', CHR 0x22, CHR ''n'', CHR ''t'', CHR ''f''}"
  using digit_plain [of c] by (elim disjE) (simp_all add: json_ws_def)

lemma show_int_head:
  obtains c cs where "show_int i = c # cs" "c = CHR ''-'' \<or> is_digit c"
proof (cases "show_int i")
  case Nil
  then show ?thesis by (simp add: show_int_def split: if_splits)
next
  case (Cons c cs)
  moreover from Cons have "c = CHR ''-'' \<or> c \<in> set (show_nat (nat i))" by (auto simp: show_int_def split: if_splits)
  ultimately show ?thesis using that show_nat_digits by blast
qed

lemma skip_ws_Cons [simp]:
  "skip_ws (CHR ''['' # s) = CHR ''['' # s" "skip_ws (CHR ''{'' # s) = CHR ''{'' # s" "skip_ws (CHR 0x22 # s) = CHR 0x22 # s"
  "skip_ws (CHR ''n'' # s) = CHR ''n'' # s" "skip_ws (CHR ''t'' # s) = CHR ''t'' # s" "skip_ws (CHR ''f'' # s) = CHR ''f'' # s"
  "skip_ws (CHR '','' # s) = CHR '','' # s" "skip_ws (CHR '']'' # s) = CHR '']'' # s" "skip_ws (CHR ''}'' # s) = CHR ''}'' # s"
  "skip_ws (CHR '':'' # s) = CHR '':'' # s" "skip_ws [] = []"
  by (simp_all add: skip_ws_def json_ws_def)

lemma parse_value_atom:
  assumes "\<not> json_ws c" "c \<noteq> CHR ''[''" "c \<noteq> CHR ''{''"
  shows "parse_value (Suc n) (c # cs) = parse_atom (c # cs)"
  using assms by (simp add: parse_value.simps skip_ws_def)

lemma parse_value_number:
  assumes "ends_number rest"
  shows "parse_value (Suc n) (show_int i @ rest) = Some (JNum i, rest)"
proof -
  obtain c cs where c: "show_int i = c # cs" "c = CHR ''-'' \<or> is_digit c" by (rule show_int_head)
  then have plain: "\<not> json_ws c" "c \<noteq> CHR ''[''" "c \<noteq> CHR ''{''" "c \<noteq> CHR 0x22" "c \<noteq> CHR ''n''" "c \<noteq> CHR ''t''" "c \<noteq> CHR ''f''"
    using number_head by blast+
  have "parse_number (show_int i @ rest) = Some (JNum i, rest)"
  proof (cases "i < 0")
    case True
    then show ?thesis using parse_digits_show_nat [OF assms, of True "nat (- i)"] by (simp add: show_int_def parse_number_def)
  next
    case False
    then have "is_digit c" using c show_nat_digits [of c "nat i"] by (simp add: show_int_def)
    then have "c \<noteq> CHR ''-''" using digit_plain by blast
    then have "parse_number (c # cs @ rest) = parse_digits False (c # cs @ rest)" by (simp add: parse_number_def)
    moreover have "show_int i = show_nat (nat i)" using False by (simp add: show_int_def)
    ultimately show ?thesis using False c(1) parse_digits_show_nat [OF assms, of False "nat i"] by (metis append_Cons int_nat_eq linorder_not_less)
  qed
  then show ?thesis using c(1) plain by (simp add: parse_value_atom parse_atom_def)
qed

lemma ends_number_Cons [simp]:
  "ends_number (CHR '','' # s)" "ends_number (CHR '']'' # s)" "ends_number (CHR ''}'' # s)" "ends_number []"
  by (simp_all add: ends_number_def is_digit_def)

lemma json_quote_eq: "json_quote s @ rest = CHR 0x22 # concat (map json_escape s) @ CHR 0x22 # rest"
  by (simp add: json_quote_def)

text \<open>No text is empty, and none begins with what closes an array.\<close>

lemma json_text_head:
  assumes "json_text v = Inr (Some t)"
  shows "\<exists>c cs. t = c # cs \<and> \<not> json_ws c \<and> c \<noteq> CHR '']''"
proof (cases v)
  case (JNum i)
  obtain c cs where "show_int i = c # cs" "c = CHR ''-'' \<or> is_digit c" by (rule show_int_head)
  moreover from this have "\<not> json_ws c" "c \<noteq> CHR '']''" using number_head by blast+
  ultimately show ?thesis using JNum assms by (intro exI [of _ c] exI [of _ cs]) auto
qed (use assms in \<open>auto simp: act_ok json_quote_def json_ws_def\<close>)

lemma json_items_head:
  assumes "json_items vs = Inr ts" "vs \<noteq> []"
  shows "\<exists>c cs. join '','' ts = c # cs \<and> \<not> json_ws c \<and> c \<noteq> CHR '']''"
proof -
  obtain v vs' where "vs = v # vs'" using assms(2) by (cases vs) auto
  then obtain t ts' where t: "json_text v = Inr t" "ts = (case t of None \<Rightarrow> ''null'' | Some s \<Rightarrow> s) # ts'"
    using assms(1) by (auto simp: act_ok)
  have "\<exists>c cs. (case t of None \<Rightarrow> ''null'' | Some s \<Rightarrow> s) = c # cs \<and> \<not> json_ws c \<and> c \<noteq> CHR '']''"
    using json_text_head [of v] t(1) by (cases t) (auto simp: json_ws_def)
  then show ?thesis using t(2) by (cases ts') auto
qed

lemma json_undef: "json_text v = Inr None \<longleftrightarrow> v = JUndef"
  by (cases v) (auto simp: act_ok)

lemma json_copy_undef: "json_copy v = Inr JUndef \<longleftrightarrow> v = JUndef"
  by (cases v) (auto simp: act_ok)

lemma parse_word_value: "parse_value (Suc n) (''null'' @ r) = Some (JNull, r)"
  by (simp add: parse_value_atom json_ws_def parse_atom_def parse_word_def)

lemma json_props_none: "json_props ps = Inr ts \<Longrightarrow> ts = [] \<Longrightarrow> json_copy_props ps = Inr qs \<Longrightarrow> qs = []"
proof (induction ps arbitrary: qs)
  case (Cons p ps)
  then show ?case by (cases p) (auto simp: act_ok json_undef split: option.splits)
qed simp

lemma json_props_head: "json_props ps = Inr ts \<Longrightarrow> ts \<noteq> [] \<Longrightarrow> \<exists>cs. join '','' ts = CHR 0x22 # cs"
proof (induction ps arbitrary: ts)
  case (Cons p ps)
  obtain k v where p: "p = (k, v)" by force
  obtain t ts' where t: "json_props ps = Inr ts'" "ts = (case t of None \<Rightarrow> ts' | Some s \<Rightarrow> (json_quote k @ '':'' @ s) # ts')"
    using Cons.prems(1) p by (auto simp: act_ok)
  then show ?case using Cons.IH [OF t(1)] Cons.prems(2) by (cases t; cases ts') (auto simp: json_quote_def)
qed simp

lemma spread_distinct: "distinct (map fst (acc @ ps)) \<Longrightarrow> spread acc ps = acc @ ps"
proof (induction ps arbitrary: acc)
  case (Cons p ps)
  have "fst p \<notin> set (map fst acc)" using Cons.prems by auto
  then have "oset acc (fst p) (snd p) = acc @ [p]" by (induction acc) (auto simp: oset_def)
  with Cons.prems Cons.IH [of "acc @ [p]"] show ?case by (cases p) simp
qed simp

lemma json_copy_props_keys: "json_copy_props ps = Inr qs \<Longrightarrow> k \<in> fst ` set qs \<Longrightarrow> k \<in> fst ` set ps"
proof (induction ps arbitrary: qs)
  case (Cons p ps)
  obtain k v where p: "p = (k, v)" by force
  obtain u qs' where u: "json_copy_props ps = Inr qs'" "qs = (if u = JUndef then qs' else (k, u) # qs')"
    using Cons.prems(1) p by (auto simp: act_ok)
  then show ?case using Cons.IH [OF u(1)] Cons.prems(2) p by (auto split: if_splits)
qed simp

lemma json_copy_props_distinct:
  "json_copy_props ps = Inr qs \<Longrightarrow> distinct (map fst ps) \<Longrightarrow> distinct (map fst qs)"
proof (induction ps arbitrary: qs)
  case (Cons p ps)
  obtain k v where p: "p = (k, v)" by force
  obtain u qs' where u: "json_copy v = Inr u" "json_copy_props ps = Inr qs'" "qs = (if u = JUndef then qs' else (k, u) # qs')"
    using Cons.prems(1) p by (auto simp: act_ok)
  have "k \<notin> fst ` set qs'" using json_copy_props_keys [OF u(2)] Cons.prems(2) p by auto
  then show ?case using Cons.IH [OF u(2)] Cons.prems(2) u(3) p by simp
qed simp

lemma parse_text:
  "json_text v = Inr (Some t) \<Longrightarrow> json_copy v = Inr u \<Longrightarrow> wf_deep v \<Longrightarrow> ends_number rest \<Longrightarrow> length t < n \<Longrightarrow>
     parse_value n (t @ rest) = Some (u, rest)"
  "json_items vs = Inr ts \<Longrightarrow> json_copy_items vs = Inr us \<Longrightarrow> \<forall>v \<in> set vs. wf_deep v \<Longrightarrow> vs \<noteq> [] \<Longrightarrow>
     length (join '','' ts) + 1 < n \<Longrightarrow> parse_items n (join '','' ts @ CHR '']'' # rest) = Some (us, rest)"
  "json_props ps = Inr ts \<Longrightarrow> json_copy_props ps = Inr qs \<Longrightarrow> \<forall>p \<in> set ps. wf_deep (snd p) \<Longrightarrow> ts \<noteq> [] \<Longrightarrow>
     length (join '','' ts) + 1 < n \<Longrightarrow> parse_props n (join '','' ts @ CHR ''}'' # rest) = Some (qs, rest)"
proof (induction v and vs and ps arbitrary: t u rest n and ts us rest n and ts qs rest n rule: json_text_json_items_json_props.induct)
  case 1
  then show ?case by simp
next
  case 2
  then show ?case by (cases n) (auto simp: parse_value_atom json_ws_def parse_atom_def parse_word_def)
next
  case (3 b)
  then show ?case by (cases n) (auto simp: parse_value_atom json_ws_def parse_atom_def parse_word_def)
next
  case (4 i)
  then show ?case by (cases n) (auto simp: parse_value_number)
next
  case 5
  then show ?case by (cases n) (auto simp: parse_value_atom json_ws_def parse_atom_def parse_word_def)
next
  case (6 i)
  then show ?case by simp
next
  case (7 s)
  then show ?case by (cases n) (auto simp: json_quote_eq parse_value_atom json_ws_def parse_atom_def parse_chars_quoted)
next
  case (8 vs)
  obtain m where n: "n = Suc m" using 8 by (cases n) auto
  obtain ts us where i: "json_items vs = Inr ts" "t = CHR ''['' # join '','' ts @ '']''" "json_copy_items vs = Inr us" "u = JArr us"
    using "8.prems"(1,2) by (auto simp: act_ok)
  show ?case
  proof (cases "vs = []")
    case True
    then show ?thesis using i n by (simp add: parse_value.simps)
  next
    case False
    obtain d ds where d: "join '','' ts @ CHR '']'' # rest = d # ds" "\<not> json_ws d" "d \<noteq> CHR '']''"
      using json_items_head [OF i(1) False] by (metis append_Cons)
    have "parse_items m (join '','' ts @ CHR '']'' # rest) = Some (us, rest)"
      using "8.IH" [OF i(1,3)] "8.prems"(3,5) False i(2) n by simp
    then show ?thesis using d by (simp add: i n parse_value.simps) (simp add: skip_ws_def)
  qed
next
  case (9 ps)
  obtain m where n: "n = Suc m" using 9 by (cases n) auto
  obtain ts qs where i: "json_props ps = Inr ts" "t = CHR ''{'' # join '','' ts @ ''}''" "json_copy_props ps = Inr qs" "u = JObj qs"
    using "9.prems"(1,2) by (auto simp: act_ok)
  show ?case
  proof (cases "ts = []")
    case True
    then have "qs = []" using json_props_none [OF i(1) _ i(3)] by simp
    then show ?thesis using True i n by (simp add: parse_value.simps)
  next
    case False
    obtain ds where d: "join '','' ts @ CHR ''}'' # rest = CHR 0x22 # ds"
      using json_props_head [OF i(1) False] by (metis append_Cons)
    have "parse_props m (join '','' ts @ CHR ''}'' # rest) = Some (qs, rest)"
      using "9.IH" [OF i(1,3)] "9.prems"(3,5) False i(2) n by simp
    moreover have "spread [] qs = qs"
      using spread_distinct [of "[]" qs] json_copy_props_distinct [OF i(3)] "9.prems"(3) by simp
    ultimately show ?thesis using d by (simp add: i n parse_value.simps)
  qed
next
  case 10
  then show ?case by simp
next
  case (11 v vs)
  obtain m where n: "n = Suc m" using "11.prems" by (cases n) auto
  obtain t ts' where t: "json_text v = Inr t" "json_items vs = Inr ts'"
    and ts: "ts = (case t of None \<Rightarrow> ''null'' | Some s \<Rightarrow> s) # ts'" using "11.prems"(1) by (auto simp: act_ok)
  obtain u us' where u: "json_copy v = Inr u" "json_copy_items vs = Inr us'"
    and us: "us = (if u = JUndef then JNull else u) # us'" using "11.prems"(2) by (auto simp: act_ok)
  let ?s = "case t of None \<Rightarrow> ''null'' | Some s \<Rightarrow> s" and ?u = "if u = JUndef then JNull else u"
  have val: "parse_value m (?s @ r) = Some (?u, r)" if "ends_number r" "length ?s < m" for r
  proof (cases t)
    case None
    then have "v = JUndef" using t(1) by (simp add: json_undef)
    then show ?thesis using u(1) None that parse_word_value by (cases m) auto
  next
    case (Some s)
    have "v \<noteq> JUndef" using t(1) Some by auto
    then have "u \<noteq> JUndef" using u(1) json_copy_undef by blast
    then show ?thesis using "11.IH"(1) [OF _ u(1) _ that(1)] t(1) Some that "11.prems"(3) by simp
  qed
  show ?case
  proof (cases vs)
    case Nil
    then show ?thesis using t u ts us val [of "CHR '']'' # rest"] "11.prems"(5) n by (simp add: parse_items.simps)
  next
    case (Cons v' vs')
    then obtain x xs where ts': "ts' = x # xs" using t(2) by (auto simp: act_ok)
    have "parse_items m (join '','' ts' @ CHR '']'' # rest) = Some (us', rest)"
      using "11.IH"(2) [OF t(2) u(2)] "11.prems"(3,5) Cons ts ts' n by simp
    then show ?thesis using ts ts' us val [of "CHR '','' # join '','' ts' @ CHR '']'' # rest"] "11.prems"(5) n
      by (simp add: parse_items.simps)
  qed
next
  case 12
  then show ?case by simp
next
  case (13 k v ps)
  obtain m where n: "n = Suc m" using "13.prems" by (cases n) auto
  obtain t ts' where t: "json_text v = Inr t" "json_props ps = Inr ts'"
    and ts: "ts = (case t of None \<Rightarrow> ts' | Some s \<Rightarrow> (json_quote k @ '':'' @ s) # ts')" using "13.prems"(1) by (auto simp: act_ok)
  obtain u qs' where u: "json_copy v = Inr u" "json_copy_props ps = Inr qs'"
    and qs: "qs = (if u = JUndef then qs' else (k, u) # qs')" using "13.prems"(2) by (auto simp: act_ok)
  show ?case
  proof (cases t)
    case None
    then have "v = JUndef" using t(1) by (simp add: json_undef)
    then have "u = JUndef" using u(1) by simp
    then show ?thesis using "13.IH"(2) [OF t(2) u(2)] "13.prems"(3-5) ts qs None by simp
  next
    case (Some s)
    then have "u \<noteq> JUndef" using t(1) u(1) json_copy_undef by fastforce
    have val: "parse_value m (s @ r) = Some (u, r)" if "ends_number r" "length s < m" for r
      using "13.IH"(1) [OF _ u(1) _ that(1)] t(1) Some that "13.prems"(3) by simp
    show ?thesis
    proof (cases ts')
      case Nil
      then have "qs' = []" using json_props_none [OF t(2) _ u(2)] by simp
      then show ?thesis using Nil Some ts qs \<open>u \<noteq> JUndef\<close> val [of "CHR ''}'' # rest"] "13.prems"(5) n
        by (simp add: parse_props.simps json_quote_eq parse_chars_quoted)
    next
      case (Cons x xs)
      have "parse_props m (join '','' ts' @ CHR ''}'' # rest) = Some (qs', rest)"
        using "13.IH"(2) [OF t(2) u(2)] "13.prems"(3,5) Cons ts Some n by simp
      then show ?thesis using Cons Some ts qs \<open>u \<noteq> JUndef\<close> val [of "CHR '','' # join '','' ts' @ CHR ''}'' # rest"] "13.prems"(5) n
        by (simp add: parse_props.simps json_quote_eq parse_chars_quoted)
    qed
  qed
qed

lemma json_parse_text:
  assumes "json_text v = Inr (Some t)" "json_copy v = Inr u" "wf_deep v"
  shows "json_parse t = Inr u"
  using parse_text(1) [OF assms, of "[]" "Suc (length t)"] by (simp add: json_parse_def)

text \<open>\<open>JSON.parse(JSON.stringify(v))\<close> is the copy of \<open>v\<close>.\<close>

lemma json_copy_isl:
  "isl (json_copy v) \<longleftrightarrow> isl (json_text v)" "isl (json_copy_items vs) \<longleftrightarrow> isl (json_items vs)"
  "isl (json_copy_props ps) \<longleftrightarrow> isl (json_props ps)"
  by (induction v and vs and ps rule: json_text_json_items_json_props.induct) (auto simp: isl_bindE not_isl_iff)

lemma json_round_trip:
  assumes "json_stringify v = Inr (JStr t)" "wf_deep v"
  shows "\<exists>u. json_copy v = Inr u \<and> json_parse t = Inr u"
proof -
  have t: "json_text v = Inr (Some t)" using assms(1) by (auto simp: json_stringify_def act_ok split: option.splits)
  then obtain u where "json_copy v = Inr u" using json_copy_isl(1) [of v] by (cases "json_copy v") auto
  with t assms(2) show ?thesis using json_parse_text by blast
qed

text \<open>Values that are read back as they were written.\<close>

definition json_plain :: "jsval list \<Rightarrow> bool" where
  "json_plain txs = (wf_deep (JArr txs) \<and> json_copy (JArr txs) = Inr (JArr txs))"

lemma json_plain_text:
  assumes "json_plain txs"
  shows "\<exists>t. json_stringify (JArr txs) = Inr (JStr t) \<and> json_parse t = Inr (JArr txs)"
proof -
  have "\<not> isl (json_text (JArr txs))" using assms json_copy_isl(1) [of "JArr txs"] by (simp add: json_plain_def)
  then obtain r where r: "json_text (JArr txs) = Inr r" unfolding not_isl_iff [symmetric] ..
  moreover have "r \<noteq> None" using r json_undef [of "JArr txs"] by auto
  ultimately obtain t where "json_stringify (JArr txs) = Inr (JStr t)" by (auto simp: json_stringify_def)
  then show ?thesis using json_round_trip [of "JArr txs" t] assms by (auto simp: json_plain_def)
qed

end
