(* ===== verification/StateData.thy ===== *)
theory StateData
  imports PosData MusicData JsonParse
begin

text \<open>
  The queries over tokens, accounts, validators, the network, other chains, events and schemas:
  \<open>dataService/business/token.js\<close>, \<open>legacy/legacy.js\<close>, \<open>auth\<close>, \<open>validator\<close>, \<open>network.js\<close>,
  \<open>interoperability/blockchainApps.js\<close> and \<open>blockchainAppsStats.js\<close>, \<open>events.js\<close>, \<open>postTransactions.js\<close>,
  \<open>transactionsDryRun.js\<close> and \<open>schemas.js\<close>.
\<close>

definition plain_answer :: "jsval \<Rightarrow> jsval" where
  "plain_answer data = JObj [(''data'', data), (''meta'', JObj [])]"

subsection \<open>token.js\<close>

definition LENGTH_CHAIN_ID :: nat where "LENGTH_CHAIN_ID = 4 * 2"
definition LENGTH_TOKEN_LOCAL_ID :: nat where "LENGTH_TOKEN_LOCAL_ID = 4 * 2"
definition LENGTH_TOKEN_ID :: nat where "LENGTH_TOKEN_ID = LENGTH_CHAIN_ID + LENGTH_TOKEN_LOCAL_ID"
definition LENGTH_NETWORK_ID :: nat where "LENGTH_NETWORK_ID = 1 * 2"
definition PATTERN_ANY_TOKEN_ID :: string where "PATTERN_ANY_TOKEN_ID = ''*''"
definition PATTERN_ANY_CHAIN_TOKEN_ID :: string where
  "PATTERN_ANY_CHAIN_TOKEN_ID = replicate LENGTH_TOKEN_LOCAL_ID (CHR ''*'')"

definition getTokenBalances :: "ext \<Rightarrow> obj \<Rightarrow> jsval iact" where
  "getTokenBalances X params =
     (let tokenID = oget params ''tokenID''; address = oget params ''address'' in
      if truthy tokenID \<and> \<not> truthy address
      then throw (InvalidParamsErr ''tokenID based retrieval is only possible along with address.'')
      else bnd (if truthy tokenID \<and> truthy address
                then bnd (requestConnector X ''getTokenBalance'' (JObj [(''address'', address), (''tokenID'', tokenID)])) (\<lambda>r.
                     ret [JObj (oset (own_props r) ''tokenID'' tokenID)])
                else bnd (requestConnector X ''getTokenBalances'' (JObj [(''address'', address)])) (\<lambda>r.
                     bnd (propA r ''balances'') (\<lambda>b. if truthy b then liftE (js_iter b) else ret []))) (\<lambda>tokensInfo.
      bnd (liftE (slice_page tokensInfo (oget params ''offset'') (oget params ''limit''))) (\<lambda>page.
      ret (JObj [(''data'', JArr page), (''meta'', JObj [(''address'', address), (''count'', JNum (int (length page))),
        (''offset'', oget params ''offset''), (''total'', JNum (int (length tokensInfo)))])]))))"

text \<open>
  The lists of supported tokens: everything, exact identifiers, patterns. The flag that every
  token is supported is set under the name \<open>isSupportAllToken\<close>, while \<open>isSupportAllTokens\<close> keeps its
  initial value.
\<close>

record supported_tokens =
  st_all :: bool
  st_exact :: "jsval list"
  st_pattern :: "jsval list"

definition classify_token :: "supported_tokens \<Rightarrow> jsval \<Rightarrow> jserr + supported_tokens" where
  "classify_token st tokenID =
     (if tokenID = JStr PATTERN_ANY_TOKEN_ID then Inr (st\<lparr>st_all := True\<rparr>)
      else bindE (as_str tokenID) (\<lambda>t.
        Inr (if drop LENGTH_CHAIN_ID t = PATTERN_ANY_CHAIN_TOKEN_ID then st\<lparr>st_pattern := st_pattern st @ [tokenID]\<rparr>
             else st\<lparr>st_exact := st_exact st @ [tokenID]\<rparr>)))"

definition supported_object :: "supported_tokens \<Rightarrow> obj" where
  "supported_object st =
     spread [(''isSupportAllTokens'', JBool False), (''exactTokenIDs'', JArr (st_exact st)), (''patternTokenIDs'', JArr (st_pattern st))]
       (if st_all st then [(''isSupportAllToken'', JBool True)] else [])"

definition getTokenSummary :: "ext \<Rightarrow> jsval iact" where
  "getTokenSummary X =
     bnd (requestConnector X ''getEscrowedAmounts'' JUndef) (\<lambda>r1. bnd (propA r1 ''escrowedAmounts'') (\<lambda>escrowedAmounts.
     bnd (requestConnector X ''getTotalSupply'' JUndef) (\<lambda>r2. bnd (propA r2 ''totalSupply'') (\<lambda>totalSupply.
     bnd (requestConnector X ''getSupportedTokens'' JUndef) (\<lambda>r3. bnd (propA r3 ''supportedTokens'') (\<lambda>sv.
     bnd (elemsA sv) (\<lambda>supportedTokenIDs.
     bnd (liftE (foldE classify_token \<lparr>st_all = False, st_exact = [], st_pattern = []\<rparr> supportedTokenIDs)) (\<lambda>st.
     ret (plain_answer (JObj [(''escrowedAmounts'', escrowedAmounts),
       (''supportedTokens'', JObj (spread (supported_object st)
          [(''exactTokenIDs'', JArr (dropDuplicates (st_exact st))), (''patternTokenIDs'', JArr (dropDuplicates (st_pattern st)))])),
       (''totalSupply'', totalSupply)]))))))))))"

definition tokenHasUserAccount :: "ext \<Rightarrow> obj \<Rightarrow> jsval iact" where
  "tokenHasUserAccount X params =
     bnd (stakes_address X params) (\<lambda>p.
     let address = oget p ''address'' in
     if truthy address
     then bnd (requestConnector X ''tokenHasUserAccount'' (JObj [(''address'', address), (''tokenID'', oget params ''tokenID'')])) (\<lambda>r.
          bnd (propA r ''exists'') (\<lambda>e. ret (plain_answer (JObj [(''isExists'', e)]))))
     else ret (plain_answer (JObj [(''isExists'', JBool False)])))"

definition getTokenConstants :: "ext \<Rightarrow> jsval iact" where
  "getTokenConstants X =
     bnd (getA tokenConstants) (\<lambda>known.
     thn (if own_props known \<noteq> [] then ret ()
          else bnd (requestConnector X ''getTokenInitializationFees'' JUndef) (\<lambda>fees.
               bnd (propA fees ''userAccount'') (\<lambda>user. bnd (propA fees ''escrowAccount'') (\<lambda>escrow.
               modA (\<lambda>w. w\<lparr>tokenConstants := JObj [(''extraCommandFees'', JObj [
                 (''userAccountInitializationFee'', user), (''escrowAccountInitializationFee'', escrow)])]\<rparr>)))))
     (bnd (getA tokenConstants) (\<lambda>c. ret (plain_answer c))))"

subsection \<open>legacy.js, auth and validator\<close>

definition getLegacyAccountInfo :: "ext \<Rightarrow> jsval \<Rightarrow> jsval iact" where
  "getLegacyAccountInfo X params =
     bnd (propA params ''publicKey'') (\<lambda>publicKey.
     bnd (requestConnector X ''getLegacyAccount'' (JObj [(''publicKey'', publicKey)])) (\<lambda>r.
     bnd (liftE (getLegacyAddressFromPublicKey X publicKey)) (\<lambda>legacy.
     bnd (propA r ''balance'') (\<lambda>balance.
     bnd (lisk32A X publicKey) (\<lambda>address.
     ret (JObj [(''data'', JObj [(''legacyAddress'', legacy), (''balance'', balance)]),
       (''meta'', JObj [(''address'', address), (''publicKey'', publicKey)])]))))))"

definition account_meta :: "ext \<Rightarrow> jsval \<Rightarrow> jsval iact" where
  "account_meta X address =
     bnd (getIndexedAccountInfo X [(''address'', address), (''limit'', JNum 1)] (Some [''name'', ''publicKey''])) (\<lambda>info.
     let ob = own_props info in
     ret (JObj [(''address'', address), (''name'', js_or (oget ob ''name'') JNull), (''publicKey'', js_or (oget ob ''publicKey'') JNull)]))"

definition getAuthAccountInfo :: "ext \<Rightarrow> jsval \<Rightarrow> jsval iact" where
  "getAuthAccountInfo X params =
     bnd (propA params ''address'') (\<lambda>address.
     bnd (requestConnector X ''getAuthAccount'' (JObj [(''address'', address)])) (\<lambda>r.
     bnd (account_meta X address) (\<lambda>meta.
     ret (JObj [(''data'', parseToJSONCompatObj r), (''meta'', meta)]))))"

definition getAuthMultiSigRegMsgSchema :: "ext \<Rightarrow> jsval iact" where
  "getAuthMultiSigRegMsgSchema X =
     bnd (getRegisteredModules X) (\<lambda>mv. bnd (elemsA mv) (\<lambda>modules.
     if js_includes modules (JStr ''auth'')
     then bnd (requestConnector X ''getAuthMultiSigRegMsgSchema'' JUndef) (\<lambda>r. bnd (propA r ''schema'') (\<lambda>schema.
          ret (JObj [(''moduleCommand'', JStr ''auth:registerMultisignature''), (''param'', JStr ''signatures''), (''schema'', schema)])))
     else ret JNull))"

definition getValidator :: "ext \<Rightarrow> jsval \<Rightarrow> jsval iact" where
  "getValidator X params =
     bnd (propA params ''address'') (\<lambda>address.
     bnd (requestConnector X ''getValidator'' (JObj [(''address'', address)])) (\<lambda>r.
     bnd (account_meta X address) (\<lambda>meta. ret (JObj [(''data'', r), (''meta'', meta)]))))"

definition validateBLSKey :: "ext \<Rightarrow> jsval \<Rightarrow> jsval iact" where
  "validateBLSKey X params =
     bnd (propA params ''blsKey'') (\<lambda>blsKey. bnd (propA params ''proofOfPossession'') (\<lambda>proof.
     bnd (requestConnector X ''validateBLSKey'' (JObj [(''blsKey'', blsKey), (''proofOfPossession'', proof)])) (\<lambda>r.
     bnd (propA r ''valid'') (\<lambda>valid. ret (plain_answer (JObj [(''isValid'', valid)]))))))"

subsection \<open>postTransactions.js and transactionsDryRun.js\<close>

definition postTransactions :: "ext \<Rightarrow> jsval \<Rightarrow> jsval iact" where
  "postTransactions X params =
     bnd (propA params ''transaction'') (\<lambda>transaction.
     requestConnector X ''postTransaction'' (JObj [(''transaction'', transaction)]))"

text \<open>\<open>dataService/transactions.js\<close>: the answer to a client, whatever the node says.\<close>

definition service_postTransactions :: "ext \<Rightarrow> jsval \<Rightarrow> jsval iact" where
  "service_postTransactions X params = tryA
     (bnd (postTransactions X params) (\<lambda>r. bnd (propA r ''transactionId'') (\<lambda>transactionID.
      ret (JObj [(''message'', JStr ''Transaction payload was successfully passed to the network node''),
        (''transactionID'', transactionID)]))))
     (\<lambda>err. if str_includes ''ECONNREFUSED'' (err_message err)
        then ret (JObj [(''data'', JObj [(''error'', JStr ''Unable to reach a network node'')]),
          (''status'', JStr ''INTERNAL_SERVER_ERROR'')])
        else ret (JObj [(''data'', JObj [(''error'', JStr (''Transaction payload was rejected by the network node: '' @ err_message err))]),
          (''status'', JStr ''BAD_REQUEST'')]))"

definition TRANSACTION_VERIFY_RESULT :: "(string \<times> int) list" where
  "TRANSACTION_VERIFY_RESULT = [(''INVALID'', -1), (''PENDING'', 0), (''OK'', 1)]"

definition dryRunTransactions :: "ext \<Rightarrow> jsval \<Rightarrow> jsval iact" where
  "dryRunTransactions X params =
     bnd (propA params ''transaction'') (\<lambda>transaction. bnd (propA params ''skipVerify'') (\<lambda>skipVerify.
     bnd (propA params ''skipDecode'') (\<lambda>skipDecode.
     bnd (requestConnector X ''dryRunTransaction''
            (JObj [(''transaction'', transaction), (''skipVerify'', skipVerify), (''skipDecode'', skipDecode)])) (\<lambda>r.
     bnd (propA r ''result'') (\<lambda>result.
     case List.find (\<lambda>e. JNum (snd e) = result) TRANSACTION_VERIFY_RESULT of
       None \<Rightarrow> throw (TypeErr ''Cannot read properties of undefined (reading 'toLowerCase')'')
     | Some e \<Rightarrow> ret (plain_answer (JObj (oset (own_props r) ''status'' (JStr (to_lower (fst e)))))))))))"

subsection \<open>network.js\<close>

definition getNetworkStatus :: "ext \<Rightarrow> jsval iact" where
  "getNetworkStatus X =
     bnd (requestConnector X ''getNetworkStatus'' JUndef) (\<lambda>s0.
     bnd (getAvailableModuleCommands X) (\<lambda>commands. bnd (liftE (js_setprop s0 ''moduleCommands'' commands)) (\<lambda>s1.
     bnd (getRegisteredModules X) (\<lambda>modules. bnd (liftE (js_setprop s1 ''registeredModules'' modules)) (\<lambda>s2.
     bnd (propA s2 ''chainID'') (\<lambda>chainID. bnd (liftE (js_setprop s2 ''constants'' (JObj [(''chainID'', chainID)]))) (\<lambda>status.
     bnd (propA status ''height'') (\<lambda>height. bnd (propA status ''lastBlockID'') (\<lambda>lastBlockID.
     ret (JObj [(''data'', status), (''meta'', JObj [(''lastUpdate'', JNum (now_seconds X)),
       (''lastBlockHeight'', height), (''lastBlockID'', lastBlockID)])]))))))))))"

definition peer_filters :: "string list" where
  "peer_filters = [''ip'', ''httpPort'', ''wsPort'', ''os'', ''version'', ''networkVersion'', ''height'', ''broadhash'']"

definition peer_matches :: "obj \<Rightarrow> string list \<Rightarrow> jsval \<Rightarrow> jserr + bool" where
  "peer_matches params activeFilters peer =
     bindE (mapE (js_prop peer) activeFilters) (\<lambda>vs.
     Inr (list_all (\<lambda>(p, v). strict_eq (oget params p) v) (zip activeFilters vs)))"

text \<open>The comparators return a boolean, which counts as 0 or 1.\<close>

definition compare_version :: "jsval \<Rightarrow> jsval \<Rightarrow> jserr + int" where
  "compare_version a b =
     bindE (js_prop a ''version'') (\<lambda>x. bindE (js_prop b ''version'') (\<lambda>y. Inr (if js_lt y x then 1 else 0)))"

definition compare_height :: "jsval \<Rightarrow> jsval \<Rightarrow> jserr + int" where
  "compare_height a b =
     bindE (js_prop a ''height'') (\<lambda>x. bindE (js_prop b ''height'') (\<lambda>y.
     Inr (if js_lt (js_number x) (js_number y) then 1 else 0)))"

definition sort_peers :: "jsval list \<Rightarrow> string \<Rightarrow> jserr + jsval list" where
  "sort_peers peers p =
     (let property = split_first '':'' p in
     bindE (if property = ''version'' then js_sort compare_version peers
            else if property = ''height'' then js_sort compare_height peers else Inr peers) (\<lambda>xs.
     Inr (if split_second '':'' p = Some ''asc'' then rev xs else xs)))"

text \<open>\<open>/^.+:(asc|desc)$/\<close>: the dot does not match a line break.\<close>

definition sort_wanted :: "string \<Rightarrow> bool" where
  "sort_wanted p = list_ex (\<lambda>suf. length suf < length p \<and> drop (length p - length suf) p = suf \<and>
     list_all (\<lambda>c. c \<notin> {CHR 0x0A, CHR 0x0D}) (take (length p - length suf) p)) ['':asc'', '':desc'']"

definition page_peers :: "obj \<Rightarrow> jsval list \<Rightarrow> jserr + jsval list \<times> jsval" where
  "page_peers params peers =
     (let offset = oget params ''offset''; limit = oget params ''limit'' in
      if truthy offset \<or> truthy limit then
        let from = (if truthy offset then offset else JNum 0) in
        bindE (js_add (js_or limit (JNum (int (length peers)))) from) (\<lambda>to. Inr (slice_vals peers from to, from))
      else Inr (peers, offset))"

definition getNetworkPeers :: "ext \<Rightarrow> obj \<Rightarrow> jsval iact" where
  "getNetworkPeers X params =
     (let state = (if truthy (oget params ''state'') then Some (to_lower (js_string (oget params ''state''))) else None) in
     bnd (requestConnector X (if state = Some ''connected'' then ''getNetworkConnectedPeers''
            else if state = Some ''disconnected'' then ''getNetworkDisconnectedPeers'' else ''getNetworkPeers'') JUndef) (\<lambda>pv.
     bnd (elemsA pv) (\<lambda>peers.
     let activeFilters = filter (\<lambda>p. ohas params p \<and> truthy (oget params p)) peer_filters in
     bnd (liftE (filterE (peer_matches params activeFilters) peers)) (\<lambda>filtered.
     bnd (case oget params ''sort'' of
            JStr s \<Rightarrow> if sort_wanted s then liftE (sort_peers filtered s) else ret filtered
          | _ \<Rightarrow> ret filtered) (\<lambda>sorted_peers.
     bnd (liftE (page_peers params sorted_peers)) (\<lambda>(page, offset).
     ret (JObj [(''data'', JArr page), (''meta'', JObj [(''count'', JNum (int (length page))), (''offset'', offset),
       (''total'', JNum (int (length peers)))])])))))))"

definition getNetworkConnectedPeers :: "ext \<Rightarrow> obj \<Rightarrow> jsval iact" where
  "getNetworkConnectedPeers X params = getNetworkPeers X (oset params ''state'' (JStr ''connected''))"

definition getNetworkDisconnectedPeers :: "ext \<Rightarrow> obj \<Rightarrow> jsval iact" where
  "getNetworkDisconnectedPeers X params = getNetworkPeers X (oset params ''state'' (JStr ''disconnected''))"

definition getNetworkPeersStatistics :: "ext \<Rightarrow> jsval iact" where
  "getNetworkPeersStatistics X = bnd (requestConnector X ''getNetworkPeersStatistics'' JUndef) (\<lambda>r. ret (plain_answer r))"

subsection \<open>interoperability\<close>

definition pad_end :: "nat \<Rightarrow> char \<Rightarrow> string \<Rightarrow> string" where
  "pad_end n c s = s @ replicate (n - length s) c"

text \<open>A comma-separated parameter moved into \<open>whereIn\<close>.\<close>

definition move_whereIn :: "string \<Rightarrow> obj \<Rightarrow> jserr + obj" where
  "move_whereIn p params =
     (if truthy (oget params p) then
        bindE (as_str (oget params p)) (\<lambda>s. bindE (js_elems (oget params ''whereIn'')) (\<lambda>conds.
        Inr (oset (omit [p] params) ''whereIn''
          (JArr (conds @ [JObj [(''property'', JStr p), (''values'', JArr (map JStr (js_split '','' s)))]])))))
      else Inr params)"

definition app_escrow :: "jsval \<Rightarrow> jsval list \<Rightarrow> jsval \<Rightarrow> jserr + jsval" where
  "app_escrow chainID escrowedAmounts app =
     bindE (js_prop app ''chainID'') (\<lambda>appChain.
     bindE (filterE (\<lambda>e. bindE (js_prop e ''escrowChainID'') (\<lambda>c. Inr (strict_eq c appChain))) escrowedAmounts) (\<lambda>escrow.
     bindE (if escrow \<noteq> [] then Inr (JArr escrow)
            else bindE (as_str chainID) (\<lambda>s. Inr (JArr [JObj [
              (''tokenID'', JStr (pad_end LENGTH_TOKEN_ID (CHR ''0'') (take LENGTH_NETWORK_ID s))), (''amount'', JStr ''0'')]]))) (\<lambda>ev.
     Inr (JObj (oset (own_props app) ''escrow'' ev)))))"

definition getBlockchainApps :: "ext \<Rightarrow> obj \<Rightarrow> jsval iact" where
  "getBlockchainApps X params0 =
     bnd (liftE (move_whereIn ''chainID'' (oset params0 ''whereIn'' (JArr [])))) (\<lambda>p1.
     bnd (liftE (move_whereIn ''status'' (resolve_search p1))) (\<lambda>params.
     bnd (table_count (kx X) blockchainAppsTableSchema params) (\<lambda>count_total.
     bnd (table_find (kx X) blockchainAppsTableSchema (oset params ''limit'' (js_or (oget params ''limit'') (JNum count_total)))
            (Some (map fst (schema blockchainAppsTableSchema)))) (\<lambda>apps.
     bnd (getNetworkStatus X) (\<lambda>r. bnd (pathA r [''data'', ''chainID'']) (\<lambda>chainID.
     bnd (requestConnector X ''getEscrowedAmounts'' JUndef) (\<lambda>e. bnd (propA e ''escrowedAmounts'') (\<lambda>ev.
     bnd (if apps = [] then ret [] else bnd (elemsA ev) (\<lambda>escrowedAmounts.
            liftE (mapE (app_escrow chainID escrowedAmounts) apps))) (\<lambda>data.
     ret (response data (oget params ''offset'') (JNum count_total)))))))))))"

definition getBlockchainAppsStatistics :: "jsval iact" where
  "getBlockchainAppsStatistics = bnd (getA blockchainAppsStatsCache) (\<lambda>c. ret (plain_answer c))"

definition reloadBlockchainAppsStats :: "ext \<Rightarrow> unit iact" where
  "reloadBlockchainAppsStats X = tryA
     (bnd (table_count (kx X) blockchainAppsTableSchema [(''status'', JStr ''active'')]) (\<lambda>active.
      bnd (table_count (kx X) blockchainAppsTableSchema [(''status'', JStr ''registered'')]) (\<lambda>registered.
      bnd (table_count (kx X) blockchainAppsTableSchema [(''status'', JStr ''terminated'')]) (\<lambda>terminated.
      bnd (requestConnector X ''getTotalSupply'' JUndef) (\<lambda>r. bnd (propA r ''totalSupply'') (\<lambda>sv. bnd (elemsA sv) (\<lambda>supplies.
      bnd (propA (js_first supplies) ''totalSupply'') (\<lambda>totalSupply.
      bnd (getNetworkStatus X) (\<lambda>status. bnd (pathA status [''data'', ''height'']) (\<lambda>height.
      bnd (getAnnualInflation X (JObj [(''height'', height)])) (\<lambda>inflation. bnd (pathA inflation [''data'', ''rate'']) (\<lambda>rate.
      bnd (getTotalStaked X) (\<lambda>staked. bnd (propA staked ''amount'') (\<lambda>totalStaked.
      modA (\<lambda>w. w\<lparr>blockchainAppsStatsCache := JObj [(''registered'', JNum registered), (''active'', JNum active),
        (''terminated'', JNum terminated), (''totalSupplyLSK'', totalSupply), (''totalStakedLSK'', totalStaked),
        (''currentAnnualInflationRate'', rate)]\<rparr>)))))))))))))))
     (\<lambda>_. ret ())"

subsection \<open>events.js: getEvents\<close>

text \<open>\<open>params.topic\<close> becomes a condition on the column; a transaction or a sender is searched as a topic.\<close>

definition topic_whereIn :: "obj \<Rightarrow> jserr + obj" where
  "topic_whereIn params =
     (if truthy (oget params ''topic'') then
        bindE (as_str (oget params ''topic'')) (\<lambda>s.
        Inr (oset (omit [''topic''] params) ''whereIn'' (JObj [(''property'', JStr ''topic''), (''values'', JArr (map JStr (js_split '','' s)))])))
      else Inr params)"

definition search_topic :: "string \<Rightarrow> obj \<Rightarrow> obj" where
  "search_topic p params =
     (if truthy (oget params p) then
        let rest = omit [p, ''topic''] params in
        if \<not> truthy (oget params ''topic'') then oset rest ''topic'' (oget params p)
        else oset rest ''andWhere'' (JObj [(''topic'', oget params p)])
      else params)"

definition block_of_event :: "ext \<Rightarrow> obj \<Rightarrow> obj iact" where
  "block_of_event X params =
     (if truthy (oget params ''blockID'') then
        let rest = omit [''blockID''] params in
        bnd (table_find (kx X) blocksTableSchema [(''id'', oget params ''blockID'')] (Some [''height''])) (\<lambda>rows.
        let block = js_first rows in
        bnd (if ohas rest ''height'' then bnd (propA block ''height'') (\<lambda>h. ret (\<not> strict_eq (oget rest ''height'') h)) else ret False) (\<lambda>clash.
        if clash then throw (NotFoundErr (''Invalid combination of blockID: '' @ js_string (oget params ''blockID'') @ '' and height: '' @
             js_string (oget rest ''height'')))
        else bnd (propA block ''height'') (\<lambda>h. ret (oset rest ''height'' h))))
      else ret params)"

text \<open>An event kept in the table is read back from its text; the others come from the node.\<close>

definition stored_event :: "ext \<Rightarrow> jsval \<Rightarrow> jserr + jsval" where
  "stored_event X eventStr =
     (if isPersistEvents X \<and> truthy eventStr then bindE (as_str eventStr) json_parse else Inr JUndef)"

fun find_index_event :: "jsval \<Rightarrow> jsval list \<Rightarrow> jserr + jsval" where
  "find_index_event index [] = Inr JUndef"
| "find_index_event index (e # es) =
     bindE (js_prop e ''index'') (\<lambda>i. if strict_eq i index then Inr e else find_index_event index es)"

definition event_entry :: "ext \<Rightarrow> jsval \<Rightarrow> jsval iact" where
  "event_entry X info =
     bnd (propA info ''eventStr'') (\<lambda>eventStr. bnd (propA info ''height'') (\<lambda>height. bnd (propA info ''index'') (\<lambda>index.
     bnd (liftE (stored_event X eventStr)) (\<lambda>kept.
     bnd (if truthy kept then ret kept
          else bnd (getEventsByHeight X height) (\<lambda>ev. bnd (elemsA ev) (\<lambda>events. liftE (find_index_event index events)))) (\<lambda>event.
     bnd (table_find (kx X) blocksTableSchema [(''height'', height)] (Some [''id'', ''timestamp''])) (\<lambda>rows.
     let block = js_default (js_first rows) (JObj []) in
     bnd (propA block ''id'') (\<lambda>blockID. bnd (propA block ''timestamp'') (\<lambda>timestamp.
     ret (parseToJSONCompatObj (JObj (oset (own_props event) ''block''
       (JObj [(''id'', blockID), (''height'', height), (''timestamp'', timestamp)]))))))))))))"

text \<open>The ranges and topics of a request, and then the transaction and the sender.\<close>

definition event_range :: "string \<Rightarrow> obj \<Rightarrow> jserr + obj" where
  "event_range p params = bindE (normalizeRangeParam (JObj params) p) (\<lambda>r. Inr (own_props r))"

definition event_filters :: "obj \<Rightarrow> jserr + obj" where
  "event_filters params0 =
     bindE (case oget params0 ''height'' of
              JStr s \<Rightarrow> if s \<noteq> [] \<and> str_includes '':'' s then event_range ''height'' params0 else Inr params0
            | _ \<Rightarrow> Inr params0) (\<lambda>p1.
     bindE (includes_colon (oget p1 ''timestamp'')) (\<lambda>b.
     bindE (if b then event_range ''timestamp'' p1 else Inr p1) topic_whereIn))"

definition event_params :: "obj \<Rightarrow> jserr + obj" where
  "event_params params =
     bindE (event_filters params) (\<lambda>p. Inr (search_topic ''senderAddress'' (search_topic ''transactionID'' p)))"

text \<open>\<open>params.sort.replace('timestamp', 'height')\<close>: the first occurrence.\<close>

fun replace_first :: "string \<Rightarrow> string \<Rightarrow> string \<Rightarrow> string" where
  "replace_first old new [] = []"
| "replace_first old new (c # cs) =
     (if take (length old) (c # cs) = old then new @ drop (length old) (c # cs) else c # replace_first old new cs)"

definition getEvents :: "ext \<Rightarrow> obj \<Rightarrow> jsval iact" where
  "getEvents X params0 =
     bnd (liftE (event_params params0)) (\<lambda>p4.
     bnd (block_of_event X p4) (\<lambda>params.
     let wanted = oset params ''distinct'' (JStr ''eventID'') in
     bnd (table_find (kx X) eventTopicsTableSchema wanted (Some [''eventID''])) (\<lambda>rows.
     bnd (liftE (mapE (\<lambda>r. js_prop r ''eventID'') rows)) (\<lambda>eventIDs.
     bnd (liftE (as_str (oget params ''sort''))) (\<lambda>sort.
     bnd (table_find (kx X) eventsTableSchema [(''whereIn'', JObj [(''property'', JStr ''id''), (''values'', JArr eventIDs)]),
            (''order'', oget params ''order''), (''sort'', JStr (replace_first ''timestamp'' ''height'' sort))]
            (Some [''eventStr'', ''height'', ''index''])) (\<lambda>eventsInfo.
     bnd (mapA (event_entry X) eventsInfo) (\<lambda>data.
     bnd (table_count (kx X) eventTopicsTableSchema wanted) (\<lambda>count_total.
     ret (response data (oget params ''offset'') (JNum count_total))))))))))"

subsection \<open>schemas.js\<close>

definition schema_field :: "string \<Rightarrow> nat \<Rightarrow> (string \<times> jsval) list \<Rightarrow> jsval" where
  "schema_field dataType n bounds = JObj ((''dataType'', JStr dataType) # bounds @ [(''fieldNumber'', JNum (int n))])"

definition len_bounds :: "int \<Rightarrow> int \<Rightarrow> obj" where
  "len_bounds lo hi = [(''minLength'', JNum lo), (''maxLength'', JNum hi)]"

definition ccmSchema :: jsval where
  "ccmSchema = JObj [(''$id'', JStr ''/modules/interoperability/ccm''), (''type'', JStr ''object''),
     (''required'', JArr (map JStr [''module'', ''crossChainCommand'', ''nonce'', ''fee'', ''sendingChainID'', ''receivingChainID'', ''params'', ''status''])),
     (''properties'', JObj [
       (''module'', schema_field ''string'' 1 (len_bounds 1 32)),
       (''crossChainCommand'', schema_field ''string'' 2 (len_bounds 1 32)),
       (''nonce'', schema_field ''uint64'' 3 []),
       (''fee'', schema_field ''uint64'' 4 []),
       (''sendingChainID'', schema_field ''bytes'' 5 (len_bounds 4 4)),
       (''receivingChainID'', schema_field ''bytes'' 6 (len_bounds 4 4)),
       (''params'', schema_field ''bytes'' 7 []),
       (''status'', schema_field ''uint32'' 8 [])])]"

definition getSchemasFromNode :: "ext \<Rightarrow> (jsval \<times> jsval \<times> jsval list) iact" where
  "getSchemasFromNode X =
     bnd (requestConnector X ''getSystemMetadata'' JUndef) (\<lambda>systemMetadata.
     bnd (requestConnector X ''getSchema'' JUndef) (\<lambda>schemas.
     bnd (getAuthMultiSigRegMsgSchema X) (\<lambda>m. ret (schemas, systemMetadata, if truthy m then [m] else []))))"

definition listed :: "string \<Rightarrow> (jsval \<Rightarrow> jsval \<Rightarrow> jserr + jsval) \<Rightarrow> jsval \<Rightarrow> jserr + jsval list" where
  "listed p f module =
     bindE (js_prop module p) (\<lambda>xv. bindE (js_elems xv) (\<lambda>xs. bindE (js_prop module ''name'') (\<lambda>name. mapE (f name) xs)))"

definition event_schema :: "jsval \<Rightarrow> jsval \<Rightarrow> jserr + jsval" where
  "event_schema name event = bindE (js_prop event ''name'') (\<lambda>n. bindE (js_prop event ''data'') (\<lambda>d.
     Inr (JObj [(''module'', name), (''name'', n), (''schema'', d)])))"

definition asset_schema :: "jsval \<Rightarrow> jsval \<Rightarrow> jserr + jsval" where
  "asset_schema name asset = bindE (js_prop asset ''version'') (\<lambda>v. bindE (js_prop asset ''data'') (\<lambda>d.
     Inr (JObj [(''module'', name), (''version'', v), (''schema'', d)])))"

definition command_schema :: "jsval \<Rightarrow> jsval \<Rightarrow> jserr + jsval" where
  "command_schema name command = bindE (js_prop command ''name'') (\<lambda>n. bindE (js_prop command ''params'') (\<lambda>d.
     Inr (JObj [(''moduleCommand'', JStr (js_string name @ '':'' @ js_string n)), (''schema'', d)])))"

definition add_schemas :: "obj \<Rightarrow> unit iact" where
  "add_schemas ps = modA (\<lambda>w. w\<lparr>allSchemas := JObj (spread (own_props (allSchemas w)) ps)\<rparr>)"

text \<open>The variable is set to the empty object first and filled as the answers arrive.\<close>

definition getAllSchemas :: "ext \<Rightarrow> jsval iact" where
  "getAllSchemas X =
     bnd (getA allSchemas) (\<lambda>known.
     thn (if truthy known then ret ()
          else thn (modA (\<lambda>w. w\<lparr>allSchemas := JObj []\<rparr>)) (
               bnd (getSchemasFromNode X) (\<lambda>(schemas, systemMetadata, messages).
               bnd (propA systemMetadata ''modules'') (\<lambda>mv. bnd (elemsA mv) (\<lambda>modules.
               bnd (liftE (mapE (\<lambda>m. bindE (listed ''events'' event_schema m) (\<lambda>es. bindE (listed ''assets'' asset_schema m) (\<lambda>as.
                      bindE (listed ''commands'' command_schema m) (\<lambda>cs. Inr (es, as, cs))))) modules)) (\<lambda>parts.
               thn (add_schemas [(''assets'', JArr (concat (map (fst \<circ> snd) parts))), (''commands'', JArr (concat (map (snd \<circ> snd) parts))),
                      (''events'', JArr (concat (map fst parts)))])
               (bnd (if schemas = JUndef \<or> schemas = JNull then throw (TypeErr ''Cannot convert undefined or null to object'') else ret ()) (\<lambda>_.
               thn (add_schemas (map (\<lambda>(entity, s). (entity, JObj [(''schema'', s)])) (own_props schemas)))
               (add_schemas [(''messages'', JArr messages), (''ccm'', JObj [(''schema'', ccmSchema)])])))))))))
     (getA allSchemas))"

definition getSchemas :: "ext \<Rightarrow> jsval iact" where
  "getSchemas X = bnd (getAllSchemas X) (\<lambda>r. ret (plain_answer (if truthy r then r else JObj [])))"

end
