(* ===== verification/Controllers.thy ===== *)
theory Controllers
  imports StateData TxData Gateway IndexStatus
begin

text \<open>
  The methods the indexer offers to the gateway, \<open>methods/dataService/controllers\<close>: each calls the
  data service, fills in the parts of the answer and turns the exceptions of the framework into
  a status. Their names carry the prefix \<open>api\<close>. Also \<open>shared/accountUtils.js\<close>, \<open>shared/utils/token.js\<close>, and the
  listeners of \<open>events/blockchain.js\<close>, each with the value it hands to its callback.
\<close>

subsection \<open>Answers\<close>

text \<open>\<open>{ data: d, meta: {} }\<close> with what the response has of both.\<close>

definition answer :: "jsval \<Rightarrow> jsval iact \<Rightarrow> jsval iact" where
  "answer d act =
     bnd act (\<lambda>r. bnd (propA r ''data'') (\<lambda>data. bnd (propA r ''meta'') (\<lambda>meta.
     ret (JObj [(''data'', js_or data d), (''meta'', js_or meta (JObj []))]))))"

definition status_answer :: "jsval \<Rightarrow> jserr \<Rightarrow> jsval" where
  "status_answer status e = JObj [(''status'', status), (''data'', JObj [(''error'', JStr (err_message e))])]"

definition with_status :: "(jserr \<Rightarrow> jsval option) \<Rightarrow> jsval iact \<Rightarrow> jsval iact" where
  "with_status st act = tryA act (\<lambda>e. case st e of Some s \<Rightarrow> ret (status_answer s e) | None \<Rightarrow> throw e)"

definition invalid_status :: "jserr \<Rightarrow> jsval option" where
  "invalid_status e = (case e of InvalidParamsErr _ \<Rightarrow> Some (JStr ''INVALID_PARAMS'') | _ \<Rightarrow> None)"

definition validation_status :: "jserr \<Rightarrow> jsval option" where
  "validation_status e = (case e of ValidationErr _ \<Rightarrow> Some (JNum 400) | _ \<Rightarrow> None)"

definition param_status :: "jserr \<Rightarrow> jsval option" where
  "param_status e = (case validation_status e of Some s \<Rightarrow> Some s | None \<Rightarrow> invalid_status e)"

definition missing_status :: "jserr \<Rightarrow> jsval option" where
  "missing_status e = (case e of NotFoundErr _ \<Rightarrow> Some (JNum 404) | _ \<Rightarrow> None)"

subsection \<open>audios.js, collections.js, profiles.js, subscriptions.js\<close>

definition api_getAudios :: "ext \<Rightarrow> obj \<Rightarrow> jsval iact" where
  "api_getAudios X params = with_status param_status (answer (JArr []) (getAudios X params))"

definition api_getCollections :: "ext \<Rightarrow> obj \<Rightarrow> jsval iact" where
  "api_getCollections X params = with_status param_status (answer (JArr []) (getCollections X params))"

definition api_getProfiles :: "ext \<Rightarrow> obj \<Rightarrow> jsval iact" where
  "api_getProfiles X params = with_status param_status (answer (JArr []) (getProfiles X params))"

definition api_getSubscriptions :: "ext \<Rightarrow> obj \<Rightarrow> jsval iact" where
  "api_getSubscriptions X params = with_status param_status (answer (JArr []) (getSubscriptions X params))"

subsection \<open>blocks.js and events.js\<close>

definition linked :: "jsval iact \<Rightarrow> jsval iact" where
  "linked act = bnd act (\<lambda>r. bnd (propA r ''data'') (\<lambda>data. bnd (propA r ''meta'') (\<lambda>meta.
     ret (JObj [(''data'', data), (''meta'', meta), (''links'', JObj [])]))))"

definition api_getBlocks :: "ext \<Rightarrow> obj \<Rightarrow> jsval iact" where
  "api_getBlocks X params = with_status validation_status (linked (getBlocks X params))"

definition api_getBlocksAssets :: "ext \<Rightarrow> obj \<Rightarrow> jsval iact" where
  "api_getBlocksAssets X params = with_status validation_status (linked (getBlocksAssets X params))"

definition api_getEvents :: "ext \<Rightarrow> obj \<Rightarrow> jsval iact" where
  "api_getEvents X params = with_status missing_status (answer (JObj []) (getEvents X params))"

subsection \<open>pos.js, generators.js and dynamicReward.js\<close>

definition api_getPosValidators :: "ext \<Rightarrow> obj \<Rightarrow> jsval iact" where
  "api_getPosValidators X params = with_status param_status (answer (JArr []) (getPosValidators X params))"

definition api_getPosConstants :: "ext \<Rightarrow> jsval iact" where
  "api_getPosConstants X = answer (JObj []) (getPosConstants X)"

definition api_getPosUnlocks :: "ext \<Rightarrow> obj \<Rightarrow> jsval iact" where
  "api_getPosUnlocks X params = answer (JObj []) (getPosUnlocks X params)"

definition api_getStakes :: "ext \<Rightarrow> obj \<Rightarrow> jsval iact" where
  "api_getStakes X params = answer (JObj []) (getStakes X params)"

definition api_getStakers :: "ext \<Rightarrow> obj \<Rightarrow> jsval iact" where
  "api_getStakers X params = answer (JObj []) (getStakers X params)"

definition api_getPosClaimableRewards :: "ext \<Rightarrow> obj \<Rightarrow> jsval iact" where
  "api_getPosClaimableRewards X params = answer (JArr []) (getPosClaimableRewards X params)"

definition api_getPosLockedRewards :: "ext \<Rightarrow> obj \<Rightarrow> jsval iact" where
  "api_getPosLockedRewards X params = with_status invalid_status (answer (JArr []) (getPosLockedRewards X params))"

definition api_getGenerators :: "ext \<Rightarrow> jsval \<Rightarrow> jsval iact" where
  "api_getGenerators X params = answer (JObj []) (getGenerators X params)"

definition api_getDefaultRewardAtHeight :: "ext \<Rightarrow> jsval \<Rightarrow> jsval iact" where
  "api_getDefaultRewardAtHeight X params = answer (JObj []) (getDefaultRewardAtHeight X params)"

definition api_getAnnualInflation :: "ext \<Rightarrow> jsval \<Rightarrow> jsval iact" where
  "api_getAnnualInflation X params = answer (JObj []) (getAnnualInflation X params)"

definition api_getRewardConstants :: "ext \<Rightarrow> jsval iact" where
  "api_getRewardConstants X = answer (JObj []) (getRewardConstants X)"

subsection \<open>token.js, auth.js, validator.js and legacy.js\<close>

definition api_getTokenBalances :: "ext \<Rightarrow> obj \<Rightarrow> jsval iact" where
  "api_getTokenBalances X params = with_status invalid_status (answer (JArr []) (getTokenBalances X params))"

definition api_getTokenSummary :: "ext \<Rightarrow> jsval iact" where
  "api_getTokenSummary X = answer (JObj []) (getTokenSummary X)"

definition api_tokenHasUserAccount :: "ext \<Rightarrow> obj \<Rightarrow> jsval iact" where
  "api_tokenHasUserAccount X params = answer (JObj []) (tokenHasUserAccount X params)"

definition api_getTokenConstants :: "ext \<Rightarrow> jsval iact" where
  "api_getTokenConstants X = answer (JObj []) (getTokenConstants X)"

definition api_getAuthAccountInfo :: "ext \<Rightarrow> jsval \<Rightarrow> jsval iact" where
  "api_getAuthAccountInfo X params = answer (JObj []) (getAuthAccountInfo X params)"

definition api_getValidator :: "ext \<Rightarrow> jsval \<Rightarrow> jsval iact" where
  "api_getValidator X params = answer (JObj []) (getValidator X params)"

definition api_validateBLSKey :: "ext \<Rightarrow> jsval \<Rightarrow> jsval iact" where
  "api_validateBLSKey X params = answer (JObj []) (validateBLSKey X params)"

definition api_getLegacyAccountInfo :: "ext \<Rightarrow> jsval \<Rightarrow> jsval iact" where
  "api_getLegacyAccountInfo X params = answer (JObj []) (getLegacyAccountInfo X params)"

subsection \<open>network.js\<close>

definition locked_entry :: "jsval \<Rightarrow> jserr + jsval" where
  "locked_entry row =
     bindE (js_prop row ''key'') (\<lambda>kv. bindE (as_str kv) (\<lambda>key. bindE (js_prop row ''value'') (\<lambda>v.
     if v = JUndef \<or> v = JNull then Inl (TypeErr ''Cannot read properties of undefined (reading 'toString')'')
     else Inr (JObj [(''tokenID'', JStr (last (js_split TOTAL_LOCKED key))), (''amount'', JStr (js_string v))]))))"

definition getTotalLocked :: "ext \<Rightarrow> jsval iact" where
  "getTotalLocked X = bnd (getByPattern X TOTAL_LOCKED) (\<lambda>rows. bnd (liftE (mapE locked_entry rows)) (\<lambda>es. ret (JArr es)))"

definition api_getNetworkStatus :: "ext \<Rightarrow> jsval iact" where
  "api_getNetworkStatus X = answer (JObj []) (getNetworkStatus X)"

definition api_getNetworkStatistics :: "ext \<Rightarrow> jsval iact" where
  "api_getNetworkStatistics X =
     bnd (answer (JObj []) (getNetworkPeersStatistics X)) (\<lambda>stats.
     bnd (getTotalLocked X) (\<lambda>locked. bnd (getTotalStaked X) (\<lambda>staked. bnd (getTotalSelfStaked X) (\<lambda>selfStaked.
     bnd (propA stats ''data'') (\<lambda>data.
     bnd (liftE (bindE (js_setprop data ''totalLocked'' locked) (\<lambda>d. bindE (js_setprop d ''totalStaked'' staked) (\<lambda>d'.
            js_setprop d' ''totalSelfStaked'' selfStaked)))) (\<lambda>data'.
     liftE (js_setprop stats ''data'' data')))))))"

definition api_getNetworkPeers :: "ext \<Rightarrow> obj \<Rightarrow> jsval iact" where
  "api_getNetworkPeers X params = answer (JArr []) (getNetworkPeers X params)"

definition api_getNetworkConnectedPeers :: "ext \<Rightarrow> obj \<Rightarrow> jsval iact" where
  "api_getNetworkConnectedPeers X params = answer (JArr []) (getNetworkConnectedPeers X params)"

definition api_getNetworkDisconnectedPeers :: "ext \<Rightarrow> obj \<Rightarrow> jsval iact" where
  "api_getNetworkDisconnectedPeers X params = answer (JArr []) (getNetworkDisconnectedPeers X params)"

definition api_getNetworkPeersStatistics :: "ext \<Rightarrow> jsval iact" where
  "api_getNetworkPeersStatistics X = answer (JObj []) (getNetworkPeersStatistics X)"

subsection \<open>transactions.js and accountUtils.js\<close>

text \<open>\<open>/^lsk[a-hjkm-z2-9]{38}$/\<close>.\<close>

definition ADDRESS_LISK32 :: "string \<Rightarrow> bool" where
  "ADDRESS_LISK32 s = (take 3 s = ''lsk'' \<and> length s = 41 \<and>
     list_all (\<lambda>c. c \<in> set ''abcdefghjkmnopqrstuvwxyz23456789'') (drop 3 s))"

definition validateLisk32Address :: "jsval \<Rightarrow> bool" where
  "validateLisk32Address address = (case address of JStr s \<Rightarrow> ADDRESS_LISK32 s | _ \<Rightarrow> False)"

definition upper_chr :: "char \<Rightarrow> char" where
  "upper_chr c = (let n = of_char c :: nat in if 97 \<le> n \<and> n \<le> 122 then char_of (n - 32) else c)"

definition parseAddress :: "jsval \<Rightarrow> jsval" where
  "parseAddress address = (case address of JStr s \<Rightarrow> JStr (map upper_chr s) | _ \<Rightarrow> JStr [])"

definition getCachedAccountBy :: "ext \<Rightarrow> string \<Rightarrow> jsval \<Rightarrow> jsval iact" where
  "getCachedAccountBy X key v =
     bnd (table_find (kx X) accountsTableSchema (oset [(key, v)] ''limit'' (JNum 1)) (Some [''address'', ''name'', ''publicKey''])) (\<lambda>rows.
     let ob = own_props (js_first rows) in
     ret (if rows = [] then JNull
          else JObj (map (\<lambda>k. (k, oget ob k)) [''address'', ''name'', ''publicKey''])))"

definition confirmAddress :: "ext \<Rightarrow> jsval \<Rightarrow> jsval iact" where
  "confirmAddress X address =
     (if \<not> validateLisk32Address address then ret (JBool False)
      else bnd (getCachedAccountBy X ''address'' (parseAddress address)) (\<lambda>account.
        if truthy account then propA account ''address'' else ret account))"

definition api_getTransactions :: "ext \<Rightarrow> obj \<Rightarrow> jsval iact" where
  "api_getTransactions X params = with_status param_status
     (bnd (mapA (\<lambda>p. confirmAddress X (oget params p))
             (filter (\<lambda>p. js_typeof (oget params p) = ''string'') [''senderAddress'', ''recipientAddress'', ''address''])) (\<lambda>found.
      if js_includes found (JBool False) then ret (status_answer (JNum 404) (Err ''Not found.''))
      else bnd (getTransactions X (spread [(''sort'', JStr ''timestamp:desc'')] params)) (\<lambda>r.
        bnd (propA r ''data'') (\<lambda>data. bnd (elemsA data) (\<lambda>txs.
        bnd (pathA r [''meta'', ''offset'']) (\<lambda>offset. bnd (pathA r [''meta'', ''total'']) (\<lambda>tot. bnd (pathA r [''meta'', ''count'']) (\<lambda>count.
        ret (JObj [(''data'', data), (''meta'', JObj [(''count'', JNum (int (length txs))), (''offset'', js_or offset (JNum 0)),
          (''total'', js_or tot count)]), (''link'', JObj [])])))))))))"

definition api_getPendingTransactions :: "obj \<Rightarrow> jsval iact" where
  "api_getPendingTransactions params =
     bnd (getPendingTransactions params) (\<lambda>r. bnd (propA r ''data'') (\<lambda>data. bnd (propA r ''meta'') (\<lambda>meta.
     ret (JObj [(''data'', data), (''meta'', meta)]))))"

definition api_postTransactions :: "ext \<Rightarrow> jsval \<Rightarrow> jsval iact" where
  "api_postTransactions X params = service_postTransactions X params"

definition api_getSchemas :: "ext \<Rightarrow> jsval iact" where
  "api_getSchemas X = answer (JObj []) (getSchemas X)"

definition api_dryRunTransactions :: "ext \<Rightarrow> jsval \<Rightarrow> jsval iact" where
  "api_dryRunTransactions X params = dryRunTransactions X params"

subsection \<open>chain.js, blockchainApps.js and indexStatus.js\<close>

definition isMainchain :: "ext \<Rightarrow> bool iact" where
  "isMainchain X =
     bnd (getA ownChainID) (\<lambda>known.
     thn (if truthy known then ret ()
          else bnd (getNetworkStatus X) (\<lambda>r. bnd (pathA r [''data'', ''chainID'']) (\<lambda>chainID.
               modA (\<lambda>w. w\<lparr>ownChainID := chainID\<rparr>))))
     (bnd (getA ownChainID) (\<lambda>chainID. ret (MAINCHAIN_ID (js_string chainID)))))"

definition config_networks_LISK :: "ext \<Rightarrow> (string \<times> jsval) list" where
  "config_networks_LISK X = [
     (''00000000'', JStr ''https://service.lisk.com''), (''01000000'', JStr ''https://testnet-service.lisk.com''),
     (''02000000'', JStr ''https://betanet-service.lisk.com''), (''03000000'', JStr ''https://alphanet-service.liskdev.net''),
     (''04000000'', js_or (devnetMainchainUrl X) (JStr ''http://devnet-service.liskdev.net:9901''))]"

definition resolveMainchainServiceURL :: "ext \<Rightarrow> jsval iact" where
  "resolveMainchainServiceURL X =
     (if truthy (mainchainServiceUrl X) then ret (mainchainServiceUrl X)
      else bnd (getNetworkStatus X) (\<lambda>r. bnd (pathA r [''data'', ''chainID'']) (\<lambda>cv. bnd (liftE (as_str cv)) (\<lambda>chainID.
        ret (case map_of (config_networks_LISK X) (pad_end LENGTH_CHAIN_ID (CHR ''0'') (take 2 chainID)) of
               Some u \<Rightarrow> u | None \<Rightarrow> JUndef)))))"

text \<open>The HTTP client of the framework, run on its part of the state.\<close>

definition runHttp :: "jsval hact \<Rightarrow> jsval iact" where
  "runHttp act = (\<lambda>w. case act (http_state w) of (r, h) \<Rightarrow> (r, w\<lparr>http_state := h\<rparr>))"

definition api_getBlockchainApps :: "ext \<Rightarrow> obj \<Rightarrow> jsval iact" where
  "api_getBlockchainApps X params =
     bnd (isMainchain X) (\<lambda>main.
     if main then getBlockchainApps X params
     else bnd (resolveMainchainServiceURL X) (\<lambda>serviceURL.
       bnd (runHttp (http_request (http_lib_of X) (js_string serviceURL @ ''/api/v3/blockchain/apps'') params)) (\<lambda>r.
       propA r ''data'')))"

definition api_getBlockchainAppsStatistics :: "ext \<Rightarrow> jsval iact" where
  "api_getBlockchainAppsStatistics X =
     bnd (isMainchain X) (\<lambda>main.
     if main then getBlockchainAppsStatistics
     else bnd (resolveMainchainServiceURL X) (\<lambda>serviceURL.
       runHttp (http_get (http_lib_of X) (js_string serviceURL @ ''/api/v3/blockchain/apps/statistics'') [])))"

definition api_getIndexStatus :: "(jsval \<Rightarrow> jsval) \<Rightarrow> index_status \<Rightarrow> jserr + jsval" where
  "api_getIndexStatus to_number st =
     bindE (getIndexStatus to_number st) (\<lambda>r. bindE (js_prop r ''data'') (\<lambda>data. bindE (js_prop r ''meta'') (\<lambda>meta.
     Inr (JObj [(''data'', js_or data (JObj [])), (''meta'', js_or meta (JObj []))]))))"

subsection \<open>events/blockchain.js\<close>

definition announced :: "jsval \<Rightarrow> (jsval list \<Rightarrow> jsval option iact) \<Rightarrow> jsval option iact" where
  "announced payload body =
     (if \<not> truthy payload then ret None
      else bnd (propA payload ''data'') (\<lambda>dv. case dv of JArr blocks \<Rightarrow> body blocks | _ \<Rightarrow> ret None))"

definition newBlockListener :: "ext \<Rightarrow> jsval \<Rightarrow> jsval option iact" where
  "newBlockListener X payload = tryA
     (announced payload (\<lambda>blocks.
        bnd (propA (js_first blocks) ''id'') (\<lambda>_.
        thn (spawn (loadAllPendingTransactions X)) (ret (Some payload)))))
     (\<lambda>_. ret None)"

definition newTransactionsListener :: "ext \<Rightarrow> jsval \<Rightarrow> jsval option iact" where
  "newTransactionsListener X payload = tryA
     (announced payload (\<lambda>blocks.
        bnd (propA (js_first blocks) ''numberOfTransactions'') (\<lambda>n.
        if js_lt (JNum 0) n
        then bnd (propA (js_first blocks) ''id'') (\<lambda>blockID. bnd (getTransactionsByBlockID X blockID) (\<lambda>txs. ret (Some txs)))
        else ret None)))
     (\<lambda>_. ret None)"

definition deleteBlockListener :: "jsval \<Rightarrow> jsval option iact" where
  "deleteBlockListener payload = tryA (announced payload (\<lambda>_. ret (Some payload))) (\<lambda>_. ret None)"

definition deleteTransactionsListener :: "jsval \<Rightarrow> jsval option iact" where
  "deleteTransactionsListener payload = tryA (announced payload (\<lambda>_. ret (Some payload))) (\<lambda>_. ret None)"

definition generatorsChangeListener :: "ext \<Rightarrow> jsval option iact" where
  "generatorsChangeListener X = tryA
     (thn (reloadGeneratorsCache X)
       (bnd (getGenerators X (JObj [(''limit'', JNum 103), (''offset'', JNum 0)])) (\<lambda>g. ret (Some g))))
     (\<lambda>_. ret None)"

definition newRoundListener :: "jsval \<Rightarrow> jsval option iact" where
  "newRoundListener payload = ret (Some payload)"

definition indexStatusListener :: "jsval \<Rightarrow> jsval option iact" where
  "indexStatusListener payload = ret (Some payload)"

end
