(* ===== verification/DataProps.thy ===== *)
theory DataProps
  imports Controllers DbInvariant GatewayProps
begin

text \<open>
  What the queries of the indexer guarantee: they leave the index alone, stored events are read
  back, and errors of a request reach the client; and where filters and orders are lost.
\<close>

subsection \<open>Queries leave the index alone\<close>

lemma within_answer [confined]: "keeps (within T) act \<Longrightarrow> keeps (within T) (answer d act)"
  unfolding answer_def by (intro confined)

lemma within_linked [confined]: "keeps (within T) act \<Longrightarrow> keeps (within T) (linked act)"
  unfolding linked_def by (intro confined)

lemma within_with_status [confined]: "keeps (within T) act \<Longrightarrow> keeps (within T) (with_status st act)"
  unfolding with_status_def by (intro confined within_option)

lemma within_jsval_split [confined]:
  "(\<And>s. keeps (within T) (f s)) \<Longrightarrow> keeps (within T) g \<Longrightarrow> keeps (within T) (case v of JStr s \<Rightarrow> f s | _ \<Rightarrow> g)"
  by (cases v) auto

lemma within_sum_split [confined]:
  "(\<And>a. keeps (within T) (f a)) \<Longrightarrow> (\<And>b. keeps (within T) (g b)) \<Longrightarrow> keeps (within T) (case s of Inl a \<Rightarrow> f a | Inr b \<Rightarrow> g b)"
  by (cases s) auto

lemma within_token_queries [confined]:
  "keeps (within T) (getTokenBalances X p)" "keeps (within T) (getTokenSummary X)" "keeps (within T) (tokenHasUserAccount X p)"
  "keeps (within T) (getTokenConstants X)"
  unfolding getTokenBalances_def getTokenSummary_def tokenHasUserAccount_def getTokenConstants_def stakes_address_def
    getAddressByName_def Let_def
  by (intro confined within_modA; simp)+

lemma within_account_queries [confined]:
  "keeps (within T) (getLegacyAccountInfo X v)" "keeps (within T) (getAuthAccountInfo X v)" "keeps (within T) (getValidator X v)"
  "keeps (within T) (validateBLSKey X v)" "keeps (within T) (getAuthMultiSigRegMsgSchema X)"
  unfolding getLegacyAccountInfo_def getAuthAccountInfo_def getValidator_def validateBLSKey_def account_meta_def
    getAuthMultiSigRegMsgSchema_def Let_def
  by (intro confined)+

lemma within_reward_queries [confined]:
  "keeps (within T) (getRewardTokenID X)" "keeps (within T) (getRewardConstants X)" "keeps (within T) (getAnnualInflation X v)"
  "keeps (within T) (getDefaultRewardAtHeight X v)" "keeps (within T) (getPosLockedRewards X p)"
proof -
  show t: "keeps (within T) (getRewardTokenID X)" for T
    unfolding getRewardTokenID_def by (intro confined within_modA; simp)
  show "keeps (within T) (getRewardConstants X)" "keeps (within T) (getAnnualInflation X v)"
    "keeps (within T) (getDefaultRewardAtHeight X v)" "keeps (within T) (getPosLockedRewards X p)"
    unfolding getRewardConstants_def getAnnualInflation_def getDefaultRewardAtHeight_def getPosLockedRewards_def locked_address_def
    by (intro confined t)+
qed

lemma within_network_queries [confined]:
  "keeps (within T) (getNetworkStatus X)" "keeps (within T) (getNetworkPeers X p)" "keeps (within T) (getNetworkPeersStatistics X)"
  "keeps (within T) (getTotalStaked X)" "keeps (within T) (getTotalSelfStaked X)" "keeps (within T) (getTotalLocked X)"
  unfolding getNetworkStatus_def getNetworkPeers_def getNetworkPeersStatistics_def getTotalStaked_def getTotalSelfStaked_def
    getStakeInfo_def getTotalLocked_def getByPattern_def Let_def
  by (intro confined within_split)+

lemma within_schema_queries [confined]:
  "keeps (within T) (getSchemas X)" "keeps (within T) (service_postTransactions X v)" "keeps (within T) (dryRunTransactions X v)"
  unfolding getSchemas_def getAllSchemas_def getSchemasFromNode_def add_schemas_def postTransactions_def dryRunTransactions_def
    service_postTransactions_def
  by (intro confined within_modA within_split within_option; simp)+

lemma within_runHttp [confined]: "keeps (within T) (runHttp act)"
  by (auto simp: runHttp_def keeps_def within_def split: prod.splits)

lemma within_app_queries [confined]:
  "keeps (within T) (getBlockchainApps X p)" "keeps (within T) (isMainchain X)" "keeps (within T) (resolveMainchainServiceURL X)"
  unfolding getBlockchainApps_def isMainchain_def resolveMainchainServiceURL_def
  by (intro confined within_modA within_split within_option; simp)+

lemma within_event_queries [confined]: "keeps (within T) (getEvents X p)"
  unfolding getEvents_def block_of_event_def event_entry_def Let_def by (intro confined)

lemma within_getStakes [confined]: "keeps (within T) (getStakes X p)"
  unfolding getStakes_def stakes_address_def sent_stake_def getAddressByName_def Let_def by (intro confined)

lemma within_confirmAddress [confined]: "keeps (within T) (confirmAddress X a)"
  unfolding confirmAddress_def getCachedAccountBy_def Let_def by (intro confined)

lemma within_account_writers:
  assumes "sql_engine jc (kx X)"
  shows "keeps (within {''accounts''}) (getPosValidators X p)" "keeps (within {''accounts''}) (getPosUnlocks X p)"
    "keeps (within {''accounts''}) (getPosClaimableRewards X p)" "keeps (within {''accounts''}) (getStakers X p)"
    "keeps (within {''accounts''}) (getGenerators X v)" "keeps (within {''accounts''}) (getBlocksAssets X p)"
proof -
  note key = within_updateAccountPublicKey [OF assms] within_spawn [OF within_updateAccountPublicKey [OF assms]]
  show "keeps (within {''accounts''}) (getPosValidators X p)"
    unfolding getPosValidators_def resolve_publicKey_def validator_details_def getAllValidators_def Let_def
    by (intro confined key within_reloadValidatorCache [OF assms])
  show "keeps (within {''accounts''}) (getPosUnlocks X p)" "keeps (within {''accounts''}) (getPosClaimableRewards X p)"
    unfolding getPosUnlocks_def getPosClaimableRewards_def getAddressByName_def Let_def by (intro confined key)+
  show "keeps (within {''accounts''}) (getStakers X p)"
    unfolding getStakers_def stakers_publicKey_def stakers_name_def stakers_of_def stakers_search_def staker_entry_def Let_def
    by (intro confined key)
  show "keeps (within {''accounts''}) (getGenerators X v)"
    unfolding getGenerators_def getAllValidators_def
    by (intro confined within_business_getGenerators [OF assms] within_reloadValidatorCache [OF assms])
  show "keeps (within {''accounts''}) (getBlocksAssets X p)"
    unfolding getBlocksAssets_def business_getBlocksAssets_def block_assets_entry_def Let_def
    by (intro confined within_getBlocks [OF assms] within_getBlockByID [OF assms])
qed

text \<open>The methods that the indexer answers.\<close>

inductive api_query :: "ext \<Rightarrow> jsval iact \<Rightarrow> bool" for X where
  api_audios: "api_query X (api_getAudios X p)"
| api_collections: "api_query X (api_getCollections X p)"
| api_profiles: "api_query X (api_getProfiles X p)"
| api_subscriptions: "api_query X (api_getSubscriptions X p)"
| api_blocks: "api_query X (api_getBlocks X p)"
| api_assets: "api_query X (api_getBlocksAssets X p)"
| api_events: "api_query X (api_getEvents X p)"
| api_validators: "api_query X (api_getPosValidators X p)"
| api_constants: "api_query X (api_getPosConstants X)"
| api_unlocks: "api_query X (api_getPosUnlocks X p)"
| api_stakes: "api_query X (api_getStakes X p)"
| api_stakers: "api_query X (api_getStakers X p)"
| api_claimable: "api_query X (api_getPosClaimableRewards X p)"
| api_locked: "api_query X (api_getPosLockedRewards X p)"
| api_generators: "api_query X (api_getGenerators X v)"
| api_default_reward: "api_query X (api_getDefaultRewardAtHeight X v)"
| api_inflation: "api_query X (api_getAnnualInflation X v)"
| api_reward_constants: "api_query X (api_getRewardConstants X)"
| api_balances: "api_query X (api_getTokenBalances X p)"
| api_summary: "api_query X (api_getTokenSummary X)"
| api_has_account: "api_query X (api_tokenHasUserAccount X p)"
| api_token_constants: "api_query X (api_getTokenConstants X)"
| api_auth: "api_query X (api_getAuthAccountInfo X v)"
| api_validator: "api_query X (api_getValidator X v)"
| api_bls: "api_query X (api_validateBLSKey X v)"
| api_legacy: "api_query X (api_getLegacyAccountInfo X v)"
| api_status: "api_query X (api_getNetworkStatus X)"
| api_statistics: "api_query X (api_getNetworkStatistics X)"
| api_peers: "api_query X (api_getNetworkPeers X p)"
| api_connected: "api_query X (api_getNetworkConnectedPeers X p)"
| api_disconnected: "api_query X (api_getNetworkDisconnectedPeers X p)"
| api_peer_statistics: "api_query X (api_getNetworkPeersStatistics X)"
| api_transactions: "api_query X (api_getTransactions X p)"
| api_pending: "api_query X (api_getPendingTransactions p)"
| api_post: "api_query X (api_postTransactions X v)"
| api_schemas: "api_query X (api_getSchemas X)"
| api_dry_run: "api_query X (api_dryRunTransactions X v)"
| api_apps: "api_query X (api_getBlockchainApps X p)"
| api_apps_statistics: "api_query X (api_getBlockchainAppsStatistics X)"

lemmas api_defs = api_getAudios_def api_getCollections_def api_getProfiles_def api_getSubscriptions_def api_getBlocks_def
  api_getBlocksAssets_def api_getEvents_def api_getPosValidators_def api_getPosConstants_def api_getPosUnlocks_def
  api_getStakes_def api_getStakers_def api_getPosClaimableRewards_def api_getPosLockedRewards_def api_getGenerators_def
  api_getDefaultRewardAtHeight_def api_getAnnualInflation_def api_getRewardConstants_def api_getTokenBalances_def
  api_getTokenSummary_def api_tokenHasUserAccount_def api_getTokenConstants_def api_getAuthAccountInfo_def api_getValidator_def
  api_validateBLSKey_def api_getLegacyAccountInfo_def api_getNetworkStatus_def api_getNetworkStatistics_def api_getNetworkPeers_def
  api_getNetworkConnectedPeers_def api_getNetworkDisconnectedPeers_def api_getNetworkPeersStatistics_def api_getTransactions_def
  api_getPendingTransactions_def api_postTransactions_def api_getSchemas_def api_dryRunTransactions_def
  getNetworkConnectedPeers_def getNetworkDisconnectedPeers_def getPendingTransactions_def api_getBlockchainApps_def
  api_getBlockchainAppsStatistics_def getBlockchainAppsStatistics_def



subsection \<open>Stored events\<close>



subsection \<open>Filters and orders that are lost\<close>

text \<open>Requests that agree in everything but the transaction.\<close>

definition same_but_tx :: "obj \<Rightarrow> obj \<Rightarrow> bool" where
  "same_but_tx = list_all2 (\<lambda>a b. fst a = fst b \<and> (fst a \<noteq> ''transactionID'' \<longrightarrow> snd a = snd b))"

lemma same_but_tx_refl: "same_but_tx p p"
  by (simp add: same_but_tx_def list.rel_refl)

lemma same_but_tx_oget: "same_but_tx p q \<Longrightarrow> k \<noteq> ''transactionID'' \<Longrightarrow> oget p k = oget q k"
  unfolding same_but_tx_def by (induction rule: list_all2_induct) auto

lemma same_but_tx_oset: "same_but_tx p q \<Longrightarrow> k = ''transactionID'' \<or> v = u \<Longrightarrow> same_but_tx (oset p k v) (oset q k u)"
  unfolding same_but_tx_def by (induction rule: list_all2_induct) (auto simp: oset_def)

lemma same_but_tx_omit: "same_but_tx p q \<Longrightarrow> same_but_tx (omit ks p) (omit ks q)"
  unfolding same_but_tx_def by (induction rule: list_all2_induct) (auto simp: omit_def)

lemma same_but_tx_omitted: "same_but_tx p q \<Longrightarrow> ''transactionID'' \<in> set ks \<Longrightarrow> omit ks p = omit ks q"
  unfolding same_but_tx_def by (induction rule: list_all2_induct) (auto simp: omit_def prod_eq_iff)

lemma rel_bindE:
  "rel_sum (=) R m n \<Longrightarrow> (\<And>x y. R x y \<Longrightarrow> rel_sum (=) S (f x) (g y)) \<Longrightarrow> rel_sum (=) S (bindE m f) (bindE n g)"
  by (cases m; cases n) auto

declare oget_omit [simp]

lemma event_range_same:
  assumes "same_but_tx p q" "k \<noteq> ''transactionID''"
  shows "rel_sum (=) same_but_tx (event_range k p) (event_range k q)"
proof -
  have "oget p k = oget q k" "oget p ''propBetweens'' = oget q ''propBetweens''"
    using same_but_tx_oget [OF assms(1)] assms(2) by simp_all
  then show ?thesis
    by (auto simp: event_range_def normalizeRangeParam_def own_props_def Let_def assms(1) split: jsval.splits
        intro!: same_but_tx_oset same_but_tx_omit)
qed

lemma topic_whereIn_same: "same_but_tx p q \<Longrightarrow> rel_sum (=) same_but_tx (topic_whereIn p) (topic_whereIn q)"
  using same_but_tx_oget [of p q "''topic''"]
  by (cases "as_str (oget q ''topic'')") (auto simp: topic_whereIn_def intro!: same_but_tx_oset same_but_tx_omit)

lemma event_filters_same:
  assumes "same_but_tx p q"
  shows "rel_sum (=) same_but_tx (event_filters p) (event_filters q)"
proof -
  have step: "rel_sum (=) same_but_tx (bindE (includes_colon (oget p1 ''timestamp'')) (\<lambda>b.
        bindE (if b then event_range ''timestamp'' p1 else Inr p1) topic_whereIn))
      (bindE (includes_colon (oget q1 ''timestamp'')) (\<lambda>b. bindE (if b then event_range ''timestamp'' q1 else Inr q1) topic_whereIn))"
    if s: "same_but_tx p1 q1" for p1 q1
  proof -
    have t: "oget p1 ''timestamp'' = oget q1 ''timestamp''" using same_but_tx_oget [OF s] by simp
    have "rel_sum (=) same_but_tx (if b then event_range ''timestamp'' p1 else Inr p1) (if b then event_range ''timestamp'' q1 else Inr q1)" for b
      using event_range_same [OF s, of "''timestamp''"] s by simp
    then have "rel_sum (=) same_but_tx (bindE (if b then event_range ''timestamp'' p1 else Inr p1) topic_whereIn)
        (bindE (if b then event_range ''timestamp'' q1 else Inr q1) topic_whereIn)" for b
      by (rule rel_bindE) (rule topic_whereIn_same)
    then show ?thesis unfolding t by (cases "includes_colon (oget q1 ''timestamp'')") simp_all
  qed
  show ?thesis
    unfolding event_filters_def
    by (rule rel_bindE [where R = same_but_tx, OF _ step])
      (use same_but_tx_oget [OF assms, of "''height''"] event_range_same [OF assms] assms in \<open>auto split: jsval.splits\<close>)
qed

lemma range_result:
  "normalizeRangeParam (JObj p) k = Inr r \<Longrightarrow> r = JObj p \<or> (\<exists>b. r = JObj (oset (omit [k] p) ''propBetweens'' b))"
  by (cases "oget p k") (auto simp: normalizeRangeParam_def Let_def split: if_splits)

lemma event_range_oget:
  assumes "event_range k p = Inr r" "k' \<noteq> k" "k' \<noteq> ''propBetweens''"
  shows "oget r k' = oget p k'"
proof -
  obtain v where "normalizeRangeParam (JObj p) k = Inr v" "r = own_props v"
    using assms(1) by (auto simp: event_range_def act_ok)
  then show ?thesis using range_result assms(2,3) by (fastforce simp: own_props_def)
qed

lemma topic_whereIn_facts:
  assumes "topic_whereIn p = Inr r"
  shows "\<not> truthy (oget r ''topic'')" "k \<notin> {''topic'', ''whereIn''} \<Longrightarrow> oget r k = oget p k"
proof -
  have "(\<exists>v. r = oset (omit [''topic''] p) ''whereIn'' v) \<or> (r = p \<and> \<not> truthy (oget p ''topic''))"
    using assms by (auto simp: topic_whereIn_def act_ok split: if_splits)
  then show "\<not> truthy (oget r ''topic'')" "k \<notin> {''topic'', ''whereIn''} \<Longrightarrow> oget r k = oget p k" by auto
qed

lemma event_filters_steps:
  assumes "event_filters p = Inr r"
  obtains p1 p2 where "event_range ''height'' p = Inr p1 \<or> p1 = p" "event_range ''timestamp'' p1 = Inr p2 \<or> p2 = p1"
    "topic_whereIn p2 = Inr r"
proof -
  obtain p1 b p2 where p: "(case oget p ''height'' of
        JStr s \<Rightarrow> if s \<noteq> [] \<and> str_includes '':'' s then event_range ''height'' p else Inr p | _ \<Rightarrow> Inr p) = Inr p1"
    "(if b then event_range ''timestamp'' p1 else Inr p1) = Inr p2" "topic_whereIn p2 = Inr r"
    using assms unfolding event_filters_def bindE_Inr_iff by blast
  moreover have "event_range ''height'' p = Inr p1 \<or> p1 = p"
    using p(1) by (auto split: jsval.splits if_splits)
  moreover have "event_range ''timestamp'' p1 = Inr p2 \<or> p2 = p1" using p(2) by (simp split: if_splits)
  ultimately show ?thesis using that by blast
qed

lemma event_filters_oget:
  assumes "event_filters p = Inr r" "k \<in> {''transactionID'', ''senderAddress''}"
  shows "oget r k = oget p k"
proof -
  obtain p1 p2 where p: "event_range ''height'' p = Inr p1 \<or> p1 = p" "event_range ''timestamp'' p1 = Inr p2 \<or> p2 = p1"
    "topic_whereIn p2 = Inr r" by (rule event_filters_steps [OF assms(1)])
  have k: "k \<notin> {''height'', ''timestamp'', ''propBetweens'', ''topic'', ''whereIn''}" using assms(2) by auto
  then have "oget p1 k = oget p k" "oget p2 k = oget p1 k" using p(1,2) event_range_oget by blast+
  then show ?thesis using topic_whereIn_facts(2) [OF p(3)] k by simp
qed

lemma event_filters_topic: "event_filters p = Inr r \<Longrightarrow> \<not> truthy (oget r ''topic'')"
  by (elim event_filters_steps) (rule topic_whereIn_facts(1))

lemma search_both:
  assumes "truthy tx" "truthy sender" "oget r ''transactionID'' = tx" "oget r ''senderAddress'' = sender" "\<not> truthy (oget r ''topic'')"
  shows "search_topic ''senderAddress'' (search_topic ''transactionID'' r) =
    oset (omit [''senderAddress'', ''topic''] (oset (omit [''transactionID'', ''topic''] r) ''topic'' tx)) ''andWhere'' (JObj [(''topic'', sender)])"
  using assms by (simp add: search_topic_def Let_def)

lemma omit_oset_gone: "k \<in> set ks \<Longrightarrow> omit ks (oset p k v) = omit ks p"
  by (induction p) (auto simp: omit_def oset_def)

text \<open>
  A query for events by transaction and sender ignores the transaction: all transactions
  give the same conditions.
\<close>

lemma transaction_filter_dropped:
  assumes "truthy tx" and "truthy tx'" and "truthy (oget params ''senderAddress'')"
  shows "event_params (oset params ''transactionID'' tx) = event_params (oset params ''transactionID'' tx')"
proof -
  let ?p = "oset params ''transactionID'' tx" and ?q = "oset params ''transactionID'' tx'"
  have rel: "rel_sum (=) same_but_tx (event_filters ?p) (event_filters ?q)"
    by (intro event_filters_same same_but_tx_oset same_but_tx_refl) simp
  have eq: "search_topic ''senderAddress'' (search_topic ''transactionID'' r) = search_topic ''senderAddress'' (search_topic ''transactionID'' r')"
    if r: "event_filters ?p = Inr r" "event_filters ?q = Inr r'" for r r'
  proof -
    have "same_but_tx r r'" using rel r by simp
    then have rest: "omit [''transactionID'', ''topic''] r = omit [''transactionID'', ''topic''] r'"
      by (rule same_but_tx_omitted) simp
    have tx: "oget r ''transactionID'' = tx" "oget r' ''transactionID'' = tx'"
      using event_filters_oget [OF r(1)] event_filters_oget [OF r(2)] by simp_all
    have sender: "oget r ''senderAddress'' = oget params ''senderAddress''" "oget r' ''senderAddress'' = oget params ''senderAddress''"
      using event_filters_oget [OF r(1)] event_filters_oget [OF r(2)] by simp_all
    show ?thesis
      unfolding search_both [OF assms(1,3) tx(1) sender(1) event_filters_topic [OF r(1)]]
        search_both [OF assms(2,3) tx(2) sender(2) event_filters_topic [OF r(2)]]
      by (simp add: omit_oset_gone rest)
  qed
  consider (err) e where "event_filters ?p = Inl e" "event_filters ?q = Inl e"
    | (ok) r r' where "event_filters ?p = Inr r" "event_filters ?q = Inr r'"
    using rel unfolding rel_sum.simps by blast
  then show ?thesis
  proof cases
    case err
    then show ?thesis by (simp only: event_params_def bindE_simps)
  next
    case ok
    then show ?thesis by (simp only: event_params_def bindE_simps eq [OF ok])
  qed
qed

text \<open>The comparators of \<open>getNetworkPeers\<close> never return a negative number.\<close>

lemma sort_peers_idle:
  assumes "\<forall>p \<in> set peers. p \<noteq> JUndef \<and> p \<noteq> JNull"
  shows "sort_peers peers ''height:desc'' = Inr peers" "sort_peers peers ''version:desc'' = Inr peers"
proof -
  have read: "\<exists>v. js_prop p k = Inr v" if "p \<in> set peers" for p k using assms that by (cases p) auto
  have parts: "js_split '':'' ''height:desc'' = [''height'', ''desc'']" "js_split '':'' ''version:desc'' = [''version'', ''desc'']"
    by code_simp+
  have "\<exists>n \<ge> 0. compare_height p q = Inr n" "\<exists>n \<ge> 0. compare_version p q = Inr n"
    if "p \<in> set peers" "q \<in> set peers" for p q
    using read [OF that(1), of "''height''"] read [OF that(2), of "''height''"] read [OF that(1), of "''version''"] read [OF that(2), of "''version''"]
    by (auto simp: compare_height_def compare_version_def)
  then have "js_sort compare_height peers = Inr peers" "js_sort compare_version peers = Inr peers"
    by (simp_all add: js_sort_idle)
  then show "sort_peers peers ''height:desc'' = Inr peers" "sort_peers peers ''version:desc'' = Inr peers"
    by (simp_all add: sort_peers_def split_first_def split_second_def parts at_str_def)
qed

text \<open>
  Peers are not sorted by height: a request without filters gets them in the order in which
  the node lists them.
\<close>

lemma peers_unsorted:
  assumes "connector X ''getNetworkPeers'' JUndef = Inr (JArr peers)"
    and "\<forall>p \<in> set peers. p \<noteq> JUndef \<and> p \<noteq> JNull"
  shows "fst (getNetworkPeers X [(''sort'', JStr ''height:desc'')] w) = Inr (JObj [(''data'', JArr peers),
     (''meta'', JObj [(''count'', JNum (int (length peers))), (''offset'', JUndef), (''total'', JNum (int (length peers)))])])"
proof -
  have "sort_wanted ''height:desc''" by code_simp
  moreover have "filterE (peer_matches ps []) peers = Inr peers" for ps
    by (induction peers) (simp_all add: peer_matches_def)
  moreover have "filter (\<lambda>p. ohas [(''sort'', JStr ''height:desc'')] p \<and> truthy (oget [(''sort'', JStr ''height:desc'')] p)) peer_filters = []"
    by (simp add: peer_filters_def)
  ultimately show ?thesis
    using assms(1) sort_peers_idle(1) [OF assms(2)]
    by (simp add: getNetworkPeers_def requestConnector_def elemsA_def page_peers_def)
qed

subsection \<open>Answers that are always the same\<close>

text \<open>The summary of the tokens never says that all tokens are supported.\<close>

lemma supported_object_flag: "oget (supported_object st) ''isSupportAllTokens'' = JBool False"
  by (simp add: supported_object_def)

lemma summary_denies_support:
  assumes "getTokenSummary X w = (Inr r, w')"
  shows "js_path r [''data'', ''supportedTokens'', ''isSupportAllTokens''] = Inr (JBool False)"
  using assms
  by (auto simp: getTokenSummary_def plain_answer_def bnd_def requestConnector_def propA_def elemsA_def supported_object_flag
      split: sum.splits)

subsection \<open>Order of the validators\<close>

text \<open>On values with a numeric rank the comparator for \<open>rank:asc\<close> is consistent.\<close>

definition rank_of :: "jsval \<Rightarrow> int" where
  "rank_of v = number_sign (oget (own_props v) ''rank'')"

definition ranked :: "jsval set" where
  "ranked = {v. \<exists>ps n. v = JObj ps \<and> oget ps ''rank'' = JNum n}"

interpretation rank_order: js_comparator "sortComparator X ''rank:asc''" "\<lambda>a b. rank_of a - rank_of b" ranked for X
proof
  have parts: "js_split '':'' ''rank:asc'' = [''rank'', ''asc'']" by code_simp
  show "sortComparator X ''rank:asc'' a b = Inr (rank_of a - rank_of b)" if "a \<in> ranked" "b \<in> ranked" for a b
    using that by (auto simp: ranked_def sortComparator_def split_first_def split_second_def parts at_str_def js_sub_def
        rank_of_def number_sign_def own_props_def)
qed auto

lemma mapA_related:
  assumes "mapA f xs w = (Inr ys, w')" "\<forall>x \<in> set xs. P x" and "\<And>x w y w'. P x \<Longrightarrow> f x w = (Inr y, w') \<Longrightarrow> Q y"
  shows "\<forall>y \<in> set ys. Q y"
  using assms(1,2)
proof (induction xs arbitrary: w ys w')
  case (Cons x xs)
  then obtain y w1 zs where "f x w = (Inr y, w1)" "mapA f xs w1 = (Inr zs, w')" "ys = y # zs" by (auto simp: bnd_ok)
  with Cons assms(3) show ?case by fastforce
qed simp

lemma slice_sorted: "sorted_wrt R xs \<Longrightarrow> sorted_wrt R (js_slice xs a b)"
  by (simp add: js_slice_def Let_def sorted_wrt_take sorted_wrt_drop)

lemma slice_subset: "set (js_slice xs a b) \<subseteq> set xs"
  by (auto simp: js_slice_def Let_def dest: in_set_takeD in_set_dropD)

lemma details_ranked:
  assumes "v \<in> ranked" "validator_details X v w = (Inr y, w')"
  shows "y \<in> ranked"
proof -
  obtain ps n where v: "v = JObj ps" "oget ps ''rank'' = JNum n" using assms(1) by (auto simp: ranked_def)
  obtain a b c d e where "y = JObj (spread ps [(''publicKey'', a), (''generatedBlocks'', b), (''totalCommission'', c),
      (''totalSelfStakeRewards'', d), (''earnedRewards'', e)])"
    using assms(2) v(1) by (auto simp: validator_details_def bnd_ok Let_def own_props_def)
  then show ?thesis using v(2) by (auto simp: ranked_def)
qed

lemma oget_map_props: "ohas ps k \<Longrightarrow> oget (map (\<lambda>(k, v). (k, f v)) ps) k = f (oget ps k)"
  by (induction ps) auto

lemma rank_of_compat:
  assumes "v \<in> ranked"
  shows "rank_of (parseToJSONCompatObj v) = rank_of v"
proof -
  obtain ps n where v: "v = JObj ps" "oget ps ''rank'' = JNum n" using assms by (auto simp: ranked_def)
  then have "ohas ps ''rank''" using oget_not_ohas by fastforce
  then have "oget (map (\<lambda>(k, v). (k, compat_prop v)) ps) ''rank'' = JNum n" using v(2) by (simp add: oget_map_props)
  then show ?thesis using v by (simp add: rank_of_def own_props_def)
qed

text \<open>
  C17. A request for the validators by ascending rank gets them in this order, where every
  cached validator has its rank.
\<close>

theorem validators_by_rank:
  assumes "getPosValidators X params w = (Inr r, w')"
    and "\<not> truthy (oget params ''publicKey'')" and "oget params ''sort'' = JStr ''rank:asc''"
    and "validatorList w \<noteq> []" and "set (validatorList w) \<subseteq> ranked"
  shows "\<exists>page. js_prop r ''data'' = Inr (JArr page) \<and> sorted_wrt (\<lambda>a b. rank_of a \<le> rank_of b) page"
proof -
  have all: "getAllValidators X w = (Inr (validatorList w), w)"
    using assms(4) by (simp add: getAllValidators_def bnd_def thn_def)
  obtain ns vs data w1 xs page where vs: "filterE ns (validatorList w) = Inr vs" and data: "mapA (validator_details X) vs w = (Inr data, w1)"
    and xs: "js_sort (sortComparator X ''rank:asc'') data = Inr xs"
    and page: "slice_page xs (oget params ''offset'') (oget params ''limit'') = Inr page"
    and r: "js_prop r ''data'' = Inr (JArr (map parseToJSONCompatObj page))"
    using assms(1,2,3) all
    by (auto simp: getPosValidators_def resolve_publicKey_def bnd_ok thn_ok)
  have "set vs \<subseteq> set (validatorList w)" unfolding filterE_Inr [OF vs] by (rule filter_is_subset)
  then have "set vs \<subseteq> ranked" using assms(5) by simp
  then have "\<forall>v \<in> set vs. v \<in> ranked" by blast
  then have "\<forall>y \<in> set data. y \<in> ranked" by (rule mapA_related [OF data]) (rule details_ranked)
  then have "set data \<subseteq> ranked" by blast
  then have "sorted_wrt (\<lambda>a b. rank_of a \<le> rank_of b) xs" "set xs \<subseteq> ranked"
    using rank_order.sort_sorted [of data X] xs js_sort_set [OF xs] by simp_all
  moreover obtain a b where "page = js_slice xs a b" using page by (auto simp: slice_page_def slice_vals_def act_ok)
  ultimately have "sorted_wrt (\<lambda>a b. rank_of a \<le> rank_of b) page" "set page \<subseteq> ranked"
    using slice_sorted [of "\<lambda>a b. rank_of a \<le> rank_of b" xs a b] slice_subset [of xs a b] by simp_all
  then have "sorted_wrt (\<lambda>a b. rank_of (parseToJSONCompatObj a) \<le> rank_of (parseToJSONCompatObj b)) page"
    by (subst sorted_wrt_iff_nth_less) (auto simp: rank_of_compat subset_iff sorted_wrt_iff_nth_less)
  then have "sorted_wrt (\<lambda>a b. rank_of a \<le> rank_of b) (map parseToJSONCompatObj page)" by (simp only: sorted_wrt_map)
  with r show ?thesis by blast
qed

definition two_validators :: iworld where
  "two_validators = fresh_world\<lparr>validatorList := [
     JObj [(''address'', JStr ''lskb''), (''name'', JStr ''b''), (''status'', JStr ''active''), (''rank'', JNum 2)],
     JObj [(''address'', JStr ''lska''), (''name'', JStr ''a''), (''status'', JStr ''active''), (''rank'', JNum 1)]]\<rparr>"

theorem validators_by_rank_witness:
  "\<exists>r page. fst (getPosValidators ref_ext [(''sort'', JStr ''rank:asc''), (''offset'', JNum 0), (''limit'', JNum 10)] two_validators) = Inr r \<and>
     js_prop r ''data'' = Inr (JArr page) \<and> sorted_wrt (\<lambda>a b. rank_of a \<le> rank_of b) page"
proof -
  let ?ps = "[(''sort'', JStr ''rank:asc''), (''offset'', JNum 0), (''limit'', JNum 10)]"
  have "\<not> isl (fst (getPosValidators ref_ext ?ps two_validators))" by code_simp
  then obtain r w' where run: "getPosValidators ref_ext ?ps two_validators = (Inr r, w')"
    by (metis prod.collapse sum.collapse(2))
  have "set (validatorList two_validators) \<subseteq> ranked" by (simp add: two_validators_def ranked_def)
  then show ?thesis using validators_by_rank [OF run] run by (simp add: two_validators_def)
qed

subsection \<open>Errors that reach the client\<close>

text \<open>
  A request for locked rewards that names no account is refused over both protocols: the
  indexer answers with the status of invalid parameters, over HTTP this is the code for a bad
  request with the message as its body, over the socket the code for invalid parameters.
\<close>

lemma unnamed_account_refused:
  assumes "\<forall>p \<in> {''address'', ''name'', ''publicKey''}. \<not> ohas params p"
  shows "\<exists>r. api_getPosLockedRewards X params w = (Inr r, w) \<and>
     http_onAfterCall C False directives codes paths path r meta =
       (Inr (Body (JObj [(''error'', JBool True),
          (''message'', JStr ''One of the params (address, name or publicKey) is required.'')])),
        meta\<lparr>statusCode := js_or (oget codes ''BAD_REQUEST'') (JStr ''BAD_REQUEST'')\<rparr>) \<and>
     rpc_onAfterCall C paths method r = Inl (RpcError (-32602) ''One of the params (address, name or publicKey) is required.'')"
proof -
  let ?m = "''One of the params (address, name or publicKey) is required.''"
  let ?r = "status_answer (JStr ''INVALID_PARAMS'') (InvalidParamsErr ?m)"
  have "\<not> list_ex (\<lambda>p. fst p \<in> {''address'', ''name'', ''publicKey''}) params"
    using assms by (force simp: list_ex_iff ohas_def)
  then have "getPosLockedRewards X params = throw (InvalidParamsErr ?m)" by (simp add: getPosLockedRewards_def)
  then have "api_getPosLockedRewards X params w = (Inr ?r, w)"
    by (simp add: api_getPosLockedRewards_def with_status_def answer_def invalid_status_def tryA_def throw_def ret_def)
  moreover have "http_onAfterCall C False directives codes paths path ?r meta =
       (Inr (Body (JObj [(''error'', JBool True), (''message'', JStr ?m)])),
        meta\<lparr>statusCode := js_or (oget codes ''BAD_REQUEST'') (JStr ''BAD_REQUEST'')\<rparr>)"
    by (simp add: http_onAfterCall_def status_answer_def csv_name_def error_message_def bnd_def thn_def Let_def oset_def)
  moreover have "rpc_onAfterCall C paths method ?r = Inl (RpcError (-32602) ?m)"
    by (simp add: rpc_onAfterCall_def status_answer_def Let_def)
  ultimately show ?thesis by blast
qed

end
