(* ===== verification/TxStats.thy ===== *)
theory TxStats
  imports IndexerUtils JsSort
begin

text \<open>
  \<open>services/transaction-statistics/shared\<close>: the daily statistics of the transactions
  (\<open>buildTransactionStatistics.js\<close>), their queries (\<open>transactionStatistics.js\<close>), the status of the
  service and its helpers. The libraries big-number and moment, the floating-point logarithm of a
  value with the text of a power of ten, and the answers of the indexer are parameters.
\<close>

subsection \<open>Environment\<close>

text \<open>
  \<open>BigNumber(v)\<close>, \<open>BigNumber(n)\<close> for a number of the library, what \<open>n.plus(v)\<close> leaves in \<open>n\<close>, \<open>n.add(m)\<close>,
  \<open>Math.ceil(n)\<close>, and the exponent \<open>Math.floor(Math.log10(n / 1e8))\<close>, which is \<open>None\<close> for minus infinity.
\<close>

record 'n bignum =
  bn_of :: "jsval \<Rightarrow> 'n"
  bn_copy :: "'n \<Rightarrow> 'n"
  bn_plus :: "'n \<Rightarrow> jsval \<Rightarrow> 'n"
  bn_add :: "'n \<Rightarrow> 'n \<Rightarrow> 'n"
  bn_ceil :: "'n \<Rightarrow> int"
  bn_log :: "'n \<Rightarrow> int option"

text \<open>A moment is its value in milliseconds.\<close>

record moments =
  m_now :: int
  m_unix :: "int \<Rightarrow> int"
  m_of_unix :: "jsval \<Rightarrow> int"
  m_utc :: "int \<Rightarrow> int"
  m_add :: "int \<Rightarrow> jsval \<Rightarrow> jsval \<Rightarrow> int"
  m_subtract :: "int \<Rightarrow> jsval \<Rightarrow> jsval \<Rightarrow> int"
  m_startOf :: "int \<Rightarrow> jsval \<Rightarrow> int"
  m_endOf :: "int \<Rightarrow> jsval \<Rightarrow> int"
  m_format :: "int \<Rightarrow> string \<Rightarrow> string"
  m_diff :: "int \<Rightarrow> int \<Rightarrow> jsval \<Rightarrow> jsval"
  date_seconds :: "string \<Rightarrow> jsval"

record 'n sext =
  stat_kx :: engine
  stat_indexer :: "string \<Rightarrow> jsval \<Rightarrow> jserr + jsval"
  big :: "'n bignum"
  pow10_text :: "int \<Rightarrow> string"
  moment_of :: moments
  collate :: "string \<Rightarrow> string \<Rightarrow> int"

record sworld = world +
  stat_chainID :: jsval
  numTrxTypes :: jsval
  stat_jobs :: "jsval list"
  stat_signals :: "(string \<times> jsval) list"
  stat_isReady :: bool

type_synonym 'a sact = "(sworld, 'a) action"

definition transactionStatisticsSchema :: table_config where
  "transactionStatisticsSchema = \<lparr>tableName = ''transaction_statistics'', primaryKey = [''id''], charset = None,
     schema = [
       (''amount_range'', \<lparr>cs_type = ''string'', cs_null = None, cs_default = None\<rparr>),
       (''count'', \<lparr>cs_type = ''integer'', cs_null = None, cs_default = None\<rparr>),
       (''date'', \<lparr>cs_type = ''integer'', cs_null = None, cs_default = None\<rparr>),
       (''id'', \<lparr>cs_type = ''string'', cs_null = None, cs_default = None\<rparr>),
       (''moduleCommand'', \<lparr>cs_type = ''string'', cs_null = None, cs_default = None\<rparr>),
       (''volume'', \<lparr>cs_type = ''bigInteger'', cs_null = None, cs_default = None\<rparr>),
       (''tokenID'', \<lparr>cs_type = ''string'', cs_null = Some False, cs_default = None\<rparr>)],
     indexes = [''date'', ''tokenID'']\<rparr>"

subsection \<open>utils/constants.js and utils/requestAll.js\<close>

definition DB_ANY :: string where "DB_ANY = ''any''"
definition DB_UNAVAILABLE :: string where "DB_UNAVAILABLE = ''na''"
definition DATE_FORMAT_DAY :: string where "DATE_FORMAT_DAY = ''YYYY-MM-DD''"
definition DATE_FORMAT_MONTH :: string where "DATE_FORMAT_MONTH = ''YYYY-MM''"

definition getChainID :: "'n sext \<Rightarrow> jsval sact" where
  "getChainID X =
     bnd (getA stat_chainID) (\<lambda>known.
     if known \<noteq> JUndef then ret known
     else bnd (liftE (stat_indexer X ''network.status'' JUndef)) (\<lambda>r. bnd (liftE (js_path r [''data'', ''chainID''])) (\<lambda>chainID.
          thn (modA (\<lambda>w. w\<lparr>stat_chainID := chainID\<rparr>)) (ret chainID))))"

definition resolveGlobalTokenID :: "jsval \<Rightarrow> jsval \<Rightarrow> jserr + jsval" where
  "resolveGlobalTokenID chainID tokenID =
     (if \<not> truthy tokenID then Inr (JStr DB_UNAVAILABLE)
      else if \<not> truthy chainID then Inr tokenID
      else bindE (as_str tokenID) (\<lambda>s. Inr (JStr (js_string chainID @ drop 8 s))))"

text \<open>The pages after the first, until one of them is empty.\<close>

fun stat_pages :: "(jsval \<Rightarrow> jserr + jsval) \<Rightarrow> obj \<Rightarrow> int \<Rightarrow> int list \<Rightarrow> jsval list \<Rightarrow> jserr + jsval list" where
  "stat_pages fn params one [] data = Inr data"
| "stat_pages fn params one (page # pages) data =
     bindE (fn (page_params params one (one * page))) (\<lambda>result.
     bindE (js_path result [''data'', ''length'']) (\<lambda>len.
     if \<not> truthy len then Inr data
     else bindE (js_prop result ''data'') (\<lambda>rv. bindE (js_iter rv) (\<lambda>more.
          stat_pages fn params one pages (data @ more)))))"

definition stat_requestAll :: "(jsval \<Rightarrow> jserr + jsval) \<Rightarrow> obj \<Rightarrow> jsval \<Rightarrow> jserr + jsval" where
  "stat_requestAll fn params limit =
     (let defaultMaxAmount = num_or limit 1000;
          one = num_or (oget params ''limit'') 100 in
     bindE (fn (page_params params one 0)) (\<lambda>firstRequest.
     bindE (js_prop firstRequest ''data'') (\<lambda>data.
     bindE (js_prop data ''error'') (\<lambda>err.
     if truthy err then Inr data
     else bindE (js_path firstRequest [''meta'', ''total'']) (\<lambda>tot.
       let maxAmount = (if \<not> truthy tot \<or> js_lt (JNum defaultMaxAmount) tot then defaultMaxAmount else as_int tot) in
       if maxAmount > one
       then bindE (js_elems data) (\<lambda>xs.
            bindE (stat_pages fn params one [1..(- ((- maxAmount) div one)) - 1] xs) (\<lambda>ys. Inr (JArr ys)))
       else Inr data)))))"

subsection \<open>buildTransactionStatistics.js: computing\<close>

record 'n txstat =
  ts_count :: int
  ts_volume :: 'n
  ts_tokenID :: jsval

type_synonym 'n stats = "(string \<times> (string \<times> 'n txstat) list) list"

definition no_stat :: "'n sext \<Rightarrow> 'n txstat" where
  "no_stat X = \<lparr>ts_count = 0, ts_volume = bn_of (big X) (JNum 0), ts_tokenID = JStr DB_UNAVAILABLE\<rparr>"

definition getTxStatsWithFallback :: "'n sext \<Rightarrow> 'n stats \<Rightarrow> string \<Rightarrow> string \<Rightarrow> 'n txstat" where
  "getTxStatsWithFallback X acc moduleCommand r = (case map_of acc moduleCommand of
       None \<Rightarrow> no_stat X
     | Some ranges \<Rightarrow> (case map_of ranges r of None \<Rightarrow> no_stat X | Some s \<Rightarrow> s))"

definition counts_as_value :: "string \<Rightarrow> bool" where
  "counts_as_value property = (ends_with ''Fee'' property \<or> property = ''amount'')"

definition getTxValue :: "'n sext \<Rightarrow> jsval \<Rightarrow> jserr + 'n" where
  "getTxValue X tx =
     bindE (js_prop tx ''params'') (\<lambda>pv. bindE (js_prop tx ''fee'') (\<lambda>fee.
     if pv \<in> {JUndef, JNull} then Inl (TypeErr ''Cannot convert undefined or null to object'')
     else Inr (foldl (\<lambda>total (k, v). if counts_as_value k then bn_plus (big X) total v else total)
                 (bn_of (big X) fee) (own_props pv))))"

definition getRange :: "'n sext \<Rightarrow> jsval \<Rightarrow> jserr + string" where
  "getRange X tx =
     bindE (getTxValue X tx) (\<lambda>txValue.
     Inr (case bn_log (big X) txValue of
            None \<Rightarrow> ''0_0''
          | Some e \<Rightarrow> pow10_text X e @ ''_'' @ pow10_text X (e + 1)))"

definition getInitialValueToEnsureEachDayHasAtLeastOneEntry :: "'n sext \<Rightarrow> jserr + 'n stats" where
  "getInitialValueToEnsureEachDayHasAtLeastOneEntry X =
     bindE (getRange X (JObj [(''moduleCommand'', JStr DB_ANY), (''params'', JObj [(''amount'', JStr ''0'')]), (''fee'', JStr ''0'')])) (\<lambda>r.
     Inr [(DB_ANY, [(r, no_stat X)])])"

definition put_stat :: "string \<Rightarrow> string \<Rightarrow> 'n txstat \<Rightarrow> 'n stats \<Rightarrow> 'n stats" where
  "put_stat moduleCommand r s acc =
     AList.update moduleCommand (AList.update r s (case map_of acc moduleCommand of None \<Rightarrow> [] | Some ranges \<Rightarrow> ranges)) acc"

definition add_tx :: "'n sext \<Rightarrow> jsval \<Rightarrow> 'n stats \<Rightarrow> jsval \<Rightarrow> jserr + 'n stats" where
  "add_tx X chainID acc tx =
     bindE (js_prop tx ''moduleCommand'') (\<lambda>mv. bindE (getRange X tx) (\<lambda>r. bindE (getTxValue X tx) (\<lambda>txValue.
     bindE (js_path tx [''params'', ''tokenID'']) (\<lambda>tv. bindE (resolveGlobalTokenID chainID tv) (\<lambda>tokenID.
     let s = getTxStatsWithFallback X acc (js_string mv) r in
     Inr (put_stat (js_string mv) r
            \<lparr>ts_count = ts_count s + 1, ts_volume = bn_add (big X) (bn_copy (big X) (ts_volume s)) txValue, ts_tokenID = tokenID\<rparr> acc))))))"

definition computeTransactionStats :: "'n sext \<Rightarrow> jsval \<Rightarrow> jsval list \<Rightarrow> jserr + 'n stats" where
  "computeTransactionStats X chainID transactions =
     bindE (getInitialValueToEnsureEachDayHasAtLeastOneEntry X) (\<lambda>start. foldE (add_tx X chainID) start transactions)"

definition stat_row :: "'n sext \<Rightarrow> string \<Rightarrow> string \<times> 'n txstat \<Rightarrow> obj" where
  "stat_row X moduleCommand = (\<lambda>(r, s).
     [(''moduleCommand'', JStr moduleCommand), (''volume'', JNum (bn_ceil (big X) (ts_volume s))), (''count'', JNum (ts_count s)),
      (''range'', JStr r), (''tokenID'', ts_tokenID s)])"

definition transformStatsObjectToList :: "'n sext \<Rightarrow> 'n stats \<Rightarrow> obj list" where
  "transformStatsObjectToList X stats = concat (map (\<lambda>(moduleCommand, ranges). map (stat_row X moduleCommand) ranges) stats)"

subsection \<open>buildTransactionStatistics.js: storing and scheduling\<close>

text \<open>
  The rows are changed in place; the copies without \<open>range\<close> are dropped. The look-up of the rows
  of the day is not awaited, so its result cannot be destructured and nothing is removed.
\<close>

definition dated_row :: "jsval \<Rightarrow> obj \<Rightarrow> obj" where
  "dated_row date statistic =
     (let s = oset (oset statistic ''date'' date) ''amount_range'' (oget statistic ''range'') in
      oset s ''id'' (JStr (js_string date @ ''-'' @ js_string (oget s ''moduleCommand'') @ ''-'' @ js_string (oget s ''amount_range''))))"

definition insertToDB :: "'n sext \<Rightarrow> obj list \<Rightarrow> jsval \<Rightarrow> string sact" where
  "insertToDB X statsList date =
     thn startDbTransaction (
     tryA
       (let rows = map (dated_row date) statsList in
        thn (upsert (stat_kx X) transactionStatisticsSchema (JArr (map JObj rows)) True) (
        thn commitDbTransaction (
        ret (show_nat (length rows) @ '' rows with total tx count '' @ show_int (sum_list (map (\<lambda>r. as_int (oget r ''count'')) rows))
             @ '' for '' @ js_string date @ '' inserted to db''))))
       (\<lambda>e. thn rollbackDbTransaction (throw e)))"

definition day_params :: "'n sext \<Rightarrow> jsval \<Rightarrow> obj" where
  "day_params X date =
     (let M = moment_of X; m = m_of_unix M date in
      [(''timestamp'', JStr (show_int (m_unix M m) @ '':'' @ show_int (m_unix M (m_add M m (JNum 1) (JStr ''day'')))))])"

definition fetchTransactions :: "'n sext \<Rightarrow> jsval \<Rightarrow> jserr + jsval list" where
  "fetchTransactions X date =
     (let params = day_params X date in
     bindE (stat_indexer X ''transactions'' (JObj (oset params ''limit'' (JNum 1)))) (\<lambda>r. bindE (js_prop r ''meta'') (\<lambda>txMeta.
     bindE (if truthy txMeta then js_prop txMeta ''total'' else Inr (JNum 1000)) (\<lambda>maxCount.
     bindE (stat_requestAll (stat_indexer X ''transactions'') (oset params ''limit'' (JNum 100)) maxCount) (\<lambda>result.
     bindE (js_prop result ''error'') (\<lambda>err. if truthy err then Inr [] else js_elems result))))))"

definition queueJob :: "'n sext \<Rightarrow> jsval \<Rightarrow> string sact" where
  "queueJob X job =
     bnd (liftE (js_path job [''data'', ''date''])) (\<lambda>date.
     if \<not> truthy date then throw (Err ''Missing date.'')
     else bnd (liftE (fetchTransactions X date)) (\<lambda>transactions.
          bnd (getA stat_chainID) (\<lambda>chainID.
          bnd (liftE (computeTransactionStats X chainID transactions)) (\<lambda>stats.
          insertToDB X (transformStatsObjectToList X stats) date))))"

definition past_day :: "'n sext \<Rightarrow> nat \<Rightarrow> jsval" where
  "past_day X i =
     (let M = moment_of X in
      JNum (m_unix M (m_startOf M (m_utc M (m_subtract M (m_now M) (JNum (int i)) (JStr ''day''))) (JStr ''day''))))"

definition schedule_day :: "'n sext \<Rightarrow> bool \<Rightarrow> nat \<Rightarrow> unit sact" where
  "schedule_day X forceReload i =
     (let date = past_day X i in
     bnd (if i = 0 then ret True
          else bnd (table_find (stat_kx X) transactionStatisticsSchema [(''date'', date), (''limit'', JNum 1)] (Some [''id''])) (\<lambda>rows.
               ret (rows = []))) (\<lambda>shouldUpdate.
     if shouldUpdate \<or> forceReload then modA (\<lambda>w. w\<lparr>stat_jobs := stat_jobs w @ [JObj [(''date'', date)]]\<rparr>) else ret ()))"

definition fetchTransactionsForPastNDays :: "'n sext \<Rightarrow> nat \<Rightarrow> bool \<Rightarrow> unit sact" where
  "fetchTransactionsForPastNDays X n forceReload = forA (schedule_day X forceReload) [0..<n]"

definition updateTodayStats :: "'n sext \<Rightarrow> unit sact" where
  "updateTodayStats X = fetchTransactionsForPastNDays X 1 True"

definition statistics_init :: "'n sext \<Rightarrow> nat \<Rightarrow> unit sact" where
  "statistics_init X historyLengthDays =
     thn (fetchTransactionsForPastNDays X historyLengthDays True)
       (modA (\<lambda>w. w\<lparr>stat_signals := stat_signals w @ [(''transactionStatsReady'', JNum (int historyLengthDays))]\<rparr>))"

subsection \<open>transactionStatistics.js\<close>

record stat_params =
  sp_dateFormat :: string
  sp_dateFrom :: "int option"
  sp_dateTo :: "int option"
  sp_tokenIDs :: "jsval list"
  sp_limit :: jsval

definition getSelector :: "'n sext \<Rightarrow> stat_params \<Rightarrow> obj sact" where
  "getSelector X params =
     bnd (getA numTrxTypes) (\<lambda>known.
     bnd (if truthy known then ret known
          else bnd (liftE (stat_indexer X ''network.status'' JUndef)) (\<lambda>r. bnd (liftE (js_path r [''data'', ''moduleCommands''])) (\<lambda>mv.
               bnd (liftE (js_elems mv)) (\<lambda>ms. thn (modA (\<lambda>w. w\<lparr>numTrxTypes := JNum (int (length ms))\<rparr>)) (ret (JNum (int (length ms)))))))) (\<lambda>n.
     let M = moment_of X;
         unix_of = (\<lambda>k d. case d of None \<Rightarrow> [] | Some m \<Rightarrow> [(k, JNum (m_unix M m))]) in
     ret [(''propBetweens'', JArr [JObj ([(''property'', JStr ''date'')] @ unix_of ''from'' (sp_dateFrom params) @ unix_of ''to'' (sp_dateTo params))]),
          (''sort'', JStr ''date:desc''),
          (''limit'', js_or (sp_limit params) (JNum (366 * (as_int n + 1))))]))"

definition of_token :: "jsval \<Rightarrow> obj \<Rightarrow> obj" where
  "of_token tokenID query = oset query ''whereIn'' (JObj [(''property'', JStr ''tokenID''), (''values'', JArr [tokenID, JStr DB_UNAVAILABLE])])"

text \<open>One row of the table added to the entry of its date.\<close>

definition timeline_add :: "'n sext \<Rightarrow> string \<Rightarrow> (string \<times> jsval \<times> jsval) list \<Rightarrow> jsval \<Rightarrow> jserr + (string \<times> jsval \<times> jsval) list" where
  "timeline_add X dateFormat acc entry =
     bindE (js_prop entry ''date'') (\<lambda>date. bindE (js_prop entry ''count'') (\<lambda>n. bindE (js_prop entry ''volume'') (\<lambda>volume.
     let day = m_format (moment_of X) (m_of_unix (moment_of X) date) dateFormat;
         (c, v) = (case map_of acc day of None \<Rightarrow> (JNum 0, JNum 0) | Some e \<Rightarrow> e) in
     bindE (js_add c n) (\<lambda>c'. bindE (js_add v volume) (\<lambda>v'. Inr (AList.update day (c', v') acc))))))"

text \<open>\<open>parseInt(c, 10)\<close> of a sum that started from 0.\<close>

definition parse_sum :: "jsval \<Rightarrow> jsval" where
  "parse_sum c = (case c of JStr s \<Rightarrow> JNum (num_prefix s) | _ \<Rightarrow> js_number c)"

definition timeline_entry :: "'n sext \<Rightarrow> string \<times> jsval \<times> jsval \<Rightarrow> jsval" where
  "timeline_entry X = (\<lambda>(day, c, v).
     JObj [(''date'', JStr day), (''transactionCount'', parse_sum c), (''volume'', v), (''timestamp'', date_seconds (moment_of X) day)])"

definition token_timeline :: "'n sext \<Rightarrow> stat_params \<Rightarrow> jsval \<Rightarrow> obj sact" where
  "token_timeline X params tokenID =
     bnd (getSelector X params) (\<lambda>query.
     bnd (table_find (stat_kx X) transactionStatisticsSchema (of_token tokenID query) (Some [''date'', ''count'', ''volume''])) (\<lambda>rows.
     bnd (liftE (foldE (timeline_add X (sp_dateFormat params)) [] rows)) (\<lambda>days.
     if tokenID = JStr DB_UNAVAILABLE then ret []
     else bnd (liftE (js_sort (\<lambda>a b. Inr (collate X (fst a) (fst b))) days)) (\<lambda>ordered.
          ret [(js_string tokenID, JArr (map (timeline_entry X) (rev ordered)))]))))"

definition getStatsTimeline :: "'n sext \<Rightarrow> stat_params \<Rightarrow> jsval sact" where
  "getStatsTimeline X params =
     bnd (mapA (token_timeline X params) (sp_tokenIDs params)) (\<lambda>ts. ret (JObj (foldl spread [] ts)))"

text \<open>The counts of the rows summed up by one of their columns, in the order of the names.\<close>

definition count_by :: "string \<Rightarrow> obj \<Rightarrow> jsval \<Rightarrow> jserr + obj" where
  "count_by column acc entry =
     bindE (js_prop entry column) (\<lambda>kv. bindE (js_prop entry ''count'') (\<lambda>n.
     let k = js_string kv in
     bindE (js_add (js_or (oget acc k) (JNum 0)) n) (\<lambda>c. Inr (oset acc k c))))"

definition counted_rows :: "jsval list \<Rightarrow> jserr + jsval list" where
  "counted_rows rows = filterE (\<lambda>r. bindE (js_prop r ''count'') (\<lambda>n. Inr (js_lt (JNum 0) n))) rows"

definition by_name :: "'n sext \<Rightarrow> obj \<Rightarrow> jserr + obj" where
  "by_name X ob = js_sort (\<lambda>a b. Inr (collate X (fst a) (fst b))) ob"

definition distribution :: "'n sext \<Rightarrow> string \<Rightarrow> jsval list \<Rightarrow> jserr + obj" where
  "distribution X column rows = bindE (counted_rows rows) (\<lambda>rs. foldE (count_by column) [] rs)"

definition token_distribution :: "'n sext \<Rightarrow> stat_params \<Rightarrow> jsval \<Rightarrow> obj sact" where
  "token_distribution X params tokenID =
     bnd (getSelector X params) (\<lambda>query.
     bnd (table_find (stat_kx X) transactionStatisticsSchema (of_token tokenID query) (Some [''amount_range'', ''count''])) (\<lambda>rows.
     bnd (liftE (distribution X ''amount_range'' rows)) (\<lambda>sums.
     if tokenID = JStr DB_UNAVAILABLE then ret []
     else bnd (liftE (by_name X sums)) (\<lambda>ordered. ret [(js_string tokenID, JObj ordered)]))))"

definition getDistributionByAmount :: "'n sext \<Rightarrow> stat_params \<Rightarrow> jsval sact" where
  "getDistributionByAmount X params =
     bnd (mapA (token_distribution X params) (sp_tokenIDs params)) (\<lambda>ts. ret (JObj (foldl spread [] ts)))"

definition getDistributionByType :: "'n sext \<Rightarrow> stat_params \<Rightarrow> obj sact" where
  "getDistributionByType X params =
     bnd (getSelector X params) (\<lambda>query.
     bnd (table_find (stat_kx X) transactionStatisticsSchema query (Some [''moduleCommand'', ''count''])) (\<lambda>rows.
     bnd (liftE (distribution X ''moduleCommand'' rows)) (\<lambda>sums. liftE (by_name X sums))))"

definition getTransactionsStatistics :: "'n sext \<Rightarrow> obj \<Rightarrow> jsval sact" where
  "getTransactionsStatistics X params =
     (let M = moment_of X;
          interval = oget params ''interval'';
          dateFormat = (if interval = JStr ''day'' then DATE_FORMAT_DAY else DATE_FORMAT_MONTH);
          dateTo = m_subtract M (m_endOf M (m_utc M (m_now M)) interval) (oget params ''offset'') interval in
     bnd (liftE (js_sub (oget params ''limit'') (JNum 1))) (\<lambda>n.
     let dateFrom = m_subtract M (m_startOf M dateTo interval) n interval in
     bnd (table_find (stat_kx X) transactionStatisticsSchema [(''distinct'', JStr ''tokenID'')] (Some [''tokenID''])) (\<lambda>tokens.
     bnd (liftE (mapE (\<lambda>e. js_prop e ''tokenID'') tokens)) (\<lambda>tokenIDs.
     let sp = \<lparr>sp_dateFormat = dateFormat, sp_dateFrom = Some dateFrom, sp_dateTo = Some dateTo, sp_tokenIDs = tokenIDs, sp_limit = JUndef\<rparr> in
     bnd (getStatsTimeline X sp) (\<lambda>timeline.
     bnd (getDistributionByType X sp) (\<lambda>byType.
     bnd (getDistributionByAmount X sp) (\<lambda>byAmount.
     bnd (table_find (stat_kx X) transactionStatisticsSchema [(''sort'', JStr ''date:asc'')] (Some [''date''])) (\<lambda>oldest.
     bnd (liftE (if oldest = [] then Inr JUndef else js_prop (js_first oldest) ''date'')) (\<lambda>minDate.
     let tot = (if truthy minDate then m_diff M (m_now M) (m_of_unix M minDate) interval else JNum 0) in
     ret (JObj [(''data'', JObj [(''timeline'', timeline), (''distributionByType'', JObj byType), (''distributionByAmount'', byAmount)]),
       (''meta'', JObj [(''limit'', oget params ''limit''), (''offset'', oget params ''offset''), (''total'', tot),
         (''duration'', JObj [(''format'', JStr dateFormat), (''from'', JStr (m_format M dateFrom dateFormat)), (''to'', JStr (m_format M dateTo dateFormat))])])]))))))))))"

subsection \<open>Validation and status\<close>

definition verify_count :: "'n sext \<Rightarrow> int \<Rightarrow> int \<Rightarrow> string \<times> jsval \<Rightarrow> jserr + bool" where
  "verify_count X dateFrom dateTo = (\<lambda>(moduleCommand, n).
     let M = moment_of X;
         seconds = (\<lambda>d. show_int (m_unix M (m_of_unix M (JNum d)) div 1000)) in
     bindE (stat_indexer X ''getTransactions'' (JObj [(''moduleCommand'', JStr moduleCommand),
         (''timestamp'', JStr (seconds dateFrom @ '':'' @ seconds dateTo)), (''limit'', JNum 1)])) (\<lambda>r.
     bindE (js_path r [''meta'', ''total'']) (\<lambda>tot. Inr (strict_eq tot n))))"

definition validateTransactionStatistics :: "'n sext \<Rightarrow> nat \<Rightarrow> unit sact" where
  "validateTransactionStatistics X historyLengthDays =
     (let M = moment_of X;
          dateTo = m_subtract M (m_endOf M (m_utc M (m_now M)) (JStr ''day'')) (JNum 0) (JStr ''day'');
          dateFrom = m_subtract M (m_startOf M dateTo (JStr ''day'')) (JNum (int historyLengthDays)) (JStr ''day'') in
     bnd (getDistributionByType X \<lparr>sp_dateFormat = DATE_FORMAT_DAY, sp_dateFrom = Some dateFrom, sp_dateTo = Some dateTo,
            sp_tokenIDs = [], sp_limit = JUndef\<rparr>) (\<lambda>byType.
     bnd (liftE (mapE (verify_count X dateFrom dateTo) byType)) (\<lambda>verified.
     if list_all (\<lambda>b. b) verified then ret () else fetchTransactionsForPastNDays X historyLengthDays True)))"

definition stat_getStatus :: "'n sext \<Rightarrow> bool sact" where
  "stat_getStatus X =
     bnd (getA stat_isReady) (\<lambda>ready.
     if ready then ret True
     else bnd (getTransactionsStatistics X [(''interval'', JStr ''day'')]) (\<lambda>r.
          bnd (liftE (js_path r [''data'', ''timeline''])) (\<lambda>timeline.
          let now = (own_props timeline \<noteq> []) in
          thn (modA (\<lambda>w. w\<lparr>stat_isReady := now\<rparr>)) (ret now))))"

text \<open>\<open>methods/controllers\<close>.\<close>

definition api_getTransactionsStatistics :: "'n sext \<Rightarrow> obj \<Rightarrow> jsval sact" where
  "api_getTransactionsStatistics X params =
     bnd (getTransactionsStatistics X params) (\<lambda>r. bnd (liftE (js_prop r ''data'')) (\<lambda>data. bnd (liftE (js_prop r ''meta'')) (\<lambda>meta.
     ret (JObj [(''data'', js_or data (JObj [])), (''meta'', js_or meta (JObj []))]))))"

end
