(* ===== verification/StatProps.thy ===== *)
theory StatProps
  imports TxStats
begin

text \<open>
  What the daily statistics keep of the transactions: every transaction is counted once, and with a
  library that adds, the volumes add up; tokens are not told apart.
\<close>

subsection \<open>Counts\<close>

text \<open>The sum of a figure over all entries.\<close>

definition entry_total :: "('n txstat \<Rightarrow> int) \<Rightarrow> 'n stats \<Rightarrow> int" where
  "entry_total f stats = sum_list (map (\<lambda>(_, ranges). sum_list (map (\<lambda>(_, s). f s) ranges)) stats)"

definition keyed :: "'n stats \<Rightarrow> bool" where
  "keyed stats = (distinct (map fst stats) \<and> (\<forall>k ranges. map_of stats k = Some ranges \<longrightarrow> distinct (map fst ranges)))"

text \<open>Replacing an entry changes a sum by the difference.\<close>

lemma sum_update:
  fixes g :: "'v \<Rightarrow> int"
  assumes "distinct (map fst xs)"
  shows "sum_list (map (\<lambda>(_, v). g v) (AList.update k v xs)) =
     sum_list (map (\<lambda>(_, v). g v) xs) + g v - (case map_of xs k of None \<Rightarrow> 0 | Some u \<Rightarrow> g u)"
  using assms
proof (induction xs)
  case (Cons x xs)
  then show ?case
  proof (cases "fst x = k")
    case True
    then show ?thesis using Cons.prems by (cases x) (auto simp: map_of_eq_None_iff)
  qed (cases x; auto)
qed simp

lemma keyed_put:
  assumes "keyed acc"
  shows "keyed (put_stat k r s acc)"
proof -
  have "distinct (map fst (case map_of acc k of None \<Rightarrow> [] | Some ranges \<Rightarrow> ranges))"
    using assms by (auto simp: keyed_def split: option.splits)
  then have "distinct (map fst (AList.update r s (case map_of acc k of None \<Rightarrow> [] | Some ranges \<Rightarrow> ranges)))"
    by (rule distinct_update)
  then show ?thesis using assms by (auto simp: keyed_def put_stat_def distinct_update update_conv')
qed

lemma entry_total_put:
  assumes "keyed acc" and "f (no_stat X) = 0"
  shows "entry_total f (put_stat k r s acc) = entry_total f acc + f s - f (getTxStatsWithFallback X acc k r)"
proof -
  let ?ranges = "case map_of acc k of None \<Rightarrow> [] | Some ranges \<Rightarrow> ranges"
  have d: "distinct (map fst acc)" "distinct (map fst ?ranges)"
    using assms(1) by (auto simp: keyed_def split: option.splits)
  then show ?thesis using assms(2)
    by (auto simp: entry_total_def put_stat_def sum_update getTxStatsWithFallback_def split: option.splits)
qed

lemma add_tx_total:
  assumes "add_tx X chainID acc tx = Inr acc'" and "keyed acc" and "f (no_stat X) = 0"
    and "\<And>s v t. getTxValue X tx = Inr v \<Longrightarrow>
      f \<lparr>ts_count = ts_count s + 1, ts_volume = bn_add (big X) (bn_copy (big X) (ts_volume s)) v, ts_tokenID = t\<rparr> = f s + d"
  shows "entry_total f acc' = entry_total f acc + d \<and> keyed acc'"
  using assms by (auto simp: add_tx_def act_ok Let_def keyed_put entry_total_put)

lemma computed_total:
  assumes "computeTransactionStats X chainID txs = Inr stats" and "f (no_stat X) = 0"
    and "\<And>s v t tx. tx \<in> set txs \<Longrightarrow> getTxValue X tx = Inr v \<Longrightarrow>
      f \<lparr>ts_count = ts_count s + 1, ts_volume = bn_add (big X) (bn_copy (big X) (ts_volume s)) v, ts_tokenID = t\<rparr> = f s + d tx"
  shows "entry_total f stats = sum_list (map d txs)"
proof -
  have run: "entry_total f stats = entry_total f acc + sum_list (map d txs)"
    if "foldE (add_tx X chainID) acc txs = Inr stats" "keyed acc" for acc
    using that assms(3)
  proof (induction txs arbitrary: acc)
    case (Cons tx txs)
    then obtain acc1 where acc1: "add_tx X chainID acc tx = Inr acc1" "foldE (add_tx X chainID) acc1 txs = Inr stats"
      by (auto simp: act_ok)
    have "entry_total f acc1 = entry_total f acc + d tx \<and> keyed acc1"
      by (rule add_tx_total [where f = f, OF acc1(1) Cons.prems(2) assms(2)]) (simp add: Cons.prems(3))
    with Cons.IH [OF acc1(2)] Cons.prems(3) show ?case by simp
  qed simp
  obtain r where "foldE (add_tx X chainID) [(DB_ANY, [(r, no_stat X)])] txs = Inr stats"
    using assms(1) by (auto simp: computeTransactionStats_def getInitialValueToEnsureEachDayHasAtLeastOneEntry_def act_ok)
  from run [OF this] show ?thesis using assms(2) by (simp add: keyed_def entry_total_def)
qed

text \<open>
  C34. Every transaction of a day is counted once: the counts of the rows that are stored add up
  to the number of transactions, whatever the number library does.
\<close>

theorem stats_count_all:
  assumes "computeTransactionStats X chainID txs = Inr stats"
  shows "sum_list (map (\<lambda>row. as_int (oget row ''count'')) (transformStatsObjectToList X stats)) = int (length txs)"
proof -
  have rows: "sum_list (map (\<lambda>row. as_int (oget row ''count'')) (transformStatsObjectToList X ss)) = entry_total ts_count ss" for ss
    by (induction ss) (auto simp: transformStatsObjectToList_def entry_total_def stat_row_def as_int_def comp_def split_def)
  have "entry_total ts_count stats = sum_list (map (\<lambda>_. 1) txs)"
    by (rule computed_total [OF assms]) (simp_all add: no_stat_def)
  then show ?thesis by (simp add: rows sum_list_triv)
qed

subsection \<open>Volumes\<close>

text \<open>What the statistics need of the number library: sums of its numbers are sums of what they stand for.\<close>

definition numeric :: "jsval \<Rightarrow> bool" where
  "numeric v = (\<exists>n. js_number v = JNum n)"

locale adding_library =
  fixes B :: "'n bignum" and val :: "'n \<Rightarrow> int"
  assumes val_of: "numeric v \<Longrightarrow> val (bn_of B v) = as_int v"
    and val_copy: "val (bn_copy B n) = val n"
    and val_plus: "numeric v \<Longrightarrow> val (bn_plus B n v) = val n + as_int v"
    and val_add: "val (bn_add B n m) = val n + val m"
begin

lemma val_params:
  "\<forall>(k, v) \<in> set ps. counts_as_value k \<longrightarrow> numeric v \<Longrightarrow>
     val (foldl (\<lambda>total (k, v). if counts_as_value k then bn_plus B total v else total) n ps) =
     val n + sum_list (map (\<lambda>(_, v). as_int v) (filter (\<lambda>(k, _). counts_as_value k) ps))"
  by (induction ps arbitrary: n) (auto simp: val_plus)

end

text \<open>The fee, the amount and the further fees of a transaction.\<close>

definition worth :: "jsval \<Rightarrow> int" where
  "worth tx = as_int (oget (own_props tx) ''fee'') +
     sum_list (map (\<lambda>(_, v). as_int v) (filter (\<lambda>(k, _). counts_as_value k) (own_props (oget (own_props tx) ''params''))))"

definition valued_tx :: "jsval \<Rightarrow> bool" where
  "valued_tx tx = (\<exists>ps. tx = JObj ps \<and> numeric (oget ps ''fee'') \<and>
     (\<forall>(k, v) \<in> set (own_props (oget ps ''params'')). counts_as_value k \<longrightarrow> numeric v))"

text \<open>
  With a number library that adds, the volumes of the statistics add up to the values of the
  transactions: their fees, amounts and further fees.
\<close>

lemma stats_volume_total:
  assumes "adding_library (big X) val" and "computeTransactionStats X chainID txs = Inr stats"
    and "\<forall>tx \<in> set txs. valued_tx tx"
  shows "sum_list (map (\<lambda>(_, ranges). sum_list (map (\<lambda>(_, s). val (ts_volume s)) ranges)) stats) = sum_list (map worth txs)"
proof -
  have worth_val: "val v = worth tx" if "tx \<in> set txs" "getTxValue X tx = Inr v" for tx v
  proof -
    obtain ps where tx: "tx = JObj ps" "numeric (oget ps ''fee'')"
      "\<forall>(k, v) \<in> set (own_props (oget ps ''params'')). counts_as_value k \<longrightarrow> numeric v"
      using assms(3) \<open>tx \<in> set txs\<close> by (auto simp: valued_tx_def)
    then show ?thesis using \<open>getTxValue X tx = Inr v\<close>
      by (auto simp: getTxValue_def worth_def own_props_def adding_library.val_params [OF assms(1)] adding_library.val_of [OF assms(1)]
          split: if_splits)
  qed
  have "entry_total (\<lambda>s. val (ts_volume s)) stats = sum_list (map worth txs)"
    by (rule computed_total [OF assms(2)])
      (simp_all add: no_stat_def worth_val adding_library.val_of [OF assms(1)] adding_library.val_copy [OF assms(1)]
        adding_library.val_add [OF assms(1)] numeric_def as_int_def)
  then show ?thesis by (simp add: entry_total_def)
qed

text \<open>The library over the integers, with one range for every value.\<close>

definition int_library :: "int bignum" where
  "int_library = \<lparr>bn_of = as_int, bn_copy = (\<lambda>n. n), bn_plus = (\<lambda>n v. n + as_int v), bn_add = (+), bn_ceil = (\<lambda>n. n),
     bn_log = (\<lambda>n. if n = 0 then None else Some 0)\<rparr>"

interpretation int_library: adding_library int_library "\<lambda>n. n"
  by unfold_locales (simp_all add: int_library_def)

definition int_sext :: "int sext" where
  "int_sext = \<lparr>stat_kx = sql_run (\<lambda>_ _. False), stat_indexer = (\<lambda>_ _. Inr JUndef), big = int_library,
     pow10_text = (\<lambda>e. if e = 0 then ''1'' else ''10''),
     moment_of = \<lparr>m_now = 0, m_unix = (\<lambda>m. m), m_of_unix = as_int, m_utc = (\<lambda>m. m), m_add = (\<lambda>m _ _. m), m_subtract = (\<lambda>m _ _. m),
       m_startOf = (\<lambda>m _. m), m_endOf = (\<lambda>m _. m), m_format = (\<lambda>_ s. s), m_diff = (\<lambda>_ _ _. JNum 0), date_seconds = (\<lambda>_. JNum 0)\<rparr>,
     collate = (\<lambda>a b. if str_less a b then -1 else if str_less b a then 1 else 0)\<rparr>"

definition transfer_of :: "string \<Rightarrow> string \<Rightarrow> jsval" where
  "transfer_of token amount = JObj [(''moduleCommand'', JStr ''token:transfer''), (''fee'', JStr ''1''),
     (''params'', JObj [(''tokenID'', JStr token), (''amount'', JStr amount), (''messageFee'', JStr ''2'')])]"

definition two_tokens :: "jsval list" where
  "two_tokens = [transfer_of ''t1'' ''5'', transfer_of ''t2'' ''7'']"

lemma two_tokens_run: "\<exists>stats. computeTransactionStats int_sext JUndef two_tokens = Inr stats"
  unfolding not_isl_iff by code_simp

theorem stats_count_all_witness:
  "\<exists>stats. computeTransactionStats int_sext JUndef two_tokens = Inr stats \<and>
     sum_list (map (\<lambda>row. as_int (oget row ''count'')) (transformStatsObjectToList int_sext stats)) = 2"
proof -
  obtain stats where run: "computeTransactionStats int_sext JUndef two_tokens = Inr stats" using two_tokens_run by blast
  from stats_count_all [OF run] run show ?thesis by (simp add: two_tokens_def)
qed

subsection \<open>Tokens\<close>

text \<open>The transactions of one command whose value is in one range.\<close>

definition in_entry :: "'n sext \<Rightarrow> string \<Rightarrow> string \<Rightarrow> jsval \<Rightarrow> bool" where
  "in_entry X k r tx = (\<exists>mv. js_prop tx ''moduleCommand'' = Inr mv \<and> js_string mv = k \<and> getRange X tx = Inr r)"

lemma fallback_put:
  "getTxStatsWithFallback X (put_stat k r s acc) k' r' = (if k' = k \<and> r' = r then s else getTxStatsWithFallback X acc k' r')"
  by (auto simp: getTxStatsWithFallback_def put_stat_def update_conv' split: option.splits)

lemma add_tx_entry:
  assumes "add_tx X chainID acc tx = Inr acc'"
  shows "ts_count (getTxStatsWithFallback X acc' k r) = ts_count (getTxStatsWithFallback X acc k r) + (if in_entry X k r tx then 1 else 0)"
  using assms by (auto simp: add_tx_def act_ok Let_def fallback_put in_entry_def)

lemma fold_entry:
  "foldE (add_tx X chainID) acc txs = Inr stats \<Longrightarrow>
     ts_count (getTxStatsWithFallback X stats k r) = ts_count (getTxStatsWithFallback X acc k r) + int (length (filter (in_entry X k r) txs))"
proof (induction txs arbitrary: acc)
  case (Cons tx txs)
  then obtain acc1 where "add_tx X chainID acc tx = Inr acc1" "foldE (add_tx X chainID) acc1 txs = Inr stats" by (auto simp: act_ok)
  with Cons.IH [of acc1] add_tx_entry [of X chainID acc tx acc1 k r] show ?case by simp
qed simp

text \<open>
  The statistics of a command and a range do not tell tokens apart: their count is the number of
  all such transactions, and the token they are stored under is that of the last of them.
\<close>

lemma stats_mix_tokens:
  assumes "computeTransactionStats X chainID (txs @ [tx]) = Inr stats" and "in_entry X k r tx"
    and "js_path tx [''params'', ''tokenID''] = Inr tv" and "resolveGlobalTokenID chainID tv = Inr tokenID"
  shows "ts_count (getTxStatsWithFallback X stats k r) = int (length (filter (in_entry X k r) (txs @ [tx]))) \<and>
     ts_tokenID (getTxStatsWithFallback X stats k r) = tokenID"
proof -
  obtain r0 acc where acc: "foldE (add_tx X chainID) [(DB_ANY, [(r0, no_stat X)])] (txs @ [tx]) = Inr stats"
    and lst: "add_tx X chainID acc tx = Inr stats"
    using assms(1) by (auto simp: computeTransactionStats_def getInitialValueToEnsureEachDayHasAtLeastOneEntry_def act_ok foldE_append)
  have "ts_count (getTxStatsWithFallback X [(DB_ANY, [(r0, no_stat X)])] k r) = 0"
    by (simp add: getTxStatsWithFallback_def no_stat_def)
  then have "ts_count (getTxStatsWithFallback X stats k r) = int (length (filter (in_entry X k r) (txs @ [tx])))"
    using fold_entry [OF acc, of k r] by simp
  moreover have "ts_tokenID (getTxStatsWithFallback X stats k r) = tokenID"
    using lst assms(2-) by (auto simp: add_tx_def act_ok Let_def fallback_put in_entry_def simp del: js_path.simps)
  ultimately show ?thesis ..
qed

end
