(* ===== verification/FileSys.thy ===== *)
theory FileSys
  imports JsSort
begin

text \<open>
  The part of the file system that the services use, and \<open>shared/utils/fs.js\<close> of the application
  registry: files with their text, directories, and the paths of \<open>path.join\<close> and \<open>path.dirname\<close>. A
  directory is listed in the order in which its entries were made; the time of the last change of
  a directory is a parameter.
\<close>

record fsys =
  fs_files :: "(string \<times> string) list"
  fs_dirs :: "string list"

type_synonym 'a fact = "(fsys, 'a) action"

subsection \<open>Paths\<close>

text \<open>\<open>path.join(a, b)\<close>: empty segments and \<open>.\<close> are dropped, \<open>..\<close> goes up.\<close>

fun norm_segs :: "string list \<Rightarrow> string list \<Rightarrow> string list" where
  "norm_segs acc [] = rev acc"
| "norm_segs acc (s # ss) =
     (if s = [] \<or> s = ''.'' then norm_segs acc ss
      else if s = ''..'' then norm_segs (tl acc) ss
      else norm_segs (s # acc) ss)"

definition absolute :: "string list \<Rightarrow> string" where
  "absolute ss = concat (map (\<lambda>s. ''/'' @ s) ss)"

definition path_join :: "string \<Rightarrow> string \<Rightarrow> string" where
  "path_join a b = absolute (norm_segs [] (js_split ''/'' a @ js_split ''/'' b))"

text \<open>\<open>path.dirname\<close> of an absolute path.\<close>

definition dirname :: "string \<Rightarrow> string" where
  "dirname p = absolute (butlast (norm_segs [] (js_split ''/'' p)))"

definition under :: "string \<Rightarrow> string \<Rightarrow> bool" where
  "under d p = (take (Suc (length d)) p = d @ ''/'')"

definition last_seg :: "string \<Rightarrow> string" where
  "last_seg p = last (js_split ''/'' p)"

text \<open>A directory with everything above it.\<close>

definition ancestors :: "string \<Rightarrow> string list" where
  "ancestors p = (let ss = norm_segs [] (js_split ''/'' p) in map (\<lambda>n. absolute (take n ss)) [1..<Suc (length ss)])"

subsection \<open>fs.js\<close>

definition fs_exists :: "string \<Rightarrow> bool fact" where
  "fs_exists p = getA (\<lambda>s. map_of (fs_files s) p \<noteq> None \<or> p \<in> set (fs_dirs s))"

definition enoent :: "string \<Rightarrow> jserr" where
  "enoent p = Err (''ENOENT: no such file or directory: '' @ p)"

definition fs_read :: "string \<Rightarrow> string fact" where
  "fs_read p = bnd (getA fs_files) (\<lambda>fs. case map_of fs p of None \<Rightarrow> throw (enoent p) | Some t \<Rightarrow> ret t)"

definition fs_write :: "string \<Rightarrow> string \<Rightarrow> unit fact" where
  "fs_write p content =
     bnd (getA fs_dirs) (\<lambda>ds. if dirname p \<in> set ds then modA (\<lambda>s. s\<lparr>fs_files := AList.update p content (fs_files s)\<rparr>)
     else throw (enoent p))"

definition fs_mkdir :: "string \<Rightarrow> unit fact" where
  "fs_mkdir p =
     bnd (getA fs_files) (\<lambda>fs. if list_ex (\<lambda>d. map_of fs d \<noteq> None) (ancestors p)
     then throw (Err (''EEXIST: file already exists: '' @ p))
     else modA (\<lambda>s. s\<lparr>fs_dirs := fs_dirs s @ filter (\<lambda>d. d \<notin> set (fs_dirs s)) (ancestors p)\<rparr>))"

text \<open>\<open>rm\<close> does not throw: it returns whether something was removed.\<close>

definition fs_rm :: "bool \<Rightarrow> string \<Rightarrow> bool fact" where
  "fs_rm recursive p = (\<lambda>s.
     if map_of (fs_files s) p \<noteq> None then (Inr True, s\<lparr>fs_files := filter (\<lambda>(f, _). f \<noteq> p) (fs_files s)\<rparr>)
     else if recursive \<and> p \<in> set (fs_dirs s)
     then (Inr True, s\<lparr>fs_files := filter (\<lambda>(f, _). \<not> under p f) (fs_files s),
             fs_dirs := filter (\<lambda>d. d \<noteq> p \<and> \<not> under p d) (fs_dirs s)\<rparr>)
     else (Inr False, s))"

definition fs_rmdir :: "string \<Rightarrow> bool fact" where
  "fs_rmdir p = fs_rm True p"

definition moved :: "string \<Rightarrow> string \<Rightarrow> string \<Rightarrow> string" where
  "moved source target p = (if p = source then target else if under source p then target @ drop (length source) p else p)"

definition fs_rename :: "string \<Rightarrow> string \<Rightarrow> unit fact" where
  "fs_rename source target = (\<lambda>s.
     if dirname target \<notin> set (fs_dirs s) then (Inl (enoent source), s)
     else case map_of (fs_files s) source of
       Some t \<Rightarrow> if target \<in> set (fs_dirs s) then (Inl (Err (''EISDIR: '' @ target)), s)
                 else (Inr (), s\<lparr>fs_files := AList.update target t (filter (\<lambda>(f, _). f \<noteq> source) (fs_files s))\<rparr>)
     | None \<Rightarrow>
         if source \<notin> set (fs_dirs s) then (Inl (enoent source), s)
         else if map_of (fs_files s) target \<noteq> None \<or> list_ex (\<lambda>p. under target p) (map fst (fs_files s) @ fs_dirs s)
         then (Inl (Err (''ENOTEMPTY: '' @ target)), s)
         else (Inr (), s\<lparr>fs_files := map (\<lambda>(f, t). (moved source target f, t)) (fs_files s),
                 fs_dirs := map (moved source target) (filter (\<lambda>d. d \<noteq> target) (fs_dirs s))\<rparr>))"

definition child_of :: "string \<Rightarrow> string \<Rightarrow> bool" where
  "child_of d p = (under d p \<and> CHR ''/'' \<notin> set (drop (Suc (length d)) p))"

definition getDirectories :: "(string \<Rightarrow> int) \<Rightarrow> string \<Rightarrow> string list fact" where
  "getDirectories ctime d =
     bnd (getA fs_dirs) (\<lambda>ds. if d \<notin> set ds then throw (enoent d)
     else liftE (js_sort (\<lambda>a b. Inr (ctime b - ctime a)) (filter (child_of d) ds)))"

definition getFiles :: "string \<Rightarrow> string list fact" where
  "getFiles d =
     bnd (getA (\<lambda>s. s)) (\<lambda>s. if d \<notin> set (fs_dirs s) then throw (enoent d)
     else ret (filter (child_of d) (map fst (fs_files s))))"

text \<open>\<open>(await stats(p)).isDirectory()\<close>.\<close>

definition fs_isDirectory :: "string \<Rightarrow> bool fact" where
  "fs_isDirectory p = bnd (getA (\<lambda>s. s)) (\<lambda>s. if p \<in> set (fs_dirs s) then ret True
     else if map_of (fs_files s) p \<noteq> None then ret False else throw (enoent p))"

definition getFilesAndDirs :: "(string \<Rightarrow> int) \<Rightarrow> string \<Rightarrow> string list fact" where
  "getFilesAndDirs ctime d =
     bnd (getDirectories ctime d) (\<lambda>ds. bnd (getFiles d) (\<lambda>fs. ret (ds @ fs)))"

subsection \<open>Laws of paths\<close>

definition proper :: "string \<Rightarrow> bool" where
  "proper s = (s \<noteq> [] \<and> s \<noteq> ''.'' \<and> s \<noteq> ''..'' \<and> CHR ''/'' \<notin> set s)"

text \<open>A name as Git stores it: no empty segment, and none that goes up.\<close>

definition clean_name :: "string \<Rightarrow> bool" where
  "clean_name f = list_all proper (js_split ''/'' f)"

lemma split_ne: "split_from sep acc s \<noteq> []"
  by (induction sep acc s rule: split_from.induct) auto

lemma split_segs: "s \<in> set (split_from [c] acc t) \<Longrightarrow> c \<notin> set acc \<Longrightarrow> c \<notin> set s"
  by (induction "[c]" acc t rule: split_from.induct) (auto split: if_splits)

lemma norm_segs_append: "norm_segs acc (xs @ ys) = norm_segs (rev (norm_segs acc xs)) ys"
  by (induction acc xs rule: norm_segs.induct) auto

lemma norm_segs_proper: "list_all proper ss \<Longrightarrow> norm_segs acc ss = rev acc @ ss"
  by (induction ss arbitrary: acc) (auto simp: proper_def)

lemma proper_norm_segs: "\<forall>s \<in> set ss. CHR ''/'' \<notin> set s \<Longrightarrow> list_all proper acc \<Longrightarrow> list_all proper (norm_segs acc ss)"
proof (induction acc ss rule: norm_segs.induct)
  case (2 acc s ss)
  then show ?case by (cases acc) (auto simp: proper_def)
qed (simp add: list_all_iff)

lemma split_absolute: "list_all proper ss \<Longrightarrow> norm_segs [] (js_split ''/'' (absolute ss)) = ss"
proof -
  have "split_from ''/'' acc (absolute ss) = rev acc # ss" if "list_all proper ss" for acc
    using that
  proof (induction ss arbitrary: acc)
    case (Cons s ss)
    then have "split_from ''/'' [] (s @ absolute ss) = s # ss"
      by (cases ss) (auto simp: absolute_def proper_def split_once split_at)
    then show ?case using Cons by (simp add: absolute_def)
  qed (simp add: absolute_def)
  then show "list_all proper ss \<Longrightarrow> norm_segs [] (js_split ''/'' (absolute ss)) = ss"
    by (simp add: js_split_def norm_segs_proper)
qed

text \<open>A clean name stays below the directory it is joined to.\<close>

lemma join_under:
  assumes "clean_name f"
  shows "under (path_join a b) (path_join (path_join a b) f)"
proof -
  define ss where "ss = norm_segs [] (js_split ''/'' a @ js_split ''/'' b)"
  have ss: "list_all proper ss" unfolding ss_def
    by (rule proper_norm_segs) (auto simp: js_split_def dest: split_segs)
  have "path_join (path_join a b) f = absolute (ss @ js_split ''/'' f)"
    using assms split_absolute [OF ss] unfolding path_join_def ss_def [symmetric] clean_name_def
    by (simp add: norm_segs_append norm_segs_proper)
  moreover obtain g gs where "js_split ''/'' f = g # gs" using split_ne unfolding js_split_def by (meson neq_Nil_conv)
  ultimately show ?thesis unfolding path_join_def ss_def [symmetric] by (simp add: under_def absolute_def)
qed

lemma norm_join: "list_all proper (norm_segs [] (js_split ''/'' a @ js_split ''/'' b))"
  by (rule proper_norm_segs) (auto simp: js_split_def dest: split_segs)

text \<open>A plain file name names an entry of the directory it is joined to, and different names different entries.\<close>

lemma join_plain:
  assumes "proper f"
  shows "path_join a f = path_join a [] @ ''/'' @ f" and "dirname (path_join a f) = path_join a []"
proof -
  define ss where "ss = norm_segs [] (js_split ''/'' a @ js_split ''/'' [])"
  have f: "js_split ''/'' f = [f]" using assms by (simp add: proper_def js_split_def split_once)
  have e: "js_split ''/'' [] = [[]]" by (simp add: js_split_def)
  have j: "norm_segs [] (js_split ''/'' a @ js_split ''/'' f) = ss @ [f]"
    using assms unfolding ss_def f e by (simp add: norm_segs_append proper_def)
  then have p: "path_join a f = absolute (ss @ [f])" by (simp add: path_join_def)
  then show "path_join a f = path_join a [] @ ''/'' @ f"
    by (simp add: path_join_def ss_def [symmetric] absolute_def)
  have "list_all proper (ss @ [f])" using norm_join [of a "[]"] assms by (simp add: ss_def)
  then show "dirname (path_join a f) = path_join a []"
    unfolding dirname_def p by (simp add: split_absolute path_join_def ss_def)
qed

end
