(* ===== verification/AppRegistry.thy ===== *)
theory AppRegistry
  imports KVStore FileSys JsonParse
begin

text \<open>
  \<open>services/blockchain-app-registry\<close>: the metadata of the applications, kept in a clone of a
  repository and indexed in two tables (\<open>metadataIndex.js\<close>), the job that follows the repository
  (\<open>utils/downloadRepository.js\<close>) and the queries (\<open>metadata.js\<close>). GitHub's client, what a download
  returns, the contents of an archive and the answers of the indexer are parameters.
\<close>

subsection \<open>Environment\<close>

datatype download =
    Downloaded string
  | Refused_with int string
  | Broken string

record rext =
  r_kx :: engine
  r_indexer :: "string \<Rightarrow> jsval \<Rightarrow> jserr + jsval"
  octokit :: "string \<Rightarrow> jserr + jsval"
  fetch_url :: "string \<Rightarrow> download"
  untar :: "string \<Rightarrow> (string \<times> string) list"
  r_ctime :: "string \<Rightarrow> int"
  r_collate :: "string \<Rightarrow> string \<Rightarrow> int"
  r_http_lib :: http_lib
  dataDir :: string
  appRegistryRepo :: string
  branch :: string
  userApps :: "string list"
  isRebuildIndexAtInit :: bool

record rworld = world +
  r_fs :: fsys
  r_signals :: "(string \<times> jsval) list"
  r_chainID :: jsval
  r_isReady :: bool
  r_http :: http_world

type_synonym 'a ract = "(rworld, 'a) action"

definition runFs :: "'a fact \<Rightarrow> 'a ract" where
  "runFs act = (\<lambda>w. case act (r_fs w) of (r, s) \<Rightarrow> (r, w\<lparr>r_fs := s\<rparr>))"

definition runRegistryHttp :: "'a hact \<Rightarrow> 'a ract" where
  "runRegistryHttp act = (\<lambda>w. case act (r_http w) of (r, h) \<Rightarrow> (r, w\<lparr>r_http := h\<rparr>))"

abbreviation rprop :: "jsval \<Rightarrow> string \<Rightarrow> jsval ract" where
  "rprop v k \<equiv> liftE (js_prop v k)"

subsection \<open>Configuration and schemas\<close>

definition supportedNetworks :: "string list" where
  "supportedNetworks = [''mainnet'', ''testnet'', ''betanet'', ''alphanet'', ''devnet'']"

definition defaultApps :: "rext \<Rightarrow> string list" where
  "defaultApps X = [''Lisk''] @ userApps X"

definition APP_JSON :: string where "APP_JSON = ''app.json''"
definition NATIVETOKENS_JSON :: string where "NATIVETOKENS_JSON = ''nativetokens.json''"

definition ALLOWED_FILE_EXTENSIONS :: "string list" where
  "ALLOWED_FILE_EXTENSIONS = [''.png'', ''.svg'']"

definition CHAIN_ID_PREFIX_NETWORK_MAP :: "(string \<times> string) list" where
  "CHAIN_ID_PREFIX_NETWORK_MAP =
     [(''00'', ''mainnet''), (''01'', ''testnet''), (''02'', ''betanet''), (''03'', ''alphanet''), (''04'', ''devnet'')]"

definition network_of :: "string \<Rightarrow> jsval" where
  "network_of chainID = (case map_of CHAIN_ID_PREFIX_NETWORK_MAP (take 2 chainID) of Some n \<Rightarrow> JStr n | None \<Rightarrow> JUndef)"

definition knownMainchainIDs :: "string list" where
  "knownMainchainIDs = map (\<lambda>(e, _). e @ replicate (8 - length e) (CHR ''0'')) CHAIN_ID_PREFIX_NETWORK_MAP"

definition applicationMetadataSchema :: table_config where
  "applicationMetadataSchema = \<lparr>tableName = ''application_metadata'', primaryKey = [''network'', ''chainName''], charset = None,
     schema = [
       (''chainName'', \<lparr>cs_type = ''string'', cs_null = None, cs_default = None\<rparr>),
       (''chainID'', \<lparr>cs_type = ''string'', cs_null = None, cs_default = None\<rparr>),
       (''network'', \<lparr>cs_type = ''string'', cs_null = None, cs_default = None\<rparr>),
       (''isDefault'', \<lparr>cs_type = ''boolean'', cs_null = Some False, cs_default = Some (JBool False)\<rparr>),
       (''appDirName'', \<lparr>cs_type = ''string'', cs_null = None, cs_default = None\<rparr>)],
     indexes = [''chainID'', ''chainName'', ''network'', ''isDefault'']\<rparr>"

definition tokenMetadataSchema :: table_config where
  "tokenMetadataSchema = \<lparr>tableName = ''token_metadata'', primaryKey = [''network'', ''chainName'', ''localID''], charset = None,
     schema = [
       (''chainID'', \<lparr>cs_type = ''string'', cs_null = None, cs_default = None\<rparr>),
       (''chainName'', \<lparr>cs_type = ''string'', cs_null = None, cs_default = None\<rparr>),
       (''network'', \<lparr>cs_type = ''string'', cs_null = None, cs_default = None\<rparr>),
       (''localID'', \<lparr>cs_type = ''string'', cs_null = None, cs_default = None\<rparr>),
       (''tokenName'', \<lparr>cs_type = ''string'', cs_null = None, cs_default = None\<rparr>),
       (''tokenID'', \<lparr>cs_type = ''string'', cs_null = None, cs_default = None\<rparr>)],
     indexes = [''chainID'', ''chainName'', ''localID'', ''tokenName'', ''network'', ''tokenID'']\<rparr>"

text \<open>\<open>database/mysqlKVStore.js\<close> of this service.\<close>

definition registry_set :: "rext \<Rightarrow> string \<Rightarrow> jsval \<Rightarrow> bool \<Rightarrow> unit ract" where
  "registry_set X key val inTrx =
     (let type = js_typeof val in
      if type \<notin> set ALLOWED_VALUE_TYPES
      then throw (Err (''Allowed 'value' types are: '' @ join '','' ALLOWED_VALUE_TYPES))
      else let finalValue = (if val = JUndef then val else JStr (js_string val)) in
        upsert (r_kx X) kvStoreTableSchema
          (JObj [(''key'', JStr key), (''value'', finalValue), (''type'', JStr type)]) inTrx)"

definition registry_get :: "rext \<Rightarrow> string \<Rightarrow> jsval ract" where
  "registry_get X key =
     bnd (table_find (r_kx X) kvStoreTableSchema [(''key'', JStr key), (''limit'', JNum 1)] (Some [''value'', ''type''])) (\<lambda>rows.
     let row = own_props (js_default (js_first rows) (JObj [])) in
     liftE (formatValue (oget row ''value'') (oget row ''type'')))"

definition COMMIT_HASH_UNTIL_LAST_SYNC :: string where
  "COMMIT_HASH_UNTIL_LAST_SYNC = ''commitHashUntilLastSync''"

subsection \<open>metadataIndex.js\<close>

definition local_id :: "jsval \<Rightarrow> jserr + jsval" where
  "local_id tokenID = bindE (as_str tokenID) (\<lambda>s. Inr (JStr (to_lower (drop 8 s))))"

definition token_row :: "jsval \<Rightarrow> jsval \<Rightarrow> jserr + jsval" where
  "token_row tokenMeta token =
     bindE (js_prop tokenMeta ''chainID'') (\<lambda>cv. bindE (as_str cv) (\<lambda>chainID.
     bindE (js_prop tokenMeta ''chainName'') (\<lambda>chainName. bindE (js_prop tokenMeta ''network'') (\<lambda>network.
     bindE (js_prop token ''tokenID'') (\<lambda>tokenID. bindE (local_id tokenID) (\<lambda>localID.
     bindE (js_prop token ''tokenName'') (\<lambda>tokenName.
     Inr (JObj [(''chainID'', JStr (to_lower chainID)), (''chainName'', chainName), (''network'', network), (''localID'', localID),
       (''tokenName'', tokenName), (''tokenID'', tokenID)]))))))))"

definition indexTokensMeta :: "rext \<Rightarrow> jsval \<Rightarrow> unit ract" where
  "indexTokensMeta X tokenMeta =
     bnd (rprop tokenMeta ''tokens'') (\<lambda>tv. bnd (liftE (js_elems tv)) (\<lambda>tokens.
     bnd (liftE (mapE (token_row tokenMeta) tokens)) (\<lambda>rows.
     upsert (r_kx X) tokenMetadataSchema (JArr rows) True)))"

definition indexAppMeta :: "rext \<Rightarrow> obj \<Rightarrow> unit ract" where
  "indexAppMeta X appMeta =
     upsert (r_kx X) applicationMetadataSchema (JObj [(''chainID'', oget appMeta ''chainID''), (''chainName'', oget appMeta ''chainName''),
       (''network'', oget appMeta ''networkType''),
       (''isDefault'', JBool (oget appMeta ''chainName'' \<in> set (map JStr (defaultApps X)))),
       (''appDirName'', oget appMeta ''appDirName'')]) True"

text \<open>\<open>const [network, app, filename] = filePath.split('/').slice(-3)\<close>.\<close>

definition last_three :: "string \<Rightarrow> jsval \<times> jsval \<times> jsval" where
  "last_three p =
     (let ss = js_split ''/'' p; xs = map JStr (drop (length ss - 3) ss);
          at = (\<lambda>i. if i < length xs then xs ! i else JUndef) in (at 0, at 1, at 2))"

definition repo_name :: "rext \<Rightarrow> string" where
  "repo_name X = last (js_split ''/'' (appRegistryRepo X))"

definition clone_path :: "rext \<Rightarrow> jsval \<Rightarrow> jsval \<Rightarrow> string \<Rightarrow> string" where
  "clone_path X network app filename =
     dataDir X @ ''/'' @ repo_name X @ ''/'' @ js_string network @ ''/'' @ js_string app @ ''/'' @ filename"

definition parsed_file :: "string \<Rightarrow> jsval ract" where
  "parsed_file p = bnd (runFs (fs_read p)) (\<lambda>t. liftE (json_parse t))"

definition require_app :: "jsval \<Rightarrow> jsval \<Rightarrow> unit ract" where
  "require_app network app =
     (if \<not> truthy network \<or> \<not> truthy app then throw (Err ''Require both 'network' and 'app'.'') else ret ())"

definition indexMetadataFromFile :: "rext \<Rightarrow> string \<Rightarrow> unit ract" where
  "indexMetadataFromFile X filePath =
     (let (network, app, filename) = last_three filePath in
     thn (require_app network app) (
     let downloadedAppJsonPath = dirname filePath @ ''/'' @ APP_JSON in
     bnd (runFs (fs_exists downloadedAppJsonPath)) (\<lambda>fresh.
     bnd (parsed_file (if fresh then downloadedAppJsonPath else clone_path X network app APP_JSON)) (\<lambda>parsed.
     let appMeta = oset (own_props parsed) ''appDirName'' app in
     thn (if filename = JStr APP_JSON then indexAppMeta X appMeta else ret ()) (
     if filename = JStr NATIVETOKENS_JSON
     then bnd (parsed_file filePath) (\<lambda>tokens.
          indexTokensMeta X (JObj (spread (own_props tokens) [(''chainName'', oget appMeta ''chainName''),
            (''chainID'', oget appMeta ''chainID''), (''network'', network)])))
     else ret ())))))"

definition deleteAppMeta :: "rext \<Rightarrow> obj \<Rightarrow> unit ract" where
  "deleteAppMeta X appMeta =
     thn (deleteByParams (r_kx X) applicationMetadataSchema
            [(''network'', oget appMeta ''networkType''), (''chainName'', oget appMeta ''chainName'')] True) (ret ())"

definition deleteTokensMeta :: "rext \<Rightarrow> jsval list \<Rightarrow> jsval \<Rightarrow> jsval \<Rightarrow> unit ract" where
  "deleteTokensMeta X localIDs chainName network =
     forA (\<lambda>localID. deleteByParams (r_kx X) tokenMetadataSchema
             [(''network'', network), (''chainName'', chainName), (''localID'', localID)] True) localIDs"

definition deleteIndexedMetadataFromFile :: "rext \<Rightarrow> string \<Rightarrow> unit ract" where
  "deleteIndexedMetadataFromFile X filePath =
     (let (network, app, filename) = last_three filePath in
     thn (require_app network app) (
     bnd (parsed_file (dirname filePath @ ''/'' @ APP_JSON)) (\<lambda>parsed.
     let appMeta = own_props parsed in
     thn (if filename = JStr APP_JSON then deleteAppMeta X appMeta else ret ()) (
     if filename = JStr NATIVETOKENS_JSON
     then bnd (parsed_file filePath) (\<lambda>tokenMeta. bnd (rprop tokenMeta ''tokens'') (\<lambda>tv. bnd (liftE (js_elems tv)) (\<lambda>tokens.
          bnd (liftE (mapE (\<lambda>token. bindE (js_prop token ''tokenID'') local_id) tokens)) (\<lambda>localIDs.
          deleteTokensMeta X localIDs (oget appMeta ''chainName'') network))))
     else ret ()))))"

text \<open>One file indexed in a transaction of its own; an error is logged.\<close>

definition index_file :: "rext \<Rightarrow> string \<Rightarrow> unit ract" where
  "index_file X file =
     (if last_seg file \<in> {APP_JSON, NATIVETOKENS_JSON} then
        thn startDbTransaction (
        tryA (thn (indexMetadataFromFile X file) commitDbTransaction) (\<lambda>_. rollbackDbTransaction))
      else ret ())"

definition indexAllBlockchainAppsMeta :: "rext \<Rightarrow> unit ract" where
  "indexAllBlockchainAppsMeta X =
     forA (\<lambda>network.
       bnd (runFs (getDirectories (r_ctime X) (path_join (path_join (dataDir X) (repo_name X)) network))) (\<lambda>apps.
       forA (\<lambda>app. bnd (runFs (getFiles app)) (\<lambda>files. forA (index_file X) files)) apps)) supportedNetworks"

subsection \<open>utils/downloadRepository.js: GitHub and downloads\<close>

definition getRepoInfoFromURL :: "string \<Rightarrow> jsval \<times> jsval" where
  "getRepoInfoFromURL url =
     (let ss = js_split ''/'' url; at = (\<lambda>i. if i < length ss then JStr (ss ! i) else JUndef) in (at 3, at 4))"

definition repo_url :: "rext \<Rightarrow> string" where
  "repo_url X = (let (owner, repo) = getRepoInfoFromURL (appRegistryRepo X) in
     ''GET /repos/'' @ js_string owner @ ''/'' @ js_string repo)"

definition getLatestCommitHash :: "rext \<Rightarrow> jsval ract" where
  "getLatestCommitHash X =
     bnd (liftE (octokit X (repo_url X @ ''/commits/'' @ branch X))) (\<lambda>r. liftE (js_path r [''data'', ''sha'']))"

definition getCommitInfo :: "rext \<Rightarrow> (jsval \<times> jsval) ract" where
  "getCommitInfo X =
     bnd (registry_get X COMMIT_HASH_UNTIL_LAST_SYNC) (\<lambda>synced.
     bnd (getLatestCommitHash X) (\<lambda>latest. ret (synced, latest)))"

definition getRepoDownloadURL :: "rext \<Rightarrow> jsval ract" where
  "getRepoDownloadURL X = liftE (octokit X (repo_url X @ ''/tarball/'' @ branch X))"

definition getFileDownloadURL :: "rext \<Rightarrow> string \<Rightarrow> jsval ract" where
  "getFileDownloadURL X file =
     bnd (liftE (octokit X (repo_url X @ ''/contents/'' @ file))) (\<lambda>r. liftE (js_path r [''data'', ''download_url'']))"

definition getDiff :: "rext \<Rightarrow> jsval \<Rightarrow> jsval \<Rightarrow> jsval ract" where
  "getDiff X synced latest = liftE (octokit X (repo_url X @ ''/compare/'' @ js_string synced @ ''...'' @ js_string latest))"

definition refused :: "int \<Rightarrow> string \<Rightarrow> jserr" where
  "refused code message =
     (let m = ''Download failed with HTTP status code: '' @ show_int code @ '' ('' @ message @ '').'' in
      if code = 404 then NotFoundErr m else Err m)"

definition fetched :: "rext \<Rightarrow> jsval \<Rightarrow> string \<Rightarrow> string ract" where
  "fetched X url what =
     (if \<not> truthy url then throw (Err (''Invalid url or '' @ what))
      else bnd (liftE (as_str url)) (\<lambda>u. case fetch_url X u of
             Downloaded body \<Rightarrow> ret body
           | Refused_with code message \<Rightarrow> throw (refused code message)
           | Broken message \<Rightarrow> throw (Err message)))"

definition downloadFile :: "rext \<Rightarrow> jsval \<Rightarrow> string \<Rightarrow> unit ract" where
  "downloadFile X url filePath = bnd (fetched X url ''filePath'') (\<lambda>body. runFs (fs_write filePath body))"

definition extract_entry :: "string \<Rightarrow> string \<times> string \<Rightarrow> unit ract" where
  "extract_entry directoryPath = (\<lambda>(f, t).
     let p = path_join directoryPath f in thn (runFs (fs_mkdir (dirname p))) (runFs (fs_write p t)))"

definition downloadAndExtractTarball :: "rext \<Rightarrow> jsval \<Rightarrow> string \<Rightarrow> unit ract" where
  "downloadAndExtractTarball X url directoryPath =
     bnd (fetched X url ''directoryPath'') (\<lambda>body. forA (extract_entry directoryPath) (untar X body))"

subsection \<open>utils/downloadRepository.js: the changed files\<close>

definition isMetadataFile :: "string \<Rightarrow> bool" where
  "isMetadataFile p = (ends_with APP_JSON p \<or> ends_with NATIVETOKENS_JSON p)"

definition filterMetaConfigFilesByNetwork :: "string \<Rightarrow> string list \<Rightarrow> string list" where
  "filterMetaConfigFilesByNetwork network files =
     filter (\<lambda>file. take (length network) file = network \<and> isMetadataFile file) files"

definition getUniqueNetworkAppDirPairs :: "string list \<Rightarrow> (jsval \<times> jsval) list" where
  "getUniqueNetworkAppDirPairs files =
     map snd (foldl (\<lambda>m file.
       let ss = js_split ''/'' file; at = (\<lambda>i. if i < length ss then JStr (ss ! i) else JUndef) in
       AList.update (js_string (at 0) @ ''/'' @ js_string (at 1)) (at 0, at 1) m) [] files)"

definition resolveChainNameByNetworkAppDir :: "rext \<Rightarrow> jsval \<Rightarrow> jsval \<Rightarrow> jsval ract" where
  "resolveChainNameByNetworkAppDir X network appDirName =
     bnd (table_find (r_kx X) applicationMetadataSchema [(''network'', network), (''appDirName'', appDirName)] (Some [''chainName''])) (\<lambda>rows.
     ret (js_default (oget (own_props (js_default (js_first rows) (JObj []))) ''chainName'') (JStr [])))"

definition buildEventPayload :: "rext \<Rightarrow> string list \<Rightarrow> jsval ract" where
  "buildEventPayload X files =
     bnd (mapA (\<lambda>network.
       bnd (mapA (\<lambda>(n, a). resolveChainNameByNetworkAppDir X n a)
              (getUniqueNetworkAppDirPairs (filterMetaConfigFilesByNetwork network files))) (\<lambda>apps.
       ret (network, JArr apps))) supportedNetworks) (\<lambda>entries. ret (JObj entries))"

text \<open>The changed files by network and application, in the order of their names.\<close>

type_synonym grouped = "(string \<times> (string \<times> jsval list) list) list"

definition file_name :: "jsval \<Rightarrow> jserr + string" where
  "file_name fileInfo = bindE (js_prop fileInfo ''filename'') as_str"

definition compare_files :: "rext \<Rightarrow> jsval \<Rightarrow> jsval \<Rightarrow> jserr + int" where
  "compare_files X a b = bindE (file_name a) (\<lambda>f. bindE (js_prop b ''filename'') (\<lambda>g. Inr (r_collate X f (js_string g))))"

definition put_file :: "string \<Rightarrow> string \<Rightarrow> jsval \<Rightarrow> grouped \<Rightarrow> grouped" where
  "put_file network app fileInfo gs =
     (let apps = (case map_of gs network of None \<Rightarrow> [] | Some as \<Rightarrow> as);
          files = (case map_of apps app of None \<Rightarrow> [] | Some fs \<Rightarrow> fs) in
      AList.update network (AList.update app (files @ [fileInfo]) apps) gs)"

definition group_file :: "grouped \<Rightarrow> jsval \<Rightarrow> jserr + grouped" where
  "group_file gs fileInfo =
     bindE (file_name fileInfo) (\<lambda>f.
     let (network, app, filename) = last_three f in
     bindE (as_str filename) (\<lambda>fn.
     Inr (if isMetadataFile fn then put_file (js_string network) (js_string app) fileInfo gs else gs)))"

definition groupFilesByNetworkAndApp :: "rext \<Rightarrow> jsval list \<Rightarrow> jserr + grouped" where
  "groupFilesByNetworkAndApp X fileInfos = bindE (js_sort (compare_files X) fileInfos) (\<lambda>fs. foldE group_file [] fs)"

definition all_files :: "grouped \<Rightarrow> jsval list" where
  "all_files gs = concat (map (\<lambda>(_, apps). concat (map snd apps)) gs)"

definition getModifiedFileNames :: "grouped \<Rightarrow> jserr + string list" where
  "getModifiedFileNames gs = mapE file_name (all_files gs)"

subsection \<open>utils/downloadRepository.js: following the repository\<close>

definition repo_dir :: "rext \<Rightarrow> string" where
  "repo_dir X = path_join (dataDir X) (js_string (snd (getRepoInfoFromURL (appRegistryRepo X))))"

definition temp_dir :: "rext \<Rightarrow> string" where
  "temp_dir X = path_join (repo_dir X) ''temp-downloads''"

text \<open>
  One changed file: its indexed metadata is removed, and unless the file itself is gone, the new
  version is downloaded to the temporary directory and indexed. The result says what is left to be
  done with the files.
\<close>

datatype file_task = Remove string | Move string string

definition sync_file :: "rext \<Rightarrow> jsval \<Rightarrow> file_task ract" where
  "sync_file X modifiedFile =
     bnd (liftE (file_name modifiedFile)) (\<lambda>remoteFilePath.
     bnd (rprop modifiedFile ''status'') (\<lambda>status.
     let localFilePath = path_join (repo_dir X) remoteFilePath;
         tempFilePath = path_join (temp_dir X) remoteFilePath in
     thn (if status \<in> {JStr ''removed'', JStr ''modified'', JStr ''changed''}
          then deleteIndexedMetadataFromFile X localFilePath else ret ()) (
     if status = JStr ''removed'' then ret (Remove localFilePath)
     else thn (runFs (fs_mkdir (dirname tempFilePath))) (
          bnd (getFileDownloadURL X remoteFilePath) (\<lambda>url.
          thn (downloadFile X url tempFilePath) (
          thn (indexMetadataFromFile X tempFilePath) (
          ret (Move tempFilePath localFilePath))))))))"

definition make_temp_dir :: "rext \<Rightarrow> unit ract" where
  "make_temp_dir X =
     bnd (runFs (fs_exists (temp_dir X))) (\<lambda>e.
     thn (if e then runFs (fs_rmdir (temp_dir X)) else ret False) (runFs (fs_mkdir (temp_dir X))))"

definition sync_files :: "rext \<Rightarrow> jsval \<Rightarrow> (grouped \<times> file_task list) ract" where
  "sync_files X diff =
     bnd (liftE (bindE (js_path diff [''data'', ''files'']) (\<lambda>fv. bindE (js_elems fv) (groupFilesByNetworkAndApp X)))) (\<lambda>groups.
     bnd (mapA (sync_file X) (all_files groups)) (\<lambda>tasks. ret (groups, tasks)))"

text \<open>Everything up to the commit; \<open>None\<close> when there is no new commit.\<close>

definition sync_stage :: "rext \<Rightarrow> (grouped \<times> file_task list) option ract" where
  "sync_stage X =
     bnd (getCommitInfo X) (\<lambda>(synced, latest).
     if strict_eq synced latest then ret None
     else thn (make_temp_dir X) (
          bnd (getDiff X synced latest) (\<lambda>diff.
          bnd (sync_files X diff) (\<lambda>r.
          thn (registry_set X COMMIT_HASH_UNTIL_LAST_SYNC latest True) (ret (Some r))))))"

definition sync_prepare :: "rext \<Rightarrow> (grouped \<times> file_task list) option ract" where
  "sync_prepare X = bnd (sync_stage X) (\<lambda>r. if r = None then ret None else thn commitDbTransaction (ret r))"

definition remove_file :: "file_task \<Rightarrow> unit ract" where
  "remove_file t = (case t of Remove p \<Rightarrow> thn (runFs (fs_rm False p)) (ret ()) | Move _ _ \<Rightarrow> ret ())"

definition move_file :: "file_task \<Rightarrow> unit ract" where
  "move_file t = (case t of Remove _ \<Rightarrow> ret () | Move source target \<Rightarrow>
     thn (runFs (fs_mkdir (dirname target))) (runFs (fs_rename source target)))"

definition sync_finish :: "rext \<Rightarrow> grouped \<Rightarrow> file_task list \<Rightarrow> unit ract" where
  "sync_finish X groups tasks =
     thn (forA remove_file tasks) (
     thn (forA move_file tasks) (
     thn (runFs (fs_rmdir (temp_dir X))) (
     if groups = [] then ret ()
     else bnd (liftE (getModifiedFileNames groups)) (\<lambda>names. bnd (buildEventPayload X names) (\<lambda>payload.
          modA (\<lambda>w. w\<lparr>r_signals := r_signals w @ [(''metadataUpdated'', payload)]\<rparr>))))))"

definition syncWithRemoteRepo :: "rext \<Rightarrow> unit ract" where
  "syncWithRemoteRepo X =
     thn startDbTransaction (
     tryA (bnd (sync_prepare X) (\<lambda>r. case r of None \<Rightarrow> ret () | Some (groups, tasks) \<Rightarrow> sync_finish X groups tasks))
       (\<lambda>e. thn rollbackDbTransaction (throw e)))"

definition downloadRepositoryToFS :: "rext \<Rightarrow> unit ract" where
  "downloadRepositoryToFS X =
     bnd (registry_get X COMMIT_HASH_UNTIL_LAST_SYNC) (\<lambda>synced.
     bnd (runFs (fs_exists (repo_dir X))) (\<lambda>here.
     if truthy synced \<and> here then syncWithRemoteRepo X
     else bnd (runFs (fs_exists (dataDir X))) (\<lambda>data.
          thn (if \<not> data then runFs (fs_mkdir (dataDir X))
               else if here then thn (runFs (fs_rmdir (repo_dir X))) (ret ()) else ret ()) (
          bnd (getRepoDownloadURL X) (\<lambda>r. bnd (rprop r ''url'') (\<lambda>url.
          thn (downloadAndExtractTarball X url (dataDir X)) (
          bnd (runFs (getDirectories (r_ctime X) (dataDir X))) (\<lambda>dirs.
          case dirs of [] \<Rightarrow> throw (TypeErr ''The oldPath argument must be of type string'')
          | oldDir # _ \<Rightarrow> thn (runFs (fs_rename oldDir (repo_dir X))) (
              bnd (getLatestCommitHash X) (\<lambda>latest. registry_set X COMMIT_HASH_UNTIL_LAST_SYNC latest False))))))))))"

subsection \<open>init.js and the jobs\<close>

text \<open>\<open>TRUNCATE TABLE\<close> removes every row.\<close>

definition truncateAllTables :: "rext \<Rightarrow> unit ract" where
  "truncateAllTables X =
     forA (\<lambda>tc. run_batch (r_kx X) False [SDelete (bare_query (tableName tc))]) [applicationMetadataSchema, tokenMetadataSchema]"

definition registry_init :: "rext \<Rightarrow> unit ract" where
  "registry_init X = tryA
     (thn (if isRebuildIndexAtInit X then truncateAllTables X else ret ()) (
      thn (downloadRepositoryToFS X) (indexAllBlockchainAppsMeta X)))
     (\<lambda>_. ret ())"

definition update_metadata_job :: "rext \<Rightarrow> unit ract" where
  "update_metadata_job X = tryA (syncWithRemoteRepo X) (\<lambda>_. ret ())"

end
