(* ===== verification/AppMetadata.thy ===== *)
theory AppMetadata
  imports AppRegistry IndexerUtils
begin

text \<open>
  \<open>services/blockchain-app-registry/shared/metadata.js\<close>, its controllers, the status of the service
  and the job that cleans the data directory.
\<close>

subsection \<open>Parameters\<close>

definition search_chain :: "obj \<Rightarrow> obj" where
  "search_chain params =
     (if truthy (oget params ''search'')
      then oset (omit [''search''] params) ''search'' (JObj [(''property'', JStr ''chainName''), (''pattern'', oget params ''search'')])
      else params)"

definition push_whereIn :: "jsval \<Rightarrow> jsval \<Rightarrow> obj \<Rightarrow> obj" where
  "push_whereIn property values params =
     oset params ''whereIn'' (JArr ((case oget params ''whereIn'' of JArr ws \<Rightarrow> ws | _ \<Rightarrow> []) @ [JObj [(''property'', property), (''values'', values)]]))"

definition split_values :: "string \<Rightarrow> jsval" where
  "split_values s = JArr (map JStr (js_split '','' s))"

text \<open>\<open>params.limit * config.supportedNetworks.length\<close>.\<close>

definition network_limit :: "jsval \<Rightarrow> jsval" where
  "network_limit limit = (case js_number limit of JNum n \<Rightarrow> JNum (n * int (length supportedNetworks)) | v \<Rightarrow> v)"

definition find_apps :: "rext \<Rightarrow> obj \<Rightarrow> bool \<Rightarrow> string list \<Rightarrow> jsval list ract" where
  "find_apps X params isDefault columns =
     table_find (r_kx X) applicationMetadataSchema
       (spread params [(''limit'', network_limit (oget params ''limit'')), (''isDefault'', JBool isDefault)]) (Some columns)"

definition list_meta :: "jsval list \<Rightarrow> obj \<Rightarrow> int \<Rightarrow> jsval" where
  "list_meta data params count_total =
     JObj [(''data'', JArr data), (''meta'', JObj [(''count'', JNum (int (length data))), (''offset'', oget params ''offset''), (''total'', JNum count_total)])]"

subsection \<open>getBlockchainAppsMetaList\<close>

definition network_whereIn :: "obj \<Rightarrow> jserr + obj" where
  "network_whereIn params =
     (if truthy (oget params ''network'')
      then bindE (as_str (oget params ''network'')) (\<lambda>s.
           Inr (oset (omit [''network''] params) ''whereIn'' (JArr [JObj [(''property'', JStr ''network''), (''values'', split_values s)]])))
      else Inr params)"

definition getBlockchainAppsMetaList :: "rext \<Rightarrow> obj \<Rightarrow> jsval ract" where
  "getBlockchainAppsMetaList X params0 =
     bnd (liftE (network_whereIn (search_chain params0))) (\<lambda>params.
     bnd (find_apps X params True [''network'', ''chainID'', ''chainName'']) (\<lambda>defaults.
     bnd (if js_lt (JNum (int (length defaults))) (oget params ''limit'')
          then bnd (find_apps X params False [''network'', ''chainID'', ''chainName'']) (\<lambda>others. ret (defaults @ others))
          else ret []) (\<lambda>apps.
     bnd (liftE (slice_page apps (oget params ''offset'') (oget params ''limit''))) (\<lambda>data.
     bnd (table_count (r_kx X) applicationMetadataSchema params) (\<lambda>count_total.
     ret (list_meta data params count_total))))))"

subsection \<open>getBlockchainAppsMetadata\<close>

definition readMetadataFromClonedRepo :: "rext \<Rightarrow> jsval \<Rightarrow> jsval \<Rightarrow> string \<Rightarrow> jsval ract" where
  "readMetadataFromClonedRepo X network appDirName filename = parsed_file (clone_path X network appDirName filename)"

definition registry_isMainchain :: "rext \<Rightarrow> bool ract" where
  "registry_isMainchain X =
     bnd (getA r_chainID) (\<lambda>known.
     thn (if truthy known then ret ()
          else bnd (liftE (r_indexer X ''network.status'' JUndef)) (\<lambda>r. bnd (liftE (js_path r [''data'', ''chainID''])) (\<lambda>chainID.
               modA (\<lambda>w. w\<lparr>r_chainID := chainID\<rparr>))))
     (bnd (getA r_chainID) (\<lambda>chainID. ret (MAINCHAIN_ID (js_string chainID)))))"

text \<open>The networks of the given chains, unless the request names them.\<close>

definition distinct_join :: "jsval list \<Rightarrow> string" where
  "distinct_join vs = join '','' (map (\<lambda>v. if v = JUndef then [] else js_string v) (dropDuplicates vs))"

definition chain_whereIn :: "obj \<Rightarrow> jserr + obj" where
  "chain_whereIn params =
     (if truthy (oget params ''chainID'')
      then bindE (as_str (oget params ''chainID'')) (\<lambda>s.
           let rest = push_whereIn (JStr ''chainID'') (split_values s) (omit [''chainID''] params) in
           Inr (if ohas rest ''network'' then rest
                else oset rest ''network'' (JStr (distinct_join (map network_of (js_split '','' s))))))
      else Inr params)"

definition push_network :: "obj \<Rightarrow> jserr + obj" where
  "push_network params =
     (if truthy (oget params ''network'')
      then bindE (as_str (oget params ''network'')) (\<lambda>s.
           Inr (push_whereIn (JStr ''network'') (split_values s) (omit [''network''] params)))
      else Inr params)"

definition app_entry :: "rext \<Rightarrow> jsval \<Rightarrow> jsval ract" where
  "app_entry X app =
     (let row = own_props app in
     bnd (readMetadataFromClonedRepo X (oget row ''network'') (oget row ''appDirName'') APP_JSON) (\<lambda>parsed.
     let appMeta = oset (own_props parsed) ''isDefault'' (oget row ''isDefault'') in
     bnd (registry_isMainchain X) (\<lambda>main.
     bnd (if main \<and> oget appMeta ''chainID'' \<in> set (map JStr knownMainchainIDs) then ret (JStr ''active'')
          else bnd (liftE (r_indexer X ''blockchain.apps'' (JObj [(''chainID'', oget appMeta ''chainID'')]))) (\<lambda>r.
               bnd (rprop r ''data'') (\<lambda>dv. bnd (liftE (js_elems dv)) (\<lambda>apps.
               if truthy (js_first apps) then rprop (js_first apps) ''status'' else ret (JStr ''unregistered''))))) (\<lambda>status.
     ret (JObj (oset appMeta ''status'' status))))))"

definition getBlockchainAppsMetadata :: "rext \<Rightarrow> obj \<Rightarrow> jsval ract" where
  "getBlockchainAppsMetadata X params0 =
     bnd (liftE (bindE (chain_whereIn (oset params0 ''whereIn'' (JArr []))) push_network)) (\<lambda>p1.
     let params = search_chain p1; cols = [''network'', ''appDirName'', ''isDefault''] in
     bnd (if oget params ''isDefault'' \<noteq> JBool False then find_apps X params True cols else ret []) (\<lambda>defaults.
     bnd (if oget params ''isDefault'' \<noteq> JBool True \<and> js_lt (JNum (int (length defaults))) (oget params ''limit'')
          then bnd (find_apps X params False cols) (\<lambda>others. ret (defaults @ others)) else ret defaults) (\<lambda>apps.
     bnd (mapA (app_entry X) apps) (\<lambda>data.
     bnd (table_count (r_kx X) applicationMetadataSchema params) (\<lambda>count_total.
     ret (list_meta data params count_total))))))"

subsection \<open>getBlockchainAppsTokenMetadata\<close>

definition token_name_whereIn :: "obj \<Rightarrow> jserr + obj" where
  "token_name_whereIn params =
     (if truthy (oget params ''tokenName'') then
        let rest = omit [''tokenName''] params in
        if \<not> ohas rest ''tokenID'' \<and> \<not> ohas rest ''chainID'' \<and> (\<not> ohas rest ''chainName'' \<or> \<not> ohas rest ''network'')
        then Inl (InvalidParamsErr (CHR 0x27 # ''tokenName' must be specified with either 'chainID', or 'chainName' and 'network'.''))
        else bindE (as_str (oget params ''tokenName'')) (\<lambda>s. Inr (push_whereIn (JStr ''tokenName'') (split_values s) rest))
      else Inr params)"

definition token_id_whereIn :: "obj \<Rightarrow> jserr + obj" where
  "token_id_whereIn params =
     (if truthy (oget params ''tokenID'') then
        bindE (as_str (oget params ''tokenID'')) (\<lambda>s.
        let rest = omit [''tokenID''] params;
            ids = map to_lower (js_split '','' s);
            pairs = map (\<lambda>i. JArr [JStr (take 8 i), JStr (drop 8 i)]) ids;
            p = push_whereIn (JArr [JStr ''chainID'', JStr ''localID'']) (JArr pairs) rest in
        Inr (if ohas rest ''network'' then p else oset p ''network'' (JStr (distinct_join (map network_of ids)))))
      else Inr params)"

definition chain_network :: "obj \<Rightarrow> jserr + obj" where
  "chain_network params =
     (if truthy (oget params ''chainID'') \<and> \<not> ohas params ''network''
      then bindE (as_str (oget params ''chainID'')) (\<lambda>s. Inr (oset params ''network'' (network_of s)))
      else Inr params)"

definition with_chain :: "jsval \<Rightarrow> jsval \<Rightarrow> jsval" where
  "with_chain meta token =
     (let m = own_props meta in
      JObj (spread (own_props token) [(''chainID'', oget m ''chainID''), (''chainName'', oget m ''chainName''), (''network'', oget m ''network'')]))"

definition tokens_of :: "rext \<Rightarrow> jsval \<Rightarrow> jsval \<Rightarrow> jsval list ract" where
  "tokens_of X meta appDirName =
     bnd (readMetadataFromClonedRepo X (oget (own_props meta) ''network'') appDirName NATIVETOKENS_JSON) (\<lambda>parsed.
     bnd (rprop parsed ''tokens'') (\<lambda>tv. bnd (liftE (js_elems tv)) (\<lambda>tokens. ret (map (with_chain meta) tokens))))"

text \<open>One row for every chain, the last one found; the names of chains start with a zero, so they keep their order.\<close>

definition unique_chains :: "jsval list \<Rightarrow> jsval list" where
  "unique_chains rows = map snd (foldl (\<lambda>m r. AList.update (js_string (oget (own_props r) ''chainID'')) r m) [] rows)"

definition getBlockchainAppsTokenMetadata :: "rext \<Rightarrow> obj \<Rightarrow> jsval ract" where
  "getBlockchainAppsTokenMetadata X params0 =
     bnd (liftE (bindE (token_name_whereIn (search_chain (oset params0 ''whereIn'' (JArr [])))) (\<lambda>p1.
            bindE (token_id_whereIn p1) (\<lambda>p2. bindE (chain_network p2) push_network)))) (\<lambda>params.
     bnd (table_find (r_kx X) tokenMetadataSchema params (Some [''network'', ''chainID'', ''chainName''])) (\<lambda>rows.
     bnd (mapA (\<lambda>meta.
            bnd (table_find (r_kx X) applicationMetadataSchema
                   [(''network'', oget (own_props meta) ''network''), (''chainID'', oget (own_props meta) ''chainID'')] (Some [''appDirName''])) (\<lambda>apps.
            bnd (rprop (js_first apps) ''appDirName'') (\<lambda>appDirName. tokens_of X meta appDirName))) (unique_chains rows)) (\<lambda>found.
     let data = concat found in
     bnd (table_count (r_kx X) tokenMetadataSchema params) (\<lambda>count_total. ret (list_meta data params count_total)))))"

subsection \<open>getBlockchainAppsTokensSupportedMetadata\<close>

text \<open>Here the name of the chain is taken for the name of its directory.\<close>

definition resolveTokenMetaInfo :: "rext \<Rightarrow> jsval list \<Rightarrow> jsval list ract" where
  "resolveTokenMetaInfo X rows =
     bnd (mapA (\<lambda>e. tokens_of X e (oget (own_props e) ''chainName'')) rows) (\<lambda>found. ret (concat found))"

fun getSupportedTokensFromServiceURLs :: "rext \<Rightarrow> jsval list \<Rightarrow> jsval ract" where
  "getSupportedTokensFromServiceURLs X [] = ret (JObj [])"
| "getSupportedTokensFromServiceURLs X (u # us) =
     bnd (rprop u ''http'') (\<lambda>h.
     bnd (runRegistryHttp (http_request (r_http_lib X) (js_string h @ ''/api/v3/token/summary'') [])) (\<lambda>r.
     bnd (rprop r ''data'') (\<lambda>body. bnd (rprop body ''data'') (\<lambda>d.
     if truthy d then bnd (rprop d ''supportedTokens'') (\<lambda>s. if truthy s then ret s else getSupportedTokensFromServiceURLs X us)
     else getSupportedTokensFromServiceURLs X us))))"

definition found_tokens :: "rext \<Rightarrow> obj \<Rightarrow> (jsval list \<times> int) ract" where
  "found_tokens X searchParams =
     bnd (table_find (r_kx X) tokenMetadataSchema searchParams (Some [''network'', ''chainID'', ''chainName''])) (\<lambda>rows.
     bnd (table_count (r_kx X) tokenMetadataSchema searchParams) (\<lambda>count_total.
     bnd (resolveTokenMetaInfo X rows) (\<lambda>data. ret (data, count_total))))"

definition getAllTokensMetaInNetworkByChainID :: "rext \<Rightarrow> string \<Rightarrow> obj \<Rightarrow> (jsval list \<times> int) ract" where
  "getAllTokensMetaInNetworkByChainID X chainID params =
     found_tokens X [(''search'', JObj [(''property'', JStr ''tokenID''), (''startsWith'', JStr (take 2 chainID))]),
       (''limit'', oget params ''limit''), (''offset'', oget params ''offset''), (''sort'', oget params ''sort'')]"

definition getTokensMetaByTokenIDs :: "rext \<Rightarrow> jsval \<Rightarrow> jsval \<Rightarrow> obj \<Rightarrow> (jsval list \<times> int) ract" where
  "getTokensMetaByTokenIDs X patternTokenIDs exactTokenIDs params =
     bnd (liftE (js_elems patternTokenIDs)) (\<lambda>ps. bnd (liftE (mapE as_str ps)) (\<lambda>patterns.
     found_tokens X [(''whereIn'', JArr [JObj [(''property'', JStr ''tokenID''), (''values'', exactTokenIDs)]]),
       (''orSearch'', JArr (map (\<lambda>e. JObj [(''property'', JStr ''tokenID''), (''startsWith'', JStr (take 8 e))]) patterns)),
       (''limit'', oget params ''limit''), (''offset'', oget params ''offset''), (''sort'', oget params ''sort'')]))"

definition getBlockchainAppsTokensSupportedMetadata :: "rext \<Rightarrow> obj \<Rightarrow> jsval ract" where
  "getBlockchainAppsTokensSupportedMetadata X params =
     bnd (table_find (r_kx X) applicationMetadataSchema [(''chainID'', oget params ''chainID''), (''limit'', JNum 1)]
            (Some [''network'', ''chainName''])) (\<lambda>rows.
     case rows of [] \<Rightarrow> ret (JObj [(''data'', JArr []), (''meta'', JObj [])])
     | app # _ \<Rightarrow>
       bnd (readMetadataFromClonedRepo X (oget (own_props app) ''network'') (oget (own_props app) ''chainName'') APP_JSON) (\<lambda>parsed.
       bnd (rprop parsed ''serviceURLs'') (\<lambda>uv. bnd (liftE (js_elems uv)) (\<lambda>urls.
       bnd (getSupportedTokensFromServiceURLs X urls) (\<lambda>info.
       bnd (rprop info ''isSupportAllTokens'') (\<lambda>every. bnd (rprop info ''exactTokenIDs'') (\<lambda>exact. bnd (rprop info ''patternTokenIDs'') (\<lambda>patterns.
       bnd (if truthy every then bnd (liftE (as_str (oget params ''chainID''))) (\<lambda>c. getAllTokensMetaInNetworkByChainID X c params)
            else getTokensMetaByTokenIDs X patterns exact params) (\<lambda>(data, count_total).
       ret (list_meta data params count_total))))))))))"

subsection \<open>Controllers, status and the clean-up job\<close>

definition registry_answer :: "jsval ract \<Rightarrow> jsval ract" where
  "registry_answer act =
     bnd act (\<lambda>r. bnd (rprop r ''data'') (\<lambda>data. bnd (rprop r ''meta'') (\<lambda>meta.
     ret (JObj [(''data'', js_or data (JArr [])), (''meta'', js_or meta (JObj []))]))))"

definition api_getBlockchainAppsMetaList :: "rext \<Rightarrow> obj \<Rightarrow> jsval ract" where
  "api_getBlockchainAppsMetaList X params = registry_answer (getBlockchainAppsMetaList X params)"

definition api_getBlockchainAppsMetadata :: "rext \<Rightarrow> obj \<Rightarrow> jsval ract" where
  "api_getBlockchainAppsMetadata X params = registry_answer (getBlockchainAppsMetadata X params)"

definition api_getBlockchainAppsTokensSupportedMetadata :: "rext \<Rightarrow> obj \<Rightarrow> jsval ract" where
  "api_getBlockchainAppsTokensSupportedMetadata X params = registry_answer (getBlockchainAppsTokensSupportedMetadata X params)"

definition api_getBlockchainAppsTokenMetadata :: "rext \<Rightarrow> obj \<Rightarrow> jsval ract" where
  "api_getBlockchainAppsTokenMetadata X params =
     tryA (registry_answer (getBlockchainAppsTokenMetadata X params))
       (\<lambda>e. case e of
          InvalidParamsErr m \<Rightarrow> ret (JObj [(''status'', JNum 400), (''data'', JObj [(''error'', JStr m)])])
        | _ \<Rightarrow> throw e)"

definition registry_getStatus :: "rext \<Rightarrow> bool ract" where
  "registry_getStatus X =
     bnd (getA r_isReady) (\<lambda>ready.
     if ready then ret True
     else bnd (getBlockchainAppsMetaList X [(''limit'', JNum 10), (''offset'', JNum 0)]) (\<lambda>r.
          bnd (rprop r ''data'') (\<lambda>d. bnd (liftE (js_elems d)) (\<lambda>data.
          let now = (data \<noteq> []) in thn (modA (\<lambda>w. w\<lparr>r_isReady := now\<rparr>)) (ret now)))))"

text \<open>
  \<open>jobs/deleteNonMetadata.js\<close>: files that are neither metadata nor images are removed, and so are the
  directories that are empty then. The number bounds the depth of the recursion, as the stack does.
\<close>

definition removeDirectoryIfEmpty :: "rext \<Rightarrow> string \<Rightarrow> unit ract" where
  "removeDirectoryIfEmpty X dirPath =
     bnd (runFs (getFilesAndDirs (r_ctime X) dirPath)) (\<lambda>files.
     if files = [] then thn (runFs (fs_rmdir dirPath)) (ret ()) else ret ())"

definition kept_file :: "string \<Rightarrow> bool" where
  "kept_file p = (list_ex (\<lambda>e. ends_with e p) ALLOWED_FILE_EXTENSIONS \<or> isMetadataFile p)"

fun removeEmptyDirectoriesAndNonMetaFiles :: "nat \<Rightarrow> rext \<Rightarrow> string \<Rightarrow> unit ract" where
  "removeEmptyDirectoriesAndNonMetaFiles 0 X dirPath = throw (RangeErr ''Maximum call stack size exceeded'')"
| "removeEmptyDirectoriesAndNonMetaFiles (Suc n) X dirPath =
     bnd (runFs (getFilesAndDirs (r_ctime X) dirPath)) (\<lambda>contents.
     forA (\<lambda>p. bnd (runFs (fs_isDirectory p)) (\<lambda>isDirectory.
       if isDirectory then thn (removeEmptyDirectoriesAndNonMetaFiles n X p) (removeDirectoryIfEmpty X p)
       else if \<not> kept_file p then thn (runFs (fs_rm False p)) (ret ()) else ret ())) contents)"

definition delete_non_metadata_job :: "nat \<Rightarrow> rext \<Rightarrow> unit ract" where
  "delete_non_metadata_job depth X = tryA (removeEmptyDirectoriesAndNonMetaFiles depth X (dataDir X)) (\<lambda>_. ret ())"

end
