(* ===== verification/RegistryProps.thy ===== *)
theory RegistryProps
  imports AppMetadata Sorting
begin

text \<open>
  What the application registry guarantees when it follows its repository: the changed files are
  grouped completely and in order, a failed update leaves the index and the clone as they were, and the
  clean-up keeps every metadata file; and three faults: a file that stops the synchronisation, a transaction that is
  left open and default applications that are lost.
\<close>

subsection \<open>Grouping\<close>

lemma as_str_Inr: "as_str v = Inr s \<longleftrightarrow> v = JStr s"
  by (cases v) auto

definition meta_info :: "jsval \<Rightarrow> bool" where
  "meta_info f = (\<exists>s fn. file_name f = Inr s \<and> snd (snd (last_three s)) = JStr fn \<and> isMetadataFile fn)"

lemma mset_concat_update:
  assumes "distinct (map fst xs)"
  shows "mset (concat (map (g \<circ> snd) (AList.update k v xs))) + (case map_of xs k of None \<Rightarrow> {#} | Some u \<Rightarrow> mset (g u)) =
     mset (concat (map (g \<circ> snd) xs)) + mset (g v)"
  using assms
proof (induction xs)
  case (Cons x xs)
  then show ?case by (cases x) (auto simp: map_of_eq_None_iff split: option.splits)
qed simp

text \<open>Networks and applications are distinct, and the files of each satisfy an order.\<close>

definition grouped_ok :: "(jsval \<Rightarrow> jsval \<Rightarrow> bool) \<Rightarrow> grouped \<Rightarrow> bool" where
  "grouped_ok R gs = (distinct (map fst gs) \<and> (\<forall>n apps. map_of gs n = Some apps \<longrightarrow>
     distinct (map fst apps) \<and> (\<forall>a files. map_of apps a = Some files \<longrightarrow> sorted_wrt R files)))"

lemma all_files_eq: "all_files gs = concat (map (concat \<circ> map snd \<circ> snd) gs)"
  by (simp add: all_files_def split_def comp_def)

lemma in_all_files: "map_of gs n = Some apps \<Longrightarrow> map_of apps a = Some files \<Longrightarrow> f \<in> set files \<Longrightarrow> f \<in> set (all_files gs)"
  unfolding all_files_eq by (force dest!: map_of_SomeD)

lemma put_file_ok:
  assumes "grouped_ok R gs" and "\<forall>g \<in> set (all_files gs). R g f"
  shows "grouped_ok R (put_file n a f gs)"
proof -
  define apps where "apps = (case map_of gs n of None \<Rightarrow> [] | Some as \<Rightarrow> as)"
  define files where "files = (case map_of apps a of None \<Rightarrow> [] | Some fs \<Rightarrow> fs)"
  have apps: "distinct (map fst apps)" "\<forall>b fs. map_of apps b = Some fs \<longrightarrow> sorted_wrt R fs"
    using assms(1) by (auto simp: apps_def grouped_ok_def split: option.splits)
  have "\<forall>g \<in> set files. R g f"
    using assms(2) by (auto simp: files_def apps_def split: option.splits dest: in_all_files [OF _ sym])
  moreover have "sorted_wrt R files" using apps(2) by (auto simp: files_def split: option.splits)
  ultimately have "sorted_wrt R (files @ [f])" by (simp add: sorted_wrt_append)
  then show ?thesis using assms(1) apps
    by (auto simp: grouped_ok_def put_file_def Let_def apps_def [symmetric] files_def [symmetric] distinct_AList_update)
qed

lemma put_file_mset:
  assumes "grouped_ok R gs"
  shows "mset (all_files (put_file n a f gs)) = add_mset f (mset (all_files gs))"
proof -
  define apps where "apps = (case map_of gs n of None \<Rightarrow> [] | Some as \<Rightarrow> as)"
  define files where "files = (case map_of apps a of None \<Rightarrow> [] | Some fs \<Rightarrow> fs)"
  have "distinct (map fst gs)" "distinct (map fst apps)"
    using assms by (auto simp: apps_def grouped_ok_def split: option.splits)
  note upd = mset_concat_update [OF this(1), of "concat \<circ> map snd" n] mset_concat_update [OF this(2), of id a "files @ [f]"]
  have "mset (concat (map snd (AList.update a (files @ [f]) apps))) = add_mset f (mset (concat (map snd apps)))"
    using upd(2) by (auto simp: files_def comp_def split: option.splits)
  then show ?thesis
    using upd(1) [of "AList.update a (files @ [f]) apps"]
    by (auto simp: put_file_def Let_def all_files_eq apps_def [symmetric] files_def [symmetric] comp_def)
       (auto simp: apps_def split: option.splits)
qed

lemma group_file_step:
  assumes "group_file gs f = Inr gs'" and "grouped_ok R gs" and "\<forall>g \<in> set (all_files gs). R g f"
  shows "grouped_ok R gs' \<and> mset (all_files gs') = mset (all_files gs) + (if meta_info f then {#f#} else {#})"
proof -
  obtain s where s: "file_name f = Inr s" using assms(1) by (auto simp: group_file_def act_ok)
  obtain n a b where l: "last_three s = (n, a, b)" by (cases "last_three s")
  then obtain fn where fn: "b = JStr fn"
    and gs': "gs' = (if isMetadataFile fn then put_file (js_string n) (js_string a) f gs else gs)"
    using assms(1) s by (auto simp: group_file_def act_ok as_str_Inr)
  have "meta_info f \<longleftrightarrow> isMetadataFile fn" using s l fn by (auto simp: meta_info_def)
  then show ?thesis using gs' put_file_ok [OF assms(2,3)] put_file_mset [OF assms(2)] assms(2) by auto
qed

lemma fold_groups:
  assumes "foldE group_file gs fs = Inr gs'" "grouped_ok R gs" "sorted_wrt R fs" "\<forall>g \<in> set (all_files gs). \<forall>f \<in> set fs. R g f"
  shows "grouped_ok R gs' \<and> mset (all_files gs') = mset (all_files gs) + mset (filter meta_info fs)"
  using assms
proof (induction fs arbitrary: gs)
  case (Cons f fs)
  then obtain gs1 where gs1: "group_file gs f = Inr gs1" "foldE group_file gs1 fs = Inr gs'" by (auto simp: act_ok)
  then have step: "grouped_ok R gs1" "mset (all_files gs1) = mset (all_files gs) + (if meta_info f then {#f#} else {#})"
    using group_file_step [OF gs1(1) Cons.prems(2)] Cons.prems(4) by auto
  have "set (all_files gs1) \<subseteq> insert f (set (all_files gs))"
    using arg_cong [OF step(2), of set_mset] by (auto split: if_splits)
  then have "\<forall>g \<in> set (all_files gs1). \<forall>h \<in> set fs. R g h" using Cons.prems(3,4) by auto
  with Cons.IH [OF gs1(2) step(1)] Cons.prems(3) step(2) show ?case by auto
qed simp

text \<open>What the service needs of the collation of the language: it orders the texts.\<close>

locale collation =
  fixes cmp :: "string \<Rightarrow> string \<Rightarrow> int"
  assumes cmp_asym: "cmp a b < 0 \<Longrightarrow> cmp b a \<ge> 0"
    and cmp_trans: "cmp b a \<ge> 0 \<Longrightarrow> cmp c b \<ge> 0 \<Longrightarrow> cmp c a \<ge> 0"

definition name_of :: "jsval \<Rightarrow> string" where
  "name_of f = (case file_name f of Inr s \<Rightarrow> s | Inl _ \<Rightarrow> [])"

definition named_file :: "jsval \<Rightarrow> bool" where
  "named_file f = (\<exists>s. file_name f = Inr s)"

lemma file_comparator:
  assumes "collation (r_collate X)"
  shows "js_comparator (compare_files X) (\<lambda>a b. r_collate X (name_of a) (name_of b)) {f. named_file f}"
proof
  show "compare_files X a b = Inr (r_collate X (name_of a) (name_of b))" if "a \<in> {f. named_file f}" "b \<in> {f. named_file f}" for a b
    using that by (auto simp: named_file_def compare_files_def name_of_def file_name_def act_ok as_str_Inr)
qed (use collation.cmp_asym [OF assms] collation.cmp_trans [OF assms] in blast)+


text \<open>Ordering texts by their characters is a collation.\<close>

definition by_chars :: "string \<Rightarrow> string \<Rightarrow> int" where
  "by_chars a b = (if str_less a b then -1 else if str_less b a then 1 else 0)"

interpretation by_chars: collation by_chars
proof
  show "by_chars a b < 0 \<Longrightarrow> by_chars b a \<ge> 0" for a b
    by (auto simp: by_chars_def str_less_asym split: if_splits)
  show "by_chars b a \<ge> 0 \<Longrightarrow> by_chars c b \<ge> 0 \<Longrightarrow> by_chars c a \<ge> 0" for a b c
    using str_less_trans [of c a b] str_less_linear [of a b] by (auto simp: by_chars_def str_less_asym split: if_splits)
qed

definition ref_rext :: rext where
  "ref_rext = \<lparr>r_kx = sql_run (\<lambda>_ _. False), r_indexer = (\<lambda>_ _. Inr JUndef), octokit = (\<lambda>_. Inl (Err ''offline'')),
     fetch_url = (\<lambda>_. Broken ''offline''), untar = (\<lambda>_. []), r_ctime = (\<lambda>_. 0), r_collate = by_chars,
     r_http_lib = \<lparr>axios = (\<lambda>_ _. Failed None (JStr ''ECONNREFUSED'') ''refused''), encodeURI = (\<lambda>s. s)\<rparr>,
     dataDir = ''/data'', appRegistryRepo = ''https://github.com/LiskHQ/app-registry'', branch = ''main'', userApps = [],
     isRebuildIndexAtInit = False\<rparr>"

definition two_files :: "jsval list" where
  "two_files = map (\<lambda>f. JObj [(''filename'', JStr f), (''status'', JStr ''modified'')])
     [''mainnet/Lisk/nativetokens.json'', ''mainnet/Lisk/logo.png'', ''mainnet/Lisk/app.json'']"


subsection \<open>A failed update\<close>

text \<open>
  What happens before the commit: the committed tables stay, a transaction stays open or closed, and
  files change only in the temporary directory.
\<close>

definition staged :: "rext \<Rightarrow> rworld \<Rightarrow> rworld \<Rightarrow> bool" where
  "staged X w w' = (within {} w w' \<and>
     (\<forall>p. p \<noteq> temp_dir X \<and> \<not> under (temp_dir X) p \<longrightarrow> map_of (fs_files (r_fs w')) p = map_of (fs_files (r_fs w)) p))"

lemma staged_refl [simp]: "reflp (staged X)"
  by (auto simp: staged_def reflp_def within_def)

lemma staged_trans [simp]: "transp (staged X)"
  by (auto simp: staged_def transp_def within_def)

lemma staged_table:
  "keeps (within {}) m \<Longrightarrow> (\<And>w. r_fs (snd (m w)) = r_fs w) \<Longrightarrow> keeps (staged X) m"
  by (auto simp: keeps_def staged_def)

lemma r_fs_run [simp]: "r_fs (snd (run_read k st w)) = r_fs w" "r_fs (snd (run_batch k b sts w)) = r_fs w"
  by (auto simp: run_read_def run_batch_def split: sum.splits prod.splits option.splits)

lemma r_fs_bnd: "(\<And>w. r_fs (snd (m w)) = r_fs w) \<Longrightarrow> (\<And>x w. r_fs (snd (f x w)) = r_fs w) \<Longrightarrow> r_fs (snd (bnd m f w)) = r_fs w"
  by (auto simp: bnd_def split: prod.splits sum.splits) (metis snd_conv)+

lemma r_fs_tables [simp]:
  "r_fs (snd (table_find k tc ps cs w)) = r_fs w" "r_fs (snd (upsert k tc rows b w)) = r_fs w"
  "r_fs (snd (deleteByParams k tc ps b w)) = r_fs w"
  unfolding table_find_def upsert_def deleteByParams_def thn_def by (intro r_fs_bnd; simp)+

lemmas staged_rules =
  keeps_ret [OF staged_refl] keeps_throw [OF staged_refl] keeps_liftE [OF staged_refl] keeps_getA [OF staged_refl]
  keeps_bnd [OF staged_trans] keeps_thn [OF staged_trans] keeps_forA [OF staged_refl staged_trans]
  keeps_mapA [OF staged_refl staged_trans]

lemma staged_find: "keeps (staged X) (table_find k tc ps cs)"
  by (rule staged_table) (intro confined, simp)

lemma staged_upsert: "keeps (staged X) (upsert k tc rows True)"
  by (rule staged_table) (intro confined, simp)

lemma staged_delete: "keeps (staged X) (deleteByParams k tc ps True)"
  by (rule staged_table) (intro confined, simp)

lemma staged_fs:
  assumes "\<And>s p. p \<noteq> temp_dir X \<Longrightarrow> \<not> under (temp_dir X) p \<Longrightarrow> map_of (fs_files (snd (act s))) p = map_of (fs_files s) p"
  shows "keeps (staged X) (runFs act)"
  using assms by (auto simp: keeps_def staged_def runFs_def within_def split: prod.splits) (metis snd_conv)

lemma staged_fs_reads: "keeps (staged X) (runFs (fs_read p))" "keeps (staged X) (runFs (fs_exists p))" "keeps (staged X) (runFs (fs_mkdir p))"
  by (rule staged_fs; simp add: fs_read_def fs_exists_def fs_mkdir_def bnd_def split: option.splits)+

lemma staged_fs_write: "under (temp_dir X) p \<Longrightarrow> keeps (staged X) (runFs (fs_write p t))"
  by (rule staged_fs) (auto simp: fs_write_def bnd_def)

lemma map_of_filter_other: "P q \<Longrightarrow> map_of (filter (\<lambda>(f, _). P f) fs) q = map_of fs q"
  by (induction fs) auto

lemma staged_fs_rmdir: "keeps (staged X) (runFs (fs_rmdir (temp_dir X)))"
  by (rule staged_fs) (auto simp: fs_rmdir_def fs_rm_def map_of_filter_other)

lemma staged_if: "keeps R m \<Longrightarrow> keeps R k \<Longrightarrow> keeps R (if b then m else k)"
  by simp

lemma staged_files:
  "keeps (staged X) (parsed_file p)" "keeps (staged X) (require_app n a)" "keeps (staged X) (make_temp_dir X)"
  unfolding parsed_file_def require_app_def make_temp_dir_def
  by (intro staged_rules staged_fs_reads staged_fs_rmdir staged_if)+

lemma staged_index: "keeps (staged X) (indexMetadataFromFile X f)" "keeps (staged X) (deleteIndexedMetadataFromFile X f)"
  unfolding indexMetadataFromFile_def deleteIndexedMetadataFromFile_def indexAppMeta_def indexTokensMeta_def deleteAppMeta_def
    deleteTokensMeta_def Let_def
  by (cases "last_three f"; simp only: prod.case;
      intro staged_rules staged_files staged_fs_reads staged_upsert staged_delete staged_if)+

lemma staged_github: "keeps (staged X) (getCommitInfo X)" "keeps (staged X) (getFileDownloadURL X f)" "keeps (staged X) (getDiff X a b)"
  unfolding getCommitInfo_def registry_get_def getLatestCommitHash_def getFileDownloadURL_def getDiff_def Let_def
  by (intro staged_rules staged_find)+

lemma staged_download:
  assumes "under (temp_dir X) p"
  shows "keeps (staged X) (downloadFile X url p)"
proof -
  have "keeps (staged X) (fetched X url s)" for s
    by (auto simp: keeps_def fetched_def bnd_def reflpD [OF staged_refl] split: download.splits sum.splits)
  then show ?thesis unfolding downloadFile_def by (intro staged_rules staged_fs_write assms)
qed

lemma staged_sync_file:
  assumes "\<And>n. file_name f = Inr n \<Longrightarrow> clean_name n"
  shows "keeps (staged X) (sync_file X f)"
  unfolding sync_file_def
proof (rule keeps_bnd_result [OF staged_trans])
  fix n w w' assume "liftE (file_name f) w = (Inr n, w')"
  then have "under (temp_dir X) (path_join (temp_dir X) n)"
    using assms unfolding temp_dir_def by (auto intro: join_under)
  note download = staged_download [OF this]
  show "keeps (staged X) (bnd (liftE (js_prop f ''status'')) (\<lambda>status.
     let localFilePath = path_join (repo_dir X) n; tempFilePath = path_join (temp_dir X) n in
     thn (if status \<in> {JStr ''removed'', JStr ''modified'', JStr ''changed''}
          then deleteIndexedMetadataFromFile X localFilePath else ret ()) (
     if status = JStr ''removed'' then ret (Remove localFilePath)
     else thn (runFs (fs_mkdir (dirname tempFilePath))) (
          bnd (getFileDownloadURL X n) (\<lambda>url.
          thn (downloadFile X url tempFilePath) (
          thn (indexMetadataFromFile X tempFilePath) (
          ret (Move tempFilePath localFilePath))))))))"
    unfolding Let_def by (intro staged_rules staged_index staged_fs_reads staged_github download staged_if)
qed (intro staged_rules)

text \<open>The names in every diff that GitHub returns are clean.\<close>

definition clean_diffs :: "rext \<Rightarrow> bool" where
  "clean_diffs X = (\<forall>u diff files f n. octokit X u = Inr diff \<longrightarrow> js_path diff [''data'', ''files''] = Inr (JArr files) \<longrightarrow>
     f \<in> set files \<longrightarrow> file_name f = Inr n \<longrightarrow> clean_name n)"

lemma js_elems_Inr: "js_elems v = Inr vs \<longleftrightarrow> v = JArr vs"
  by (cases v) auto

lemma groups_from_diff:
  assumes "groupFilesByNetworkAndApp X files = Inr gs"
  shows "set (all_files gs) \<subseteq> set files"
proof -
  obtain fs where fs: "js_sort (compare_files X) files = Inr fs" "foldE group_file [] fs = Inr gs"
    using assms by (auto simp: groupFilesByNetworkAndApp_def act_ok)
  have "mset (all_files gs) = mset (filter meta_info fs)"
    using fold_groups [OF fs(2), of "\<lambda>_ _. True"] by (simp add: grouped_ok_def all_files_def)
  then have "set (all_files gs) = set (filter meta_info fs)" by (metis set_mset_mset)
  then show ?thesis using js_sort_set [OF fs(1)] by auto
qed

lemma staged_sync_files:
  assumes "clean_diffs X" and "octokit X u = Inr diff"
  shows "keeps (staged X) (sync_files X diff)"
  unfolding sync_files_def
proof (rule keeps_bnd_result [OF staged_trans])
  fix groups w w'
  assume "liftE (bindE (js_path diff [''data'', ''files'']) (\<lambda>fv. bindE (js_elems fv) (groupFilesByNetworkAndApp X))) w = (Inr groups, w')"
  then obtain files where "js_path diff [''data'', ''files''] = Inr (JArr files)" "groupFilesByNetworkAndApp X files = Inr groups"
    by (auto simp: act_ok js_elems_Inr simp del: js_path.simps)
  then have "file_name f = Inr n \<Longrightarrow> clean_name n" if "f \<in> set (all_files groups)" for f n
    using assms groups_from_diff that unfolding clean_diffs_def by blast
  then have "keeps (staged X) (mapA (sync_file X) (all_files groups))"
    by (intro keeps_mapA_in staged_refl staged_trans staged_sync_file)
  then show "keeps (staged X) (bnd (mapA (sync_file X) (all_files groups)) (\<lambda>tasks. ret (groups, tasks)))"
    by (rule keeps_bnd [OF staged_trans]) (rule keeps_ret [OF staged_refl])
qed (intro staged_rules)

lemma staged_sync:
  assumes "clean_diffs X"
  shows "keeps (staged X) (sync_stage X)"
proof -
  have "keeps (staged X) (registry_set X k v True)" for k v
    unfolding registry_set_def Let_def by (intro staged_if staged_upsert staged_rules)
  then have "keeps (staged X) (bnd (getDiff X a b) (\<lambda>diff. bnd (sync_files X diff) (\<lambda>r.
      thn (registry_set X COMMIT_HASH_UNTIL_LAST_SYNC b True) (ret (Some r)))))" for a b
    by (intro keeps_bnd_result [OF staged_trans staged_github(3)] staged_rules staged_sync_files [OF assms]) (auto simp: getDiff_def)
  then show ?thesis unfolding sync_stage_def
    by (intro keeps_bnd [OF staged_trans staged_github(1)])
      (auto intro!: keeps_ret [OF staged_refl] keeps_thn [OF staged_trans staged_files(3)])
qed

text \<open>
  C20. An update of the metadata that fails before its commit changes nothing: the committed tables are
  as before, no transaction is open, and the files of the clone outside the temporary directory
  are the same.
\<close>

theorem failed_sync_changes_nothing:
  assumes "clean_diffs X" and "sync_prepare X (w\<lparr>trx := Some (committed w)\<rparr>) = (Inl e, w1)"
  shows "\<exists>w'. syncWithRemoteRepo X w = (Inl e, w') \<and> committed w' = committed w \<and> trx w' = None \<and>
     (\<forall>p. p \<noteq> temp_dir X \<and> \<not> under (temp_dir X) p \<longrightarrow> map_of (fs_files (r_fs w')) p = map_of (fs_files (r_fs w)) p)"
proof -
  let ?w = "w\<lparr>trx := Some (committed w)\<rparr>"
  obtain r w2 where stage: "sync_stage X ?w = (r, w2)" by fastforce
  then have st: "staged X ?w w2" using staged_sync [OF assms(1)] by (rule keepsD [rotated])
  have "w1 = w2" using assms(2) stage st
    by (auto simp: sync_prepare_def bnd_def thn_def commitDbTransaction_def staged_def within_def split: sum.splits if_splits option.splits)
  then have "syncWithRemoteRepo X w = (Inl e, w2\<lparr>trx := None\<rparr>)"
    using assms(2) by (simp add: syncWithRemoteRepo_def startDbTransaction_def rollbackDbTransaction_def thn_def bnd_def tryA_def)
  then show ?thesis using st by (auto simp: staged_def within_def)
qed

text \<open>A service whose repository has a new commit, and whose GitHub client answers with a diff.\<close>

definition registry_db :: db where
  "registry_db t = map_option (\<lambda>tc. \<lparr>t_cols = column_defs tc, t_pk = primaryKey tc, t_rows = []\<rparr>)
     (List.find (\<lambda>tc. tableName tc = t) [applicationMetadataSchema, tokenMetadataSchema, kvStoreTableSchema])"

definition registry_world :: rworld where
  "registry_world = \<lparr>committed = registry_db, trx = None, conn_pool = [], table_pool = [],
     r_fs = \<lparr>fs_files = [(''/data/app-registry/README.md'', ''hello'')], fs_dirs = [''/data'', ''/data/app-registry'']\<rparr>,
     r_signals = [], r_chainID = JUndef, r_isReady = False, r_http = \<lparr>sent_requests = 0, http_cache = []\<rparr>\<rparr>"

definition diff_rext :: "string \<Rightarrow> rext" where
  "diff_rext f = ref_rext\<lparr>octokit := (\<lambda>_. Inr (JObj [(''data'', JObj [(''sha'', JStr ''c1''),
     (''files'', JArr [JObj [(''filename'', JStr f), (''status'', JStr ''added'')]])])]))\<rparr>"

lemma diff_rext_clean: "clean_name f \<Longrightarrow> clean_diffs (diff_rext f)"
  by (auto simp: clean_diffs_def diff_rext_def file_name_def)

lemma commit_info_reads: "getCommitInfo X w = (fst (getCommitInfo X w), w)"
  unfolding getCommitInfo_def registry_get_def table_find_def run_read_def bnd_def getLatestCommitHash_def Let_def
  by (auto split: sum.splits prod.splits)

lemma diff_rext_unsynced: "getCommitInfo (diff_rext f) registry_world = (Inr (JUndef, JStr ''c1''), registry_world)"
proof -
  have "fst (getCommitInfo (diff_rext f) registry_world) = Inr (JUndef, JStr ''c1'')" by code_simp
  then show ?thesis using commit_info_reads [of "diff_rext f" registry_world] by simp
qed

theorem failed_sync_changes_nothing_witness:
  "\<exists>e w'. syncWithRemoteRepo (diff_rext ''mainnet/Lisk/app.json'') registry_world = (Inl e, w') \<and>
     committed w' = committed registry_world \<and> trx w' = None \<and>
     map_of (fs_files (r_fs w')) ''/data/app-registry/README.md'' = Some ''hello''"
proof -
  let ?X = "diff_rext ''mainnet/Lisk/app.json''" and ?w = "registry_world\<lparr>trx := Some (committed registry_world)\<rparr>"
  have "clean_name ''mainnet/Lisk/app.json''" by code_simp
  note clean = diff_rext_clean [OF this]
  have "isl (fst (sync_prepare ?X ?w))" by code_simp
  then obtain e w1 where run: "sync_prepare ?X ?w = (Inl e, w1)" by (metis isl_def prod.collapse)
  have "temp_dir ?X = ''/data/app-registry/temp-downloads''" by code_simp
  then show ?thesis using failed_sync_changes_nothing [OF clean run] by (fastforce simp: under_def registry_world_def)
qed

text \<open>A file near the root of the repository has no third segment, and its name is read nevertheless.\<close>

definition shallow :: "jsval \<Rightarrow> bool" where
  "shallow f = (\<exists>s. file_name f = Inr s \<and> length (js_split ''/'' s) < 3)"

lemma shallow_fails: "shallow f \<Longrightarrow> isl (group_file gs f)"
  by (auto simp: shallow_def group_file_def last_three_def Let_def)

lemma fold_shallow:
  assumes "f \<in> set fs" and "shallow f"
  shows "isl (foldE group_file gs fs)"
  using assms(1)
proof (induction fs arbitrary: gs)
  case (Cons g fs)
  then show ?case using shallow_fails [OF assms(2), of gs]
    by (cases "g = f"; cases "group_file gs g") auto
qed simp

lemma commit_info_trx:
  "getCommitInfo X w = (r, w) \<Longrightarrow> getCommitInfo X (w\<lparr>trx := t\<rparr>) = (r, w\<lparr>trx := t\<rparr>)"
  unfolding getCommitInfo_def registry_get_def table_find_def run_read_def bnd_def getLatestCommitHash_def Let_def
  by (auto split: sum.splits prod.splits)

text \<open>
  A commit that changes a file near the root of the repository, such as its \<open>README.md\<close>, stops the
  updates: the files cannot be grouped and the update throws before anything is stored, the
  commit it had reached included.
\<close>

lemma shallow_file_stops_sync:
  assumes "collation (r_collate X)" and "getCommitInfo X w = (Inr (synced, latest), w)" and "\<not> strict_eq synced latest"
    and "octokit X (repo_url X @ ''/compare/'' @ js_string synced @ ''...'' @ js_string latest) = Inr diff"
    and "js_path diff [''data'', ''files''] = Inr (JArr files)" and "\<forall>f \<in> set files. named_file f"
    and "f \<in> set files" and "shallow f"
  shows "isl (fst (syncWithRemoteRepo X w)) \<and> committed (snd (syncWithRemoteRepo X w)) = committed w"
proof -
  let ?w = "w\<lparr>trx := Some (committed w)\<rparr>"
  obtain fs where fs: "js_sort (compare_files X) files = Inr fs"
    using js_comparator.sort_sorted [OF file_comparator [OF assms(1)], of files] assms(6) by auto
  have "f \<in> set fs" using js_sort_set [OF fs] assms(7) by simp
  then have "isl (groupFilesByNetworkAndApp X files)"
    using fold_shallow [OF _ assms(8), of fs "[]"] fs by (simp add: groupFilesByNetworkAndApp_def)
  then obtain e where e: "groupFilesByNetworkAndApp X files = Inl e" by (auto simp: isl_def)
  have commit: "getCommitInfo X ?w = (Inr (synced, latest), ?w)" by (rule commit_info_trx [OF assms(2)])
  obtain r w2 where temp: "make_temp_dir X ?w = (r, w2)" by fastforce
  then have st: "staged X ?w w2" using staged_files(3) by (rule keepsD [rotated])
  have diff: "getDiff X synced latest w2 = (Inr diff, w2)" unfolding getDiff_def assms(4) by simp
  have files: "sync_files X diff w2 = (Inl e, w2)"
    unfolding sync_files_def bnd_def run_liftE assms(5) by (simp add: e)
  have "\<exists>e'. sync_stage X ?w = (Inl e', w2)"
    unfolding sync_stage_def bnd_def thn_def commit by (cases r) (simp_all add: assms(3) temp diff files)
  then show ?thesis using st
    by (auto simp: syncWithRemoteRepo_def sync_prepare_def startDbTransaction_def rollbackDbTransaction_def thn_def bnd_def tryA_def
        staged_def within_def)
qed

subsection \<open>Faults\<close>

text \<open>
  An update that finds no new commit returns without ending its transaction: nothing is
  stored, and the transaction with its connection stays open.
\<close>

lemma idle_sync_leaves_transaction:
  assumes "getCommitInfo X w = (Inr (synced, latest), w)" and "strict_eq synced latest"
  shows "\<exists>w'. syncWithRemoteRepo X w = (Inr (), w') \<and> committed w' = committed w \<and> trx w' \<noteq> None"
proof -
  let ?w = "w\<lparr>trx := Some (committed w)\<rparr>"
  have "sync_prepare X ?w = (Inr None, ?w)"
    unfolding sync_prepare_def sync_stage_def bnd_def commit_info_trx [OF assms(1)] by (simp add: assms(2))
  then have "syncWithRemoteRepo X w = (Inr (), ?w)"
    by (simp add: syncWithRemoteRepo_def startDbTransaction_def thn_def bnd_def tryA_def)
  then show ?thesis by simp
qed

definition idle_rext :: rext where
  "idle_rext = ref_rext\<lparr>octokit := (\<lambda>_. Inr (JObj [(''data'', JObj [])]))\<rparr>"

text \<open>
  The list of applications is empty when the default applications alone fill the page: they
  are found, but only kept together with the others.
\<close>

lemma default_apps_lost:
  assumes "getBlockchainAppsMetaList X params0 w = (Inr r, w')" and "network_whereIn (search_chain params0) = Inr params"
    and "fst (find_apps X params True [''network'', ''chainID'', ''chainName''] w) = Inr defaults"
    and "oget params ''limit'' = JNum n" and "n \<le> int (length defaults)"
  shows "js_prop r ''data'' = Inr (JArr [])"
  using assms
  by (auto simp: getBlockchainAppsMetaList_def bnd_ok list_meta_def js_lt_def slice_page_def slice_vals_def js_slice_def act_ok)

text \<open>A page of one entry and one default application.\<close>

definition lisk_world :: rworld where
  "lisk_world = snd (upsert (r_kx ref_rext) applicationMetadataSchema
     (JObj [(''chainName'', JStr ''Lisk''), (''chainID'', JStr ''00000000''), (''network'', JStr ''mainnet''), (''isDefault'', JBool True),
       (''appDirName'', JStr ''Lisk'')]) False registry_world)"

subsection \<open>The clean-up\<close>

text \<open>No path is both a file and a directory, and below a directory the way to every entry leads through directories.\<close>

definition fs_wf :: "fsys \<Rightarrow> bool" where
  "fs_wf s = (\<forall>p \<in> set (fs_dirs s). p \<notin> fst ` set (fs_files s) \<and> (\<forall>q \<in> set (fs_dirs s) \<union> fst ` set (fs_files s).
     under p q \<longrightarrow> child_of p q \<or> (\<exists>d \<in> set (fs_dirs s). child_of p d \<and> under d q)))"

definition cleaned :: "rworld \<Rightarrow> rworld \<Rightarrow> bool" where
  "cleaned w w' = (fs_wf (r_fs w) \<longrightarrow> fs_wf (r_fs w') \<and>
     (\<forall>p. kept_file p \<longrightarrow> map_of (fs_files (r_fs w')) p = map_of (fs_files (r_fs w)) p))"

lemma cleaned_refl [simp]: "reflp cleaned" "transp cleaned"
  by (auto simp: cleaned_def reflp_def transp_def)

lemma cleaned_reads: "keeps cleaned (runFs (getFilesAndDirs ct p))" "keeps cleaned (runFs (fs_isDirectory p))"
  by (auto simp: keeps_def runFs_def getFilesAndDirs_def getDirectories_def getFiles_def fs_isDirectory_def act_simps cleaned_def split: sum.splits prod.splits option.splits)

lemma cleaned_rm: "\<not> kept_file p \<Longrightarrow> keeps cleaned (runFs (fs_rm False p))"
  unfolding keeps_def runFs_def fs_rm_def cleaned_def
  by (auto simp: fs_wf_def intro!: map_of_filter_other)

lemma getFilesAndDirs_state: "snd (getFilesAndDirs ct p s) = s"
  by (simp add: getFilesAndDirs_def getDirectories_def getFiles_def act_simps split: sum.splits)

lemma empty_directory:
  assumes "fs_wf s" "fst (getFilesAndDirs ct p s) = Inr []" "q \<in> set (fs_dirs s) \<union> fst ` set (fs_files s)"
  shows "\<not> under p q"
proof -
  have p: "p \<in> set (fs_dirs s)" and sort: "js_sort (\<lambda>a b. Inr (ct b - ct a)) (filter (child_of p) (fs_dirs s)) = Inr []"
      and files: "filter (child_of p) (map fst (fs_files s)) = []"
    using assms(2) by (auto simp: getFilesAndDirs_def getDirectories_def getFiles_def act_simps split: if_splits sum.splits)
  have "filter (child_of p) (fs_dirs s) = []" using js_sort_length [OF sort] by simp
  then have "\<forall>c \<in> set (fs_dirs s) \<union> fst ` set (fs_files s). \<not> child_of p c"
    using files by (auto simp: filter_empty_conv)
  then show ?thesis using p assms(1,3) unfolding fs_wf_def by blast
qed

lemma rmdir_nothing_under:
  assumes "p \<in> set (fs_dirs s)" "\<forall>q \<in> set (fs_dirs s) \<union> fst ` set (fs_files s). \<not> under p q" "fs_wf s"
  shows "fs_wf (snd (fs_rmdir p s)) \<and> fs_files (snd (fs_rmdir p s)) = fs_files s"
proof -
  have "map_of (fs_files s) p = None" using assms(1,3) by (auto simp: fs_wf_def map_of_eq_None_iff)
  moreover have "filter (\<lambda>(f, _). \<not> under p f) (fs_files s) = fs_files s" using assms(2) by (force simp: filter_id_conv)
  moreover have "filter (\<lambda>d. d \<noteq> p \<and> \<not> under p d) (fs_dirs s) = filter (\<lambda>d. d \<noteq> p) (fs_dirs s)"
    using assms(2) by (auto intro: filter_cong)
  ultimately have run: "snd (fs_rmdir p s) = s\<lparr>fs_dirs := filter (\<lambda>d. d \<noteq> p) (fs_dirs s)\<rparr>"
    using assms(1) by (simp add: fs_rmdir_def fs_rm_def)
  show ?thesis unfolding run using assms(2,3) by (simp add: fs_wf_def) blast
qed

lemma cleaned_empty: "keeps cleaned (removeDirectoryIfEmpty X p)"
  unfolding keeps_def
proof
  fix w :: rworld
  obtain r where g: "getFilesAndDirs (r_ctime X) p (r_fs w) = (r, r_fs w)" using getFilesAndDirs_state by (metis prod.collapse)
  show "cleaned w (snd (removeDirectoryIfEmpty X p w))"
  proof (cases "r = Inr [] \<and> fs_wf (r_fs w)")
    case True
    have "p \<in> set (fs_dirs (r_fs w))"
      using True g by (auto simp: getFilesAndDirs_def getDirectories_def act_simps split: if_splits)
    then have "fs_wf (snd (fs_rmdir p (r_fs w))) \<and> fs_files (snd (fs_rmdir p (r_fs w))) = fs_files (r_fs w)"
      using rmdir_nothing_under empty_directory [of "r_fs w" "r_ctime X" p] True g by auto
    moreover have "r_fs (snd (removeDirectoryIfEmpty X p w)) = snd (fs_rmdir p (r_fs w))"
      using True g by (auto simp: removeDirectoryIfEmpty_def runFs_def act_simps split: sum.splits prod.splits)
    ultimately show ?thesis by (simp add: cleaned_def)
  next
    case False
    then show ?thesis using g by (auto simp: cleaned_def removeDirectoryIfEmpty_def runFs_def act_simps split: sum.splits)
  qed
qed

lemma cleaned_dirs: "keeps cleaned (removeEmptyDirectoriesAndNonMetaFiles n X p)"
proof (induction n arbitrary: p)
  case (Suc n)
  have each: "keeps cleaned (bnd (runFs (fs_isDirectory q)) (\<lambda>isDirectory.
      if isDirectory then thn (removeEmptyDirectoriesAndNonMetaFiles n X q) (removeDirectoryIfEmpty X q)
      else if \<not> kept_file q then thn (runFs (fs_rm False q)) (ret ()) else ret ()))" for q
    by (intro keeps_bnd cleaned_reads) (auto intro!: keeps_thn Suc cleaned_empty cleaned_rm)
  show ?case unfolding removeEmptyDirectoriesAndNonMetaFiles.simps
    by (rule keeps_bnd [OF cleaned_refl(2) cleaned_reads(1)]) (rule keeps_forA [OF cleaned_refl each])
qed simp

text \<open>
  C22. The clean-up of the data directory never touches what the service needs: whatever it does and
  wherever it stops, every metadata file and every image is there afterwards with its text.
\<close>

theorem clean_keeps_metadata:
  assumes "fs_wf (r_fs w)" "kept_file p"
  shows "map_of (fs_files (r_fs (snd (delete_non_metadata_job depth X w)))) p = map_of (fs_files (r_fs w)) p"
proof -
  have "keeps cleaned (delete_non_metadata_job depth X)"
    unfolding delete_non_metadata_job_def by (intro keeps_tryA cleaned_dirs) simp_all
  then have "cleaned w (snd (delete_non_metadata_job depth X w))" by (simp add: keeps_def)
  then show ?thesis using assms by (simp add: cleaned_def)
qed

theorem clean_keeps_metadata_witness:
  "map_of (fs_files (r_fs (snd (delete_non_metadata_job 9 ref_rext (registry_world\<lparr>r_fs := \<lparr>fs_files = [(''/d/app.json'', ''{}''), (''/d/x'', [])], fs_dirs = [''/d'']\<rparr>\<rparr>)))))
     ''/d/app.json'' = Some ''{}''"
proof -
  have "fs_wf \<lparr>fs_files = [(''/d/app.json'', ''{}''), (''/d/x'', [])], fs_dirs = [''/d'']\<rparr>" "kept_file ''/d/app.json''" by code_simp+
  then show ?thesis
    using clean_keeps_metadata [of "registry_world\<lparr>r_fs := \<lparr>fs_files = [(''/d/app.json'', ''{}''), (''/d/x'', [])], fs_dirs = [''/d'']\<rparr>\<rparr>" "''/d/app.json''" 9 ref_rext]
    by simp
qed

end
