(* ===== verification/Export.thy ===== *)
theory Export
  imports IndexerUtils FileSys JsonParse
begin

text \<open>
  \<open>services/export/shared\<close>: the export of the transactions of an account as a CSV file
  (\<open>csvExport.js\<close>, \<open>requestAll.js\<close>), the helpers for transactions and files, the storage of files
  (\<open>csvCache.js\<close>) and the controllers. The answers of the other services, the libraries moment and
  json2csv, and \<open>toFixed\<close> on floating-point numbers are parameters.
\<close>

subsection \<open>Environment\<close>

record eext =
  core :: "string \<Rightarrow> jsval \<Rightarrow> jserr + jsval"
  e_lisk32 :: "string \<Rightarrow> jserr + string"
  lsk_fixed :: "jsval \<Rightarrow> string"
  csv_parse :: "(string \<times> string) list \<Rightarrow> jsval list \<Rightarrow> string"
  today :: string
  date_text :: "jsval \<Rightarrow> string"
  time_text :: "jsval \<Rightarrow> string"
  start_date :: "jsval \<Rightarrow> string"
  days_apart :: "string \<Rightarrow> string \<Rightarrow> int"
  days_of :: "string \<Rightarrow> string \<Rightarrow> string list"
  day_begin :: "string \<Rightarrow> int"
  day_end :: "string \<Rightarrow> int"
  changed_at :: "string \<Rightarrow> int"
  clock_ms :: int
  day_ms :: int

text \<open>
  The files, the objects of the S3 storage under their bucket and name, the module variable
  \<open>AWS_S3_BUCKET_NAME\<close>, the Redis cache of days without transactions, and the export jobs.
\<close>

record eworld =
  e_fs :: fsys
  e_objects :: "((string \<times> string) \<times> string) list"
  e_buckets :: "string list"
  bucketName :: string
  noTransactions :: "(string \<times> bool) list"
  exportQueue :: "jsval list"

type_synonym 'a eact = "(eworld, 'a) action"

definition runFiles :: "'a fact \<Rightarrow> 'a eact" where
  "runFiles act = (\<lambda>w. case act (e_fs w) of (r, s) \<Rightarrow> (r, w\<lparr>e_fs := s\<rparr>))"

text \<open>A promise nobody awaits: its error is lost.\<close>

definition unawaited :: "'a eact \<Rightarrow> unit eact" where
  "unawaited act = tryA (thn act (ret ())) (\<lambda>_. ret ())"

subsection \<open>helpers/file.js\<close>

text \<open>A path is the directory and the file name, resolved as the operating system does.\<close>

definition file_init :: "string \<Rightarrow> unit fact" where
  "file_init dir = fs_mkdir (path_join dir [])"

definition file_write :: "string \<Rightarrow> string \<Rightarrow> string \<Rightarrow> unit fact" where
  "file_write dir f content =
     bnd (getA fs_dirs) (\<lambda>ds. if path_join dir f \<in> set ds then throw (Err (''EISDIR: '' @ f)) else fs_write (path_join dir f) content)"

definition file_read :: "string \<Rightarrow> string \<Rightarrow> string fact" where
  "file_read dir f = fs_read (path_join dir f)"

definition file_exists :: "string \<Rightarrow> string \<Rightarrow> bool fact" where
  "file_exists dir f = fs_exists (path_join dir f)"

definition file_remove :: "string \<Rightarrow> string \<Rightarrow> unit fact" where
  "file_remove dir f =
     bnd (getA fs_files) (\<lambda>fs. if map_of fs (path_join dir f) = None then throw (enoent f)
     else modA (\<lambda>s. s\<lparr>fs_files := filter (\<lambda>(p, _). p \<noteq> path_join dir f) (fs_files s)\<rparr>))"

definition file_list :: "string \<Rightarrow> int \<Rightarrow> int \<Rightarrow> string list fact" where
  "file_list dir num page =
     bnd (getFilesAndDirs (\<lambda>_. 0) (path_join dir [])) (\<lambda>files. ret (js_slice (map last_seg files) page (page + num)))"

definition file_purge :: "eext \<Rightarrow> string \<Rightarrow> int \<Rightarrow> unit fact" where
  "file_purge X dir days =
     bnd (getFiles (path_join dir [])) (\<lambda>files.
     modA (\<lambda>s. s\<lparr>fs_files := filter (\<lambda>(p, _). \<not> (p \<in> set files \<and> clock_ms X > changed_at X p + days * day_ms X)) (fs_files s)\<rparr>))"

subsection \<open>helpers/s3.js\<close>

definition s3_createDir :: "unit eact" where
  "s3_createDir = modA (\<lambda>w. if bucketName w \<in> set (e_buckets w) then w else w\<lparr>e_buckets := e_buckets w @ [bucketName w]\<rparr>)"

definition s3_write :: "string \<Rightarrow> string \<Rightarrow> unit eact" where
  "s3_write f content = (\<lambda>w. if bucketName w \<in> set (e_buckets w)
     then (Inr (), w\<lparr>e_objects := AList.update (bucketName w, f) content (e_objects w)\<rparr>)
     else (Inl (Err ''The specified bucket does not exist''), w))"

text \<open>What is stored is parsed as JSON where that is possible.\<close>

definition s3_read :: "string \<Rightarrow> jsval eact" where
  "s3_read f = (\<lambda>w. case map_of (e_objects w) (bucketName w, f) of
       None \<Rightarrow> (Inl (Err ''The specified key does not exist.''), w)
     | Some t \<Rightarrow> (Inr (case json_parse t of Inr v \<Rightarrow> v | Inl _ \<Rightarrow> JStr t), w))"

definition s3_exists :: "string \<Rightarrow> bool eact" where
  "s3_exists f = tryA (thn (s3_read f) (ret True)) (\<lambda>_. ret False)"

definition s3_remove :: "string list \<Rightarrow> unit eact" where
  "s3_remove fs = modA (\<lambda>w. w\<lparr>e_objects := filter (\<lambda>((b, f), _). \<not> (b = bucketName w \<and> f \<in> set fs)) (e_objects w)\<rparr>)"

definition s3_names :: "string list eact" where
  "s3_names = getA (\<lambda>w. map (\<lambda>((_, f), _). f) (filter (\<lambda>((b, _), _). b = bucketName w) (e_objects w)))"

definition s3_list :: "int \<Rightarrow> int \<Rightarrow> string list eact" where
  "s3_list num page = bnd s3_names (\<lambda>fs. ret (js_slice fs page (page + num)))"

definition filterEligibleFilesForPurging :: "eext \<Rightarrow> string list \<Rightarrow> int \<Rightarrow> string list" where
  "filterEligibleFilesForPurging X files days = filter (\<lambda>f. clock_ms X - days * day_ms X - changed_at X f \<ge> 0) files"

definition s3_purge :: "eext \<Rightarrow> int \<Rightarrow> unit eact" where
  "s3_purge X days = bnd s3_names (\<lambda>fs. s3_remove (filterEligibleFilesForPurging X fs days))"

subsection \<open>csvCache.js\<close>

record cache_config =
  driver :: string
  dirPath :: string
  retentionInDays :: int
  s3_bucket :: string

record ocache =
  c_write :: "string \<Rightarrow> string \<Rightarrow> unit eact"
  c_read :: "string \<Rightarrow> jsval eact"
  c_exists :: "string \<Rightarrow> bool eact"
  c_remove :: "string \<Rightarrow> unit eact"
  c_purge :: "unit eact"

definition fs_cache :: "eext \<Rightarrow> string \<Rightarrow> int \<Rightarrow> ocache" where
  "fs_cache X dir days = \<lparr>c_write = \<lambda>f t. runFiles (file_write dir f t), c_read = \<lambda>f. bnd (runFiles (file_read dir f)) (\<lambda>t. ret (JStr t)),
     c_exists = \<lambda>f. runFiles (file_exists dir f), c_remove = \<lambda>f. runFiles (file_remove dir f), c_purge = runFiles (file_purge X dir days)\<rparr>"

definition s3_cache :: "eext \<Rightarrow> int \<Rightarrow> ocache" where
  "s3_cache X days = \<lparr>c_write = s3_write, c_read = s3_read, c_exists = s3_exists, c_remove = \<lambda>f. s3_remove [f], c_purge = s3_purge X days\<rparr>"

definition objectCacheFS :: "eext \<Rightarrow> cache_config \<Rightarrow> ocache eact" where
  "objectCacheFS X c = thn (unawaited (runFiles (file_init (dirPath c)))) (ret (fs_cache X (dirPath c) (retentionInDays c)))"

text \<open>
  \<open>init\<close> of the S3 storage sets the bucket at once; the bucket is created when the answer about its
  existence comes in, after the caches are set up (\<open>export_start\<close>).
\<close>

definition objectCacheS3 :: "eext \<Rightarrow> cache_config \<Rightarrow> ocache eact" where
  "objectCacheS3 X c =
     thn (if s3_bucket c \<noteq> [] then modA (\<lambda>w. w\<lparr>bucketName := s3_bucket c\<rparr>) else ret ()) (ret (s3_cache X (retentionInDays c)))"

definition DRIVERS :: "string list" where "DRIVERS = [''filesystem'', ''s3-minio'']"

definition objectCache :: "eext \<Rightarrow> cache_config \<Rightarrow> ocache eact" where
  "objectCache X c =
     (if driver c \<notin> set DRIVERS then throw (NotFoundErr (driver c @ '' driver not found. Use one of '' @ join '','' DRIVERS))
      else if driver c = ''s3-minio'' then objectCacheS3 X c
      else objectCacheFS X c)"

definition partials_config :: cache_config where
  "partials_config = \<lparr>driver = ''filesystem'', dirPath = ''./data/partials'', retentionInDays = 30, s3_bucket = ''partials''\<rparr>"

definition exports_config :: cache_config where
  "exports_config = \<lparr>driver = ''filesystem'', dirPath = ''./data/static'', retentionInDays = 30, s3_bucket = ''exports''\<rparr>"

definition export_start :: "eext \<Rightarrow> cache_config \<Rightarrow> cache_config \<Rightarrow> (ocache \<times> ocache) eact" where
  "export_start X cp ce =
     bnd (objectCache X cp) (\<lambda>p. bnd (objectCache X ce) (\<lambda>e.
     thn (forA (\<lambda>c. if driver c = ''s3-minio'' then s3_createDir else ret ()) [cp, ce]) (ret (p, e))))"

text \<open>The daily job of \<open>jobs/purge.js\<close>.\<close>

definition purge_job :: "ocache \<Rightarrow> ocache \<Rightarrow> unit eact" where
  "purge_job partials staticFiles = thn (unawaited (c_purge partials)) (unawaited (c_purge staticFiles))"

subsection \<open>helpers/transaction.js\<close>

definition is_object :: "jsval \<Rightarrow> bool" where
  "is_object v = (case v of JObj _ \<Rightarrow> True | JArr _ \<Rightarrow> True | _ \<Rightarrow> False)"

definition TOKEN_TRANSFER :: jsval where "TOKEN_TRANSFER = JStr ''2:0''"
definition RECLAIM :: jsval where "RECLAIM = JStr ''1000:0''"

definition recipient_of :: "jsval \<Rightarrow> jserr + jsval" where
  "recipient_of tx = js_path tx [''asset'', ''recipient'', ''address'']"

definition checkIfSelfTokenTransfer :: "jsval \<Rightarrow> jserr + bool" where
  "checkIfSelfTokenTransfer tx =
     bindE (js_prop tx ''moduleAssetId'') (\<lambda>m. if m \<noteq> TOKEN_TRANSFER then Inr False
     else bindE (js_prop tx ''senderId'') (\<lambda>s. bindE (recipient_of tx) (\<lambda>r. Inr (strict_eq s r))))"

definition signed :: "int \<Rightarrow> jsval \<Rightarrow> jsval" where
  "signed sign v = (case js_number v of JNum n \<Rightarrow> JNum (sign * n) | x \<Rightarrow> x)"

definition normalizeTransactionAmount :: "eext \<Rightarrow> jsval \<Rightarrow> jsval \<Rightarrow> jserr + string" where
  "normalizeTransactionAmount X address tx =
     bindE (js_prop tx ''asset'') (\<lambda>asset.
     if \<not> is_object asset then Inl (TypeErr ''Cannot use in operator'')
     else if \<not> ohas (own_props asset) ''amount'' then Inr (lsk_fixed X (JNum 0))
     else bindE (js_prop tx ''moduleAssetId'') (\<lambda>m. bindE (js_prop tx ''senderId'') (\<lambda>senderId.
       bindE (if m = TOKEN_TRANSFER then recipient_of tx else Inr JUndef) (\<lambda>r.
       bindE (js_prop tx ''isSelfTokenTransferCredit'') (\<lambda>credit.
       let isSender = strict_eq address senderId;
           isRecipient = (m = TOKEN_TRANSFER \<and> strict_eq address r);
           isSelfTransfer = (m = TOKEN_TRANSFER \<and> strict_eq senderId r);
           sign = (if m = RECLAIM \<and> isSender \<or> isRecipient \<and> \<not> isSelfTransfer \<or> isRecipient \<and> isSelfTransfer \<and> truthy credit then 1 else -1) in
       Inr (lsk_fixed X (signed sign (oget (own_props asset) ''amount''))))))))"

definition normalizeTransactionFee :: "eext \<Rightarrow> jsval \<Rightarrow> jsval \<Rightarrow> jserr + string" where
  "normalizeTransactionFee X address tx =
     bindE (js_prop tx ''moduleAssetId'') (\<lambda>m. bindE (js_prop tx ''fee'') (\<lambda>fee.
     if m \<noteq> TOKEN_TRANSFER then Inr (lsk_fixed X fee)
     else bindE (recipient_of tx) (\<lambda>r. Inr (lsk_fixed X (if strict_eq address r then JNum 0 else fee)))))"

subsection \<open>csvExport.js: rows\<close>

definition csv_fields :: "(string \<times> string) list" where
  "csv_fields = [(''Date'', ''date''), (''Time'', ''time''), (''Amount LSK'', ''amountLsk''), (''Fee LSK'', ''feeLsk''),
     (''Module:Asset'', ''moduleAssetId''), (''Module:Asset Name'', ''moduleAssetName''), (''Sender'', ''sender''),
     (''Recipient'', ''recipient''), (''Sender Public Key'', ''senderPublicKey''), (''Recipient Public Key'', ''recipientPublicKey''),
     (''Block Height'', ''blockHeight''), (''Note'', ''note''), (''Transaction ID'', ''transactionId'')]"

definition recipient_field :: "jsval \<Rightarrow> string \<Rightarrow> jserr + jsval" where
  "recipient_field asset k =
     bindE (js_prop asset ''recipient'') (\<lambda>r. if truthy r then bindE (js_prop r k) (\<lambda>v. Inr (js_or v JNull)) else Inr JNull)"

definition csv_normalizeTransaction :: "eext \<Rightarrow> jsval \<Rightarrow> jsval \<Rightarrow> jserr + jsval" where
  "csv_normalizeTransaction X address tx =
     bindE (js_prop tx ''unixTimestamp'') (\<lambda>t.
     bindE (normalizeTransactionAmount X address tx) (\<lambda>amountLsk.
     bindE (normalizeTransactionFee X address tx) (\<lambda>feeLsk.
     bindE (js_prop tx ''asset'') (\<lambda>asset.
     bindE (recipient_field asset ''address'') (\<lambda>recipient. bindE (recipient_field asset ''publicKey'') (\<lambda>recipientPublicKey.
     bindE (js_prop asset ''data'') (\<lambda>note.
     let f = oget (own_props tx) in
     Inr (JObj [(''date'', JStr (date_text X t)), (''time'', JStr (time_text X t)), (''amountLsk'', JStr amountLsk), (''feeLsk'', JStr feeLsk),
       (''moduleAssetId'', f ''moduleAssetId''), (''moduleAssetName'', f ''moduleAssetName''), (''sender'', f ''senderId''),
       (''recipient'', recipient), (''senderPublicKey'', f ''senderPublicKey''), (''recipientPublicKey'', recipientPublicKey),
       (''blockHeight'', f ''height''), (''note'', js_or note JNull), (''transactionId'', f ''id'')]))))))))"

definition credit_of :: "jsval \<Rightarrow> jsval" where
  "credit_of tx = JObj (spread (own_props tx) [(''fee'', JStr ''0''), (''isSelfTokenTransferCredit'', JBool True)])"

text \<open>
  \<open>forEach\<close> visits as many positions as the array had at the start, while entries are inserted
  behind the current one: the first argument counts the visits that are left, the list is the array
  from the current position on.
\<close>

fun add_credits :: "nat \<Rightarrow> jsval list \<Rightarrow> jserr + jsval list" where
  "add_credits 0 txs = Inr txs"
| "add_credits (Suc n) [] = Inr []"
| "add_credits (Suc n) (tx # txs) =
     bindE (checkIfSelfTokenTransfer tx) (\<lambda>self. bindE (js_prop tx ''isSelfTokenTransferCredit'') (\<lambda>credit.
     bindE (add_credits n (if self \<and> \<not> truthy credit then credit_of tx # txs else txs)) (\<lambda>rest. Inr (tx # rest))))"

definition transactionsToCSV :: "eext \<Rightarrow> jsval list \<Rightarrow> jsval \<Rightarrow> jserr + string" where
  "transactionsToCSV X transactions address =
     bindE (add_credits (length transactions) transactions) (\<lambda>txs.
     bindE (mapE (csv_normalizeTransaction X address) txs) (\<lambda>rows. Inr (csv_parse X csv_fields rows)))"

subsection \<open>requestAll.js and the requests\<close>

fun export_pages :: "(obj \<Rightarrow> jserr + jsval) \<Rightarrow> obj \<Rightarrow> int \<Rightarrow> int list \<Rightarrow> jsval list \<Rightarrow> jserr + jsval list" where
  "export_pages fn params one [] data = Inr data"
| "export_pages fn params one (page # pages) data =
     bindE (fn (spread params [(''limit'', JNum one), (''offset'', JNum (one * page))])) (\<lambda>result.
     bindE (js_path result [''data'', ''length'']) (\<lambda>len.
     if \<not> truthy len then Inr data
     else bindE (js_prop result ''data'') (\<lambda>rv. bindE (js_iter rv) (\<lambda>more. export_pages fn params one pages (data @ more)))))"

definition export_requestAll :: "(obj \<Rightarrow> jserr + jsval) \<Rightarrow> obj \<Rightarrow> int \<Rightarrow> jserr + jsval list" where
  "export_requestAll fn params limit =
     (let one = num_or (oget params ''limit'') 100 in
     bindE (fn (spread params [(''limit'', JNum one), (''offset'', JNum 0)])) (\<lambda>firstRequest.
     bindE (js_prop firstRequest ''data'') (\<lambda>data. bindE (js_prop data ''error'') (\<lambda>err.
     bindE (if truthy err then bindE (as_str err) (\<lambda>s. Inr (str_includes ''Not found'' s)) else Inr False) (\<lambda>missing.
     if missing then Inr []
     else bindE (js_path firstRequest [''meta'', ''total'']) (\<lambda>tot. bindE (js_elems data) (\<lambda>xs.
       let maxAmount = (if \<not> truthy tot \<or> js_lt (JNum limit) tot then limit else as_int tot) in
       if maxAmount > one then export_pages fn params one [1..(- ((- maxAmount) div one)) - 1] xs else Inr xs)))))))"

definition getAddressFromParams :: "eext \<Rightarrow> obj \<Rightarrow> jserr + jsval" where
  "getAddressFromParams X params =
     (if truthy (oget params ''address'') then Inr (oget params ''address'')
      else bindE (as_str (oget params ''publicKey'')) (\<lambda>k. bindE (e_lisk32 X k) (\<lambda>a. Inr (JStr a))))"

definition getTransactionsInAsc :: "eext \<Rightarrow> obj \<Rightarrow> jserr + jsval" where
  "getTransactionsInAsc X params =
     bindE (getAddressFromParams X params) (\<lambda>a.
     core X ''core.transactions'' (JObj [(''senderIdOrRecipientId'', a), (''sort'', JStr ''timestamp:asc''), (''timestamp'', oget params ''timestamp''),
       (''limit'', js_or (oget params ''limit'') (JNum 10)), (''offset'', js_or (oget params ''offset'') (JNum 0))]))"

definition validateIfAccountExists :: "eext \<Rightarrow> obj \<Rightarrow> jserr + bool" where
  "validateIfAccountExists X params =
     bindE (getAddressFromParams X params) (\<lambda>a.
     case core X ''core.accounts'' (JObj [(''address'', a)]) of
       Inl e \<Rightarrow> Inr False
     | Inr r \<Rightarrow> bindE (js_prop r ''data'') (\<lambda>d. if truthy d then bindE (js_prop d ''length'') (\<lambda>n. Inr (truthy n)) else Inr False))"

definition validateIfAccountHasTransactions :: "eext \<Rightarrow> obj \<Rightarrow> jserr + bool" where
  "validateIfAccountHasTransactions X params =
     bindE (getAddressFromParams X params) (\<lambda>a.
     bindE (core X ''core.transactions'' (JObj [(''senderIdOrRecipientId'', a), (''limit'', JNum 1)])) (\<lambda>r.
     bindE (js_path r [''data'', ''length'']) (\<lambda>n. Inr (truthy n))))"

definition getDefaultStartDate :: "eext \<Rightarrow> jserr + string" where
  "getDefaultStartDate X =
     bindE (core X ''core.blocks'' (JObj [(''limit'', JNum 1), (''sort'', JStr ''height:asc'')])) (\<lambda>r. bindE (js_prop r ''data'') (\<lambda>dv.
     bindE (js_elems dv) (\<lambda>blocks. bindE (js_prop (js_first blocks) ''timestamp'') (\<lambda>t. Inr (start_date X t)))))"

definition standardizeIntervalFromParams :: "eext \<Rightarrow> obj \<Rightarrow> jserr + string" where
  "standardizeIntervalFromParams X params =
     (let interval = oget params ''interval'' in
      if \<not> truthy interval then bindE (getDefaultStartDate X) (\<lambda>s. Inr (s @ '':'' @ today X))
      else bindE (as_str interval) (\<lambda>i.
        if str_includes '':'' i
        then (let ds = js_split '':'' i; s = ds ! 0; t = ds ! 1 in
              if days_apart X t s < 0 then Inl (ValidationErr (''Invalid interval supplied: '' @ i)) else Inr (s @ '':'' @ t))
        else Inr (i @ '':'' @ today X)))"

definition getPartialFilenameFromParams :: "eext \<Rightarrow> obj \<Rightarrow> string \<Rightarrow> jserr + string" where
  "getPartialFilenameFromParams X params day =
     bindE (getAddressFromParams X params) (\<lambda>a. Inr (js_string a @ ''_'' @ day @ ''.json''))"

definition interval_dates :: "eext \<Rightarrow> obj \<Rightarrow> jserr + string \<times> string" where
  "interval_dates X params =
     bindE (standardizeIntervalFromParams X params) (\<lambda>i. let ds = js_split '':'' i in Inr (ds ! 0, ds ! 1))"

definition getCsvFilenameFromParams :: "eext \<Rightarrow> obj \<Rightarrow> jserr + string" where
  "getCsvFilenameFromParams X params =
     bindE (getAddressFromParams X params) (\<lambda>a. bindE (interval_dates X params) (\<lambda>(s, t).
     Inr (''transactions_'' @ js_string a @ ''_'' @ s @ ''_'' @ t @ ''.csv'')))"

definition getCsvFileUrlFromParams :: "eext \<Rightarrow> obj \<Rightarrow> jserr + string" where
  "getCsvFileUrlFromParams X params = bindE (getCsvFilenameFromParams X params) (\<lambda>f. Inr (''/api/v3/exports/'' @ f))"

subsection \<open>csvExport.js: the export of one account\<close>

definition fetch_day :: "eext \<Rightarrow> obj \<Rightarrow> string \<Rightarrow> jserr + jsval list" where
  "fetch_day X params day =
     export_requestAll (getTransactionsInAsc X)
       (spread params [(''timestamp'', JStr (show_int (day_begin X day) @ '':'' @ show_int (day_end X day)))]) 10000"

definition keep_day :: "eext \<Rightarrow> ocache \<Rightarrow> string \<Rightarrow> string \<Rightarrow> jsval list \<Rightarrow> unit eact" where
  "keep_day X partials day f txs =
     (if day = today X then ret ()
      else if txs \<noteq> []
      then bnd (liftE (json_stringify (JArr txs))) (\<lambda>t. unawaited (c_write partials f (js_string t)))
      else modA (\<lambda>w. w\<lparr>noTransactions := AList.update f True (noTransactions w)\<rparr>))"

definition export_day :: "eext \<Rightarrow> ocache \<Rightarrow> obj \<Rightarrow> string \<Rightarrow> jsval list eact" where
  "export_day X partials params day =
     bnd (liftE (getPartialFilenameFromParams X params day)) (\<lambda>f. bnd (c_exists partials f) (\<lambda>cached.
     if cached
     then bnd (c_read partials f) (\<lambda>v. bnd (liftE (json_parse (js_string v))) (\<lambda>txs. liftE (js_iter txs)))
     else bnd (getA noTransactions) (\<lambda>none. if map_of none f = Some True then ret []
       else bnd (liftE (fetch_day X params day)) (\<lambda>txs. thn (keep_day X partials day f txs) (ret txs)))))"

definition exportTransactionsCSV :: "eext \<Rightarrow> ocache \<Rightarrow> ocache \<Rightarrow> obj \<Rightarrow> unit eact" where
  "exportTransactionsCSV X partials staticFiles params =
     bnd (liftE (interval_dates X params)) (\<lambda>(s, t).
     bnd (mapA (export_day X partials params) (days_of X s t)) (\<lambda>days.
     bnd (liftE (getCsvFilenameFromParams X params)) (\<lambda>f. bnd (liftE (getAddressFromParams X params)) (\<lambda>a.
     bnd (liftE (transactionsToCSV X (concat days) a)) (\<lambda>csv. c_write staticFiles f csv)))))"

definition isBlockchainIndexReady :: "eext \<Rightarrow> jserr + bool" where
  "isBlockchainIndexReady X = bindE (core X ''gateway.isBlockchainIndexReady'' (JObj [])) (\<lambda>r. Inr (truthy r))"

definition scheduleTransactionHistoryExport :: "eext \<Rightarrow> ocache \<Rightarrow> obj \<Rightarrow> jsval eact" where
  "scheduleTransactionHistoryExport X staticFiles params =
     bnd (liftE (isBlockchainIndexReady X)) (\<lambda>ready. if \<not> ready then throw (ValidationErr ''Blockchain index is not yet ready.'')
     else bnd (liftE (getAddressFromParams X params)) (\<lambda>a.
     bnd (liftE (validateIfAccountExists X params)) (\<lambda>known.
     if \<not> known then throw (NotFoundErr (''Account '' @ js_string a @ '' not found.''))
     else bnd (liftE (validateIfAccountHasTransactions X [(''address'', a)])) (\<lambda>active.
     if \<not> active then throw (NotFoundErr (''Account '' @ js_string a @ '' has no transactions.''))
     else bnd (liftE (standardizeIntervalFromParams X params)) (\<lambda>interval.
     bnd (liftE (getCsvFilenameFromParams X params)) (\<lambda>f. bnd (c_exists staticFiles f) (\<lambda>present.
     let d = [(''address'', a), (''publicKey'', oget params ''publicKey''), (''interval'', JStr interval)] in
     if present
     then bnd (liftE (getCsvFileUrlFromParams X params)) (\<lambda>url.
       ret (JObj [(''data'', JObj (d @ [(''fileName'', JStr f), (''fileUrl'', JStr url)])), (''meta'', JObj [(''ready'', JBool True)])]))
     else thn (modA (\<lambda>w. w\<lparr>exportQueue := exportQueue w @ [JObj [(''params'', JObj params)]]\<rparr>))
       (ret (JObj [(''data'', JObj d), (''meta'', JObj [(''ready'', JBool False)]), (''status'', JStr ''ACCEPTED'')])))))))))"

text \<open>\<open>filename.split(/_|\./)\<close>.\<close>

definition name_parts :: "string \<Rightarrow> string list" where
  "name_parts f = concat (map (js_split ''.'') (js_split ''_'' f))"

definition end_date :: "string \<Rightarrow> string option" where
  "end_date f = (let ps = name_parts f in if length ps < 2 then None else Some (ps ! (length ps - 2)))"

definition downloadTransactionHistory :: "eext \<Rightarrow> ocache \<Rightarrow> string \<Rightarrow> jsval eact" where
  "downloadTransactionHistory X staticFiles f =
     bnd (c_exists staticFiles f) (\<lambda>present. if \<not> present then throw (NotFoundErr (''File '' @ f @ '' not found.''))
     else bnd (c_read staticFiles f) (\<lambda>data.
     thn (if end_date f = Some (today X) then unawaited (c_remove staticFiles f) else ret ())
       (ret (JObj [(''data'', data), (''meta'', JObj [(''filename'', JStr f)])]))))"

subsection \<open>methods/controllers/export.js\<close>

definition missing_answer :: "jsval eact \<Rightarrow> jsval eact" where
  "missing_answer act = tryA act (\<lambda>e. case e of
       NotFoundErr m \<Rightarrow> ret (JObj [(''status'', JNum 404), (''data'', JObj [(''error'', JStr m)])])
     | _ \<Rightarrow> throw e)"

definition api_scheduleTransactionHistoryExport :: "eext \<Rightarrow> ocache \<Rightarrow> obj \<Rightarrow> jsval eact" where
  "api_scheduleTransactionHistoryExport X staticFiles params =
     missing_answer (bnd (scheduleTransactionHistoryExport X staticFiles params) (\<lambda>r.
       let p = own_props r; status = oget p ''status'' in
       ret (JObj ([(''data'', js_or (oget p ''data'') (JObj [])), (''meta'', js_or (oget p ''meta'') (JObj []))] @
         (if truthy status then [(''status'', status)] else [])))))"

definition api_downloadTransactionHistory :: "eext \<Rightarrow> ocache \<Rightarrow> string \<Rightarrow> jsval eact" where
  "api_downloadTransactionHistory X staticFiles f = missing_answer (downloadTransactionHistory X staticFiles f)"

end
