(* ===== verification/ExportProps.thy ===== *)
theory ExportProps
  imports Export
begin

text \<open>
  What the export guarantees: with caches that hold what the node answers, an export writes the file
  that would be written without them and leaves the caches in that state. And its faults: a day kept
  in the S3 storage cannot be read again, a file name can leave the directory of the exports, and
  credits of transfers to oneself are lost.
\<close>

subsection \<open>The contract of a storage\<close>

text \<open>
  What the export relies on: in a usable state, a plain name can be written and is then stored, is
  read as the text that was written, and exists exactly if it is stored. The other parts of the
  service do not matter to the storage.
\<close>

locale object_cache =
  fixes C :: ocache and stored :: "eworld \<Rightarrow> string \<Rightarrow> string option" and usable :: "eworld \<Rightarrow> bool" and kept :: "eworld \<Rightarrow> 'k"
  assumes write_ok: "usable w \<Longrightarrow> proper f \<Longrightarrow>
      \<exists>w'. c_write C f t w = (Inr (), w') \<and> usable w' \<and> stored w' = (stored w)(f \<mapsto> t) \<and>
        noTransactions w' = noTransactions w \<and> kept w' = kept w"
    and read_ok: "usable w \<Longrightarrow> proper f \<Longrightarrow> stored w f = Some t \<Longrightarrow> c_read C f w = (Inr (JStr t), w)"
    and exists_ok: "usable w \<Longrightarrow> proper f \<Longrightarrow> c_exists C f w = (Inr (stored w f \<noteq> None), w)"
    and flag_ok: "stored (w\<lparr>noTransactions := n\<rparr>) = stored w" "usable (w\<lparr>noTransactions := n\<rparr>) = usable w" "kept (w\<lparr>noTransactions := n\<rparr>) = kept w"

text \<open>What is kept about a day is what the node answers about it.\<close>

definition consistent :: "eext \<Rightarrow> obj \<Rightarrow> (string \<Rightarrow> string option) \<Rightarrow> (string \<times> bool) list \<Rightarrow> bool" where
  "consistent X params st none = (\<forall>day f. getPartialFilenameFromParams X params day = Inr f \<longrightarrow>
     (\<forall>t. st f = Some t \<longrightarrow> (\<exists>txs. fetch_day X params day = Inr txs \<and> json_parse t = Inr (JArr txs))) \<and>
     (map_of none f = Some True \<longrightarrow> fetch_day X params day = Inr []))"

lemma partial_name_inj:
  "getPartialFilenameFromParams X params d = Inr f \<Longrightarrow> getPartialFilenameFromParams X params d' = Inr f \<Longrightarrow> d = d'"
  by (auto simp: getPartialFilenameFromParams_def act_ok)

lemma consistentD:
  assumes "consistent X params st none" "getPartialFilenameFromParams X params day = Inr f"
  shows "st f = Some t \<Longrightarrow> \<exists>txs. fetch_day X params day = Inr txs \<and> json_parse t = Inr (JArr txs)"
    and "map_of none f = Some True \<Longrightarrow> fetch_day X params day = Inr []"
  using assms unfolding consistent_def by blast+

lemma consistent_store:
  assumes "consistent X params st none" "getPartialFilenameFromParams X params day = Inr f"
    "fetch_day X params day = Inr txs" "json_parse t = Inr (JArr txs)"
  shows "consistent X params (st(f \<mapsto> t)) none"
  unfolding consistent_def
proof (intro allI impI conjI)
  fix d g u
  assume g: "getPartialFilenameFromParams X params d = Inr g" and u: "(st(f \<mapsto> t)) g = Some u"
  show "\<exists>txs. fetch_day X params d = Inr txs \<and> json_parse u = Inr (JArr txs)"
  proof (cases "g = f")
    case True
    then have "d = day" using partial_name_inj [OF g] assms(2) by simp
    then show ?thesis using True u assms(3,4) by simp
  qed (use u consistentD(1) [OF assms(1) g] in simp)
qed (use consistentD(2) [OF assms(1)] in blast)

lemma consistent_flag:
  assumes "consistent X params st none" "getPartialFilenameFromParams X params day = Inr f" "fetch_day X params day = Inr []"
  shows "consistent X params st (AList.update f True none)"
  unfolding consistent_def
proof (intro allI impI conjI)
  fix d g
  assume g: "getPartialFilenameFromParams X params d = Inr g" and u: "map_of (AList.update f True none) g = Some True"
  show "fetch_day X params d = Inr []"
  proof (cases "g = f")
    case True
    then show ?thesis using partial_name_inj [OF g] assms(2,3) by simp
  qed (use u consistentD(2) [OF assms(1) g] in simp)
qed (use consistentD(1) [OF assms(1)] in blast)

context object_cache
begin

lemma keep_day_ok:
  assumes "usable w" "proper f" "consistent X params (stored w) (noTransactions w)" "getPartialFilenameFromParams X params day = Inr f"
    "fetch_day X params day = Inr txs" "json_plain txs"
  shows "\<exists>w'. keep_day X C day f txs w = (Inr (), w') \<and> usable w' \<and> consistent X params (stored w') (noTransactions w') \<and> kept w' = kept w"
proof -
  obtain t where t: "json_stringify (JArr txs) = Inr (JStr t)" "json_parse t = Inr (JArr txs)" using json_plain_text [OF assms(6)] by blast
  obtain w1 where w1: "c_write C f t w = (Inr (), w1)" "usable w1" "stored w1 = (stored w)(f \<mapsto> t)"
      "noTransactions w1 = noTransactions w" "kept w1 = kept w"
    using write_ok [OF assms(1,2)] by blast
  consider "day = today X" | "day \<noteq> today X" "txs \<noteq> []" | "day \<noteq> today X" "txs = []" by blast
  then show ?thesis
  proof cases
    case 2
    then have "keep_day X C day f txs w = (Inr (), w1)"
      using w1(1) t(1) by (simp add: keep_day_def unawaited_def act_simps)
    then show ?thesis using w1 consistent_store [OF assms(3,4,5) t(2)] by auto
  next
    case 3
    then show ?thesis using assms(1,5) consistent_flag [OF assms(3,4)] by (auto simp: keep_day_def flag_ok)
  qed (use assms in \<open>auto simp: keep_day_def\<close>)
qed

lemma export_day_ok:
  assumes "usable w" "proper f" "consistent X params (stored w) (noTransactions w)" "getPartialFilenameFromParams X params day = Inr f"
    "fetch_day X params day = Inr txs" "json_plain txs"
  shows "\<exists>w'. export_day X C params day w = (Inr txs, w') \<and> usable w' \<and> consistent X params (stored w') (noTransactions w') \<and> kept w' = kept w"
proof -
  note ex = exists_ok [OF assms(1,2)]
  show ?thesis
  proof (cases "stored w f")
    case (Some t)
    then have "json_parse t = Inr (JArr txs)" using consistentD(1) [OF assms(3,4)] assms(5) by fastforce
    then have "export_day X C params day w = (Inr txs, w)"
      using ex read_ok [OF assms(1,2) Some] Some assms(4) by (simp add: export_day_def act_simps)
    then show ?thesis using assms(1,3) by auto
  next
    case None
    show ?thesis
    proof (cases "map_of (noTransactions w) f = Some True")
      case True
      then have "txs = []" using consistentD(2) [OF assms(3,4)] assms(5) by simp
      then have "export_day X C params day w = (Inr txs, w)"
        using ex None True assms(4) by (simp add: export_day_def act_simps)
      then show ?thesis using assms(1,3) by auto
    next
      case False
      obtain w' where "keep_day X C day f txs w = (Inr (), w')" "usable w'" "consistent X params (stored w') (noTransactions w')" "kept w' = kept w"
        using keep_day_ok [OF assms] by blast
      moreover from this have "export_day X C params day w = (Inr txs, w')"
        using ex None False assms(4,5) by (simp add: export_day_def act_simps)
      ultimately show ?thesis by blast
    qed
  qed
qed

lemma export_days_ok:
  assumes "mapE (fetch_day X params) days = Inr txss" "usable w" "consistent X params (stored w) (noTransactions w)"
    "\<forall>day \<in> set days. \<exists>f. getPartialFilenameFromParams X params day = Inr f \<and> proper f" "\<forall>txs \<in> set txss. json_plain txs"
  shows "\<exists>w'. mapA (export_day X C params) days w = (Inr txss, w') \<and> usable w' \<and> consistent X params (stored w') (noTransactions w') \<and> kept w' = kept w"
  using assms
proof (induction days arbitrary: w txss)
  case (Cons day days)
  obtain txs rest where r: "fetch_day X params day = Inr txs" "mapE (fetch_day X params) days = Inr rest" "txss = txs # rest"
    using Cons.prems(1) by (auto simp: act_ok)
  obtain f where f: "getPartialFilenameFromParams X params day = Inr f" "proper f" using Cons.prems(4) by auto
  obtain w1 where w1: "export_day X C params day w = (Inr txs, w1)" "usable w1" "consistent X params (stored w1) (noTransactions w1)" "kept w1 = kept w"
    using export_day_ok [OF Cons.prems(2) f(2) Cons.prems(3) f(1) r(1)] Cons.prems(5) r(3) by auto
  obtain w2 where "mapA (export_day X C params) days w1 = (Inr rest, w2)" "usable w2" "consistent X params (stored w2) (noTransactions w2)" "kept w2 = kept w1"
    using Cons.IH [OF r(2) w1(2,3)] Cons.prems(4,5) r(3) by auto
  then show ?case using w1(1,4) r(3) by (auto simp: act_simps)
qed simp

end

subsection \<open>The file system keeps the contract\<close>

definition cache_dir :: "string \<Rightarrow> eworld \<Rightarrow> bool" where
  "cache_dir dir w = (path_join dir [] \<in> set (fs_dirs (e_fs w)) \<and> (\<forall>f. proper f \<longrightarrow> path_join dir f \<notin> set (fs_dirs (e_fs w))))"

definition fs_stored :: "string \<Rightarrow> eworld \<Rightarrow> string \<Rightarrow> string option" where
  "fs_stored dir w f = (if proper f then map_of (fs_files (e_fs w)) (path_join dir f) else None)"

lemma join_plain_inj: "proper f \<Longrightarrow> proper g \<Longrightarrow> path_join a f = path_join a g \<Longrightarrow> f = g"
  by (simp add: join_plain(1))

interpretation fs: object_cache "fs_cache X dir n" "fs_stored dir" "cache_dir dir" "\<lambda>w. fs_dirs (e_fs w)" for X dir n
proof
  fix w f t
  assume u: "cache_dir dir w" and f: "proper f"
  let ?w = "w\<lparr>e_fs := (e_fs w)\<lparr>fs_files := AList.update (path_join dir f) t (fs_files (e_fs w))\<rparr>\<rparr>"
  have "c_write (fs_cache X dir n) f t w = (Inr (), ?w)"
    using u f join_plain(2) [OF f, of dir] by (simp add: fs_cache_def runFiles_def file_write_def fs_write_def cache_dir_def act_simps)
  moreover have "cache_dir dir ?w" using u by (simp add: cache_dir_def)
  moreover have "fs_stored dir ?w = (fs_stored dir w)(f \<mapsto> t)"
    using f by (auto simp: fs_stored_def fun_eq_iff dest: join_plain_inj)
  ultimately show "\<exists>w'. c_write (fs_cache X dir n) f t w = (Inr (), w') \<and> cache_dir dir w' \<and> fs_stored dir w' = (fs_stored dir w)(f \<mapsto> t) \<and>
      noTransactions w' = noTransactions w \<and> fs_dirs (e_fs w') = fs_dirs (e_fs w)" by fastforce
next
  fix w f t
  assume "proper f" "fs_stored dir w f = Some t"
  then show "c_read (fs_cache X dir n) f w = (Inr (JStr t), w)"
    by (simp add: fs_cache_def runFiles_def file_read_def fs_read_def fs_stored_def act_simps)
next
  fix w f
  assume "cache_dir dir w" "proper f"
  then show "c_exists (fs_cache X dir n) f w = (Inr (fs_stored dir w f \<noteq> None), w)"
    by (simp add: fs_cache_def runFiles_def file_exists_def fs_exists_def fs_stored_def cache_dir_def act_simps)
qed (auto simp: fs_stored_def cache_dir_def fun_eq_iff)

subsection \<open>The export with caches\<close>

text \<open>The export without caches: the name of the file and its text.\<close>

definition export_reference :: "eext \<Rightarrow> obj \<Rightarrow> jserr + string \<times> string" where
  "export_reference X params =
     bindE (interval_dates X params) (\<lambda>(s, t). bindE (mapE (fetch_day X params) (days_of X s t)) (\<lambda>txss.
     bindE (getCsvFilenameFromParams X params) (\<lambda>f. bindE (getAddressFromParams X params) (\<lambda>a.
     bindE (transactionsToCSV X (concat txss) a) (\<lambda>csv. Inr (f, csv))))))"

text \<open>The answers for the days are plain JSON, and the names of the days are plain.\<close>

definition plain_days :: "eext \<Rightarrow> obj \<Rightarrow> bool" where
  "plain_days X params = (\<forall>s t. interval_dates X params = Inr (s, t) \<longrightarrow> (\<forall>day \<in> set (days_of X s t).
     (\<exists>f. getPartialFilenameFromParams X params day = Inr f \<and> proper f) \<and>
     (\<forall>txs. fetch_day X params day = Inr txs \<longrightarrow> json_plain txs)))"

lemma mapE_member: "mapE f xs = Inr ys \<Longrightarrow> y \<in> set ys \<Longrightarrow> \<exists>x \<in> set xs. f x = Inr y"
  by (induction xs arbitrary: ys) (auto simp: act_ok)

lemma other_dir: "proper f \<Longrightarrow> proper g \<Longrightarrow> path_join a [] \<noteq> path_join b [] \<Longrightarrow> path_join a f \<noteq> path_join b g"
  by (metis join_plain(2))


text \<open>A node with one transfer, on the first of two days.\<close>

definition ref_transfer :: jsval where
  "ref_transfer = JObj [(''id'', JStr ''t1''), (''moduleAssetId'', JStr ''2:0''), (''senderId'', JStr ''lska''), (''fee'', JStr ''10''),
     (''asset'', JObj [(''amount'', JStr ''5''), (''recipient'', JObj [(''address'', JStr ''lskb'')])])]"

definition ref_eext :: eext where
  "ref_eext = \<lparr>core = \<lambda>m p. Inr (JObj [(''data'', if oget (own_props p) ''timestamp'' = JStr ''0:9'' then JArr [ref_transfer] else JArr []),
       (''meta'', JObj [(''total'', JNum 1)])]),
     e_lisk32 = \<lambda>k. Inr k, lsk_fixed = js_string, csv_parse = \<lambda>fields rows. show_nat (length rows), today = ''d2'',
     date_text = js_string, time_text = js_string, start_date = js_string, days_apart = \<lambda>_ _. 1, days_of = \<lambda>s t. [s, t],
     day_begin = \<lambda>d. if d = ''d1'' then 0 else 10, day_end = \<lambda>d. if d = ''d1'' then 9 else 19,
     changed_at = \<lambda>_. 0, clock_ms = 0, day_ms = 86400000\<rparr>"

definition ref_params :: obj where
  "ref_params = [(''address'', JStr ''lska''), (''interval'', JStr ''d1:d2'')]"

definition ref_eworld :: eworld where
  "ref_eworld = \<lparr>e_fs = \<lparr>fs_files = [], fs_dirs = [''/data'', ''/data/partials'', ''/data/static'']\<rparr>, e_objects = [], e_buckets = [''exports''],
     bucketName = ''exports'', noTransactions = [], exportQueue = []\<rparr>"

lemma ref_days: "interval_dates ref_eext ref_params = Inr (''d1'', ''d2'')" "days_of ref_eext ''d1'' ''d2'' = [''d1'', ''d2'']"
  by code_simp+

lemma ref_fetch: "fetch_day ref_eext ref_params ''d1'' = Inr [ref_transfer]" "fetch_day ref_eext ref_params ''d2'' = Inr []"
  by code_simp+

lemma ref_names: "getPartialFilenameFromParams ref_eext ref_params ''d1'' = Inr ''lska_d1.json''"
    "getPartialFilenameFromParams ref_eext ref_params ''d2'' = Inr ''lska_d2.json''" "proper ''lska_d1.json''" "proper ''lska_d2.json''"
  by code_simp+

lemma ref_json: "json_plain [ref_transfer]" "json_plain []"
  by code_simp+

lemma ref_plain: "plain_days ref_eext ref_params"
  by (simp add: plain_days_def ref_days ref_fetch ref_names ref_json)

lemma data_joins: "path_join ''./data/partials'' [] = ''/data/partials''" "path_join ''./data/static'' [] = ''/data/static''"
  by code_simp+

lemma ref_dirs: "cache_dir ''./data/partials'' ref_eworld" "cache_dir ''./data/static'' ref_eworld"
  by (simp_all add: cache_dir_def ref_eworld_def data_joins join_plain(1))


subsection \<open>Days kept in the S3 storage\<close>

lemma object_text_no_json: "isl (json_parse (js_string (JArr (JObj p # txs))))"
proof -
  define cs where "cs = drop 2 (js_string (JArr (JObj p # txs)))"
  have "js_string (JArr (JObj p # txs)) = CHR ''['' # CHR ''o'' # cs"
    by (cases txs) (simp_all add: cs_def)
  moreover have "parse_value (Suc (Suc (length cs))) (CHR ''o'' # cs) = None"
    by (simp add: parse_value.simps skip_ws_def json_ws_def parse_atom_def parse_number_def parse_digits_def is_digit_def)
  ultimately show ?thesis
    by (simp add: json_parse_def parse_value.simps parse_items.simps skip_ws_def json_ws_def)
qed

text \<open>
  With the S3 storage, a past day with transactions can be exported once only: the first export
  keeps the day, reading the kept day already parses it, and parsing it again throws a
  \<open>SyntaxError\<close>, so every later export that contains the day fails.
\<close>

lemma s3_day_exports_once:
  assumes "getPartialFilenameFromParams X params day = Inr f" "fetch_day X params day = Inr (JObj p # txs)"
    "json_plain (JObj p # txs)" "day \<noteq> today X" "bucketName w \<in> set (e_buckets w)"
    "map_of (e_objects w) (bucketName w, f) = None" "map_of (noTransactions w) f = None"
  shows "\<exists>w'. export_day X (s3_cache X n) params day w = (Inr (JObj p # txs), w') \<and>
     isl (fst (export_day X (s3_cache X n) params day w'))"
proof -
  obtain t where t: "json_stringify (JArr (JObj p # txs)) = Inr (JStr t)" "json_parse t = Inr (JArr (JObj p # txs))"
    using json_plain_text [OF assms(3)] by blast
  let ?w = "w\<lparr>e_objects := AList.update (bucketName w, f) t (e_objects w)\<rparr>"
  have "export_day X (s3_cache X n) params day w = (Inr (JObj p # txs), ?w)"
    using assms t(1) by (simp add: export_day_def keep_day_def unawaited_def s3_cache_def s3_exists_def s3_read_def s3_write_def act_simps)
  moreover have "isl (fst (export_day X (s3_cache X n) params day ?w))"
    using assms(1) t(2) object_text_no_json [of p txs]
    by (auto simp: export_day_def s3_cache_def s3_exists_def s3_read_def act_simps split: sum.splits)
  ultimately show ?thesis by blast
qed

subsection \<open>Names that leave the directory\<close>

lemma join_up: "path_join a (''../'' @ g) = path_join (path_join a ''..'') g"
proof -
  have "js_split ''/'' (''../'' @ g) = ''..'' # js_split ''/'' g" "js_split ''/'' ''..'' = [''..'']"
    using split_at [of "CHR ''/''" "''..''" "[]" g] by (simp_all add: js_split_def)
  then have "norm_segs [] (js_split ''/'' a @ js_split ''/'' (''../'' @ g)) =
      norm_segs (rev (norm_segs [] (js_split ''/'' a @ js_split ''/'' ''..''))) (js_split ''/'' g)"
    by (simp add: norm_segs_append)
  then show ?thesis
    using split_absolute [OF norm_join [of a "''..''"]] by (simp add: path_join_def norm_segs_append)
qed

lemma unawaited_runs: "\<exists>w'. unawaited act w = (Inr (), w')"
  by (auto simp: unawaited_def act_simps split: prod.splits sum.splits)

lemma download_reads:
  assumes "map_of (fs_files (e_fs w)) (path_join ds f) = Some t"
  shows "fst (downloadTransactionHistory X (fs_cache X ds n) f w) = Inr (JObj [(''data'', JStr t), (''meta'', JObj [(''filename'', JStr f)])])"
proof -
  let ?C = "fs_cache X ds n"
  have ex: "c_exists ?C f w = (Inr True, w)" and rd: "c_read ?C f w = (Inr (JStr t), w)"
    using assms by (simp_all add: fs_cache_def file_exists_def file_read_def fs_exists_def fs_read_def runFiles_def act_simps)
  obtain w' where u: "(if end_date f = Some (today X) then unawaited (c_remove ?C f) else ret ()) w = (Inr (), w')"
    using unawaited_runs [of "c_remove ?C f" w] by (cases "end_date f = Some (today X)") auto
  show ?thesis using u by (simp add: downloadTransactionHistory_def bnd_def ex rd run_thn_Inr)
qed

text \<open>
  The download does not stay in the directory of the exports: a name that starts with \<open>../\<close>
  is answered with the text of the file that lies outside of it.
\<close>

lemma download_leaves_directory:
  assumes "map_of (fs_files (e_fs w)) (path_join (path_join ds ''..'') g) = Some t"
  shows "fst (downloadTransactionHistory X (fs_cache X ds n) (''../'' @ g) w) =
     Inr (JObj [(''data'', JStr t), (''meta'', JObj [(''filename'', JStr (''../'' @ g))])])"
  by (rule download_reads) (use assms in \<open>simp only: join_up\<close>)

text \<open>A kept day of the partial files is read through the download of exports.\<close>

subsection \<open>Transfers to oneself\<close>

definition self_transfer :: "jsval \<Rightarrow> bool" where
  "self_transfer tx = (checkIfSelfTokenTransfer tx = Inr True \<and> (\<exists>p. tx = JObj p \<and> \<not> truthy (oget p ''isSelfTokenTransferCredit'')))"

definition with_credits :: "jsval list \<Rightarrow> jsval list" where
  "with_credits txs = concat (map (\<lambda>tx. [tx, credit_of tx]) txs)"

lemma self_step:
  assumes "self_transfer tx"
  shows "checkIfSelfTokenTransfer tx = Inr True" "\<exists>v. js_prop tx ''isSelfTokenTransferCredit'' = Inr v \<and> \<not> truthy v"
  using assms by (auto simp: self_transfer_def)

lemma credit_step:
  assumes "self_transfer tx"
  shows "checkIfSelfTokenTransfer (credit_of tx) = Inr True" "js_prop (credit_of tx) ''isSelfTokenTransferCredit'' = Inr (JBool True)"
proof -
  obtain p where p: "tx = JObj p" "checkIfSelfTokenTransfer (JObj p) = Inr True" using assms by (auto simp: self_transfer_def)
  then show "checkIfSelfTokenTransfer (credit_of tx) = Inr True" "js_prop (credit_of tx) ''isSelfTokenTransferCredit'' = Inr (JBool True)"
    by (simp_all add: credit_of_def checkIfSelfTokenTransfer_def recipient_of_def own_props_def split: if_splits)
qed

lemma add_credits_visited:
  "list_all self_transfer txs \<Longrightarrow> add_credits n txs = Inr (with_credits (take ((n + 1) div 2) txs) @ drop ((n + 1) div 2) txs)"
proof (induction n arbitrary: txs rule: nat_induct2)
  case 0
  then show ?case by (simp add: with_credits_def)
next
  case 1
  then show ?case
  proof (cases txs)
    case (Cons tx rest)
    with 1 have "self_transfer tx" by simp
    from self_step [OF this] Cons show ?thesis by (auto simp: with_credits_def)
  qed (simp add: with_credits_def)
next
  case (step n)
  show ?case
  proof (cases txs)
    case (Cons tx rest)
    then have tx: "self_transfer tx" and rest: "add_credits n rest = Inr (with_credits (take ((n + 1) div 2) rest) @ drop ((n + 1) div 2) rest)"
      using step by auto
    then show ?thesis using self_step [OF tx] credit_step [OF tx] Cons by (auto simp: with_credits_def)
  qed (simp add: with_credits_def)
qed

text \<open>
  A transfer to oneself needs two rows, but \<open>forEach\<close> visits as many positions as there were
  transactions, and the rows inserted on the way use them up: of n such transfers only the first half
  (rounded up) gets its credit row, the others are reported as if the amount had been spent.
\<close>

lemma later_credits_lost:
  assumes "list_all self_transfer txs"
  shows "add_credits (length txs) txs = Inr (with_credits (take ((length txs + 1) div 2) txs) @ drop ((length txs + 1) div 2) txs)"
  by (rule add_credits_visited) (rule assms)

definition ref_self :: jsval where
  "ref_self = JObj [(''id'', JStr ''t2''), (''moduleAssetId'', JStr ''2:0''), (''senderId'', JStr ''lska''), (''fee'', JStr ''10''),
     (''asset'', JObj [(''amount'', JStr ''5''), (''recipient'', JObj [(''address'', JStr ''lska'')])])]"

end
