(* ===== verification/ConnectorFormat.thy ===== *)
theory ConnectorFormat
  imports IndexerUtils FileSys JsonParse
begin

text \<open>
  \<open>services/blockchain-connector/shared\<close>, first part: the state of the service, the conversion of values
  by a schema (\<open>utils/parser.js\<close>), the schemas of the node (\<open>sdk/schema.js\<close>), the topics of events
  (\<open>sdk/constants/eventTopics.js\<close>), the formatter (\<open>sdk/formatter.js\<close>) and the encoder (\<open>sdk/encoder.js\<close>).
  The node, the codec, the validator, hashing and the conversion of addresses are parameters. Bytes are written as their
  hexadecimal text.
\<close>

subsection \<open>Environment and state\<close>

datatype fetched_file =
    Body string
  | Http_status int string
  | Stream_error string

record cext =
  node_answer :: "nat \<Rightarrow> string \<Rightarrow> obj \<Rightarrow> jserr + jsval"
  codec_encode :: "jsval \<Rightarrow> jsval \<Rightarrow> jserr + string"
  codec_decodeJSON :: "jsval \<Rightarrow> string \<Rightarrow> jserr + jsval"
  codec_decode :: "jsval \<Rightarrow> string \<Rightarrow> jserr + jsval"
  computeMinFee :: "jsval \<Rightarrow> jsval \<Rightarrow> obj \<Rightarrow> jserr + jsval"
  hash_hex :: "string \<Rightarrow> string"
  validate_by :: "jsval \<Rightarrow> jsval \<Rightarrow> jserr + unit"
  lisk32_of_hex :: "string \<Rightarrow> jserr + string"
  hex_of_lisk32 :: "string \<Rightarrow> jserr + string"
  fetch_file :: "nat \<Rightarrow> string \<Rightarrow> fetched_file"
  sha256_hex :: "string \<Rightarrow> string"
  untar_gz :: "string \<Rightarrow> (string \<times> string) list"
  geo_data :: "string \<Rightarrow> jserr + jsval"
  config_genesisBlockUrl :: string

record peer_store =
  ps_peers :: "jsval list"
  ps_connected :: "jsval list"
  ps_disconnected :: "jsval list"
  ps_statistics :: jsval

record cworld =
  c_calls :: nat
  c_fetches :: nat
  c_schema :: jsval
  c_nodeInfo :: jsval
  c_metadata :: jsval
  c_registeredActions :: jsval
  c_registeredEvents :: jsval
  c_registeredModules :: jsval
  fmt_schemas :: jsval
  fmt_metadata :: jsval
  c_genesisHeight :: jsval
  c_genesisBlockID :: jsval
  c_genesisConfig :: jsval
  c_networkGenesisConfig :: jsval
  c_escrowedAmounts :: jsval
  c_feeTokenID :: jsval
  c_minFeePerByte :: jsval
  c_rewardModule :: jsval
  c_rewardTokenID :: jsval
  c_mainchainID :: jsval
  snapshot_url :: jsval
  snapshot_path :: jsval
  snapshot_block :: jsval
  snapshot_stream :: "string option"
  snapshot_missing :: bool
  c_fs :: fsys
  peerStore :: peer_store
  c_geo :: "(string \<times> jsval) list"
  c_subscribed :: "string list"
  c_listeners :: "string list"
  c_signals :: "(string \<times> jsval) list"
  c_emitted :: "(string \<times> jsval) list"
  c_exited :: bool
  c_isReady :: bool

type_synonym 'a cact = "(cworld, 'a) action"

abbreviation cprop :: "jsval \<Rightarrow> string \<Rightarrow> jsval cact" where
  "cprop v k \<equiv> liftE (js_prop v k)"

subsection \<open>utils/parser.js: values by their schema\<close>

text \<open>\<open>Buffer.from(s, 'hex')\<close>: the bytes up to the first pair that is not hexadecimal.\<close>

fun hex_bytes :: "string \<Rightarrow> string" where
  "hex_bytes (a # b # cs) = (if is_hex a \<and> is_hex b then lower_chr a # lower_chr b # hex_bytes cs else [])"
| "hex_bytes _ = []"

definition js_buffer :: "string \<Rightarrow> jsval" where
  "js_buffer hex = JObj [(''type'', JStr ''Buffer''), (''data'', JStr hex)]"

definition buffer_from :: "jsval \<Rightarrow> jserr + string" where
  "buffer_from v = (case v of JStr s \<Rightarrow> Inr (hex_bytes s) | JArr _ \<Rightarrow> Inr []
     | _ \<Rightarrow> Inl (TypeErr ''The first argument must be of type string or an instance of Buffer, ArrayBuffer, or Array or an Array-like Object.''))"

definition parse_plain :: "cext \<Rightarrow> jsval \<Rightarrow> jsval \<Rightarrow> jserr + jsval" where
  "parse_plain X sch input =
     bindE (js_prop sch ''dataType'') (\<lambda>t.
     if t = JStr ''string'' then Inr (JStr (js_string input))
     else if t = JStr ''boolean'' then Inr (JBool (truthy input))
     else if t = JStr ''bytes'' then
       bindE (js_prop sch ''format'') (\<lambda>f.
       bindE (if f = JStr ''lisk32'' then bindE (as_str input) (\<lambda>s. Inr (take 3 s = ''lsk'')) else Inr False) (\<lambda>address.
       if address then bindE (as_str input) (\<lambda>s. bindE (hex_of_lisk32 X s) (\<lambda>h. Inr (js_buffer h)))
       else bindE (buffer_from input) (\<lambda>h. Inr (js_buffer h))))
     else if t = JStr ''uint32'' \<or> t = JStr ''sint32'' then Inr (js_number input)
     else if t = JStr ''uint64'' \<or> t = JStr ''sint64'' then bindE (js_bigint input) (\<lambda>n. Inr (JBig n))
     else Inr input)"

text \<open>\<open>schema.properties[key] || {}\<close>.\<close>

definition prop_schema :: "jsval \<Rightarrow> string \<Rightarrow> jserr + jsval" where
  "prop_schema sch key = bindE (js_prop sch ''properties'') (\<lambda>ps. js_prop ps key)"

definition plain_schema :: "jsval \<Rightarrow> jserr + jsval" where
  "plain_schema ps =
     bindE (js_prop ps ''dataType'') (\<lambda>d. bindE (js_prop ps ''format'') (\<lambda>f. Inr (JObj [(''dataType'', d), (''format'', f)])))"

definition entries_of :: "jsval \<Rightarrow> obj" where
  "entries_of v = (case v of JObj ob \<Rightarrow> ob | JArr vs \<Rightarrow> zip (map show_nat [0..<length vs]) vs | _ \<Rightarrow> [])"

definition elems_of :: "jsval \<Rightarrow> jsval list" where
  "elems_of v = (case v of JArr vs \<Rightarrow> vs | _ \<Rightarrow> [])"

definition no_map :: "jsval \<Rightarrow> jserr + unit" where
  "no_map v = bindE (js_elems v) (\<lambda>_. Inr ())"

lemma elem_size: "u \<in> set (elems_of v) \<Longrightarrow> size u < size v"
  by (cases v) (auto simp: elems_of_def less_Suc_eq_le dest: size_list_estimation' [of _ _ "size u" size])

lemma entry_size: "(k, u) \<in> set (entries_of v) \<Longrightarrow> size u < size v"
proof (cases v)
  case (JArr vs)
  moreover assume "(k, u) \<in> set (entries_of v)"
  ultimately have "u \<in> set vs" by (auto simp: entries_of_def dest: set_zip_rightD)
  then show ?thesis using JArr elem_size [of u v] by (simp add: elems_of_def)
next
  case (JObj ob)
  moreover assume "(k, u) \<in> set (entries_of v)"
  ultimately have "(k, u) \<in> set ob" by (simp add: entries_of_def)
  then have "size u \<le> size_list (size_prod (\<lambda>_. 0) size) ob"
    by (rule size_list_estimation') simp
  then show ?thesis using JObj by simp
qed (auto simp: entries_of_def)

declare mapE_cong [fundef_cong]

function parseInputBySchema :: "cext \<Rightarrow> jsval \<Rightarrow> jsval \<Rightarrow> jserr + jsval" where
  "parseInputBySchema X sch v =
     (if js_typeof v \<noteq> ''object'' then parse_plain X sch v
      else bindE (js_prop sch ''type'') (\<lambda>t. bindE (js_prop sch ''items'') (\<lambda>items.
        if t = JStr ''object'' then
          if v = JNull then Inl (TypeErr ''Cannot convert undefined or null to object'')
          else bindE (mapE (\<lambda>(k, u).
            bindE (prop_schema sch k) (\<lambda>found. bindE (js_prop (js_or found (JObj [])) ''type'') (\<lambda>ty.
            bindE (if ty = JStr ''array''
                   then bindE (js_prop found ''items'') (\<lambda>inner. bindE (no_map u) (\<lambda>_.
                        bindE (mapE (parseInputBySchema X inner) (elems_of u)) (\<lambda>us. Inr (JArr us))))
                   else if js_typeof u = ''object'' then parseInputBySchema X found u
                   else bindE (plain_schema (js_or found (JObj []))) (\<lambda>s. parseInputBySchema X s u)) (\<lambda>r. Inr (k, r))))) (entries_of v)) (\<lambda>qs. Inr (JObj qs))
        else if t = JStr ''array'' then
          bindE (no_map v) (\<lambda>_. bindE (mapE (parseInputBySchema X items) (elems_of v)) (\<lambda>us. Inr (JArr us)))
        else Inr v)))"
  by pat_completeness auto
termination
  by (relation "measure (\<lambda>(X, sch, v). size v)") (auto dest: elem_size entry_size intro: less_trans)

subsection \<open>utils/account.js\<close>

definition getLisk32Address :: "cext \<Rightarrow> jsval \<Rightarrow> jserr + jsval" where
  "getLisk32Address X address =
     bindE (as_str address) (\<lambda>s. if take 3 s = ''lsk'' then Inr address
     else bindE (lisk32_of_hex X (hex_bytes s)) (\<lambda>a. Inr (JStr a)))"

subsection \<open>sdk/schema.js\<close>

text \<open>\<open>xs.find(m => m.name === name)\<close>.\<close>

fun find_named :: "jsval list \<Rightarrow> jsval \<Rightarrow> jserr + jsval" where
  "find_named [] name = Inr JUndef"
| "find_named (m # ms) name = bindE (js_prop m ''name'') (\<lambda>n. if strict_eq n name then Inr m else find_named ms name)"

definition modules_of :: "cworld \<Rightarrow> jserr + jsval list" where
  "modules_of w = bindE (js_prop (fmt_metadata w) ''modules'') js_elems"

definition getEventSchema :: "cworld \<Rightarrow> jserr + jsval" where
  "getEventSchema w = js_prop (fmt_schemas w) ''event''"

definition getTransactionSchema :: "cworld \<Rightarrow> jserr + jsval" where
  "getTransactionSchema w = js_prop (fmt_schemas w) ''transaction''"

definition getTransactionParamsSchema :: "cworld \<Rightarrow> jsval \<Rightarrow> jserr + jsval" where
  "getTransactionParamsSchema w transaction =
     bindE (modules_of w) (\<lambda>ms. bindE (js_prop transaction ''module'') (\<lambda>mn. bindE (find_named ms mn) (\<lambda>m.
     bindE (js_prop m ''commands'') (\<lambda>cv. bindE (js_elems cv) (\<lambda>cs. bindE (js_prop transaction ''command'') (\<lambda>cn.
     bindE (find_named cs cn) (\<lambda>c. js_prop c ''params'')))))))"

definition getBlockAssetDataSchemaByModule :: "cworld \<Rightarrow> jsval \<Rightarrow> jserr + jsval" where
  "getBlockAssetDataSchemaByModule w mn =
     bindE (modules_of w) (\<lambda>ms. bindE (find_named ms mn) (\<lambda>m. bindE (js_prop m ''assets'') (\<lambda>av.
     bindE (js_elems av) (\<lambda>as. js_prop (js_default (js_first as) (JObj [])) ''data''))))"

definition COMMAND_EXECUTION_RESULT :: string where
  "COMMAND_EXECUTION_RESULT = ''commandExecutionResult''"

fun conn_find_event :: "jsval list \<Rightarrow> jsval \<Rightarrow> jserr + jsval option" where
  "conn_find_event [] name = Inr None"
| "conn_find_event (m # ms) name =
     bindE (js_prop m ''events'') (\<lambda>ev. bindE (js_elems ev) (\<lambda>es. bindE (find_named es name) (\<lambda>e.
     if e = JUndef then conn_find_event ms name else bindE (js_prop e ''data'') (\<lambda>d. Inr (Some d)))))"

definition getDataSchemaByEventName :: "cworld \<Rightarrow> jsval \<Rightarrow> jserr + jsval" where
  "getDataSchemaByEventName w name =
     (if name = JStr COMMAND_EXECUTION_RESULT then js_prop (fmt_schemas w) ''standardEvent''
      else bindE (modules_of w) (\<lambda>ms. bindE (conn_find_event ms name) (\<lambda>d. Inr (case d of None \<Rightarrow> JNull | Some s \<Rightarrow> s))))"

subsection \<open>sdk/constants/eventTopics.js\<close>

definition COMMAND_EXECUTION_RESULT_TOPICS :: "string list" where
  "COMMAND_EXECUTION_RESULT_TOPICS = [''transactionID'']"

definition EVENT_TOPIC_MAPPINGS_BY_MODULE :: "(string \<times> (string \<times> string list) list) list" where
  "EVENT_TOPIC_MAPPINGS_BY_MODULE = [
     (''auth'', [(''multisignatureRegistration'', [''transactionID'', ''senderAddress'']),
       (''invalidSignature'', [''transactionID'', ''senderAddress''])]),
     (''validators'', [(''generatorKeyRegistration'', [''defaultTopic'', ''validatorAddress'']),
       (''blsKeyRegistration'', [''defaultTopic'', ''validatorAddress''])]),
     (''token'', [(''transfer'', [''defaultTopic'', ''senderAddress'', ''recipientAddress'']),
       (''transferCrossChain'', [''defaultTopic'', ''senderAddress'', ''recipientAddress'', ''receivingChainID'']),
       (''ccmTransfer'', [''defaultTopic'', ''senderAddress'', ''recipientAddress'', ''ownChainID'']),
       (''mint'', [''defaultTopic'', ''address'']),
       (''burn'', [''defaultTopic'', ''address'']),
       (''lock'', [''transactionID'', ''address'']),
       (''unlock'', [''transactionID'', ''address'']),
       (''initializeToken'', [''defaultTopic'', ''tokenID'']),
       (''initializeUserAccount'', [''transactionID'', ''userAccountAddress'']),
       (''initializeEscrowAccount'', [''defaultTopic'', ''chainID'']),
       (''recover'', [''defaultTopic'', ''address'']),
       (''beforeCCCExecution'', [''defaultTopic'', ''relayerAddress'', ''messageFeeTokenID'']),
       (''beforeCCMForwarding'', [''defaultTopic'', ''sendingChainID'', ''receivingChainID'']),
       (''allTokensSupported'', []),
       (''allTokensSupportRemoved'', []),
       (''allTokensFromChainSupported'', [''defaultTopic'', ''chainID'']),
       (''allTokensFromChainSupportRemoved'', [''defaultTopic'', ''chainID'']),
       (''tokenIDSupported'', [''defaultTopic'', ''tokenID'']),
       (''tokenIDSupportRemoved'', [''defaultTopic'', ''tokenID''])]),
     (''fee'', [(''generatorFeeProcessed'', [''transactionID'', ''senderAddress'', ''generatorAddress'']),
       (''insufficientFee'', [''transactionID'']),
       (''relayerFeeProcessed'', [''transactionID'', ''ccmID'', ''relayerAddress''])]),
     (''interoperability'', [(''invalidRegistrationSignature'', [''transactionID'', ''chainID'']),
       (''chainAccountUpdated'', [''transactionID'', ''sendingChainID'']),
       (''ccmSendSuccess'', [''transactionID'', ''sendingChainID'', ''receivingChainID'', ''sentCCMID'']),
       (''ccmSentFailed'', [''transactionID'']),
       (''ccmProcessed'', [''transactionID'', ''sendingChainID'', ''receivingChainID'', ''ccmID'']),
       (''terminatedStateCreated'', [''transactionID'', ''chainID'']),
       (''terminatedOutboxCreated'', [''transactionID'', ''chainID''])]),
     (''pos'', [(''validatorRegistered'', [''transactionID'', ''validatorAddress'']),
       (''validatorStaked'', [''transactionID'', ''stakerAddress'', ''validatorAddress'']),
       (''validatorPunished'', [''transactionID'', ''validatorAddress'']),
       (''validatorBanned'', [''transactionID'', ''validatorAddress'']),
       (''commissionChange'', [''transactionID'', ''validatorAddress'']),
       (''rewardsAssigned'', [''transactionID'', ''stakerAddress''])]),
     (''random'', []),
     (''dynamicReward'', [(''rewardMinted'', [''defaultTopic'', ''generatorAddress''])]),
     (''legacy'', [(''accountReclaimed'', [''transactionID'', ''legacyAddress'', ''newAddress'']),
       (''keysRegistered'', [''transactionID'', ''validatorAddress'', ''generatorKey'', ''blsKey''])]),
     (''subscription'', [(''subscriptionCreated'', [''transactionID'', ''senderAddress'']),
       (''subscriptionPurchased'', [''transactionID'', ''senderAddress''])]),
     (''collection'', [(''collectionCreated'', [''transactionID'', ''senderAddress'']),
       (''collectionTransfered'', [''transactionID'', ''senderAddress''])]),
     (''audio'', [(''audioCreated'', [''transactionID'', ''senderAddress'']),
       (''audioStreamed'', [''transactionID'', ''senderAddress'']),
       (''audioIncomeReclaimed'', [''transactionID'', ''senderAddress''])]),
     (''profile'', [(''profileCreated'', [''transactionID'', ''senderAddress''])])]"

subsection \<open>sdk/formatter.js\<close>

definition count_signed :: "jsval list \<Rightarrow> int" where
  "count_signed signatures = int (length (filter truthy signatures))"

definition formatTransaction :: "cext \<Rightarrow> cworld \<Rightarrow> jsval \<Rightarrow> jserr + jsval" where
  "formatTransaction X w transaction =
     bindE (getTransactionSchema w) (\<lambda>txSchema.
     bindE (parseInputBySchema X txSchema transaction) (\<lambda>parsed.
     bindE (codec_encode X txSchema parsed) (\<lambda>buffer.
     bindE (getTransactionParamsSchema w transaction) (\<lambda>paramsSchema.
     bindE (js_prop transaction ''params'') (\<lambda>pv. bindE (buffer_from pv) (\<lambda>paramsBuffer.
     bindE (codec_decodeJSON X paramsSchema paramsBuffer) (\<lambda>transactionParams.
     bindE (codec_decode X paramsSchema paramsBuffer) (\<lambda>compliantParams.
     bindE (js_prop transaction ''signatures'') (\<lambda>sv. bindE (js_elems sv) (\<lambda>signatures.
     bindE (computeMinFee X (JObj (oset (own_props parsed) ''params'' compliantParams)) paramsSchema
        [(''minFeePerByte'', js_or (c_minFeePerByte w) JNull), (''numberOfSignatures'', JNum (count_signed signatures)),
         (''numberOfEmptySignatures'', JNum (int (length signatures) - count_signed signatures))]) (\<lambda>minFee.
     Inr (parseToJSONCompatObj (JObj (spread (own_props transaction)
       [(''params'', transactionParams), (''size'', JNum (int (length buffer div 2))), (''minFee'', minFee)]))))))))))))))"

definition formatAsset :: "cext \<Rightarrow> cworld \<Rightarrow> jsval \<Rightarrow> jserr + jsval" where
  "formatAsset X w asset =
     bindE (js_prop asset ''module'') (\<lambda>mn. bindE (getBlockAssetDataSchemaByModule w mn) (\<lambda>sch.
     bindE (js_prop asset ''data'') (\<lambda>data.
     bindE (if truthy sch then bindE (buffer_from data) (codec_decodeJSON X sch) else Inr data) (\<lambda>formatted.
     Inr (JObj [(''module'', mn), (''data'', formatted)])))))"

definition formatBlock :: "cext \<Rightarrow> cworld \<Rightarrow> jsval \<Rightarrow> jserr + jsval" where
  "formatBlock X w block =
     bindE (js_prop block ''header'') (\<lambda>header.
     bindE (js_prop block ''assets'') (\<lambda>av. bindE (js_elems av) (\<lambda>assets. bindE (mapE (formatAsset X w) assets) (\<lambda>blockAssets.
     bindE (js_prop block ''transactions'') (\<lambda>tv. bindE (js_elems tv) (\<lambda>txs. bindE (mapE (formatTransaction X w) txs) (\<lambda>blockTransactions.
     Inr (parseToJSONCompatObj (JObj [(''header'', header), (''assets'', JArr blockAssets), (''transactions'', JArr blockTransactions)])))))))))"

text \<open>The properties of the data whose name ends in \<open>Address\<close>, as Lisk32 addresses.\<close>

definition address_prop :: "cext \<Rightarrow> jsval \<Rightarrow> string \<Rightarrow> jserr + jsval" where
  "address_prop X data k =
     (if \<not> ends_with ''Address'' k then Inr data
      else bindE (js_prop data k) (\<lambda>v. if v \<in> {JUndef, JNull} then Inl (TypeErr ''Cannot read properties of undefined (reading toString)'')
        else bindE (getLisk32Address X (JStr (js_string v))) (\<lambda>a. js_setprop data k a)))"

definition conn_event_data :: "cext \<Rightarrow> cworld \<Rightarrow> jsval \<Rightarrow> jserr + jsval" where
  "conn_event_data X w event =
     bindE (js_prop event ''name'') (\<lambda>name. bindE (getDataSchemaByEventName w name) (\<lambda>sch. bindE (js_prop event ''data'') (\<lambda>data.
     if \<not> truthy sch then Inr (JObj [(''data'', data)])
     else bindE (buffer_from data) (\<lambda>h. bindE (codec_decodeJSON X sch h) (\<lambda>decoded.
       bindE (js_prop sch ''properties'') (\<lambda>pv.
       if pv \<in> {JUndef, JNull} then Inl (TypeErr ''Cannot convert undefined or null to object'')
       else foldE (address_prop X) decoded (map fst (own_props pv))))))))"

definition topics_of :: "jsval \<Rightarrow> jsval \<Rightarrow> string list option" where
  "topics_of mn name =
     (if name = JStr COMMAND_EXECUTION_RESULT then Some COMMAND_EXECUTION_RESULT_TOPICS
      else case map_of EVENT_TOPIC_MAPPINGS_BY_MODULE (js_string mn) of
        None \<Rightarrow> None | Some es \<Rightarrow> map_of es (js_string name))"

definition is_address_topic :: "string \<Rightarrow> bool" where
  "is_address_topic t = (ends_with ''address'' (to_lower t) \<and> \<not> str_includes ''legacy'' t)"

definition format_topic :: "cext \<Rightarrow> string list \<Rightarrow> nat \<times> jsval \<Rightarrow> jserr + jsval" where
  "format_topic X topics = (\<lambda>(i, topic).
     if is_address_topic (if i < length topics then topics ! i else []) then getLisk32Address X topic else Inr topic)"

definition formatEvent :: "cext \<Rightarrow> cworld \<Rightarrow> jsval \<Rightarrow> jserr + jsval" where
  "formatEvent X w event =
     bindE (getEventSchema w) (\<lambda>eventSchema. bindE (parseInputBySchema X eventSchema event) (\<lambda>parsed.
     bindE (codec_encode X eventSchema parsed) (\<lambda>buffer.
     bindE (conn_event_data X w event) (\<lambda>data.
     bindE (js_prop event ''module'') (\<lambda>mn. bindE (js_prop event ''name'') (\<lambda>name.
     bindE (js_prop event ''topics'') (\<lambda>tv.
     bindE (case topics_of mn name of
              None \<Rightarrow> Inr tv
            | Some ts \<Rightarrow> bindE (js_elems tv) (\<lambda>topics.
                bindE (mapE (format_topic X ts) (zip [0..<length topics] topics)) (\<lambda>us. Inr (JArr us)))) (\<lambda>eventTopics.
     Inr (parseToJSONCompatObj (JObj (spread (own_props event)
       [(''data'', data), (''topics'', eventTopics), (''id'', JStr (hash_hex X buffer))])))))))))))"

definition formatResponse :: "cext \<Rightarrow> cworld \<Rightarrow> string \<Rightarrow> jsval \<Rightarrow> jserr + jsval" where
  "formatResponse X w endpoint response =
     (let compat = (\<lambda>f v. bindE (f v) (\<lambda>r. Inr (parseToJSONCompatObj r)));
          each = (\<lambda>f. bindE (js_elems response) (\<lambda>vs. bindE (mapE (compat f) vs) (\<lambda>us. Inr (JArr us)))) in
      if endpoint \<in> {''app_getBlockByHeight'', ''app_getBlockByID'', ''app_getLastBlock''} then compat (formatBlock X w) response
      else if endpoint \<in> {''app_getBlocksByHeightBetween'', ''app_getBlocksByIDs''} then each (formatBlock X w)
      else if endpoint = ''app_getTransactionByID'' then compat (formatTransaction X w) response
      else if endpoint \<in> {''getTransactionsByIDs'', ''getTransactionsFromPool''} then each (formatTransaction X w)
      else Inr response)"

definition formatAPIClientEventPayload :: "cext \<Rightarrow> cworld \<Rightarrow> string \<Rightarrow> jsval \<Rightarrow> jserr + jsval" where
  "formatAPIClientEventPayload X w eventName payload =
     (if eventName \<in> {''app_newBlock'', ''app_deleteBlock'', ''app_chainForked''}
      then bindE (js_prop payload ''block'') (\<lambda>b. bindE (formatBlock X w b) (\<lambda>r. Inr (parseToJSONCompatObj r)))
      else if eventName = ''app_newTransaction''
      then bindE (js_prop payload ''transaction'') (\<lambda>t. bindE (formatTransaction X w t) (\<lambda>r. Inr (parseToJSONCompatObj r)))
      else Inr payload)"

subsection \<open>sdk/encoder.js\<close>

definition validated :: "cext \<Rightarrow> jsval \<Rightarrow> jsval \<Rightarrow> jserr + unit" where
  "validated X sch v = (case validate_by X sch v of Inl e \<Rightarrow> Inl (InvalidParamsErr (err_message e)) | Inr u \<Rightarrow> Inr u)"

definition encodeTransaction :: "cext \<Rightarrow> cworld \<Rightarrow> jsval \<Rightarrow> jserr + string" where
  "encodeTransaction X w transaction =
     bindE (getTransactionParamsSchema w transaction) (\<lambda>paramsSchema. bindE (getTransactionSchema w) (\<lambda>txSchema.
     bindE (js_prop transaction ''params'') (\<lambda>pv.
     bindE (parseInputBySchema X paramsSchema pv) (\<lambda>params. bindE (parseInputBySchema X txSchema transaction) (\<lambda>tx.
     bindE (validated X paramsSchema params) (\<lambda>_. bindE (codec_encode X paramsSchema params) (\<lambda>paramsBuffer.
     let full = JObj (oset (own_props tx) ''params'' (js_buffer paramsBuffer)) in
     bindE (validated X txSchema full) (\<lambda>_. codec_encode X txSchema full))))))))"

end
