(* ===== verification/Connector.thy ===== *)
theory Connector
  imports ConnectorFormat
begin

text \<open>
  \<open>services/blockchain-connector/shared\<close>, second part: the requests to the node with their retries
  (\<open>sdk/client.js\<close>, \<open>sdk/endpoints.js\<close> and the files for the modules of the node), the genesis block and its
  snapshot (\<open>sdk/genesisBlock.js\<close>, \<open>sdk/blocksUtils.js\<close>, \<open>utils/download.js\<close>), the cache of peers and the events.
  A connected client is taken for granted: \<open>getApiClient\<close> waits for one.
\<close>

subsection \<open>sdk/client.js\<close>

definition timeoutMessage :: string where "timeoutMessage = ''Response not received in''"

text \<open>One request over the channel: what it answers or throws.\<close>

definition channel_invoke :: "cext \<Rightarrow> string \<Rightarrow> obj \<Rightarrow> (jserr + jsval) cact" where
  "channel_invoke X endpoint params =
     bnd (getA c_calls) (\<lambda>n. thn (modA (\<lambda>w. w\<lparr>c_calls := Suc n\<rparr>)) (ret (node_answer X n endpoint params)))"

definition is_timeout :: "jserr \<Rightarrow> bool" where
  "is_timeout e = (case e of TimeoutErr _ \<Rightarrow> True | _ \<Rightarrow> False)"

fun invoke_retry :: "cext \<Rightarrow> string \<Rightarrow> obj \<Rightarrow> nat \<Rightarrow> jsval cact" where
  "invoke_retry X endpoint params retries =
     bnd (channel_invoke X endpoint params) (\<lambda>r. case r of
       Inr v \<Rightarrow> ret v
     | Inl e \<Rightarrow> if is_timeout e then (case retries of 0 \<Rightarrow> throw e | Suc n \<Rightarrow> invoke_retry X endpoint params n) else throw e)"

declare invoke_retry.simps [simp del]

definition NUM_REQUEST_RETRIES :: nat where "NUM_REQUEST_RETRIES = 5"

definition invokeEndpoint :: "cext \<Rightarrow> string \<Rightarrow> obj \<Rightarrow> jsval cact" where
  "invokeEndpoint X endpoint params = invoke_retry X endpoint params NUM_REQUEST_RETRIES"

text \<open>The \<open>catch\<close> of the functions below: a timeout gets an exception of its own.\<close>

definition timed :: "string \<Rightarrow> 'a cact \<Rightarrow> 'a cact" where
  "timed message act = tryA act (\<lambda>e.
     if str_includes timeoutMessage (err_message e) then throw (TimeoutErr message) else throw e)"

definition calling :: "string \<Rightarrow> string" where
  "calling f = ''Request timed out when calling '' @ [CHR 0x27] @ f @ [CHR 0x27]"

definition request_as :: "string \<Rightarrow> cext \<Rightarrow> string \<Rightarrow> obj \<Rightarrow> jsval cact" where
  "request_as f X endpoint params = timed (calling f @ ''.'') (invokeEndpoint X endpoint params)"

subsection \<open>sdk/endpoints\_1.js\<close>

text \<open>A value that is asked for once.\<close>

definition cached :: "(cworld \<Rightarrow> jsval) \<Rightarrow> (jsval \<Rightarrow> cworld \<Rightarrow> cworld) \<Rightarrow> jsval cact \<Rightarrow> jsval cact" where
  "cached field upd act =
     bnd (getA field) (\<lambda>known. if truthy known then ret known else bnd act (\<lambda>v. thn (modA (upd v)) (ret v)))"

definition conn_getSchemas :: "cext \<Rightarrow> jsval cact" where
  "conn_getSchemas X = timed (calling ''getSchema'' @ ''.'') (cached c_schema (\<lambda>v w. w\<lparr>c_schema := v\<rparr>) (invokeEndpoint X ''system_getSchema'' []))"

definition getRegisteredActions :: "cext \<Rightarrow> jsval cact" where
  "getRegisteredActions X = timed (calling ''getRegisteredActions'' @ ''.'')
     (cached c_registeredActions (\<lambda>v w. w\<lparr>c_registeredActions := v\<rparr>) (invokeEndpoint X ''app_getRegisteredActions'' []))"

definition getRegisteredEvents :: "cext \<Rightarrow> jsval cact" where
  "getRegisteredEvents X = timed (calling ''getRegisteredEvents'' @ ''.'')
     (cached c_registeredEvents (\<lambda>v w. w\<lparr>c_registeredEvents := v\<rparr>) (invokeEndpoint X ''app_getRegisteredEvents'' []))"

definition getNodeInfo :: "cext \<Rightarrow> bool \<Rightarrow> jsval cact" where
  "getNodeInfo X isForceUpdate = timed (calling ''getNodeInfo'' @ ''.'')
     (bnd (getA c_nodeInfo) (\<lambda>known. if isForceUpdate \<or> \<not> truthy known
      then bnd (invokeEndpoint X ''system_getNodeInfo'' []) (\<lambda>v. thn (modA (\<lambda>w. w\<lparr>c_nodeInfo := v\<rparr>)) (ret v)) else ret known))"

definition conn_getSystemMetadata :: "cext \<Rightarrow> jsval cact" where
  "conn_getSystemMetadata X = timed (calling ''getSystemMetadata'' @ ''.'')
     (cached c_metadata (\<lambda>v w. w\<lparr>c_metadata := v\<rparr>) (invokeEndpoint X ''system_getMetadata'' []))"

definition conn_getRegisteredModules :: "cext \<Rightarrow> jsval cact" where
  "conn_getRegisteredModules X = timed (calling ''getRegisteredModules'' @ ''.'')
     (cached c_registeredModules (\<lambda>v w. w\<lparr>c_registeredModules := v\<rparr>)
       (bnd (conn_getSystemMetadata X) (\<lambda>m. bnd (cprop m ''modules'') (\<lambda>mv. bnd (liftE (js_elems mv)) (\<lambda>ms.
        bnd (liftE (mapE (\<lambda>e. js_prop e ''name'') ms)) (\<lambda>names. ret (JArr names)))))))"

subsection \<open>utils/fs.js and utils/download.js\<close>

definition runConnFs :: "'a fact \<Rightarrow> 'a cact" where
  "runConnFs act = (\<lambda>w. case act (c_fs w) of (r, s) \<Rightarrow> (r, w\<lparr>c_fs := s\<rparr>))"

definition conn_exists :: "string \<Rightarrow> bool cact" where
  "conn_exists p = runConnFs (fs_exists (path_join p []))"

text \<open>\<open>mkdir\<close> and \<open>rm\<close> log their errors and go on.\<close>

definition conn_mkdir :: "string \<Rightarrow> unit cact" where
  "conn_mkdir p = tryA (runConnFs (fs_mkdir (path_join p []))) (\<lambda>_. ret ())"

definition conn_rm :: "string \<Rightarrow> unit cact" where
  "conn_rm p = thn (runConnFs (fs_rm True (path_join p []))) (ret ())"

definition conn_read :: "string \<Rightarrow> string cact" where
  "conn_read p = runConnFs (fs_read (path_join p []))"

definition extractTarBall :: "cext \<Rightarrow> string \<Rightarrow> string \<Rightarrow> unit cact" where
  "extractTarBall X filePath directoryPath =
     bnd (conn_read filePath) (\<lambda>t. forA (\<lambda>(f, content). runConnFs (fs_write (path_join directoryPath f) content)) (untar_gz X t))"

text \<open>The last segment of the address is the name of the file.\<close>

definition conn_downloadFile :: "cext \<Rightarrow> string \<Rightarrow> string \<Rightarrow> unit cact" where
  "conn_downloadFile X url dirPath =
     bnd (getA c_fetches) (\<lambda>n. thn (modA (\<lambda>w. w\<lparr>c_fetches := Suc n\<rparr>))
     (case fetch_file X n url of
        Body t \<Rightarrow> runConnFs (fs_write (path_join dirPath (last (js_split ''/'' url))) t)
      | Http_status code message \<Rightarrow>
          let m = ''Download failed with HTTP status code: '' @ show_int code @ '' ('' @ message @ '')'' in
          throw (if code = 404 then NotFoundErr m else Err m)
      | Stream_error m \<Rightarrow> throw (Err m)))"

definition verifyFileChecksum :: "cext \<Rightarrow> string \<Rightarrow> string \<Rightarrow> bool cact" where
  "verifyFileChecksum X filePath checksumPath =
     bnd (conn_exists filePath) (\<lambda>a. bnd (conn_exists checksumPath) (\<lambda>b.
     if \<not> a \<or> \<not> b then ret False
     else bnd (conn_read checksumPath) (\<lambda>t. bnd (conn_read filePath) (\<lambda>content.
       ret (sha256_hex X content = hd (js_split '' '' t))))))"

subsection \<open>sdk/blocksUtils.js\<close>

definition conn_networks_LISK :: "(string \<times> string) list" where
  "conn_networks_LISK =
     [(''00000000'', ''https://downloads.lisk.com/lisk/mainnet/genesis_block.json.tar.gz''),
      (''01000000'', ''https://downloads.lisk.com/lisk/testnet/genesis_block.json.tar.gz''),
      (''02000000'', ''https://downloads.lisk.com/lisk/betanet/genesis_block.json.tar.gz'')]"

definition snapshot_id :: "cworld \<Rightarrow> jserr + jsval" where
  "snapshot_id w = js_path (snapshot_block w) [''header'', ''id'']"

definition loadConfig :: "cext \<Rightarrow> unit cact" where
  "loadConfig X =
     bnd (getNodeInfo X False) (\<lambda>info. bnd (cprop info ''chainID'') (\<lambda>chainID.
     let found = (if config_genesisBlockUrl X \<noteq> [] then Some (config_genesisBlockUrl X)
                  else map_of conn_networks_LISK (js_string chainID)) in
     case found of
       None \<Rightarrow> ret ()
     | Some url \<Rightarrow>
         let path = ''./data/'' @ js_string chainID @ ''/genesis_block.json'' in
         thn (modA (\<lambda>w. w\<lparr>snapshot_url := JStr url, snapshot_path := JStr path\<rparr>)) (
         bnd (conn_exists path) (\<lambda>here. if here then modA (\<lambda>w. w\<lparr>snapshot_stream := Some path\<rparr>) else ret ()))))"

text \<open>\<open>url.substring(url.lastIndexOf('/') + 1)\<close>, and \<open>path.dirname\<close> of the path of the snapshot.\<close>

definition url_file :: "string \<Rightarrow> string" where
  "url_file url = last (js_split ''/'' url)"

definition snapshot_dir :: "string \<Rightarrow> string" where
  "snapshot_dir p = join ''/'' (butlast (js_split ''/'' p))"

definition download_attempt :: "cext \<Rightarrow> string \<Rightarrow> string \<Rightarrow> bool cact" where
  "download_attempt X url dir =
     (let file = dir @ ''/'' @ url_file url in
     bnd (conn_exists dir) (\<lambda>here. thn (if here then ret () else conn_mkdir dir) (
     thn (conn_downloadFile X url dir) (thn (conn_downloadFile X (url @ ''.SHA256'') dir) (
     bnd (verifyFileChecksum X file (file @ ''.SHA256'')) (\<lambda>valid.
     if valid then thn (if ends_with ''.tar.gz'' file then extractTarBall X file dir else ret ()) (ret True)
     else thn (conn_rm dir) (ret False)))))))"

fun download_retry :: "cext \<Rightarrow> string \<Rightarrow> string \<Rightarrow> nat \<Rightarrow> unit cact" where
  "download_retry X url dir retries =
     bnd (tryA (download_attempt X url dir) (\<lambda>e. case e of
            NotFoundErr m \<Rightarrow> thn (modA (\<lambda>w. w\<lparr>snapshot_missing := True\<rparr>)) (throw e)
          | _ \<Rightarrow> ret False)) (\<lambda>ok.
     if ok then ret ()
     else case retries of
       0 \<Rightarrow> thn (modA (\<lambda>w. w\<lparr>c_exited := True\<rparr>)) (throw (Err ''process.exit''))
     | Suc n \<Rightarrow> download_retry X url dir n)"

declare download_retry.simps [simp del]

definition downloadAndValidateGenesisBlock :: "cext \<Rightarrow> unit cact" where
  "downloadAndValidateGenesisBlock X =
     bnd (getA snapshot_path) (\<lambda>pv. bnd (liftE (as_str pv)) (\<lambda>p. bnd (getA snapshot_url) (\<lambda>uv. bnd (liftE (as_str uv)) (\<lambda>url.
     download_retry X url (snapshot_dir p) 2))))"

definition getGenesisBlockFromFS :: "cext \<Rightarrow> jsval cact" where
  "getGenesisBlockFromFS X =
     bnd (getA snapshot_missing) (\<lambda>gone. if gone then throw (NotFoundErr [])
     else bnd (getA (\<lambda>w. truthy (snapshot_url w) \<and> truthy (snapshot_path w))) (\<lambda>known.
     thn (if known then ret () else loadConfig X) (
     bnd (getA (\<lambda>w. w)) (\<lambda>w0. bnd (liftE (snapshot_id w0)) (\<lambda>loaded.
     thn (if truthy loaded then ret ()
       else bnd (case snapshot_path w0 of JStr p \<Rightarrow> conn_exists p | _ \<Rightarrow> ret False) (\<lambda>here.
         thn (if here then ret () else
           thn (downloadAndValidateGenesisBlock X) (modA (\<lambda>w. w\<lparr>snapshot_stream := Some (js_string (snapshot_path w))\<rparr>))) (
         bnd (getA snapshot_stream) (\<lambda>stream. case stream of
           None \<Rightarrow> throw (TypeErr ''Cannot read properties of undefined (reading pipe)'')
         | Some p \<Rightarrow> bnd (conn_read p) (\<lambda>t. bnd (liftE (json_parse t)) (\<lambda>block.
             bnd (getA (\<lambda>w. w)) (\<lambda>w. bnd (liftE (formatBlock X w block)) (\<lambda>formatted.
             modA (\<lambda>w. w\<lparr>snapshot_block := formatted\<rparr>))))))))) (
     getA snapshot_block))))))"

subsection \<open>sdk/genesisBlock.js\<close>

definition conn_getGenesisHeight :: "cext \<Rightarrow> jsval cact" where
  "conn_getGenesisHeight X =
     cached c_genesisHeight (\<lambda>v w. w\<lparr>c_genesisHeight := v\<rparr>) (bnd (getNodeInfo X False) (\<lambda>info. cprop info ''genesisHeight''))"

definition conn_getGenesisBlock :: "cext \<Rightarrow> bool \<Rightarrow> jsval cact" where
  "conn_getGenesisBlock X isIncludeAssets =
     tryA (bnd (getGenesisBlockFromFS X) (\<lambda>block. bnd (cprop block ''assets'') (\<lambda>assets.
         ret (JObj (oset (own_props block) ''assets'' (if isIncludeAssets then assets else JArr []))))))
       (\<lambda>_. bnd (conn_getGenesisHeight X) (\<lambda>height.
         request_as ''getGenesisBlock'' X ''chain_getBlockByHeight'' [(''height'', height)]))"

definition formatted :: "cext \<Rightarrow> (cext \<Rightarrow> cworld \<Rightarrow> jsval \<Rightarrow> jserr + jsval) \<Rightarrow> jsval \<Rightarrow> jsval cact" where
  "formatted X f v = bnd (getA (\<lambda>w. w)) (\<lambda>w. liftE (f X w v))"

definition getGenesisBlockFormatted :: "cext \<Rightarrow> bool \<Rightarrow> jsval cact" where
  "getGenesisBlockFormatted X includeAssets = bnd (conn_getGenesisBlock X includeAssets) (formatted X formatBlock)"

definition conn_getGenesisBlockID :: "cext \<Rightarrow> jsval cact" where
  "conn_getGenesisBlockID X =
     cached c_genesisBlockID (\<lambda>v w. w\<lparr>c_genesisBlockID := v\<rparr>)
       (bnd (conn_getGenesisBlock X False) (\<lambda>b. liftE (js_path b [''header'', ''id''])))"

definition conn_getGenesisConfig :: "cext \<Rightarrow> jsval cact" where
  "conn_getGenesisConfig X = timed (calling ''getGenesisConfig'' @ ''.'')
     (cached c_genesisConfig (\<lambda>v w. w\<lparr>c_genesisConfig := v\<rparr>) (bnd (getNodeInfo X False) (\<lambda>info. cprop info ''genesis'')))"

fun find_module :: "jsval list \<Rightarrow> jsval \<Rightarrow> jserr + jsval" where
  "find_module [] mn = Inr JUndef"
| "find_module (a # as) mn = bindE (js_prop a ''module'') (\<lambda>m. if strict_eq m mn then Inr a else find_module as mn)"

definition sub_store :: "jsval \<Rightarrow> obj \<Rightarrow> jserr + jsval list" where
  "sub_store asset params =
     (let sub = js_string (oget params ''subStore'') in
     bindE (js_path asset [''data'', sub]) (\<lambda>moduleData.
     if \<not> truthy moduleData then Inr []
     else bindE (if oget params ''offset'' \<noteq> JUndef \<and> truthy (oget params ''limit'')
                 then bindE (js_elems moduleData) (\<lambda>vs. bindE (slice_page vs (oget params ''offset'') (oget params ''limit'')) (\<lambda>us. Inr (JArr us)))
                 else Inr moduleData) (\<lambda>part.
       Inr [JObj (oset (own_props asset) ''data'' (JObj [(sub, part)]))])))"

definition getGenesisAssets :: "cext \<Rightarrow> obj \<Rightarrow> jsval list cact" where
  "getGenesisAssets X params =
     bnd (getGenesisBlockFormatted X True) (\<lambda>block. bnd (cprop block ''assets'') (\<lambda>av. bnd (liftE (js_elems av)) (\<lambda>assets.
     if \<not> truthy (oget params ''module'') \<and> \<not> truthy (oget params ''subStore'') then ret assets
     else bnd (liftE (find_module assets (oget params ''module''))) (\<lambda>asset.
       if truthy (oget params ''subStore'') then liftE (sub_store asset params)
       else ret (if truthy asset then [asset] else [])))))"

definition getGenesisAssetByModule :: "cext \<Rightarrow> obj \<Rightarrow> jsval cact" where
  "getGenesisAssetByModule X params =
     bnd (getGenesisAssets X params) (\<lambda>assets. bnd (cprop (js_default (js_first assets) (JObj [])) ''data'') (\<lambda>d.
     ret (if truthy d then d else JObj [])))"

definition store_length :: "obj \<Rightarrow> string \<times> jsval \<Rightarrow> jserr + obj" where
  "store_length acc = (\<lambda>(k, v). bindE (js_prop v ''length'') (\<lambda>n. Inr (oset acc k n)))"

definition asset_length :: "obj \<Rightarrow> jsval \<Rightarrow> jserr + obj" where
  "asset_length acc asset =
     bindE (js_prop asset ''module'') (\<lambda>mv. bindE (js_prop asset ''data'') (\<lambda>data.
     let m = js_string mv in
     if own_props data = [] then Inr acc
     else bindE (foldE store_length (own_props (oget acc m)) (own_props data)) (\<lambda>lens. Inr (oset acc m (JObj lens)))))"

definition getGenesisAssetsLength :: "cext \<Rightarrow> obj \<Rightarrow> jsval cact" where
  "getGenesisAssetsLength X params =
     bnd (getGenesisAssets X params) (\<lambda>assets. bnd (liftE (foldE asset_length [] assets)) (\<lambda>r. ret (JObj r)))"

end
