(* ===== verification/ConnectorApi.thy ===== *)
theory ConnectorApi
  imports Connector
begin

text \<open>
  \<open>services/blockchain-connector/shared\<close>, third part: what the other services ask the connector for. The requests for
  blocks, transactions and the data of the modules (\<open>sdk/endpoints.js\<close>, \<open>sdk/blocks.js\<close>, \<open>sdk/transactions.js\<close>,
  \<open>sdk/pos.js\<close>, \<open>sdk/tokens.js\<close>, \<open>sdk/fee.js\<close>, \<open>sdk/dynamicReward.js\<close> and smaller files), the cache of peers
  (\<open>sdk/peerCache.js\<close>, \<open>geolocation.js\<close>), the events of the node (\<open>sdk/events.js\<close>, \<open>events/proxy/allEvents.js\<close>) and
  the start of the service (\<open>sdk/index.js\<close>).
\<close>

subsection \<open>sdk/endpoints.js\<close>

definition conn_getNetworkConnectedPeers :: "cext \<Rightarrow> jsval cact" where
  "conn_getNetworkConnectedPeers X = request_as ''getNetworkConnectedPeers'' X ''network_getConnectedPeers'' []"

definition conn_getNetworkDisconnectedPeers :: "cext \<Rightarrow> jsval cact" where
  "conn_getNetworkDisconnectedPeers X = request_as ''getNetworkDisconnectedPeers'' X ''network_getDisconnectedPeers'' []"

definition getGeneratorStatus :: "cext \<Rightarrow> jsval cact" where
  "getGeneratorStatus X = request_as ''getGeneratorStatus'' X ''generator_getStatus'' []"

definition updateGeneratorStatus :: "cext \<Rightarrow> obj \<Rightarrow> jsval cact" where
  "updateGeneratorStatus X config = request_as ''updateGeneratorStatus'' X ''generator_updateStatus'' config"

definition conn_getLastBlock :: "cext \<Rightarrow> jsval cact" where
  "conn_getLastBlock X = request_as ''getLastBlock'' X ''chain_getLastBlock'' []"

text \<open>
  The genesis block is taken from its snapshot. Its promise is returned without \<open>await\<close>, so its errors pass the
  \<open>catch\<close> by.
\<close>

definition conn_getBlockByHeight :: "cext \<Rightarrow> jsval \<Rightarrow> bool \<Rightarrow> jsval cact" where
  "conn_getBlockByHeight X height includeGenesisAssets =
     (let late = timed (calling ''getBlockByHeight'' @ '' for height: '' @ js_string height @ ''.'') in
     bnd (late (conn_getGenesisHeight X)) (\<lambda>genesis.
     if strict_eq (js_number height) genesis then conn_getGenesisBlock X includeGenesisAssets
     else late (invokeEndpoint X ''chain_getBlockByHeight'' [(''height'', height)])))"

text \<open>\<open>from++\<close>.\<close>

definition js_incr :: "jsval \<Rightarrow> jsval" where
  "js_incr v = (case js_number v of JNum n \<Rightarrow> JNum (n + 1) | _ \<Rightarrow> JNaN)"

definition heights_message :: "jsval \<Rightarrow> jsval \<Rightarrow> string" where
  "heights_message a b =
     calling ''getBlocksByHeightBetween'' @ '' for heights: '' @ js_string a @ '' - '' @ js_string b @ ''.''"

text \<open>The first place of the answer is filled by the genesis block, or by the empty array it starts with.\<close>

definition genesis_part :: "cext \<Rightarrow> jsval \<Rightarrow> (jsval \<times> jsval) cact" where
  "genesis_part X a =
     bnd (conn_getGenesisHeight X) (\<lambda>gHeight.
     if js_lt a gHeight
     then throw (Err ([CHR 0x27] @ ''from'' @ [CHR 0x27] @ '' cannot be lower than the genesis height ('' @ js_string gHeight @ '').''))
     else if strict_eq (js_number a) gHeight
     then bnd (conn_getBlockByHeight X gHeight False) (\<lambda>block. ret (block, js_incr a))
     else ret (JArr [], a))"

definition conn_getBlocksByHeightBetween :: "cext \<Rightarrow> jsval \<Rightarrow> jsval \<Rightarrow> jsval list cact" where
  "conn_getBlocksByHeightBetween X a b =
     bnd (timed (heights_message a b) (genesis_part X a)) (\<lambda>(head, a').
     bnd (timed (heights_message a' b)
           (if js_le a' b then invokeEndpoint X ''chain_getBlocksByHeightBetween'' [(''from'', a'), (''to'', b)]
            else ret (JArr []))) (\<lambda>blocks.
     bnd (liftE (js_iter blocks)) (\<lambda>rest. ret (head # rest))))"

definition conn_getBlockByID :: "cext \<Rightarrow> jsval \<Rightarrow> bool \<Rightarrow> jsval cact" where
  "conn_getBlockByID X i includeGenesisAssets =
     (let late = timed (calling ''getBlockByID'' @ '' for ID: '' @ js_string i @ ''.'') in
     bnd (late (conn_getGenesisBlockID X)) (\<lambda>genesis.
     if strict_eq i genesis then conn_getGenesisBlock X includeGenesisAssets
     else late (invokeEndpoint X ''chain_getBlockByID'' [(''id'', i)])))"

text \<open>\<open>xs.indexOf(v)\<close>, and \<open>xs.splice(i, 0, v)\<close>.\<close>

fun index_of :: "jsval list \<Rightarrow> jsval \<Rightarrow> nat option" where
  "index_of [] v = None"
| "index_of (x # xs) v = (if strict_eq x v then Some 0 else map_option Suc (index_of xs v))"

definition splice_in :: "nat \<Rightarrow> 'a \<Rightarrow> 'a list \<Rightarrow> 'a list" where
  "splice_in i v xs = take i xs @ v # drop i xs"

lemma index_of_filter: "index_of xs v = Some i \<Longrightarrow> length (filter (\<lambda>x. \<not> strict_eq x v) xs) < length xs"
  by (induction xs arbitrary: i) (auto split: if_splits simp: less_Suc_eq_le)

function conn_getBlocksByIDs :: "cext \<Rightarrow> jsval list \<Rightarrow> jsval cact" where
  "conn_getBlocksByIDs X ids =
     timed (calling ''getBlocksByIDs'' @ '' for IDs: '' @ js_string (JArr ids) @ ''.'')
     (bnd (conn_getGenesisBlockID X) (\<lambda>genesisBlockId.
      case index_of ids genesisBlockId of
        None \<Rightarrow> invokeEndpoint X ''chain_getBlocksByIDs'' [(''ids'', JArr ids)]
      | Some genesisBlockIndex \<Rightarrow>
          let remainingIDs = filter (\<lambda>i. \<not> strict_eq i genesisBlockId) ids in
          bnd (conn_getBlockByID X genesisBlockId False) (\<lambda>genesisBlock.
          if remainingIDs = [] then ret (JArr [genesisBlock])
          else bnd (conn_getBlocksByIDs X remainingIDs) (\<lambda>bv. bnd (liftE (js_elems bv)) (\<lambda>remainingBlocks.
            ret (JArr (splice_in genesisBlockIndex genesisBlock remainingBlocks)))))))"
  by pat_completeness auto
termination
  by (relation "measure (\<lambda>(X, ids). length ids)") (auto dest: index_of_filter)

declare conn_getBlocksByIDs.simps [simp del]

definition conn_getEventsByHeight :: "cext \<Rightarrow> jsval \<Rightarrow> jsval cact" where
  "conn_getEventsByHeight X height = request_as ''getEvents'' X ''chain_getEvents'' [(''height'', height)]"

text \<open>A timeout that names what was asked for.\<close>

definition request_for :: "string \<Rightarrow> string \<Rightarrow> cext \<Rightarrow> string \<Rightarrow> obj \<Rightarrow> jsval cact" where
  "request_for f what X endpoint params = timed (calling f @ what @ ''.'') (invokeEndpoint X endpoint params)"

definition conn_getTransactionByID :: "cext \<Rightarrow> jsval \<Rightarrow> jsval cact" where
  "conn_getTransactionByID X i =
     request_for ''getTransactionByID'' ('' for ID: '' @ js_string i) X ''chain_getTransactionByID'' [(''id'', i)]"

definition conn_getTransactionsByIDs :: "cext \<Rightarrow> jsval \<Rightarrow> jsval cact" where
  "conn_getTransactionsByIDs X ids =
     request_for ''getTransactionsByIDs'' ('' for IDs: '' @ js_string ids) X ''chain_getTransactionsByIDs'' [(''ids'', ids)]"

definition conn_getTransactionsFromPool :: "cext \<Rightarrow> jsval cact" where
  "conn_getTransactionsFromPool X = request_as ''getTransactionsFromPool'' X ''txpool_getTransactionsFromPool'' []"

definition conn_postTransaction :: "cext \<Rightarrow> jsval \<Rightarrow> jsval cact" where
  "conn_postTransaction X transaction =
     request_for ''postTransaction'' ('' with transaction: '' @ js_string transaction) X
       ''txpool_postTransaction'' [(''transaction'', transaction)]"

definition conn_dryRunTransaction :: "cext \<Rightarrow> jsval \<Rightarrow> jsval \<Rightarrow> jsval cact" where
  "conn_dryRunTransaction X transaction skipVerify =
     request_for ''dryRunTransaction'' ('' with transaction: '' @ js_string transaction) X
       ''txpool_dryRunTransaction'' [(''transaction'', transaction), (''skipVerify'', skipVerify)]"

definition conn_getGenerators :: "cext \<Rightarrow> jsval cact" where
  "conn_getGenerators X = request_as ''getGenerators'' X ''chain_getGeneratorList'' []"

subsection \<open>sdk/blocks.js, sdk/transactions.js and sdk/invoke.js\<close>

definition format_each :: "cext \<Rightarrow> (cext \<Rightarrow> cworld \<Rightarrow> jsval \<Rightarrow> jserr + jsval) \<Rightarrow> jsval list \<Rightarrow> jsval cact" where
  "format_each X f vs = bnd (getA (\<lambda>w. w)) (\<lambda>w. bnd (liftE (mapE (f X w) vs)) (\<lambda>us. ret (JArr us)))"

definition format_array :: "cext \<Rightarrow> (cext \<Rightarrow> cworld \<Rightarrow> jsval \<Rightarrow> jserr + jsval) \<Rightarrow> jsval \<Rightarrow> jsval cact" where
  "format_array X f v = bnd (liftE (js_elems v)) (format_each X f)"

definition getLastBlockFormatted :: "cext \<Rightarrow> jsval cact" where
  "getLastBlockFormatted X = bnd (conn_getLastBlock X) (formatted X formatBlock)"

definition getBlockByHeightFormatted :: "cext \<Rightarrow> jsval \<Rightarrow> bool \<Rightarrow> jsval cact" where
  "getBlockByHeightFormatted X height includeGenesisAssets =
     bnd (conn_getBlockByHeight X height includeGenesisAssets) (formatted X formatBlock)"

definition getBlocksByHeightBetweenFormatted :: "cext \<Rightarrow> jsval \<Rightarrow> jsval \<Rightarrow> jsval cact" where
  "getBlocksByHeightBetweenFormatted X a b = bnd (conn_getBlocksByHeightBetween X a b) (format_each X formatBlock)"

definition getBlockByIDFormatted :: "cext \<Rightarrow> jsval \<Rightarrow> jsval cact" where
  "getBlockByIDFormatted X i = bnd (conn_getBlockByID X i False) (formatted X formatBlock)"

definition getBlocksByIDsFormatted :: "cext \<Rightarrow> jsval list \<Rightarrow> jsval cact" where
  "getBlocksByIDsFormatted X ids = bnd (conn_getBlocksByIDs X ids) (format_array X formatBlock)"

definition getTransactionByIDFormatted :: "cext \<Rightarrow> jsval \<Rightarrow> jsval cact" where
  "getTransactionByIDFormatted X i = bnd (conn_getTransactionByID X i) (formatted X formatTransaction)"

definition getTransactionsByIDsFormatted :: "cext \<Rightarrow> jsval \<Rightarrow> jsval cact" where
  "getTransactionsByIDsFormatted X ids = bnd (conn_getTransactionsByIDs X ids) (format_array X formatTransaction)"

definition getTransactionsFromPoolFormatted :: "cext \<Rightarrow> jsval cact" where
  "getTransactionsFromPoolFormatted X = bnd (conn_getTransactionsFromPool X) (format_array X formatTransaction)"

definition dryRunTransactionWrapper :: "cext \<Rightarrow> obj \<Rightarrow> jsval cact" where
  "dryRunTransactionWrapper X params =
     (let transaction = oget params ''transaction'' in
     bnd (if js_typeof transaction = ''object''
          then bnd (getA (\<lambda>w. w)) (\<lambda>w. bnd (liftE (encodeTransaction X w transaction)) (\<lambda>t. ret (JStr t)))
          else ret transaction) (\<lambda>encodedTransaction.
     bnd (conn_dryRunTransaction X encodedTransaction (oget params ''skipVerify'')) (\<lambda>response.
     if truthy (oget params ''skipDecode'') then ret response
     else bnd (cprop response ''events'') (\<lambda>ev. bnd (format_array X formatEvent ev) (\<lambda>events.
       liftE (js_setprop response ''events'' events))))))"

definition invokeEndpointProxy :: "cext \<Rightarrow> string \<Rightarrow> obj \<Rightarrow> jsval cact" where
  "invokeEndpointProxy X endpoint params =
     bnd (invokeEndpoint X endpoint params) (\<lambda>response. bnd (getA (\<lambda>w. w)) (\<lambda>w. liftE (formatResponse X w endpoint response)))"

end
