(* ===== verification/ConnectorModules.thy ===== *)
theory ConnectorModules
  imports ConnectorApi
begin

text \<open>
  \<open>services/blockchain-connector/shared\<close>, fourth part: the requests for the modules of the node (\<open>sdk/pos.js\<close>,
  \<open>sdk/tokens.js\<close>, \<open>sdk/fee.js\<close>, \<open>sdk/dynamicReward.js\<close>, \<open>sdk/auth.js\<close>, \<open>sdk/legacy.js\<close>, \<open>sdk/validators.js\<close>,
  \<open>sdk/interoperability.js\<close>), the cache of peers (\<open>sdk/peerCache.js\<close>, \<open>geolocation.js\<close>), the events of the node
  (\<open>sdk/events.js\<close>, \<open>events/proxy/allEvents.js\<close>), the start of the service (\<open>sdk/index.js\<close>) and its methods.
\<close>

subsection \<open>sdk/pos.js\<close>

definition conn_getPosValidator :: "cext \<Rightarrow> jsval \<Rightarrow> jsval cact" where
  "conn_getPosValidator X address = request_as ''getPosValidator'' X ''pos_getValidator'' [(''address'', address)]"

definition conn_getAllPosValidators :: "cext \<Rightarrow> jsval cact" where
  "conn_getAllPosValidators X = request_as ''getAllPosValidators'' X ''pos_getAllValidators'' []"

definition conn_getPosValidatorsByStake :: "cext \<Rightarrow> jsval \<Rightarrow> jsval cact" where
  "conn_getPosValidatorsByStake X limit = request_as ''getPosValidatorsByStake'' X ''pos_getValidatorsByStake'' [(''limit'', limit)]"

text \<open>\<open>if (response.error) throw new Error(response.error)\<close>.\<close>

definition no_error :: "jsval \<Rightarrow> jsval cact" where
  "no_error response = bnd (cprop response ''error'') (\<lambda>e. if truthy e then throw (Err (js_string e)) else ret response)"

definition conn_getPosConstants :: "cext \<Rightarrow> jsval cact" where
  "conn_getPosConstants X = timed (calling ''getPosConstants'' @ ''.'') (bnd (invokeEndpoint X ''pos_getConstants'' []) no_error)"

definition conn_getPosPendingUnlocks :: "cext \<Rightarrow> jsval \<Rightarrow> jsval cact" where
  "conn_getPosPendingUnlocks X address = request_as ''getPosPendingUnlocks'' X ''pos_getPendingUnlocks'' [(''address'', address)]"

text \<open>\<open>/^Key [a-f0-9]+ does not exist\.$/\<close>.\<close>

definition KEY_NOT_EXIST :: "string \<Rightarrow> bool" where
  "KEY_NOT_EXIST s =
     (take 4 s = ''Key '' \<and> ends_with '' does not exist.'' s \<and>
      (let key = take (length s - 4 - 16) (drop 4 s) in
       20 < length s \<and> list_all (\<lambda>c. is_digit c \<or> c \<in> set ''abcdef'') key))"

definition conn_getStaker :: "cext \<Rightarrow> jsval \<Rightarrow> jsval cact" where
  "conn_getStaker X address = timed (calling ''getStaker'' @ ''.'')
     (bnd (invokeEndpoint X ''pos_getStaker'' [(''address'', address)]) (\<lambda>staker.
      bnd (cprop staker ''error'') (\<lambda>e.
      bnd (if truthy e then bnd (cprop e ''message'') (\<lambda>m. ret (KEY_NOT_EXIST (js_string m))) else ret False) (\<lambda>unknown.
      ret (if unknown then JObj [(''stakes'', JArr []), (''pendingUnlocks'', JArr [])] else staker)))))"

definition conn_getPosClaimableRewards :: "cext \<Rightarrow> jsval \<Rightarrow> jsval cact" where
  "conn_getPosClaimableRewards X address = request_as ''getPosClaimableRewards'' X ''pos_getClaimableRewards'' [(''address'', address)]"

definition conn_getPosLockedReward :: "cext \<Rightarrow> jsval \<Rightarrow> jsval \<Rightarrow> jsval cact" where
  "conn_getPosLockedReward X address tokenID =
     request_as ''getPosLockedReward'' X ''pos_getLockedReward'' [(''address'', address), (''tokenID'', tokenID)]"

definition MODULE_NAME_POS :: string where "MODULE_NAME_POS = ''pos''"

text \<open>The entry \<open>k\<close> of the data that the genesis block has for the module PoS.\<close>

definition genesis_pos_data :: "cext \<Rightarrow> jsval \<Rightarrow> string \<Rightarrow> jsval cact" where
  "genesis_pos_data X height k =
     bnd (conn_getBlockByHeight X height True) (\<lambda>block. bnd (cprop block ''assets'') (\<lambda>av. bnd (liftE (js_elems av)) (\<lambda>assets.
     bnd (liftE (find_module assets (JStr MODULE_NAME_POS))) (\<lambda>asset. bnd (cprop asset ''data'') (\<lambda>data.
     bnd (cprop data k) (\<lambda>v. ret (js_default v (JArr []))))))))"

definition conn_getPoSGenesisStakers :: "cext \<Rightarrow> jsval \<Rightarrow> jsval cact" where
  "conn_getPoSGenesisStakers X height = timed (calling ''getPoSGenesisStakers'' @ ''.'') (genesis_pos_data X height ''stakers'')"

definition conn_getPoSGenesisValidators :: "cext \<Rightarrow> jsval \<Rightarrow> jsval cact" where
  "conn_getPoSGenesisValidators X height = timed (calling ''getPoSGenesisValidators'' @ ''.'') (genesis_pos_data X height ''validators'')"

subsection \<open>sdk/tokens.js\<close>

definition conn_getTokenBalances :: "cext \<Rightarrow> jsval \<Rightarrow> jsval cact" where
  "conn_getTokenBalances X address = request_as ''getTokenBalances'' X ''token_getBalances'' [(''address'', address)]"

definition conn_getTokenBalance :: "cext \<Rightarrow> jsval \<Rightarrow> jsval \<Rightarrow> jsval cact" where
  "conn_getTokenBalance X address tokenID =
     request_as ''getTokenBalance'' X ''token_getBalance'' [(''address'', address), (''tokenID'', tokenID)]"

definition conn_getEscrowedAmounts :: "cext \<Rightarrow> bool \<Rightarrow> jsval cact" where
  "conn_getEscrowedAmounts X isForceUpdate = timed (calling ''getEscrowedAmounts'' @ ''.'')
     (bnd (getA c_escrowedAmounts) (\<lambda>known. if isForceUpdate \<or> \<not> truthy known
      then bnd (invokeEndpoint X ''token_getEscrowedAmounts'' []) (\<lambda>v. thn (modA (\<lambda>w. w\<lparr>c_escrowedAmounts := v\<rparr>)) (ret v))
      else ret known))"

text \<open>These three return the promise without \<open>await\<close>: the \<open>catch\<close> around it is never reached.\<close>

definition conn_getSupportedTokens :: "cext \<Rightarrow> jsval cact" where
  "conn_getSupportedTokens X = invokeEndpoint X ''token_getSupportedTokens'' []"

definition conn_getTotalSupply :: "cext \<Rightarrow> jsval cact" where
  "conn_getTotalSupply X = invokeEndpoint X ''token_getTotalSupply'' []"

definition hasUserAccount :: "cext \<Rightarrow> jsval \<Rightarrow> jsval \<Rightarrow> jsval cact" where
  "hasUserAccount X address tokenID = invokeEndpoint X ''token_hasUserAccount'' [(''address'', address), (''tokenID'', tokenID)]"

definition conn_getTokenInitializationFees :: "cext \<Rightarrow> jsval cact" where
  "conn_getTokenInitializationFees X = timed (calling ''getTokenInitializationFees'' @ ''.'')
     (bnd (invokeEndpoint X ''token_getInitializationFees'' []) no_error)"

subsection \<open>sdk/fee.js\<close>

text \<open>What these two throw is logged by \<open>cacheFeeConstants\<close> and dropped.\<close>

definition cacheFeeTokenID :: "cext \<Rightarrow> unit cact" where
  "cacheFeeTokenID X = timed (calling ''cacheFeeTokenID'' @ ''.'')
     (bnd (bnd (invokeEndpoint X ''fee_getFeeTokenID'' []) no_error) (\<lambda>response. bnd (cprop response ''tokenID'') (\<lambda>v.
      modA (\<lambda>w. w\<lparr>c_feeTokenID := v\<rparr>))))"

definition cacheMinFeePerByte :: "cext \<Rightarrow> unit cact" where
  "cacheMinFeePerByte X = timed (calling ''cacheMinFeePerByte'' @ ''.'')
     (bnd (bnd (invokeEndpoint X ''fee_getMinFeePerByte'' []) no_error) (\<lambda>response. bnd (cprop response ''minFeePerByte'') (\<lambda>v.
      modA (\<lambda>w. w\<lparr>c_minFeePerByte := v\<rparr>))))"

definition cacheFeeConstants :: "cext \<Rightarrow> unit cact" where
  "cacheFeeConstants X =
     tryA (thn (bnd (getA c_minFeePerByte) (\<lambda>v. if v = JUndef then cacheMinFeePerByte X else ret ()))
               (bnd (getA c_feeTokenID) (\<lambda>v. if v = JUndef then cacheFeeTokenID X else ret ())))
       (\<lambda>_. ret ())"

definition conn_getFeeTokenID :: "jsval cact" where "conn_getFeeTokenID = getA c_feeTokenID"

definition conn_getMinFeePerByte :: "jsval cact" where "conn_getMinFeePerByte = getA c_minFeePerByte"

subsection \<open>sdk/dynamicReward.js\<close>

definition cacheRegisteredRewardModule :: "cext \<Rightarrow> unit cact" where
  "cacheRegisteredRewardModule X =
     bnd (conn_getRegisteredModules X) (\<lambda>mv. bnd (liftE (js_elems mv)) (\<lambda>registeredModules.
     let found = js_first (filter (\<lambda>m. m \<in> {JStr ''dynamicReward'', JStr ''reward''}) registeredModules) in
     thn (modA (\<lambda>w. w\<lparr>c_rewardModule := found\<rparr>))
       (if truthy found then ret () else throw (Err ''Unable to determine registered reward module.''))))"

definition reward_endpoint :: "string \<Rightarrow> cworld \<Rightarrow> string" where
  "reward_endpoint name w = js_string (c_rewardModule w) @ ''_'' @ name"

definition conn_getRewardTokenID :: "cext \<Rightarrow> jsval cact" where
  "conn_getRewardTokenID X = timed (calling ''getRewardTokenID'' @ ''.'')
     (cached c_rewardTokenID (\<lambda>v w. w\<lparr>c_rewardTokenID := v\<rparr>)
       (bnd (getA (reward_endpoint ''getRewardTokenID'')) (\<lambda>endpoint. bnd (invokeEndpoint X endpoint []) (\<lambda>r. cprop r ''tokenID''))))"

definition conn_getAnnualInflation :: "cext \<Rightarrow> jsval \<Rightarrow> jsval cact" where
  "conn_getAnnualInflation X height =
     bnd (getA (reward_endpoint ''getAnnualInflation'')) (\<lambda>endpoint.
     request_for ''getAnnualInflation'' ('' with block height:'' @ js_string height) X endpoint [(''height'', height)])"

definition conn_getDefaultRewardAtHeight :: "cext \<Rightarrow> jsval \<Rightarrow> jsval cact" where
  "conn_getDefaultRewardAtHeight X height =
     bnd (getA (reward_endpoint ''getDefaultRewardAtHeight'')) (\<lambda>endpoint.
     timed (calling ''getDefaultRewardAtHeight'' @ '' for block height:'' @ js_string height) (invokeEndpoint X endpoint [(''height'', height)]))"

subsection \<open>sdk/auth.js, sdk/legacy.js, sdk/validators.js and sdk/interoperability.js\<close>

definition conn_getAuthAccount :: "cext \<Rightarrow> jsval \<Rightarrow> jsval cact" where
  "conn_getAuthAccount X address = request_as ''getAuthAccount'' X ''auth_getAuthAccount'' [(''address'', address)]"

definition conn_getAuthMultiSigRegMsgSchema :: "cext \<Rightarrow> jsval cact" where
  "conn_getAuthMultiSigRegMsgSchema X = request_as ''getMultiSigRegMsgSchema'' X ''auth_getMultiSigRegMsgSchema'' []"

definition conn_getLegacyAccount :: "cext \<Rightarrow> jsval \<Rightarrow> jsval cact" where
  "conn_getLegacyAccount X publicKey = request_as ''getLegacyAccount'' X ''legacy_getLegacyAccount'' [(''publicKey'', publicKey)]"

definition conn_validateBLSKey :: "cext \<Rightarrow> jsval \<Rightarrow> jsval \<Rightarrow> jsval cact" where
  "conn_validateBLSKey X blsKey proofOfPossession =
     request_as ''validateBLSKey'' X ''validators_validateBLSKey'' [(''blsKey'', blsKey), (''proofOfPossession'', proofOfPossession)]"

definition conn_getValidator :: "cext \<Rightarrow> jsval \<Rightarrow> jsval cact" where
  "conn_getValidator X address = request_as ''getValidator'' X ''validators_getValidator'' [(''address'', address)]"

definition conn_getChainAccount :: "cext \<Rightarrow> jsval \<Rightarrow> jsval cact" where
  "conn_getChainAccount X chainID = request_as ''getChainAccount'' X ''interoperability_getChainAccount'' [(''chainID'', chainID)]"

text \<open>\<open>chainID.substring(0, 2).padEnd(8, '0')\<close>.\<close>

definition mainchain_of :: "string \<Rightarrow> string" where
  "mainchain_of s = (let p = take 2 s in p @ replicate (8 - length p) CHR ''0'')"

definition conn_getMainchainID :: "cext \<Rightarrow> jsval cact" where
  "conn_getMainchainID X = timed (calling ''getMainchainID'' @ ''.'')
     (cached c_mainchainID (\<lambda>v w. w\<lparr>c_mainchainID := v\<rparr>)
       (bnd (getNodeInfo X False) (\<lambda>info. bnd (cprop info ''chainID'') (\<lambda>v. bnd (liftE (as_str v)) (\<lambda>s.
        ret (JStr (mainchain_of s)))))))"

subsection \<open>geolocation.js and sdk/peerCache.js\<close>

text \<open>
  \<open>requestData\<close> answers from the cache; a missing entry is fetched for the next time, and an error of that request is
  logged. The repetition by a timer is not modelled.
\<close>

definition geo_refresh :: "cext \<Rightarrow> string \<Rightarrow> unit cact" where
  "geo_refresh X ip = (case geo_data X ip of
       Inl _ \<Rightarrow> ret ()
     | Inr data \<Rightarrow> if \<not> truthy data then ret () else (case js_prop data ''data'' of
         Inl _ \<Rightarrow> ret ()
       | Inr d \<Rightarrow> modA (\<lambda>w. w\<lparr>c_geo := AList.update (''geoip:'' @ ip) d (c_geo w)\<rparr>)))"

definition requestData :: "cext \<Rightarrow> string \<Rightarrow> jsval cact" where
  "requestData X ip =
     bnd (getA (\<lambda>w. case map_of (c_geo w) (''geoip:'' @ ip) of None \<Rightarrow> JUndef | Some v \<Rightarrow> v)) (\<lambda>geodata.
     thn (if truthy geodata then ret () else geo_refresh X ip) (ret geodata))"

definition addLocation :: "cext \<Rightarrow> jsval \<Rightarrow> jsval cact" where
  "addLocation X ip = tryA (requestData X (js_string ip)) (\<lambda>_. ret (JObj []))"

definition refactorPeer :: "string \<Rightarrow> jsval \<Rightarrow> jserr + jsval" where
  "refactorPeer state orgPeer =
     bindE (js_prop orgPeer ''ipAddress'') (\<lambda>ip. bindE (js_prop orgPeer ''options'') (\<lambda>options.
     bindE (js_prop (js_default options (JObj [])) ''height'') (\<lambda>height.
     Inr (JObj (oset (oset (oset (omit [''ipAddress'', ''options''] (own_props orgPeer))
       ''state'' (JStr state)) ''height'' height) ''ip'' ip)))))"

definition located :: "cext \<Rightarrow> jsval \<Rightarrow> jsval cact" where
  "located X peer = bnd (cprop peer ''ip'') (\<lambda>ip. bnd (addLocation X ip) (\<lambda>loc. liftE (js_setprop peer ''location'' loc)))"

definition conn_getNetworkPeers :: "cext \<Rightarrow> jsval list cact" where
  "conn_getNetworkPeers X =
     bnd (conn_getNetworkConnectedPeers X) (\<lambda>cv. bnd (liftE (js_elems cv)) (\<lambda>cs. bnd (liftE (mapE (refactorPeer ''connected'') cs)) (\<lambda>connected.
     bnd (conn_getNetworkDisconnectedPeers X) (\<lambda>dv. bnd (liftE (js_elems dv)) (\<lambda>ds. bnd (liftE (mapE (refactorPeer ''disconnected'') ds)) (\<lambda>disconnected.
     mapA (located X) (connected @ disconnected)))))))"

text \<open>\<open>stats[elem] = (stats[elem] || 0) + 1\<close> for the elements that are set.\<close>

definition tally :: "obj \<Rightarrow> jsval \<Rightarrow> obj" where
  "tally stats v = (if truthy v
     then oset stats (js_string v) (JNum (as_int (js_or (oget stats (js_string v)) (JNum 0)) + 1)) else stats)"

text \<open>The name and the first number of the version; a second part is taken for granted.\<close>

definition map_os :: "jsval \<Rightarrow> jserr + jsval" where
  "map_os v = (case v of
       JStr s \<Rightarrow> if take 5 s = ''linux'' then
           (case js_split ''.'' s of
              a # b # _ \<Rightarrow> Inr (JStr (a @ ''.'' @ hd (js_split ''-'' b)))
            | _ \<Rightarrow> Inl (TypeErr ''Cannot read properties of undefined (reading split)''))
         else Inr v
     | _ \<Rightarrow> Inr v)"

definition peer_field :: "string \<Rightarrow> jsval list \<Rightarrow> jserr + jsval list" where
  "peer_field k ps = mapE (\<lambda>p. js_prop p k) ps"

definition refreshStatistics :: "peer_store \<Rightarrow> jserr + jsval" where
  "refreshStatistics s =
     (let n = (\<lambda>ps. JNum (int (length ps))) in
     bindE (peer_field ''height'' (ps_connected s)) (\<lambda>heights.
     bindE (peer_field ''version'' (ps_connected s)) (\<lambda>versions.
     bindE (peer_field ''networkVersion'' (ps_connected s)) (\<lambda>networkVersions.
     bindE (peer_field ''os'' (ps_connected s)) (\<lambda>oses. bindE (mapE map_os oses) (\<lambda>mappedOs.
     Inr (JObj [
       (''basic'', JObj [(''totalPeers'', n (ps_peers s)), (''connectedPeers'', n (ps_connected s)), (''disconnectedPeers'', n (ps_disconnected s))]),
       (''height'', JObj (foldl tally [] heights)), (''coreVer'', JObj (foldl tally [] versions)),
       (''networkVersion'', JObj (foldl tally [] networkVersions)), (''os'', JObj (foldl tally [] mappedOs))])))))))"

definition in_state :: "string \<Rightarrow> jsval \<Rightarrow> bool" where
  "in_state state p = (oget (own_props p) ''state'' = JStr state)"

definition conn_dispatch :: "string \<Rightarrow> jsval \<Rightarrow> unit cact" where
  "conn_dispatch name payload = modA (\<lambda>w. w\<lparr>c_signals := c_signals w @ [(name, payload)]\<rparr>)"

definition reload_peers :: "cext \<Rightarrow> unit cact" where
  "reload_peers X =
     tryA (bnd (conn_getNetworkPeers X) (\<lambda>peers.
       thn (modA (\<lambda>w. w\<lparr>peerStore := (peerStore w)\<lparr>ps_peers := peers\<rparr>\<rparr>)) (
       thn (modA (\<lambda>w. w\<lparr>peerStore := (peerStore w)\<lparr>ps_connected := filter (in_state ''connected'') peers\<rparr>\<rparr>)) (
       thn (modA (\<lambda>w. w\<lparr>peerStore := (peerStore w)\<lparr>ps_disconnected := filter (in_state ''disconnected'') peers\<rparr>\<rparr>)) (
       bnd (getA peerStore) (\<lambda>s. bnd (liftE (refreshStatistics s)) (\<lambda>stats.
       thn (modA (\<lambda>w. w\<lparr>peerStore := (peerStore w)\<lparr>ps_statistics := stats\<rparr>\<rparr>))
         (conn_dispatch ''peerReload'' (JArr peers)))))))))
       (\<lambda>_. ret ())"

end
