(* ===== verification/ConnectorService.thy ===== *)
theory ConnectorService
  imports ConnectorModules
begin

text \<open>
  \<open>services/blockchain-connector\<close>, fifth part: the events of the node on their way to the other services
  (\<open>sdk/events.js\<close>, \<open>events/proxy/allEvents.js\<close>, \<open>events/blockchain.js\<close>), the start of the service (\<open>sdk/index.js\<close>),
  its status, and the table of its methods (\<open>methods\<close>) with the rules for their parameters.
\<close>

subsection \<open>sdk/events.js\<close>

definition conn_events :: "string list" where
  "conn_events = [''chain_forked'', ''chain_newBlock'', ''chain_deleteBlock'', ''chain_validatorsChanged'', ''txpool_newTransaction'']"

definition registered_names :: "cext \<Rightarrow> string list cact" where
  "registered_names X = bnd (getRegisteredEvents X) (\<lambda>v. bnd (liftE (js_elems v)) (\<lambda>es. ret (map js_string es)))"

text \<open>One subscription per name in the list: a name that the node registers itself is subscribed to twice.\<close>

definition subscribeToAllRegisteredEvents :: "cext \<Rightarrow> unit cact" where
  "subscribeToAllRegisteredEvents X =
     bnd (registered_names X) (\<lambda>registered. modA (\<lambda>w. w\<lparr>c_subscribed := c_subscribed w @ registered @ conn_events\<rparr>))"

definition getEventsByHeightFormatted :: "cext \<Rightarrow> jsval \<Rightarrow> jsval cact" where
  "getEventsByHeightFormatted X height = bnd (conn_getEventsByHeight X height) (format_array X formatEvent)"

subsection \<open>events\<close>

definition camel_chr :: "char \<Rightarrow> char" where
  "camel_chr c = (let n = of_char c :: nat in if 97 \<le> n \<and> n \<le> 122 then char_of (n - 32) else c)"

definition camel_word :: "string \<Rightarrow> string" where
  "camel_word s = map camel_chr (take 1 s) @ drop 1 s"

definition toCamelCase :: "string list \<Rightarrow> string" where
  "toCamelCase ws = (case ws of [] \<Rightarrow> [] | w # us \<Rightarrow> to_lower w @ concat (map camel_word us))"

text \<open>\<open>events/blockchain.js\<close>: the name that is emitted, and the signal its controller listens to.\<close>

definition sdkEvents :: "(string \<times> string) list" where
  "sdkEvents = [(''appReady'', ''appReady''), (''appShutdown'', ''appShutdown''), (''appNetworkReady'', ''appNetworkReady''),
     (''appNetworkEvent'', ''appNetworkEvent''), (''txpoolNewTransaction'', ''txpoolNewTransaction''), (''chainForked'', ''chainForked''),
     (''chainValidatorsChange'', ''chainValidatorsChanged''), (''chainNewBlock'', ''chainNewBlock''), (''chainDeleteBlock'', ''chainDeleteBlock'')]"

definition emit :: "string \<Rightarrow> jsval \<Rightarrow> unit cact" where
  "emit name payload = modA (\<lambda>w. w\<lparr>c_emitted := c_emitted w @ [(name, payload)]\<rparr>)"

definition relay_sdk :: "string \<Rightarrow> jsval \<Rightarrow> unit cact" where
  "relay_sdk signal payload =
     thn (conn_dispatch signal payload) (forA (\<lambda>(name, _). emit name payload) (filter (\<lambda>(_, s). s = signal) sdkEvents))"

definition eventListener :: "string \<Rightarrow> jsval \<Rightarrow> unit cact" where
  "eventListener regEvent payload =
     tryA (thn (liftE (json_stringify payload))
       (thn (relay_sdk (toCamelCase (js_split ''_'' regEvent)) payload) (emit regEvent payload)))
       (\<lambda>_. ret ())"

text \<open>The names of the node have the form \<open>module_event\<close>, so the camel-case signal is never the signal of the node itself.\<close>

definition relay_node :: "string \<Rightarrow> jsval \<Rightarrow> unit cact" where
  "relay_node event payload =
     thn (conn_dispatch event payload) (bnd (getA c_listeners) (\<lambda>ls. forA (\<lambda>r. eventListener r payload) (filter ((=) event) ls)))"

text \<open>What a subscription runs: the caches are refreshed before an event of the chain is passed on.\<close>

definition on_node_event :: "cext \<Rightarrow> string \<Rightarrow> jsval \<Rightarrow> unit cact" where
  "on_node_event X event payload =
     thn (if take 6 event = ''chain_'' then thn (getNodeInfo X True) (thn (conn_getEscrowedAmounts X True) (ret ())) else ret ())
       (relay_node event payload)"

text \<open>The node sends an event: every subscription to it runs, and an error ends that run only.\<close>

definition node_sends :: "cext \<Rightarrow> string \<Rightarrow> jsval \<Rightarrow> unit cact" where
  "node_sends X event payload =
     bnd (getA c_subscribed) (\<lambda>subs. forA (\<lambda>e. tryA (on_node_event X e payload) (\<lambda>_. ret ())) (filter ((=) event) subs))"

text \<open>A new client has no subscriptions; the signal makes it subscribe again.\<close>

definition new_client :: "cext \<Rightarrow> unit cact" where
  "new_client X = thn (modA (\<lambda>w. w\<lparr>c_subscribed := []\<rparr>)) (tryA (subscribeToAllRegisteredEvents X) (\<lambda>_. ret ()))"

definition exportAllEvents :: "cext \<Rightarrow> unit cact" where
  "exportAllEvents X =
     thn (subscribeToAllRegisteredEvents X) (bnd (registered_names X) (\<lambda>registered.
     modA (\<lambda>w. w\<lparr>c_listeners := c_listeners w @ conn_events @ registered\<rparr>)))"

subsection \<open>sdk/network.js, sdk/index.js and status.js\<close>

definition network_getGenesisConfig :: "cext \<Rightarrow> jsval cact" where
  "network_getGenesisConfig X =
     cached c_networkGenesisConfig (\<lambda>v w. w\<lparr>c_networkGenesisConfig := v\<rparr>) (bnd (getNodeInfo X False) (\<lambda>info. cprop info ''genesis''))"

definition conn_getNetworkStatus :: "cext \<Rightarrow> jsval cact" where
  "conn_getNetworkStatus X = getNodeInfo X False"

definition peerCache_get :: "string \<Rightarrow> jsval cact" where
  "peerCache_get type = getA (\<lambda>w. let s = peerStore w in
     if type = ''peers'' then JArr (ps_peers s) else if type = ''connected'' then JArr (ps_connected s)
     else if type = ''disconnected'' then JArr (ps_disconnected s) else if type = ''statistics'' then ps_statistics s else JUndef)"

definition connector_init :: "cext \<Rightarrow> unit cact" where
  "connector_init X =
     thn (getNodeInfo X True) (thn (cacheRegisteredRewardModule X) (thn (cacheFeeConstants X) (
     bnd (conn_getSchemas X) (\<lambda>s. thn (modA (\<lambda>w. w\<lparr>fmt_schemas := s\<rparr>)) (
     bnd (conn_getSystemMetadata X) (\<lambda>m. thn (modA (\<lambda>w. w\<lparr>fmt_metadata := m\<rparr>)) (
     thn (conn_getGenesisBlock X False) (ret ()))))))))"

text \<open>\<open>!!Object.getOwnPropertyNames(v).length\<close>.\<close>

definition has_props :: "jsval \<Rightarrow> jserr + bool" where
  "has_props v = (if v \<in> {JUndef, JNull} then Inl (TypeErr ''Cannot convert undefined or null to object'')
     else Inr (case v of JArr _ \<Rightarrow> True | JStr _ \<Rightarrow> True | _ \<Rightarrow> own_props v \<noteq> []))"

definition conn_getStatus :: "cext \<Rightarrow> jsval cact" where
  "conn_getStatus X =
     thn (bnd (getA c_isReady) (\<lambda>ready. if ready then ret ()
       else bnd (conn_getNetworkStatus X) (\<lambda>v. bnd (liftE (has_props v)) (\<lambda>b. modA (\<lambda>w. w\<lparr>c_isReady := b\<rparr>)))))
     (getA (\<lambda>w. JObj [(''service'', JStr ''lisk-service-blockchain-connector''), (''version'', JStr ''0.7.0-beta.0''), (''isReady'', JBool (c_isReady w))]))"

subsection \<open>methods\<close>

record conn_method =
  cm_name :: string
  cm_controller :: "cext \<Rightarrow> obj \<Rightarrow> jsval cact"
  cm_params :: obj

definition conn_meth :: "string \<Rightarrow> (cext \<Rightarrow> obj \<Rightarrow> jsval cact) \<Rightarrow> obj \<Rightarrow> conn_method" where
  "conn_meth n c ps = \<lparr>cm_name = n, cm_controller = c, cm_params = ps\<rparr>"

definition prule :: "bool \<Rightarrow> string \<Rightarrow> obj \<Rightarrow> jsval" where
  "prule opt ty extra = JObj ((''optional'', JBool opt) # (''type'', JStr ty) # extra)"

abbreviation needs :: "string \<Rightarrow> string \<Rightarrow> string \<times> jsval" where
  "needs k ty \<equiv> (k, prule False ty [])"

abbreviation may_have :: "string \<Rightarrow> string \<Rightarrow> string \<times> jsval" where
  "may_have k ty \<equiv> (k, prule True ty [])"

definition pattern :: "string \<Rightarrow> obj" where "pattern re = [(''pattern'', JStr re)]"

definition CHAIN_ID :: string where "CHAIN_ID = ''^[a-fA-F0-9]{8}$''"
definition BLS_KEY :: string where "BLS_KEY = ''^[a-fA-F0-9]{96}$''"
definition PROOF_OF_POSSESSION :: string where "PROOF_OF_POSSESSION = ''^[a-fA-F0-9]{192}$''"

definition auth_methods :: "conn_method list" where
  "auth_methods = [
     conn_meth ''getAuthAccount'' (\<lambda>X p. conn_getAuthAccount X (oget p ''address'')) [needs ''address'' ''string''],
     conn_meth ''getAuthMultiSigRegMsgSchema'' (\<lambda>X p. conn_getAuthMultiSigRegMsgSchema X) []]"

text \<open>
  Controllers that are the function itself get the object of the parameters as their first argument, so
  \<open>getGenesisBlock\<close> includes the assets, and \<open>getNodeInfo\<close> asks the node every time.
\<close>

definition block_methods :: "conn_method list" where
  "block_methods = [
     conn_meth ''getLastBlock'' (\<lambda>X p. getLastBlockFormatted X) [],
     conn_meth ''getBlockByID'' (\<lambda>X p. getBlockByIDFormatted X (oget p ''id'')) [needs ''id'' ''string''],
     conn_meth ''getBlocksByIDs'' (\<lambda>X p. bnd (liftE (js_elems (oget p ''ids''))) (getBlocksByIDsFormatted X))
       [(''ids'', prule False ''array'' [(''items'', JStr ''string'')])],
     conn_meth ''getBlockByHeight'' (\<lambda>X p. getBlockByHeightFormatted X (oget p ''height'') False) [needs ''height'' ''number''],
     conn_meth ''getBlocksByHeightBetween'' (\<lambda>X p. getBlocksByHeightBetweenFormatted X (oget p ''from'') (oget p ''to''))
       [needs ''from'' ''number'', needs ''to'' ''number''],
     conn_meth ''getGenesisHeight'' (\<lambda>X p. conn_getGenesisHeight X) [],
     conn_meth ''getGenesisBlockID'' (\<lambda>X p. conn_getGenesisBlockID X) [],
     conn_meth ''getGenesisBlock'' (\<lambda>X p. conn_getGenesisBlock X (truthy (JObj p))) [],
     conn_meth ''getGenesisConfig'' (\<lambda>X p. conn_getGenesisConfig X) [],
     conn_meth ''getGenesisAssetByModule'' getGenesisAssetByModule
       [(''module'', JObj [(''type'', JStr ''string'')]), (''subStore'', JObj [(''type'', JStr ''string''), (''optional'', JBool True)]),
        (''limit'', JObj [(''type'', JStr ''number''), (''min'', JNum 1), (''default'', JNum 5000)]),
        (''offset'', JObj [(''type'', JStr ''number''), (''min'', JNum 0), (''default'', JNum 0)])],
     conn_meth ''getGenesisAssetsLength'' getGenesisAssetsLength
       [(''module'', JObj [(''type'', JStr ''string''), (''optional'', JBool True)]),
        (''subStore'', JObj [(''type'', JStr ''string''), (''optional'', JBool True)])]]"

definition reward_methods :: "conn_method list" where
  "reward_methods = [
     conn_meth ''getRewardTokenID'' (\<lambda>X p. conn_getRewardTokenID X) [],
     conn_meth ''getAnnualInflation'' (\<lambda>X p. conn_getAnnualInflation X (oget p ''height'')) [],
     conn_meth ''getDefaultRewardAtHeight'' (\<lambda>X p. conn_getDefaultRewardAtHeight X (oget p ''height''))
       [(''height'', prule False ''number'' [(''min'', JNum 0)])]]"

definition event_methods :: "conn_method list" where
  "event_methods = [
     conn_meth ''getEventsByHeight'' (\<lambda>X p. getEventsByHeightFormatted X (oget p ''height'')) [needs ''height'' ''number'']]"

definition fee_methods :: "conn_method list" where
  "fee_methods = [
     conn_meth ''getFeeTokenID'' (\<lambda>X p. conn_getFeeTokenID) [],
     conn_meth ''getMinFeePerByte'' (\<lambda>X p. conn_getMinFeePerByte) []]"

definition generator_methods :: "conn_method list" where
  "generator_methods = [
     conn_meth ''getGenerators'' (\<lambda>X p. conn_getGenerators X) [],
     conn_meth ''getGeneratorStatus'' (\<lambda>X p. getGeneratorStatus X) [],
     conn_meth ''updateGeneratorStatus'' updateGeneratorStatus
       [needs ''address'' ''string'', needs ''password'' ''string'', needs ''forging'' ''boolean'', may_have ''height'' ''number'',
        may_have ''maxHeightPrevoted'' ''number'', may_have ''maxHeightPreviouslyForged'' ''number'', may_have ''override'' ''boolean'']]"

definition interoperability_methods :: "conn_method list" where
  "interoperability_methods = [
     conn_meth ''getChainAccount'' (\<lambda>X p. conn_getChainAccount X (oget p ''chainID'')) [(''chainID'', prule False ''string'' (pattern CHAIN_ID))],
     conn_meth ''getMainchainID'' (\<lambda>X p. conn_getMainchainID X) []]"

definition legacy_methods :: "conn_method list" where
  "legacy_methods = [
     conn_meth ''getLegacyAccount'' (\<lambda>X p. conn_getLegacyAccount X (oget p ''publicKey'')) [needs ''publicKey'' ''string'']]"

definition network_methods :: "conn_method list" where
  "network_methods = [
     conn_meth ''getNetworkStatus'' (\<lambda>X p. conn_getNetworkStatus X) [],
     conn_meth ''getNetworkPeers'' (\<lambda>X p. peerCache_get ''peers'') [],
     conn_meth ''getNetworkConnectedPeers'' (\<lambda>X p. peerCache_get ''connected'') [],
     conn_meth ''getNetworkDisconnectedPeers'' (\<lambda>X p. peerCache_get ''disconnected'') [],
     conn_meth ''getNetworkPeersStatistics'' (\<lambda>X p. peerCache_get ''statistics'') []]"

definition invoke_method :: "cext \<Rightarrow> obj \<Rightarrow> jsval cact" where
  "invoke_method X p =
     bnd (invokeEndpointProxy X (js_string (oget p ''endpoint'')) (own_props (oget p ''params''))) (\<lambda>data.
     ret (JObj [(''data'', data), (''meta'', JObj [(''endpoint'', oget p ''endpoint''), (''params'', oget p ''params'')])]))"

definition node_methods :: "conn_method list" where
  "node_methods = [
     conn_meth ''invokeEndpoint'' invoke_method [needs ''endpoint'' ''string'', may_have ''params'' ''object''],
     conn_meth ''getSchema'' (\<lambda>X p. conn_getSchemas X) [],
     conn_meth ''getRegisteredActions'' (\<lambda>X p. getRegisteredActions X) [],
     conn_meth ''getRegisteredEvents'' (\<lambda>X p. getRegisteredEvents X) [],
     conn_meth ''getRegisteredModules'' (\<lambda>X p. conn_getRegisteredModules X) [],
     conn_meth ''getNodeInfo'' (\<lambda>X p. getNodeInfo X (truthy (JObj p))) [],
     conn_meth ''getSystemMetadata'' (\<lambda>X p. conn_getSystemMetadata X) []]"

definition pos_methods :: "conn_method list" where
  "pos_methods = [
     conn_meth ''getPosValidator'' (\<lambda>X p. conn_getPosValidator X (oget p ''address'')) [needs ''address'' ''string''],
     conn_meth ''getAllPosValidators'' (\<lambda>X p. conn_getAllPosValidators X) [],
     conn_meth ''getPosValidatorsByStake'' (\<lambda>X p. conn_getPosValidatorsByStake X (oget p ''limit'')) [may_have ''limit'' ''number''],
     conn_meth ''getPosConstants'' (\<lambda>X p. conn_getPosConstants X) [],
     conn_meth ''getPosPendingUnlocks'' (\<lambda>X p. conn_getPosPendingUnlocks X (oget p ''address'')) [may_have ''address'' ''string''],
     conn_meth ''getStaker'' (\<lambda>X p. conn_getStaker X (oget p ''address'')) [needs ''address'' ''string''],
     conn_meth ''getPosClaimableRewards'' (\<lambda>X p. conn_getPosClaimableRewards X (oget p ''address'')) [needs ''address'' ''string''],
     conn_meth ''getPosLockedReward'' (\<lambda>X p. conn_getPosLockedReward X (oget p ''address'') (oget p ''tokenID''))
       [needs ''address'' ''string'', needs ''tokenID'' ''string''],
     conn_meth ''getPoSGenesisStakers'' (\<lambda>X p. conn_getPoSGenesisStakers X (oget p ''height'')) [needs ''height'' ''number''],
     conn_meth ''getPoSGenesisValidators'' (\<lambda>X p. conn_getPoSGenesisValidators X (oget p ''height'')) [needs ''height'' ''number'']]"

definition status_methods :: "conn_method list" where
  "status_methods = [conn_meth ''status'' (\<lambda>X p. conn_getStatus X) []]"

definition token_methods :: "conn_method list" where
  "token_methods = [
     conn_meth ''getTokenBalance'' (\<lambda>X p. conn_getTokenBalance X (oget p ''address'') (oget p ''tokenID''))
       [needs ''address'' ''string'', needs ''tokenID'' ''string''],
     conn_meth ''getTokenBalances'' (\<lambda>X p. conn_getTokenBalances X (oget p ''address'')) [needs ''address'' ''string''],
     conn_meth ''getEscrowedAmounts'' (\<lambda>X p. conn_getEscrowedAmounts X False) [],
     conn_meth ''getSupportedTokens'' (\<lambda>X p. conn_getSupportedTokens X) [],
     conn_meth ''getTotalSupply'' (\<lambda>X p. conn_getTotalSupply X) [],
     conn_meth ''tokenHasUserAccount'' (\<lambda>X p. hasUserAccount X (oget p ''address'') (oget p ''tokenID''))
       [needs ''address'' ''string'', needs ''tokenID'' ''string''],
     conn_meth ''getTokenInitializationFees'' (\<lambda>X p. conn_getTokenInitializationFees X) []]"

definition transaction_methods :: "conn_method list" where
  "transaction_methods = [
     conn_meth ''getTransactionByID'' (\<lambda>X p. getTransactionByIDFormatted X (oget p ''id'')) [needs ''id'' ''string''],
     conn_meth ''getTransactionsByIDs'' (\<lambda>X p. getTransactionsByIDsFormatted X (oget p ''ids''))
       [(''ids'', prule False ''array'' [(''items'', JStr ''string'')])],
     conn_meth ''getTransactionsFromPool'' (\<lambda>X p. getTransactionsFromPoolFormatted X) [],
     conn_meth ''postTransaction'' (\<lambda>X p. conn_postTransaction X (oget p ''transaction'')) [needs ''transaction'' ''string''],
     conn_meth ''dryRunTransaction'' dryRunTransactionWrapper
       [needs ''transaction'' ''any'', (''skipVerify'', prule True ''boolean'' [(''default'', JBool False)]),
        (''skipDecode'', prule True ''boolean'' [(''default'', JBool False)])]]"

definition validator_methods :: "conn_method list" where
  "validator_methods = [
     conn_meth ''validateBLSKey'' (\<lambda>X p. conn_validateBLSKey X (oget p ''blsKey'') (oget p ''proofOfPossession''))
       [(''blsKey'', prule False ''string'' (pattern BLS_KEY)), (''proofOfPossession'', prule False ''string'' (pattern PROOF_OF_POSSESSION))],
     conn_meth ''getValidator'' (\<lambda>X p. conn_getValidator X (oget p ''address'')) [needs ''address'' ''string'']]"

text \<open>The files of \<open>methods\<close>, in the order of their names; a method that is added later replaces one of the same name.\<close>

definition connector_methods :: "conn_method list" where
  "connector_methods = auth_methods @ block_methods @ reward_methods @ event_methods @ fee_methods @ generator_methods @
     interoperability_methods @ legacy_methods @ network_methods @ node_methods @ pos_methods @ status_methods @
     token_methods @ transaction_methods @ validator_methods"

definition connector_call :: "cext \<Rightarrow> string \<Rightarrow> obj \<Rightarrow> jsval cact option" where
  "connector_call X name params =
     map_option (\<lambda>m. cm_controller m X params) (find (\<lambda>m. cm_name m = name) (rev connector_methods))"

end
