(* ===== verification/ConnectorClient.thy ===== *)
theory ConnectorClient
  imports Prelude
begin

text \<open>
  \<open>services/blockchain-connector/shared\<close>: how a request gets its client (\<open>sdk/client.js\<close>: \<open>instantiateClient\<close>,
  \<open>getApiClient\<close>; \<open>utils/waitForIt.js\<close>). Time is in milliseconds. The environment says what an attempt to connect at
  a given time ends in; the attempt itself takes no time.
\<close>

datatype connecting = Connected | Refused | Failed

record client_state =
  client_alive :: bool
  isInstantiating :: bool
  instantiationBeginTime :: nat

text \<open>What \<open>instantiateClient\<close> ends in: it throws, or returns the client, an error object, or \<open>undefined\<close>.\<close>

datatype attempt = Throws | Client | ErrorObject | Undefined

definition MAX_INSTANTIATION_WAIT_TIME :: nat where "MAX_INSTANTIATION_WAIT_TIME = 100"
definition RETRY_INTERVAL :: nat where "RETRY_INTERVAL = 500"

text \<open>The flag is reset after a connection was made, but not when an attempt fails.\<close>

definition instantiateClient :: "(nat \<Rightarrow> connecting) \<Rightarrow> nat \<Rightarrow> client_state \<Rightarrow> attempt \<times> client_state" where
  "instantiateClient env now s =
     (if \<not> isInstantiating s then
        if client_alive s then (Client, s)
        else let s' = s\<lparr>isInstantiating := True, instantiationBeginTime := now\<rparr> in
          (case env now of
             Connected \<Rightarrow> (Client, s'\<lparr>client_alive := True, isInstantiating := False\<rparr>)
           | Refused \<Rightarrow> (Throws, s')
           | Failed \<Rightarrow> (ErrorObject, s'))
      else (Undefined, if now - instantiationBeginTime s > MAX_INSTANTIATION_WAIT_TIME then s\<lparr>isInstantiating := False\<rparr> else s))"

text \<open>
  \<open>waitForIt\<close> runs once at once and then in an interval. The first run clears the interval when it does not throw; the
  runs of the interval get \<open>this\<close> for the handle of the interval and clear nothing. The second argument bounds the runs
  of the interval that are looked at; \<open>None\<close> is a promise that is not resolved by then.
\<close>

fun wait_interval :: "(nat \<Rightarrow> connecting) \<Rightarrow> nat \<Rightarrow> nat \<Rightarrow> client_state \<Rightarrow> (attempt \<times> nat \<times> client_state) option" where
  "wait_interval env 0 now s = None"
| "wait_interval env (Suc n) now s =
     (let now' = now + RETRY_INTERVAL in
      case instantiateClient env now' s of
        (Throws, s') \<Rightarrow> wait_interval env n now' s'
      | (Undefined, s') \<Rightarrow> wait_interval env n now' s'
      | (r, s') \<Rightarrow> Some (r, now', s'))"

definition waitForIt :: "(nat \<Rightarrow> connecting) \<Rightarrow> nat \<Rightarrow> nat \<Rightarrow> client_state \<Rightarrow> (attempt \<times> nat \<times> client_state) option" where
  "waitForIt env n now s =
     (case instantiateClient env now s of
        (Throws, s') \<Rightarrow> wait_interval env n now s'
      | (Undefined, s') \<Rightarrow> None
      | (r, s') \<Rightarrow> Some (r, now, s'))"

text \<open>\<open>getApiClient\<close>: the first argument bounds the calls of itself, the second the runs of each interval.\<close>

fun getApiClient :: "(nat \<Rightarrow> connecting) \<Rightarrow> nat \<Rightarrow> nat \<Rightarrow> nat \<Rightarrow> client_state \<Rightarrow> (attempt \<times> nat \<times> client_state) option" where
  "getApiClient env 0 n now s = None"
| "getApiClient env (Suc k) n now s =
     (case waitForIt env n now s of
        None \<Rightarrow> None
      | Some (r, now', s') \<Rightarrow> if client_alive s' then Some (r, now', s') else getApiClient env k n now' s')"

lemmas client_defs = instantiateClient_def waitForIt_def MAX_INSTANTIATION_WAIT_TIME_def RETRY_INTERVAL_def

lemma wait_refused_twice:
  assumes "isInstantiating s" and "instantiationBeginTime s \<le> now" and "\<not> client_alive s"
  shows "wait_interval env (Suc (Suc n)) now s =
    (case env (now + 1000) of
       Connected \<Rightarrow> Some (Client, now + 1000, s\<lparr>client_alive := True, isInstantiating := False, instantiationBeginTime := now + 1000\<rparr>)
     | Refused \<Rightarrow> wait_interval env n (now + 1000) (s\<lparr>isInstantiating := True, instantiationBeginTime := now + 1000\<rparr>)
     | Failed \<Rightarrow> Some (ErrorObject, now + 1000, s\<lparr>isInstantiating := True, instantiationBeginTime := now + 1000\<rparr>))"
  using assms by (auto simp: client_defs Let_def add.assoc split: connecting.splits)

lemma wait_until_up:
  assumes "isInstantiating s" and "instantiationBeginTime s \<le> now" and "\<not> client_alive s"
    and "\<forall>i < m. env (now + 1000 * Suc i) = Refused" and "env (now + 1000 * Suc m) = Connected"
  shows "\<exists>s'. wait_interval env (2 * Suc m) now s = Some (Client, now + 1000 * Suc m, s') \<and> client_alive s'"
  using assms
proof (induction m arbitrary: now s)
  case 0
  then show ?case using wait_refused_twice [of s now env 0] by (simp add: numeral_2_eq_2 del: wait_interval.simps)
next
  case (Suc m)
  let ?s = "s\<lparr>isInstantiating := True, instantiationBeginTime := now + 1000\<rparr>"
  have here: "env (now + 1000) = Refused" using Suc.prems(4) [rule_format, of 0] by simp
  have "\<exists>s'. wait_interval env (2 * Suc m) (now + 1000) ?s = Some (Client, now + 1000 + 1000 * Suc m, s') \<and> client_alive s'"
  proof (rule Suc.IH)
    show "\<forall>i < m. env (now + 1000 + 1000 * Suc i) = Refused"
      using Suc.prems(4) by (metis Suc_less_eq add.assoc mult_Suc_right)
  qed (use Suc.prems in \<open>simp_all add: add.assoc\<close>)
  with here show ?case
    using wait_refused_twice [OF Suc.prems(1-3), of env "2 * Suc m"] by (simp add: algebra_simps del: wait_interval.simps)
qed

text \<open>
  C27. While the node refuses connections a request waits, and it gets its client as soon as an attempt succeeds: when
  the node refuses now and at the first \<open>m\<close> attempts, which are a second apart, and accepts the next, then
  \<open>getApiClient\<close> returns the live client at that time.
\<close>

theorem client_when_node_is_up:
  assumes "\<not> client_alive s" and "\<not> isInstantiating s" and "env now = Refused"
    and "\<forall>i < m. env (now + 1000 * Suc i) = Refused" and "env (now + 1000 * Suc m) = Connected"
  shows "\<exists>s'. getApiClient env 1 (2 * Suc m) now s = Some (Client, now + 1000 * Suc m, s') \<and> client_alive s'"
proof -
  let ?s = "s\<lparr>isInstantiating := True, instantiationBeginTime := now\<rparr>"
  have "waitForIt env (2 * Suc m) now s = wait_interval env (2 * Suc m) now ?s"
    using assms(1-3) by (simp add: waitForIt_def instantiateClient_def Let_def)
  moreover obtain s' where "wait_interval env (2 * Suc m) now ?s = Some (Client, now + 1000 * Suc m, s')" "client_alive s'"
    using wait_until_up [of ?s now m env] assms by auto
  ultimately show ?thesis by simp
qed

theorem client_when_node_is_up_witness:
  "\<exists>s'. getApiClient (\<lambda>t. if t < 2000 then Refused else Connected) 1 4 0
     \<lparr>client_alive = False, isInstantiating = False, instantiationBeginTime = 0\<rparr> = Some (Client, 2000, s') \<and> client_alive s'"
  using client_when_node_is_up [of "\<lparr>client_alive = False, isInstantiating = False, instantiationBeginTime = 0\<rparr>"
      "\<lambda>t. if t < 2000 then Refused else Connected" 0 1] by simp

lemma waiting_forever: "isInstantiating s \<Longrightarrow> getApiClient env k n now s = None"
  by (cases k) (simp_all add: waitForIt_def instantiateClient_def)

text \<open>
  C28. A request never gets a client when it comes while another one is connecting, and neither when its own attempt
  fails in another way than being refused: however long one waits, and whatever the node does later, the promise of
  \<open>getApiClient\<close> stays open, since the first run of \<open>waitForIt\<close> clears the interval although there is no result.
\<close>

theorem request_hangs:
  assumes "isInstantiating s \<or> (\<not> client_alive s \<and> env now = Failed)"
  shows "getApiClient env k n now s = None"
proof (cases "isInstantiating s")
  case False
  with assms have "waitForIt env n now s = Some (ErrorObject, now, s\<lparr>isInstantiating := True, instantiationBeginTime := now\<rparr>)"
    by (simp add: waitForIt_def instantiateClient_def Let_def)
  with assms False show ?thesis by (cases k) (simp_all add: waiting_forever)
qed (rule waiting_forever)

theorem request_hangs_witness:
  "getApiClient (\<lambda>t. if t = 0 then Failed else Connected) 5 100 0
     \<lparr>client_alive = False, isInstantiating = False, instantiationBeginTime = 0\<rparr> = None"
  by (rule request_hangs) simp

end
