(* ===== verification/ConnectorProps.thy ===== *)
theory ConnectorProps
  imports ConnectorService ConnectorClient TableProps TxPos
begin

text \<open>
  What the connector promises: how often a request is repeated, which blocks it answers with and in which order, that a
  snapshot is used only when its checksum is right, and how the events of the node reach the other services; and where
  genesis blocks, ranges of heights and peers go wrong.
\<close>

subsection \<open>Requests\<close>

lemma run_channel: "channel_invoke X e p w = (Inr (node_answer X (c_calls w) e p), w\<lparr>c_calls := Suc (c_calls w)\<rparr>)"
  by (simp add: channel_invoke_def bnd_def thn_def)

lemma invoke_retry_run:
  "invoke_retry X e p n w = (case node_answer X (c_calls w) e p of
     Inr v \<Rightarrow> (Inr v, w\<lparr>c_calls := Suc (c_calls w)\<rparr>)
   | Inl er \<Rightarrow> if is_timeout er \<and> n > 0 then invoke_retry X e p (n - 1) (w\<lparr>c_calls := Suc (c_calls w)\<rparr>)
       else (Inl er, w\<lparr>c_calls := Suc (c_calls w)\<rparr>))"
  by (subst invoke_retry.simps) (auto simp: bnd_def run_channel split: sum.splits nat.splits)

lemma invoke_answer:
  "node_answer X (c_calls w) e p = Inr v \<Longrightarrow> invokeEndpoint X e p w = (Inr v, w\<lparr>c_calls := Suc (c_calls w)\<rparr>)"
  by (simp add: invokeEndpoint_def invoke_retry_run)

lemma invoke_error:
  "node_answer X (c_calls w) e p = Inl er \<Longrightarrow> \<not> is_timeout er \<Longrightarrow> invokeEndpoint X e p w = (Inl er, w\<lparr>c_calls := Suc (c_calls w)\<rparr>)"
  by (simp add: invokeEndpoint_def invoke_retry_run)

lemma timed_answer: "act w = (Inr v, w') \<Longrightarrow> timed m act w = (Inr v, w')"
  by (simp add: timed_def tryA_def)

lemma timed_error: "act w = (Inl e, w') \<Longrightarrow> \<exists>e'. timed m act w = (Inl e', w')"
  by (simp add: timed_def tryA_def)

text \<open>The answers of a request, in the order they came: timeouts, and the one it ends in.\<close>

lemma invoke_retry_calls:
  "\<exists>k \<le> n. invoke_retry X e p n w = (node_answer X (c_calls w + k) e p, w\<lparr>c_calls := Suc (c_calls w + k)\<rparr>) \<and>
     (\<forall>i < k. \<exists>er. node_answer X (c_calls w + i) e p = Inl er \<and> is_timeout er)"
proof (induction n arbitrary: w)
  case 0
  show ?case by (subst invoke_retry_run) (auto split: sum.splits)
next
  case (Suc n)
  show ?case
  proof (cases "\<exists>er. node_answer X (c_calls w) e p = Inl er \<and> is_timeout er")
    case True
    let ?w = "w\<lparr>c_calls := Suc (c_calls w)\<rparr>"
    obtain k where k: "k \<le> n" "invoke_retry X e p n ?w = (node_answer X (c_calls ?w + k) e p, ?w\<lparr>c_calls := Suc (c_calls ?w + k)\<rparr>)"
      "\<forall>i < k. \<exists>er. node_answer X (c_calls ?w + i) e p = Inl er \<and> is_timeout er" using Suc.IH by blast
    have "\<forall>i < Suc k. \<exists>er. node_answer X (c_calls w + i) e p = Inl er \<and> is_timeout er"
      using True k(3) by (auto simp: less_Suc_eq_0_disj)
    moreover have "invoke_retry X e p (Suc n) w = (node_answer X (c_calls w + Suc k) e p, w\<lparr>c_calls := Suc (c_calls w + Suc k)\<rparr>)"
      using True k(2) by (subst invoke_retry_run) auto
    ultimately show ?thesis using k(1) by (metis Suc_le_mono)
  next
    case False
    then show ?thesis by (intro exI [of _ 0], subst invoke_retry_run) (auto split: sum.splits)
  qed
qed

text \<open>
  C24. A request to the node is sent at most six times: once, and again only while the answer is a timeout. What it ends
  in is the answer to the last one.
\<close>

theorem request_retries:
  "\<exists>k \<le> 5. invokeEndpoint X e p w = (node_answer X (c_calls w + k) e p, w\<lparr>c_calls := c_calls w + k + 1\<rparr>) \<and>
     (\<forall>i < k. \<exists>er. node_answer X (c_calls w + i) e p = Inl er \<and> is_timeout er)"
  using invoke_retry_calls [of 5 X e p w] by (simp add: invokeEndpoint_def NUM_REQUEST_RETRIES_def)

subsection \<open>A concrete node\<close>

definition demo_store :: peer_store where
  "demo_store = \<lparr>ps_peers = [], ps_connected = [], ps_disconnected = [], ps_statistics = JObj []\<rparr>"

definition demo_cworld :: cworld where
  "demo_cworld = \<lparr>c_calls = 0, c_fetches = 0, c_schema = JUndef, c_nodeInfo = JUndef, c_metadata = JUndef,
     c_registeredActions = JUndef, c_registeredEvents = JUndef, c_registeredModules = JUndef, fmt_schemas = JUndef,
     fmt_metadata = JUndef, c_genesisHeight = JUndef, c_genesisBlockID = JUndef, c_genesisConfig = JUndef,
     c_networkGenesisConfig = JUndef, c_escrowedAmounts = JUndef, c_feeTokenID = JUndef, c_minFeePerByte = JUndef,
     c_rewardModule = JUndef, c_rewardTokenID = JUndef, c_mainchainID = JUndef, snapshot_url = JUndef, snapshot_path = JUndef,
     snapshot_block = JObj [(''header'', JObj [])], snapshot_stream = None, snapshot_missing = False,
     c_fs = \<lparr>fs_files = [], fs_dirs = []\<rparr>, peerStore = demo_store, c_geo = [], c_subscribed = [], c_listeners = [],
     c_signals = [], c_emitted = [], c_exited = False, c_isReady = False\<rparr>"

definition demo_cext :: "(nat \<Rightarrow> string \<Rightarrow> obj \<Rightarrow> jserr + jsval) \<Rightarrow> cext" where
  "demo_cext answer = \<lparr>node_answer = answer, codec_encode = (\<lambda>_ _. Inr []), codec_decodeJSON = (\<lambda>_ h. Inr (JObj [(''hex'', JStr h)])),
     codec_decode = (\<lambda>_ h. Inr (JObj [(''hex'', JStr h)])), computeMinFee = (\<lambda>_ _ _. Inr (JBig 0)), hash_hex = id,
     validate_by = (\<lambda>_ _. Inr ()), lisk32_of_hex = Inr, hex_of_lisk32 = Inr, fetch_file = (\<lambda>_ _. Body []), sha256_hex = id,
     untar_gz = (\<lambda>_. []), geo_data = (\<lambda>_. Inl (Err [])), config_genesisBlockUrl = []\<rparr>"

theorem request_retries_witness:
  "\<exists>k \<le> 5. invokeEndpoint (demo_cext (\<lambda>n _ _. if n < 2 then Inl (TimeoutErr []) else Inr (JNum 7))) ''a'' [] demo_cworld =
     ((if k < 2 then Inl (TimeoutErr []) else Inr (JNum 7)), demo_cworld\<lparr>c_calls := k + 1\<rparr>)"
  using request_retries [of "demo_cext (\<lambda>n _ _. if n < 2 then Inl (TimeoutErr []) else Inr (JNum 7))" "''a''" "[]" demo_cworld]
  by (auto simp: demo_cext_def demo_cworld_def)

subsection \<open>The genesis block\<close>

text \<open>A snapshot that is in memory.\<close>

definition loaded :: "cworld \<Rightarrow> bool" where
  "loaded w = (\<not> snapshot_missing w \<and> truthy (snapshot_url w) \<and> truthy (snapshot_path w) \<and>
     (\<exists>i. snapshot_id w = Inr i \<and> truthy i))"

definition genesis_of :: "cworld \<Rightarrow> bool \<Rightarrow> jsval" where
  "genesis_of w assets = JObj (oset (own_props (snapshot_block w)) ''assets'' (if assets then oget (own_props (snapshot_block w)) ''assets'' else JArr []))"

lemma from_snapshot: "loaded w \<Longrightarrow> getGenesisBlockFromFS X w = (Inr (snapshot_block w), w)"
  by (auto simp: getGenesisBlockFromFS_def loaded_def bnd_def thn_def)

lemma loaded_prop: "loaded w \<Longrightarrow> js_prop (snapshot_block w) k = Inr (oget (own_props (snapshot_block w)) k)"
  by (cases "snapshot_block w") (auto simp: loaded_def snapshot_id_def bindE_def own_props_def oget_def split: if_splits)

lemma genesis_from_snapshot: "loaded w \<Longrightarrow> conn_getGenesisBlock X a w = (Inr (genesis_of w a), w)"
  by (simp add: conn_getGenesisBlock_def tryA_def bnd_def from_snapshot loaded_prop genesis_of_def)

lemma known_genesis_id: "truthy (c_genesisBlockID w) \<Longrightarrow> conn_getGenesisBlockID X w = (Inr (c_genesisBlockID w), w)"
  by (simp add: conn_getGenesisBlockID_def cached_def bnd_def)

lemma genesis_by_id:
  assumes "loaded w" and "c_genesisBlockID w = JStr g" and "g \<noteq> []"
  shows "conn_getBlockByID X (JStr g) False w = (Inr (genesis_of w False), w)"
proof -
  have "conn_getGenesisBlockID X w = (Inr (JStr g), w)" using known_genesis_id assms by simp
  then show ?thesis using assms
    by (simp add: conn_getBlockByID_def Let_def bnd_def timed_answer genesis_from_snapshot)
qed

lemma index_of_None: "index_of xs v = None \<longleftrightarrow> (\<forall>x \<in> set xs. \<not> strict_eq x v)"
  by (induction xs) auto

lemma index_of_Some:
  "index_of xs v = Some i \<Longrightarrow> \<exists>as x bs. xs = as @ x # bs \<and> length as = i \<and> strict_eq x v \<and> (\<forall>a \<in> set as. \<not> strict_eq a v)"
proof (induction xs arbitrary: i)
  case (Cons y ys)
  show ?case
  proof (cases "strict_eq y v")
    case True
    with Cons.prems show ?thesis by (intro exI [of _ "[]"]) auto
  next
    case False
    then obtain j where j: "index_of ys v = Some j" "i = Suc j" using Cons.prems by auto
    then obtain as x bs where "ys = as @ x # bs" "length as = j" "strict_eq x v" "\<forall>a \<in> set as. \<not> strict_eq a v" using Cons.IH by blast
    with False j(2) show ?thesis by (intro exI [of _ "y # as"] exI [of _ x] exI [of _ bs]) auto
  qed
qed simp

lemma filter_other: "v \<notin> set xs \<Longrightarrow> filter (\<lambda>x. x \<noteq> v) xs = xs"
  by (induction xs) auto


definition demo_genesis :: cworld where
  "demo_genesis = demo_cworld\<lparr>c_genesisBlockID := JStr ''g'', snapshot_url := JStr ''u'', snapshot_path := JStr ''p'',
     snapshot_block := JObj [(''header'', JObj [(''id'', JStr ''g'')]), (''assets'', JArr [JObj [(''module'', JStr ''pos''), (''data'', JObj [])]]),
       (''transactions'', JArr [])]\<rparr>"

lemma demo_loaded: "loaded demo_genesis"
  by (simp add: loaded_def demo_genesis_def demo_cworld_def snapshot_id_def)

definition demo_blocks :: cext where
  "demo_blocks = demo_cext (\<lambda>n e p. if e = ''chain_getBlocksByIDs'' then Inr (JArr (map (\<lambda>i. JObj [(''id'', i)]) (elems_of (oget p ''ids'')))) else Inl (Err []))"


text \<open>
  The snapshot is formatted when it is loaded; \<open>getGenesisAssets\<close> formats it once more, and data that has been decoded
  is not hexadecimal text any more.
\<close>

definition decoded :: "cworld \<Rightarrow> jsval \<Rightarrow> bool" where
  "decoded w asset = (\<exists>mn data sch. asset = JObj [(''module'', mn), (''data'', JObj data)] \<and>
     getBlockAssetDataSchemaByModule w mn = Inr sch \<and> truthy sch)"

lemma format_decoded: "decoded w asset \<Longrightarrow> \<exists>m. formatAsset X w asset = Inl (TypeErr m)"
  by (auto simp: decoded_def formatAsset_def oget_def buffer_from_def)

text \<open>With a snapshot whose first asset has a schema, every request for the assets of the genesis block and for their number
  throws: the data was decoded when the snapshot was loaded and is decoded again.\<close>

lemma snapshot_assets_unreadable:
  assumes "loaded w" and "oget (own_props (snapshot_block w)) ''assets'' = JArr (a # as)" and "decoded w a"
  shows "\<exists>m. getGenesisAssets X params w = (Inl (TypeErr m), w) \<and> getGenesisAssetByModule X params w = (Inl (TypeErr m), w) \<and>
    getGenesisAssetsLength X params w = (Inl (TypeErr m), w)"
proof -
  obtain m where m: "formatAsset X w a = Inl (TypeErr m)" using format_decoded [OF assms(3)] by blast
  have "formatBlock X w (genesis_of w True) = Inl (TypeErr m)"
    using assms(2) m by (simp add: formatBlock_def genesis_of_def)
  then have "getGenesisAssets X params w = (Inl (TypeErr m), w)"
    by (simp add: getGenesisAssets_def getGenesisBlockFormatted_def bnd_def genesis_from_snapshot [OF assms(1)] formatted_def)
  then show ?thesis by (simp add: getGenesisAssetByModule_def getGenesisAssetsLength_def bnd_def)
qed

text \<open>Without a snapshot the genesis block of the node is not decoded, so the data of the module PoS is text, which has no stakers
  and no validators: both requests answer with an empty list, whatever the block holds.\<close>

lemma node_genesis_has_no_stakers:
  assumes "snapshot_missing w" and "c_genesisHeight w = JNum g" and "g \<noteq> 0"
    and "node_answer X (c_calls w) ''chain_getBlockByHeight'' [(''height'', JNum g)] = Inr (JObj block)"
    and "oget block ''assets'' = JArr assets" and "find_module assets (JStr ''pos'') = Inr (JObj asset)" and "oget asset ''data'' = JStr hex"
  shows "fst (conn_getPoSGenesisStakers X (JNum g) w) = Inr (JArr []) \<and> fst (conn_getPoSGenesisValidators X (JNum g) w) = Inr (JArr [])"
proof -
  have height: "conn_getGenesisHeight X w = (Inr (JNum g), w)"
    using assms(2,3) by (simp add: conn_getGenesisHeight_def cached_def bnd_def)
  have "getGenesisBlockFromFS X w = (Inl (NotFoundErr []), w)" using assms(1) by (simp add: getGenesisBlockFromFS_def bnd_def)
  then have "conn_getGenesisBlock X True w = (Inr (JObj block), w\<lparr>c_calls := Suc (c_calls w)\<rparr>)"
    by (simp add: conn_getGenesisBlock_def tryA_def bnd_def height request_as_def timed_answer [OF invoke_answer] assms(4))
  then have "conn_getBlockByHeight X (JNum g) True w = (Inr (JObj block), w\<lparr>c_calls := Suc (c_calls w)\<rparr>)"
    by (simp add: conn_getBlockByHeight_def Let_def bnd_def timed_answer [of "conn_getGenesisHeight X", OF height])
  then have data: "genesis_pos_data X (JNum g) k w = (Inr (JArr []), w\<lparr>c_calls := Suc (c_calls w)\<rparr>)" if "k \<noteq> ''length''" for k
    using assms(5-7) that by (simp add: genesis_pos_data_def bnd_def MODULE_NAME_POS_def js_default_def)
  show ?thesis
    by (simp add: conn_getPoSGenesisStakers_def conn_getPoSGenesisValidators_def timed_def tryA_def data)
qed

subsection \<open>Ranges of heights\<close>

lemma no_block: "\<exists>e. formatBlock X w (JArr []) = Inl e"
  by (simp add: formatBlock_def)

text \<open>
  The formatted blocks of a range can be had only for a range that starts with the genesis block: for a later start the first
  place of the answer is an empty array instead of a block, and formatting it throws, whatever the node answers.
\<close>

lemma later_ranges_fail:
  assumes "c_genesisHeight w = JNum g" and "g \<noteq> 0" and "g < n"
  shows "\<exists>e. fst (getBlocksByHeightBetweenFormatted X (JNum n) b w) = Inl e"
proof -
  have "conn_getGenesisHeight X w = (Inr (JNum g), w)" using assms by (simp add: conn_getGenesisHeight_def cached_def bnd_def)
  then have "genesis_part X (JNum n) w = (Inr (JArr [], JNum n), w)" using assms(3) by (simp add: genesis_part_def bnd_def js_lt_def)
  then have head: "\<exists>rest. vs = JArr [] # rest" if "conn_getBlocksByHeightBetween X (JNum n) b w = (Inr vs, w')" for vs w'
    using that by (auto simp: conn_getBlocksByHeightBetween_def timed_answer act_ok)
  obtain r w' where r: "conn_getBlocksByHeightBetween X (JNum n) b w = (r, w')" by fastforce
  show ?thesis
  proof (cases r)
    case (Inr vs)
    with head r obtain rest where "vs = JArr [] # rest" by blast
    with r Inr no_block [of X w'] show ?thesis
      by (auto simp: getBlocksByHeightBetweenFormatted_def bnd_def format_each_def)
  qed (simp add: getBlocksByHeightBetweenFormatted_def bnd_def r)
qed

subsection \<open>The snapshot\<close>

lemma conn_read_state: "conn_read p w = (r, w') \<Longrightarrow> w' = w"
  by (auto simp: conn_read_def runConnFs_def fs_read_def bnd_def split: option.splits prod.splits)

lemma conn_exists_state: "conn_exists p w = (r, w') \<Longrightarrow> w' = w"
  by (auto simp: conn_exists_def runConnFs_def fs_exists_def split: prod.splits)

text \<open>The files in a state belong together: what is in the archive is what the checksum was made of.\<close>

definition verified_in :: "cext \<Rightarrow> string \<Rightarrow> string \<Rightarrow> cworld \<Rightarrow> bool" where
  "verified_in X file t w = (conn_read file w = (Inr t, w) \<and>
     (\<exists>c. conn_read (file @ ''.SHA256'') w = (Inr c, w) \<and> sha256_hex X t = hd (js_split '' '' c)))"

lemma checksum_verified:
  assumes "verifyFileChecksum X file (file @ ''.SHA256'') w = (Inr True, w')"
  shows "w' = w \<and> (\<exists>t. verified_in X file t w)"
proof -
  obtain a b c t w1 w2 w3 where run: "conn_exists file w = (Inr a, w1)" "conn_exists (file @ ''.SHA256'') w1 = (Inr b, w2)"
    "conn_read (file @ ''.SHA256'') w2 = (Inr c, w3)" "conn_read file w3 = (Inr t, w')" "sha256_hex X t = hd (js_split '' '' c)"
    using assms by (auto simp: verifyFileChecksum_def act_ok split: if_splits)
  have "w1 = w" "w2 = w" "w3 = w" "w' = w" using run(1-4) by (auto dest: conn_exists_state conn_read_state)
  then show ?thesis using run by (auto simp: verified_in_def)
qed

definition unpack :: "cext \<Rightarrow> string \<Rightarrow> string \<Rightarrow> string \<Rightarrow> unit cact" where
  "unpack X file dir t = (if ends_with ''.tar.gz'' file
     then forA (\<lambda>(f, content). runConnFs (fs_write (path_join dir f) content)) (untar_gz X t) else ret ())"

lemma attempt_verified:
  assumes "download_attempt X url dir w = (Inr True, w')"
  shows "\<exists>w1 t. verified_in X (dir @ ''/'' @ url_file url) t w1 \<and> unpack X (dir @ ''/'' @ url_file url) dir t w1 = (Inr (), w')"
proof -
  let ?file = "dir @ ''/'' @ url_file url"
  obtain w0 w1 where v: "verifyFileChecksum X ?file (?file @ ''.SHA256'') w0 = (Inr True, w1)"
    and x: "(if ends_with ''.tar.gz'' ?file then extractTarBall X ?file dir else ret ()) w1 = (Inr (), w')"
    using assms by (auto simp: download_attempt_def Let_def act_ok split: if_splits)
  obtain t where t: "w1 = w0" "verified_in X ?file t w0" using checksum_verified [OF v] by blast
  then have "unpack X ?file dir t w0 = (Inr (), w')"
    using x by (auto simp: unpack_def extractTarBall_def bnd_def verified_in_def split: if_splits)
  with t show ?thesis by blast
qed

lemma download_step:
  assumes "download_retry X url dir n w = (Inr (), w')"
  shows "download_attempt X url dir w = (Inr True, w') \<or> (\<exists>m w1. n = Suc m \<and> download_retry X url dir m w1 = (Inr (), w'))"
proof -
  obtain r w1 where r: "download_attempt X url dir w = (r, w1)" by fastforce
  show ?thesis
  proof (cases r)
    case (Inl e)
    with r assms show ?thesis
      by (subst (asm) download_retry.simps) (cases e; cases n; auto simp: bnd_def tryA_def thn_def)
  next
    case (Inr ok)
    with r assms show ?thesis
      by (subst (asm) download_retry.simps) (cases ok; cases n; auto simp: bnd_def tryA_def thn_def)
  qed
qed

text \<open>
  C25. A download of the snapshot ends well only with a verified file: at that moment the file had the SHA-256 hash that the checksum
  file names, and what is unpacked are the entries of that very file.
\<close>

theorem snapshot_verified:
  assumes "download_retry X url dir n w = (Inr (), w')"
  shows "\<exists>w1 t. verified_in X (dir @ ''/'' @ url_file url) t w1 \<and> unpack X (dir @ ''/'' @ url_file url) dir t w1 = (Inr (), w')"
  using assms
proof (induction n arbitrary: w)
  case 0
  then show ?case using download_step [OF 0] attempt_verified by blast
next
  case (Suc n)
  then show ?case using download_step [OF Suc.prems] attempt_verified by blast
qed

definition demo_download :: cext where
  "demo_download = (demo_cext (\<lambda>_ _ _. Inl (Err [])))\<lparr>fetch_file := (\<lambda>n u. if n < 2 then Stream_error ''reset'' else Body ''ab'')\<rparr>"

definition demo_disk :: cworld where
  "demo_disk = demo_cworld\<lparr>c_fs := \<lparr>fs_files = [], fs_dirs = [''/data'']\<rparr>\<rparr>"

lemma demo_download_run:
  "download_retry demo_download ''u/g'' ''data'' 2 demo_disk =
     (Inr (), demo_disk\<lparr>c_fetches := 4, c_fs := \<lparr>fs_files = [(''/data/g'', ''ab''), (''/data/g.SHA256'', ''ab'')], fs_dirs = [''/data'']\<rparr>\<rparr>)"
  by code_simp

theorem snapshot_verified_witness:
  "\<exists>w1 t. verified_in demo_download ''data/g'' t w1"
  using snapshot_verified [OF demo_download_run] by (auto simp: url_file_def js_split_def)

subsection \<open>Events\<close>

text \<open>What is emitted for one listener of an event: the event under the names of \<open>events/blockchain.js\<close>, then under its own.\<close>

definition relayed :: "string \<Rightarrow> jsval \<Rightarrow> (string \<times> jsval) list" where
  "relayed event payload =
     map (\<lambda>(name, _). (name, payload)) (filter (\<lambda>(_, s). s = toCamelCase (js_split ''_'' event)) sdkEvents) @ [(event, payload)]"

definition copies :: "nat \<Rightarrow> 'a list \<Rightarrow> 'a list" where
  "copies n xs = concat (replicate n xs)"

lemma copies_add: "copies m xs @ copies n xs = copies (m + n) xs"
  by (simp add: copies_def replicate_add)

lemma run_emit: "emit name payload w = (Inr (), w\<lparr>c_emitted := c_emitted w @ [(name, payload)]\<rparr>)"
  by (simp add: emit_def)

lemma emit_all:
  "forA (\<lambda>(name, _). emit name payload) ps w = (Inr (), w\<lparr>c_emitted := c_emitted w @ map (\<lambda>(name, _). (name, payload)) ps\<rparr>)"
  by (induction ps arbitrary: w) (auto simp: thn_def bnd_def run_emit)

lemma listener_emits:
  assumes "json_stringify payload = Inr t"
  shows "\<exists>sig. eventListener r payload w = (Inr (), w\<lparr>c_signals := sig, c_emitted := c_emitted w @ relayed r payload\<rparr>)"
  using assms by (auto simp: eventListener_def tryA_def thn_def bnd_def relay_sdk_def conn_dispatch_def emit_all run_emit relayed_def)

lemma listeners_emit:
  assumes "json_stringify payload = Inr t"
  shows "\<exists>sig. forA (\<lambda>r. eventListener r payload) (filter ((=) event) ls) w =
    (Inr (), w\<lparr>c_signals := sig, c_emitted := c_emitted w @ copies (count_list ls event) (relayed event payload)\<rparr>)"
proof (induction ls arbitrary: w)
  case Nil
  show ?case by (auto simp: copies_def intro: exI [of _ "c_signals w"])
next
  case (Cons r ls)
  show ?case
  proof (cases "r = event")
    case True
    obtain sig where "eventListener event payload w = (Inr (), w\<lparr>c_signals := sig, c_emitted := c_emitted w @ relayed event payload\<rparr>)"
      using listener_emits [OF assms] by blast
    moreover obtain sig' where "forA (\<lambda>r. eventListener r payload) (filter ((=) event) ls) (w\<lparr>c_signals := sig, c_emitted := c_emitted w @ relayed event payload\<rparr>) =
      (Inr (), w\<lparr>c_signals := sig', c_emitted := (c_emitted w @ relayed event payload) @ copies (count_list ls event) (relayed event payload)\<rparr>)"
      using Cons.IH [of "w\<lparr>c_signals := sig, c_emitted := c_emitted w @ relayed event payload\<rparr>"] by auto
    ultimately show ?thesis using True by (auto simp: thn_def bnd_def copies_def)
  qed (use Cons.IH in auto)
qed

lemma relay_emits:
  assumes "json_stringify payload = Inr t"
  shows "\<exists>sig. relay_node event payload w =
    (Inr (), w\<lparr>c_signals := sig, c_emitted := c_emitted w @ copies (count_list (c_listeners w) event) (relayed event payload)\<rparr>)"
  using listeners_emit [OF assms, of event "c_listeners w" "w\<lparr>c_signals := c_signals w @ [(event, payload)]\<rparr>"]
  by (auto simp: relay_node_def thn_def bnd_def conn_dispatch_def)

lemma info_refreshed:
  assumes "node_answer X (c_calls w) ''system_getNodeInfo'' [] = Inr v"
  shows "getNodeInfo X True w = (Inr v, w\<lparr>c_calls := Suc (c_calls w), c_nodeInfo := v\<rparr>)"
proof -
  have "invokeEndpoint X ''system_getNodeInfo'' [] w = (Inr v, w\<lparr>c_calls := Suc (c_calls w)\<rparr>)" by (rule invoke_answer [OF assms])
  then show ?thesis by (simp add: getNodeInfo_def timed_def tryA_def bnd_def thn_def)
qed

lemma escrow_refreshed:
  assumes "node_answer X (c_calls w) ''token_getEscrowedAmounts'' [] = Inr v"
  shows "conn_getEscrowedAmounts X True w = (Inr v, w\<lparr>c_calls := Suc (c_calls w), c_escrowedAmounts := v\<rparr>)"
proof -
  have "invokeEndpoint X ''token_getEscrowedAmounts'' [] w = (Inr v, w\<lparr>c_calls := Suc (c_calls w)\<rparr>)" by (rule invoke_answer [OF assms])
  then show ?thesis by (simp add: conn_getEscrowedAmounts_def timed_def tryA_def bnd_def thn_def)
qed

lemma event_emits:
  assumes "json_stringify payload = Inr t" and "\<And>n. node_answer X n ''system_getNodeInfo'' [] = Inr (info n)"
    and "\<And>n. node_answer X n ''token_getEscrowedAmounts'' [] = Inr (esc n)"
  shows "\<exists>w'. on_node_event X event payload w = (Inr (), w') \<and> c_listeners w' = c_listeners w \<and>
    c_emitted w' = c_emitted w @ copies (count_list (c_listeners w) event) (relayed event payload) \<and>
    (take 6 event = ''chain_'' \<longrightarrow> c_calls w' = c_calls w + 2 \<and> c_nodeInfo w' = info (c_calls w))"
proof (cases "take 6 event = ''chain_''")
  case True
  let ?w = "w\<lparr>c_calls := Suc (Suc (c_calls w)), c_nodeInfo := info (c_calls w), c_escrowedAmounts := esc (Suc (c_calls w))\<rparr>"
  have "conn_getEscrowedAmounts X True (w\<lparr>c_calls := Suc (c_calls w), c_nodeInfo := info (c_calls w)\<rparr>) = (Inr (esc (Suc (c_calls w))), ?w)"
    by (subst escrow_refreshed [OF assms(3)]) simp
  then have "on_node_event X event payload w = relay_node event payload ?w"
    using True by (simp add: on_node_event_def thn_def bnd_def info_refreshed [OF assms(2)])
  then show ?thesis using relay_emits [OF assms(1), of event ?w] by auto
next
  case False
  then show ?thesis using relay_emits [OF assms(1), of event w] by (auto simp: on_node_event_def thn_def)
qed


text \<open>An event of the chain is lost when the node information cannot be refreshed: nothing is emitted, and the event is not passed on
  later.\<close>

lemma event_lost:
  assumes "take 6 event = ''chain_''" and "\<And>n. \<exists>er. node_answer X n ''system_getNodeInfo'' [] = Inl er"
  shows "c_emitted (snd (node_sends X event payload w)) = c_emitted w \<and> c_signals (snd (node_sends X event payload w)) = c_signals w"
proof -
  have one: "\<exists>er n. on_node_event X event payload v = (Inl er, v\<lparr>c_calls := n\<rparr>)" for v
  proof -
    obtain k where "invokeEndpoint X ''system_getNodeInfo'' [] v =
      (node_answer X (c_calls v + k) ''system_getNodeInfo'' [], v\<lparr>c_calls := Suc (c_calls v + k)\<rparr>)"
      using invoke_retry_calls [of NUM_REQUEST_RETRIES X "''system_getNodeInfo''" "[]" v] by (auto simp: invokeEndpoint_def)
    then obtain er where "invokeEndpoint X ''system_getNodeInfo'' [] v = (Inl er, v\<lparr>c_calls := Suc (c_calls v + k)\<rparr>)"
      using assms(2) [of "c_calls v + k"] by auto
    then show ?thesis using assms(1) by (auto simp: on_node_event_def getNodeInfo_def timed_def tryA_def bnd_def thn_def)
  qed
  have "\<exists>n. forA (\<lambda>e. tryA (on_node_event X e payload) (\<lambda>_. ret ())) (filter ((=) event) subs) v = (Inr (), v\<lparr>c_calls := n\<rparr>)" for subs v
  proof (induction subs arbitrary: v)
    case Nil
    show ?case by (auto intro: exI [of _ "c_calls v"])
  next
    case (Cons e subs)
    obtain er n where "on_node_event X event payload v = (Inl er, v\<lparr>c_calls := n\<rparr>)" using one by blast
    with Cons.IH [of "v\<lparr>c_calls := n\<rparr>"] Cons.IH [of v] show ?case by (auto simp: thn_def bnd_def tryA_def)
  qed
  from this [of "c_subscribed w" w] show ?thesis by (auto simp: node_sends_def bnd_def)
qed

definition demo_events :: cext where
  "demo_events = demo_cext (\<lambda>n e p. if e = ''app_getRegisteredEvents'' then Inr (JArr [JStr ''chain_newBlock'']) else Inr (JObj []))"

lemma relayed_new_block:
  "relayed ''chain_newBlock'' payload = [(''chainNewBlock'', payload), (''chain_newBlock'', payload)]"
proof -
  have "toCamelCase (js_split ''_'' ''chain_newBlock'') = ''chainNewBlock''" by code_simp
  then show ?thesis by (simp add: relayed_def sdkEvents_def)
qed

lemma demo_exported:
  "c_subscribed (snd (exportAllEvents demo_events demo_cworld)) = ''chain_newBlock'' # conn_events \<and>
   c_listeners (snd (exportAllEvents demo_events demo_cworld)) = conn_events @ [''chain_newBlock''] \<and>
   c_emitted (snd (exportAllEvents demo_events demo_cworld)) = []"
  by code_simp


subsection \<open>Peers\<close>

lemma mapE_all_Inr: "mapE f xs = Inr ys \<Longrightarrow> x \<in> set xs \<Longrightarrow> \<exists>y \<in> set ys. f x = Inr y"
  by (induction xs arbitrary: ys) (auto simp: bindE_Inr_iff)

lemma split_without: "c \<notin> set s \<Longrightarrow> split_from [c] acc s = [rev acc @ s]"
  by (induction s arbitrary: acc) auto

lemma statistics_fail:
  assumes "p \<in> set (ps_connected s)" and "js_prop p ''os'' = Inr (JStr v)" and "take 5 v = ''linux''" and "CHR ''.'' \<notin> set v"
  shows "\<exists>e. refreshStatistics s = Inl e"
proof (rule ccontr)
  assume "\<nexists>e. refreshStatistics s = Inl e"
  then obtain r where "refreshStatistics s = Inr r" by (cases "refreshStatistics s") auto
  then obtain oses us where "peer_field ''os'' (ps_connected s) = Inr oses" "mapE map_os oses = Inr us"
    by (auto simp: refreshStatistics_def Let_def bindE_Inr_iff)
  then obtain u where "map_os (JStr v) = Inr u"
    using mapE_all_Inr assms(1,2) by (metis peer_field_def Inr_inject)
  moreover have "js_split ''.'' v = [v]" using split_without [OF assms(4), of "[]"] by (simp add: js_split_def)
  ultimately show False using assms(3) by (simp add: map_os_def)
qed

text \<open>One connected peer that reports an operating system like \<open>linux\<close> without a version keeps the statistics of all peers from
  being updated: the lists are replaced, the statistics stay what they were, and \<open>peerReload\<close> is not announced.\<close>

lemma peer_without_version:
  assumes "conn_getNetworkPeers X w = (Inr peers, w1)" and "p \<in> set peers" and "in_state ''connected'' p"
    and "js_prop p ''os'' = Inr (JStr v)" and "take 5 v = ''linux''" and "CHR ''.'' \<notin> set v"
  shows "reload_peers X w = (Inr (), w1\<lparr>peerStore := (peerStore w1)\<lparr>ps_peers := peers,
    ps_connected := filter (in_state ''connected'') peers, ps_disconnected := filter (in_state ''disconnected'') peers\<rparr>\<rparr>)"
proof -
  let ?s = "(peerStore w1)\<lparr>ps_peers := peers, ps_connected := filter (in_state ''connected'') peers, ps_disconnected := filter (in_state ''disconnected'') peers\<rparr>"
  obtain e where "refreshStatistics ?s = Inl e" using statistics_fail [of p ?s v] assms by auto
  then show ?thesis by (simp add: reload_peers_def tryA_def bnd_def thn_def assms(1))
qed

subsection \<open>The methods and their callers\<close>

lemma methods_distinct: "distinct (map cm_name connector_methods)"
  by code_simp

text \<open>What the indexer gets from the connector in a given state.\<close>

definition connector_answer :: "cext \<Rightarrow> cworld \<Rightarrow> string \<Rightarrow> jsval \<Rightarrow> jserr + jsval" where
  "connector_answer X w name params = (case connector_call X name (own_props params) of
     None \<Rightarrow> Inl (Err (''Service connector.'' @ name @ '' is not found.'')) | Some act \<Rightarrow> fst (act w))"

lemma connector_answer_mainchain:
  "connector_answer X w ''getMainchainID'' params = fst (conn_getMainchainID X w)"
  by (simp add: connector_answer_def connector_call_def connector_methods_def auth_methods_def block_methods_def reward_methods_def
      event_methods_def fee_methods_def generator_methods_def interoperability_methods_def legacy_methods_def network_methods_def
      node_methods_def pos_methods_def status_methods_def token_methods_def transaction_methods_def validator_methods_def conn_meth_def)



end
