(* ===== verification/Market.thy ===== *)
theory Market
  imports IndexerUtils JsonParse JsSort
begin

text \<open>
  \<open>services/market\<close>: the prices of the exchanges (\<open>shared/market/sources\<close>), the prices of the target pairs that are
  computed from them (\<open>shared/market/priceUpdater.js\<close>), the answers (\<open>shared/market/market.js\<close>, the controller and the
  status) and the jobs. The answers of the exchanges, the order in which they arrive, and the arithmetic and
  formatting of floating-point rates are parameters. Time is in milliseconds; the cache is the one of the framework
  over Redis, whose entries may expire.
\<close>

subsection \<open>Environment, state and cache\<close>

record mext =
  exchange :: "nat \<Rightarrow> string \<Rightarrow> jserr + jsval"
  arrival :: "string list \<Rightarrow> string list"
  fixed_rate :: "nat \<Rightarrow> jsval \<Rightarrow> string"
  fixed_product :: "nat \<Rightarrow> jsval \<Rightarrow> jsval \<Rightarrow> string"
  accessKey :: string
  fiatCurrencies :: string
  config_targetPairs :: string

record mworld =
  mk_cache :: "(string \<times> string \<times> int option) list"
  mk_now :: int
  mk_requests :: nat
  mk_ready :: bool

type_synonym 'a mact = "(mworld, 'a) action"

abbreviation mprop :: "jsval \<Rightarrow> string \<Rightarrow> jsval mact" where
  "mprop v k \<equiv> liftE (js_prop v k)"

definition unexpired :: "mworld \<Rightarrow> string \<Rightarrow> string option" where
  "unexpired w key = (case map_of (mk_cache w) key of
       None \<Rightarrow> None
     | Some (v, expiry) \<Rightarrow> (case expiry of None \<Rightarrow> Some v | Some t \<Rightarrow> if t < mk_now w then None else Some v))"

definition cache_get :: "string \<Rightarrow> string \<Rightarrow> string option mact" where
  "cache_get bank key = getA (\<lambda>w. unexpired w (bank @ '':'' @ key))"

definition cache_set :: "string \<Rightarrow> string \<Rightarrow> string \<Rightarrow> int option \<Rightarrow> unit mact" where
  "cache_set bank key v ttl =
     modA (\<lambda>w. w\<lparr>mk_cache := AList.update (bank @ '':'' @ key) (v, map_option (\<lambda>t. mk_now w + t) ttl) (mk_cache w)\<rparr>)"

definition market_request :: "mext \<Rightarrow> string \<Rightarrow> jsval mact" where
  "market_request X url = bnd (getA mk_requests) (\<lambda>n. thn (modA (\<lambda>w. w\<lparr>mk_requests := Suc n\<rparr>)) (liftE (exchange X n url)))"

subsection \<open>sources/common.js\<close>

definition validateEntries :: "jsval \<Rightarrow> int \<Rightarrow> bool mact" where
  "validateEntries entries allowRefreshAfter =
     bnd (getA mk_now) (\<lambda>now. case entries of
       JNull \<Rightarrow> ret True
     | JArr es \<Rightarrow> liftE (someE (\<lambda>e. bindE (js_prop e ''updateTimestamp'') (\<lambda>t. Inr (js_le t (JNum ((now - allowRefreshAfter) div 1000))))) es)
     | _ \<Rightarrow> ret False)"

subsection \<open>What the sources have in common\<close>

definition nowStamp :: "mworld \<Rightarrow> jsval" where
  "nowStamp w = JNum (mk_now w div 1000)"

text \<open>The first two parts of a code; a part that is missing is written out as \<open>undefined\<close> in a template.\<close>

definition code_part :: "nat \<Rightarrow> string \<Rightarrow> jsval" where
  "code_part i code = (case at_str (js_split ''_'' code) i of None \<Rightarrow> JUndef | Some s \<Rightarrow> JStr s)"

definition source_price :: "string \<Rightarrow> string \<Rightarrow> jsval \<Rightarrow> mworld \<Rightarrow> obj" where
  "source_price source code rate w =
     [(''code'', JStr code), (''from'', code_part 0 code), (''to'', code_part 1 code), (''rate'', rate),
      (''updateTimestamp'', nowStamp w), (''sources'', JArr [JStr source])]"

definition read_price :: "string \<Rightarrow> string \<Rightarrow> jsval mact" where
  "read_price bank key =
     bnd (cache_get bank key) (\<lambda>r. case r of None \<Rightarrow> ret JNull | Some t \<Rightarrow> if t = [] then ret JNull else liftE (json_parse t))"

definition prices_from_cache :: "string \<Rightarrow> string \<Rightarrow> (string \<times> string) list \<Rightarrow> jsval mact" where
  "prices_from_cache bank source symbols =
     bnd (mapA (\<lambda>(code, _). read_price bank (source @ ''_'' @ code)) symbols) (\<lambda>prices.
     ret (if js_includes prices JNull then JNull else JArr prices))"

definition write_price :: "string \<Rightarrow> string \<Rightarrow> int \<Rightarrow> obj \<Rightarrow> unit mact" where
  "write_price bank source ttl item =
     bnd (liftE (json_stringify (JObj item))) (\<lambda>t. cache_set bank (source @ ''_'' @ js_string (oget item ''code'')) (js_string t) (Some ttl))"

definition tickers_of :: "mext \<Rightarrow> string \<Rightarrow> string list \<Rightarrow> string \<Rightarrow> jsval mact" where
  "tickers_of X url path message =
     bnd (market_request X url) (\<lambda>response.
     bnd (if truthy response then bnd (mprop response ''status'') (\<lambda>s. ret (strict_eq s (JNum 200))) else ret False) (\<lambda>good.
     if \<not> good then throw (UnavailableErr message)
     else bnd (case response of JStr t \<Rightarrow> liftE (json_parse t) | _ \<Rightarrow> ret response) (\<lambda>r. liftE (js_path r path))))"

definition allowed_tickers :: "(string \<times> string) list \<Rightarrow> jsval list \<Rightarrow> jserr + jsval list" where
  "allowed_tickers symbols tickers =
     filterE (\<lambda>t. bindE (js_prop t ''symbol'') (\<lambda>s. Inr (js_includes (map (JStr \<circ> snd) symbols) s))) tickers"

definition ticker_price :: "string \<Rightarrow> string \<Rightarrow> jsval list \<Rightarrow> string \<times> string \<Rightarrow> mworld \<Rightarrow> jserr + obj" where
  "ticker_price source field tickers = (\<lambda>(code, symbol) w.
     bindE (filterE (\<lambda>t. bindE (js_prop t ''symbol'') (\<lambda>s. Inr (strict_eq s (JStr symbol)))) tickers) (\<lambda>hits.
     bindE (js_prop (js_first hits) field) (\<lambda>rate. Inr (source_price source code rate w))))"

subsection \<open>sources/binance.js\<close>

definition binance_symbolMap :: "(string \<times> string) list" where
  "binance_symbolMap = [(''LSK_BTC'', ''LSKBTC''), (''LSK_ETH'', ''LSKETH''), (''BTC_EUR'', ''BTCEUR''), (''BTC_GBP'', ''BTCGBP''),
     (''BTC_RUB'', ''BTCRUB''), (''ETH_EUR'', ''ETHEUR''), (''ETH_RUB'', ''ETHRUB''), (''ETH_GBP'', ''ETHGBP''), (''USDT_RUB'', ''USDTRUB''),
     (''EUR_USDT'', ''EURUSDT'')]"

definition binance_fetchAllMarketTickers :: "mext \<Rightarrow> jsval mact" where
  "binance_fetchAllMarketTickers X =
     tickers_of X ''https://api.binance.com/api/v3/ticker/price'' [''data''] ''Data from Binance is currently unavailable''"

definition binance_filterTickers :: "jsval list \<Rightarrow> jserr + jsval list" where
  "binance_filterTickers = allowed_tickers binance_symbolMap"

definition binance_standardizeTickers :: "jsval list \<Rightarrow> mworld \<Rightarrow> jserr + obj list" where
  "binance_standardizeTickers tickers w = mapE (\<lambda>s. ticker_price ''binance'' ''price'' tickers s w) binance_symbolMap"

definition binance_getFromCache :: "jsval mact" where
  "binance_getFromCache = prices_from_cache ''binance_prices'' ''binance'' binance_symbolMap"

definition ticker_ttl :: int where "ticker_ttl = 15 * 60 * 1000"
definition ticker_refresh :: int where "ticker_refresh = 1 * 60 * 1000"

definition binance_reload :: "mext \<Rightarrow> unit mact" where
  "binance_reload X =
     bnd binance_getFromCache (\<lambda>entries. bnd (validateEntries entries ticker_refresh) (\<lambda>stale. if \<not> stale then ret ()
     else bnd (binance_fetchAllMarketTickers X) (\<lambda>tv. case tv of
       JArr tickers \<Rightarrow> bnd (liftE (binance_filterTickers tickers)) (\<lambda>filtered.
         bnd (getA (\<lambda>w. w)) (\<lambda>w. bnd (liftE (binance_standardizeTickers filtered w)) (\<lambda>prices.
         forA (write_price ''binance_prices'' ''binance'' ticker_ttl) prices)))
     | _ \<Rightarrow> ret ())))"

subsection \<open>sources/bittrex.js\<close>

definition bittrex_symbolMap :: "(string \<times> string) list" where
  "bittrex_symbolMap = [(''LSK_BTC'', ''LSK-BTC''), (''BTC_USD'', ''BTC-USD''), (''BTC_EUR'', ''BTC-EUR'')]"

definition bittrex_fetchAllMarketTickers :: "mext \<Rightarrow> jsval mact" where
  "bittrex_fetchAllMarketTickers X =
     tickers_of X ''https://api.bittrex.com/v3/markets/tickers'' [''data''] ''Data from Bittrex is currently unavailable''"

definition bittrex_filterTickers :: "jsval list \<Rightarrow> jserr + jsval list" where
  "bittrex_filterTickers = allowed_tickers bittrex_symbolMap"

definition bittrex_standardizeTickers :: "jsval list \<Rightarrow> mworld \<Rightarrow> jserr + obj list" where
  "bittrex_standardizeTickers tickers w = mapE (\<lambda>s. ticker_price ''bittrex'' ''lastTradeRate'' tickers s w) bittrex_symbolMap"

definition bittrex_getFromCache :: "jsval mact" where
  "bittrex_getFromCache = prices_from_cache ''bittrex'' ''bittrex'' bittrex_symbolMap"

definition bittrex_reload :: "mext \<Rightarrow> unit mact" where
  "bittrex_reload X =
     bnd bittrex_getFromCache (\<lambda>entries. bnd (validateEntries entries ticker_refresh) (\<lambda>stale. if \<not> stale then ret ()
     else bnd (bittrex_fetchAllMarketTickers X) (\<lambda>tv. case tv of
       JArr tickers \<Rightarrow> bnd (liftE (bittrex_filterTickers tickers)) (\<lambda>filtered.
         bnd (getA (\<lambda>w. w)) (\<lambda>w. bnd (liftE (bittrex_standardizeTickers filtered w)) (\<lambda>prices.
         forA (write_price ''bittrex'' ''bittrex'' ticker_ttl) prices)))
     | _ \<Rightarrow> ret ())))"

subsection \<open>sources/kraken.js\<close>

definition kraken_symbolMap :: "(string \<times> string) list" where
  "kraken_symbolMap = [(''LSK_USD'', ''LSKUSD''), (''LSK_EUR'', ''LSKEUR''), (''LSK_BTC'', ''LSKBTC'')]"

definition kraken_fetchAllMarketTickers :: "mext \<Rightarrow> jsval mact" where
  "kraken_fetchAllMarketTickers X =
     tickers_of X (''https://api.kraken.com/0/public/Ticker?pair='' @ join '','' (map snd kraken_symbolMap)) [''data'', ''result'']
       ''Data from Kraken is currently unavailable''"

text \<open>\<open>v[0]\<close>.\<close>

definition first_entry :: "jsval \<Rightarrow> jserr + jsval" where
  "first_entry v = (case v of
       JArr xs \<Rightarrow> Inr (js_first xs)
     | JStr s \<Rightarrow> Inr (case s of [] \<Rightarrow> JUndef | c # _ \<Rightarrow> JStr [c])
     | _ \<Rightarrow> js_prop v ''0'')"

definition kraken_price :: "jsval \<Rightarrow> string \<times> string \<Rightarrow> mworld \<Rightarrow> jserr + obj" where
  "kraken_price tickers = (\<lambda>(code, symbol) w.
     bindE (js_prop tickers (if symbol = ''LSKBTC'' then ''LSKXBT'' else symbol)) (\<lambda>currentTicker.
     bindE (js_prop currentTicker ''c'') (\<lambda>c. bindE (first_entry c) (\<lambda>rate. Inr (source_price ''kraken'' code rate w)))))"

definition kraken_standardizeTickers :: "jsval \<Rightarrow> mworld \<Rightarrow> jserr + obj list" where
  "kraken_standardizeTickers tickers w = mapE (\<lambda>s. kraken_price tickers s w) kraken_symbolMap"

definition kraken_getFromCache :: "jsval mact" where
  "kraken_getFromCache = prices_from_cache ''kraken'' ''kraken'' kraken_symbolMap"

definition nonempty_object :: "jsval \<Rightarrow> bool" where
  "nonempty_object v = (truthy v \<and> (case v of JArr _ \<Rightarrow> True | JStr _ \<Rightarrow> True | _ \<Rightarrow> own_props v \<noteq> []))"

definition kraken_reload :: "mext \<Rightarrow> unit mact" where
  "kraken_reload X =
     bnd kraken_getFromCache (\<lambda>entries. bnd (validateEntries entries ticker_refresh) (\<lambda>stale. if \<not> stale then ret ()
     else bnd (kraken_fetchAllMarketTickers X) (\<lambda>tickers.
       if \<not> nonempty_object tickers then ret ()
       else bnd (getA (\<lambda>w. w)) (\<lambda>w. bnd (liftE (kraken_standardizeTickers tickers w)) (\<lambda>prices.
         forA (write_price ''kraken'' ''kraken'' ticker_ttl) prices)))))"

subsection \<open>sources/exchangeratesapi.js\<close>

definition currencies :: "string list" where "currencies = [''EUR'', ''USD'', ''CHF'', ''BTC'']"

definition era_symbolMap :: "(string \<times> string) list" where
  "era_symbolMap = [(''EUR_USD'', ''EURUSD''), (''EUR_CHF'', ''EURCHF''), (''EUR_BTC'', ''EURBTC'')]"

definition era_url :: "mext \<Rightarrow> string \<Rightarrow> string" where
  "era_url X base = ''http://api.exchangeratesapi.io/v1/latest?access_key='' @ accessKey X @ ''&base='' @ base @ ''&symbols='' @
     join '','' (filter (\<lambda>c. c \<noteq> base) currencies)"

text \<open>The rates are kept in the order in which the answers arrive.\<close>

definition era_fetch :: "mext \<Rightarrow> obj mact" where
  "era_fetch X =
     bnd (mapA (\<lambda>base. bnd (market_request X (era_url X base)) (\<lambda>response.
       if truthy response then bnd (liftE (js_path response [''data'', ''rates''])) (\<lambda>rates. ret [(base, rates)]) else ret []))
       (arrival X currencies)) (\<lambda>parts. ret (spread [] (concat parts)))"

text \<open>An error is returned as if it were the rates; an error object has no entries.\<close>

definition fetchAllCurrencyConversionRates :: "mext \<Rightarrow> obj mact" where
  "fetchAllCurrencyConversionRates X = tryA (era_fetch X) (\<lambda>_. ret [])"

text \<open>Only the first of the lists is used.\<close>

definition conversion_rates :: "string \<times> jsval \<Rightarrow> jserr + (string \<times> jsval) list" where
  "conversion_rates = (\<lambda>(base, rates). if rates \<in> {JUndef, JNull} then Inl (TypeErr ''Cannot convert undefined or null to object'')
     else Inr (map (\<lambda>(target, rate). (base @ ''_'' @ target, rate)) (own_props rates)))"

definition standardizeCurrencyConversionRates :: "obj \<Rightarrow> mworld \<Rightarrow> jserr + obj list" where
  "standardizeCurrencyConversionRates raw w =
     bindE (mapE conversion_rates raw) (\<lambda>lists. Inr (case lists of
       [] \<Rightarrow> []
     | rates # _ \<Rightarrow> map (\<lambda>(symbol, rate). source_price ''exchangeratesapi'' symbol rate w) rates))"

definition era_getFromCache :: "jsval mact" where
  "era_getFromCache = prices_from_cache ''exchangeratesapi_prices'' ''exchangeratesapi'' era_symbolMap"

definition era_ttl :: int where "era_ttl = 24 * 60 * 60 * 100"
definition era_refresh :: int where "era_refresh = 8 * 60 * 60 * 1000"

definition era_reload :: "mext \<Rightarrow> unit mact" where
  "era_reload X =
     (if accessKey X = [] then ret ()
      else bnd era_getFromCache (\<lambda>known. bnd (if truthy known then bnd era_getFromCache (\<lambda>es. validateEntries es era_refresh) else ret True) (\<lambda>stale.
        if \<not> stale then ret ()
        else bnd (fetchAllCurrencyConversionRates X) (\<lambda>raw. bnd (getA (\<lambda>w. w)) (\<lambda>w.
          bnd (liftE (standardizeCurrencyConversionRates raw w)) (\<lambda>rates.
          forA (write_price ''exchangeratesapi_prices'' ''exchangeratesapi'' era_ttl) rates))))))"

subsection \<open>utils/priceUpdater.js and priceUpdater.js\<close>

definition rate_digits :: "mext \<Rightarrow> string \<Rightarrow> nat" where
  "rate_digits X target = (if target \<in> set (js_split '','' (fiatCurrencies X)) then 4 else 8)"

definition formatCalculatedRate :: "mext \<Rightarrow> string \<Rightarrow> jsval \<Rightarrow> jsval" where
  "formatCalculatedRate X target rate = JStr (fixed_rate X (rate_digits X target) rate)"

definition targetPairs :: "mext \<Rightarrow> string list" where
  "targetPairs X = js_split '','' (config_targetPairs X)"

definition getRawPricesBySource :: "(string \<times> jsval) list mact" where
  "getRawPricesBySource =
     bnd binance_getFromCache (\<lambda>a. bnd bittrex_getFromCache (\<lambda>b. bnd era_getFromCache (\<lambda>c. bnd kraken_getFromCache (\<lambda>d.
     ret [(''binance'', a), (''bittrex'', b), (''exchangeratesapi'', c), (''kraken'', d)]))))"

definition source_prices :: "(string \<times> jsval) list \<Rightarrow> jserr + obj list" where
  "source_prices raw =
     bindE (mapE (\<lambda>(source, prices). case prices of
        JArr items \<Rightarrow> mapE (\<lambda>item. bindE (js_prop item ''code'') (\<lambda>c.
          Inr (oset (own_props item) ''code'' (JStr (source @ ''_'' @ js_string c))))) items
      | _ \<Rightarrow> Inr []) raw) (\<lambda>xss. Inr (concat xss))"

definition price_code :: "obj \<Rightarrow> string" where
  "price_code p = js_string (oget p ''code'')"

definition sources_of :: "obj \<Rightarrow> jserr + jsval list" where
  "sources_of p = js_elems (oget p ''sources'')"

text \<open>\<open>Math.min\<close> of two time stamps.\<close>

definition min_stamp :: "jsval \<Rightarrow> jsval \<Rightarrow> jsval" where
  "min_stamp a b = (case (js_number a, js_number b) of (JNum x, JNum y) \<Rightarrow> JNum (min x y) | _ \<Rightarrow> JNaN)"

definition pair_source :: "string \<Rightarrow> string" where "pair_source pair = js_string (code_part 0 pair)"
definition pair_target :: "string \<Rightarrow> string" where "pair_target pair = js_string (code_part 1 pair)"

definition exact_price :: "mext \<Rightarrow> string \<Rightarrow> obj \<Rightarrow> obj" where
  "exact_price X pair rps =
     oset (oset rps ''code'' (JStr pair)) ''rate'' (formatCalculatedRate X (pair_target pair) (oget rps ''rate''))"

definition calculated_price :: "mext \<Rightarrow> string \<Rightarrow> obj \<Rightarrow> obj \<Rightarrow> jserr + obj list" where
  "calculated_price X pair rps rpt =
     (if price_code rps = price_code rpt then Inr []
      else bindE (sources_of rps) (\<lambda>a. bindE (sources_of rpt) (\<lambda>b.
        if strict_eq (js_first a) (js_first b) then Inr []
        else Inr [[(''code'', JStr pair), (''from'', code_part 0 pair), (''to'', code_part 1 pair),
          (''rate'', JStr (fixed_product X (rate_digits X (pair_target pair)) (oget rps ''rate'') (oget rpt ''rate''))),
          (''updateTimestamp'', min_stamp (oget rps ''updateTimestamp'') (oget rpt ''updateTimestamp'')),
          (''sources'', JArr (a @ b))]])))"

definition prices_via :: "mext \<Rightarrow> string \<Rightarrow> obj list \<Rightarrow> obj \<Rightarrow> jserr + obj list" where
  "prices_via X pair targets rps =
     (if ends_with (''_'' @ pair) (price_code rps) then Inr [exact_price X pair rps]
      else bindE (mapE (calculated_price X pair rps)
        (filter (\<lambda>rpt. str_includes (''_'' @ js_string (code_part 2 (price_code rps)) @ ''_'') (price_code rpt)) targets)) (\<lambda>xss.
        Inr (concat xss)))"

definition fewer_sources :: "obj \<Rightarrow> obj \<Rightarrow> jserr + int" where
  "fewer_sources a b =
     bindE (js_prop (oget a ''sources'') ''length'') (\<lambda>m. bindE (js_prop (oget b ''sources'') ''length'') (\<lambda>n.
     bindE (js_sub m n) (\<lambda>d. Inr (as_int d))))"

definition pair_prices :: "mext \<Rightarrow> obj list \<Rightarrow> string \<Rightarrow> jserr + obj list" where
  "pair_prices X prices pair =
     (let matchingSource = filter (\<lambda>p. str_includes (''_'' @ pair_source pair @ ''_'') (price_code p)) prices;
          matchingTarget = filter (\<lambda>p. ends_with (''_'' @ pair_target pair) (price_code p)) prices in
      foldE (\<lambda>acc rps. bindE (prices_via X pair matchingTarget rps) (\<lambda>new. js_sort fewer_sources (acc @ new))) [] matchingSource)"

definition calcTargetPairPrices :: "mext \<Rightarrow> (string \<times> jsval) list \<Rightarrow> jserr + (string \<times> obj list) list" where
  "calcTargetPairPrices X raw =
     bindE (source_prices raw) (\<lambda>prices. mapE (\<lambda>pair. bindE (pair_prices X prices pair) (\<lambda>ps. Inr (pair, ps))) (targetPairs X))"

definition updatePricesCache :: "(string \<times> obj list) list \<Rightarrow> unit mact" where
  "updatePricesCache prices = forA (\<lambda>(pair, ps).
     bnd (liftE (json_stringify (JArr (map JObj ps)))) (\<lambda>t. cache_set ''market_prices'' pair (js_string t) None)) prices"

definition updatePrices :: "mext \<Rightarrow> bool mact" where
  "updatePrices X =
     bnd getRawPricesBySource (\<lambda>raw. bnd (liftE (calcTargetPairPrices X raw)) (\<lambda>prices.
     thn (updatePricesCache prices) (ret True)))"

subsection \<open>market.js, the controller and the status\<close>

definition getMarketPricesFromCache :: "mext \<Rightarrow> (string \<times> jsval) list mact" where
  "getMarketPricesFromCache X =
     bnd (mapA (\<lambda>pair. bnd (cache_get ''market_prices'' pair) (\<lambda>r. case r of
        None \<Rightarrow> ret []
      | Some t \<Rightarrow> if t = [] then ret [] else bnd (liftE (json_parse t)) (\<lambda>v. ret [(pair, v)]))) (targetPairs X)) (\<lambda>parts.
     ret (spread [] (concat parts)))"

text \<open>The prices up to the first one that is set.\<close>

fun until_set :: "jsval list \<Rightarrow> jsval list" where
  "until_set [] = []"
| "until_set (p # ps) = p # (if truthy p then [] else until_set ps)"

definition first_price :: "jsval \<Rightarrow> jserr + jsval list" where
  "first_price v = (case v of
       JArr ps \<Rightarrow> Inr (until_set ps)
     | _ \<Rightarrow> bindE (js_prop v ''length'') (\<lambda>n. if truthy n then Inl (TypeErr ''prices.shift is not a function'') else Inr []))"

definition getMarketPrices :: "mext \<Rightarrow> jsval mact" where
  "getMarketPrices X =
     bnd (getMarketPricesFromCache X) (\<lambda>byPair. bnd (liftE (mapE first_price (map snd byPair))) (\<lambda>xss.
     let data = concat xss in
     if data = [] then throw (UnavailableErr ''Service is not ready yet'')
     else ret (JObj [(''data'', JArr data), (''meta'', JObj [(''count'', JNum (int (length data)))])])))"

definition api_getMarketPrices :: "mext \<Rightarrow> jsval mact" where
  "api_getMarketPrices X =
     tryA (bnd (getMarketPrices X) (\<lambda>r. bnd (mprop r ''data'') (\<lambda>d. bnd (mprop r ''meta'') (\<lambda>m.
       ret (JObj [(''data'', js_or d (JArr [])), (''meta'', js_or m (JObj []))])))))
     (\<lambda>e. case e of
        UnavailableErr msg \<Rightarrow> ret (JObj [(''status'', JStr ''SERVICE_UNAVAILABLE''), (''data'', JObj [(''error'', JStr msg)])])
      | _ \<Rightarrow> throw e)"

definition market_getStatus :: "mext \<Rightarrow> jsval mact" where
  "market_getStatus X =
     thn (bnd (getA mk_ready) (\<lambda>ready. if ready then ret ()
       else bnd (getMarketPrices X) (\<lambda>r. bnd (liftE (js_path r [''data'', ''length''])) (\<lambda>n. modA (\<lambda>w. w\<lparr>mk_ready := truthy n\<rparr>)))))
     (getA (\<lambda>w. JObj [(''service'', JStr ''lisk-service-market''), (''version'', JStr ''0.7.0-beta.0''), (''isReady'', JBool (mk_ready w))]))"

subsection \<open>jobs\<close>

text \<open>An exchange that is not available is tried again with the next run.\<close>

definition reloadMarketPrices :: "unit mact \<Rightarrow> unit mact" where
  "reloadMarketPrices reload = tryA reload (\<lambda>e. case e of UnavailableErr _ \<Rightarrow> ret () | _ \<Rightarrow> throw e)"

definition binance_job :: "mext \<Rightarrow> unit mact" where "binance_job X = reloadMarketPrices (binance_reload X)"
definition bittrex_job :: "mext \<Rightarrow> unit mact" where "bittrex_job X = reloadMarketPrices (bittrex_reload X)"
definition kraken_job :: "mext \<Rightarrow> unit mact" where "kraken_job X = reloadMarketPrices (kraken_reload X)"
definition era_job :: "mext \<Rightarrow> unit mact" where "era_job X = era_reload X"
definition prices_job :: "mext \<Rightarrow> unit mact" where "prices_job X = thn (updatePrices X) (ret ())"

end
