(* ===== verification/MarketProps.thy ===== *)
theory MarketProps
  imports Market "HOL-Library.Multiset"
begin

text \<open>
  What the market service promises: the prices of a target pair are exactly the quotes for the pair and the products
  of two quotes over a third currency at two exchanges, quotes first; and the answer to a client is the first of them.
\<close>

subsection \<open>Codes\<close>

lemma str_includes_iff: "str_includes t s \<longleftrightarrow> (\<exists>u v. s = u @ t @ v)"
proof (induction s)
  case (Cons c s)
  show ?case
  proof
    assume "str_includes t (c # s)"
    then consider "take (length t) (c # s) = t" | "str_includes t s" by auto
    then show "\<exists>u v. c # s = u @ t @ v"
    proof cases
      case 1
      then have "t @ drop (length t) (c # s) = c # s" using append_take_drop_id [of "length t" "c # s"] by argo
      then show ?thesis by (metis append_Nil)
    next
      case 2
      with Cons obtain u v where "s = u @ t @ v" by blast
      then show ?thesis by (intro exI [of _ "c # u"] exI [of _ v]) simp
    qed
  next
    assume "\<exists>u v. c # s = u @ t @ v"
    then obtain u v where uv: "c # s = u @ t @ v" by blast
    show "str_includes t (c # s)"
    proof (cases u)
      case Nil
      with uv have "take (length t) (c # s) = t" by (metis append_Nil append_eq_conv_conj)
      then show ?thesis by simp
    next
      case (Cons d u')
      with uv Cons.IH show ?thesis by auto
    qed
  qed
qed simp

lemma ends_with_iff: "ends_with t s \<longleftrightarrow> (\<exists>u. s = u @ t)"
  unfolding ends_with_def by (metis append_eq_conv_conj append_take_drop_id diff_add_inverse2 le_add2 length_append)

abbreviation bar :: char where "bar \<equiv> CHR ''_''"

definition code3 :: "string \<Rightarrow> string \<Rightarrow> string \<Rightarrow> string" where
  "code3 s a b = s @ ''_'' @ a @ ''_'' @ b"

definition plain :: "string \<Rightarrow> bool" where "plain s = (bar \<notin> set s)"

lemma bar_unique: "plain s \<Longrightarrow> plain t \<Longrightarrow> s @ bar # u = t @ bar # v \<longleftrightarrow> s = t \<and> u = v"
  by (induction s arbitrary: t) (case_tac t; auto simp: plain_def)+

lemma bar_last: "plain u \<Longrightarrow> plain v \<Longrightarrow> s @ bar # u = t @ bar # v \<longleftrightarrow> s = t \<and> u = v"
  using bar_unique [of "rev u" "rev v" "rev s" "rev t"]
  by (metis (no_types, lifting) plain_def rev.simps(2) rev_append rev_is_rev_conv set_rev append.assoc append_Cons append_Nil)

lemma code3_inject: "plain s \<Longrightarrow> plain a \<Longrightarrow> plain t \<Longrightarrow> plain c \<Longrightarrow> code3 s a b = code3 t c d \<longleftrightarrow> s = t \<and> a = c \<and> b = d"
  by (simp add: code3_def bar_unique)

lemma code_includes:
  assumes "plain s" "plain a" "plain b" "plain x"
  shows "str_includes (bar # x @ [bar]) (code3 s a b) \<longleftrightarrow> x = a"
proof
  assume "str_includes (bar # x @ [bar]) (code3 s a b)"
  then obtain u v where uv: "s @ bar # a @ bar # b = u @ bar # x @ bar # v" by (auto simp: str_includes_iff code3_def)
  then have "count_list (s @ bar # a @ bar # b) bar = count_list (u @ bar # x @ bar # v) bar" by simp
  then have "plain u" using assms by (simp add: plain_def count_list_0_iff [symmetric])
  with uv assms show "x = a" by (simp add: bar_unique)
next
  assume "x = a"
  then show "str_includes (bar # x @ [bar]) (code3 s a b)" by (auto simp: str_includes_iff code3_def)
qed

lemma code_ends: "plain b \<Longrightarrow> plain y \<Longrightarrow> ends_with (bar # y) (code3 s a b) \<longleftrightarrow> y = b"
proof
  assume p: "plain b" "plain y" and "ends_with (bar # y) (code3 s a b)"
  then obtain u where "(s @ bar # a) @ bar # b = u @ bar # y" by (auto simp: ends_with_iff code3_def)
  with p show "y = b" using bar_last by blast
qed (auto simp: ends_with_iff code3_def)

lemma code_ends_pair:
  assumes "plain s" "plain a" "plain b" "plain x" "plain y"
  shows "ends_with (bar # x @ bar # y) (code3 s a b) \<longleftrightarrow> x = a \<and> y = b"
proof
  assume "ends_with (bar # x @ bar # y) (code3 s a b)"
  then obtain u where u: "(s @ bar # a) @ bar # b = (u @ bar # x) @ bar # y" by (auto simp: ends_with_iff code3_def)
  then have "y = b" "s @ bar # a = u @ bar # x" using bar_last assms by blast+
  then show "x = a \<and> y = b" using bar_last assms by blast
qed (auto simp: ends_with_iff code3_def)

lemma split_plain: "plain s \<Longrightarrow> split_from ''_'' acc s = [rev acc @ s]"
  by (induction s arbitrary: acc) (auto simp: plain_def)

lemma split_bar: "plain s \<Longrightarrow> split_from ''_'' acc (s @ bar # t) = (rev acc @ s) # split_from ''_'' [] t"
  by (induction s arbitrary: acc) (auto simp: plain_def)

lemma pair_parts:
  assumes "plain x" "plain y"
  shows "pair_source (x @ bar # y) = x" "pair_target (x @ bar # y) = y"
  using assms by (simp_all add: pair_source_def pair_target_def code_part_def js_split_def split_bar split_plain at_str_def)

lemma code_part_2: "plain s \<Longrightarrow> plain a \<Longrightarrow> plain b \<Longrightarrow> code_part 2 (code3 s a b) = JStr b"
  by (simp add: code3_def code_part_def js_split_def split_bar split_plain at_str_def)

subsection \<open>Quotes\<close>

text \<open>A price that an exchange quotes, as it is put into the list of source prices.\<close>

definition quote :: "obj \<Rightarrow> string \<Rightarrow> string \<Rightarrow> string \<Rightarrow> bool" where
  "quote p s a b = (price_code p = code3 s a b \<and> oget p ''sources'' = JArr [JStr s] \<and> plain s \<and> plain a \<and> plain b)"

definition quoted :: "obj \<Rightarrow> bool" where
  "quoted p = (\<exists>s a b. quote p s a b)"

lemma quote_unique: "quote p s a b \<Longrightarrow> quote p t c d \<Longrightarrow> s = t \<and> a = c \<and> b = d"
  by (auto simp: quote_def code3_inject)

text \<open>The price of a pair that comes out of two quotes.\<close>

definition over_third :: "mext \<Rightarrow> string \<Rightarrow> obj \<Rightarrow> string \<Rightarrow> obj \<Rightarrow> string \<Rightarrow> obj" where
  "over_third X pair p s r t =
     [(''code'', JStr pair), (''from'', code_part 0 pair), (''to'', code_part 1 pair),
      (''rate'', JStr (fixed_product X (rate_digits X (pair_target pair)) (oget p ''rate'') (oget r ''rate''))),
      (''updateTimestamp'', min_stamp (oget p ''updateTimestamp'') (oget r ''updateTimestamp'')),
      (''sources'', JArr [JStr s, JStr t])]"

definition pair_of :: "string \<Rightarrow> string \<Rightarrow> string" where "pair_of x y = x @ ''_'' @ y"

text \<open>The specification: what a pair can be computed from.\<close>

inductive_set pair_spec :: "mext \<Rightarrow> obj list \<Rightarrow> string \<Rightarrow> string \<Rightarrow> obj set" for X prices x y where
  direct: "p \<in> set prices \<Longrightarrow> quote p s x y \<Longrightarrow> exact_price X (pair_of x y) p \<in> pair_spec X prices x y"
| via: "p \<in> set prices \<Longrightarrow> r \<in> set prices \<Longrightarrow> quote p s x m \<Longrightarrow> quote r t m y \<Longrightarrow> m \<noteq> y \<Longrightarrow> s \<noteq> t \<Longrightarrow>
    over_third X (pair_of x y) p s r t \<in> pair_spec X prices x y"

lemma calculated_quotes:
  assumes "quote p s x m" "quote r t m y" "m \<noteq> y"
  shows "calculated_price X pair p r = Inr (if s = t then [] else [over_third X pair p s r t])"
proof -
  have "price_code p \<noteq> price_code r" using assms by (auto simp: quote_def code3_inject)
  then show ?thesis using assms(1,2) by (auto simp: calculated_price_def sources_of_def quote_def js_first_def over_third_def)
qed

definition exchange_of :: "obj \<Rightarrow> string" where
  "exchange_of p = (case oget p ''sources'' of JArr (JStr s # _) \<Rightarrow> s | _ \<Rightarrow> [])"

lemma quote_exchange: "quote p s a b \<Longrightarrow> exchange_of p = s"
  by (simp add: quote_def exchange_of_def)

lemma third_quotes:
  assumes "\<forall>r \<in> set prices. quoted r" "plain m" "plain y" "r \<in> set prices"
  shows "str_includes (bar # m @ [bar]) (price_code r) \<and> ends_with (bar # y) (price_code r) \<longleftrightarrow> quote r (exchange_of r) m y"
proof -
  obtain t a b where q: "quote r t a b" using assms by (auto simp: quoted_def)
  then show ?thesis using assms(2,3) code_includes [of t a b m] code_ends [of b y t a] quote_exchange [OF q]
    by (auto simp: quote_def code3_inject)
qed

lemma via_quotes:
  assumes "quote p s x m" "plain x" "plain y" "\<forall>r \<in> set prices. quoted r"
  shows "\<exists>qs. prices_via X (pair_of x y) (filter (\<lambda>r. ends_with (bar # y) (price_code r)) prices) p = Inr qs \<and>
    set qs = (if m = y then {exact_price X (pair_of x y) p}
      else {over_third X (pair_of x y) p s r t |r t. r \<in> set prices \<and> quote r t m y \<and> s \<noteq> t})"
proof (cases "m = y")
  case True
  then show ?thesis using assms by (simp add: prices_via_def pair_of_def quote_def code_ends_pair)
next
  case False
  let ?rs = "filter (\<lambda>r. str_includes (bar # m @ [bar]) (price_code r)) (filter (\<lambda>r. ends_with (bar # y) (price_code r)) prices)"
  let ?f = "\<lambda>r. if s = exchange_of r then [] else [over_third X (pair_of x y) p s r (exchange_of r)]"
  have m: "plain m" "js_string (code_part 2 (price_code p)) = m" using assms(1) by (auto simp: quote_def code_part_2)
  have rs: "r \<in> set ?rs \<longleftrightarrow> r \<in> set prices \<and> quote r (exchange_of r) m y" for r
    using third_quotes [OF assms(4) m(1) assms(3)] by auto
  have "mapE (calculated_price X (pair_of x y) p) ?rs = Inr (map ?f ?rs)"
    by (rule mapE_map) (use rs calculated_quotes [OF assms(1) _ False] in auto)
  moreover have "\<not> ends_with (bar # x @ bar # y) (price_code p)" using assms(1-3) False by (auto simp: quote_def code_ends_pair)
  ultimately have "prices_via X (pair_of x y) (filter (\<lambda>r. ends_with (bar # y) (price_code r)) prices) p = Inr (concat (map ?f ?rs))"
    by (simp add: prices_via_def pair_of_def m(2))
  moreover have "set (concat (map ?f ?rs)) = {over_third X (pair_of x y) p s r t |r t. r \<in> set prices \<and> quote r t m y \<and> s \<noteq> t}" (is "?L = ?R")
  proof (intro set_eqI iffI)
    fix q assume "q \<in> ?L"
    then obtain r where "r \<in> set ?rs" "s \<noteq> exchange_of r" "q = over_third X (pair_of x y) p s r (exchange_of r)" by (auto split: if_splits)
    with rs show "q \<in> ?R" by blast
  next
    fix q assume "q \<in> ?R"
    then obtain r t where r: "r \<in> set prices" "quote r t m y" "s \<noteq> t" "q = over_third X (pair_of x y) p s r t" by blast
    then have "exchange_of r = t" by (simp add: quote_exchange)
    with r rs [of r] have "r \<in> set ?rs" "q \<in> set (?f r)" by auto
    then show "q \<in> ?L" unfolding set_concat set_map by blast
  qed
  ultimately show ?thesis using False by auto
qed

subsection \<open>The order of the prices\<close>

definition n_sources :: "obj \<Rightarrow> int" where
  "n_sources p = (case oget p ''sources'' of JArr vs \<Rightarrow> int (length vs) | _ \<Rightarrow> 0)"

lemma sources_comparator: "js_comparator fewer_sources (\<lambda>a b. n_sources a - n_sources b) {p. \<exists>vs. oget p ''sources'' = JArr vs}"
  by unfold_locales (auto simp: fewer_sources_def n_sources_def js_sub_def as_int_def)

definition has_sources :: "obj \<Rightarrow> bool" where "has_sources p = (\<exists>vs. oget p ''sources'' = JArr vs)"

lemma sorted_fold:
  assumes "\<forall>p \<in> set ps. \<exists>qs. via p = Inr qs \<and> set qs = S p \<and> (\<forall>q \<in> set qs. has_sources q)"
    and "\<forall>q \<in> set acc. has_sources q" and "sorted_wrt (\<lambda>a b. n_sources a \<le> n_sources b) acc"
  shows "\<exists>qs. foldE (\<lambda>acc p. bindE (via p) (\<lambda>new. js_sort fewer_sources (acc @ new))) acc ps = Inr qs \<and>
    set qs = set acc \<union> (\<Union>p \<in> set ps. S p) \<and> sorted_wrt (\<lambda>a b. n_sources a \<le> n_sources b) qs"
  using assms
proof (induction ps arbitrary: acc)
  case (Cons p ps)
  obtain new where new: "via p = Inr new" "set new = S p" "\<forall>q \<in> set new. has_sources q" using Cons.prems(1) by auto
  have "set (acc @ new) \<subseteq> {p. \<exists>vs. oget p ''sources'' = JArr vs}" using new(3) Cons.prems(2) by (auto simp: has_sources_def)
  then obtain zs where zs: "js_sort fewer_sources (acc @ new) = Inr zs" "mset zs = mset (acc @ new)" "sorted_wrt (\<lambda>a b. n_sources b - n_sources a \<ge> 0) zs"
    using js_comparator.sort_sorted [OF sources_comparator] by blast
  then have set: "set zs = set acc \<union> S p" using new(2) by (metis set_append set_mset_mset)
  have "\<exists>qs. foldE (\<lambda>acc p. bindE (via p) (\<lambda>new. js_sort fewer_sources (acc @ new))) zs ps = Inr qs \<and>
    set qs = set zs \<union> (\<Union>p \<in> set ps. S p) \<and> sorted_wrt (\<lambda>a b. n_sources a \<le> n_sources b) qs"
    using Cons.prems new set zs(3) by (intro Cons.IH) auto
  then show ?case using new(1) zs(1) set by auto
qed auto

lemma spec_sources:
  assumes "q \<in> pair_spec X prices x y"
  shows "has_sources q"
  using assms
proof cases
  case (direct p s)
  then show ?thesis by (simp add: has_sources_def quote_def exact_price_def oget_oset)
qed (simp add: has_sources_def over_third_def)

text \<open>
  C30. The prices of a target pair are exactly what can be had from the exchanges: the quotes for the pair itself, and the products of a quote
  from the first currency to a third with a quote from there to the second at another exchange. Prices with fewer
  sources come first, so a quote for the pair itself is preferred to a computed price.
\<close>

theorem pair_prices_spec:
  assumes "\<forall>p \<in> set prices. quoted p" and "plain x" and "plain y"
  shows "\<exists>ps. pair_prices X prices (pair_of x y) = Inr ps \<and> set ps = pair_spec X prices x y \<and>
    sorted_wrt (\<lambda>a b. n_sources a \<le> n_sources b) ps"
proof -
  let ?targets = "filter (\<lambda>r. ends_with (bar # y) (price_code r)) prices"
  let ?ps = "filter (\<lambda>p. str_includes (bar # x @ [bar]) (price_code p)) prices"
  let ?S = "\<lambda>p. {q. \<exists>s m. quote p s x m \<and> (if m = y then q = exact_price X (pair_of x y) p
    else \<exists>r t. r \<in> set prices \<and> quote r t m y \<and> s \<noteq> t \<and> q = over_third X (pair_of x y) p s r t)}"
  have ps: "p \<in> set ?ps \<longleftrightarrow> p \<in> set prices \<and> (\<exists>s m. quote p s x m)" for p
  proof -
    have "str_includes (bar # x @ [bar]) (price_code p) \<longleftrightarrow> a = x" if "quote p s a b" for s a b
      using that assms(2) code_includes [of s a b x] by (auto simp: quote_def)
    then show ?thesis using assms(1) by (fastforce simp: quoted_def dest: quote_unique)
  qed
  have spec: "pair_spec X prices x y = (\<Union>p \<in> set ?ps. ?S p)"
  proof (intro set_eqI iffI)
    fix q assume "q \<in> pair_spec X prices x y"
    then show "q \<in> (\<Union>p \<in> set ?ps. ?S p)"
    proof cases
      case (direct p s)
      then have "p \<in> set ?ps" "q \<in> ?S p" using ps by auto
      then show ?thesis by blast
    next
      case (via p r s m t)
      then have "p \<in> set ?ps" "q \<in> ?S p" using ps by auto
      then show ?thesis by blast
    qed
  next
    fix q assume "q \<in> (\<Union>p \<in> set ?ps. ?S p)"
    then show "q \<in> pair_spec X prices x y" using ps by (auto split: if_splits intro: pair_spec.intros)
  qed
  have "\<exists>qs. prices_via X (pair_of x y) ?targets p = Inr qs \<and> set qs = ?S p \<and> (\<forall>q \<in> set qs. has_sources q)" if member: "p \<in> set ?ps" for p
  proof -
    obtain s m where q: "quote p s x m" using member ps by blast
    obtain qs where qs: "prices_via X (pair_of x y) ?targets p = Inr qs" "set qs = (if m = y then {exact_price X (pair_of x y) p}
      else {over_third X (pair_of x y) p s r t |r t. r \<in> set prices \<and> quote r t m y \<and> s \<noteq> t})"
      using via_quotes [OF q assms(2,3,1)] by blast
    have "quote p s' x m' \<longleftrightarrow> s' = s \<and> m' = m" for s' m' using q quote_unique by blast
    then have "set qs = ?S p" using qs(2) by auto
    moreover have "?S p \<subseteq> pair_spec X prices x y" using spec member by blast
    ultimately show ?thesis using qs(1) spec_sources by blast
  qed
  then obtain qs where "foldE (\<lambda>acc p. bindE (prices_via X (pair_of x y) ?targets p) (\<lambda>new. js_sort fewer_sources (acc @ new))) [] ?ps = Inr qs"
    "set qs = (\<Union>p \<in> set ?ps. ?S p)" "sorted_wrt (\<lambda>a b. n_sources a \<le> n_sources b) qs"
    using sorted_fold [of ?ps "prices_via X (pair_of x y) ?targets" ?S "[]"] by auto
  then show ?thesis using assms(2,3) spec by (simp add: pair_prices_def Let_def pair_of_def pair_parts)
qed

definition demo_mext :: mext where
  "demo_mext = \<lparr>exchange = (\<lambda>_ _. Inl (Err [])), arrival = id, fixed_rate = (\<lambda>n v. js_string v), fixed_product = (\<lambda>n a b. js_string a @ ''*'' @ js_string b),
     accessKey = [], fiatCurrencies = ''EUR,USD,CHF,GBP,RUB'', config_targetPairs = ''LSK_BTC,LSK_EUR''\<rparr>"

definition demo_quotes :: "obj list" where
  "demo_quotes = [
     [(''code'', JStr ''binance_LSK_BTC''), (''rate'', JStr ''2''), (''updateTimestamp'', JNum 5), (''sources'', JArr [JStr ''binance''])],
     [(''code'', JStr ''bittrex_BTC_EUR''), (''rate'', JStr ''3''), (''updateTimestamp'', JNum 4), (''sources'', JArr [JStr ''bittrex''])]]"

lemma demo_quoted: "\<forall>p \<in> set demo_quotes. quoted p"
proof -
  have "quote (demo_quotes ! 0) ''binance'' ''LSK'' ''BTC''" "quote (demo_quotes ! 1) ''bittrex'' ''BTC'' ''EUR''"
    by (simp_all add: demo_quotes_def quote_def price_code_def code3_def plain_def)
  then show ?thesis by (auto simp: demo_quotes_def quoted_def)
qed

theorem pair_prices_spec_witness:
  "\<exists>ps. pair_prices demo_mext demo_quotes (pair_of ''LSK'' ''EUR'') = Inr ps \<and> set ps = pair_spec demo_mext demo_quotes ''LSK'' ''EUR''"
  using pair_prices_spec [OF demo_quoted, of "''LSK''" "''EUR''" demo_mext] by (auto simp: plain_def)

subsection \<open>What clients see\<close>

lemma run_cache_set:
  "cache_set bank key v ttl w = (Inr (), w\<lparr>mk_cache := AList.update (bank @ '':'' @ key) (v, map_option (\<lambda>t. mk_now w + t) ttl) (mk_cache w)\<rparr>)"
  by (simp add: cache_set_def)

definition shown :: "obj list \<Rightarrow> bool" where
  "shown ps = json_plain (map JObj ps)"

lemma prices_stored:
  assumes "\<forall>(pair, ps) \<in> set prices. shown ps" and "distinct (map fst prices)"
  shows "\<exists>w'. updatePricesCache prices w = (Inr (), w') \<and> mk_now w' = mk_now w \<and>
    (\<forall>(pair, ps) \<in> set prices. \<exists>t. map_of (mk_cache w') (''market_prices:'' @ pair) = Some (t, None) \<and> json_parse t = Inr (JArr (map JObj ps))) \<and>
    (\<forall>pair. pair \<notin> fst ` set prices \<longrightarrow> map_of (mk_cache w') (''market_prices:'' @ pair) = map_of (mk_cache w) (''market_prices:'' @ pair))"
  using assms
proof (induction prices arbitrary: w)
  case Nil
  show ?case by (simp add: updatePricesCache_def)
next
  case (Cons p prices)
  obtain pair ps where p: "p = (pair, ps)" by fastforce
  then obtain t where t: "json_stringify (JArr (map JObj ps)) = Inr (JStr t)" "json_parse t = Inr (JArr (map JObj ps))"
    using Cons.prems(1) json_plain_text [of "map JObj ps"] by (auto simp: shown_def)
  let ?w = "w\<lparr>mk_cache := AList.update (''market_prices:'' @ pair) (t, None) (mk_cache w)\<rparr>"
  obtain w' where w': "updatePricesCache prices ?w = (Inr (), w')" "mk_now w' = mk_now ?w"
    "\<forall>(pair, ps) \<in> set prices. \<exists>t. map_of (mk_cache w') (''market_prices:'' @ pair) = Some (t, None) \<and> json_parse t = Inr (JArr (map JObj ps))"
    "\<forall>pair. pair \<notin> fst ` set prices \<longrightarrow> map_of (mk_cache w') (''market_prices:'' @ pair) = map_of (mk_cache ?w) (''market_prices:'' @ pair)"
    using Cons.IH [of ?w] Cons.prems by auto
  have "updatePricesCache (p # prices) w = (Inr (), w')"
    using w'(1) t(1) by (simp add: updatePricesCache_def p thn_def bnd_def run_cache_set)
  moreover have "map_of (mk_cache w') (''market_prices:'' @ pair) = Some (t, None)" using w'(4) Cons.prems(2) p by simp
  ultimately show ?case using w'(2,3,4) t(2) p by auto
qed

text \<open>The first price of every pair that has one.\<close>

definition best_prices :: "(string \<times> obj list) list \<Rightarrow> jsval list" where
  "best_prices prices = concat (map (\<lambda>(_, ps). take 1 (map JObj ps)) prices)"

lemma parse_nothing: "json_parse [] \<noteq> Inr v"
  by code_simp

lemma pairs_read:
  assumes "\<forall>(pair, ps) \<in> set prices. \<exists>t. map_of (mk_cache w) (''market_prices:'' @ pair) = Some (t, None) \<and> json_parse t = Inr (JArr (map JObj ps))"
  shows "mapA (\<lambda>pair. bnd (cache_get ''market_prices'' pair) (\<lambda>r. case r of None \<Rightarrow> ret []
      | Some t \<Rightarrow> if t = [] then ret [] else bnd (liftE (json_parse t)) (\<lambda>v. ret [(pair, v)]))) (map fst prices) w =
    (Inr (map (\<lambda>(pair, ps). [(pair, JArr (map JObj ps))]) prices), w)"
  using assms
proof (induction prices)
  case (Cons p prices)
  obtain pair ps t where p: "p = (pair, ps)" "map_of (mk_cache w) (''market_prices:'' @ pair) = Some (t, None)" "json_parse t = Inr (JArr (map JObj ps))"
    using Cons.prems by (cases p) auto
  then have "t \<noteq> []" using parse_nothing by metis
  with p Cons show ?case by (simp add: bnd_def cache_get_def unexpired_def)
qed simp

lemma calculated_pairs:
  assumes "calcTargetPairPrices X raw = Inr prices"
  shows "map fst prices = targetPairs X"
proof -
  have "mapE (\<lambda>pair. bindE (f pair) (\<lambda>ps. Inr (pair, ps))) pairs = Inr qs \<Longrightarrow> map fst qs = pairs" for f :: "string \<Rightarrow> jserr + obj list" and pairs qs
    by (induction pairs arbitrary: qs) (auto simp: act_ok)
  then show ?thesis using assms by (auto simp: calcTargetPairPrices_def act_ok)
qed

text \<open>
  C31. After an update, a client is answered with one price for every target pair that has any, and it is the first of its list, so a quote for
  the pair itself whenever there is one; with no price at all the service says that it is not ready.
\<close>

theorem best_prices_answered:
  assumes "getRawPricesBySource w = (Inr raw, w)" and "calcTargetPairPrices X raw = Inr prices"
    and "distinct (targetPairs X)" and "\<forall>(pair, ps) \<in> set prices. shown ps"
  shows "fst (getMarketPrices X (snd (updatePrices X w))) =
    (if best_prices prices = [] then Inl (UnavailableErr ''Service is not ready yet'')
     else Inr (JObj [(''data'', JArr (best_prices prices)), (''meta'', JObj [(''count'', JNum (int (length (best_prices prices))))])]))"
proof -
  note pairs = calculated_pairs [OF assms(2)]
  obtain w' where w': "updatePricesCache prices w = (Inr (), w')"
    "\<forall>(pair, ps) \<in> set prices. \<exists>t. map_of (mk_cache w') (''market_prices:'' @ pair) = Some (t, None) \<and> json_parse t = Inr (JArr (map JObj ps))"
    using prices_stored [of prices w] assms(3,4) pairs by auto
  have upd: "snd (updatePrices X w) = w'" using w'(1) assms(1,2) by (simp add: updatePrices_def bnd_def thn_def)
  have "concat (map (\<lambda>(pair, ps). [(pair, JArr (map JObj ps))]) prices) = map (\<lambda>(pair, ps). (pair, JArr (map JObj ps))) prices"
    by (induction prices) auto
  moreover have "distinct (map fst (map (\<lambda>(pair, ps). (pair, JArr (map JObj ps))) prices))"
    using assms(3) pairs by (simp add: comp_def case_prod_unfold)
  ultimately have read: "getMarketPricesFromCache X w' = (Inr (map (\<lambda>(pair, ps). (pair, JArr (map JObj ps))) prices), w')"
    using pairs_read [OF w'(2)] pairs spread_distinct [of "[]"] by (simp add: getMarketPricesFromCache_def bnd_def)
  have "until_set (map JObj ps) = take 1 (map JObj ps)" for ps by (cases ps) auto
  then have "mapE first_price (map snd (map (\<lambda>(pair, ps). (pair, JArr (map JObj ps))) prices)) = Inr (map (\<lambda>(_, ps). take 1 (map JObj ps)) prices)"
    by (induction prices) (auto simp: first_price_def)
  then show ?thesis using read upd by (simp add: getMarketPrices_def bnd_def best_prices_def Let_def)
qed

definition demo_prices :: mworld where
  "demo_prices = \<lparr>mk_cache = [(''kraken:kraken_LSK_USD'', (''{\"code\":\"LSK_USD\",\"rate\":\"1\",\"updateTimestamp\":5,\"sources\":[\"kraken\"]}'', None)),
     (''kraken:kraken_LSK_EUR'', (''{\"code\":\"LSK_EUR\",\"rate\":\"2\",\"updateTimestamp\":5,\"sources\":[\"kraken\"]}'', None)),
     (''kraken:kraken_LSK_BTC'', (''{\"code\":\"LSK_BTC\",\"rate\":\"3\",\"updateTimestamp\":5,\"sources\":[\"kraken\"]}'', None))],
     mk_now = 0, mk_requests = 0, mk_ready = False\<rparr>"

definition demo_raw :: "(string \<times> jsval) list" where
  "demo_raw = [(''binance'', JNull), (''bittrex'', JNull), (''exchangeratesapi'', JNull), (''kraken'', JArr (map (\<lambda>(c, r).
     JObj [(''code'', JStr c), (''rate'', JStr r), (''updateTimestamp'', JNum 5), (''sources'', JArr [JStr ''kraken''])])
     [(''LSK_USD'', ''1''), (''LSK_EUR'', ''2''), (''LSK_BTC'', ''3'')]))]"

definition demo_price :: "string \<Rightarrow> string \<Rightarrow> obj" where
  "demo_price c r = [(''code'', JStr c), (''rate'', JStr r), (''updateTimestamp'', JNum 5), (''sources'', JArr [JStr ''kraken''])]"

lemma demo_raw_read: "getRawPricesBySource demo_prices = (Inr demo_raw, demo_prices)"
  by code_simp

lemma demo_calculated:
  "calcTargetPairPrices demo_mext demo_raw = Inr [(''LSK_BTC'', [demo_price ''LSK_BTC'' ''3'']), (''LSK_EUR'', [demo_price ''LSK_EUR'' ''2''])]"
  by code_simp

lemma demo_shown: "shown [demo_price c r]"
  by (simp add: shown_def json_plain_def demo_price_def)

theorem best_prices_answered_witness:
  "fst (getMarketPrices demo_mext (snd (updatePrices demo_mext demo_prices))) =
     Inr (JObj [(''data'', JArr [JObj (demo_price ''LSK_BTC'' ''3''), JObj (demo_price ''LSK_EUR'' ''2'')]), (''meta'', JObj [(''count'', JNum 2)])])"
proof -
  have "distinct (targetPairs demo_mext)" by code_simp
  then show ?thesis
    by (subst best_prices_answered [OF demo_raw_read demo_calculated]) (simp_all add: demo_shown best_prices_def)
qed

subsection \<open>Conversion rates\<close>

text \<open>Of the answers of exchangeratesapi only the one that arrives first is used: rates of other base currencies are dropped, and when the first answer
  is not the one for the euro, the cache stays without the rates that are looked for.\<close>

lemma only_first_base:
  "standardizeCurrencyConversionRates ((base, JObj rates) # others) w = Inr ps \<Longrightarrow>
     map (\<lambda>p. oget p ''code'') ps = map (\<lambda>(target, _). JStr (base @ ''_'' @ target)) rates"
  by (auto simp: standardizeCurrencyConversionRates_def conversion_rates_def act_ok own_props_def source_price_def comp_def case_prod_unfold)

lemma era_entry_outlives: "era_ttl < era_refresh"
  by (simp add: era_ttl_def era_refresh_def)

end
