(* ===== verification/Fees.thy ===== *)
theory Fees
  imports JsSort
begin

text \<open>
  \<open>services/fee-estimator/shared\<close>: the estimate of one block (\<open>utils/dynamicFeesLIP.js\<close>), the computation over the
  blocks up to a height (\<open>utils/dynamicFees.js\<close>) and the answers (\<open>dynamicFees.js\<close>, \<open>feeConstants.js\<close>, \<open>status.js\<close>).
  Floating-point numbers and their operations are a parameter, the type \<open>'f\<close> with the record \<open>flops\<close>; sizes and heights
  are whole numbers. The answers of the connector are parameters: they do not change while one estimate is computed.
\<close>

subsection \<open>Environment and state\<close>

record 'f flops =
  f_int :: "int \<Rightarrow> 'f"
  f_add :: "'f \<Rightarrow> 'f \<Rightarrow> 'f"
  f_sub :: "'f \<Rightarrow> 'f \<Rightarrow> 'f"
  f_mul :: "'f \<Rightarrow> 'f \<Rightarrow> 'f"
  f_div :: "'f \<Rightarrow> 'f \<Rightarrow> 'f"
  f_max :: "'f \<Rightarrow> 'f \<Rightarrow> 'f"
  f_lt :: "'f \<Rightarrow> 'f \<Rightarrow> bool"
  f_ceil :: "'f \<Rightarrow> int"
  f_floor :: "'f \<Rightarrow> int"

record fee_tx =
  tx_fee :: jsval
  tx_minFee :: jsval
  tx_size :: int

record fee_block =
  fb_height :: int
  fb_id :: string
  fb_txs :: "fee_tx list"

record 'f fee_est =
  e_low :: 'f
  e_med :: 'f
  e_high :: 'f
  e_updated :: "int option"
  e_height :: int
  e_id :: "string option"

record 'f fext =
  fops :: "'f flops"
  fx_block :: "int \<Rightarrow> jserr + fee_block"
  fx_last :: "jserr + fee_block"
  fx_genesisHeight :: "jserr + int"
  fx_feeTokenID :: "jserr + jsval"
  fx_minFeePerByte :: "jserr + jsval"
  fx_now :: int
  ema_alpha :: 'f
  factor_13 :: 'f
  emaBatchSize :: int
  wavgDecayPercentage :: int
  defaultStartBlockHeight :: "int option"
  coldStartBatchSize :: int
  quickAlgorithmEnabled :: bool
  fullAlgorithmEnabled :: bool

record 'f fworld =
  fee_cache :: "(string \<times> 'f fee_est) list"
  executionStatus :: "(string \<times> bool) list"
  fee_signals :: "'f fee_est option list"
  fee_tokenID :: jsval
  fee_minPerByte :: jsval
  fees_ready :: bool

type_synonym ('f, 'a) feact = "('f fworld, 'a) action"

definition cacheKeyFeeEstFull :: string where "cacheKeyFeeEstFull = ''lastFeeEstimateFull''"
definition cacheKeyFeeEstQuick :: string where "cacheKeyFeeEstQuick = ''lastFeeEstimateQuick''"

subsection \<open>utils/dynamicFeesLIP.js\<close>

definition EMAcalc :: "'f fext \<Rightarrow> 'f \<Rightarrow> 'f \<Rightarrow> 'f" where
  "EMAcalc X fee previous =
     (let F = fops X in f_add F (f_mul F (ema_alpha X) fee) (f_mul F (f_sub F (f_int F 1) (ema_alpha X)) previous))"

definition calculateBlockSize :: "fee_block \<Rightarrow> int" where
  "calculateBlockSize b = sum_list (map tx_size (fb_txs b))"

definition maxBlockSize :: int where "maxBlockSize = 15 * 2 ^ 10"

datatype avg_mode = MEDIUM | HIGH

definition lowerPercentile :: "avg_mode \<Rightarrow> int" where
  "lowerPercentile m = (case m of MEDIUM \<Rightarrow> 25 | HIGH \<Rightarrow> 80)"

definition upperPercentile :: "avg_mode \<Rightarrow> int" where
  "upperPercentile m = (case m of MEDIUM \<Rightarrow> 75 | HIGH \<Rightarrow> 100)"

definition byte_pos :: "'f flops \<Rightarrow> int \<Rightarrow> 'f" where
  "byte_pos F percentile = f_mul F (f_div F (f_int F percentile) (f_int F 100)) (f_int F maxBlockSize)"

text \<open>What a transaction of the given priority and size at a position adds, and the position after it.\<close>

definition add_priority :: "'f flops \<Rightarrow> int \<Rightarrow> int \<Rightarrow> int \<times> 'f \<Rightarrow> 'f \<times> int \<Rightarrow> int \<times> 'f" where
  "add_priority F lo up = (\<lambda>(pos, total) (priority, size).
     let t1 = (if pos \<le> lo \<and> lo < pos + size \<and> pos + size \<le> up
               then f_add F total (f_mul F priority (f_int F (pos + size - lo + 1))) else total);
         t2 = (if lo \<le> pos \<and> pos + size \<le> up then f_add F t1 (f_mul F priority (f_int F size)) else t1);
         t3 = (if lo \<le> pos \<and> up \<ge> pos \<and> up \<le> pos + size then f_add F t2 (f_mul F priority (f_int F (up - pos + 1))) else t2)
     in (pos + size, t3))"

definition calculateAvgFeePerByte :: "'f flops \<Rightarrow> avg_mode \<Rightarrow> ('f \<times> int) list \<Rightarrow> 'f" where
  "calculateAvgFeePerByte F m details =
     (let lo = f_ceil F (byte_pos F (lowerPercentile m)); up = f_floor F (byte_pos F (upperPercentile m)) in
      f_div F (snd (foldl (add_priority F lo up) (0, f_int F 0) details)) (f_int F (up - lo + 1)))"

definition decayFactor :: "'f fext \<Rightarrow> 'f" where
  "decayFactor X = (let F = fops X in f_sub F (f_int F 1) (f_div F (f_int F (wavgDecayPercentage X)) (f_int F 100)))"

definition add_weighted :: "'f fext \<Rightarrow> 'f \<times> 'f \<times> 'f \<Rightarrow> int \<Rightarrow> 'f \<times> 'f \<times> 'f" where
  "add_weighted X = (\<lambda>(sizes, weight, totalWeight) size.
     let F = fops X in (f_add F sizes (f_mul F (f_int F size) weight), f_mul F weight (decayFactor X), f_add F totalWeight weight))"

definition calculateWeightedAvg :: "'f fext \<Rightarrow> fee_block list \<Rightarrow> 'f" where
  "calculateWeightedAvg X blocks =
     (let F = fops X in case foldl (add_weighted X) (f_int F 0, f_int F 1, f_int F 0) (map calculateBlockSize blocks) of
        (sizes, _, totalWeight) \<Rightarrow> f_div F sizes totalWeight)"

definition fee_priority :: "'f flops \<Rightarrow> fee_tx \<Rightarrow> jserr + 'f \<times> int" where
  "fee_priority F tx =
     bindE (js_bigint (tx_fee tx)) (\<lambda>fee. bindE (js_bigint (tx_minFee tx)) (\<lambda>minFee.
     Inr (f_div F (f_int F (fee - minFee)) (f_int F (tx_size tx)), tx_size tx)))"

definition compare_priority :: "'f flops \<Rightarrow> 'f \<times> int \<Rightarrow> 'f \<times> int \<Rightarrow> jserr + int" where
  "compare_priority F a b = Inr (if f_lt F (fst a) (fst b) then -1 else if f_lt F (fst b) (fst a) then 1 else 0)"

definition calculateFeePerByte :: "'f fext \<Rightarrow> fee_block \<Rightarrow> jserr + 'f \<times> 'f \<times> 'f" where
  "calculateFeePerByte X b =
     (let F = fops X in
     bindE (mapE (fee_priority F) (fb_txs b)) (\<lambda>ds. bindE (js_sort (compare_priority F) ds) (\<lambda>details.
     bindE (if calculateBlockSize b < 12800 then Inr (f_int F 0)
            else (case details of [] \<Rightarrow> Inl (TypeErr ''Cannot read properties of undefined (reading feePriority)'') | d # _ \<Rightarrow> Inr (fst d))) (\<lambda>low.
     let med = calculateAvgFeePerByte F MEDIUM details;
         high = f_max F (calculateAvgFeePerByte F HIGH details) (f_add F (f_mul F (factor_13 X) med) (f_int F 1)) in
     Inr (low, med, high)))))"

text \<open>\<open>12.5 * 2 ** 10\<close> is 12800, and a whole number exceeds \<open>14.8 * 2 ** 10\<close> when it exceeds 15155.\<close>

definition congested :: "'f fext \<Rightarrow> fee_block list \<Rightarrow> fee_block \<Rightarrow> bool" where
  "congested X blocks b = (f_lt (fops X) (f_int (fops X) 12800) (calculateWeightedAvg X blocks) \<or> calculateBlockSize b > 15155)"

definition getEstimateFeePerByteForBlock :: "'f fext \<Rightarrow> fee_block list \<Rightarrow> 'f fee_est \<Rightarrow> jserr + 'f fee_est" where
  "getEstimateFeePerByteForBlock X blocks previous =
     (case blocks of
        [] \<Rightarrow> Inl (TypeErr ''Cannot read properties of undefined (reading transactions)'')
      | b # _ \<Rightarrow>
          bindE (calculateFeePerByte X b) (\<lambda>(low, med, high).
          let zero = f_int (fops X) 0 in
          Inr (if congested X blocks b
               then \<lparr>e_low = EMAcalc X low (e_low previous), e_med = EMAcalc X med (e_med previous), e_high = EMAcalc X high (e_high previous),
                     e_updated = Some (fx_now X), e_height = fb_height b, e_id = Some (fb_id b)\<rparr>
               else \<lparr>e_low = zero, e_med = zero, e_high = zero,
                     e_updated = Some (fx_now X), e_height = fb_height b, e_id = Some (fb_id b)\<rparr>)))"

subsection \<open>utils/dynamicFees.js\<close>

definition isFeeCalculationRunningInMode :: "string \<Rightarrow> 'f fworld \<Rightarrow> bool" where
  "isFeeCalculationRunningInMode key w = (map_of (executionStatus w) key = Some True)"

text \<open>\<open>executionStatus[key] = v\<close>: the object is frozen, so the assignment has no effect.\<close>

definition set_execution_status :: "string \<Rightarrow> bool \<Rightarrow> 'f fworld \<Rightarrow> 'f fworld" where
  "set_execution_status key v w = w"

definition put_estimate :: "string \<Rightarrow> 'f fee_est \<Rightarrow> 'f fworld \<Rightarrow> 'f fworld" where
  "put_estimate key e w = w\<lparr>fee_cache := AList.update key e (fee_cache w)\<rparr>"

definition finalEMABatchSize :: "'f fext \<Rightarrow> int \<Rightarrow> int \<Rightarrow> int" where
  "finalEMABatchSize X genesis previousHeight =
     (if emaBatchSize X > previousHeight - genesis then previousHeight - genesis + 1 else emaBatchSize X)"

definition batch_heights :: "'f fext \<Rightarrow> int \<Rightarrow> int \<Rightarrow> jserr + int list" where
  "batch_heights X genesis previousHeight =
     (let n = finalEMABatchSize X genesis previousHeight in
      if n < 0 then Inl (RangeErr ''Invalid array length'')
      else Inr (map (\<lambda>i. previousHeight + 1 - int i) [0..<nat n]))"

definition next_estimate :: "'f fext \<Rightarrow> int \<Rightarrow> 'f fee_est \<Rightarrow> jserr + 'f fee_est" where
  "next_estimate X genesis previous =
     bindE (batch_heights X genesis (e_height previous)) (\<lambda>hs. bindE (mapE (fx_block X) hs) (\<lambda>blocks.
     getEstimateFeePerByteForBlock X blocks previous))"

text \<open>The loop; its first argument bounds the rounds, and \<open>None\<close> says that it is still running.\<close>

fun estimate_loop :: "nat \<Rightarrow> 'f fext \<Rightarrow> int \<Rightarrow> int \<Rightarrow> string \<Rightarrow> 'f fee_est \<Rightarrow> 'f fworld \<Rightarrow> ((jserr + 'f fee_est) \<times> 'f fworld) option" where
  "estimate_loop 0 X genesis to_height key previous w = None"
| "estimate_loop (Suc n) X genesis to_height key previous w =
     (case next_estimate X genesis previous of
        Inl e \<Rightarrow> Some (Inl e, w)
      | Inr est \<Rightarrow>
          let w' = (if e_height est < to_height then put_estimate key est w else w) in
          if to_height > e_height est then estimate_loop n X genesis to_height key est w' else Some (Inr est, w'))"

definition start_height :: "'f fext \<Rightarrow> int \<Rightarrow> int \<Rightarrow> int" where
  "start_height X genesis from_height =
     (case defaultStartBlockHeight X of None \<Rightarrow> max (genesis + 1) from_height | Some d \<Rightarrow> max d (max (genesis + 1) from_height))"

text \<open>The starting height is above the genesis height and so at least 1, which is above the height 0 of an estimate that is missing.\<close>

definition previous_estimate :: "'f flops \<Rightarrow> int \<Rightarrow> string \<Rightarrow> 'f fee_est option \<Rightarrow> 'f fee_est" where
  "previous_estimate F from_height key cached =
     (let fresh = \<lparr>e_low = f_int F 0, e_med = f_int F 0, e_high = f_int F 0, e_updated = None, e_height = from_height - 1, e_id = None\<rparr> in
      case cached of
        None \<Rightarrow> fresh
      | Some c \<Rightarrow> let cachedHeight = (if str_includes ''Quick'' key then 0 else e_height c) in
          if from_height > cachedHeight then fresh else c)"

definition getEstimateFeePerByteForBatch ::
  "nat \<Rightarrow> 'f fext \<Rightarrow> int \<Rightarrow> int \<Rightarrow> string \<Rightarrow> 'f fworld \<Rightarrow> ((jserr + 'f fee_est) \<times> 'f fworld) option" where
  "getEstimateFeePerByteForBatch n X from_height to_height key w =
     (case fx_genesisHeight X of
        Inl e \<Rightarrow> Some (Inl e, w)
      | Inr genesis \<Rightarrow>
          let start = start_height X genesis from_height;
              previous = previous_estimate (fops X) start key (map_of (fee_cache w) key) in
          (case estimate_loop n X genesis to_height key previous w of
             None \<Rightarrow> None
           | Some (Inl e, w') \<Rightarrow> Some (Inl e, w')
           | Some (Inr est, w') \<Rightarrow> Some (Inr est, put_estimate key est w')))"

definition checkAndProcessExecution :: "nat \<Rightarrow> 'f fext \<Rightarrow> int \<Rightarrow> int \<Rightarrow> string \<Rightarrow> 'f fworld \<Rightarrow> ('f fee_est option \<times> 'f fworld) option" where
  "checkAndProcessExecution n X from_height to_height key w =
     (let cached = map_of (fee_cache w) key in
      if isFeeCalculationRunningInMode key w then Some (cached, w)
      else (case getEstimateFeePerByteForBatch n X from_height to_height key (set_execution_status key True w) of
          None \<Rightarrow> None
        | Some (Inl e, w') \<Rightarrow> Some (cached, set_execution_status key False w')
        | Some (Inr est, w') \<Rightarrow> Some (Some est, set_execution_status key False w')))"

subsection \<open>dynamicFees.js\<close>

definition calculateEstimateFeePerByteFull :: "nat \<Rightarrow> 'f fext \<Rightarrow> 'f fworld \<Rightarrow> ((jserr + 'f fee_est option) \<times> 'f fworld) option" where
  "calculateEstimateFeePerByteFull n X w =
     (case fx_last X of
        Inl e \<Rightarrow> Some (Inl e, w)
      | Inr latest \<Rightarrow> map_option (\<lambda>(r, w'). (Inr r, w'))
          (checkAndProcessExecution n X (case defaultStartBlockHeight X of None \<Rightarrow> 0 | Some d \<Rightarrow> d) (fb_height latest) cacheKeyFeeEstFull w))"

definition calculateEstimateFeePerByteQuick :: "nat \<Rightarrow> 'f fext \<Rightarrow> 'f fworld \<Rightarrow> ((jserr + 'f fee_est option) \<times> 'f fworld) option" where
  "calculateEstimateFeePerByteQuick n X w =
     (case fx_last X of
        Inl e \<Rightarrow> Some (Inl e, w)
      | Inr latest \<Rightarrow> map_option (\<lambda>(r, w'). (Inr r, w'))
          (checkAndProcessExecution n X (fb_height latest - coldStartBatchSize X) (fb_height latest) cacheKeyFeeEstQuick w))"

text \<open>The names and the keys are crossed.\<close>

definition getEstimateFeePerByteQuick :: "'f fworld \<Rightarrow> 'f fee_est option" where
  "getEstimateFeePerByteQuick w = map_of (fee_cache w) cacheKeyFeeEstFull"

definition getEstimateFeePerByteFull :: "'f fworld \<Rightarrow> 'f fee_est option" where
  "getEstimateFeePerByteFull w = map_of (fee_cache w) cacheKeyFeeEstQuick"

definition fees_getFeeTokenID :: "'f fext \<Rightarrow> ('f, jsval) feact" where
  "fees_getFeeTokenID X = bnd (getA fee_tokenID) (\<lambda>v. if truthy v then ret v
     else bnd (liftE (fx_feeTokenID X)) (\<lambda>u. thn (modA (\<lambda>w. w\<lparr>fee_tokenID := u\<rparr>)) (ret u)))"

definition fees_getMinFeePerByte :: "'f fext \<Rightarrow> ('f, jsval) feact" where
  "fees_getMinFeePerByte X = bnd (getA fee_minPerByte) (\<lambda>v. if truthy v then ret v
     else bnd (liftE (fx_minFeePerByte X)) (\<lambda>u. thn (modA (\<lambda>w. w\<lparr>fee_minPerByte := u\<rparr>)) (ret u)))"

definition getFeeConstants :: "'f fext \<Rightarrow> ('f, jsval \<times> jsval) feact" where
  "getFeeConstants X = bnd (fees_getFeeTokenID X) (\<lambda>t. bnd (fees_getMinFeePerByte X) (\<lambda>m. ret (t, m)))"

datatype 'f fee_answer = Estimate "'f fee_est" jsval jsval | Service_unavailable string

definition valid_estimate :: "int \<Rightarrow> 'f fee_est option \<Rightarrow> int \<Rightarrow> bool" where
  "valid_estimate height est lag =
     (case est of None \<Rightarrow> False | Some e \<Rightarrow> e_updated e \<noteq> None \<and> e_id e \<noteq> None \<and> height - e_height e \<le> lag)"

definition with_constants :: "'f fext \<Rightarrow> 'f fee_est \<Rightarrow> ('f, 'f fee_answer) feact" where
  "with_constants X e = bnd (getFeeConstants X) (\<lambda>(t, m). ret (Estimate e t m))"

definition getEstimateFeePerByte :: "'f fext \<Rightarrow> ('f, 'f fee_answer) feact" where
  "getEstimateFeePerByte X =
     (if \<not> quickAlgorithmEnabled X \<and> \<not> fullAlgorithmEnabled X
      then ret (Service_unavailable ''The dynamic fees algorithm has not been enabled.'')
      else bnd (liftE (fx_last X)) (\<lambda>latest. bnd (getA getEstimateFeePerByteFull) (\<lambda>full.
        if valid_estimate (fb_height latest) full 15 then with_constants X (the full)
        else bnd (getA getEstimateFeePerByteQuick) (\<lambda>quick.
          if valid_estimate (fb_height latest) quick 5 then with_constants X (the quick)
          else ret (Service_unavailable ''The estimates are currently under processing. Please retry in 30 seconds.'')))))"

text \<open>The full computation is not awaited and works on its own key; its errors are lost.\<close>

definition fees_newBlockListener :: "nat \<Rightarrow> 'f fext \<Rightarrow> 'f fworld \<Rightarrow> 'f fworld option" where
  "fees_newBlockListener n X w =
     (let full = (if fullAlgorithmEnabled X then map_option snd (calculateEstimateFeePerByteFull n X w) else Some w) in
      case full of
        None \<Rightarrow> None
      | Some w1 \<Rightarrow> if \<not> quickAlgorithmEnabled X then Some w1
          else (case calculateEstimateFeePerByteQuick n X w1 of
              None \<Rightarrow> None
            | Some (Inl e, w2) \<Rightarrow> Some w2
            | Some (Inr est, w2) \<Rightarrow> Some (w2\<lparr>fee_signals := fee_signals w2 @ [est]\<rparr>)))"

text \<open>Every answer has properties, so the first one makes the service ready.\<close>

definition fees_getStatus :: "'f fext \<Rightarrow> ('f, bool) feact" where
  "fees_getStatus X = thn (bnd (getA fees_ready) (\<lambda>ready. if ready then ret ()
     else thn (getEstimateFeePerByte X) (modA (\<lambda>w. w\<lparr>fees_ready := True\<rparr>)))) (getA fees_ready)"

end
