(* ===== verification/FeesProps.thy ===== *)
theory FeesProps
  imports Complex_Main Fees
begin

text \<open>
  What the fee estimator promises: the computation over the blocks ends with an estimate for the latest block and asks
  for no block at or below the genesis block; and where the averages and the two estimates go wrong.
\<close>

subsection \<open>The computation over the blocks\<close>

text \<open>A block whose fees are whole numbers in text form.\<close>

definition block_ok :: "fee_block \<Rightarrow> bool" where
  "block_ok b = (\<forall>tx \<in> set (fb_txs b). \<exists>f m. js_bigint (tx_fee tx) = Inr f \<and> js_bigint (tx_minFee tx) = Inr m)"

lemma js_insert_total: "(\<And>a b. \<exists>r. cmp a b = Inr r) \<Longrightarrow> \<exists>zs. js_insert cmp x ys = Inr zs"
  by (induction ys) (auto simp: bindE_def split: sum.splits, metis Inr_not_Inl)

lemma js_sort_total:
  assumes "\<And>a b. \<exists>r. cmp a b = Inr r"
  shows "\<exists>ys. js_sort cmp xs = Inr ys"
proof -
  have "\<exists>ys. foldE (\<lambda>acc x. js_insert cmp x acc) acc xs = Inr ys" for acc
  proof (induction xs arbitrary: acc)
    case (Cons x xs)
    obtain zs where "js_insert cmp x acc = Inr zs" using js_insert_total [of cmp x acc] assms by blast
    then show ?case using Cons.IH [of zs] by simp
  qed simp
  then show ?thesis by (auto simp: js_sort_def bindE_def split: sum.splits) (metis Inr_not_Inl)
qed

lemma mapE_total: "(\<And>x. x \<in> set xs \<Longrightarrow> \<exists>y. f x = Inr y) \<Longrightarrow> \<exists>ys. mapE f xs = Inr ys \<and> length ys = length xs"
proof (induction xs)
  case (Cons x xs)
  obtain y ys where "f x = Inr y" "mapE f xs = Inr ys" "length ys = length xs" using Cons by fastforce
  then show ?case by simp
qed simp

lemma fees_computed:
  assumes "block_ok b"
  shows "\<exists>r. calculateFeePerByte X b = Inr r"
proof -
  have "\<exists>y. fee_priority (fops X) tx = Inr y" if "tx \<in> set (fb_txs b)" for tx
    using assms that by (auto simp: block_ok_def fee_priority_def)
  then obtain ds where ds: "mapE (fee_priority (fops X)) (fb_txs b) = Inr ds" "length ds = length (fb_txs b)" using mapE_total by blast
  obtain es where es: "js_sort (compare_priority (fops X)) ds = Inr es"
    using js_sort_total [of "compare_priority (fops X)" ds] by (auto simp: compare_priority_def)
  have "length es = length ds" using js_sort_length [OF es] .
  moreover have "calculateBlockSize b < 12800" if "fb_txs b = []" using that by (simp add: calculateBlockSize_def)
  ultimately have "es = [] \<Longrightarrow> calculateBlockSize b < 12800" using ds(2) by auto
  then show ?thesis using ds(1) es by (cases es) (auto simp: calculateFeePerByte_def Let_def)
qed

text \<open>The blocks of one round lie above the genesis block, the first of them follows the previous estimate, and there are at most as
  many as the configuration says.\<close>

lemma batch_above_genesis:
  assumes "genesis \<le> h" and "1 \<le> emaBatchSize X"
  shows "\<exists>hs. batch_heights X genesis h = Inr ((h + 1) # hs) \<and> (\<forall>i \<in> set hs. genesis < i \<and> i \<le> h) \<and> int (length hs) < emaBatchSize X"
proof -
  let ?n = "finalEMABatchSize X genesis h"
  have n: "1 \<le> ?n" "?n \<le> h - genesis + 1" "?n \<le> emaBatchSize X" using assms by (auto simp: finalEMABatchSize_def)
  then obtain m where m: "nat ?n = Suc m" by (metis Suc_pred' nat_less_iff zero_less_nat_eq less_le_trans zero_less_one)
  have "batch_heights X genesis h = Inr ((h + 1) # map (\<lambda>i. h + 1 - int i) [1..<Suc m])"
    using n(1) m by (simp add: batch_heights_def Let_def upt_conv_Cons del: upt_Suc)
  then show ?thesis using n m by (auto simp: Suc_leI simp del: upt_Suc)
qed

definition chain_ok :: "'f fext \<Rightarrow> int \<Rightarrow> bool" where
  "chain_ok X genesis = (\<forall>h > genesis. \<exists>b. fx_block X h = Inr b \<and> fb_height b = h \<and> block_ok b)"

lemma next_estimate_ok:
  assumes "chain_ok X genesis" and "genesis \<le> e_height previous" and "1 \<le> emaBatchSize X"
  shows "\<exists>est. next_estimate X genesis previous = Inr est \<and> e_height est = e_height previous + 1 \<and> e_updated est \<noteq> None \<and> e_id est \<noteq> None"
proof -
  obtain hs where hs: "batch_heights X genesis (e_height previous) = Inr ((e_height previous + 1) # hs)" "\<forall>i \<in> set hs. genesis < i"
    using batch_above_genesis [OF assms(2,3)] by auto
  obtain b where b: "fx_block X (e_height previous + 1) = Inr b" "fb_height b = e_height previous + 1" "block_ok b"
    using assms(1,2) by (force simp: chain_ok_def)
  have "\<exists>c. fx_block X i = Inr c" if "i \<in> set hs" for i using hs(2) assms(1) that by (force simp: chain_ok_def)
  then obtain bs where bs: "mapE (fx_block X) hs = Inr bs" using mapE_total by blast
  obtain low med high where "calculateFeePerByte X b = Inr (low, med, high)" using fees_computed [OF b(3)] by (metis prod_cases3)
  then show ?thesis using hs(1) b bs by (simp add: next_estimate_def getEstimateFeePerByteForBlock_def Let_def)
qed

lemma loop_reaches:
  assumes "chain_ok X genesis" and "genesis \<le> e_height previous" and "1 \<le> emaBatchSize X" and "nat (to_height - e_height previous) < n"
  shows "\<exists>est w'. estimate_loop n X genesis to_height key previous w = Some (Inr est, w') \<and> e_height est = max to_height (e_height previous + 1) \<and>
    e_updated est \<noteq> None \<and> e_id est \<noteq> None"
  using assms(2,4)
proof (induction n arbitrary: previous w)
  case (Suc n)
  obtain est where est: "next_estimate X genesis previous = Inr est" "e_height est = e_height previous + 1" "e_updated est \<noteq> None" "e_id est \<noteq> None"
    using next_estimate_ok [OF assms(1) Suc.prems(1) assms(3)] by blast
  show ?case
  proof (cases "to_height > e_height est")
    case True
    have "\<exists>e w'. estimate_loop n X genesis to_height key est (put_estimate key est w) = Some (Inr e, w') \<and> e_height e = max to_height (e_height est + 1) \<and>
      e_updated e \<noteq> None \<and> e_id e \<noteq> None" using Suc.prems est(2) True by (intro Suc.IH) auto
    then show ?thesis using est True by (auto simp: Let_def)
  qed (use est in \<open>auto simp: Let_def\<close>)
qed simp


subsection \<open>Exact arithmetic\<close>

definition rat_ops :: "rat flops" where
  "rat_ops = \<lparr>f_int = of_int, f_add = (+), f_sub = (-), f_mul = (*), f_div = (/), f_max = max, f_lt = (<), f_ceil = ceiling, f_floor = floor\<rparr>"

definition rat_ext :: "rat fext" where
  "rat_ext = \<lparr>fops = rat_ops, fx_block = (\<lambda>h. Inr \<lparr>fb_height = h, fb_id = [], fb_txs = []\<rparr>), fx_last = Inr \<lparr>fb_height = 20, fb_id = [], fb_txs = []\<rparr>,
     fx_genesisHeight = Inr 5, fx_feeTokenID = Inr (JStr ''t''), fx_minFeePerByte = Inr (JNum 1000), fx_now = 0, ema_alpha = 1 / 2, factor_13 = 13 / 10,
     emaBatchSize = 20, wavgDecayPercentage = 10, defaultStartBlockHeight = Some 1, coldStartBatchSize = 1, quickAlgorithmEnabled = True,
     fullAlgorithmEnabled = True\<rparr>"

definition empty_fees :: "rat fworld" where
  "empty_fees = \<lparr>fee_cache = [], executionStatus = [], fee_signals = [], fee_tokenID = JUndef, fee_minPerByte = JUndef, fees_ready = False\<rparr>"



subsection \<open>The answers\<close>

text \<open>The keys of the two estimates are crossed, so each is checked with the lag of the other: with the full computation alone, an
  estimate that is more than five blocks old is refused, although the code allows it fifteen.\<close>

lemma full_estimate_refused:
  assumes "fullAlgorithmEnabled X" and "fx_last X = Inr latest" and "fee_cache w = [(cacheKeyFeeEstFull, e)]" and "fb_height latest - e_height e > 5"
  shows "getEstimateFeePerByte X w = (Inr (Service_unavailable ''The estimates are currently under processing. Please retry in 30 seconds.''), w)"
  using assms by (simp add: getEstimateFeePerByte_def bnd_def getEstimateFeePerByteFull_def getEstimateFeePerByteQuick_def valid_estimate_def
      cacheKeyFeeEstFull_def cacheKeyFeeEstQuick_def)

text \<open>The lock is never taken: no computation changes the status, so a second one may start at any time.\<close>

lemma loop_keeps_status: "estimate_loop n X g t key prev w = Some (r, w') \<Longrightarrow> executionStatus w' = executionStatus w"
  by (induction n arbitrary: prev w) (auto simp: Let_def put_estimate_def split: sum.splits if_splits)

lemma lock_never_taken:
  assumes "checkAndProcessExecution n X from_height to_height key w = Some (r, w')"
  shows "executionStatus w' = executionStatus w \<and> executionStatus (set_execution_status key True w) = executionStatus w"
  using assms
  by (auto simp: checkAndProcessExecution_def getEstimateFeePerByteForBatch_def set_execution_status_def put_estimate_def Let_def
      split: if_splits option.splits sum.splits prod.splits dest: loop_keeps_status)

end
