(* ===== verification/Spec2Isabelle.thy ===== *)
theory Spec2Isabelle
  imports TableProps BlockProps MissingBlocks Owners Stakes ValidatorProps StatusProps Coordinator GatewayProps DataProps StatProps RegistryProps ExportProps ConnectorProps MarketProps FeesProps
begin

text \<open>
  A verification of the core of the Muzikie streamer, the blockchain middleware under \<open>src/\<close>: the
  services that follow a Lisk chain, keep it indexed in MySQL and answer queries over the index.

  \<^bold>\<open>The program.\<close> The framework (\<open>framework/src\<close>) gives every service its table layer over
  knex and MySQL. The blockchain indexer (\<open>services/blockchain-indexer\<close>) receives blocks as jobs,
  applies every transaction of a block to the tables within one database transaction, reverts
  them when a block is deleted, and serves blocks, transactions, validators and the state of the
  index. The coordinator (\<open>services/blockchain-coordinator\<close>) asks the indexer for missing blocks
  and queues jobs for them. The gateway (\<open>services/gateway\<close>) checks the requests of clients, calls
  the action of a service and maps its answer. The services for transaction statistics, application metadata and exports
  keep tables or files of their own and ask the indexer. The connector (\<open>services/blockchain-connector\<close>) asks the node,
  formats its answers, keeps the genesis block and passes the events of the node on; for the other services its answers are a
  parameter.

  \<^bold>\<open>How the code is modelled.\<close> JavaScript values are the datatype \<open>jsval\<close>, objects are
  association lists in creation order. A function that may throw and that reads or writes
  state is an action, \<open>state \<Rightarrow> (error + value) \<times> state\<close>, where the state after a throw keeps the
  effects made before it. The service state \<open>iworld\<close> extends the state of the table layer (the
  committed tables and those of an open transaction) by the signals sent, the jobs queued and
  the caches of the service. Code outside \<open>src/\<close> is a parameter: the database driver is the
  \<open>engine\<close> of the locale \<open>sql_engine\<close>, which asks that a statement that succeeds does what
  \<open>sql_run\<close> (the documented meaning of the statement) says, and lets any statement fail; the
  node's answers, address conversion, unit conversion and the fixed-point numbers are fields
  of \<open>ext\<close>. Contracts between components are locales, each interpreted on the model's
  definitions.

  \<^bold>\<open>Theories, in the order of their imports.\<close>
  \<^item> \<open>Prelude\<close>: errors, actions, relations that actions keep, association lists.
  \<^item> \<open>JsValue\<close>: JavaScript values, conversions, property access, \<open>JSON.stringify\<close>.
  \<^item> \<open>Sql\<close>: tables, statements and their documented meaning; the contract \<open>sql_engine\<close>; well-formed
    tables and that statements keep them so.
  \<^item> \<open>Sorting\<close>: the contract of a comparator and what sorting by it gives.
  \<^item> \<open>MySQL\<close>: \<open>framework/src/mysql.js\<close>: row mapping, the query builder, the operations of a table
    instance, transactions, connection and table pools.
  \<^item> \<open>Schemas\<close>: the table configurations of \<open>shared/database/schema\<close>.
  \<^item> \<open>IndexerBase\<close>, \<open>KVStore\<close>, \<open>IndexerUtils\<close>: the environment and state of the indexer,
    \<open>shared/constants.js\<close>, \<open>shared/utils\<close> and \<open>shared/database/mysqlKVStore.js\<close>.
  \<^item> \<open>Validators\<close>: \<open>dataService/business/pos\<close>, \<open>business/generators.js\<close>, \<open>dataService/pos/validators.js\<close>
    and \<open>dataService/generators.js\<close>.
  \<^item> \<open>TxAudio\<close>, \<open>TxMusic\<close>, \<open>TxPos\<close>, \<open>TxProcessor\<close>: \<open>shared/indexer/transactionProcessor\<close>, the apply and revert
    hooks of every command and their dispatch. The locale \<open>tx_processor\<close> is what the block
    indexer needs of a processor: its writes outside the transaction stay within the accounts
    table.
  \<^item> \<open>BlockData\<close>, \<open>TxData\<close>: \<open>dataService/blocks.js\<close>, \<open>dataService/transactions.js\<close> and the business
    files below them: blocks, events, pending and indexed transactions.
  \<^item> \<open>BlockIndex\<close>: \<open>shared/indexer/blockchainIndex.js\<close> and \<open>genesisBlock.js\<close>: the job handlers, the
    search for missing blocks and the scheduling of jobs.
  \<^item> \<open>IndexStatus\<close>: \<open>indexStatus.js\<close>, \<open>validatorIndex.js\<close>, \<open>accountIndex.js\<close>, \<open>eventsProcessor.js\<close> and \<open>processor.js\<close>.
  \<^item> \<open>ServiceRel\<close>: the entry points of the indexer as a step relation, and the locale
    \<open>service_relation\<close> in which all of them are shown to keep a relation between states.
  \<^item> \<open>Frame\<close>: parts of the state that the table operations leave alone.
  \<^item> \<open>Coordinator\<close>: \<open>services/blockchain-coordinator/shared\<close> over the methods of the indexer.
  \<^item> \<open>Gateway\<close>: \<open>services/gateway/shared\<close>: \<open>paramValidator.js\<close>, \<open>apiUtils.js\<close>, \<open>customMapper.js\<close> and the
    hooks of \<open>registerHttpApi.js\<close> and \<open>registerRpcApi.js\<close>.
  \<^item> \<open>Http\<close>: \<open>framework/src/http.js\<close>: the HTTP client with retries and cache, over axios as a parameter.
  \<^item> \<open>JsSort\<close>, \<open>JsonParse\<close>: \<open>Array.prototype.sort\<close> with a comparator that may throw, and \<open>JSON.parse\<close>.
  \<^item> \<open>MusicData\<close>, \<open>PosData\<close>, \<open>StateData\<close>: the queries of \<open>dataService/business\<close>: audios, collections, profiles
    and subscriptions; validators, stakes, stakers, unlocks and rewards; tokens, accounts, network, applications,
    events and schemas.
  \<^item> \<open>Controllers\<close>: \<open>methods/dataService/controllers\<close> and \<open>events/blockchain.js\<close>: the methods of the indexer,
    with the status that an error is answered with, and the listeners that pass signals on.
  \<^item> \<open>TxStats\<close>: \<open>services/transaction-statistics/shared\<close>: the statistics of a day, their table and the queries, over
    big-number and moment as parameters.
  \<^item> \<open>FileSys\<close>, \<open>AppRegistry\<close>, \<open>AppMetadata\<close>: \<open>services/blockchain-app-registry\<close>: files and paths, the index of the
    metadata, the job that follows the repository, the clean-up and the queries.
  \<^item> \<open>Export\<close>: \<open>services/export/shared\<close>: the export of transactions as CSV, its caches and both storages, the download
    and the controllers.
  \<^item> \<open>ConnectorFormat\<close>, \<open>Connector\<close>, \<open>ConnectorApi\<close>, \<open>ConnectorModules\<close>, \<open>ConnectorService\<close>, \<open>ConnectorClient\<close>:
    \<open>services/blockchain-connector\<close>: values by their schema, the formatter and the encoder; requests with retries, the
    genesis block and its snapshot; blocks and transactions; the modules of the node and the peers; events, start and
    methods; and how a request gets its client.
  \<^item> \<open>Market\<close>: \<open>services/market\<close>: the sources of prices, the prices of the target pairs, their cache and the answers.
  \<^item> \<open>Fees\<close>: \<open>services/fee-estimator/shared\<close>: the estimate of a block, the computation over the blocks and the answers, over
    floating-point operations as a parameter.

  \<^bold>\<open>What is shown.\<close>
  \<^item> \<open>DbInvariant\<close>: from a well-formed database, no sequence of steps of the service, failing or not,
    breaks a table or leaves a transaction open.
  \<^item> \<open>BlockProps\<close>: a block is indexed completely or not at all, and its row can be read afterwards;
    what \<open>buildIndex\<close> queues; two job handlers that always throw on what is queued for them.
  \<^item> \<open>Owners\<close>, \<open>Totals\<close>, \<open>Stakes\<close>: a transfer of shares conserves their sum, the stored totals of
    locked tokens follow the events and are restored when a block is deleted, stakes are
    applied and undone exactly; and where this fails (a transfer to oneself, two stakes in one
    block).
  \<^item> \<open>TableProps\<close>, \<open>KVStore\<close>: what is written is read back, batches are atomic, reads ignore the open
    transaction.
  \<^item> \<open>MissingBlocks\<close>, \<open>Coordinator\<close>: which gaps are found and scheduled, and which are passed over.
  \<^item> \<open>StatusProps\<close>: readiness is announced once and exactly when it should be; what is announced at a
    new round.
  \<^item> \<open>ValidatorProps\<close>: weights, order, ranks and status of validators.
  \<^item> \<open>IndexerUtils\<close>: paging of requests terminates and collects every page, range parameters,
    removal of duplicates, conversion to JSON.
  \<^item> \<open>GatewayProps\<close>: which requests the gateway lets through, over HTTP and over the socket, and
    that its responses follow their definitions.
  \<^item> \<open>DataProps\<close>: no query changes the index, a stored event is read back, validators come in the order asked
    for, a request that names no account is refused over both protocols; and where filters and orders are lost.
  \<^item> \<open>Http\<close>: the first successful response is the answer, with no request after it.
  \<^item> \<open>StatProps\<close>: every transaction of a day is counted once and every value is in the volume; tokens are mixed.
  \<^item> \<open>RegistryProps\<close>: changed files are grouped completely and in order, a failed update changes neither the tables
    nor the clone, the clean-up keeps every metadata file; and what stops the synchronisation.
  \<^item> \<open>ExportProps\<close>: an export with caches writes the file of the export without caches and keeps the caches true
    (locale \<open>object_cache\<close>, interpreted on the file system); and where S3, file names and transfers to oneself go wrong.
  \<^item> \<open>ConnectorClient\<close>, \<open>ConnectorProps\<close>: how often a request is sent, when it gets a client and when it never does; blocks
    come in the order asked for, a snapshot is used only when its checksum is right, and how often an event is announced;
    and the mainchain as the indexer learns it through the connector.
  \<^item> \<open>MarketProps\<close>: the prices of a pair against their specification, and that clients get the best of them.
  \<^item> \<open>FeesProps\<close>: the computation ends with an estimate for the latest block; the rounds of its loop are bounded by fuel, and
    one round per block is enough; and that the average counts bytes twice.

  \<^bold>\<open>Bounds.\<close> Loops are structural recursion or have a termination proof (\<open>show_nat\<close>, \<open>fetch_pages\<close>,
  \<open>mapObject\<close>). The parser \<open>parse_value\<close> of \<open>JsonParse\<close> takes the length of its text as fuel: every nested call
  has consumed a character, and \<open>json_round_trip\<close> shows that this is enough for every text that
  \<open>JSON.stringify\<close> makes. The retries of \<open>request_until\<close> are its structural argument. The clean-up of
  \<open>AppMetadata\<close> takes the depth of the recursion as a bound, and its property holds for every bound.

  \<^bold>\<open>Assumptions of the model.\<close> Promises run one after the other, and \<open>BluebirdPromise.map\<close> works
  through its list in order; a call that is not awaited happens at once and its exception is
  dropped (\<open>spawn\<close>). Numbers are integers and NaN; where the code divides or prints a
  fraction, the result is a parameter. Strings compare by their characters (binary collation).
  A write outside the open transaction is seen by it. After start-up \<open>getTableInstance\<close> finds
  its table in the pool and is left out of the operations. Caches do not evict. Messages to
  the log are not modelled, but properties that a message reads are. The setting
  \<open>config.isPersistEvents\<close>, which the code tests, is never defined, while
  \<open>config.db.isPersistEvents\<close> is a field of \<open>ext\<close>.

  \<^bold>\<open>Not modelled.\<close> HTTP and socket plumbing, the message broker and the queue library, logging,
  the node itself (its answers are a parameter), the contents of archives and
  the CSV library, timers and the registration of listeners. The Lisk SDK (client, codec, validation, cryptography) is a
  parameter of the connector; the driver \<open>minio\<close> is modelled by its objects and buckets.
\<close>

end
